(* ===== verification/Prelude.thy ===== *)
theory Prelude
  imports Main "HOL-Library.Word"
begin

text \<open>
  Shared foundations of the development: the names of the machine types, the outcome of a Go
  call (a value, an error value or a run-time panic), bounds-checked slices, the byte codecs of
  Go's \<^verbatim>\<open>encoding/binary\<close>, and the lemma collections used by the component theories.
\<close>

unbundle bit_operations_syntax

section \<open>Machine types\<close>

text \<open>Go's \<^verbatim>\<open>byte\<close>, \<^verbatim>\<open>uint16\<close>, \<^verbatim>\<open>uint32\<close>, \<^verbatim>\<open>uint64\<close> are words; Go's \<^verbatim>\<open>int\<close> is 64 bits wide on
  the supported platforms and is a 64-bit word wherever it can overflow.\<close>

type_synonym byte = "8 word"
type_synonym bytes = "8 word list"
type_synonym u16 = "16 word"
type_synonym u32 = "32 word"
type_synonym u64 = "64 word"
type_synonym goint = "64 word"

named_theorems outcome_simps \<open>equations for outcomes\<close>
named_theorems codec_simps \<open>equations for byte codecs\<close>

section \<open>Outcomes of Go calls\<close>

text \<open>
  A Go error value: a plain error made by \<^verbatim>\<open>fmt.Errorf\<close> or \<^verbatim>\<open>errors.New\<close> (the fixed part of its
  text), a \<^verbatim>\<open>*StatusError\<close> with code and message, or one of the errors of package \<^verbatim>\<open>io\<close>/\<^verbatim>\<open>net\<close>
  that the client distinguishes.
\<close>

datatype gerr =
    PlainErr string
  | StatusErr int string
  | EOF
  | UnexpectedEOF
  | TimeoutErr
  | NetErr string

datatype 'a outcome = Ok 'a | Err gerr | Panic string

fun bind_outcome :: "'a outcome \<Rightarrow> ('a \<Rightarrow> 'b outcome) \<Rightarrow> 'b outcome" where
  "bind_outcome (Ok x) f = f x"
| "bind_outcome (Err e) f = Err e"
| "bind_outcome (Panic s) f = Panic s"

fun is_panic :: "'a outcome \<Rightarrow> bool" where
  "is_panic (Panic s) = True"
| "is_panic (Ok x) = False"
| "is_panic (Err e) = False"

fun is_ok :: "'a outcome \<Rightarrow> bool" where
  "is_ok (Ok x) = True"
| "is_ok (Err e) = False"
| "is_ok (Panic s) = False"

lemma bind_outcome_Ok_iff [outcome_simps]:
  "bind_outcome m f = Ok y \<longleftrightarrow> (\<exists>x. m = Ok x \<and> f x = Ok y)"
  by (cases m) auto

lemma bind_outcome_Err_iff [outcome_simps]:
  "bind_outcome m f = Err e \<longleftrightarrow> m = Err e \<or> (\<exists>x. m = Ok x \<and> f x = Err e)"
  by (cases m) auto

lemma bind_outcome_Panic_iff [outcome_simps]:
  "bind_outcome m f = Panic s \<longleftrightarrow> m = Panic s \<or> (\<exists>x. m = Ok x \<and> f x = Panic s)"
  by (cases m) auto

lemma is_panic_iff [outcome_simps]: "is_panic m \<longleftrightarrow> (\<exists>s. m = Panic s)"
  by (cases m) auto

lemma is_ok_iff [outcome_simps]: "is_ok m \<longleftrightarrow> (\<exists>x. m = Ok x)"
  by (cases m) auto

lemma not_panic_bind [outcome_simps]:
  "\<not> is_panic (bind_outcome m f) \<longleftrightarrow> \<not> is_panic m \<and> (\<forall>x. m = Ok x \<longrightarrow> \<not> is_panic (f x))"
  by (cases m) auto

lemma bind_outcome_cong [fundef_cong]:
  "m = m' \<Longrightarrow> (\<And>x. m' = Ok x \<Longrightarrow> f x = g x) \<Longrightarrow> bind_outcome m f = bind_outcome m' g"
  by (cases m') auto

section \<open>Slices\<close>

text \<open>\<^verbatim>\<open>b[lo:hi]\<close> for indices already known to be in range; \<open>chk_slice\<close> is the same expression with
  Go's bounds check on signed indices, which panics.\<close>

definition subslice :: "'a list \<Rightarrow> nat \<Rightarrow> nat \<Rightarrow> 'a list" where
  "subslice xs lo hi = take (hi - lo) (drop lo xs)"

definition chk_slice :: "'a list \<Rightarrow> int \<Rightarrow> int \<Rightarrow> 'a list outcome" where
  "chk_slice xs lo hi =
     (if 0 \<le> lo \<and> lo \<le> hi \<and> hi \<le> int (length xs) then Ok (subslice xs (nat lo) (nat hi))
      else Panic ''slice bounds out of range'')"

lemma length_subslice [simp]: "length (subslice xs lo hi) = min (hi - lo) (length xs - lo)"
  by (simp add: subslice_def min.commute)

lemma subslice_append_left [simp]: "hi \<le> length xs \<Longrightarrow> subslice (xs @ ys) lo hi = subslice xs lo hi"
  by (cases "lo \<le> length xs") (auto simp: subslice_def)

lemma subslice_append_right [simp]:
  "length xs \<le> lo \<Longrightarrow> subslice (xs @ ys) lo hi = subslice ys (lo - length xs) (hi - length xs)"
  by (simp add: subslice_def)

lemma subslice_all [simp]: "subslice xs 0 (length xs) = xs"
  by (simp add: subslice_def)

lemma subslice_0 [codec_simps]: "subslice xs 0 n = take n xs"
  by (simp add: subslice_def)

lemma subslice_split: "lo \<le> mid \<Longrightarrow> mid \<le> hi \<Longrightarrow> subslice xs lo hi = subslice xs lo mid @ subslice xs mid hi"
proof -
  assume "lo \<le> mid" "mid \<le> hi"
  then have "hi - lo = (mid - lo) + (hi - mid)" and "drop mid xs = drop (mid - lo) (drop lo xs)"
    by auto
  then show ?thesis by (simp add: subslice_def take_add)
qed

section \<open>encoding/binary\<close>

text \<open>
  \<open>le_bytes n v\<close> is the \<open>n\<close>-byte little-endian image of \<open>v\<close> (byte \<open>i\<close> is \<^verbatim>\<open>byte(v >> 8i)\<close>, as
  \<^verbatim>\<open>binary.LittleEndian.PutUintN\<close> writes it) and \<open>le_word\<close> reads it back
  (\<^verbatim>\<open>uint(b[0]) | uint(b[1])<<8 | ...\<close>). Big endian is the mirror image.
\<close>

primrec le_bytes :: "nat \<Rightarrow> 'a::len word \<Rightarrow> bytes" where
  "le_bytes 0 v = []"
| "le_bytes (Suc n) v = ucast v # le_bytes n (drop_bit 8 v)"

primrec le_word :: "bytes \<Rightarrow> 'a::len word" where
  "le_word [] = 0"
| "le_word (b # bs) = ucast b OR push_bit 8 (le_word bs)"

definition be_bytes :: "nat \<Rightarrow> 'a::len word \<Rightarrow> bytes" where
  "be_bytes n v = rev (le_bytes n v)"

definition be_word :: "bytes \<Rightarrow> 'a::len word" where
  "be_word bs = le_word (rev bs)"

lemma length_le_bytes [simp]: "length (le_bytes n v) = n"
  by (induction n arbitrary: v) auto

text \<open>Evaluation at a literal width.\<close>

lemma le_bytes_numeral: "le_bytes (numeral k) v = ucast v # le_bytes (pred_numeral k) (drop_bit 8 v)"
  by (simp add: numeral_eq_Suc)

lemma length_be_bytes [simp]: "length (be_bytes n v) = n"
  by (simp add: be_bytes_def)

lemma le_word_le_bytes: "le_word (le_bytes n v) = take_bit (8 * n) (v :: 'a::len word)"
proof (induction n arbitrary: v)
  case 0
  then show ?case by simp
next
  case (Suc n)
  have "le_word (le_bytes (Suc n) v)
      = (ucast (ucast v :: byte) :: 'a word) OR push_bit 8 (take_bit (8 * n) (drop_bit 8 v))"
    by (simp add: Suc.IH)
  also have "\<dots> = take_bit (8 * Suc n) v"
    by (rule bit_word_eqI)
      (auto simp: bit_simps not_le less_diff_conv2 dest: bit_imp_le_length)
  finally show ?case .
qed

lemma le_word_le_bytes_id [codec_simps]:
  "LENGTH('a) \<le> 8 * n \<Longrightarrow> le_word (le_bytes n v) = (v :: 'a::len word)"
  by (simp add: le_word_le_bytes take_bit_word_eq_self)

lemma be_word_be_bytes_id [codec_simps]:
  "LENGTH('a) \<le> 8 * n \<Longrightarrow> be_word (be_bytes n v) = (v :: 'a::len word)"
  by (simp add: be_word_def be_bytes_def le_word_le_bytes_id)

lemma ucast_le_word_Cons:
  "8 \<le> LENGTH('a::len) \<Longrightarrow> (ucast (le_word (b # bs) :: 'a word) :: byte) = b"
  by (rule bit_word_eqI) (auto simp: bit_simps)

lemma drop_bit_le_word_Cons:
  "8 * length (b # bs) \<le> LENGTH('a::len)
    \<Longrightarrow> drop_bit 8 (le_word (b # bs) :: 'a word) = le_word bs"
proof (rule bit_word_eqI)
  fix n
  assume len: "8 * length (b # bs) \<le> LENGTH('a)" and n: "n < LENGTH('a)"
  have high: "\<not> bit (le_word bs :: 'a word) m" if "8 * length bs \<le> m" for m
    using that
  proof (induction bs arbitrary: m)
    case Nil
    then show ?case by simp
  next
    case (Cons c cs)
    then have "8 * length cs \<le> m - 8" and "8 \<le> m" by auto
    then have "\<not> bit (le_word cs :: 'a word) (m - 8)" using Cons.IH by blast
    with \<open>8 \<le> m\<close> show ?case by (auto simp: bit_simps dest: bit_imp_le_length)
  qed
  show "bit (drop_bit 8 (le_word (b # bs) :: 'a word)) n = bit (le_word bs :: 'a word) n"
    using len n high [of n] by (auto simp: bit_simps dest: bit_imp_le_length)
qed

lemma le_bytes_le_word [codec_simps]:
  "8 * length bs \<le> LENGTH('a::len) \<Longrightarrow> length bs = n \<Longrightarrow> le_bytes n (le_word bs :: 'a word) = bs"
proof (induction bs arbitrary: n)
  case Nil
  then show ?case by simp
next
  case (Cons b bs)
  then obtain m where "n = Suc m" and "length bs = m" by auto
  with Cons show ?case
    by (simp add: ucast_le_word_Cons [simplified] drop_bit_le_word_Cons [simplified])
qed

lemma be_bytes_be_word [codec_simps]:
  "8 * length bs \<le> LENGTH('a::len) \<Longrightarrow> length bs = n \<Longrightarrow> be_bytes n (be_word bs :: 'a word) = bs"
  by (simp add: be_bytes_def be_word_def le_bytes_le_word)

lemma le_bytes_inj:
  "LENGTH('a) \<le> 8 * n \<Longrightarrow> le_bytes n v = le_bytes n w \<longleftrightarrow> v = (w :: 'a::len word)"
  by (metis le_word_le_bytes_id)

lemma be_bytes_inj:
  "LENGTH('a) \<le> 8 * n \<Longrightarrow> be_bytes n v = be_bytes n w \<longleftrightarrow> v = (w :: 'a::len word)"
  by (simp add: be_bytes_def le_bytes_inj)

lemma bit_unat: "bit (w :: 'a::len word) n \<longleftrightarrow> odd (unat w div 2 ^ n)"
  by (simp add: bit_unsigned_iff flip: bit_iff_odd)

lemma unat_byte_less: "unat (b :: byte) < 256"
proof -
  have "unat b < 2 ^ LENGTH(8)" by (rule unsigned_less)
  then show ?thesis by simp
qed

text \<open>A Go \<^verbatim>\<open>int\<close> read from its 64 bits.\<close>

lemma unat_goint_less: "unat (w :: goint) < 2 ^ 64"
proof -
  have "unat w < 2 ^ LENGTH(64)" by (rule unsigned_less)
  then show ?thesis by simp
qed

lemma sint_goint: "sint (w :: goint) = (if unat w < 2 ^ 63 then int (unat w) else int (unat w) - 2 ^ 64)"
proof -
  have "bit (unat w) 63 \<longleftrightarrow> \<not> unat w < 2 ^ 63"
  proof
    assume "bit (unat w) 63"
    then have "unat w div 2 ^ 63 \<noteq> 0" by (intro notI) (simp add: bit_iff_odd)
    then show "\<not> unat w < 2 ^ 63" by simp
  next
    assume "\<not> unat w < 2 ^ 63"
    with unat_goint_less [of w] have "unat w div 2 ^ 63 = 1" by (intro div_nat_eqI) simp_all
    then show "bit (unat w) 63" by (simp add: bit_iff_odd)
  qed
  moreover have "bit w 63 \<longleftrightarrow> bit (unat w) 63" by (simp add: bit_unsigned_iff)
  moreover have "uint w < 2 ^ LENGTH(64)" by (rule unsigned_less)
  then have "sint w = int (unat w) - 2 ^ 64 * of_bool (bit w 63)"
    by (simp add: sint_uint signed_take_bit_eq_take_bit_minus bit_uint_iff take_bit_int_eq_self_iff)
  ultimately show ?thesis by simp
qed

lemma sint_of_nat_small: "n < 2 ^ 63 \<Longrightarrow> sint (of_nat n :: goint) = int n"
  by (simp add: sint_goint unat_of_nat take_bit_nat_eq_self)

text \<open>\<^verbatim>\<open>uint32(len(x))\<close> and back.\<close>

lemma unat_of_nat_small: "n < 2 ^ LENGTH('a) \<Longrightarrow> unat (of_nat n :: 'a::len word) = n"
  by (simp add: unat_of_nat take_bit_nat_eq_self)

end
