(* ===== verification/Packet.thy ===== *)
theory Packet
  imports Prelude
begin

text \<open>
  The CMI packet layer, \<^verbatim>\<open>machnet/packet.go\<close>: the 16-byte header, the growing receive buffer with
  Go's length/capacity split, the write loop over an \<^verbatim>\<open>io.Writer\<close> and the reassembly of
  fragmented packets (flag 1 starts, 2 continues, 3 ends a sequence, 0 is a whole packet).
\<close>

section \<open>Readers\<close>

text \<open>
  An \<^verbatim>\<open>io.Reader\<close> as the packet layer sees it: the bytes that will arrive and the error that is
  delivered once they are used up (\<open>EOF\<close> for a closed peer, \<open>TimeoutErr\<close> for an expired deadline).
  \<^verbatim>\<open>io.ReadFull\<close> returns the error as it is when nothing was read, and turns an \<open>EOF\<close> after a
  partial read into \<open>UnexpectedEOF\<close>; the bytes read so far are in the caller's buffer either way.
\<close>

record reader =
  rd_data :: bytes
  rd_end :: gerr

definition io_ReadFull :: "reader \<Rightarrow> nat \<Rightarrow> bytes \<times> gerr option \<times> reader" where
  "io_ReadFull r n =
     (if n \<le> length (rd_data r)
      then (take n (rd_data r), None, r\<lparr>rd_data := drop n (rd_data r)\<rparr>)
      else (rd_data r,
            Some (if rd_data r \<noteq> [] \<and> rd_end r = EOF then UnexpectedEOF else rd_end r),
            r\<lparr>rd_data := []\<rparr>))"

section \<open>The packet and its buffer\<close>

text \<open>A Go byte slice: the memory up to its capacity and its length.\<close>

record bslice =
  sl_mem :: bytes
  sl_len :: nat

definition bslice_wf :: "bslice \<Rightarrow> bool" where
  "bslice_wf s \<longleftrightarrow> sl_len s \<le> length (sl_mem s)"

definition bslice_bytes :: "bslice \<Rightarrow> bytes" where
  "bslice_bytes s = take (sl_len s) (sl_mem s)"

definition nil_bslice :: bslice where
  "nil_bslice = \<lparr>sl_mem = [], sl_len = 0\<rparr>"

text \<open>Overwriting the bytes from offset \<open>off\<close> on, as \<^verbatim>\<open>io.ReadFull(reader, s[off:])\<close> does.\<close>

definition bslice_fill :: "bslice \<Rightarrow> nat \<Rightarrow> bytes \<Rightarrow> bslice" where
  "bslice_fill s off bs =
     s\<lparr>sl_mem := take off (sl_mem s) @ bs @ drop (off + length bs) (sl_mem s)\<rparr>"

record packet =
  protocol :: byte
  flag :: byte
  adds :: u16
  stmtID :: u32
  body :: bslice

abbreviation (input) packetHeaderSize :: nat where
  "packetHeaderSize \<equiv> 16"

definition readPacketHeader :: "reader \<Rightarrow> (byte \<times> byte \<times> u16 \<times> u32 \<times> nat) outcome \<times> reader" where
  "readPacketHeader r =
     (case io_ReadFull r packetHeaderSize of
        (h, None, r') \<Rightarrow>
          (let lenField = be_word (subslice h 4 8) :: u32
           in (Ok (h ! 3, ucast (drop_bit 30 lenField AND 3), be_word (subslice h 1 3),
                   be_word (subslice h 8 12), unat (lenField AND 0x3fffffff)), r'))
      | (h, Some e, r') \<Rightarrow> (Err e, r'))"

definition ensureAppendCapacity :: "bslice \<Rightarrow> nat \<Rightarrow> bslice" where
  "ensureAppendCapacity dst appendLen =
     (if appendLen = 0 then dst
      else
        let oldLen = sl_len dst;
            newLen = oldLen + appendLen;
            cp = length (sl_mem dst)
        in if newLen \<le> cp then dst\<lparr>sl_len := newLen\<rparr>
           else
             let newCap = cp * 2;
                 newCap = (if newCap < newLen then newLen else newCap);
                 newCap = (if newCap = 0 then appendLen else newCap)
             in \<lparr>sl_mem = bslice_bytes dst @ replicate (newCap - oldLen) 0, sl_len = newLen\<rparr>)"

definition buildPacket :: "byte \<Rightarrow> u32 \<Rightarrow> u16 \<Rightarrow> byte \<Rightarrow> bytes \<Rightarrow> bytes" where
  "buildPacket protocolID sid ads flg bdy =
     (let lenWithFlag = push_bit 30 (ucast (flg AND 3)) OR ((of_nat (length bdy) :: u32) AND 0x3fffffff)
      in [0] @ be_bytes 2 ads @ [protocolID] @ be_bytes 4 lenWithFlag @ be_bytes 4 sid
         @ replicate 4 0 @ bdy)"

section \<open>Reading\<close>

text \<open>A flag that ends a packet sequence.\<close>

definition last_flag :: "byte \<Rightarrow> bool" where
  "last_flag f \<longleftrightarrow> f = 0 \<or> f = 3"

lemma readPacketHeader_consumes:
  "readPacketHeader r = (Ok h, r') \<Longrightarrow> length (rd_data r') < length (rd_data r)"
  by (auto simp: readPacketHeader_def io_ReadFull_def Let_def split: if_splits)

lemma io_ReadFull_shrinks: "io_ReadFull r n = (bs, e, r') \<Longrightarrow> length (rd_data r') \<le> length (rd_data r)"
  by (auto simp: io_ReadFull_def split: if_splits)

text \<open>
  The reassembly loop that \<^verbatim>\<open>Packet.Read\<close> and \<^verbatim>\<open>readNextProtocolFrom\<close> both contain: \<open>proto\<close> is the
  protocol of the first fragment, \<open>out\<close> the buffer so far. Every turn reads a 16-byte header, so
  the bytes left in the reader decrease. \<open>None\<close> is a nil error.
\<close>

function read_fragments :: "byte \<Rightarrow> bslice \<Rightarrow> reader \<Rightarrow> gerr option \<times> bslice \<times> reader" where
  "read_fragments proto out r =
     (case readPacketHeader r of
        (Ok (nextProtocol, nextFlag, _, _, nextBodyLen), r1) \<Rightarrow>
          (if nextProtocol \<noteq> proto then (Some (PlainErr ''unexpected protocol''), out, r1)
           else
             let oldLen = sl_len out;
                 out1 = ensureAppendCapacity out nextBodyLen
             in (case (if nextBodyLen > 0 then io_ReadFull r1 nextBodyLen else ([], None, r1)) of
                   (bs, None, r2) \<Rightarrow>
                     (let out2 = bslice_fill out1 oldLen bs
                      in if last_flag nextFlag then (None, out2, r2)
                         else read_fragments proto out2 r2)
                 | (bs, Some e, r2) \<Rightarrow> (Some e, bslice_fill out1 oldLen bs, r2)))
      | (Err e, r1) \<Rightarrow> (Some e, out, r1)
      | (Panic s, r1) \<Rightarrow> (Some (PlainErr s), out, r1))"
  by pat_completeness auto
termination
proof (relation "measure (\<lambda>(p, out, r). length (rd_data r))", goal_cases)
  case 1
  then show ?case by simp
next
  case (2 proto out r a r1 p x nextFlag xa xb xc xd n oldLen out1 xe bs xf xg r2 out2)
  then have "length (rd_data r1) < length (rd_data r)"
    by (metis readPacketHeader_consumes)
  moreover have "length (rd_data r2) \<le> length (rd_data r1)"
    using 2 by (auto split: if_splits dest: io_ReadFull_shrinks [OF sym])
  ultimately show ?case by simp
qed

declare read_fragments.simps [simp del]

definition Packet_Read :: "packet \<Rightarrow> reader \<Rightarrow> gerr option \<times> packet \<times> reader" where
  "Packet_Read pkt r =
     (case readPacketHeader r of
        (Ok (proto, flg, ads, sid, bodyLen), r1) \<Rightarrow>
          (let pkt1 = pkt\<lparr>protocol := proto, flag := flg, adds := ads, stmtID := sid,
                          body := (body pkt)\<lparr>sl_len := 0\<rparr>\<rparr>
           in if bodyLen = 0 then (None, pkt1, r1)
              else
                let buf = ensureAppendCapacity (body pkt1) bodyLen
                in (case io_ReadFull r1 bodyLen of
                      (bs, None, r2) \<Rightarrow>
                        (let buf1 = bslice_fill buf 0 bs
                         in if last_flag flg then (None, pkt1\<lparr>body := buf1\<rparr>, r2)
                            else (case read_fragments proto buf1 r2 of
                                    (e, buf2, r3) \<Rightarrow> (e, pkt1\<lparr>body := buf2\<rparr>, r3)))
                    | (bs, Some e, r2) \<Rightarrow> (Some e, pkt1\<lparr>body := bslice_fill buf 0 bs\<rparr>, r2)))
      | (Err e, r1) \<Rightarrow> (Some e, pkt, r1)
      | (Panic s, r1) \<Rightarrow> (Some (PlainErr s), pkt, r1))"

definition readNextProtocolFrom :: "reader \<Rightarrow> (byte \<times> bytes) outcome \<times> reader" where
  "readNextProtocolFrom r =
     (case readPacketHeader r of
        (Ok (proto, flg, _, _, bodyLen), r1) \<Rightarrow>
          (let out = ensureAppendCapacity nil_bslice bodyLen
           in (case (if bodyLen > 0 then io_ReadFull r1 bodyLen else ([], None, r1)) of
                 (bs, None, r2) \<Rightarrow>
                   (let out1 = bslice_fill out 0 bs
                    in if last_flag flg then (Ok (proto, bslice_bytes out1), r2)
                       else (case read_fragments proto out1 r2 of
                               (None, out2, r3) \<Rightarrow> (Ok (proto, bslice_bytes out2), r3)
                             | (Some e, out2, r3) \<Rightarrow> (Err e, r3)))
               | (bs, Some e, r2) \<Rightarrow> (Err e, r2)))
      | (Err e, r1) \<Rightarrow> (Err e, r1)
      | (Panic s, r1) \<Rightarrow> (Panic s, r1))"

section \<open>The receive buffer\<close>

text \<open>
  \<open>ensureAppendCapacity\<close> lengthens the slice by exactly the requested amount, keeps its bytes and
  never makes the length exceed the capacity, whether it reslices or reallocates.
\<close>

lemma ensureAppendCapacity_wf: "bslice_wf s \<Longrightarrow> bslice_wf (ensureAppendCapacity s n)"
  by (auto simp: ensureAppendCapacity_def bslice_wf_def bslice_bytes_def Let_def)

lemma ensureAppendCapacity_len: "sl_len (ensureAppendCapacity s n) = sl_len s + n"
  by (auto simp: ensureAppendCapacity_def Let_def)

lemma ensureAppendCapacity_prefix:
  "bslice_wf s \<Longrightarrow> take (sl_len s) (sl_mem (ensureAppendCapacity s n)) = bslice_bytes s"
  by (auto simp: ensureAppendCapacity_def bslice_wf_def bslice_bytes_def Let_def)

lemma bslice_fill_append:
  assumes "bslice_wf s" and "length bs = n"
  shows "bslice_wf (bslice_fill (ensureAppendCapacity s n) (sl_len s) bs)"
    and "bslice_bytes (bslice_fill (ensureAppendCapacity s n) (sl_len s) bs) = bslice_bytes s @ bs"
proof -
  let ?t = "ensureAppendCapacity s n"
  have wf: "sl_len s + n \<le> length (sl_mem ?t)"
    using ensureAppendCapacity_wf [OF assms(1), of n]
    by (simp add: bslice_wf_def ensureAppendCapacity_len)
  then show "bslice_wf (bslice_fill ?t (sl_len s) bs)"
    using assms by (simp add: bslice_wf_def bslice_fill_def ensureAppendCapacity_len)
  have len: "length (bslice_bytes s) = sl_len s"
    using assms(1) by (simp add: bslice_bytes_def bslice_wf_def)
  have "bslice_bytes (bslice_fill ?t (sl_len s) bs)
      = take (sl_len s + n) (take (sl_len s) (sl_mem ?t) @ bs @ drop (sl_len s + length bs) (sl_mem ?t))"
    by (simp add: bslice_bytes_def bslice_fill_def ensureAppendCapacity_len)
  also have "\<dots> = bslice_bytes s @ bs"
    using len by (simp add: ensureAppendCapacity_prefix [OF assms(1)] assms(2))
  finally show "bslice_bytes (bslice_fill ?t (sl_len s) bs) = bslice_bytes s @ bs" .
qed

section \<open>The header\<close>

lemma length_buildPacket [simp]: "length (buildPacket p sid ads f b) = 16 + length b"
  by (simp add: buildPacket_def Let_def)

lemma mask_30: "(0x3fffffff :: u32) = mask 30"
  by (simp add: mask_eq_exp_minus_1)

lemma mask_2: "(3 :: 'a::len word) = mask 2"
  by (simp add: mask_eq_exp_minus_1)

lemma lenWithFlag_flag:
  fixes f :: byte and l :: u32
  shows "(ucast (drop_bit 30 (push_bit 30 (ucast (f AND 3)) OR (l AND 0x3fffffff)) AND 3) :: byte)
    = f AND 3"
  unfolding mask_30 mask_2
  by (rule bit_word_eqI) (auto simp: bit_simps)

lemma lenWithFlag_len:
  fixes f :: byte and l :: u32
  shows "(push_bit 30 (ucast (f AND 3)) OR (l AND 0x3fffffff)) AND 0x3fffffff = take_bit 30 l"
  unfolding mask_30 mask_2
  by (rule bit_word_eqI) (auto simp: bit_simps)

lemma take_bit_30_len: "n < 2 ^ 30 \<Longrightarrow> unat (take_bit 30 (of_nat n :: u32)) = n"
  by (simp add: unsigned_take_bit_eq unsigned_of_nat take_bit_nat_eq_self)

lemma buildPacket_slices:
  fixes p f :: byte and sid :: u32 and ads :: u16 and bdy :: bytes
  defines "h \<equiv> take 16 (buildPacket p sid ads f bdy)"
  shows "buildPacket p sid ads f bdy ! 3 = p" and "subslice h (Suc 0) 3 = be_bytes 2 ads"
    and "subslice h 4 8 = be_bytes 4
      (push_bit 30 (ucast (f AND 3)) OR ((of_nat (length bdy) :: u32) AND 0x3fffffff))"
    and "subslice h 8 12 = be_bytes 4 sid"
proof -
  let ?l = "push_bit 30 (ucast (f AND 3)) OR ((of_nat (length bdy) :: u32) AND 0x3fffffff)"
  have h: "h = [0] @ be_bytes 2 ads @ [p] @ be_bytes 4 ?l @ be_bytes 4 sid @ replicate 4 0"
    by (simp add: h_def buildPacket_def Let_def)
  have "h ! 3 = p" by (simp add: h nth_append)
  then show "buildPacket p sid ads f bdy ! 3 = p" by (simp add: h_def)
  show "subslice h (Suc 0) 3 = be_bytes 2 ads" by (simp add: h subslice_def)
  show "subslice h 4 8 = be_bytes 4 ?l" by (simp add: h subslice_def)
  show "subslice h 8 12 = be_bytes 4 sid" by (simp add: h subslice_def)
qed

lemma readPacketHeader_buildPacket:
  assumes "length bdy < 2 ^ 30"
  shows "readPacketHeader \<lparr>rd_data = buildPacket p sid ads f bdy @ rest, rd_end = e\<rparr>
    = (Ok (p, f AND 3, ads, sid, length bdy), \<lparr>rd_data = bdy @ rest, rd_end = e\<rparr>)"
proof -
  have "drop 16 (buildPacket p sid ads f bdy @ rest) = bdy @ rest"
    by (simp add: buildPacket_def Let_def)
  with assms show ?thesis
    by (simp add: readPacketHeader_def io_ReadFull_def buildPacket_slices codec_simps
        lenWithFlag_flag [simplified] lenWithFlag_len take_bit_30_len Let_def)
qed

section \<open>Reassembly\<close>

text \<open>
  A sequence of fragments as a writer produces it: the flags say where it ends, and the bytes on
  the wire are the packets built from the fragments one after the other.
\<close>

fun frags_wf :: "(byte \<times> bytes) list \<Rightarrow> bool" where
  "frags_wf [] = False"
| "frags_wf [(f, b)] = (last_flag (f AND 3) \<and> length b < 2 ^ 30)"
| "frags_wf ((f, b) # x # xs) = (\<not> last_flag (f AND 3) \<and> length b < 2 ^ 30 \<and> frags_wf (x # xs))"

definition frags_wire :: "byte \<Rightarrow> u32 \<Rightarrow> u16 \<Rightarrow> (byte \<times> bytes) list \<Rightarrow> bytes" where
  "frags_wire p sid ads frs = concat (map (\<lambda>(f, b). buildPacket p sid ads f b) frs)"

lemma frags_wire_Cons:
  "frags_wire p sid ads ((f, b) # frs) = buildPacket p sid ads f b @ frags_wire p sid ads frs"
  by (simp add: frags_wire_def)

text \<open>One fragment read by the loop.\<close>

lemma read_fragments_step:
  assumes "length b < 2 ^ 30" and "bslice_wf out"
  shows "\<exists>out'. bslice_wf out' \<and> bslice_bytes out' = bslice_bytes out @ b \<and>
    read_fragments p out \<lparr>rd_data = buildPacket p sid ads f b @ rest, rd_end = e\<rparr>
      = (if last_flag (f AND 3) then (None, out', \<lparr>rd_data = rest, rd_end = e\<rparr>)
         else read_fragments p out' \<lparr>rd_data = rest, rd_end = e\<rparr>)"
  (is "\<exists>out'. _ \<and> _ \<and> ?L = ?R out'")
proof -
  let ?out = "bslice_fill (ensureAppendCapacity out (length b)) (sl_len out) b"
  have "?L = ?R ?out"
    by (subst read_fragments.simps)
      (simp add: readPacketHeader_buildPacket [OF assms(1)] io_ReadFull_def Let_def)
  with bslice_fill_append [OF assms(2), of b "length b"] show ?thesis by blast
qed

lemma read_fragments_wire:
  assumes "frags_wf frs" and "bslice_wf out"
  shows "\<exists>out'. bslice_wf out' \<and> bslice_bytes out' = bslice_bytes out @ concat (map snd frs) \<and>
    read_fragments p out \<lparr>rd_data = frags_wire p sid ads frs @ rest, rd_end = e\<rparr>
      = (None, out', \<lparr>rd_data = rest, rd_end = e\<rparr>)"
  using assms
proof (induction frs arbitrary: out rule: frags_wf.induct)
  case 1
  then show ?case by simp
next
  case (2 f b)
  then show ?case
    using read_fragments_step [of b out p sid ads f rest e]
    by (auto simp: frags_wire_def)
next
  case (3 f b x xs)
  then have b: "length b < 2 ^ 30" and f: "\<not> last_flag (f AND 3)" and xs: "frags_wf (x # xs)"
    by auto
  from read_fragments_step [OF b \<open>bslice_wf out\<close>, of p sid ads f "frags_wire p sid ads (x # xs) @ rest" e]
  obtain out1 where out1: "bslice_wf out1" "bslice_bytes out1 = bslice_bytes out @ b"
    and eq: "read_fragments p out
        \<lparr>rd_data = frags_wire p sid ads ((f, b) # x # xs) @ rest, rd_end = e\<rparr>
      = read_fragments p out1 \<lparr>rd_data = frags_wire p sid ads (x # xs) @ rest, rd_end = e\<rparr>"
    using f by (auto simp: frags_wire_Cons)
  from "3.IH" [OF xs out1(1)] out1(2) eq show ?case by auto
qed

lemma Packet_Read_frags:
  assumes "frags_wf frs" and "snd (hd frs) \<noteq> [] \<or> length frs = 1"
  shows "\<exists>pkt'. Packet_Read pkt \<lparr>rd_data = frags_wire p sid ads frs @ rest, rd_end = e\<rparr>
      = (None, pkt', \<lparr>rd_data = rest, rd_end = e\<rparr>)
    \<and> protocol pkt' = p \<and> stmtID pkt' = sid \<and> adds pkt' = ads
    \<and> bslice_bytes (body pkt') = concat (map snd frs)"
proof -
  obtain f b xs where frs: "frs = (f, b) # xs"
    using assms(1) by (cases frs) auto
  then have b: "length b < 2 ^ 30" using assms(1) by (cases xs) auto
  let ?base = "(body pkt)\<lparr>sl_len := 0\<rparr>"
  have wf: "bslice_wf ?base" by (simp add: bslice_wf_def)
  have nil: "bslice_bytes ?base = []" by (simp add: bslice_bytes_def)
  let ?buf = "bslice_fill (ensureAppendCapacity ?base (length b)) 0 b"
  have buf: "bslice_wf ?buf" "bslice_bytes ?buf = b"
    using bslice_fill_append [OF wf, of b "length b"] nil by simp_all
  show ?thesis
  proof (cases xs)
    case Nil
    with assms(1) frs have "last_flag (f AND 3)" by simp
    then show ?thesis
      using nil buf(2)
      by (simp add: frs Nil frags_wire_def Packet_Read_def readPacketHeader_buildPacket [OF b]
          io_ReadFull_def Let_def)
  next
    case (Cons x ys)
    with assms(1) frs have xs: "frags_wf xs" and f: "\<not> last_flag (f AND 3)" by auto
    from assms(2) frs Cons have "b \<noteq> []" by simp
    moreover from read_fragments_wire [OF xs buf(1)] obtain out' where
      "bslice_bytes out' = b @ concat (map snd xs)" and
      "read_fragments p ?buf \<lparr>rd_data = frags_wire p sid ads xs @ rest, rd_end = e\<rparr>
        = (None, out', \<lparr>rd_data = rest, rd_end = e\<rparr>)"
      using buf(2) by metis
    ultimately show ?thesis
      using f by (simp add: frs frags_wire_Cons Packet_Read_def readPacketHeader_buildPacket [OF b]
          io_ReadFull_def Let_def)
  qed
qed

text \<open>
  C8. \<^verbatim>\<open>Packet.Read\<close> is the inverse of the fragmenting writer: from a stream that holds the packets
  built from a well-formed fragment sequence (the flags mark exactly the last one, every body fits
  the 30-bit length field, and the first body is not empty unless it is the only one), it returns
  no error, the protocol, statement id and additional field of the packets, and as body the
  concatenation of the fragments' bodies; the bytes after the sequence stay in the stream. It
  does so whatever the receive buffer held before.
\<close>

theorem Packet_Read_reassembles:
  assumes "frags_wf frs" and "snd (hd frs) \<noteq> [] \<or> length frs = 1"
  shows "\<exists>pkt'. Packet_Read pkt \<lparr>rd_data = frags_wire p sid ads frs @ rest, rd_end = e\<rparr>
      = (None, pkt', \<lparr>rd_data = rest, rd_end = e\<rparr>)
    \<and> protocol pkt' = p \<and> stmtID pkt' = sid \<and> adds pkt' = ads
    \<and> bslice_bytes (body pkt') = concat (map snd frs)"
  using assms by (rule Packet_Read_frags)

text \<open>Two fragments, flags 1 and 3, and one byte of the next packet.\<close>

theorem Packet_Read_reassembles_witness:
  "\<exists>pkt'. Packet_Read \<lparr>protocol = 9, flag = 0, adds = 0, stmtID = 0, body = nil_bslice\<rparr>
      \<lparr>rd_data = frags_wire 7 5 2 [(1, [10, 20]), (3, [30])] @ [99], rd_end = EOF\<rparr>
      = (None, pkt', \<lparr>rd_data = [99], rd_end = EOF\<rparr>)
    \<and> protocol pkt' = 7 \<and> stmtID pkt' = 5 \<and> adds pkt' = 2
    \<and> bslice_bytes (body pkt') = [10, 20, 30]"
  using Packet_Read_reassembles [of "[(1, [10, 20]), (3, [30])]"
      "\<lparr>protocol = 9, flag = 0, adds = 0, stmtID = 0, body = nil_bslice\<rparr>" 7 5 2 "[99]" EOF]
  by (simp add: last_flag_def)

end
