(* ===== verification/Go_Strings.thy ===== *)
theory Go_Strings
  imports Prelude
begin

text \<open>
  The part of Go's \<^verbatim>\<open>strings\<close>, \<^verbatim>\<open>strconv\<close> and control flow that the client uses. A Go string is a
  sequence of bytes, which is what Isabelle's \<open>string\<close> is (\<open>char\<close> has 8 bits). Case mapping is
  modelled on ASCII; bytes above 127 are left alone. \<open>TrimSpace\<close> knows the multi-byte white space
  of Unicode as well.
\<close>

section \<open>Switch statements\<close>

text \<open>A Go expression switch: the first case whose list holds the value, otherwise the default.\<close>

primrec switch :: "'a \<Rightarrow> ('a list \<times> 'b) list \<Rightarrow> 'b \<Rightarrow> 'b" where
  "switch v [] d = d"
| "switch v (c # cs) d = (if v \<in> set (fst c) then snd c else switch v cs d)"

lemma switch_default: "list_all (\<lambda>c. v \<notin> set (fst c)) cs \<Longrightarrow> switch v cs d = d"
  by (induction cs) auto

lemma switch_cases: "switch v cs d = d \<or> (\<exists>ks r. (ks, r) \<in> set cs \<and> v \<in> set ks \<and> switch v cs d = r)"
  by (induction cs) auto

text \<open>A property of every result holds of the switch.\<close>

lemma switch_all: "list_all (\<lambda>c. P (snd c)) cs \<Longrightarrow> P d \<Longrightarrow> P (switch v cs d)"
  by (induction cs) auto

section \<open>Bytes and strings\<close>

definition bytes_of_string :: "string \<Rightarrow> bytes" where
  "bytes_of_string s = map (\<lambda>c. of_nat (of_char c)) s"

definition string_of_bytes :: "bytes \<Rightarrow> string" where
  "string_of_bytes bs = map (\<lambda>b. char_of (unat b)) bs"

lemma byte_char_roundtrip [simp]: "char_of (unat (of_nat (of_char c) :: byte)) = c"
  using nat_of_char_less_256 [of c] by (simp add: unat_of_nat take_bit_nat_eq_self)

lemma unat_byte_mod [simp]: "unat (b :: byte) mod 256 = unat b"
  using unat_byte_less [of b] by simp

lemma char_byte_roundtrip [simp]: "of_nat (of_char (char_of (unat b)) :: nat) = (b :: byte)"
  by (simp add: of_char_of)

lemma string_of_bytes_of_string [simp]: "string_of_bytes (bytes_of_string s) = s"
  by (simp add: bytes_of_string_def string_of_bytes_def comp_def)

lemma bytes_of_string_of_bytes [simp]: "bytes_of_string (string_of_bytes bs) = bs"
  by (simp add: bytes_of_string_def string_of_bytes_def comp_def)

lemma length_bytes_of_string [simp]: "length (bytes_of_string s) = length s"
  by (simp add: bytes_of_string_def)

lemma length_string_of_bytes [simp]: "length (string_of_bytes s) = length s"
  by (simp add: string_of_bytes_def)

lemma bytes_of_string_inj: "bytes_of_string s = bytes_of_string t \<longleftrightarrow> s = t"
  by (metis string_of_bytes_of_string)

section \<open>Package strings\<close>

definition code :: "char \<Rightarrow> nat" where
  "code c = of_char c"

lemma code_char_of [simp]: "n < 256 \<Longrightarrow> code (char_of n) = n"
  by (simp add: code_def of_char_of)

fun upper_char :: "char \<Rightarrow> char" where
  "upper_char c = (if 97 \<le> code c \<and> code c \<le> 122 then char_of (code c - 32) else c)"

fun lower_char :: "char \<Rightarrow> char" where
  "lower_char c = (if 65 \<le> code c \<and> code c \<le> 90 then char_of (code c + 32) else c)"

definition ToUpper :: "string \<Rightarrow> string" where
  "ToUpper s = map upper_char s"

definition ToLower :: "string \<Rightarrow> string" where
  "ToLower s = map lower_char s"

definition EqualFold :: "string \<Rightarrow> string \<Rightarrow> bool" where
  "EqualFold s t \<longleftrightarrow> ToLower s = ToLower t"

definition HasPrefix :: "string \<Rightarrow> string \<Rightarrow> bool" where
  "HasPrefix s p \<longleftrightarrow> take (length p) s = p"

definition HasSuffix :: "string \<Rightarrow> string \<Rightarrow> bool" where
  "HasSuffix s p \<longleftrightarrow> length p \<le> length s \<and> drop (length s - length p) s = p"

text \<open>\<^verbatim>\<open>strings.Index\<close>: the offset of the first occurrence (\<open>None\<close> for \<open>-1\<close>).\<close>

fun Index :: "string \<Rightarrow> string \<Rightarrow> nat option" where
  "Index s p =
     (if HasPrefix s p then Some 0
      else case s of [] \<Rightarrow> None | c # cs \<Rightarrow> map_option Suc (Index cs p))"

declare Index.simps [simp del]

definition IndexByte :: "string \<Rightarrow> char \<Rightarrow> nat option" where
  "IndexByte s c = Index s [c]"

definition LastIndexByte :: "string \<Rightarrow> char \<Rightarrow> nat option" where
  "LastIndexByte s c = (case IndexByte (rev s) c of None \<Rightarrow> None | Some i \<Rightarrow> Some (length s - 1 - i))"

definition Contains :: "string \<Rightarrow> string \<Rightarrow> bool" where
  "Contains s p \<longleftrightarrow> Index s p \<noteq> None"

fun Join :: "string list \<Rightarrow> string \<Rightarrow> string" where
  "Join [] sep = []"
| "Join [x] sep = x"
| "Join (x # y # xs) sep = x @ sep @ Join (y # xs) sep"

text \<open>White space: the ASCII characters and the UTF-8 images of the Unicode ones.\<close>

definition space_seqs :: "string list" where
  "space_seqs =
     [[CHR 0x09], [CHR 0x0A], [CHR 0x0B], [CHR 0x0C], [CHR 0x0D], [CHR 0x20]]
     @ map (map char_of) ([[0xC2, 0x85], [0xC2, 0xA0], [0xE1, 0x9A, 0x80],
         [0xE2, 0x80, 0x80], [0xE2, 0x80, 0x81], [0xE2, 0x80, 0x82], [0xE2, 0x80, 0x83],
         [0xE2, 0x80, 0x84], [0xE2, 0x80, 0x85], [0xE2, 0x80, 0x86], [0xE2, 0x80, 0x87],
         [0xE2, 0x80, 0x88], [0xE2, 0x80, 0x89], [0xE2, 0x80, 0x8A], [0xE2, 0x80, 0xA8],
         [0xE2, 0x80, 0xA9], [0xE2, 0x80, 0xAF], [0xE2, 0x81, 0x9F], [0xE3, 0x80, 0x80]] :: nat list list)"

definition space_len :: "string \<Rightarrow> nat" where
  "space_len s = (case find (HasPrefix s) space_seqs of Some q \<Rightarrow> length q | None \<Rightarrow> 0)"

definition space_len_last :: "string \<Rightarrow> nat" where
  "space_len_last s = (case find (HasSuffix s) space_seqs of Some q \<Rightarrow> length q | None \<Rightarrow> 0)"

function TrimLeftSpace :: "string \<Rightarrow> string" where
  "TrimLeftSpace s = (if space_len s = 0 \<or> s = [] then s else TrimLeftSpace (drop (space_len s) s))"
  by pat_completeness auto
termination by (relation "measure length") auto

function TrimRightSpace :: "string \<Rightarrow> string" where
  "TrimRightSpace s =
     (if space_len_last s = 0 \<or> s = [] then s
      else TrimRightSpace (take (length s - space_len_last s) s))"
  by pat_completeness auto
termination by (relation "measure length") auto

declare TrimLeftSpace.simps [simp del] TrimRightSpace.simps [simp del]

definition TrimSpace :: "string \<Rightarrow> string" where
  "TrimSpace s = TrimRightSpace (TrimLeftSpace s)"

primrec span_field :: "string \<Rightarrow> string \<times> string" where
  "span_field [] = ([], [])"
| "span_field (c # cs) =
     (if space_len (c # cs) > 0 then ([], c # cs)
      else (case span_field cs of (w, r) \<Rightarrow> (c # w, r)))"

lemma length_TrimLeftSpace: "length (TrimLeftSpace s) \<le> length s"
  by (induction s rule: TrimLeftSpace.induct) (subst TrimLeftSpace.simps, auto)

lemma length_TrimRightSpace: "length (TrimRightSpace s) \<le> length s"
  by (induction s rule: TrimRightSpace.induct) (subst TrimRightSpace.simps, auto)

lemma length_TrimSpace: "length (TrimSpace s) \<le> length s"
  unfolding TrimSpace_def using length_TrimLeftSpace length_TrimRightSpace le_trans by blast

lemma span_field_append: "span_field s = (w, r) \<Longrightarrow> s = w @ r"
  by (induction s arbitrary: w r) (auto split: if_splits prod.splits)

text \<open>\<^verbatim>\<open>strings.Fields\<close>.\<close>

function Fields :: "string \<Rightarrow> string list" where
  "Fields s =
     (let s1 = TrimLeftSpace s
      in case span_field s1 of (w, r) \<Rightarrow> if w = [] then [] else w # Fields r)"
  by pat_completeness auto
termination
proof (relation "measure length", goal_cases)
  case 1
  then show ?case by simp
next
  case (2 s s1 w r)
  then have "s1 = w @ r" by (metis span_field_append)
  then have "length s1 = length w + length r" by simp
  with 2 length_TrimLeftSpace [of s] show ?case by (cases w) auto
qed

declare Fields.simps [simp del]

text \<open>A printable ASCII character starts and ends no white space, so trimming stops at it.\<close>

definition graphic :: "char \<Rightarrow> bool" where
  "graphic c \<longleftrightarrow> 33 \<le> code c \<and> code c \<le> 126"

lemma space_seqs_not_graphic:
  "q \<in> set space_seqs \<Longrightarrow> q \<noteq> [] \<and> \<not> graphic (hd q) \<and> \<not> graphic (last q)"
proof -
  have "list_all (\<lambda>q. q \<noteq> [] \<and> \<not> graphic (hd q) \<and> \<not> graphic (last q)) space_seqs"
    by (simp add: space_seqs_def graphic_def) (simp add: code_def)
  then show "q \<in> set space_seqs \<Longrightarrow> ?thesis" by (simp add: list_all_iff)
qed

lemma space_len_graphic: "graphic c \<Longrightarrow> space_len (c # cs) = 0"
proof -
  assume c: "graphic c"
  have "\<not> HasPrefix (c # cs) q" if "q \<in> set space_seqs" for q
    using c space_seqs_not_graphic [OF that] by (cases q) (auto simp: HasPrefix_def)
  then have "find (HasPrefix (c # cs)) space_seqs = None"
    by (simp add: find_None_iff)
  then show ?thesis by (simp add: space_len_def)
qed

lemma space_len_last_graphic: "graphic c \<Longrightarrow> space_len_last (cs @ [c]) = 0"
proof -
  assume c: "graphic c"
  have "\<not> HasSuffix (cs @ [c]) q" if "q \<in> set space_seqs" for q
  proof
    assume "HasSuffix (cs @ [c]) q"
    then have "last q = last (drop (length (cs @ [c]) - length q) (cs @ [c]))"
      and "length q \<le> length (cs @ [c])"
      by (auto simp: HasSuffix_def simp del: drop_append)
    with space_seqs_not_graphic [OF that] have "last q = c"
      by (subst (asm) last_drop) auto
    with c space_seqs_not_graphic [OF that] show False by simp
  qed
  then have "find (HasSuffix (cs @ [c])) space_seqs = None"
    by (simp add: find_None_iff)
  then show ?thesis by (simp add: space_len_last_def)
qed

lemma TrimLeftSpace_graphic: "s \<noteq> [] \<Longrightarrow> graphic (hd s) \<Longrightarrow> TrimLeftSpace s = s"
  by (subst TrimLeftSpace.simps) (cases s; simp add: space_len_graphic)

lemma TrimRightSpace_graphic: "s \<noteq> [] \<Longrightarrow> graphic (last s) \<Longrightarrow> TrimRightSpace s = s"
  using space_len_last_graphic [of "last s" "butlast s"]
  by (subst TrimRightSpace.simps) simp

lemma TrimSpace_graphic:
  "s \<noteq> [] \<Longrightarrow> graphic (hd s) \<Longrightarrow> graphic (last s) \<Longrightarrow> TrimSpace s = s"
  by (simp add: TrimSpace_def TrimLeftSpace_graphic TrimRightSpace_graphic)

lemma TrimSpace_Nil [simp]: "TrimSpace [] = []"
  by (simp add: TrimSpace_def TrimLeftSpace.simps TrimRightSpace.simps)

section \<open>Numbers\<close>

fun nat_digits :: "nat \<Rightarrow> string" where
  "nat_digits n =
     (if n < 10 then [char_of (48 + n)] else nat_digits (n div 10) @ [char_of (48 + n mod 10)])"

declare nat_digits.simps [simp del]

definition itoa :: "int \<Rightarrow> string" where
  "itoa i = (if i < 0 then CHR ''-'' # nat_digits (nat (- i)) else nat_digits (nat i))"

text \<open>The value of a string of decimal digits.\<close>

definition is_digit :: "char \<Rightarrow> bool" where
  "is_digit c \<longleftrightarrow> 48 \<le> code c \<and> code c \<le> 57"

definition digit_val :: "char \<Rightarrow> nat" where
  "digit_val c = code c - 48"

definition digits_val :: "string \<Rightarrow> nat" where
  "digits_val s = foldl (\<lambda>n c. 10 * n + digit_val c) 0 s"

lemma digits_val_snoc [simp]: "digits_val (s @ [c]) = 10 * digits_val s + digit_val c"
  by (simp add: digits_val_def)

lemma digits_val_nat_digits [simp]: "digits_val (nat_digits n) = n"
proof (induction n rule: nat_digits.induct)
  case (1 n)
  then show ?case
    by (subst nat_digits.simps)
      (auto simp: digits_val_def digit_val_def [abs_def] simp flip: digits_val_snoc)
qed

lemma nat_digits_digits: "\<forall>c \<in> set (nat_digits n). is_digit c"
proof (induction n rule: nat_digits.induct)
  case (1 n)
  then show ?case by (subst nat_digits.simps) (auto simp: is_digit_def)
qed

lemma nat_digits_not_Nil [simp]: "nat_digits n \<noteq> []"
  by (subst nat_digits.simps) simp

lemma nat_digits_inj: "nat_digits m = nat_digits n \<longleftrightarrow> m = n"
  by (metis digits_val_nat_digits)

lemma digits_val_append: "digits_val (s @ t) = digits_val s * 10 ^ length t + digits_val t"
proof (induction t rule: rev_induct)
  case Nil
  then show ?case by (simp add: digits_val_def)
next
  case (snoc c t)
  then show ?case by (simp add: algebra_simps flip: append_assoc)
qed

lemma digits_val_Nil [simp]: "digits_val [] = 0"
  by (simp add: digits_val_def)

lemma digits_val_replicate_0 [simp]: "digits_val (replicate n CHR ''0'') = 0"
  by (induction n) (simp_all add: digits_val_def digit_val_def code_def)

lemma digits_val_Cons_0 [simp]: "digits_val (CHR ''0'' # s) = digits_val s"
  using digits_val_append [of "[CHR ''0'']" s] by (simp add: digits_val_def digit_val_def code_def)

lemma digits_val_strip_0: "digits_val (dropWhile (\<lambda>c. c = CHR ''0'') s) = digits_val s"
  by (induction s) auto

lemma digit_val_le: "is_digit c \<Longrightarrow> digit_val c \<le> 9"
  unfolding is_digit_def digit_val_def by linarith

lemma digits_val_less: "list_all is_digit s \<Longrightarrow> digits_val s < 10 ^ length s"
proof (induction s rule: rev_induct)
  case (snoc c s)
  then have "digits_val s + 1 \<le> 10 ^ length s" and "digit_val c \<le> 9"
    by (auto dest: digit_val_le)
  then have "10 * digits_val s + 10 \<le> 10 * 10 ^ length s" by linarith
  with \<open>digit_val c \<le> 9\<close> show ?case by simp
qed simp

lemma is_digit_graphic: "is_digit c \<Longrightarrow> graphic c"
  by (simp add: is_digit_def graphic_def)

lemma nat_digits_all: "list_all is_digit (nat_digits n)"
  using nat_digits_digits by (simp add: list_all_iff)

end
