(* ===== verification/Decimal.thy ===== *)
theory Decimal
  imports Go_Strings
begin

text \<open>
  Exact decimals: \<^verbatim>\<open>api/decimal.go\<close> (construction, parsing with rounding half away from zero,
  printing) and the text-level core of \<^verbatim>\<open>machnet/decimal.go\<close> (the width table and the biased
  big-endian wire image).  \<^verbatim>\<open>big.Int\<close> is \<open>int\<close>.
\<close>

section \<open>api/decimal.go\<close>

abbreviation (input) DecimalMaxPrecision :: int where "DecimalMaxPrecision \<equiv> 65"
abbreviation (input) DecimalMaxScale :: int where "DecimalMaxScale \<equiv> 30"

record Decimal =
  unscaled :: int
  precision :: int
  scale :: int

definition validateDecimalPrecisionScale :: "int \<Rightarrow> int \<Rightarrow> unit outcome" where
  "validateDecimalPrecisionScale prec scl =
     (if prec < 1 \<or> prec > DecimalMaxPrecision then Err (PlainErr ''invalid decimal precision'')
      else if scl < 0 \<or> scl > DecimalMaxScale \<or> scl > prec then Err (PlainErr ''invalid decimal scale'')
      else Ok ())"

definition NewDecimal :: "int \<Rightarrow> int \<Rightarrow> int \<Rightarrow> Decimal outcome" where
  "NewDecimal u prec scl =
     bind_outcome (validateDecimalPrecisionScale prec scl) (\<lambda>_.
       if abs u \<ge> 10 ^ nat prec then Err (PlainErr ''decimal value exceeds precision'')
       else Ok \<lparr>unscaled = u, precision = prec, scale = scl\<rparr>)"

text \<open>\<^verbatim>\<open>strings.Split\<close> with a one-character separator and \<^verbatim>\<open>strings.TrimLeft(s, "0")\<close>.\<close>

fun Split :: "char \<Rightarrow> string \<Rightarrow> string list" where
  "Split sep [] = [[]]"
| "Split sep (c # cs) =
     (if c = sep then [] # Split sep cs
      else (case Split sep cs of [] \<Rightarrow> [[c]] | p # ps \<Rightarrow> (c # p) # ps))"

definition TrimLeft0 :: "string \<Rightarrow> string" where
  "TrimLeft0 s = dropWhile (\<lambda>c. c = CHR ''0'') s"

definition invalid_decimal :: "'a outcome" where
  "invalid_decimal = Err (PlainErr ''invalid decimal value'')"

definition ParseDecimal :: "string \<Rightarrow> int \<Rightarrow> int \<Rightarrow> Decimal outcome" where
  "ParseDecimal txt prec scl =
     bind_outcome (validateDecimalPrecisionScale prec scl) (\<lambda>_.
       let s = TrimSpace txt
       in if s = [] then invalid_decimal
          else
            let signed = (hd s = CHR ''+'' \<or> hd s = CHR ''-'');
                negative = (signed \<and> hd s = CHR ''-'');
                s = (if signed then tl s else s);
                parts = Split CHR ''.'' s
            in if length parts > 2 \<or> (length parts = 1 \<and> parts ! 0 = [])
                  \<or> (length parts = 2 \<and> parts ! 0 = [] \<and> parts ! 1 = [])
               then invalid_decimal
               else
                 let integer = (if parts ! 0 = [] then ''0'' else parts ! 0);
                     fraction = (if length parts = 2 then parts ! 1 else [])
                 in if \<not> list_all is_digit integer \<or> \<not> list_all is_digit fraction
                    then invalid_decimal
                    else
                      let sc = nat scl;
                          roundUp = (length fraction > sc \<and> digit_val (fraction ! sc) \<ge> 5);
                          fraction = take sc fraction;
                          fraction = fraction @ replicate (sc - length fraction) CHR ''0'';
                          digits = TrimLeft0 (integer @ fraction);
                          digits = (if digits = [] then ''0'' else digits);
                          u = int (digits_val digits);
                          u = (if roundUp then u + 1 else u);
                          u = (if negative \<and> u \<noteq> 0 then - u else u)
                      in NewDecimal u prec scl)"

definition Decimal_String :: "Decimal \<Rightarrow> string" where
  "Decimal_String d =
     (let digits = nat_digits (nat (abs (unscaled d)));
          sc = nat (scale d);
          digits = (if scale d > 0
                    then
                      let digits = (if int (length digits) \<le> scale d
                                    then replicate (sc - length digits + 1) CHR ''0'' @ digits
                                    else digits);
                          cut = length digits - sc
                      in take cut digits @ ''.'' @ drop cut digits
                    else digits)
      in if unscaled d < 0 then ''-'' @ digits else digits)"

text \<open>
  \<^verbatim>\<open>Decimal.Scan\<close> of a text (a \<^verbatim>\<open>string\<close> or a \<^verbatim>\<open>[]byte\<close>) or of another decimal.
\<close>

datatype decimal_src = SrcDecimal Decimal | SrcText string | SrcOther

definition Decimal_Scan :: "Decimal \<Rightarrow> decimal_src \<Rightarrow> Decimal outcome" where
  "Decimal_Scan d src =
     (let (prec, scl) = (if precision d = 0 then (DecimalMaxPrecision, DecimalMaxScale)
                         else (precision d, scale d))
      in case src of
           SrcDecimal v \<Rightarrow> Ok v
         | SrcText txt \<Rightarrow> ParseDecimal txt prec scl
         | SrcOther \<Rightarrow> Err (PlainErr ''cannot scan as decimal''))"

section \<open>machnet/decimal.go\<close>

definition decimalSizes :: "nat list" where
  "decimalSizes =
     [0,
      1, 2, 2, 2, 3, 3, 4, 4, 4, 5, 5, 6, 6,
      7, 7, 7, 8, 8, 9, 9, 9, 10, 10, 11, 11, 12,
      12, 12, 13, 13, 14, 14, 14, 15, 15, 16, 16, 17, 17,
      17, 18, 18, 19, 19, 19, 20, 20, 21, 21, 22, 22, 22,
      23, 23, 24, 24, 24, 25, 25, 26, 26, 26, 27, 27, 28]"

definition decimalSize :: "int \<Rightarrow> nat outcome" where
  "decimalSize prec =
     (if prec < 1 \<or> prec > DecimalMaxPrecision then Err (PlainErr ''invalid decimal precision'')
      else Ok (decimalSizes ! nat prec))"

text \<open>\<^verbatim>\<open>big.Int.Bytes\<close> (minimal big-endian image of the absolute value) and \<^verbatim>\<open>big.Int.SetBytes\<close>.\<close>

fun big_Bytes :: "nat \<Rightarrow> bytes" where
  "big_Bytes n = (if n = 0 then [] else big_Bytes (n div 256) @ [of_nat n])"

declare big_Bytes.simps [simp del]

definition big_SetBytes :: "bytes \<Rightarrow> nat" where
  "big_SetBytes bs = foldl (\<lambda>n b. 256 * n + unat b) 0 bs"

text \<open>\<^verbatim>\<open>encodeDecimal\<close> from the text of the value on; \<open>None\<close> is a nil value.\<close>

definition encodeDecimalText :: "string option \<Rightarrow> int \<Rightarrow> int \<Rightarrow> bytes outcome" where
  "encodeDecimalText value prec scl =
     bind_outcome (decimalSize prec) (\<lambda>size.
       case value of
         None \<Rightarrow> Ok (replicate size 0)
       | Some txt \<Rightarrow>
           bind_outcome (ParseDecimal txt prec scl) (\<lambda>d.
             let bits = size * 8;
                 valid = 2 ^ (bits - 1);
                 bias = 2 ^ (bits - 2);
                 encoded = valid + bias + unscaled d;
                 data = big_Bytes (nat (abs encoded))
             in if length data > size then Err (PlainErr ''decimal value exceeds encoded width'')
                else Ok (replicate (size - length data) 0 @ data)))"

text \<open>\<open>Ok None\<close> is SQL NULL.\<close>

definition decodeDecimal :: "bytes \<Rightarrow> int \<Rightarrow> int \<Rightarrow> Decimal option outcome" where
  "decodeDecimal data prec scl =
     bind_outcome (decimalSize prec) (\<lambda>size.
       if length data \<noteq> size then Err (PlainErr ''invalid decimal payload size'')
       else if hd data AND 0x80 = 0
       then (if list_ex (\<lambda>b. b \<noteq> 0) data then Err (PlainErr ''invalid decimal payload'') else Ok None)
       else
         let bits = size * 8;
             encoded = int (big_SetBytes data);
             valid = 2 ^ (bits - 1);
             bias = 2 ^ (bits - 2)
         in bind_outcome (NewDecimal (encoded - valid - bias) prec scl) (\<lambda>d. Ok (Some d)))"

section \<open>The width table\<close>

lemma decimalSizes_length [simp]: "length decimalSizes = 66"
  by (simp add: decimalSizes_def)

lemma decimalSizes_exact:
  "q \<in> set [1..<66] \<Longrightarrow> 1 \<le> decimalSizes ! q \<and> (10 :: int) ^ q \<le> 2 ^ (8 * decimalSizes ! q - 2)
    \<and> (decimalSizes ! q = 1 \<or> (10 :: int) ^ q > 2 ^ (8 * (decimalSizes ! q - 1) - 2))"
proof -
  have "list_all (\<lambda>q. 1 \<le> decimalSizes ! q \<and> (10 :: int) ^ q \<le> 2 ^ (8 * decimalSizes ! q - 2)
    \<and> (decimalSizes ! q = 1 \<or> (10 :: int) ^ q > 2 ^ (8 * (decimalSizes ! q - 1) - 2))) [1..<66]"
    by code_simp
  then show "q \<in> set [1..<66] \<Longrightarrow> ?thesis" unfolding list_all_iff by blast
qed

lemma decimalSize_Ok:
  assumes "decimalSize p = Ok s"
  shows "1 \<le> p" and "p \<le> 65" and "1 \<le> s" and "(10 :: int) ^ nat p \<le> 2 ^ (8 * s - 2)"
proof -
  from assms show p: "1 \<le> p" "p \<le> 65" by (auto simp: decimalSize_def split: if_splits)
  then have "nat p \<in> set [1..<66]" by auto
  from decimalSizes_exact [OF this] assms show "1 \<le> s" "(10 :: int) ^ nat p \<le> 2 ^ (8 * s - 2)"
    by (auto simp: decimalSize_def split: if_splits)
qed

section \<open>big.Int images\<close>

lemma big_SetBytes_snoc [simp]: "big_SetBytes (bs @ [b]) = 256 * big_SetBytes bs + unat b"
  by (simp add: big_SetBytes_def)

lemma big_SetBytes_big_Bytes [simp]: "big_SetBytes (big_Bytes n) = n"
proof (induction n rule: big_Bytes.induct)
  case (1 n)
  then show ?case
    by (subst big_Bytes.simps)
      (auto simp: big_SetBytes_def [of "[]"] unat_of_nat take_bit_eq_mod)
qed

lemma big_SetBytes_zeros [simp]: "big_SetBytes (replicate k 0 @ bs) = big_SetBytes bs"
proof (induction bs rule: rev_induct)
  case Nil
  have "big_SetBytes (replicate k 0) = 0" by (induction k) (simp_all add: big_SetBytes_def)
  then show ?case by (simp add: big_SetBytes_def [of "[]"])
next
  case (snoc b bs)
  then show ?case by (simp flip: append_assoc)
qed

lemma length_big_Bytes: "n < 256 ^ k \<Longrightarrow> length (big_Bytes n) \<le> k"
proof (induction k arbitrary: n)
  case 0
  then show ?case by (simp add: big_Bytes.simps)
next
  case (Suc k)
  then have "n div 256 < 256 ^ k" by (simp add: less_mult_imp_div_less mult.commute)
  then have "length (big_Bytes (n div 256)) \<le> k" by (rule Suc.IH)
  then show ?case by (subst big_Bytes.simps) simp
qed

lemma big_SetBytes_less: "big_SetBytes bs < 256 ^ length bs"
proof (induction bs rule: rev_induct)
  case (snoc b bs)
  note unat_byte_less [of b]
  moreover from snoc have "256 * big_SetBytes bs + 256 \<le> 256 * 256 ^ length bs" by linarith
  ultimately show ?case by simp
qed (simp add: big_SetBytes_def)

lemma big_SetBytes_append:
  "big_SetBytes (xs @ ys) = big_SetBytes xs * 256 ^ length ys + big_SetBytes ys"
proof (induction ys rule: rev_induct)
  case Nil
  then show ?case by (simp add: big_SetBytes_def [of "[]"])
next
  case (snoc y ys)
  then show ?case by (simp add: algebra_simps flip: append_assoc)
qed

lemma top_bit_byte: "128 \<le> unat b \<longleftrightarrow> (b :: byte) AND 0x80 \<noteq> 0"
proof -
  note lt = unat_byte_less [of b]
  have "bit b 7 \<longleftrightarrow> bit (unat b) 7" by (simp add: bit_unsigned_iff)
  also have "\<dots> \<longleftrightarrow> odd (unat b div 128)" by (simp add: bit_iff_odd)
  also have "\<dots> \<longleftrightarrow> 128 \<le> unat b"
  proof
    assume "odd (unat b div 128)"
    then have "unat b div 128 \<noteq> 0" by (intro notI) simp
    then show "128 \<le> unat b" by simp
  next
    assume "128 \<le> unat b"
    with lt have "unat b div 128 = 1" by (intro div_nat_eqI) simp_all
    then show "odd (unat b div 128)" by simp
  qed
  finally have "bit b 7 \<longleftrightarrow> 128 \<le> unat b" .
  moreover have "b AND 0x80 = 0 \<longleftrightarrow> \<not> bit b 7"
    using and_exp_eq_0_iff_not_bit [of b 7] by simp
  ultimately show ?thesis by blast
qed

section \<open>The biased image\<close>

lemma decimal_image:
  assumes "decimalSize p = Ok s" and "abs u < 10 ^ nat p"
  defines "e \<equiv> 2 ^ (s * 8 - 1) + 2 ^ (s * 8 - 2) + u"
  defines "data \<equiv> big_Bytes (nat (abs e))"
  defines "bs \<equiv> replicate (s - length data) 0 @ data"
  shows "length data \<le> s" and "length bs = s" and "int (big_SetBytes bs) = e"
    and "hd bs AND 0x80 \<noteq> 0"
proof -
  note size = decimalSize_Ok [OF assms(1)]
  then obtain k where s: "s = Suc k" by (cases s) auto
  from size(4) assms(2) have u: "- (2 ^ (s * 8 - 2)) < u" "u < 2 ^ (s * 8 - 2)"
    by (auto simp: mult.commute)
  have pow: "(2 :: int) ^ (s * 8 - 1) = 128 * 256 ^ k" "(2 :: int) ^ (s * 8 - 2) = 64 * 256 ^ k"
    by (simp_all add: s power_add power_mult mult.commute [of _ 8])
  with u have e: "128 * 256 ^ k \<le> e" "e < 256 * 256 ^ k" by (simp_all add: e_def)
  then have e0: "0 \<le> e" by (smt (verit) zero_le_power)
  have "nat e < 256 ^ s" using e e0 by (simp add: s nat_less_iff)
  then show len: "length data \<le> s" using length_big_Bytes e0 by (simp add: data_def)
  then show lbs: "length bs = s" by (simp add: bs_def)
  show val: "int (big_SetBytes bs) = e" using e0 by (simp add: bs_def data_def)
  from lbs s obtain b rest where bs: "bs = b # rest" "length rest = k" by (cases bs) auto
  then have "big_SetBytes bs = unat b * 256 ^ k + big_SetBytes rest"
    using big_SetBytes_append [of "[b]" rest] by (simp add: big_SetBytes_def)
  moreover have "big_SetBytes rest < 256 ^ k" using big_SetBytes_less [of rest] bs(2) by simp
  moreover have "128 * 256 ^ k \<le> big_SetBytes bs"
    using val e(1) by (simp flip: of_nat_le_iff [where 'a = int])
  moreover have "unat b * 256 ^ k + 256 ^ k = Suc (unat b) * (256 :: nat) ^ k" by simp
  ultimately have "128 * 256 ^ k < Suc (unat b) * (256 :: nat) ^ k" by linarith
  then have "128 \<le> unat b" by (simp only: mult_less_cancel2) simp
  then show "hd bs AND 0x80 \<noteq> 0" using top_bit_byte bs(1) by simp
qed

lemma NewDecimal_Ok_iff:
  "NewDecimal u p s = Ok d \<longleftrightarrow>
    1 \<le> p \<and> p \<le> 65 \<and> 0 \<le> s \<and> s \<le> 30 \<and> s \<le> p \<and> abs u < 10 ^ nat p
    \<and> d = \<lparr>unscaled = u, precision = p, scale = s\<rparr>"
  by (auto simp: NewDecimal_def validateDecimalPrecisionScale_def outcome_simps)

text \<open>A decimal as its constructor makes it: in range for its precision and scale.\<close>

definition decimal_wf :: "Decimal \<Rightarrow> bool" where
  "decimal_wf d \<longleftrightarrow> NewDecimal (unscaled d) (precision d) (scale d) = Ok d"

lemma ParseDecimal_NewDecimal:
  "ParseDecimal txt p s = Ok d \<Longrightarrow> \<exists>u. NewDecimal u p s = Ok d"
proof -
  define Q where "Q m \<longleftrightarrow> (\<forall>d. m = Ok d \<longrightarrow> (\<exists>u. NewDecimal u p s = Ok d))" for m
  have Q: "Q (Err e)" "Q (NewDecimal u p s)" "Q x \<Longrightarrow> Q y \<Longrightarrow> Q (if b then x else y)"
    "(\<And>v. Q (f v)) \<Longrightarrow> Q (Let v f)" "(\<And>w. Q (g w)) \<Longrightarrow> Q (bind_outcome z g)"
    for e u b x y v f z and g :: "unit \<Rightarrow> Decimal outcome" and v' :: "'a"
    by (auto simp: Q_def Let_def outcome_simps)
  have "Q (ParseDecimal txt p s)"
    unfolding ParseDecimal_def invalid_decimal_def by (intro Q)
  then show "ParseDecimal txt p s = Ok d \<Longrightarrow> ?thesis" by (simp add: Q_def)
qed

lemma ParseDecimal_Ok:
  assumes "ParseDecimal txt p s = Ok d"
  shows "decimal_wf d" and "precision d = p" and "scale d = s"
  using ParseDecimal_NewDecimal [OF assms] by (auto simp: decimal_wf_def NewDecimal_Ok_iff)

lemma decimalSize_valid: "1 \<le> p \<Longrightarrow> p \<le> 65 \<Longrightarrow> \<exists>s. decimalSize p = Ok s"
  by (simp add: decimalSize_def)

lemma encodeDecimalText_image:
  assumes "ParseDecimal txt p scl = Ok d"
  obtains s bs where "decimalSize p = Ok s" and "encodeDecimalText (Some txt) p scl = Ok bs"
    and "length bs = s" and "int (big_SetBytes bs) = 2 ^ (s * 8 - 1) + 2 ^ (s * 8 - 2) + unscaled d"
    and "hd bs AND 0x80 \<noteq> 0"
proof -
  from ParseDecimal_Ok [OF assms] have d: "1 \<le> p" "p \<le> 65" "abs (unscaled d) < 10 ^ nat p"
    by (auto simp: decimal_wf_def NewDecimal_Ok_iff)
  then obtain s where s: "decimalSize p = Ok s" using decimalSize_valid by blast
  let ?data = "big_Bytes (nat (abs (2 ^ (s * 8 - 1) + 2 ^ (s * 8 - 2) + unscaled d)))"
  from decimal_image(1) [OF s d(3)]
  have "encodeDecimalText (Some txt) p scl = Ok (replicate (s - length ?data) 0 @ ?data)"
    unfolding encodeDecimalText_def s assms Let_def bind_outcome.simps option.case by simp
  from that [OF s this decimal_image(2-4) [OF s d(3)]] show thesis .
qed

section \<open>Parsing\<close>

lemma digit_not_special: "is_digit c \<Longrightarrow> c \<noteq> CHR ''.'' \<and> c \<noteq> CHR ''+'' \<and> c \<noteq> CHR ''-''"
  by (auto simp: is_digit_def code_def)

lemma Split_digits: "list_all is_digit s \<Longrightarrow> Split CHR ''.'' s = [s]"
  by (induction s) (auto dest: digit_not_special)

lemma Split_digits_dot:
  "list_all is_digit s \<Longrightarrow> list_all is_digit t \<Longrightarrow> Split CHR ''.'' (s @ CHR ''.'' # t) = [s, t]"
  by (induction s) (auto dest: digit_not_special simp: Split_digits)

text \<open>The magnitude that \<^verbatim>\<open>ParseDecimal\<close> computes from the digits around the point.\<close>

definition parsed_magnitude :: "string \<Rightarrow> string \<Rightarrow> nat \<Rightarrow> nat" where
  "parsed_magnitude i f sc =
     digits_val (i @ take sc f @ replicate (sc - length f) CHR ''0'')
     + (if length f > sc \<and> digit_val (f ! sc) \<ge> 5 then 1 else 0)"

definition signed_text :: "bool \<Rightarrow> string \<Rightarrow> string" where
  "signed_text neg s = (if neg then CHR ''-'' # s else s)"

lemma TrimSpace_signed_digits:
  assumes "i \<noteq> []" and "list_all is_digit i" and "list_all is_digit f"
  shows "TrimSpace (signed_text neg (i @ CHR ''.'' # f)) = signed_text neg (i @ CHR ''.'' # f)"
    and "TrimSpace (signed_text neg i) = signed_text neg i"
proof -
  have sp: "graphic CHR ''-''" "graphic CHR ''.''" by (simp_all add: graphic_def code_def)
  from assms have i: "graphic (hd i)" "graphic (last i)"
    by (auto simp: list_all_iff intro!: is_digit_graphic)
  from assms(3) have f: "f \<noteq> [] \<Longrightarrow> graphic (last f)"
    by (auto simp: list_all_iff intro!: is_digit_graphic)
  from sp assms(1) i f show "TrimSpace (signed_text neg (i @ CHR ''.'' # f)) = signed_text neg (i @ CHR ''.'' # f)"
    by (intro TrimSpace_graphic) (auto simp: signed_text_def)
  from sp assms(1) i show "TrimSpace (signed_text neg i) = signed_text neg i"
    by (intro TrimSpace_graphic) (auto simp: signed_text_def)
qed

lemma digits_val_or_0: "digits_val (if TrimLeft0 s = [] then ''0'' else TrimLeft0 s) = digits_val s"
proof -
  have "digits_val ''0'' = 0" by code_simp
  with digits_val_strip_0 [of s] show ?thesis
    unfolding TrimLeft0_def [symmetric] by (cases "TrimLeft0 s = []") simp_all
qed

text \<open>What \<^verbatim>\<open>ParseDecimal\<close> does with an optional sign and digits with or without a point.\<close>

lemma ParseDecimal_digits:
  assumes "validateDecimalPrecisionScale p s = Ok ()"
    and "i \<noteq> []" and "list_all is_digit i" and "list_all is_digit f"
    and "t = i @ CHR ''.'' # f \<or> t = i \<and> f = []"
  shows "ParseDecimal (signed_text neg t) p s
    = NewDecimal ((if neg then -1 else 1) * int (parsed_magnitude i f (nat s))) p s"
proof -
  have "hd t = hd i" and t0: "t \<noteq> []" using assms(2,5) by auto
  then have t: "hd t \<noteq> CHR ''+''" "hd t \<noteq> CHR ''-''"
    using assms(2,3) digit_not_special [of "hd i"] by (auto simp: list_all_iff)
  have trim: "TrimSpace (signed_text b t) = signed_text b t" for b
    using assms(5) TrimSpace_signed_digits [OF assms(2-4)] by blast
  have trim': "TrimSpace (CHR ''-'' # t) = CHR ''-'' # t" "TrimSpace t = t"
    using trim [of True] trim [of False] by (simp_all add: signed_text_def)
  have parts: "Split CHR ''.'' t = [i, f] \<or> Split CHR ''.'' t = [i] \<and> f = []"
    using assms(3-5) Split_digits Split_digits_dot by auto
  note eval = ParseDecimal_def assms(1) trim' Let_def digits_val_or_0
    parsed_magnitude_def signed_text_def min_def
  show ?thesis
  proof (cases neg)
    case True
    with parts assms(2-4) show ?thesis
      by (elim disjE conjE; simp add: eval split del: if_split cong: if_cong; simp)
  next
    case False
    with parts assms(2-4) t t0 show ?thesis
      by (elim disjE conjE; simp add: eval split del: if_split cong: if_cong; simp)
  qed
qed

text \<open>The equations that evaluate parsing on a concrete text.\<close>

lemmas parse_eval = signed_text_def NewDecimal_def validateDecimalPrecisionScale_def
  parsed_magnitude_def is_digit_def digit_val_def digits_val_def code_def

text \<open>The rounding is half up on the magnitude, that is half away from zero.\<close>

lemma parsed_magnitude_rounds:
  assumes "list_all is_digit f"
  shows "parsed_magnitude i f sc
    = (2 * digits_val (i @ f) * 10 ^ sc + 10 ^ length f) div (2 * 10 ^ length f)"
proof (cases "length f \<le> sc")
  case True
  then obtain m where m: "sc = length f + m" using le_Suc_ex by blast
  then have "2 * digits_val (i @ f) * 10 ^ sc + 10 ^ length f
      = 10 ^ length f + (digits_val (i @ f) * 10 ^ m) * (2 * 10 ^ length f)"
    by (simp add: power_add)
  moreover have "(10 :: nat) ^ length f div (2 * 10 ^ length f) = 0" by simp
  ultimately have "(2 * digits_val (i @ f) * 10 ^ sc + 10 ^ length f) div (2 * 10 ^ length f)
      = digits_val (i @ f) * 10 ^ m"
    by (simp only: div_mult_self1) simp
  moreover have "parsed_magnitude i f sc = digits_val (i @ f) * 10 ^ m"
    using m digits_val_append [of "i @ f" "replicate m CHR ''0''"] by (simp add: parsed_magnitude_def)
  ultimately show ?thesis by simp
next
  case False
  define a x r where "a = digits_val (i @ take sc f)" and "x = digit_val (f ! sc)"
    and "r = digits_val (drop (Suc sc) f)"
  define m where "m = length f - Suc sc"
  have f: "f = take sc f @ [f ! sc] @ drop (Suc sc) f" and len: "length f = sc + Suc m"
    using False by (simp_all add: id_take_nth_drop m_def)
  have x: "x \<le> 9" using assms False by (auto simp: x_def list_all_iff intro!: digit_val_le)
  have r: "r < 10 ^ m"
    using assms digits_val_less [of "drop (Suc sc) f"] by (auto simp: r_def m_def list_all_iff dest: in_set_dropD)
  have "digits_val (i @ f) = digits_val (i @ take sc f @ [f ! sc] @ drop (Suc sc) f)"
    using f by simp
  also have "\<dots> = (10 * a + x) * 10 ^ m + r"
    using digits_val_append [of "i @ take sc f @ [f ! sc]" "drop (Suc sc) f"]
      digits_val_snoc [of "i @ take sc f" "f ! sc"]
    by (simp add: a_def x_def r_def m_def)
  finally have D: "digits_val (i @ f) = (10 * a + x) * 10 ^ m + r" .
  let ?q = "if 5 \<le> x then 1 else 0 :: nat"
  have "2 * digits_val (i @ f) * 10 ^ sc + 10 ^ length f
      = 10 ^ sc * (2 * ((10 * a + x) * 10 ^ m + r) + 10 * 10 ^ m)"
    by (simp add: D len power_add algebra_simps)
  moreover have "2 * 10 ^ length f = 10 ^ sc * (20 * 10 ^ m :: nat)"
    by (simp add: len power_add)
  moreover have "(2 * ((10 * a + x) * 10 ^ m + r) + 10 * 10 ^ m) div (20 * 10 ^ m) = a + ?q"
  proof (rule div_nat_eqI)
    have X: "x * 10 ^ m \<le> (if 5 \<le> x then 9 else 4) * 10 ^ m" "5 \<le> x \<Longrightarrow> 5 * 10 ^ m \<le> x * (10 :: nat) ^ m"
      using x by (auto intro!: mult_right_mono)
    have N: "2 * ((10 * a + x) * 10 ^ m + r) + 10 * 10 ^ m
        = 20 * 10 ^ m * a + 2 * (x * 10 ^ m) + 2 * r + 10 * 10 ^ m"
      by (simp add: algebra_simps)
    show "20 * 10 ^ m * (a + ?q) \<le> 2 * ((10 * a + x) * 10 ^ m + r) + 10 * 10 ^ m"
    proof (cases "5 \<le> x")
      case True
      have "20 * 10 ^ m * (a + ?q) = 20 * 10 ^ m * a + 20 * 10 ^ m" using True by (simp add: distrib_left)
      with N X(2) [OF True] show ?thesis by linarith
    qed (simp add: N del: distrib_left_numeral add_mult_distrib2; simp add: algebra_simps)
    show "2 * ((10 * a + x) * 10 ^ m + r) + 10 * 10 ^ m < 20 * 10 ^ m * Suc (a + ?q)"
    proof (cases "5 \<le> x")
      case True
      have "20 * 10 ^ m * Suc (a + ?q) = 20 * 10 ^ m * a + 40 * 10 ^ m" using True by (simp add: distrib_left)
      moreover from X(1) True have "x * 10 ^ m \<le> 9 * 10 ^ m" by presburger
      ultimately show ?thesis using N r by linarith
    next
      case False
      have "20 * 10 ^ m * Suc (a + ?q) = 20 * 10 ^ m * a + 20 * 10 ^ m" using False by (simp add: distrib_left)
      moreover from X(1) False have "x * 10 ^ m \<le> 4 * 10 ^ m" by presburger
      ultimately show ?thesis using N r by linarith
    qed
  qed
  ultimately show ?thesis
    using False by (simp add: parsed_magnitude_def a_def x_def)
qed

section \<open>Printing\<close>

lemma list_all_take_drop_digits:
  "list_all is_digit s \<Longrightarrow> list_all is_digit (take n s) \<and> list_all is_digit (drop n s)"
  by (auto simp: list_all_iff dest: in_set_takeD in_set_dropD)

text \<open>The text of a decimal is digits around a point, with exactly \<open>scale\<close> digits after it.\<close>

lemma Decimal_String_shape:
  assumes "0 \<le> scale d"
  obtains i f t where "Decimal_String d = signed_text (unscaled d < 0) t" and "i \<noteq> []"
    and "list_all is_digit i" and "list_all is_digit f"
    and "t = i @ CHR ''.'' # f \<or> t = i \<and> f = []" and "length f = nat (scale d)"
    and "digits_val (i @ f) = nat (abs (unscaled d))"
proof (cases "scale d > 0")
  case False
  show thesis
    by (rule that [of "nat_digits (nat (abs (unscaled d)))" "nat_digits (nat (abs (unscaled d)))" "[]"])
      (use False assms nat_digits_all in \<open>simp_all add: Decimal_String_def signed_text_def\<close>)
next
  case True
  define sc where "sc = nat (scale d)"
  define ds where "ds = nat_digits (nat (abs (unscaled d)))"
  define pd where "pd = (if int (length ds) \<le> scale d then replicate (sc - length ds + 1) CHR ''0'' @ ds else ds)"
  have zero: "is_digit CHR ''0''" by (simp add: is_digit_def code_def)
  have pd: "pd \<noteq> []" "list_all is_digit pd" "digits_val pd = nat (abs (unscaled d))" "sc < length pd"
    using True nat_digits_all zero
    by (auto simp: pd_def ds_def sc_def digits_val_append list_all_iff)
  show thesis
    by (rule that [of "take (length pd - sc) pd @ CHR ''.'' # drop (length pd - sc) pd"
            "take (length pd - sc) pd" "drop (length pd - sc) pd"])
      (use True pd list_all_take_drop_digits in
        \<open>simp_all add: Decimal_String_def signed_text_def Let_def pd_def [symmetric] ds_def [symmetric] sc_def [symmetric]\<close>)
qed

text \<open>
  The table gives for every precision the least number of bytes that holds the values: the
  biased image needs \<open>10 ^ p \<le> 2 ^ (8 s - 2)\<close>, and one byte less is too small.
\<close>

theorem decimalSize_exact:
  assumes "1 \<le> p" and "p \<le> 65"
  shows "\<exists>s. decimalSize p = Ok s \<and> 1 \<le> s \<and> (10 :: int) ^ nat p \<le> 2 ^ (8 * s - 2)
    \<and> (s = 1 \<or> (10 :: int) ^ nat p > 2 ^ (8 * (s - 1) - 2))"
proof -
  from assms have "nat p \<in> set [1..<66]" by auto
  from decimalSizes_exact [OF this] assms show ?thesis by (auto simp: decimalSize_def)
qed

theorem decimalSize_exact_witness:
  "\<exists>s. decimalSize 65 = Ok s \<and> 1 \<le> s \<and> (10 :: int) ^ 65 \<le> 2 ^ (8 * s - 2)
    \<and> (s = 1 \<or> (10 :: int) ^ 65 > 2 ^ (8 * (s - 1) - 2))"
  using decimalSize_exact [of 65] by simp

lemma decimal_codec:
  assumes "ParseDecimal txt p scl = Ok d"
  shows "\<exists>s bs. decimalSize p = Ok s \<and> encodeDecimalText (Some txt) p scl = Ok bs \<and> length bs = s
    \<and> decodeDecimal bs p scl = Ok (Some d)"
proof -
  from encodeDecimalText_image [OF assms] obtain s bs where
    s: "decimalSize p = Ok s" "encodeDecimalText (Some txt) p scl = Ok bs" "length bs = s"
    and v: "int (big_SetBytes bs) = 2 ^ (s * 8 - 1) + 2 ^ (s * 8 - 2) + unscaled d"
    and top: "hd bs AND 0x80 \<noteq> 0" .
  from ParseDecimal_Ok [OF assms] have "NewDecimal (unscaled d) p scl = Ok d"
    by (simp add: decimal_wf_def)
  then have "decodeDecimal bs p scl = Ok (Some d)"
    using s(3) top v by (simp add: decodeDecimal_def s(1) Let_def)
  with s show ?thesis by blast
qed

text \<open>
  C23. The wire codec loses nothing: whenever the text parses at a precision and scale, encoding
  it succeeds (the width error never happens), takes exactly the table's number of bytes, and
  decoding the bytes gives back the parsed decimal.
\<close>

theorem decimal_codec_roundtrip:
  assumes "ParseDecimal txt p scl = Ok d"
  shows "\<exists>s bs. decimalSize p = Ok s \<and> encodeDecimalText (Some txt) p scl = Ok bs \<and> length bs = s
    \<and> decodeDecimal bs p scl = Ok (Some d)"
  using assms by (rule decimal_codec)

theorem decimal_codec_roundtrip_witness:
  "\<exists>s bs. decimalSize 5 = Ok s \<and> encodeDecimalText (Some ''-12.3'') 5 2 = Ok bs \<and> length bs = s
    \<and> decodeDecimal bs 5 2 = Ok (Some \<lparr>unscaled = -1230, precision = 5, scale = 2\<rparr>)"
proof -
  have "ParseDecimal ''-12.3'' 5 2 = Ok \<lparr>unscaled = -1230, precision = 5, scale = 2\<rparr>"
    using ParseDecimal_digits [of 5 2 "''12''" "''3''" "''12.3''" True]
    by (simp add: parse_eval)
  from decimal_codec_roundtrip [OF this] show ?thesis .
qed

text \<open>
  The wire image keeps the order of the values, so the server can compare encoded decimals
  of one column as big-endian integers.
\<close>

theorem decimal_codec_monotone:
  assumes "ParseDecimal t1 p scl = Ok d1" and "ParseDecimal t2 p scl = Ok d2"
    and "encodeDecimalText (Some t1) p scl = Ok b1" and "encodeDecimalText (Some t2) p scl = Ok b2"
  shows "big_SetBytes b1 < big_SetBytes b2 \<longleftrightarrow> unscaled d1 < unscaled d2"
proof -
  from assms(1) obtain s where "decimalSize p = Ok s"
    and "int (big_SetBytes b1) = 2 ^ (s * 8 - 1) + 2 ^ (s * 8 - 2) + unscaled d1"
    using assms(3) by (auto elim: encodeDecimalText_image)
  moreover from assms(2) obtain s' where "decimalSize p = Ok s'"
    and "int (big_SetBytes b2) = 2 ^ (s' * 8 - 1) + 2 ^ (s' * 8 - 2) + unscaled d2"
    using assms(4) by (auto elim: encodeDecimalText_image)
  ultimately show ?thesis by (simp flip: of_nat_less_iff [where 'a = int])
qed

theorem decimal_codec_monotone_witness:
  "\<exists>b1 b2. encodeDecimalText (Some ''-7'') 3 0 = Ok b1 \<and> encodeDecimalText (Some ''12'') 3 0 = Ok b2
    \<and> big_SetBytes b1 < big_SetBytes b2"
proof -
  have d: "ParseDecimal ''-7'' 3 0 = Ok \<lparr>unscaled = -7, precision = 3, scale = 0\<rparr>"
    "ParseDecimal ''12'' 3 0 = Ok \<lparr>unscaled = 12, precision = 3, scale = 0\<rparr>"
    using ParseDecimal_digits [of 3 0 "''7''" "[]" "''7''" True]
      ParseDecimal_digits [of 3 0 "''12''" "[]" "''12''" False]
    by (simp_all add: parse_eval)
  from encodeDecimalText_image [OF d(1)] obtain b1 where e1: "encodeDecimalText (Some ''-7'') 3 0 = Ok b1"
    by blast
  from encodeDecimalText_image [OF d(2)] obtain b2 where e2: "encodeDecimalText (Some ''12'') 3 0 = Ok b2"
    by blast
  from decimal_codec_monotone [OF d e1 e2] e1 e2 show ?thesis by simp
qed

lemma ParseDecimal_String:
  assumes "decimal_wf d"
  shows "ParseDecimal (Decimal_String d) (precision d) (scale d) = Ok d"
proof -
  from assms have d: "NewDecimal (unscaled d) (precision d) (scale d) = Ok d"
    and sc: "0 \<le> scale d" and valid: "validateDecimalPrecisionScale (precision d) (scale d) = Ok ()"
    by (auto simp: decimal_wf_def NewDecimal_Ok_iff validateDecimalPrecisionScale_def)
  from Decimal_String_shape [OF sc] obtain i f t where
    str: "Decimal_String d = signed_text (unscaled d < 0) t"
    and shape: "i \<noteq> []" "list_all is_digit i" "list_all is_digit f" "t = i @ CHR ''.'' # f \<or> t = i \<and> f = []"
    and len: "length f = nat (scale d)" and val: "digits_val (i @ f) = nat (abs (unscaled d))" .
  have "parsed_magnitude i f (nat (scale d)) = nat (abs (unscaled d))"
    using len val by (simp add: parsed_magnitude_def)
  then have "(if unscaled d < 0 then -1 else 1) * int (parsed_magnitude i f (nat (scale d))) = unscaled d"
    by auto
  with ParseDecimal_digits [OF valid shape] d str show ?thesis by metis
qed

text \<open>
  Printing and parsing are inverse: the text of any decimal that the constructor accepts parses
  back, at its own precision and scale, to the same decimal.
\<close>

theorem Decimal_print_parse:
  assumes "decimal_wf d"
  shows "ParseDecimal (Decimal_String d) (precision d) (scale d) = Ok d"
  using assms by (rule ParseDecimal_String)

theorem Decimal_print_parse_witness:
  "ParseDecimal (Decimal_String \<lparr>unscaled = -5, precision = 3, scale = 2\<rparr>) 3 2
    = Ok \<lparr>unscaled = -5, precision = 3, scale = 2\<rparr>"
  using Decimal_print_parse [of "\<lparr>unscaled = -5, precision = 3, scale = 2\<rparr>"]
  by (simp add: decimal_wf_def NewDecimal_Ok_iff)

text \<open>
  Excess fractional digits are rounded half away from zero: for an optional sign, digits \<open>i\<close>
  and digits \<open>f\<close> after the point, the unscaled value is the signed nearest integer to
  \<open>i.f * 10 ^ scale\<close>, a tie going to the larger magnitude; a rounded value that needs more than
  \<open>precision\<close> digits is rejected by the constructor.
\<close>

theorem ParseDecimal_rounds:
  assumes "1 \<le> p" and "p \<le> 65" and "0 \<le> s" and "s \<le> 30" and "s \<le> p"
    and "i \<noteq> []" and "list_all is_digit i" and "list_all is_digit f"
  shows "ParseDecimal (signed_text neg (i @ ''.'' @ f)) p s
    = NewDecimal ((if neg then -1 else 1) * int ((2 * digits_val (i @ f) * 10 ^ nat s + 10 ^ length f)
        div (2 * 10 ^ length f))) p s"
proof -
  have "validateDecimalPrecisionScale p s = Ok ()"
    using assms(1-5) by (simp add: validateDecimalPrecisionScale_def)
  from ParseDecimal_digits [OF this assms(6-8), of "i @ ''.'' @ f" neg] show ?thesis
    by (simp add: parsed_magnitude_rounds [OF assms(8)])
qed

theorem ParseDecimal_rounds_witness:
  "ParseDecimal ''-1.235'' 3 2 = Ok \<lparr>unscaled = -124, precision = 3, scale = 2\<rparr>"
proof -
  show ?thesis
    using ParseDecimal_rounds [of 3 2 "''1''" "''235''" True]
    by (simp add: parse_eval)
qed

end
