(* ===== verification/Go_Float.thy ===== *)
theory Go_Float
  imports Prelude
begin

text \<open>
  IEEE floating point as bit patterns: a \<^verbatim>\<open>float64\<close> is its 64 bits, a \<^verbatim>\<open>float32\<close> its 32 bits. The
  conversions are those of Go on amd64: rounding to nearest even, infinities on overflow,
  truncation toward zero for integers, \<open>0x8000000000000000\<close> for an integer conversion out of range.
\<close>

section \<open>Rounding\<close>

fun bitlen :: "nat \<Rightarrow> nat" where
  "bitlen n = (if n = 0 then 0 else Suc (bitlen (n div 2)))"

declare bitlen.simps [simp del]

text \<open>\<open>m / 2 ^ k\<close> rounded to nearest, ties to even.\<close>

definition rne :: "nat \<Rightarrow> nat \<Rightarrow> nat" where
  "rne m k =
     (let d = 2 ^ k; a = m div d; r = m mod d
      in if 2 * r > d \<or> (2 * r = d \<and> odd a) then a + 1 else a)"

text \<open>
  The magnitude bits of \<open>m * 2 ^ e\<close> in a format with \<open>mb\<close> mantissa bits whose smallest quantum is
  \<open>2 ^ qmin\<close>; the exponent field comes out of the addition of the hidden bit.
\<close>

definition fp_round :: "nat \<Rightarrow> int \<Rightarrow> nat \<Rightarrow> nat \<Rightarrow> int \<Rightarrow> nat" where
  "fp_round mb qmin infb m e =
     (if m = 0 then 0
      else
        let q = max (e + int (bitlen m) - int (mb + 1)) qmin;
            m' = (if q \<le> e then m * 2 ^ nat (e - q) else rne m (nat (q - e)))
        in min infb (nat (q - qmin) * 2 ^ mb + m'))"

section \<open>The two formats\<close>

definition f64_sign :: "u64 \<Rightarrow> bool" where "f64_sign b = bit b 63"
definition f64_exp :: "u64 \<Rightarrow> nat" where "f64_exp b = unat b div 2 ^ 52 mod 2 ^ 11"
definition f64_man :: "u64 \<Rightarrow> nat" where "f64_man b = unat b mod 2 ^ 52"

definition f32_sign :: "u32 \<Rightarrow> bool" where "f32_sign b = bit b 31"
definition f32_exp :: "u32 \<Rightarrow> nat" where "f32_exp b = unat b div 2 ^ 23 mod 2 ^ 8"
definition f32_man :: "u32 \<Rightarrow> nat" where "f32_man b = unat b mod 2 ^ 23"

definition f64_make :: "bool \<Rightarrow> nat \<Rightarrow> u64" where
  "f64_make s mag = (if s then 2 ^ 63 else 0) + of_nat mag"

definition f32_make :: "bool \<Rightarrow> nat \<Rightarrow> u32" where
  "f32_make s mag = (if s then 2 ^ 31 else 0) + of_nat mag"

abbreviation (input) f64_inf :: nat where "f64_inf \<equiv> 2047 * 2 ^ 52"
abbreviation (input) f32_inf :: nat where "f32_inf \<equiv> 255 * 2 ^ 23"

definition f64_nan :: "u64 \<Rightarrow> bool" where
  "f64_nan b \<longleftrightarrow> f64_exp b = 2047 \<and> f64_man b \<noteq> 0"

text \<open>\<^verbatim>\<open>float64(x)\<close> of a \<^verbatim>\<open>float32\<close>.\<close>

definition f32_widen :: "u32 \<Rightarrow> u64" where
  "f32_widen b =
     (let s = f32_sign b; e = f32_exp b; m = f32_man b
      in if e = 255
         then f64_make s (if m = 0 then f64_inf else f64_inf + 2 ^ 51 + (m * 2 ^ 29) mod 2 ^ 51)
         else f64_make s (fp_round 52 (-1074) f64_inf (if e = 0 then m else m + 2 ^ 23) (int (max e 1) - 150)))"

text \<open>\<^verbatim>\<open>float32(x)\<close> of a \<^verbatim>\<open>float64\<close>.\<close>

definition f64_narrow :: "u64 \<Rightarrow> u32" where
  "f64_narrow b =
     (let s = f64_sign b; e = f64_exp b; m = f64_man b
      in if e = 2047
         then f32_make s (if m = 0 then f32_inf else f32_inf + 2 ^ 22 + (m div 2 ^ 29) mod 2 ^ 22)
         else f32_make s (fp_round 23 (-149) f32_inf (if e = 0 then m else m + 2 ^ 52) (int (max e 1) - 1075)))"

text \<open>\<^verbatim>\<open>float64(i)\<close> of an integer.\<close>

definition f64_of_int :: "int \<Rightarrow> u64" where
  "f64_of_int i = f64_make (i < 0) (fp_round 52 (-1074) f64_inf (nat (abs i)) 0)"

text \<open>The integer part of a finite float, toward zero.\<close>

definition f64_int_part :: "u64 \<Rightarrow> int" where
  "f64_int_part b =
     (let e = f64_exp b;
          m = (if e = 0 then f64_man b else f64_man b + 2 ^ 52);
          k = int (max e 1) - 1075;
          a = (if k \<ge> 0 then m * 2 ^ nat k else m div 2 ^ nat (- k))
      in if f64_sign b then - int a else int a)"

definition f64_to_int64 :: "u64 \<Rightarrow> goint" where
  "f64_to_int64 b =
     (if f64_exp b = 2047 \<or> f64_int_part b < - (2 ^ 63) \<or> f64_int_part b \<ge> 2 ^ 63
      then 2 ^ 63 else of_int (f64_int_part b))"

definition f64_to_uint64 :: "u64 \<Rightarrow> u64" where
  "f64_to_uint64 b =
     (if f64_exp b = 2047 \<or> f64_int_part b \<ge> 2 ^ 64 then 0
      else if f64_int_part b < - (2 ^ 63) then 2 ^ 63
      else of_int (f64_int_part b))"

text \<open>\<^verbatim>\<open>x < 0\<close> and \<^verbatim>\<open>x != 0\<close>.\<close>

definition f64_negative :: "u64 \<Rightarrow> bool" where
  "f64_negative b \<longleftrightarrow> f64_sign b \<and> \<not> f64_nan b \<and> (f64_exp b \<noteq> 0 \<or> f64_man b \<noteq> 0)"

definition f64_nonzero :: "u64 \<Rightarrow> bool" where
  "f64_nonzero b \<longleftrightarrow> f64_exp b \<noteq> 0 \<or> f64_man b \<noteq> 0"

section \<open>Widening and narrowing a float32 is the identity\<close>

lemma bitlen_bounds: "m \<noteq> 0 \<Longrightarrow> 2 ^ (bitlen m - 1) \<le> m \<and> m < 2 ^ bitlen m \<and> 0 < bitlen m"
proof (induction m rule: bitlen.induct)
  case (1 n)
  show ?case
  proof (cases "n div 2 = 0")
    case True
    with "1.prems" have "n = 1" by simp
    then show ?thesis by (simp add: bitlen.simps)
  next
    case False
    with 1 have ih: "2 ^ (bitlen (n div 2) - 1) \<le> n div 2" "n div 2 < 2 ^ bitlen (n div 2)" "0 < bitlen (n div 2)"
      by auto
    then obtain k where k: "bitlen (n div 2) = Suc k" by (cases "bitlen (n div 2)") auto
    have "bitlen n = Suc (Suc k)" using "1.prems" k by (subst bitlen.simps) simp
    moreover have "2 * (n div 2) \<le> n" "n \<le> 2 * (n div 2) + 1" by simp_all
    ultimately show ?thesis using ih k by auto
  qed
qed

lemma bitlen_unique: "2 ^ k \<le> m \<Longrightarrow> m < 2 ^ Suc k \<Longrightarrow> bitlen m = Suc k"
proof -
  assume m: "2 ^ k \<le> m" "m < 2 ^ Suc k"
  then have "m \<noteq> 0" by (metis not_le power_not_zero zero_less_numeral zero_less_power)
  note b = bitlen_bounds [OF this]
  from b m have "2 ^ (bitlen m - 1) < (2 :: nat) ^ Suc k" "(2 :: nat) ^ k < 2 ^ bitlen m" by linarith+
  then have "bitlen m - 1 < Suc k" "k < bitlen m" by (simp_all only: power_strict_increasing_iff one_less_numeral_iff semiring_norm)
  then show ?thesis by simp
qed

lemma rne_exact: "rne (m * 2 ^ k) k = m"
  by (simp add: rne_def)

lemma f64_fields:
  assumes "e < 2 ^ 11" and "m < 2 ^ 52"
  shows "f64_sign (f64_make s (e * 2 ^ 52 + m)) = s" and "f64_exp (f64_make s (e * 2 ^ 52 + m)) = e"
    and "f64_man (f64_make s (e * 2 ^ 52 + m)) = m"
proof -
  define x where "x = (if s then 2048 else 0) + e"
  let ?b = "f64_make s (e * 2 ^ 52 + m)"
  have "f64_make s (e * 2 ^ 52 + m) = of_nat (x * 2 ^ 52 + m)"
    by (simp add: f64_make_def x_def algebra_simps)
  moreover have lt: "x * 2 ^ 52 + m < 2 ^ 64"
  proof -
    have "x < 4096" using assms(1) by (auto simp: x_def)
    then have "x * 2 ^ 52 \<le> 4095 * 2 ^ 52" by (intro mult_right_mono) auto
    with assms(2) show ?thesis by simp
  qed
  ultimately have u: "unat ?b = x * 2 ^ 52 + m"
    by (simp only: unat_of_nat take_bit_nat_eq_self_iff) (simp add: take_bit_nat_eq_self)
  have xe: "x mod 2048 = e" "x div 2048 = (if s then 1 else 0)" using assms(1) by (auto simp: x_def)
  have d: "(x * 2 ^ 52 + m) div 2 ^ 52 = x" "(x * 2 ^ 52 + m) mod 2 ^ 52 = m"
    using assms(2) by (simp_all add: div_mult_self3 mod_mult_self3)
  show "f64_exp ?b = e" and "f64_man ?b = m"
    unfolding f64_exp_def f64_man_def u d using xe by simp_all
  have "bit ?b 63 \<longleftrightarrow> odd (unat ?b div 2 ^ 63)" by (rule bit_unat)
  also have "unat ?b div 2 ^ 63 = unat ?b div 2 ^ 52 div 2 ^ 11"
    by (simp flip: div_mult2_eq)
  also have "\<dots> = (if s then 1 else 0)" unfolding u d using xe(2) by simp
  finally show "f64_sign ?b = s" by (simp add: f64_sign_def)
qed

lemma f32_decompose: "b = f32_make (f32_sign b) (f32_exp b * 2 ^ 23 + f32_man b)"
proof -
  let ?u = "unat b"
  have lt: "?u < 2 ^ 32"
  proof -
    have "unat b < 2 ^ LENGTH(32)" by (rule unsigned_less)
    then show ?thesis by simp
  qed
  have sb: "f32_sign b \<longleftrightarrow> odd (?u div 2 ^ 31)"
    unfolding f32_sign_def by (rule bit_unat)
  have "?u div 2 ^ 31 < 2" using lt by (simp add: div_less_iff_less_mult)
  then have s: "?u div 2 ^ 31 = (if f32_sign b then 1 else 0)"
    using sb by (auto simp: less_2_cases_iff)
  have "?u = (?u div 2 ^ 31) * 2 ^ 31 + (?u div 2 ^ 23 mod 2 ^ 8 * 2 ^ 23 + ?u mod 2 ^ 23)"
  proof -
    have join: "u = D * 2 ^ 31 + (x * 2 ^ 23 + r)" if "u = c * 2 ^ 23 + r" "c = D * 2 ^ 8 + x"
      for u c r D x :: nat
      using that by simp
    have "?u div 2 ^ 23 div 2 ^ 8 = ?u div 2 ^ 31" by (simp flip: div_mult2_eq)
    then show ?thesis by (intro join [OF div_mult_mod_eq [symmetric]]) (metis div_mult_mod_eq)
  qed
  then have "?u = (if f32_sign b then 2 ^ 31 else 0) + (f32_exp b * 2 ^ 23 + f32_man b)"
    using s by (auto simp: f32_exp_def f32_man_def split: if_splits)
  then have "(of_nat ?u :: u32) = of_nat ((if f32_sign b then 2 ^ 31 else 0) + (f32_exp b * 2 ^ 23 + f32_man b))"
    by simp
  then show ?thesis by (cases "f32_sign b") (simp_all add: f32_make_def)
qed

lemma f32_man_less: "f32_man b < 2 ^ 23" and f32_exp_less: "f32_exp b < 2 ^ 8"
  by (simp_all add: f32_man_def f32_exp_def)

text \<open>
  The magnitude \<open>m * 2 ^ e\<close> of a float32, rounded to 53 bits, is exact, and rounding it back to 24
  bits gives \<open>m\<close> and \<open>e\<close> again.
\<close>

lemma fp_round_widen:
  assumes "m \<noteq> 0" and "m < 2 ^ 24" and "-149 \<le> e" and "e \<le> 104"
  defines "L \<equiv> bitlen m"
  shows "fp_round 52 (-1074) f64_inf m e = nat (e + int L + 1021) * 2 ^ 52 + m * 2 ^ (53 - L)"
    and "2 ^ 52 \<le> m * 2 ^ (53 - L)" and "m * 2 ^ (53 - L) < 2 ^ 53" and "1 \<le> L" and "L \<le> 24"
proof -
  note b = bitlen_bounds [OF assms(1), folded L_def]
  then show L1: "1 \<le> L" by simp
  have "2 ^ (L - 1) < (2 :: nat) ^ 24" using b assms(2) by linarith
  then have "L - 1 < 24" by (simp only: power_strict_increasing_iff one_less_numeral_iff semiring_norm)
  then show L24: "L \<le> 24" by simp
  have "2 ^ 52 = (2 :: nat) ^ (L - 1) * 2 ^ (53 - L)" "2 ^ 53 = (2 :: nat) ^ L * 2 ^ (53 - L)"
    using L1 L24 by (simp_all flip: power_add)
  with b show r: "2 ^ 52 \<le> m * 2 ^ (53 - L)" "m * 2 ^ (53 - L) < 2 ^ 53"
    by (simp_all only: mult_le_mono1 mult_less_mono1 zero_less_power zero_less_numeral)
  have q: "max (e + int L - 53) (-1074) = e + int L - 53" using assms(3) L1 by simp
  have "nat (e + int L + 1021) \<le> 1149" using assms(4) L24 by simp
  then have "nat (e + int L + 1021) * 2 ^ 52 + m * 2 ^ (53 - L) \<le> f64_inf"
    using r(2) mult_right_mono [of "nat (e + int L + 1021)" 1149 "2 ^ 52"] by simp
  moreover have "nat (e - (e + int L - 53)) = 53 - L" using L24 by simp
  moreover have "e + int L - 53 - (-1074) = e + int L + 1021" by simp
  ultimately show "fp_round 52 (-1074) f64_inf m e = nat (e + int L + 1021) * 2 ^ 52 + m * 2 ^ (53 - L)"
    using assms(1) L24 unfolding fp_round_def Let_def L_def [symmetric]
    by (simp add: q min_def add_ac)
qed

lemma fp_round_narrow:
  assumes "m \<noteq> 0" and "m < 2 ^ 24" and "-149 \<le> e" and "e \<le> 104" and "2 ^ 23 \<le> m \<or> e = -149"
  defines "L \<equiv> bitlen m"
  shows "fp_round 23 (-149) f32_inf (m * 2 ^ (53 - L)) (e + int L - 53) = min f32_inf (nat (e + 149) * 2 ^ 23 + m)"
proof -
  note w = fp_round_widen [OF assms(1-4), folded L_def]
  have len: "bitlen (m * 2 ^ (53 - L)) = 53" using w(2,3) bitlen_unique [of 52] by simp
  have L: "L = 24 \<or> e = -149"
    using assms(5) assms(2) bitlen_unique [of 23 m] by (auto simp: L_def)
  have q: "max (e + int L - 53 + 53 - 24) (-149) = e" using L w(5) assms(3) by auto
  have "nat (e - (e + int L - 53)) = 53 - L" using w(5) by simp
  moreover have "\<not> e \<le> e + int L - 53" using w(5) by simp
  ultimately show ?thesis
    using assms(1) unfolding fp_round_def Let_def len
    by (simp add: q [simplified] rne_exact)
qed

lemma f64_narrow_widen:
  assumes "f32_exp b \<noteq> 255"
  shows "f64_narrow (f32_widen b) = b"
proof -
  define e m M E where "e = f32_exp b" and "m = f32_man b"
    and "M = (if e = 0 then m else m + 2 ^ 23)" and "E = int (max e 1) - 150"
  have e: "e < 255" using assms f32_exp_less [of b] by (simp add: e_def)
  have m: "m < 2 ^ 23" using f32_man_less by (simp add: m_def)
  have b: "b = f32_make (f32_sign b) (e * 2 ^ 23 + m)" unfolding e_def m_def by (rule f32_decompose)
  have w: "f32_widen b = f64_make (f32_sign b) (fp_round 52 (-1074) f64_inf M E)"
    using e unfolding f32_widen_def Let_def e_def [symmetric] m_def [symmetric] M_def [symmetric] E_def [symmetric]
    by simp
  show ?thesis
  proof (cases "M = 0")
    case True
    then have "e = 0" "m = 0" by (auto simp: M_def split: if_splits)
    then have "b = f32_make (f32_sign b) 0" using b by simp
    moreover have "f64_narrow (f32_widen b) = f32_make (f32_sign b) 0"
      using f64_fields [of 0 0 "f32_sign b"] by (simp add: w True fp_round_def f64_narrow_def)
    ultimately show ?thesis by simp
  next
    case False
    define L where "L = bitlen M"
    have pre: "M < 2 ^ 24" "-149 \<le> E" "E \<le> 104" "2 ^ 23 \<le> M \<or> E = -149"
      using e m by (auto simp: M_def E_def)
    note wd = fp_round_widen [OF False pre(1-3), folded L_def]
    define X where "X = nat (E + int L + 1022)"
    have X: "X < 2 ^ 11" "1 \<le> X" "X \<noteq> 2047" using pre wd(4,5) by (auto simp: X_def)
    have nx: "nat (E + int L + 1021) = X - 1" using pre wd(4) by (simp add: X_def)
    define R where "R = M * 2 ^ (53 - L) - 2 ^ 52"
    have R: "R < 2 ^ 52" "M * 2 ^ (53 - L) = R + 2 ^ 52" using wd(2,3) by (simp_all add: R_def)
    have "fp_round 52 (-1074) f64_inf M E = X * 2 ^ 52 + R"
      using X(2) wd(1) R(2) nx by (cases X) auto
    then have f: "f64_sign (f32_widen b) = f32_sign b" "f64_exp (f32_widen b) = X" "f64_man (f32_widen b) = R"
      using f64_fields [OF X(1) R(1)] by (simp_all add: w)
    have "int (max X 1) - 1075 = E + int L - 53" using X(2) pre wd(4) by (simp add: X_def)
    then have "f64_narrow (f32_widen b)
        = f32_make (f32_sign b) (fp_round 23 (-149) f32_inf (M * 2 ^ (53 - L)) (E + int L - 53))"
      using X R(2) by (simp add: f64_narrow_def Let_def f)
    also have "\<dots> = f32_make (f32_sign b) (nat (E + 149) * 2 ^ 23 + M)"
    proof -
      have "nat (E + 149) * 2 ^ 23 + M \<le> f32_inf" using e m by (auto simp: E_def M_def max_def nat_diff_distrib)
      then show ?thesis using fp_round_narrow [OF False pre, folded L_def] by (simp add: min_def)
    qed
    also have "nat (E + 149) * 2 ^ 23 + M = e * 2 ^ 23 + m"
      by (auto simp: E_def M_def max_def nat_diff_distrib)
    finally show ?thesis using b by simp
  qed
qed

end
