(* ===== verification/Sql_Types.thy ===== *)
theory Sql_Types
  imports Go_Strings
begin

text \<open>
  The three type vocabularies of \<^verbatim>\<open>api/sqltypes.go\<close>, \<^verbatim>\<open>api/columntypes.go\<close> and
  \<^verbatim>\<open>api/datatypes.go\<close> and the conversions between them. \<^verbatim>\<open>SqlType\<close> and \<^verbatim>\<open>ColumnType\<close> are Go
  integer types, so a value outside the named constants is possible and every conversion has its
  default branch; \<^verbatim>\<open>DataType\<close> is a Go string type.
\<close>

section \<open>SqlType\<close>

type_synonym SqlType = int

abbreviation (input) SqlTypeString :: SqlType where "SqlTypeString \<equiv> 1"
abbreviation (input) SqlTypeDatetime :: SqlType where "SqlTypeDatetime \<equiv> 2"
abbreviation (input) SqlTypeFloat :: SqlType where "SqlTypeFloat \<equiv> 3"
abbreviation (input) SqlTypeDouble :: SqlType where "SqlTypeDouble \<equiv> 4"
abbreviation (input) SqlTypeIPv4 :: SqlType where "SqlTypeIPv4 \<equiv> 5"
abbreviation (input) SqlTypeIPv6 :: SqlType where "SqlTypeIPv6 \<equiv> 6"
abbreviation (input) SqlTypeBinary :: SqlType where "SqlTypeBinary \<equiv> 7"
abbreviation (input) SqlTypeInt16 :: SqlType where "SqlTypeInt16 \<equiv> 8"
abbreviation (input) SqlTypeInt32 :: SqlType where "SqlTypeInt32 \<equiv> 9"
abbreviation (input) SqlTypeInt64 :: SqlType where "SqlTypeInt64 \<equiv> 10"
abbreviation (input) SqlTypeUInt16 :: SqlType where "SqlTypeUInt16 \<equiv> 11"
abbreviation (input) SqlTypeUInt32 :: SqlType where "SqlTypeUInt32 \<equiv> 12"
abbreviation (input) SqlTypeUInt64 :: SqlType where "SqlTypeUInt64 \<equiv> 13"
abbreviation (input) SqlTypeJSON :: SqlType where "SqlTypeJSON \<equiv> 14"
abbreviation (input) SqlTypeDecimal :: SqlType where "SqlTypeDecimal \<equiv> 15"
abbreviation (input) SqlTypeInt16Array :: SqlType where "SqlTypeInt16Array \<equiv> 16"
abbreviation (input) SqlTypeUInt16Array :: SqlType where "SqlTypeUInt16Array \<equiv> 17"
abbreviation (input) SqlTypeInt32Array :: SqlType where "SqlTypeInt32Array \<equiv> 18"
abbreviation (input) SqlTypeUInt32Array :: SqlType where "SqlTypeUInt32Array \<equiv> 19"
abbreviation (input) SqlTypeInt64Array :: SqlType where "SqlTypeInt64Array \<equiv> 20"
abbreviation (input) SqlTypeUInt64Array :: SqlType where "SqlTypeUInt64Array \<equiv> 21"
abbreviation (input) SqlTypeFloatArray :: SqlType where "SqlTypeFloatArray \<equiv> 22"
abbreviation (input) SqlTypeDoubleArray :: SqlType where "SqlTypeDoubleArray \<equiv> 23"
abbreviation (input) SqlTypeDecimalArray :: SqlType where "SqlTypeDecimalArray \<equiv> 24"

section \<open>ColumnType\<close>

type_synonym ColumnType = int

abbreviation (input) ColumnTypeShort :: ColumnType where "ColumnTypeShort \<equiv> 4"
abbreviation (input) ColumnTypeUShort :: ColumnType where "ColumnTypeUShort \<equiv> 104"
abbreviation (input) ColumnTypeInteger :: ColumnType where "ColumnTypeInteger \<equiv> 8"
abbreviation (input) ColumnTypeUInteger :: ColumnType where "ColumnTypeUInteger \<equiv> 108"
abbreviation (input) ColumnTypeLong :: ColumnType where "ColumnTypeLong \<equiv> 12"
abbreviation (input) ColumnTypeULong :: ColumnType where "ColumnTypeULong \<equiv> 112"
abbreviation (input) ColumnTypeFloat :: ColumnType where "ColumnTypeFloat \<equiv> 16"
abbreviation (input) ColumnTypeDouble :: ColumnType where "ColumnTypeDouble \<equiv> 20"
abbreviation (input) ColumnTypeVarchar :: ColumnType where "ColumnTypeVarchar \<equiv> 5"
abbreviation (input) ColumnTypeText :: ColumnType where "ColumnTypeText \<equiv> 49"
abbreviation (input) ColumnTypeClob :: ColumnType where "ColumnTypeClob \<equiv> 53"
abbreviation (input) ColumnTypeBlob :: ColumnType where "ColumnTypeBlob \<equiv> 57"
abbreviation (input) ColumnTypeBinary :: ColumnType where "ColumnTypeBinary \<equiv> 97"
abbreviation (input) ColumnTypeDatetime :: ColumnType where "ColumnTypeDatetime \<equiv> 6"
abbreviation (input) ColumnTypeIPv4 :: ColumnType where "ColumnTypeIPv4 \<equiv> 32"
abbreviation (input) ColumnTypeIPv6 :: ColumnType where "ColumnTypeIPv6 \<equiv> 36"
abbreviation (input) ColumnTypeIPNet :: ColumnType where "ColumnTypeIPNet \<equiv> 101"
abbreviation (input) ColumnTypeJSON :: ColumnType where "ColumnTypeJSON \<equiv> 61"
abbreviation (input) ColumnTypeNull :: ColumnType where "ColumnTypeNull \<equiv> 24"
abbreviation (input) ColumnTypeBool :: ColumnType where "ColumnTypeBool \<equiv> 40"
abbreviation (input) ColumnTypeDecimal :: ColumnType where "ColumnTypeDecimal \<equiv> 132"
abbreviation (input) ColumnTypeInt16Array :: ColumnType where "ColumnTypeInt16Array \<equiv> 137"
abbreviation (input) ColumnTypeUInt16Array :: ColumnType where "ColumnTypeUInt16Array \<equiv> 141"
abbreviation (input) ColumnTypeInt32Array :: ColumnType where "ColumnTypeInt32Array \<equiv> 145"
abbreviation (input) ColumnTypeUInt32Array :: ColumnType where "ColumnTypeUInt32Array \<equiv> 149"
abbreviation (input) ColumnTypeInt64Array :: ColumnType where "ColumnTypeInt64Array \<equiv> 153"
abbreviation (input) ColumnTypeUInt64Array :: ColumnType where "ColumnTypeUInt64Array \<equiv> 157"
abbreviation (input) ColumnTypeFloatArray :: ColumnType where "ColumnTypeFloatArray \<equiv> 161"
abbreviation (input) ColumnTypeDoubleArray :: ColumnType where "ColumnTypeDoubleArray \<equiv> 165"
abbreviation (input) ColumnTypeDecimalArray :: ColumnType where "ColumnTypeDecimalArray \<equiv> 169"
abbreviation (input) ColumnTypeChar :: ColumnType where "ColumnTypeChar \<equiv> 45"
abbreviation (input) ColumnTypeUnknown :: ColumnType where "ColumnTypeUnknown \<equiv> 0"

abbreviation (input) COLUMN_TYPE_SHORT :: string where "COLUMN_TYPE_SHORT \<equiv> ''short''"
abbreviation (input) COLUMN_TYPE_USHORT :: string where "COLUMN_TYPE_USHORT \<equiv> ''ushort''"
abbreviation (input) COLUMN_TYPE_INTEGER :: string where "COLUMN_TYPE_INTEGER \<equiv> ''integer''"
abbreviation (input) COLUMN_TYPE_UINTEGER :: string where "COLUMN_TYPE_UINTEGER \<equiv> ''uinteger''"
abbreviation (input) COLUMN_TYPE_LONG :: string where "COLUMN_TYPE_LONG \<equiv> ''long''"
abbreviation (input) COLUMN_TYPE_ULONG :: string where "COLUMN_TYPE_ULONG \<equiv> ''ulong''"
abbreviation (input) COLUMN_TYPE_FLOAT :: string where "COLUMN_TYPE_FLOAT \<equiv> ''float''"
abbreviation (input) COLUMN_TYPE_DOUBLE :: string where "COLUMN_TYPE_DOUBLE \<equiv> ''double''"
abbreviation (input) COLUMN_TYPE_DATETIME :: string where "COLUMN_TYPE_DATETIME \<equiv> ''datetime''"
abbreviation (input) COLUMN_TYPE_VARCHAR :: string where "COLUMN_TYPE_VARCHAR \<equiv> ''varchar''"
abbreviation (input) COLUMN_TYPE_IPV4 :: string where "COLUMN_TYPE_IPV4 \<equiv> ''ipv4''"
abbreviation (input) COLUMN_TYPE_IPV6 :: string where "COLUMN_TYPE_IPV6 \<equiv> ''ipv6''"
abbreviation (input) COLUMN_TYPE_TEXT :: string where "COLUMN_TYPE_TEXT \<equiv> ''text''"
abbreviation (input) COLUMN_TYPE_CLOB :: string where "COLUMN_TYPE_CLOB \<equiv> ''clob''"
abbreviation (input) COLUMN_TYPE_BLOB :: string where "COLUMN_TYPE_BLOB \<equiv> ''blob''"
abbreviation (input) COLUMN_TYPE_BINARY :: string where "COLUMN_TYPE_BINARY \<equiv> ''binary''"
abbreviation (input) COLUMN_TYPE_JSON :: string where "COLUMN_TYPE_JSON \<equiv> ''json''"
abbreviation (input) COLUMN_TYPE_DECIMAL :: string where "COLUMN_TYPE_DECIMAL \<equiv> ''decimal''"

section \<open>DataType\<close>

type_synonym DataType = string

abbreviation (input) DataTypeUnknown :: DataType where "DataTypeUnknown \<equiv> ''''"
abbreviation (input) DataTypeInt16 :: DataType where "DataTypeInt16 \<equiv> ''int16''"
abbreviation (input) DataTypeInt32 :: DataType where "DataTypeInt32 \<equiv> ''int32''"
abbreviation (input) DataTypeInt64 :: DataType where "DataTypeInt64 \<equiv> ''int64''"
abbreviation (input) DataTypeDatetime :: DataType where "DataTypeDatetime \<equiv> ''datetime''"
abbreviation (input) DataTypeFloat32 :: DataType where "DataTypeFloat32 \<equiv> ''float''"
abbreviation (input) DataTypeFloat64 :: DataType where "DataTypeFloat64 \<equiv> ''double''"
abbreviation (input) DataTypeIPv4 :: DataType where "DataTypeIPv4 \<equiv> ''ipv4''"
abbreviation (input) DataTypeIPv6 :: DataType where "DataTypeIPv6 \<equiv> ''ipv6''"
abbreviation (input) DataTypeString :: DataType where "DataTypeString \<equiv> ''string''"
abbreviation (input) DataTypeBinary :: DataType where "DataTypeBinary \<equiv> ''binary''"
abbreviation (input) DataTypeUInt16 :: DataType where "DataTypeUInt16 \<equiv> ''uint16''"
abbreviation (input) DataTypeUInt32 :: DataType where "DataTypeUInt32 \<equiv> ''uint32''"
abbreviation (input) DataTypeUInt64 :: DataType where "DataTypeUInt64 \<equiv> ''uint64''"
abbreviation (input) DataTypeJSON :: DataType where "DataTypeJSON \<equiv> ''json''"
abbreviation (input) DataTypeDecimal :: DataType where "DataTypeDecimal \<equiv> ''decimal''"
abbreviation (input) DataTypeArray :: DataType where "DataTypeArray \<equiv> ''array''"
abbreviation (input) DataTypeInt16Array :: DataType where "DataTypeInt16Array \<equiv> ''int16_array''"
abbreviation (input) DataTypeUInt16Array :: DataType where "DataTypeUInt16Array \<equiv> ''uint16_array''"
abbreviation (input) DataTypeInt32Array :: DataType where "DataTypeInt32Array \<equiv> ''int32_array''"
abbreviation (input) DataTypeUInt32Array :: DataType where "DataTypeUInt32Array \<equiv> ''uint32_array''"
abbreviation (input) DataTypeInt64Array :: DataType where "DataTypeInt64Array \<equiv> ''int64_array''"
abbreviation (input) DataTypeUInt64Array :: DataType where "DataTypeUInt64Array \<equiv> ''uint64_array''"
abbreviation (input) DataTypeFloatArray :: DataType where "DataTypeFloatArray \<equiv> ''float_array''"
abbreviation (input) DataTypeDoubleArray :: DataType where "DataTypeDoubleArray \<equiv> ''double_array''"
abbreviation (input) DataTypeDecimalArray :: DataType where "DataTypeDecimalArray \<equiv> ''decimal_array''"
abbreviation (input) DataTypeBoolean :: DataType where "DataTypeBoolean \<equiv> ''bool''"
abbreviation (input) DataTypeByte :: DataType where "DataTypeByte \<equiv> ''int8''"
abbreviation (input) DataTypeAny :: DataType where "DataTypeAny \<equiv> ''any''"
abbreviation (input) DataTypeList :: DataType where "DataTypeList \<equiv> ''list''"
abbreviation (input) DataTypeDict :: DataType where "DataTypeDict \<equiv> ''dict''"

section \<open>SqlType operations\<close>

definition SqlType_String :: "SqlType \<Rightarrow> string" where
  "SqlType_String st =
     switch st
     [([SqlTypeInt16], ''INT16''),
      ([SqlTypeUInt16], ''UINT16''),
      ([SqlTypeInt32], ''INT32''),
      ([SqlTypeUInt32], ''UINT32''),
      ([SqlTypeInt64], ''INT64''),
      ([SqlTypeUInt64], ''UINT64''),
      ([SqlTypeDatetime], ''DATETIME''),
      ([SqlTypeFloat], ''FLOAT''),
      ([SqlTypeDouble], ''DOUBLE''),
      ([SqlTypeIPv4], ''IPV4''),
      ([SqlTypeIPv6], ''IPV6''),
      ([SqlTypeString], ''STRING''),
      ([SqlTypeBinary], ''BINARY''),
      ([SqlTypeJSON], ''JSON''),
      ([SqlTypeDecimal], ''DECIMAL''),
      ([SqlTypeInt16Array], ''INT16_ARRAY''),
      ([SqlTypeUInt16Array], ''UINT16_ARRAY''),
      ([SqlTypeInt32Array], ''INT32_ARRAY''),
      ([SqlTypeUInt32Array], ''UINT32_ARRAY''),
      ([SqlTypeInt64Array], ''INT64_ARRAY''),
      ([SqlTypeUInt64Array], ''UINT64_ARRAY''),
      ([SqlTypeFloatArray], ''FLOAT_ARRAY''),
      ([SqlTypeDoubleArray], ''DOUBLE_ARRAY''),
      ([SqlTypeDecimalArray], ''DECIMAL_ARRAY'')]
     (''UNKNOWN('' @ itoa st @ '')'')"

definition SqlType_IsArray :: "SqlType \<Rightarrow> bool" where
  "SqlType_IsArray st \<longleftrightarrow> st \<ge> SqlTypeInt16Array \<and> st \<le> SqlTypeDecimalArray"

definition SqlType_ArrayType :: "SqlType \<Rightarrow> SqlType" where
  "SqlType_ArrayType st =
     switch st
     [([SqlTypeInt16], SqlTypeInt16Array),
      ([SqlTypeUInt16], SqlTypeUInt16Array),
      ([SqlTypeInt32], SqlTypeInt32Array),
      ([SqlTypeUInt32], SqlTypeUInt32Array),
      ([SqlTypeInt64], SqlTypeInt64Array),
      ([SqlTypeUInt64], SqlTypeUInt64Array),
      ([SqlTypeFloat], SqlTypeFloatArray),
      ([SqlTypeDouble], SqlTypeDoubleArray),
      ([SqlTypeDecimal], SqlTypeDecimalArray)]
     st"

definition SqlType_ElementType :: "SqlType \<Rightarrow> SqlType" where
  "SqlType_ElementType st =
     switch st
     [([SqlTypeInt16Array], SqlTypeInt16),
      ([SqlTypeUInt16Array], SqlTypeUInt16),
      ([SqlTypeInt32Array], SqlTypeInt32),
      ([SqlTypeUInt32Array], SqlTypeUInt32),
      ([SqlTypeInt64Array], SqlTypeInt64),
      ([SqlTypeUInt64Array], SqlTypeUInt64),
      ([SqlTypeFloatArray], SqlTypeFloat),
      ([SqlTypeDoubleArray], SqlTypeDouble),
      ([SqlTypeDecimalArray], SqlTypeDecimal)]
     st"

definition SqlType_ColumnType :: "SqlType \<Rightarrow> ColumnType" where
  "SqlType_ColumnType st =
     switch st
     [([SqlTypeInt16], ColumnTypeShort),
      ([SqlTypeUInt16], ColumnTypeUShort),
      ([SqlTypeInt32], ColumnTypeInteger),
      ([SqlTypeUInt32], ColumnTypeUInteger),
      ([SqlTypeInt64], ColumnTypeLong),
      ([SqlTypeUInt64], ColumnTypeULong),
      ([SqlTypeDatetime], ColumnTypeDatetime),
      ([SqlTypeFloat], ColumnTypeFloat),
      ([SqlTypeDouble], ColumnTypeDouble),
      ([SqlTypeIPv4], ColumnTypeIPv4),
      ([SqlTypeIPv6], ColumnTypeIPv6),
      ([SqlTypeString], ColumnTypeVarchar),
      ([SqlTypeBinary], ColumnTypeBinary),
      ([SqlTypeDecimal], ColumnTypeDecimal),
      ([SqlTypeInt16Array], ColumnTypeInt16Array),
      ([SqlTypeUInt16Array], ColumnTypeUInt16Array),
      ([SqlTypeInt32Array], ColumnTypeInt32Array),
      ([SqlTypeUInt32Array], ColumnTypeUInt32Array),
      ([SqlTypeInt64Array], ColumnTypeInt64Array),
      ([SqlTypeUInt64Array], ColumnTypeUInt64Array),
      ([SqlTypeFloatArray], ColumnTypeFloatArray),
      ([SqlTypeDoubleArray], ColumnTypeDoubleArray),
      ([SqlTypeDecimalArray], ColumnTypeDecimalArray)]
     ColumnTypeUnknown"

definition SqlType_DataType :: "SqlType \<Rightarrow> DataType" where
  "SqlType_DataType st =
     switch st
     [([SqlTypeInt16], DataTypeInt16),
      ([SqlTypeInt32], DataTypeInt32),
      ([SqlTypeInt64], DataTypeInt64),
      ([SqlTypeDatetime], DataTypeDatetime),
      ([SqlTypeFloat], DataTypeFloat32),
      ([SqlTypeDouble], DataTypeFloat64),
      ([SqlTypeIPv4], DataTypeIPv4),
      ([SqlTypeIPv6], DataTypeIPv6),
      ([SqlTypeString], DataTypeString),
      ([SqlTypeBinary], DataTypeBinary),
      ([SqlTypeUInt16], DataTypeUInt16),
      ([SqlTypeUInt32], DataTypeUInt32),
      ([SqlTypeUInt64], DataTypeUInt64),
      ([SqlTypeJSON], DataTypeJSON),
      ([SqlTypeDecimal], DataTypeDecimal),
      ([SqlTypeInt16Array], DataTypeInt16Array),
      ([SqlTypeUInt16Array], DataTypeUInt16Array),
      ([SqlTypeInt32Array], DataTypeInt32Array),
      ([SqlTypeUInt32Array], DataTypeUInt32Array),
      ([SqlTypeInt64Array], DataTypeInt64Array),
      ([SqlTypeUInt64Array], DataTypeUInt64Array),
      ([SqlTypeFloatArray], DataTypeFloatArray),
      ([SqlTypeDoubleArray], DataTypeDoubleArray),
      ([SqlTypeDecimalArray], DataTypeDecimalArray)]
     DataTypeAny"

datatype Nullability = NullabilityUnknown | NullabilityNoNulls | NullabilityNullable

section \<open>ColumnType operations\<close>

definition ColumnType_String :: "ColumnType \<Rightarrow> string" where
  "ColumnType_String typ =
     switch typ
     [([ColumnTypeShort], COLUMN_TYPE_SHORT),
      ([ColumnTypeUShort], COLUMN_TYPE_USHORT),
      ([ColumnTypeInteger], COLUMN_TYPE_INTEGER),
      ([ColumnTypeUInteger], COLUMN_TYPE_UINTEGER),
      ([ColumnTypeLong], COLUMN_TYPE_LONG),
      ([ColumnTypeULong], COLUMN_TYPE_ULONG),
      ([ColumnTypeFloat], COLUMN_TYPE_FLOAT),
      ([ColumnTypeDouble], COLUMN_TYPE_DOUBLE),
      ([ColumnTypeVarchar], COLUMN_TYPE_VARCHAR),
      ([ColumnTypeText], COLUMN_TYPE_TEXT),
      ([ColumnTypeClob], COLUMN_TYPE_CLOB),
      ([ColumnTypeBlob], COLUMN_TYPE_BLOB),
      ([ColumnTypeBinary], COLUMN_TYPE_BINARY),
      ([ColumnTypeDatetime], COLUMN_TYPE_DATETIME),
      ([ColumnTypeIPv4], COLUMN_TYPE_IPV4),
      ([ColumnTypeIPv6], COLUMN_TYPE_IPV6),
      ([ColumnTypeJSON], COLUMN_TYPE_JSON),
      ([ColumnTypeDecimal], COLUMN_TYPE_DECIMAL),
      ([ColumnTypeInt16Array], ''int16_array''),
      ([ColumnTypeUInt16Array], ''uint16_array''),
      ([ColumnTypeInt32Array], ''int32_array''),
      ([ColumnTypeUInt32Array], ''uint32_array''),
      ([ColumnTypeInt64Array], ''int64_array''),
      ([ColumnTypeUInt64Array], ''uint64_array''),
      ([ColumnTypeFloatArray], ''float_array''),
      ([ColumnTypeDoubleArray], ''double_array''),
      ([ColumnTypeDecimalArray], ''decimal_array'')]
     (''UndefinedColumnType-'' @ itoa typ)"

definition ParseColumnType :: "string \<Rightarrow> ColumnType" where
  "ParseColumnType typeName =
     switch (ToLower typeName)
     [([COLUMN_TYPE_SHORT], ColumnTypeShort),
      ([COLUMN_TYPE_USHORT], ColumnTypeUShort),
      ([COLUMN_TYPE_INTEGER], ColumnTypeInteger),
      ([COLUMN_TYPE_UINTEGER], ColumnTypeUInteger),
      ([COLUMN_TYPE_LONG], ColumnTypeLong),
      ([COLUMN_TYPE_ULONG], ColumnTypeULong),
      ([COLUMN_TYPE_FLOAT], ColumnTypeFloat),
      ([COLUMN_TYPE_DOUBLE], ColumnTypeDouble),
      ([COLUMN_TYPE_VARCHAR], ColumnTypeVarchar),
      ([COLUMN_TYPE_TEXT], ColumnTypeText),
      ([COLUMN_TYPE_CLOB], ColumnTypeClob),
      ([COLUMN_TYPE_BLOB], ColumnTypeBlob),
      ([COLUMN_TYPE_BINARY], ColumnTypeBinary),
      ([COLUMN_TYPE_DATETIME], ColumnTypeDatetime),
      ([COLUMN_TYPE_IPV4], ColumnTypeIPv4),
      ([COLUMN_TYPE_IPV6], ColumnTypeIPv6),
      ([COLUMN_TYPE_JSON], ColumnTypeJSON),
      ([COLUMN_TYPE_DECIMAL], ColumnTypeDecimal),
      ([''int16_array''], ColumnTypeInt16Array),
      ([''uint16_array''], ColumnTypeUInt16Array),
      ([''int32_array''], ColumnTypeInt32Array),
      ([''uint32_array''], ColumnTypeUInt32Array),
      ([''int64_array''], ColumnTypeInt64Array),
      ([''uint64_array''], ColumnTypeUInt64Array),
      ([''float_array''], ColumnTypeFloatArray),
      ([''double_array''], ColumnTypeDoubleArray),
      ([''decimal_array''], ColumnTypeDecimalArray)]
     ColumnTypeUnknown"

definition ColumnType_ToSqlType :: "ColumnType \<Rightarrow> SqlType" where
  "ColumnType_ToSqlType typ =
     switch typ
     [([ColumnTypeShort], SqlTypeInt16),
      ([ColumnTypeUShort], SqlTypeUInt16),
      ([ColumnTypeInteger], SqlTypeInt32),
      ([ColumnTypeUInteger], SqlTypeUInt32),
      ([ColumnTypeLong], SqlTypeInt64),
      ([ColumnTypeULong], SqlTypeUInt64),
      ([ColumnTypeDatetime], SqlTypeDatetime),
      ([ColumnTypeFloat], SqlTypeFloat),
      ([ColumnTypeDouble], SqlTypeDouble),
      ([ColumnTypeIPv4], SqlTypeIPv4),
      ([ColumnTypeIPv6], SqlTypeIPv6),
      ([ColumnTypeVarchar], SqlTypeString),
      ([ColumnTypeBinary], SqlTypeBinary),
      ([ColumnTypeDecimal], SqlTypeDecimal),
      ([ColumnTypeInt16Array], SqlTypeInt16Array),
      ([ColumnTypeUInt16Array], SqlTypeUInt16Array),
      ([ColumnTypeInt32Array], SqlTypeInt32Array),
      ([ColumnTypeUInt32Array], SqlTypeUInt32Array),
      ([ColumnTypeInt64Array], SqlTypeInt64Array),
      ([ColumnTypeUInt64Array], SqlTypeUInt64Array),
      ([ColumnTypeFloatArray], SqlTypeFloatArray),
      ([ColumnTypeDoubleArray], SqlTypeDoubleArray),
      ([ColumnTypeDecimalArray], SqlTypeDecimalArray)]
     SqlTypeString"

text \<open>The destination that \<^verbatim>\<open>MakeBuffer\<close> allocates, by its Go type.\<close>

datatype scan_buffer =
    NullInt16 | NullUint16 | NullInt32 | NullUint32 | NullInt64 | NullUint64 | NullFloat32
  | NullFloat64 | NullString | NullIP | NullJSONString | NullTime | NullBytes | NullDecimal
  | NullBool | BufArray | BufInt16 | BufUint16 | BufInt32 | BufUint32 | BufInt64 | BufUint64
  | BufTime | BufFloat32 | BufFloat64 | BufIP | BufString | BufJSONString | BufBytes | BufDecimal
  | BufBool | BufByte

definition ColumnType_MakeBuffer :: "ColumnType \<Rightarrow> scan_buffer outcome" where
  "ColumnType_MakeBuffer typ =
     switch typ
     [([ColumnTypeShort], Ok NullInt16),
      ([ColumnTypeUShort], Ok NullUint16),
      ([ColumnTypeInteger], Ok NullInt32),
      ([ColumnTypeUInteger], Ok NullUint32),
      ([ColumnTypeLong], Ok NullInt64),
      ([ColumnTypeULong], Ok NullUint64),
      ([ColumnTypeFloat], Ok NullFloat32),
      ([ColumnTypeDouble], Ok NullFloat64),
      ([ColumnTypeVarchar], Ok NullString),
      ([ColumnTypeText], Ok NullString),
      ([ColumnTypeIPv4], Ok NullIP),
      ([ColumnTypeIPv6], Ok NullIP),
      ([ColumnTypeJSON], Ok NullJSONString),
      ([ColumnTypeDatetime], Ok NullTime),
      ([ColumnTypeBinary], Ok NullBytes),
      ([ColumnTypeDecimal], Ok NullDecimal),
      ([ColumnTypeInt16Array, ColumnTypeUInt16Array, ColumnTypeInt32Array, ColumnTypeUInt32Array, ColumnTypeInt64Array, ColumnTypeUInt64Array, ColumnTypeFloatArray, ColumnTypeDoubleArray, ColumnTypeDecimalArray], Ok BufArray)]
     (Err (PlainErr ''unsupported column type''))"

definition ColumnType_DataType :: "ColumnType \<Rightarrow> DataType" where
  "ColumnType_DataType typ =
     switch typ
     [([ColumnTypeShort], DataTypeInt16),
      ([ColumnTypeUShort], DataTypeUInt16),
      ([ColumnTypeInteger], DataTypeInt32),
      ([ColumnTypeUInteger], DataTypeUInt32),
      ([ColumnTypeLong], DataTypeInt64),
      ([ColumnTypeULong], DataTypeUInt64),
      ([ColumnTypeFloat], DataTypeFloat32),
      ([ColumnTypeDouble], DataTypeFloat64),
      ([ColumnTypeVarchar], DataTypeString),
      ([ColumnTypeText], DataTypeString),
      ([ColumnTypeClob], DataTypeBinary),
      ([ColumnTypeBlob], DataTypeBinary),
      ([ColumnTypeBinary], DataTypeBinary),
      ([ColumnTypeDatetime], DataTypeDatetime),
      ([ColumnTypeIPv4], DataTypeIPv4),
      ([ColumnTypeIPv6], DataTypeIPv6),
      ([ColumnTypeJSON], DataTypeJSON),
      ([ColumnTypeDecimal], DataTypeDecimal),
      ([ColumnTypeInt16Array, ColumnTypeUInt16Array, ColumnTypeInt32Array, ColumnTypeUInt32Array, ColumnTypeInt64Array, ColumnTypeUInt64Array, ColumnTypeFloatArray, ColumnTypeDoubleArray, ColumnTypeDecimalArray], DataTypeArray)]
     (''UndefinedColumnType-'' @ itoa typ)"

text \<open>Column flags are bits of a Go \<^verbatim>\<open>int\<close>.\<close>

type_synonym ColumnFlag = goint

abbreviation (input) ColumnFlagAutoIncrement :: ColumnFlag where "ColumnFlagAutoIncrement \<equiv> 0x00100000"
abbreviation (input) ColumnFlagPrimaryKey :: ColumnFlag where "ColumnFlagPrimaryKey \<equiv> 0x00400000"
abbreviation (input) ColumnFlagNotNull :: ColumnFlag where "ColumnFlagNotNull \<equiv> 0x00800000"
abbreviation (input) ColumnFlagTagName :: ColumnFlag where "ColumnFlagTagName \<equiv> 0x08000000"
abbreviation (input) ColumnFlagBasetime :: ColumnFlag where "ColumnFlagBasetime \<equiv> 0x01000000"
abbreviation (input) ColumnFlagSummarized :: ColumnFlag where "ColumnFlagSummarized \<equiv> 0x02000000"
abbreviation (input) ColumnFlagMetaColumn :: ColumnFlag where "ColumnFlagMetaColumn \<equiv> 0x04000000"
abbreviation (input) ColumnFlagDefault :: ColumnFlag where "ColumnFlagDefault \<equiv> 0x40000000"
abbreviation (input) ColumnFlagBaseDistance :: ColumnFlag where "ColumnFlagBaseDistance \<equiv> 0x11000000"

definition ColumnFlag_String :: "ColumnFlag \<Rightarrow> string" where
  "ColumnFlag_String flag =
     (let has = (\<lambda>b. flag AND b = b);
          rt = (if has ColumnFlagPrimaryKey then [''primary key'']
                else if has ColumnFlagNotNull then [''not null''] else []);
          rt = rt @ (if has ColumnFlagAutoIncrement then [''auto increment''] else []);
          rt = rt @ (if has ColumnFlagTagName then [''tag name''] else []);
          rt = rt @ (if has ColumnFlagBasetime then [''base time''] else []);
          rt = rt @ (if has ColumnFlagBaseDistance then [''base distance''] else []);
          rt = rt @ (if has ColumnFlagSummarized then [''summarized''] else []);
          rt = rt @ (if has ColumnFlagMetaColumn then [''meta''] else []);
          rt = rt @ (if has ColumnFlagDefault then [''default''] else [])
      in Join rt '', '')"

section \<open>DataType operations\<close>

definition DataType_ColumnType :: "DataType \<Rightarrow> ColumnType" where
  "DataType_ColumnType typ =
     switch typ
     [([DataTypeInt16], ColumnTypeShort),
      ([DataTypeInt32], ColumnTypeInteger),
      ([DataTypeInt64], ColumnTypeLong),
      ([DataTypeDatetime], ColumnTypeDatetime),
      ([DataTypeFloat32], ColumnTypeFloat),
      ([DataTypeFloat64], ColumnTypeDouble),
      ([DataTypeIPv4], ColumnTypeIPv4),
      ([DataTypeIPv6], ColumnTypeIPv6),
      ([DataTypeString], ColumnTypeVarchar),
      ([DataTypeBinary], ColumnTypeBlob),
      ([DataTypeBoolean], ColumnTypeInteger),
      ([DataTypeDecimal], ColumnTypeDecimal),
      ([DataTypeByte], ColumnTypeInteger)]
     (switch (ToLower typ)
      [([COLUMN_TYPE_SHORT], ColumnTypeShort),
       ([COLUMN_TYPE_USHORT, ''unsigned short''], ColumnTypeUShort),
       ([COLUMN_TYPE_INTEGER, ''int''], ColumnTypeInteger),
       ([COLUMN_TYPE_UINTEGER, ''unsigned integer''], ColumnTypeUInteger),
       ([COLUMN_TYPE_LONG, ''int64''], ColumnTypeLong),
       ([COLUMN_TYPE_ULONG, ''unsigned long''], ColumnTypeULong),
       ([COLUMN_TYPE_FLOAT], ColumnTypeFloat),
       ([COLUMN_TYPE_DOUBLE], ColumnTypeDouble),
       ([COLUMN_TYPE_VARCHAR], ColumnTypeVarchar),
       ([COLUMN_TYPE_TEXT], ColumnTypeText),
       ([COLUMN_TYPE_CLOB], ColumnTypeClob),
       ([COLUMN_TYPE_BLOB], ColumnTypeBlob),
       ([COLUMN_TYPE_BINARY], ColumnTypeBinary),
       ([COLUMN_TYPE_DATETIME], ColumnTypeDatetime),
       ([COLUMN_TYPE_IPV4], ColumnTypeIPv4),
       ([COLUMN_TYPE_IPV6], ColumnTypeIPv6),
       ([COLUMN_TYPE_JSON], ColumnTypeJSON)]
      ColumnTypeVarchar)"

definition DataType_MakeBuffer :: "DataType \<Rightarrow> bool \<Rightarrow> scan_buffer outcome" where
  "DataType_MakeBuffer typ nullable =
     switch typ
     [([DataTypeInt16], Ok (if nullable then NullInt16 else BufInt16)),
      ([DataTypeUInt16], Ok (if nullable then NullUint16 else BufUint16)),
      ([DataTypeInt32], Ok (if nullable then NullInt32 else BufInt32)),
      ([DataTypeUInt32], Ok (if nullable then NullUint32 else BufUint32)),
      ([DataTypeInt64], Ok (if nullable then NullInt64 else BufInt64)),
      ([DataTypeUInt64], Ok (if nullable then NullUint64 else BufUint64)),
      ([DataTypeDatetime], Ok (if nullable then NullTime else BufTime)),
      ([DataTypeFloat32], Ok (if nullable then NullFloat32 else BufFloat32)),
      ([DataTypeFloat64], Ok (if nullable then NullFloat64 else BufFloat64)),
      ([DataTypeIPv4], Ok (if nullable then NullIP else BufIP)),
      ([DataTypeIPv6], Ok (if nullable then NullIP else BufIP)),
      ([DataTypeString], Ok (if nullable then NullString else BufString)),
      ([DataTypeJSON], Ok (if nullable then NullJSONString else BufJSONString)),
      ([DataTypeBinary], Ok BufBytes),
      ([DataTypeDecimal], Ok (if nullable then NullDecimal else BufDecimal)),
      ([DataTypeArray], Ok BufArray),
      ([DataTypeBoolean], Ok (if nullable then NullBool else BufBool)),
      ([DataTypeByte], Ok BufByte),
      ([DataTypeAny], Ok BufString)]
     (Err (PlainErr ''makeBuffer unsupported type''))"

end
