(* ===== verification/Values.thy ===== *)
theory Values
  imports Decimal Go_Float Sql_Types
begin

text \<open>
  The dynamic values (\<^verbatim>\<open>any\<close>) that cross the client's interfaces and the conversions of
  \<^verbatim>\<open>machnet/bind.go\<close> on them. Integers are their bits; floats are their bit patterns; a
  \<^verbatim>\<open>time.Time\<close> is its \<^verbatim>\<open>UnixNano\<close>; a \<^verbatim>\<open>net.IP\<close> is its bytes. Formatting with \<^verbatim>\<open>fmt.Sprint\<close> of
  values other than integers, booleans, strings and decimals, and the parsing of floats, times
  and addresses, are parameters: the record \<open>golib\<close>.
\<close>

section \<open>Values\<close>

datatype prim =
    VNil
  | VBool bool
  | VInt goint
  | VInt8 byte
  | VInt16 u16
  | VInt32 u32
  | VInt64 u64
  | VUint u64
  | VUint8 byte
  | VUint16 u16
  | VUint32 u32
  | VUint64 u64
  | VFloat32 u32
  | VFloat64 u64
  | VString string
  | VBytes bytes
  | VTime goint
  | VIP bytes
  | VDecimal Decimal
  | VDecimalPtr "Decimal option"
  | VNilPtr string
  | VOther string

record golib =
  lib_Sprint :: "prim \<Rightarrow> string"
  lib_ParseFloat :: "string \<Rightarrow> u64 outcome"
  lib_ParseTime :: "string \<Rightarrow> goint outcome"
  lib_ParseIP :: "string \<Rightarrow> bytes option"

fun sprint :: "golib \<Rightarrow> prim \<Rightarrow> string" where
  "sprint lib VNil = ''<nil>''"
| "sprint lib (VBool b) = (if b then ''true'' else ''false'')"
| "sprint lib (VInt v) = itoa (sint v)"
| "sprint lib (VInt8 v) = itoa (sint v)"
| "sprint lib (VInt16 v) = itoa (sint v)"
| "sprint lib (VInt32 v) = itoa (sint v)"
| "sprint lib (VInt64 v) = itoa (sint v)"
| "sprint lib (VUint v) = itoa (uint v)"
| "sprint lib (VUint8 v) = itoa (uint v)"
| "sprint lib (VUint16 v) = itoa (uint v)"
| "sprint lib (VUint32 v) = itoa (uint v)"
| "sprint lib (VUint64 v) = itoa (uint v)"
| "sprint lib (VString s) = s"
| "sprint lib (VDecimal d) = Decimal_String d"
| "sprint lib v = lib_Sprint lib v"

section \<open>strconv\<close>

text \<open>\<^verbatim>\<open>strconv.ParseUint(s, 10, 64)\<close> and \<^verbatim>\<open>strconv.ParseInt(s, 10, 64)\<close>.\<close>

definition syntax_error :: "'a outcome" where
  "syntax_error = Err (PlainErr ''invalid syntax'')"

definition range_error :: "'a outcome" where
  "range_error = Err (PlainErr ''value out of range'')"

definition ParseUint :: "string \<Rightarrow> nat outcome" where
  "ParseUint s =
     (if s = [] \<or> \<not> list_all is_digit s then syntax_error
      else if digits_val s \<ge> 2 ^ 64 then range_error
      else Ok (digits_val s))"

definition ParseInt :: "string \<Rightarrow> int outcome" where
  "ParseInt s =
     (if s = [] then syntax_error
      else
        let signed = (hd s = CHR ''+'' \<or> hd s = CHR ''-'');
            neg = (hd s = CHR ''-'');
            ds = (if signed then tl s else s)
        in bind_outcome (ParseUint ds) (\<lambda>n.
             if \<not> neg \<and> n \<ge> 2 ^ 63 then range_error
             else if neg \<and> n > 2 ^ 63 then range_error
             else Ok (if neg then - int n else int n)))"

section \<open>Conversions of bound values\<close>

fun toInt64 :: "prim \<Rightarrow> int outcome" where
  "toInt64 (VInt x) = Ok (sint x)"
| "toInt64 (VInt16 x) = Ok (sint x)"
| "toInt64 (VInt32 x) = Ok (sint x)"
| "toInt64 (VInt64 x) = Ok (sint x)"
| "toInt64 (VUint x) =
     (if uint x > 2 ^ 63 - 1 then Err (PlainErr ''unsigned integer overflows int64'') else Ok (uint x))"
| "toInt64 (VUint16 x) = Ok (uint x)"
| "toInt64 (VUint32 x) = Ok (uint x)"
| "toInt64 (VUint64 x) =
     (if uint x > 2 ^ 63 - 1 then Err (PlainErr ''unsigned integer overflows int64'') else Ok (uint x))"
| "toInt64 (VFloat32 x) = Ok (sint (f64_to_int64 (f32_widen x)))"
| "toInt64 (VFloat64 x) = Ok (sint (f64_to_int64 x))"
| "toInt64 (VString s) = ParseInt (TrimSpace s)"
| "toInt64 v = Err (PlainErr ''unsupported integer type'')"

definition nonneg :: "int \<Rightarrow> nat outcome" where
  "nonneg i = (if i < 0 then Err (PlainErr ''negative unsigned integer'') else Ok (nat i))"

fun toUint64 :: "prim \<Rightarrow> nat outcome" where
  "toUint64 (VInt x) = nonneg (sint x)"
| "toUint64 (VInt16 x) = nonneg (sint x)"
| "toUint64 (VInt32 x) = nonneg (sint x)"
| "toUint64 (VInt64 x) = nonneg (sint x)"
| "toUint64 (VUint x) = Ok (unat x)"
| "toUint64 (VUint16 x) = Ok (unat x)"
| "toUint64 (VUint32 x) = Ok (unat x)"
| "toUint64 (VUint64 x) = Ok (unat x)"
| "toUint64 (VString s) = ParseUint (TrimSpace s)"
| "toUint64 v = Err (PlainErr ''unsupported unsigned integer type'')"

fun toFloat64 :: "golib \<Rightarrow> prim \<Rightarrow> u64 outcome" where
  "toFloat64 lib (VFloat32 x) = Ok (f32_widen x)"
| "toFloat64 lib (VFloat64 x) = Ok x"
| "toFloat64 lib (VInt x) = Ok (f64_of_int (sint x))"
| "toFloat64 lib (VInt16 x) = Ok (f64_of_int (sint x))"
| "toFloat64 lib (VInt32 x) = Ok (f64_of_int (sint x))"
| "toFloat64 lib (VInt64 x) = Ok (f64_of_int (sint x))"
| "toFloat64 lib (VUint16 x) = Ok (f64_of_int (uint x))"
| "toFloat64 lib (VUint32 x) = Ok (f64_of_int (uint x))"
| "toFloat64 lib (VUint64 x) = Ok (f64_of_int (uint x))"
| "toFloat64 lib (VString s) = lib_ParseFloat lib (TrimSpace s)"
| "toFloat64 lib v = Err (PlainErr ''unsupported float type'')"

fun toDateTimeInt64 :: "golib \<Rightarrow> prim \<Rightarrow> goint outcome" where
  "toDateTimeInt64 lib (VTime t) = Ok t"
| "toDateTimeInt64 lib (VInt64 x) = Ok x"
| "toDateTimeInt64 lib (VInt x) = Ok x"
| "toDateTimeInt64 lib (VUint64 x) = Ok x"
| "toDateTimeInt64 lib (VString s) =
     (case ParseInt (TrimSpace s) of Ok n \<Rightarrow> Ok (of_int n) | _ \<Rightarrow> lib_ParseTime lib s)"
| "toDateTimeInt64 lib v = Err (PlainErr ''unsupported datetime type'')"

text \<open>\<^verbatim>\<open>net.IP.To4\<close> and \<^verbatim>\<open>net.IP.To16\<close>; \<open>None\<close> is a nil slice.\<close>

definition v4InV6Prefix :: bytes where
  "v4InV6Prefix = replicate 10 0 @ [0xff, 0xff]"

definition To4 :: "bytes \<Rightarrow> bytes option" where
  "To4 ip =
     (if length ip = 4 then Some ip
      else if length ip = 16 \<and> take 12 ip = v4InV6Prefix then Some (drop 12 ip)
      else None)"

definition To16 :: "bytes \<Rightarrow> bytes option" where
  "To16 ip =
     (if length ip = 4 then Some (v4InV6Prefix @ ip)
      else if length ip = 16 then Some ip
      else None)"

fun toIP :: "golib \<Rightarrow> prim \<Rightarrow> bytes outcome" where
  "toIP lib (VIP x) = Ok x"
| "toIP lib (VString s) =
     (case lib_ParseIP lib (TrimSpace s) of
        None \<Rightarrow> Err (PlainErr ''invalid ip'') | Some ip \<Rightarrow> Ok ip)"
| "toIP lib (VBytes x) =
     (if length x = 4 \<or> length x = 16 then Ok x
      else case lib_ParseIP lib (TrimSpace (string_of_bytes x)) of
             None \<Rightarrow> Err (PlainErr ''invalid ip bytes'') | Some ip \<Rightarrow> Ok ip)"
| "toIP lib v = Err (PlainErr ''unsupported ip type'')"

section \<open>Decimals from dynamic values\<close>

text \<open>The text that \<^verbatim>\<open>encodeDecimal\<close> parses; \<open>None\<close> is NULL.\<close>

fun decimal_text :: "golib \<Rightarrow> prim \<Rightarrow> string option" where
  "decimal_text lib VNil = None"
| "decimal_text lib (VDecimal d) = Some (Decimal_String d)"
| "decimal_text lib (VDecimalPtr None) = None"
| "decimal_text lib (VDecimalPtr (Some d)) = Some (Decimal_String d)"
| "decimal_text lib (VString s) = Some s"
| "decimal_text lib (VBytes b) = Some (string_of_bytes b)"
| "decimal_text lib v = Some (sprint lib v)"

definition encodeDecimal :: "golib \<Rightarrow> prim \<Rightarrow> int \<Rightarrow> int \<Rightarrow> bytes outcome" where
  "encodeDecimal lib value prec scl = encodeDecimalText (decimal_text lib value) prec scl"

section \<open>Ranges\<close>

lemma ParseUint_less: "ParseUint s = Ok n \<Longrightarrow> n < 2 ^ 64"
  by (auto simp: ParseUint_def syntax_error_def range_error_def split: if_splits)

lemma ParseInt_range: "ParseInt s = Ok i \<Longrightarrow> - (2 ^ 63) \<le> i \<and> i < 2 ^ 63"
  by (auto simp: ParseInt_def syntax_error_def range_error_def outcome_simps Let_def split: if_splits)

lemma nat_digits_ParseUint: "n < 2 ^ 64 \<Longrightarrow> ParseUint (nat_digits n) = Ok n"
  using nat_digits_all by (simp add: ParseUint_def)

end
