(* ===== verification/Api_Array.thy ===== *)
theory Api_Array
  imports Values
begin

text \<open>
  \<^verbatim>\<open>api/array.go\<close>: fixed-cardinality numeric arrays with NULL elements, kept as a sparse map from
  0-based positions to elements; their construction from values, from the literal syntax and from
  the canonical text.
\<close>

section \<open>Construction\<close>

abbreviation (input) ArrayMinCardinality :: int where "ArrayMinCardinality \<equiv> 1"
abbreviation (input) ArrayMaxCardinality :: int where "ArrayMaxCardinality \<equiv> 1024"

record Array =
  ar_elementType :: SqlType
  ar_cardinality :: int
  ar_precision :: int
  ar_scale :: int
  ar_entries :: "int \<rightharpoonup> prim"

definition isNumericArrayElementType :: "SqlType \<Rightarrow> bool" where
  "isNumericArrayElementType t \<longleftrightarrow>
     t \<in> set [SqlTypeInt16, SqlTypeUInt16, SqlTypeInt32, SqlTypeUInt32, SqlTypeInt64, SqlTypeUInt64,
             SqlTypeFloat, SqlTypeDouble, SqlTypeDecimal]"

definition zero_Array :: Array where
  "zero_Array = \<lparr>ar_elementType = 0, ar_cardinality = 0, ar_precision = 0, ar_scale = 0, ar_entries = Map.empty\<rparr>"

definition NewSparseArrayWithMeta :: "SqlType \<Rightarrow> int \<Rightarrow> int \<Rightarrow> int \<Rightarrow> Array outcome" where
  "NewSparseArrayWithMeta et cardinality prec scl =
     (let elementType = SqlType_ElementType et
      in if \<not> isNumericArrayElementType elementType then Err (PlainErr ''unsupported ARRAY element type'')
         else if cardinality < ArrayMinCardinality \<or> cardinality > ArrayMaxCardinality
         then Err (PlainErr ''ARRAY cardinality out of range'')
         else
           let mk = (\<lambda>p s. \<lparr>ar_elementType = elementType, ar_cardinality = cardinality, ar_precision = p,
                             ar_scale = s, ar_entries = Map.empty\<rparr>)
           in if elementType = SqlTypeDecimal
              then
                let (p, s) = (if prec = 0 then (DecimalMaxPrecision, DecimalMaxScale) else (prec, scl))
                in bind_outcome (validateDecimalPrecisionScale p s) (\<lambda>_. Ok (mk p s))
              else if prec \<noteq> 0 \<or> scl \<noteq> 0
              then Err (PlainErr ''precision/scale are valid only for DECIMAL ARRAY'')
              else Ok (mk prec scl))"

definition NewSparseArray :: "SqlType \<Rightarrow> int \<Rightarrow> Array outcome" where
  "NewSparseArray et cardinality = NewSparseArrayWithMeta et cardinality 0 0"

section \<open>Elements\<close>

text \<open>The conversions look at the kind of the value; \<open>None\<close> is \<^verbatim>\<open>false\<close>.\<close>

fun arrayElementToInt64 :: "prim \<Rightarrow> int option" where
  "arrayElementToInt64 (VInt x) = Some (sint x)"
| "arrayElementToInt64 (VInt8 x) = Some (sint x)"
| "arrayElementToInt64 (VInt16 x) = Some (sint x)"
| "arrayElementToInt64 (VInt32 x) = Some (sint x)"
| "arrayElementToInt64 (VInt64 x) = Some (sint x)"
| "arrayElementToInt64 (VUint x) = (if uint x > 2 ^ 63 - 1 then None else Some (uint x))"
| "arrayElementToInt64 (VUint8 x) = Some (uint x)"
| "arrayElementToInt64 (VUint16 x) = Some (uint x)"
| "arrayElementToInt64 (VUint32 x) = Some (uint x)"
| "arrayElementToInt64 (VUint64 x) = (if uint x > 2 ^ 63 - 1 then None else Some (uint x))"
| "arrayElementToInt64 (VFloat32 x) = Some (sint (f64_to_int64 (f32_widen x)))"
| "arrayElementToInt64 (VFloat64 x) = Some (sint (f64_to_int64 x))"
| "arrayElementToInt64 (VString s) = (case ParseInt s of Ok n \<Rightarrow> Some n | _ \<Rightarrow> None)"
| "arrayElementToInt64 v = None"

definition uint_of_int :: "int \<Rightarrow> nat option" where
  "uint_of_int n = (if n < 0 then None else Some (nat n))"

fun arrayElementToUint64 :: "prim \<Rightarrow> nat option" where
  "arrayElementToUint64 (VUint x) = Some (unat x)"
| "arrayElementToUint64 (VUint8 x) = Some (unat x)"
| "arrayElementToUint64 (VUint16 x) = Some (unat x)"
| "arrayElementToUint64 (VUint32 x) = Some (unat x)"
| "arrayElementToUint64 (VUint64 x) = Some (unat x)"
| "arrayElementToUint64 (VInt x) = uint_of_int (sint x)"
| "arrayElementToUint64 (VInt8 x) = uint_of_int (sint x)"
| "arrayElementToUint64 (VInt16 x) = uint_of_int (sint x)"
| "arrayElementToUint64 (VInt32 x) = uint_of_int (sint x)"
| "arrayElementToUint64 (VInt64 x) = uint_of_int (sint x)"
| "arrayElementToUint64 (VFloat32 x) =
     (if f64_negative (f32_widen x) then None else Some (unat (f64_to_uint64 (f32_widen x))))"
| "arrayElementToUint64 (VFloat64 x) = (if f64_negative x then None else Some (unat (f64_to_uint64 x)))"
| "arrayElementToUint64 (VString s) = (case ParseUint s of Ok n \<Rightarrow> Some n | _ \<Rightarrow> None)"
| "arrayElementToUint64 v = None"

fun arrayElementToFloat64 :: "golib \<Rightarrow> prim \<Rightarrow> u64 option" where
  "arrayElementToFloat64 lib (VFloat32 x) = Some (f32_widen x)"
| "arrayElementToFloat64 lib (VFloat64 x) = Some x"
| "arrayElementToFloat64 lib (VInt x) = Some (f64_of_int (sint x))"
| "arrayElementToFloat64 lib (VInt8 x) = Some (f64_of_int (sint x))"
| "arrayElementToFloat64 lib (VInt16 x) = Some (f64_of_int (sint x))"
| "arrayElementToFloat64 lib (VInt32 x) = Some (f64_of_int (sint x))"
| "arrayElementToFloat64 lib (VInt64 x) = Some (f64_of_int (sint x))"
| "arrayElementToFloat64 lib (VUint x) = Some (f64_of_int (uint x))"
| "arrayElementToFloat64 lib (VUint8 x) = Some (f64_of_int (uint x))"
| "arrayElementToFloat64 lib (VUint16 x) = Some (f64_of_int (uint x))"
| "arrayElementToFloat64 lib (VUint32 x) = Some (f64_of_int (uint x))"
| "arrayElementToFloat64 lib (VUint64 x) = Some (f64_of_int (uint x))"
| "arrayElementToFloat64 lib (VString s) = (case lib_ParseFloat lib s of Ok f \<Rightarrow> Some f | _ \<Rightarrow> None)"
| "arrayElementToFloat64 lib v = None"

definition invalid_element :: "'a outcome" where
  "invalid_element = Err (PlainErr ''invalid ARRAY element'')"

definition signed_element :: "nat \<Rightarrow> (int \<Rightarrow> prim) \<Rightarrow> prim \<Rightarrow> prim outcome" where
  "signed_element bits mk v =
     (case arrayElementToInt64 v of
        None \<Rightarrow> invalid_element
      | Some i \<Rightarrow> if i < - (2 ^ (bits - 1)) \<or> i > 2 ^ (bits - 1) - 1 then invalid_element else Ok (mk i))"

definition unsigned_element :: "nat \<Rightarrow> (nat \<Rightarrow> prim) \<Rightarrow> prim \<Rightarrow> prim outcome" where
  "unsigned_element bits mk v =
     (case arrayElementToUint64 v of
        None \<Rightarrow> invalid_element
      | Some n \<Rightarrow> if n > 2 ^ bits - 1 then invalid_element else Ok (mk n))"

definition normalizeArrayElement :: "golib \<Rightarrow> SqlType \<Rightarrow> prim \<Rightarrow> int \<Rightarrow> int \<Rightarrow> prim outcome" where
  "normalizeArrayElement lib et v prec scl =
     (if et = SqlTypeInt16 then signed_element 16 (\<lambda>i. VInt16 (of_int i)) v
      else if et = SqlTypeUInt16 then unsigned_element 16 (\<lambda>n. VUint16 (of_nat n)) v
      else if et = SqlTypeInt32 then signed_element 32 (\<lambda>i. VInt32 (of_int i)) v
      else if et = SqlTypeUInt32 then unsigned_element 32 (\<lambda>n. VUint32 (of_nat n)) v
      else if et = SqlTypeInt64 then signed_element 64 (\<lambda>i. VInt64 (of_int i)) v
      else if et = SqlTypeUInt64 then unsigned_element 64 (\<lambda>n. VUint64 (of_nat n)) v
      else if et = SqlTypeFloat then
        (case arrayElementToFloat64 lib v of
           None \<Rightarrow> invalid_element | Some f \<Rightarrow> Ok (VFloat32 (f64_narrow f)))
      else if et = SqlTypeDouble then
        (case arrayElementToFloat64 lib v of None \<Rightarrow> invalid_element | Some f \<Rightarrow> Ok (VFloat64 f))
      else if et = SqlTypeDecimal then
        (case v of
           VDecimal d \<Rightarrow> Ok (VDecimal d)
         | _ \<Rightarrow>
             (case decimal_text lib v of
                None \<Rightarrow> Panic ''nil pointer dereference''
              | Some txt \<Rightarrow> bind_outcome (ParseDecimal txt prec scl) (\<lambda>d. Ok (VDecimal d))))
      else Err (PlainErr ''unsupported ARRAY element type''))"

text \<open>\<^verbatim>\<open>value == nil || isNilArrayElement(value)\<close>.\<close>

fun is_nil_element :: "prim \<Rightarrow> bool" where
  "is_nil_element VNil = True"
| "is_nil_element (VDecimalPtr None) = True"
| "is_nil_element (VNilPtr t) = True"
| "is_nil_element v = False"

section \<open>Methods\<close>

text \<open>The receiver is a non-nil \<^verbatim>\<open>*Array\<close>; a failed call leaves it unchanged.\<close>

definition Array_Set :: "golib \<Rightarrow> Array \<Rightarrow> int \<Rightarrow> prim \<Rightarrow> Array outcome" where
  "Array_Set lib a position value =
     (if position < 0 \<or> position \<ge> ar_cardinality a then Err (PlainErr ''ARRAY position out of range'')
      else if is_nil_element value then Ok (a\<lparr>ar_entries := (ar_entries a)(position := None)\<rparr>)
      else
        bind_outcome (normalizeArrayElement lib (ar_elementType a) value (ar_precision a) (ar_scale a))
          (\<lambda>v. Ok (a\<lparr>ar_entries := (ar_entries a)(position \<mapsto> v)\<rparr>)))"

fun set_all :: "golib \<Rightarrow> Array \<Rightarrow> int \<Rightarrow> prim list \<Rightarrow> Array outcome" where
  "set_all lib a i [] = Ok a"
| "set_all lib a i (v # vs) = bind_outcome (Array_Set lib a i v) (\<lambda>a'. set_all lib a' (i + 1) vs)"

definition NewArray :: "golib \<Rightarrow> SqlType \<Rightarrow> prim list \<Rightarrow> Array outcome" where
  "NewArray lib et values =
     bind_outcome (NewSparseArray et (int (length values))) (\<lambda>a. set_all lib a 0 values)"

definition Array_SqlType :: "Array \<Rightarrow> SqlType" where
  "Array_SqlType a = SqlType_ArrayType (ar_elementType a)"

definition Array_Clear :: "Array \<Rightarrow> Array" where
  "Array_Clear a = a\<lparr>ar_entries := Map.empty\<rparr>"

text \<open>\<open>VNil\<close> is the nil interface that a missing map entry yields.\<close>

definition Array_Get :: "Array \<Rightarrow> int \<Rightarrow> prim outcome" where
  "Array_Get a position =
     (if position < 0 \<or> position \<ge> ar_cardinality a then Err (PlainErr ''ARRAY position out of range'')
      else Ok (case ar_entries a position of None \<Rightarrow> VNil | Some v \<Rightarrow> v))"

definition Array_Values :: "Array \<Rightarrow> prim list" where
  "Array_Values a =
     map (\<lambda>i. case ar_entries a (int i) of None \<Rightarrow> VNil | Some v \<Rightarrow> v) [0..<nat (ar_cardinality a)]"

definition Array_Entries :: "Array \<Rightarrow> (int \<rightharpoonup> prim)" where
  "Array_Entries a = ar_entries a"

definition Array_Clone :: "Array \<Rightarrow> Array" where
  "Array_Clone a = \<lparr>ar_elementType = ar_elementType a, ar_cardinality = ar_cardinality a,
     ar_precision = ar_precision a, ar_scale = ar_scale a, ar_entries = ar_entries a\<rparr>"

definition element_string :: "golib \<Rightarrow> prim option \<Rightarrow> string" where
  "element_string lib v =
     (case v of
        None \<Rightarrow> ''null''
      | Some VNil \<Rightarrow> ''null''
      | Some (VDecimalPtr None) \<Rightarrow> ''null''
      | Some (VDecimalPtr (Some d)) \<Rightarrow> Decimal_String d
      | Some x \<Rightarrow> sprint lib x)"

definition Array_String :: "golib \<Rightarrow> Array \<Rightarrow> string" where
  "Array_String lib a =
     ''['' @ Join (map (\<lambda>i. element_string lib (ar_entries a (int i))) [0..<nat (ar_cardinality a)]) '',''
     @ '']''"

section \<open>Literals\<close>

text \<open>
  \<^verbatim>\<open>splitArrayLiteralTokens\<close> and \<^verbatim>\<open>parseCanonicalArrayTokens\<close> share their steps and differ in their
  messages: the trimmed text must be bracketed, its body not blank, at most 1024 parts, none of
  them blank.
\<close>

fun trim_parts :: "string \<Rightarrow> string list \<Rightarrow> string list outcome" where
  "trim_parts m [] = Ok []"
| "trim_parts m (p # ps) =
     (let t = TrimSpace p
      in if t = [] then Err (PlainErr m) else bind_outcome (trim_parts m ps) (\<lambda>ts. Ok (t # ts)))"

definition array_tokens :: "string \<Rightarrow> string \<Rightarrow> string \<Rightarrow> string \<Rightarrow> string \<Rightarrow> string list outcome" where
  "array_tokens bad none many blank txt =
     (let t = TrimSpace txt
      in if length t < 2 \<or> hd t \<noteq> CHR ''['' \<or> last t \<noteq> CHR '']'' then Err (PlainErr bad)
         else
           let body = TrimSpace (subslice t 1 (length t - 1))
           in if body = [] then Err (PlainErr none)
              else
                let parts = Split CHR '','' body
                in if int (length parts) > ArrayMaxCardinality then Err (PlainErr many)
                   else trim_parts blank parts)"

definition splitArrayLiteralTokens :: "string \<Rightarrow> string list outcome" where
  "splitArrayLiteralTokens txt =
     array_tokens ''invalid ARRAY literal'' ''ARRAY literal must have at least one element''
       ''ARRAY literal has too many elements'' ''empty ARRAY literal element'' txt"

definition parseCanonicalArrayTokens :: "string \<Rightarrow> string list outcome" where
  "parseCanonicalArrayTokens txt =
     array_tokens ''invalid ARRAY text'' ''ARRAY cardinality must be at least 1''
       ''ARRAY cardinality out of range'' ''empty ARRAY element'' txt"

text \<open>One pass over the tokens collects position, text and NULL flag of every element.\<close>

record literal_scan =
  ls_cursor :: int
  ls_max :: int
  ls_dense :: bool
  ls_sparse :: bool
  ls_pending :: "(int \<times> string \<times> bool) list"

definition scan_token :: "string \<Rightarrow> literal_scan \<Rightarrow> literal_scan outcome" where
  "scan_token token st =
     (let place = (\<lambda>position value dense sparse.
            \<lparr>ls_cursor = position + 1, ls_max = max (ls_max st) position, ls_dense = dense, ls_sparse = sparse,
             ls_pending = ls_pending st @ [(position, value, EqualFold value ''null'')]\<rparr>)
      in case Index token ''=>'' of
           Some idx \<Rightarrow>
             (let idxText = TrimSpace (take idx token);
                  value = TrimSpace (drop (idx + 2) token)
              in case ParseInt idxText of
                   Ok pos \<Rightarrow>
                     if pos < 0 then Err (PlainErr ''invalid ARRAY literal position'')
                     else Ok (place pos value (ls_dense st) True)
                 | _ \<Rightarrow> Err (PlainErr ''invalid ARRAY literal position''))
         | None \<Rightarrow> Ok (place (ls_cursor st) token True (ls_sparse st)))"

fun scan_tokens :: "string list \<Rightarrow> literal_scan \<Rightarrow> literal_scan outcome" where
  "scan_tokens [] st = Ok st"
| "scan_tokens (t # ts) st = bind_outcome (scan_token t st) (scan_tokens ts)"

fun place_elements :: "golib \<Rightarrow> int \<Rightarrow> (int \<times> string \<times> bool) list \<Rightarrow> Array \<Rightarrow> Array outcome" where
  "place_elements lib cardinality [] a = Ok a"
| "place_elements lib cardinality ((position, value, isNull) # ps) a =
     (if position \<ge> cardinality then Err (PlainErr ''ARRAY literal position out of range'')
      else if isNull then place_elements lib cardinality ps a
      else bind_outcome (Array_Set lib a position (VString value)) (place_elements lib cardinality ps))"

definition ParseArray :: "golib \<Rightarrow> string \<Rightarrow> SqlType \<Rightarrow> int \<Rightarrow> int \<Rightarrow> int \<Rightarrow> Array outcome" where
  "ParseArray lib txt et cardinality prec scl =
     bind_outcome (splitArrayLiteralTokens txt) (\<lambda>tokens.
     bind_outcome (scan_tokens tokens \<lparr>ls_cursor = 0, ls_max = -1, ls_dense = False, ls_sparse = False,
         ls_pending = []\<rparr>) (\<lambda>st.
       if ls_dense st \<and> ls_sparse st
       then Err (PlainErr ''ARRAY literal cannot mix dense and idx=>value (sparse) elements'')
       else
         let card = (if cardinality \<le> 0 then ls_max st + 1 else cardinality)
         in bind_outcome (NewSparseArrayWithMeta et card prec scl) (place_elements lib card (ls_pending st))))"

section \<open>Scanning canonical text\<close>

record infer_state =
  is_negative :: bool
  is_unsigned :: bool
  is_decimal :: bool
  is_maxScale :: nat
  is_maxInteger :: nat

text \<open>\<open>Inl r\<close> ends the inference early with result \<open>r\<close>.\<close>

definition infer_token ::
  "string \<Rightarrow> infer_state \<Rightarrow> ((SqlType \<times> int \<times> int) outcome + infer_state)" where
  "infer_token token st =
     (if EqualFold token ''null'' then Inr st
      else if ToLower token \<in> set [''nan'', ''+inf'', ''-inf'', ''inf'', ''+infinity'', ''-infinity'', ''infinity'']
              \<or> list_ex (\<lambda>c. c = CHR ''e'' \<or> c = CHR ''E'') token
      then Inl (Ok (SqlTypeDouble, 0, 0))
      else
        let u0 = (if HasPrefix token ''+'' then tl token else token);
            negative = HasPrefix u0 ''-'';
            st = (if negative then st\<lparr>is_negative := True\<rparr> else st);
            u = (if negative then tl u0 else u0)
        in case IndexByte u CHR ''.'' of
             Some dot \<Rightarrow>
               (let n = length (TrimLeft0 (take dot u));
                    integerDigits = (if n = 0 then 1 else n);
                    scl = length u - dot - 1
                in Inr (st\<lparr>is_decimal := True, is_maxInteger := max (is_maxInteger st) integerDigits,
                           is_maxScale := max (is_maxScale st) scl\<rparr>))
           | None \<Rightarrow>
               (case ParseUint u of
                  Ok v \<Rightarrow>
                    Inr (st\<lparr>is_unsigned := is_unsigned st \<or> (\<not> negative \<and> v > 2 ^ 63 - 1),
                            is_maxInteger := max (is_maxInteger st) (length (TrimLeft0 u))\<rparr>)
                | _ \<Rightarrow> Inl (Err (PlainErr ''invalid ARRAY integer''))))"

fun infer_tokens :: "string list \<Rightarrow> infer_state \<Rightarrow> ((SqlType \<times> int \<times> int) outcome + infer_state)" where
  "infer_tokens [] st = Inr st"
| "infer_tokens (t # ts) st = (case infer_token t st of Inl r \<Rightarrow> Inl r | Inr st' \<Rightarrow> infer_tokens ts st')"

definition inferArrayElementType :: "string list \<Rightarrow> (SqlType \<times> int \<times> int) outcome" where
  "inferArrayElementType tokens =
     (case infer_tokens tokens \<lparr>is_negative = False, is_unsigned = False, is_decimal = False,
          is_maxScale = 0, is_maxInteger = 1\<rparr> of
        Inl r \<Rightarrow> r
      | Inr st \<Rightarrow>
          if is_decimal st
          then
            let prec = int (is_maxInteger st + is_maxScale st)
            in if prec > DecimalMaxPrecision \<or> int (is_maxScale st) > DecimalMaxScale
               then Err (PlainErr ''ARRAY DECIMAL text exceeds supported precision/scale'')
               else Ok (SqlTypeDecimal, prec, int (is_maxScale st))
          else if is_negative st \<and> is_unsigned st
          then Err (PlainErr ''ARRAY integer text mixes negative and UINT64-only values'')
          else if is_unsigned st then Ok (SqlTypeUInt64, 0, 0)
          else Ok (SqlTypeInt64, 0, 0))"

definition parseArrayToken :: "golib \<Rightarrow> string \<Rightarrow> Array \<Rightarrow> prim outcome" where
  "parseArrayToken lib token a =
     (if ar_elementType a = SqlTypeDecimal
      then bind_outcome (ParseDecimal token (ar_precision a) (ar_scale a)) (\<lambda>d. Ok (VDecimal d))
      else if ar_elementType a \<in> set [SqlTypeFloat, SqlTypeDouble]
      then switch (ToLower token)
             [([''nan''], Ok (VFloat64 0x7ff8000000000001)),
              ([''inf'', ''+inf'', ''infinity'', ''+infinity''], Ok (VFloat64 0x7ff0000000000000)),
              ([''-inf'', ''-infinity''], Ok (VFloat64 0xfff0000000000000))]
             (bind_outcome (lib_ParseFloat lib token) (\<lambda>f. Ok (VFloat64 f)))
      else if ar_elementType a \<in> set [SqlTypeUInt16, SqlTypeUInt32, SqlTypeUInt64]
      then bind_outcome (ParseUint token) (\<lambda>n. Ok (VUint64 (of_nat n)))
      else bind_outcome (ParseInt token) (\<lambda>i. Ok (VInt64 (of_int i))))"

fun scan_elements :: "golib \<Rightarrow> string list \<Rightarrow> int \<Rightarrow> Array \<Rightarrow> Array outcome" where
  "scan_elements lib [] i a = Ok a"
| "scan_elements lib (t # ts) i a =
     (if EqualFold t ''null'' then scan_elements lib ts (i + 1) a
      else bind_outcome (parseArrayToken lib t a)
             (\<lambda>v. scan_elements lib ts (i + 1) (a\<lparr>ar_entries := (ar_entries a)(i \<mapsto> v)\<rparr>)))"

datatype array_src = ASrcNil | ASrcArray Array | ASrcArrayPtr "Array option" | ASrcText string | ASrcOther

text \<open>
  \<^verbatim>\<open>Array.Scan\<close> on a non-nil receiver: the error, if any, and the receiver afterwards. The
  inference assigns the receiver's precision and scale even when a later step fails.
\<close>

definition Array_Scan :: "golib \<Rightarrow> Array \<Rightarrow> array_src \<Rightarrow> gerr option \<times> Array" where
  "Array_Scan lib a src =
     (case src of
        ASrcNil \<Rightarrow> (None, zero_Array)
      | ASrcArray v \<Rightarrow> (None, Array_Clone v)
      | ASrcArrayPtr None \<Rightarrow> (None, zero_Array)
      | ASrcArrayPtr (Some v) \<Rightarrow> (None, Array_Clone v)
      | ASrcOther \<Rightarrow> (Some (PlainErr ''cannot scan as ARRAY''), a)
      | ASrcText txt \<Rightarrow>
          (case parseCanonicalArrayTokens txt of
             Ok tokens \<Rightarrow>
               (let inferred = (if ar_elementType a = 0
                      then (case inferArrayElementType tokens of
                              Ok (et, p, s) \<Rightarrow> (None, et, a\<lparr>ar_precision := p, ar_scale := s\<rparr>)
                            | Err e \<Rightarrow> (Some e, 0, a\<lparr>ar_precision := 0, ar_scale := 0\<rparr>)
                            | Panic m \<Rightarrow> (Some (PlainErr m), 0, a))
                      else (None, ar_elementType a, a))
                in case inferred of
                     (Some e, et, a1) \<Rightarrow> (Some e, a1)
                   | (None, et, a1) \<Rightarrow>
                       (case bind_outcome (NewSparseArrayWithMeta et (int (length tokens)) (ar_precision a1) (ar_scale a1))
                               (scan_elements lib tokens 0) of
                          Ok r \<Rightarrow> (None, r)
                        | Err e \<Rightarrow> (Some e, a1)
                        | Panic m \<Rightarrow> (Some (PlainErr m), a1)))
           | Err e \<Rightarrow> (Some e, a)
           | Panic m \<Rightarrow> (Some (PlainErr m), a)))"

section \<open>The invariant\<close>

text \<open>The Go type that \<^verbatim>\<open>normalizeArrayElement\<close> gives the elements of a type.\<close>

fun canonical :: "SqlType \<Rightarrow> prim \<Rightarrow> bool" where
  "canonical et (VInt16 _) = (et = SqlTypeInt16)"
| "canonical et (VUint16 _) = (et = SqlTypeUInt16)"
| "canonical et (VInt32 _) = (et = SqlTypeInt32)"
| "canonical et (VUint32 _) = (et = SqlTypeUInt32)"
| "canonical et (VInt64 _) = (et = SqlTypeInt64)"
| "canonical et (VUint64 _) = (et = SqlTypeUInt64)"
| "canonical et (VFloat32 _) = (et = SqlTypeFloat)"
| "canonical et (VFloat64 _) = (et = SqlTypeDouble)"
| "canonical et (VDecimal _) = (et = SqlTypeDecimal)"
| "canonical et _ = False"

definition array_wf :: "Array \<Rightarrow> bool" where
  "array_wf a \<longleftrightarrow> isNumericArrayElementType (ar_elementType a)
     \<and> 1 \<le> ar_cardinality a \<and> ar_cardinality a \<le> 1024
     \<and> dom (ar_entries a) \<subseteq> {0..<ar_cardinality a}
     \<and> (\<forall>v \<in> ran (ar_entries a). canonical (ar_elementType a) v)"

lemma normalize_canonical:
  "normalizeArrayElement lib et v p s = Ok w \<Longrightarrow> canonical et w"
  by (auto simp: normalizeArrayElement_def signed_element_def unsigned_element_def invalid_element_def
      outcome_simps split: if_splits option.splits prim.splits)

lemma NewSparseArrayWithMeta_wf: "NewSparseArrayWithMeta et c p s = Ok a \<Longrightarrow>
    array_wf a \<and> ar_cardinality a = c \<and> ar_entries a = Map.empty \<and> ar_elementType a = SqlType_ElementType et"
  by (auto simp: NewSparseArrayWithMeta_def array_wf_def Let_def outcome_simps split: if_splits)

text \<open>A call of \<^verbatim>\<open>Set\<close> changes the entry at its position and nothing else of the array.\<close>

lemma Array_Set_entry:
  "Array_Set lib a i v = Ok a' \<Longrightarrow>
    0 \<le> i \<and> i < ar_cardinality a \<and>
    (\<exists>w. a' = a\<lparr>ar_entries := (ar_entries a)(i := w)\<rparr>
       \<and> (case w of None \<Rightarrow> is_nil_element v | Some x \<Rightarrow> \<not> is_nil_element v
            \<and> normalizeArrayElement lib (ar_elementType a) v (ar_precision a) (ar_scale a) = Ok x))"
  by (fastforce simp: Array_Set_def outcome_simps split: if_splits)

lemma Array_Set_wf:
  assumes "array_wf a" and "Array_Set lib a i v = Ok a'"
  shows "array_wf a' \<and> ar_cardinality a' = ar_cardinality a \<and> ar_elementType a' = ar_elementType a"
proof -
  from Array_Set_entry [OF assms(2)] obtain w where i: "0 \<le> i" "i < ar_cardinality a"
    and a': "a' = a\<lparr>ar_entries := (ar_entries a)(i := w)\<rparr>"
    and w: "\<And>x. w = Some x \<Longrightarrow> canonical (ar_elementType a) x"
    by (auto split: option.splits dest: normalize_canonical)
  have "canonical (ar_elementType a) x" if "x \<in> ran ((ar_entries a)(i := w))" for x
    using that assms(1) w by (auto simp: ran_def array_wf_def split: if_splits)
  with assms(1) i a' show ?thesis by (auto simp: array_wf_def)
qed

lemma set_all_wf:
  "array_wf a \<Longrightarrow> set_all lib a i vs = Ok a' \<Longrightarrow> array_wf a' \<and> ar_cardinality a' = ar_cardinality a"
proof (induction vs arbitrary: a i)
  case (Cons v vs)
  then show ?case by (auto simp: outcome_simps dest: Array_Set_wf)
qed auto

lemma place_elements_wf:
  "array_wf a \<Longrightarrow> place_elements lib c ps a = Ok a' \<Longrightarrow> array_wf a' \<and> ar_cardinality a' = ar_cardinality a"
proof (induction lib c ps a rule: place_elements.induct)
  case (2 lib c i v n ps a)
  then show ?case by (auto simp: outcome_simps split: if_splits dest: Array_Set_wf)
qed auto

lemma NewArray_wf: "NewArray lib et vs = Ok a \<Longrightarrow> array_wf a \<and> ar_cardinality a = int (length vs)"
  unfolding NewArray_def NewSparseArray_def bind_outcome_Ok_iff
  by (metis NewSparseArrayWithMeta_wf set_all_wf)

lemma ParseArray_wf:
  assumes "ParseArray lib txt et c p s = Ok a"
  shows "array_wf a \<and> (c > 0 \<longrightarrow> ar_cardinality a = c)"
proof -
  from assms obtain c' a0 ps where "NewSparseArrayWithMeta et c' p s = Ok a0" "place_elements lib c' ps a0 = Ok a"
    and c': "c > 0 \<longrightarrow> c' = c"
    unfolding ParseArray_def bind_outcome_Ok_iff Let_def by (auto simp: outcome_simps split: if_splits)
  with NewSparseArrayWithMeta_wf place_elements_wf have "array_wf a" "ar_cardinality a = c'" by blast+
  with c' show ?thesis by simp
qed

section \<open>Text of arrays\<close>

lemma itoa_not_Nil [simp]: "itoa i \<noteq> []"
  by (simp add: itoa_def)

lemma ParseInt_itoa:
  assumes "- (2 ^ 63) \<le> i" and "i < 2 ^ 63"
  shows "ParseInt (itoa i) = Ok i"
proof (cases "i < 0")
  case True
  then show ?thesis
    using assms nat_digits_ParseUint [of "nat (- i)"] nat_le_iff [of "- i" "2 ^ 63"]
    by (simp add: ParseInt_def itoa_def)
next
  case False
  obtain c cs where c: "nat_digits (nat i) = c # cs" "is_digit c"
    using nat_digits_all [of "nat i"] by (cases "nat_digits (nat i)") auto
  then have "c \<noteq> CHR ''+''" "c \<noteq> CHR ''-''" using digit_not_special by auto
  with c False assms nat_digits_ParseUint [of "nat i"] nat_less_iff [of i "2 ^ 63"] show ?thesis
    by (simp add: ParseInt_def itoa_def)
qed

text \<open>Texts that survive splitting and trimming: graphic ASCII without a comma, and not NULL's.\<close>

definition token_text :: "string \<Rightarrow> bool" where
  "token_text t \<longleftrightarrow> t \<noteq> [] \<and> list_all (\<lambda>c. graphic c \<and> c \<noteq> CHR '','') t"

lemma token_text_ends: "token_text t \<Longrightarrow> t \<noteq> [] \<and> graphic (hd t) \<and> graphic (last t)"
  by (auto simp: token_text_def list_all_iff)

lemma Split_no_sep: "sep \<notin> set t \<Longrightarrow> Split sep t = [t]"
  by (induction t) auto

lemma Split_append: "sep \<notin> set t \<Longrightarrow> Split sep (t @ sep # s) = t # Split sep s"
  by (induction t) auto

lemma Split_Join:
  "ts \<noteq> [] \<Longrightarrow> \<forall>t \<in> set ts. sep \<notin> set t \<Longrightarrow> Split sep (Join ts [sep]) = ts"
proof (induction ts rule: induct_list012)
  case (3 x y zs)
  then show ?case by (simp add: Split_append)
qed (auto simp: Split_no_sep)

lemma Join_ends:
  "ts \<noteq> [] \<Longrightarrow> \<forall>t \<in> set ts. token_text t \<Longrightarrow>
    Join ts sep \<noteq> [] \<and> graphic (hd (Join ts sep)) \<and> graphic (last (Join ts sep))"
proof (induction ts rule: induct_list012)
  case (2 x)
  then show ?case using token_text_ends by simp
next
  case (3 x y zs)
  then have "Join (y # zs) sep \<noteq> [] \<and> graphic (last (Join (y # zs) sep))" by simp
  moreover have "x \<noteq> []" "graphic (hd x)" using 3 token_text_ends by simp_all
  ultimately show ?case by simp
qed auto

lemma trim_parts_tokens: "\<forall>t \<in> set ts. token_text t \<Longrightarrow> trim_parts m ts = Ok ts"
proof (induction ts)
  case (Cons t ts)
  then have "TrimSpace t = t" "t \<noteq> []"
    using token_text_ends [of t] TrimSpace_graphic [of t] by simp_all
  with Cons show ?case by simp
qed simp

lemma array_tokens_Join:
  assumes "ts \<noteq> []" and "length ts \<le> 1024" and "\<forall>t \<in> set ts. token_text t"
  shows "array_tokens m1 m2 m3 m4 (''['' @ Join ts '','' @ '']'') = Ok ts"
proof -
  note ends = Join_ends [OF assms(1,3), of "'',''"]
  have br: "graphic CHR ''[''" "graphic CHR '']''" by (simp_all add: graphic_def code_def)
  have "TrimSpace (''['' @ Join ts '','' @ '']'') = ''['' @ Join ts '','' @ '']''"
    using br by (intro TrimSpace_graphic) auto
  moreover have "subslice (''['' @ Join ts '','' @ '']'') 1 (Suc (length (Join ts '',''))) = Join ts '',''"
    by (simp add: subslice_def)
  moreover have "TrimSpace (Join ts '','') = Join ts '',''" using ends by (intro TrimSpace_graphic) auto
  moreover have "Split CHR '','' (Join ts '','') = ts"
    using assms(1,3) by (intro Split_Join) (auto simp: token_text_def list_all_iff)
  ultimately show ?thesis
    using ends assms(2) trim_parts_tokens [OF assms(3)] by (simp add: array_tokens_def Let_def)
qed

text \<open>Elements whose text gives them back: integers of full width and decimals of the array's scale.\<close>

definition printable :: "Array \<Rightarrow> prim \<Rightarrow> bool" where
  "printable a v \<longleftrightarrow>
     (case v of
        VInt64 _ \<Rightarrow> ar_elementType a = SqlTypeInt64
      | VUint64 _ \<Rightarrow> ar_elementType a = SqlTypeUInt64
      | VDecimal d \<Rightarrow> ar_elementType a = SqlTypeDecimal \<and> decimal_wf d
          \<and> precision d = ar_precision a \<and> scale d = ar_scale a
      | _ \<Rightarrow> False)"

lemma not_null_text: "t \<noteq> [] \<Longrightarrow> is_digit (hd t) \<or> hd t = CHR ''-'' \<Longrightarrow> \<not> EqualFold t ''null''"
  by (cases t) (auto simp: EqualFold_def ToLower_def is_digit_def code_def)

lemma digit_token: "is_digit c \<Longrightarrow> graphic c \<and> c \<noteq> CHR '',''"
  by (auto simp: is_digit_def graphic_def code_def)

lemma comma_not_digit: "\<not> is_digit CHR '',''"
  by (simp add: is_digit_def code_def)

lemma signed_not_null: "t \<noteq> [] \<Longrightarrow> is_digit (hd t) \<Longrightarrow> \<not> EqualFold (signed_text neg t) ''null''"
  using not_null_text [of "signed_text neg t"] by (auto simp: signed_text_def)

lemma minus_token: "graphic CHR ''-''" and dot_token: "graphic CHR ''.''"
  by (simp_all add: graphic_def code_def)

lemma digits_token_text: "ds \<noteq> [] \<Longrightarrow> list_all is_digit ds \<Longrightarrow> token_text ds"
  using comma_not_digit by (auto simp: token_text_def list_all_iff digit_token)

lemma signed_token_text: "token_text t \<Longrightarrow> token_text (signed_text neg t)"
  by (auto simp: token_text_def signed_text_def minus_token)

lemma itoa_text: "token_text (itoa i) \<and> \<not> EqualFold (itoa i) ''null''"
proof -
  have "itoa i = signed_text (i < 0) (nat_digits (nat (abs i)))"
    by (auto simp: itoa_def signed_text_def)
  moreover have "token_text (nat_digits (nat (abs i)))"
    by (rule digits_token_text) (simp_all add: nat_digits_all)
  moreover have "is_digit (hd (nat_digits (nat (abs i))))"
    using nat_digits_all [of "nat (abs i)"] by (cases "nat_digits (nat (abs i))") auto
  ultimately show ?thesis using signed_token_text signed_not_null by simp
qed

lemma Decimal_String_text:
  assumes "0 \<le> scale d"
  shows "token_text (Decimal_String d) \<and> \<not> EqualFold (Decimal_String d) ''null''"
proof -
  from Decimal_String_shape [OF assms] obtain i f t where
    str: "Decimal_String d = signed_text (unscaled d < 0) t"
    and i: "i \<noteq> []" "list_all is_digit i" "list_all is_digit f" "t = i @ CHR ''.'' # f \<or> t = i \<and> f = []"
    by metis
  then have "token_text t" 
    using comma_not_digit by (auto simp: token_text_def list_all_iff digit_token dot_token)
  moreover have "is_digit (hd t)" "t \<noteq> []" using i by (auto simp: list_all_iff)
  ultimately show ?thesis unfolding str using signed_token_text signed_not_null by blast
qed

lemma null_text: "token_text ''null''"
  by (simp add: token_text_def graphic_def code_def)

lemma printable_text:
  assumes "printable a v"
  shows "token_text (element_string lib (Some v)) \<and> \<not> EqualFold (element_string lib (Some v)) ''null''
    \<and> parseArrayToken lib (element_string lib (Some v)) a = Ok v"
proof (cases v)
  case (VInt64 w)
  have "ParseInt (itoa (sint w)) = Ok (sint w)"
    using sint_ge [of w] sint_lt [of w] by (intro ParseInt_itoa) simp_all
  with VInt64 assms itoa_text show ?thesis
    by (simp add: printable_def element_string_def parseArrayToken_def)
next
  case (VUint64 w)
  have "ParseUint (itoa (uint w)) = Ok (unat w)"
    using nat_digits_ParseUint [of "unat w"] unat_goint_less [of w] by (simp add: itoa_def)
  with VUint64 assms itoa_text show ?thesis
    by (simp add: printable_def element_string_def parseArrayToken_def)
next
  case (VDecimal d)
  with assms have "decimal_wf d" "precision d = ar_precision a" "scale d = ar_scale a" "ar_elementType a = SqlTypeDecimal"
    by (simp_all add: printable_def)
  moreover from this have "0 \<le> scale d" by (simp add: decimal_wf_def NewDecimal_Ok_iff)
  ultimately show ?thesis
    using ParseDecimal_String [of d] Decimal_String_text [of d] VDecimal
    by (simp add: element_string_def parseArrayToken_def)
qed (use assms in \<open>simp_all add: printable_def\<close>)

fun put_elements :: "prim option list \<Rightarrow> int \<Rightarrow> (int \<rightharpoonup> prim) \<Rightarrow> (int \<rightharpoonup> prim)" where
  "put_elements [] i m = m"
| "put_elements (None # es) i m = put_elements es (i + 1) m"
| "put_elements (Some v # es) i m = put_elements es (i + 1) (m(i \<mapsto> v))"

lemma put_elements_lookup:
  "put_elements es i m j
    = (if i \<le> j \<and> j < i + int (length es) \<and> es ! nat (j - i) \<noteq> None then es ! nat (j - i) else m j)"
proof (induction es arbitrary: i m)
  case (Cons e es)
  have "nat (j - (i + 1)) = nat (j - i) - Suc 0" by arith
  with Cons.IH [of "i + 1"] show ?case
    by (cases e; cases "j = i") (auto simp: nth_Cons')
qed auto

lemma scan_elements_text:
  "\<forall>v. Some v \<in> set es \<longrightarrow> printable a v \<Longrightarrow>
    scan_elements lib (map (element_string lib) es) i a = Ok (a\<lparr>ar_entries := put_elements es i (ar_entries a)\<rparr>)"
proof (induction es i "ar_entries a" arbitrary: a rule: put_elements.induct)
  case (2 es i)
  then show ?case by (simp add: element_string_def [of lib None] EqualFold_def)
next
  case (3 v es i)
  let ?a = "a\<lparr>ar_entries := (ar_entries a)(i \<mapsto> v)\<rparr>"
  have "\<forall>w. Some w \<in> set es \<longrightarrow> printable ?a w" using "3.prems" by (simp add: printable_def cong: prim.case_cong)
  with "3.hyps" [of ?a] have "scan_elements lib (map (element_string lib) es) (i + 1) ?a
      = Ok (?a\<lparr>ar_entries := put_elements es (i + 1) (ar_entries ?a)\<rparr>)" by simp
  with "3.prems" printable_text [of a v lib] show ?case by simp
qed simp

section \<open>Properties\<close>

text \<open>
  Arrays built from values, from a literal or cell by cell are well formed: a numeric element
  type, 1 to 1024 positions, every entry at a position below the cardinality and of the Go type
  that belongs to the element type; \<^verbatim>\<open>Set\<close> keeps this and the cardinality.
\<close>

theorem array_invariant:
  "(NewArray lib et vs = Ok a \<longrightarrow> array_wf a \<and> ar_cardinality a = int (length vs))
    \<and> (ParseArray lib txt et c p s = Ok a \<longrightarrow> array_wf a \<and> (c > 0 \<longrightarrow> ar_cardinality a = c))
    \<and> (array_wf b \<and> Array_Set lib b i v = Ok a \<longrightarrow> array_wf a \<and> ar_cardinality a = ar_cardinality b)"
  using NewArray_wf ParseArray_wf Array_Set_wf by blast

theorem array_invariant_witness:
  "\<forall>lib. \<exists>a. NewArray lib SqlTypeInt16 [VInt16 1, VNil] = Ok a \<and> array_wf a \<and> ar_cardinality a = 2"
proof
  fix lib
  let ?a = "\<lparr>ar_elementType = SqlTypeInt16, ar_cardinality = 2, ar_precision = 0, ar_scale = 0,
      ar_entries = Map.empty\<rparr>"
  have new: "NewSparseArray SqlTypeInt16 2 = Ok ?a"
    by (simp add: NewSparseArray_def NewSparseArrayWithMeta_def SqlType_ElementType_def isNumericArrayElementType_def)
  have one: "Array_Set lib ?a 0 (VInt16 1) = Ok (?a\<lparr>ar_entries := [0 \<mapsto> VInt16 1]\<rparr>)"
    by (simp add: Array_Set_def normalizeArrayElement_def signed_element_def)
  have "\<exists>a. NewArray lib SqlTypeInt16 [VInt16 1, VNil] = Ok a"
    by (simp add: NewArray_def new one) (simp add: Array_Set_def)
  then obtain a where "NewArray lib SqlTypeInt16 [VInt16 1, VNil] = Ok a" by blast
  with array_invariant [of lib SqlTypeInt16 "[VInt16 1, VNil]" a] 
  show "\<exists>a. NewArray lib SqlTypeInt16 [VInt16 1, VNil] = Ok a \<and> array_wf a \<and> ar_cardinality a = 2"
    by simp
qed

text \<open>
  \<^verbatim>\<open>Set\<close> and \<^verbatim>\<open>Get\<close>: after a successful \<^verbatim>\<open>Set\<close> at a position, \<^verbatim>\<open>Get\<close> there returns the
  normalised value (nil for a nil element) and every other position reads as before.
\<close>

theorem array_set_get:
  assumes "Array_Set lib a i v = Ok a'"
  shows "(if is_nil_element v then Array_Get a' i = Ok VNil
      else Array_Get a' i = normalizeArrayElement lib (ar_elementType a) v (ar_precision a) (ar_scale a))
    \<and> (\<forall>j. j \<noteq> i \<longrightarrow> Array_Get a' j = Array_Get a j)"
  using Array_Set_entry [OF assms] by (auto simp: Array_Get_def split: option.splits)

theorem array_set_get_witness:
  "\<forall>lib. \<exists>a'. Array_Set lib \<lparr>ar_elementType = SqlTypeInt16, ar_cardinality = 3, ar_precision = 0, ar_scale = 0,
      ar_entries = Map.empty\<rparr> 1 (VInt16 7) = Ok a' \<and> Array_Get a' 1 = Ok (VInt16 7) \<and> Array_Get a' 2 = Ok VNil"
proof
  fix lib
  let ?a = "\<lparr>ar_elementType = SqlTypeInt16, ar_cardinality = 3, ar_precision = 0, ar_scale = 0,
      ar_entries = Map.empty\<rparr>"
  have norm: "normalizeArrayElement lib SqlTypeInt16 (VInt16 7) 0 0 = Ok (VInt16 7)"
    by (simp add: normalizeArrayElement_def signed_element_def)
  have set: "Array_Set lib ?a 1 (VInt16 7) = Ok (?a\<lparr>ar_entries := [1 \<mapsto> VInt16 7]\<rparr>)"
    by (simp add: Array_Set_def norm)
  from array_set_get [OF set] have "Array_Get (?a\<lparr>ar_entries := [1 \<mapsto> VInt16 7]\<rparr>) 1 = Ok (VInt16 7)"
    "Array_Get (?a\<lparr>ar_entries := [1 \<mapsto> VInt16 7]\<rparr>) 2 = Array_Get ?a 2"
    using norm by simp_all
  moreover have "Array_Get ?a 2 = Ok VNil" by (simp add: Array_Get_def)
  ultimately show "\<exists>a'. Array_Set lib ?a 1 (VInt16 7) = Ok a' \<and> Array_Get a' 1 = Ok (VInt16 7)
      \<and> Array_Get a' 2 = Ok VNil"
    using set by metis
qed

text \<open>
  The canonical text of an array reads back: scanning the text of a well-formed INT64, UINT64 or
  DECIMAL array into a receiver of the same element type, precision and scale gives the array,
  NULL elements included.
\<close>

theorem array_text_roundtrip:
  assumes "array_wf a" and "\<forall>v \<in> ran (ar_entries a). printable a v"
    and "NewSparseArrayWithMeta (ar_elementType a) (ar_cardinality a) (ar_precision a) (ar_scale a)
      = Ok (a\<lparr>ar_entries := Map.empty\<rparr>)"
    and "ar_elementType r = ar_elementType a" and "ar_precision r = ar_precision a" and "ar_scale r = ar_scale a"
  shows "Array_Scan lib r (ASrcText (Array_String lib a)) = (None, a)"
proof -
  define n where "n = nat (ar_cardinality a)"
  have n: "int n = ar_cardinality a" "n \<noteq> 0" "n \<le> 1024" using assms(1) by (auto simp: array_wf_def n_def)
  let ?es = "map (\<lambda>i. ar_entries a (int i)) [0..<n]"
  let ?ts = "map (element_string lib) ?es"
  have pr: "\<forall>v. Some v \<in> set ?es \<longrightarrow> printable a v"
    using assms(2) ranI by (fastforce simp: eq_commute [of "Some _"])
  have tok: "\<forall>t \<in> set ?ts. token_text t"
  proof -
    have "token_text (element_string lib e)" if "e \<in> set ?es" for e
    proof (cases e)
      case None
      then show ?thesis using null_text by (simp add: element_string_def)
    next
      case (Some v)
      with that pr printable_text show ?thesis by blast
    qed
    then show ?thesis by auto
  qed
  have "parseCanonicalArrayTokens (Array_String lib a) = Ok ?ts"
    unfolding parseCanonicalArrayTokens_def Array_String_def n_def [symmetric]
    using array_tokens_Join [of ?ts] tok n by (simp add: comp_def)
  moreover have "scan_elements lib ?ts 0 (a\<lparr>ar_entries := Map.empty\<rparr>) = Ok a"
  proof -
    have pr': "\<forall>v. Some v \<in> set ?es \<longrightarrow> printable (a\<lparr>ar_entries := Map.empty\<rparr>) v"
      using pr by (simp add: printable_def cong: prim.case_cong)
    have "put_elements ?es 0 Map.empty j = ar_entries a j" for j
    proof (cases "0 \<le> j \<and> j < ar_cardinality a")
      case True
      with n(1) have "nat j < n" using nat_less_iff [of j n] by simp
      with True n(1) show ?thesis by (simp add: put_elements_lookup)
    next
      case False
      with assms(1) have "j \<notin> dom (ar_entries a)" by (auto simp: array_wf_def)
      with False n(1) show ?thesis by (auto simp: put_elements_lookup domIff)
    qed
    then have "put_elements ?es 0 Map.empty = ar_entries a" by blast
    with scan_elements_text [OF pr', of lib 0] show ?thesis by simp
  qed
  moreover have "ar_elementType a \<noteq> 0" using assms(1) by (auto simp: array_wf_def isNumericArrayElementType_def)
  ultimately show ?thesis using assms(3-6) n(1) by (simp add: Array_Scan_def Let_def)
qed

theorem array_text_roundtrip_witness:
  "\<forall>lib. Array_Scan lib \<lparr>ar_elementType = SqlTypeInt64, ar_cardinality = 0, ar_precision = 0, ar_scale = 0,
        ar_entries = Map.empty\<rparr>
      (ASrcText (Array_String lib \<lparr>ar_elementType = SqlTypeInt64, ar_cardinality = 2, ar_precision = 0,
        ar_scale = 0, ar_entries = [1 \<mapsto> VInt64 5]\<rparr>))
    = (None, \<lparr>ar_elementType = SqlTypeInt64, ar_cardinality = 2, ar_precision = 0, ar_scale = 0,
        ar_entries = [1 \<mapsto> VInt64 5]\<rparr>)"
  by (intro allI array_text_roundtrip)
    (simp_all add: array_wf_def isNumericArrayElementType_def printable_def NewSparseArrayWithMeta_def
      SqlType_ElementType_def)

end
