(* ===== verification/Machnet_Types.thy ===== *)
theory Machnet_Types
  imports Api_Array
begin

text \<open>
  \<^verbatim>\<open>machnet/types.go\<close>: the numbers of the CMI protocol (protocol ids, unit ids, unit types, the
  server's "spiner" column types), the conversions between spiner types and SQL types, column
  widths, the packed column-type word, status words and the client's own classification of SQL
  statements.
\<close>

section \<open>Protocol constants\<close>

text \<open>Protocol ids fill a header byte; unit ids and unit types are the first two words of a
  marshal unit; spiner types are Go \<^verbatim>\<open>int\<close>s.\<close>

abbreviation (input) cmiProtocolMajor :: u64 where "cmiProtocolMajor \<equiv> 4"
abbreviation (input) cmiProtocolMinor :: u64 where "cmiProtocolMinor \<equiv> 0"
abbreviation (input) cmiProtocolFix :: u64 where "cmiProtocolFix \<equiv> 4"
abbreviation (input) cmiV403MetadataVersion :: u64 where "cmiV403MetadataVersion \<equiv> 0x0004000000000003"
abbreviation (input) cmiGeneratedRowIDVersion :: u64 where "cmiGeneratedRowIDVersion \<equiv> 0x0004000000000003"
abbreviation (input) cmiArrayVersion :: u64 where "cmiArrayVersion \<equiv> 0x0004000000000004"
abbreviation (input) cmiPacketMaxBody :: nat where "cmiPacketMaxBody \<equiv> 65536"
abbreviation (input) cmiProtoCnt :: nat where "cmiProtoCnt \<equiv> 9"
abbreviation (input) cmiHandshakePrefix :: string where "cmiHandshakePrefix \<equiv> ''CMI_INET''"
abbreviation (input) cmiHandshakeEndian :: string where "cmiHandshakeEndian \<equiv> ''0''"
abbreviation (input) cmiHandshakeReady :: string where "cmiHandshakeReady \<equiv> ''CMI_READY''"
abbreviation (input) cmiHandshakePayload :: string where "cmiHandshakePayload \<equiv> ''CMI_INET0''"

abbreviation (input) cmiConnectProtocol :: byte where "cmiConnectProtocol \<equiv> 0"
abbreviation (input) cmiDisconnectProtocol :: byte where "cmiDisconnectProtocol \<equiv> 1"
abbreviation (input) cmiPrepareProtocol :: byte where "cmiPrepareProtocol \<equiv> 6"
abbreviation (input) cmiExecuteProtocol :: byte where "cmiExecuteProtocol \<equiv> 7"
abbreviation (input) cmiExecDirectProtocol :: byte where "cmiExecDirectProtocol \<equiv> 8"
abbreviation (input) cmiFetchProtocol :: byte where "cmiFetchProtocol \<equiv> 9"
abbreviation (input) cmiFreeProtocol :: byte where "cmiFreeProtocol \<equiv> 10"
abbreviation (input) cmiAppendOpenProtocol :: byte where "cmiAppendOpenProtocol \<equiv> 11"
abbreviation (input) cmiAppendDataProtocol :: byte where "cmiAppendDataProtocol \<equiv> 12"
abbreviation (input) cmiAppendCloseProtocol :: byte where "cmiAppendCloseProtocol \<equiv> 13"

abbreviation (input) cmiCVersionID :: u32 where "cmiCVersionID \<equiv> 0x1"
abbreviation (input) cmiCClientID :: u32 where "cmiCClientID \<equiv> 0x2"
abbreviation (input) cmiCDatabaseID :: u32 where "cmiCDatabaseID \<equiv> 0x4"
abbreviation (input) cmiCEndianID :: u32 where "cmiCEndianID \<equiv> 0x5"
abbreviation (input) cmiCUserID :: u32 where "cmiCUserID \<equiv> 0x6"
abbreviation (input) cmiCPasswordID :: u32 where "cmiCPasswordID \<equiv> 0x7"
abbreviation (input) cmiCTimeoutID :: u32 where "cmiCTimeoutID \<equiv> 0x8"
abbreviation (input) cmiCAuthModeID :: u32 where "cmiCAuthModeID \<equiv> 0xA"
abbreviation (input) cmiCAuthNonceID :: u32 where "cmiCAuthNonceID \<equiv> 0xC"
abbreviation (input) cmiCAuthValidMsID :: u32 where "cmiCAuthValidMsID \<equiv> 0xD"
abbreviation (input) cmiCAuthSignatureID :: u32 where "cmiCAuthSignatureID \<equiv> 0xE"
abbreviation (input) cmiCSIDID :: u32 where "cmiCSIDID \<equiv> 0x40"
abbreviation (input) cmiCSHCID :: u32 where "cmiCSHCID \<equiv> 0x41"
abbreviation (input) cmiCIPID :: u32 where "cmiCIPID \<equiv> 0x42"
abbreviation (input) cmiCAuthSigSchemeID :: u32 where "cmiCAuthSigSchemeID \<equiv> 0x43"
abbreviation (input) cmiCTimezoneID :: u32 where "cmiCTimezoneID \<equiv> 0x70"
abbreviation (input) cmiRResultID :: u32 where "cmiRResultID \<equiv> 0x10"
abbreviation (input) cmiRMessageID :: u32 where "cmiRMessageID \<equiv> 0x11"
abbreviation (input) cmiREMessageID :: u32 where "cmiREMessageID \<equiv> 0x12"
abbreviation (input) cmiPStatementID :: u32 where "cmiPStatementID \<equiv> 0x20"
abbreviation (input) cmiPBindsID :: u32 where "cmiPBindsID \<equiv> 0x21"
abbreviation (input) cmiPIDID :: u32 where "cmiPIDID \<equiv> 0x22"
abbreviation (input) cmiPRowsID :: u32 where "cmiPRowsID \<equiv> 0x23"
abbreviation (input) cmiPColumnsID :: u32 where "cmiPColumnsID \<equiv> 0x24"
abbreviation (input) cmiPTableID :: u32 where "cmiPTableID \<equiv> 0x25"
abbreviation (input) cmiPColNameID :: u32 where "cmiPColNameID \<equiv> 0x26"
abbreviation (input) cmiPColTypeID :: u32 where "cmiPColTypeID \<equiv> 0x27"
abbreviation (input) cmiPParamTypeID :: u32 where "cmiPParamTypeID \<equiv> 0x29"
abbreviation (input) cmiPParamMetaV2ID :: u32 where "cmiPParamMetaV2ID \<equiv> 0x2A"
abbreviation (input) cmiPGeneratedRowIDID :: u32 where "cmiPGeneratedRowIDID \<equiv> 0x2C"
abbreviation (input) cmiPAppendTargetsID :: u32 where "cmiPAppendTargetsID \<equiv> 0x2D"
abbreviation (input) cmiEParamID :: u32 where "cmiEParamID \<equiv> 0x31"
abbreviation (input) cmiEParamV2ID :: u32 where "cmiEParamV2ID \<equiv> 0x33"
abbreviation (input) cmiEEndianID :: u32 where "cmiEEndianID \<equiv> 0x34"
abbreviation (input) cmiDStatementID :: u32 where "cmiDStatementID \<equiv> 0x40"
abbreviation (input) cmiFIDID :: u32 where "cmiFIDID \<equiv> 0x50"
abbreviation (input) cmiFRowsID :: u32 where "cmiFRowsID \<equiv> 0x51"
abbreviation (input) cmiFValueID :: u32 where "cmiFValueID \<equiv> 0x52"
abbreviation (input) cmiXIDID :: u32 where "cmiXIDID \<equiv> 0x60"
abbreviation (input) cmiXAppendSuccessID :: u32 where "cmiXAppendSuccessID \<equiv> 0x61"
abbreviation (input) cmiXAppendFailureID :: u32 where "cmiXAppendFailureID \<equiv> 0x62"
abbreviation (input) cmimIDStmtType :: u32 where "cmimIDStmtType \<equiv> 200"

abbreviation (input) cmiStringType :: u32 where "cmiStringType \<equiv> 0x2"
abbreviation (input) cmiBinaryType :: u32 where "cmiBinaryType \<equiv> 0x3"
abbreviation (input) cmiSCharType :: u32 where "cmiSCharType \<equiv> 0x4"
abbreviation (input) cmiUCharType :: u32 where "cmiUCharType \<equiv> 0x5"
abbreviation (input) cmiSShortType :: u32 where "cmiSShortType \<equiv> 0x6"
abbreviation (input) cmiUShortType :: u32 where "cmiUShortType \<equiv> 0x7"
abbreviation (input) cmiSIntType :: u32 where "cmiSIntType \<equiv> 0x8"
abbreviation (input) cmiUIntType :: u32 where "cmiUIntType \<equiv> 0x9"
abbreviation (input) cmiSLongType :: u32 where "cmiSLongType \<equiv> 0xa"
abbreviation (input) cmiULongType :: u32 where "cmiULongType \<equiv> 0xb"
abbreviation (input) cmiDateType :: u32 where "cmiDateType \<equiv> 0xc"
abbreviation (input) cmiRowsType :: u32 where "cmiRowsType \<equiv> 0xd"
abbreviation (input) cmiTNumType :: u32 where "cmiTNumType \<equiv> 0xf1"
abbreviation (input) cmiNumType :: u32 where "cmiNumType \<equiv> 0xf2"

type_synonym spinerType = int

abbreviation (input) cmdVarFlag :: int where "cmdVarFlag \<equiv> 1"
abbreviation (input) cmdVarcharType :: spinerType where "cmdVarcharType \<equiv> 5"
abbreviation (input) cmdDateType :: spinerType where "cmdDateType \<equiv> 6"
abbreviation (input) cmdInt16Type :: spinerType where "cmdInt16Type \<equiv> 4"
abbreviation (input) cmdInt32Type :: spinerType where "cmdInt32Type \<equiv> 8"
abbreviation (input) cmdInt64Type :: spinerType where "cmdInt64Type \<equiv> 12"
abbreviation (input) cmdFlt32Type :: spinerType where "cmdFlt32Type \<equiv> 16"
abbreviation (input) cmdFlt64Type :: spinerType where "cmdFlt64Type \<equiv> 20"
abbreviation (input) cmdNulType :: spinerType where "cmdNulType \<equiv> 24"
abbreviation (input) cmdIpv4Type :: spinerType where "cmdIpv4Type \<equiv> 32"
abbreviation (input) cmdIpv6Type :: spinerType where "cmdIpv6Type \<equiv> 36"
abbreviation (input) cmdBoolType :: spinerType where "cmdBoolType \<equiv> 40"
abbreviation (input) cmdCharType :: spinerType where "cmdCharType \<equiv> 45"
abbreviation (input) cmdTextType :: spinerType where "cmdTextType \<equiv> 49"
abbreviation (input) cmdClobType :: spinerType where "cmdClobType \<equiv> 53"
abbreviation (input) cmdBlobType :: spinerType where "cmdBlobType \<equiv> 57"
abbreviation (input) cmdJSONType :: spinerType where "cmdJSONType \<equiv> 61"
abbreviation (input) cmdBinaryType :: spinerType where "cmdBinaryType \<equiv> 97"
abbreviation (input) cmdIPNetType :: spinerType where "cmdIPNetType \<equiv> 101"
abbreviation (input) cmdUInt16Type :: spinerType where "cmdUInt16Type \<equiv> 104"
abbreviation (input) cmdUInt32Type :: spinerType where "cmdUInt32Type \<equiv> 108"
abbreviation (input) cmdUInt64Type :: spinerType where "cmdUInt64Type \<equiv> 112"
abbreviation (input) cmdDecimalType :: spinerType where "cmdDecimalType \<equiv> 132"
abbreviation (input) cmdInt16ArrayType :: spinerType where "cmdInt16ArrayType \<equiv> 137"
abbreviation (input) cmdUInt16ArrayType :: spinerType where "cmdUInt16ArrayType \<equiv> 141"
abbreviation (input) cmdInt32ArrayType :: spinerType where "cmdInt32ArrayType \<equiv> 145"
abbreviation (input) cmdUInt32ArrayType :: spinerType where "cmdUInt32ArrayType \<equiv> 149"
abbreviation (input) cmdInt64ArrayType :: spinerType where "cmdInt64ArrayType \<equiv> 153"
abbreviation (input) cmdUInt64ArrayType :: spinerType where "cmdUInt64ArrayType \<equiv> 157"
abbreviation (input) cmdFlt32ArrayType :: spinerType where "cmdFlt32ArrayType \<equiv> 161"
abbreviation (input) cmdFlt64ArrayType :: spinerType where "cmdFlt64ArrayType \<equiv> 165"
abbreviation (input) cmdDecimalArrayType :: spinerType where "cmdDecimalArrayType \<equiv> 169"

abbreviation (input) cmiArrayCardinalityMask :: int where "cmiArrayCardinalityMask \<equiv> 0x7ff"
abbreviation (input) cmiArrayElementPrecisionShift :: nat where "cmiArrayElementPrecisionShift \<equiv> 11"
abbreviation (input) cmiArrayElementPrecisionMask :: int where "cmiArrayElementPrecisionMask \<equiv> 0x7f"
abbreviation (input) cmiOKResult :: u64 where "cmiOKResult \<equiv> 0x724f4b5f00000000"
abbreviation (input) cmiCMErrorResult :: u64 where "cmiCMErrorResult \<equiv> 0x72434d5f00000000"
abbreviation (input) cmiLastResult :: u64 where "cmiLastResult \<equiv> 0x724c535400000000"

text \<open>The NULL images of fixed-width columns, as bit patterns.\<close>

abbreviation (input) shortNull :: u16 where "shortNull \<equiv> 0x8000"
abbreviation (input) ushortNull :: u16 where "ushortNull \<equiv> 0xffff"
abbreviation (input) intNull :: u32 where "intNull \<equiv> 0x80000000"
abbreviation (input) uintNull :: u32 where "uintNull \<equiv> 0xffffffff"
abbreviation (input) longNull :: u64 where "longNull \<equiv> 0x8000000000000000"
abbreviation (input) ulongNull :: u64 where "ulongNull \<equiv> 0xffffffffffffffff"
abbreviation (input) floatNull :: u32 where "floatNull \<equiv> 0x7f7fffff"
abbreviation (input) doubleNull :: u64 where "doubleNull \<equiv> 0x7fefffffffffffff"
abbreviation (input) datetimeNull :: u64 where "datetimeNull \<equiv> 0xffffffffffffffff"

section \<open>Alignment\<close>

definition align8 :: "goint \<Rightarrow> goint" where
  "align8 v = (v + 7) AND NOT 7"

section \<open>Statement types\<close>

type_synonym StmtType = int

definition StmtType_IsSelect :: "StmtType \<Rightarrow> bool" where "StmtType_IsSelect typ \<longleftrightarrow> typ = 512"
definition StmtType_IsDDL :: "StmtType \<Rightarrow> bool" where "StmtType_IsDDL typ \<longleftrightarrow> typ \<ge> 1 \<and> typ \<le> 255"
definition StmtType_IsAlterSystem :: "StmtType \<Rightarrow> bool" where "StmtType_IsAlterSystem typ \<longleftrightarrow> typ \<ge> 256 \<and> typ \<le> 511"
definition StmtType_IsInsert :: "StmtType \<Rightarrow> bool" where "StmtType_IsInsert typ \<longleftrightarrow> typ = 513"
definition StmtType_IsDelete :: "StmtType \<Rightarrow> bool" where "StmtType_IsDelete typ \<longleftrightarrow> typ \<ge> 514 \<and> typ \<le> 518"
definition StmtType_IsInsertSelect :: "StmtType \<Rightarrow> bool" where "StmtType_IsInsertSelect typ \<longleftrightarrow> typ = 519"
definition StmtType_IsUpdate :: "StmtType \<Rightarrow> bool" where "StmtType_IsUpdate typ \<longleftrightarrow> typ = 520"
definition StmtType_IsExecRollup :: "StmtType \<Rightarrow> bool" where "StmtType_IsExecRollup typ \<longleftrightarrow> typ \<ge> 522 \<and> typ \<le> 524"

record ParamDesc =
  pd_Type :: SqlType
  pd_Precision :: int
  pd_ElementPrecision :: int
  pd_Scale :: int
  pd_Nullable :: bool
  pd_Nullability :: Nullability
  pd_Ordinal :: int
  pd_Name :: string

section \<open>Errors\<close>

text \<open>\<^verbatim>\<open>StatusError\<close> as a record of its own: the status kept in a handle.\<close>

record status =
  st_code :: int
  st_msg :: string

definition StatusError_Error :: "status \<Rightarrow> string" where
  "StatusError_Error e =
     (if st_msg e = [] then ''server error code='' @ itoa (st_code e)
      else if st_code e > 0 then ''server error code='' @ itoa (st_code e) @ '' message='' @ st_msg e
      else st_msg e)"

text \<open>\<^verbatim>\<open>err.Error()\<close> of a Go error value.\<close>

fun error_text :: "gerr \<Rightarrow> string" where
  "error_text (PlainErr m) = m"
| "error_text (StatusErr c m) = StatusError_Error \<lparr>st_code = c, st_msg = m\<rparr>"
| "error_text EOF = ''EOF''"
| "error_text UnexpectedEOF = ''unexpected EOF''"
| "error_text TimeoutErr = ''i/o timeout''"
| "error_text (NetErr m) = m"

fun StatusError_setErr :: "gerr option \<Rightarrow> status" where
  "StatusError_setErr None = \<lparr>st_code = 0, st_msg = []\<rparr>"
| "StatusError_setErr (Some (StatusErr c m)) =
     \<lparr>st_code = c, st_msg = (if m = [] then error_text (StatusErr c m) else m)\<rparr>"
| "StatusError_setErr (Some e) = \<lparr>st_code = 0, st_msg = error_text e\<rparr>"

definition protocolVersion :: u64 where
  "protocolVersion =
     push_bit 48 (cmiProtocolMajor AND 0xffff) OR push_bit 32 (cmiProtocolMinor AND 0xffff)
     OR (cmiProtocolFix AND 0xffffffff)"

definition makeClientErr :: "string \<Rightarrow> gerr" where
  "makeClientErr m = StatusErr 0 (if m = [] then ''unknown client error'' else m)"

definition makeServerErr :: "int \<Rightarrow> string \<Rightarrow> gerr" where
  "makeServerErr c m = StatusErr c m"

section \<open>Spiner types and SQL types\<close>

definition sqlTypeToCmdType :: "SqlType \<Rightarrow> spinerType" where
  "sqlTypeToCmdType sqlType =
     switch sqlType
     [([SqlTypeInt16], cmdInt16Type),
      ([SqlTypeUInt16], cmdUInt16Type),
      ([SqlTypeInt32], cmdInt32Type),
      ([SqlTypeUInt32], cmdUInt32Type),
      ([SqlTypeInt64], cmdInt64Type),
      ([SqlTypeUInt64], cmdUInt64Type),
      ([SqlTypeDatetime], cmdDateType),
      ([SqlTypeFloat], cmdFlt32Type),
      ([SqlTypeDouble], cmdFlt64Type),
      ([SqlTypeIPv4], cmdIpv4Type),
      ([SqlTypeIPv6], cmdIpv6Type),
      ([SqlTypeBinary], cmdBinaryType),
      ([SqlTypeJSON], cmdJSONType),
      ([SqlTypeDecimal], cmdDecimalType),
      ([SqlTypeInt16Array], cmdInt16ArrayType),
      ([SqlTypeUInt16Array], cmdUInt16ArrayType),
      ([SqlTypeInt32Array], cmdInt32ArrayType),
      ([SqlTypeUInt32Array], cmdUInt32ArrayType),
      ([SqlTypeInt64Array], cmdInt64ArrayType),
      ([SqlTypeUInt64Array], cmdUInt64ArrayType),
      ([SqlTypeFloatArray], cmdFlt32ArrayType),
      ([SqlTypeDoubleArray], cmdFlt64ArrayType),
      ([SqlTypeDecimalArray], cmdDecimalArrayType)]
     cmdVarcharType"

definition spinerTypeToSqlType :: "spinerType \<Rightarrow> SqlType" where
  "spinerTypeToSqlType sp =
     switch sp
     [([cmdBoolType, cmdInt16Type], SqlTypeInt16),
      ([cmdUInt16Type], SqlTypeUInt16),
      ([cmdInt32Type], SqlTypeInt32),
      ([cmdUInt32Type], SqlTypeUInt32),
      ([cmdInt64Type], SqlTypeInt64),
      ([cmdUInt64Type], SqlTypeUInt64),
      ([cmdDateType], SqlTypeDatetime),
      ([cmdFlt32Type], SqlTypeFloat),
      ([cmdFlt64Type], SqlTypeDouble),
      ([cmdIpv4Type], SqlTypeIPv4),
      ([cmdIpv6Type], SqlTypeIPv6),
      ([cmdBinaryType, cmdBlobType], SqlTypeBinary),
      ([cmdJSONType], SqlTypeJSON),
      ([cmdDecimalType], SqlTypeDecimal),
      ([cmdInt16ArrayType], SqlTypeInt16Array),
      ([cmdUInt16ArrayType], SqlTypeUInt16Array),
      ([cmdInt32ArrayType], SqlTypeInt32Array),
      ([cmdUInt32ArrayType], SqlTypeUInt32Array),
      ([cmdInt64ArrayType], SqlTypeInt64Array),
      ([cmdUInt64ArrayType], SqlTypeUInt64Array),
      ([cmdFlt32ArrayType], SqlTypeFloatArray),
      ([cmdFlt64ArrayType], SqlTypeDoubleArray),
      ([cmdDecimalArrayType], SqlTypeDecimalArray)]
     SqlTypeString"

definition isVariableSpinerType :: "spinerType \<Rightarrow> bool" where
  "isVariableSpinerType sp \<longleftrightarrow> sp AND cmdVarFlag = cmdVarFlag"

definition isArraySpinerType :: "spinerType \<Rightarrow> bool" where
  "isArraySpinerType sp \<longleftrightarrow> sp \<ge> cmdInt16ArrayType \<and> sp \<le> cmdDecimalArrayType
     \<and> (sp - cmdInt16ArrayType) mod 4 = 0"

definition arrayBaseSpinerType :: "spinerType \<Rightarrow> spinerType" where
  "arrayBaseSpinerType sp =
     switch sp
     [([cmdInt16ArrayType], cmdInt16Type),
      ([cmdUInt16ArrayType], cmdUInt16Type),
      ([cmdInt32ArrayType], cmdInt32Type),
      ([cmdUInt32ArrayType], cmdUInt32Type),
      ([cmdInt64ArrayType], cmdInt64Type),
      ([cmdUInt64ArrayType], cmdUInt64Type),
      ([cmdFlt32ArrayType], cmdFlt32Type),
      ([cmdFlt64ArrayType], cmdFlt64Type),
      ([cmdDecimalArrayType], cmdDecimalType)]
     0"

section \<open>Column widths\<close>

definition computeColumnLength :: "spinerType \<Rightarrow> int \<Rightarrow> int" where
  "computeColumnLength sp prec =
     switch sp
     [([cmdInt16Type, cmdUInt16Type], 2),
      ([cmdInt32Type, cmdUInt32Type], 4),
      ([cmdInt64Type, cmdUInt64Type], 8),
      ([cmdFlt32Type], 4),
      ([cmdFlt64Type], 8),
      ([cmdDateType], 8),
      ([cmdIpv4Type], 5),
      ([cmdIpv6Type], 17),
      ([cmdBoolType], 2),
      ([cmdNulType], 0),
      ([cmdDecimalType], (case decimalSize prec of Ok sz \<Rightarrow> int sz | _ \<Rightarrow> 0))]
     prec"

definition computeArrayColumnLength :: "spinerType \<Rightarrow> int \<Rightarrow> int \<Rightarrow> int" where
  "computeArrayColumnLength sp cardinality elementPrecision =
     (if \<not> isArraySpinerType sp \<or> cardinality < ArrayMinCardinality \<or> cardinality > ArrayMaxCardinality
      then 0
      else
        let elementSize = computeColumnLength (arrayBaseSpinerType sp) elementPrecision
        in if elementSize \<le> 0 then 0
           else 2 + ((cardinality + 7) div 8) + elementSize * cardinality)"

section \<open>The packed column-type word\<close>

definition extractSpinerType :: "u64 \<Rightarrow> int" where
  "extractSpinerType cmType = uint (drop_bit 56 cmType AND 0xff)"

definition extractPrecision :: "u64 \<Rightarrow> int" where
  "extractPrecision cmType = uint (drop_bit 28 cmType AND 0x0fffffff)"

definition extractScale :: "u64 \<Rightarrow> bool \<Rightarrow> int" where
  "extractScale cmType v403 =
     (if v403 then uint (drop_bit 23 cmType AND 0x1f) else uint (cmType AND 0x0fffffff))"

definition extractNullability :: "u64 \<Rightarrow> bool \<Rightarrow> Nullability" where
  "extractNullability cmType v403 =
     (if \<not> v403 then NullabilityUnknown
      else
        let flags = cmType AND 0x007fffff
        in if flags AND 0x4 \<noteq> 0 then NullabilityUnknown
           else if flags AND 0x2 \<noteq> 0 then NullabilityNullable
           else NullabilityNoNulls)"

definition extractPrimaryKey :: "u64 \<Rightarrow> bool \<Rightarrow> bool" where
  "extractPrimaryKey cmType v403 \<longleftrightarrow> v403 \<and> cmType AND 0x1 \<noteq> 0"

definition statusCode :: "u64 \<Rightarrow> u64" where
  "statusCode v = v AND 0xffffffff00000000"

definition statusErrNo :: "u64 \<Rightarrow> int" where
  "statusErrNo v = uint (v AND 0xffffffff)"

section \<open>Classifying SQL text\<close>

text \<open>Every turn of the comment loop drops at least one character.\<close>

function strip_comments :: "string \<Rightarrow> string" where
  "strip_comments t =
     (if t = [] then t
      else if HasPrefix t ''--'' then
        (case IndexByte t (CHR 0x0A) of
           None \<Rightarrow> []
         | Some idx \<Rightarrow> strip_comments (TrimSpace (drop (idx + 1) t)))
      else if HasPrefix t ''/*'' then
        (case Index t ''*/'' of
           None \<Rightarrow> []
         | Some idx \<Rightarrow> strip_comments (TrimSpace (drop (idx + 2) t)))
      else t)"
  by pat_completeness auto
termination
proof (relation "measure length", goal_cases)
  case (2 t idx)
  then show ?case
    using length_TrimSpace [of "drop (idx + 1) t"] by (cases t) auto
next
  case (3 t idx)
  then show ?case
    using length_TrimSpace [of "drop (idx + 2) t"] by (cases t) auto
qed simp

declare strip_comments.simps [simp del]

definition stripLeadingSQLComments :: "string \<Rightarrow> string" where
  "stripLeadingSQLComments sql = strip_comments (TrimSpace sql)"

definition inferStmtType :: "string \<Rightarrow> StmtType" where
  "inferStmtType sql =
     (let t = ToUpper (stripLeadingSQLComments sql)
      in if t = [] then 0
         else case Fields t of
                [] \<Rightarrow> 0
              | head # _ \<Rightarrow>
                  switch head
                  [([''SELECT''], 512),
                   ([''INSERT''], if Contains t ''SELECT'' then 519 else 513),
                   ([''DELETE''], 514),
                   ([''UPDATE''], 520),
                   ([''ALTER''], if HasPrefix t ''ALTER SYSTEM'' then 256 else 1),
                   ([''CREATE'', ''DROP'', ''TRUNCATE''], 1),
                   ([''EXEC''], 522),
                   ([''BEGIN''], 489)]
                  0)"

end
