(* ===== verification/Marshal.thy ===== *)
theory Marshal
  imports Packet Machnet_Types
begin

text \<open>
  \<^verbatim>\<open>machnet/marshal.go\<close>: the typed units inside a packet body. The writer appends units to a body of
  at most 64K and starts a new body when the next unit does not fit; \<^verbatim>\<open>finalize\<close> turns the bodies
  into packets with sequence flags. The reader walks a reassembled body unit by unit.
\<close>

section \<open>Units\<close>

abbreviation (input) marshalHeaderSize :: nat where
  "marshalHeaderSize \<equiv> 16"

text \<open>The field \<^verbatim>\<open>length\<close> of a unit is a Go \<^verbatim>\<open>int\<close>, set for variable-length units only.\<close>

record MarshalUnit =
  mu_id :: u32
  mu_typ :: u32
  mu_length :: goint
  mu_data :: bytes

section \<open>The writer\<close>

record MarshalWriter =
  mw_protocolID :: byte
  mw_stmtID :: u32
  mw_adds :: u16
  mw_current :: bytes
  mw_bodies :: "bytes list"

definition newMarshalWriter :: "byte \<Rightarrow> u32 \<Rightarrow> u16 \<Rightarrow> MarshalWriter" where
  "newMarshalWriter p sid ads =
     \<lparr>mw_protocolID = p, mw_stmtID = sid, mw_adds = ads, mw_current = [], mw_bodies = []\<rparr>"

definition flushCurrent :: "MarshalWriter \<Rightarrow> MarshalWriter" where
  "flushCurrent w =
     (if length (mw_current w) = 0 then w
      else w\<lparr>mw_bodies := mw_bodies w @ [mw_current w], mw_current := []\<rparr>)"

definition enqueue :: "bytes \<Rightarrow> MarshalWriter \<Rightarrow> MarshalWriter" where
  "enqueue u w =
     (if length u > cmiPacketMaxBody
      then let w1 = flushCurrent w in w1\<lparr>mw_bodies := mw_bodies w1 @ [u]\<rparr>
      else
        let w1 = (if length (mw_current w) + length u > cmiPacketMaxBody then flushCurrent w else w)
        in w1\<lparr>mw_current := mw_current w1 @ u\<rparr>)"

definition addVariable :: "u32 \<Rightarrow> u32 \<Rightarrow> bytes \<Rightarrow> MarshalWriter \<Rightarrow> MarshalWriter" where
  "addVariable i typ payload w =
     (let len = length payload;
          padded = unat (align8 (of_nat len));
          u = le_bytes 4 i @ le_bytes 4 typ @ le_bytes 8 (of_nat len :: u64)
              @ payload @ replicate (padded - len) 0
      in enqueue u w)"

definition addString :: "u32 \<Rightarrow> string \<Rightarrow> MarshalWriter \<Rightarrow> MarshalWriter" where
  "addString i value w = addVariable i cmiStringType (bytes_of_string value) w"

definition addBinary :: "u32 \<Rightarrow> bytes \<Rightarrow> MarshalWriter \<Rightarrow> MarshalWriter" where
  "addBinary i value w = addVariable i cmiBinaryType value w"

definition addUInt32 :: "u32 \<Rightarrow> u32 \<Rightarrow> MarshalWriter \<Rightarrow> MarshalWriter" where
  "addUInt32 i value w =
     enqueue (le_bytes 4 i @ le_bytes 4 cmiUIntType @ le_bytes 4 value @ replicate 4 0) w"

definition addSInt32 :: "u32 \<Rightarrow> u32 \<Rightarrow> MarshalWriter \<Rightarrow> MarshalWriter" where
  "addSInt32 i value w =
     enqueue (le_bytes 4 i @ le_bytes 4 cmiSIntType @ le_bytes 4 value @ replicate 4 0) w"

definition addUInt64 :: "u32 \<Rightarrow> u64 \<Rightarrow> MarshalWriter \<Rightarrow> MarshalWriter" where
  "addUInt64 i value w = enqueue (le_bytes 4 i @ le_bytes 4 cmiULongType @ le_bytes 8 value) w"

definition addSInt64 :: "u32 \<Rightarrow> u64 \<Rightarrow> MarshalWriter \<Rightarrow> MarshalWriter" where
  "addSInt64 i value w = enqueue (le_bytes 4 i @ le_bytes 4 cmiSLongType @ le_bytes 8 value) w"

definition fragment_flag :: "nat \<Rightarrow> nat \<Rightarrow> byte" where
  "fragment_flag totl idx =
     (if totl > 1 then if idx = 0 then 1 else if idx = totl - 1 then 3 else 2 else 0)"

text \<open>\<^verbatim>\<open>finalize\<close> returns the packets and the writer it leaves behind.\<close>

definition finalize :: "MarshalWriter \<Rightarrow> bytes list \<times> MarshalWriter" where
  "finalize w =
     (let w1 = flushCurrent w;
          w2 = (if mw_bodies w1 = [] then w1\<lparr>mw_bodies := [[]]\<rparr> else w1);
          totl = length (mw_bodies w2)
      in (map (\<lambda>(idx, bdy). buildPacket (mw_protocolID w2) (mw_stmtID w2) (mw_adds w2)
                              (fragment_flag totl idx) bdy)
            (enumerate 0 (mw_bodies w2)), w2))"

section \<open>The reader\<close>

record MarshalReader =
  mr_buf :: bytes
  mr_off :: nat

definition newMarshalReader :: "bytes \<Rightarrow> MarshalReader" where
  "newMarshalReader buf = \<lparr>mr_buf = buf, mr_off = 0\<rparr>"

definition var_types :: "u32 list" where
  "var_types = [cmiStringType, cmiBinaryType, cmiDateType, cmiTNumType, cmiNumType, cmiRowsType]"

text \<open>
  A unit of fixed width \<open>n\<close>: the \<open>n\<close> bytes after the first eight, in a slot of 16.
\<close>

definition next_fixed :: "nat \<Rightarrow> u32 \<Rightarrow> u32 \<Rightarrow> MarshalReader \<Rightarrow> MarshalUnit option outcome \<times> MarshalReader" where
  "next_fixed n i typ r =
     (if mr_off r + 8 + n > length (mr_buf r) then (Err (PlainErr ''marshal overflow''), r)
      else (Ok (Some \<lparr>mu_id = i, mu_typ = typ, mu_length = 0,
                       mu_data = subslice (mr_buf r) (mr_off r + 8) (mr_off r + 8 + n)\<rparr>),
            r\<lparr>mr_off := mr_off r + marshalHeaderSize\<rparr>))"

text \<open>\<open>Ok None\<close> is the end of the body. The 64-bit length of a variable unit is used as a signed
  Go \<^verbatim>\<open>int\<close>; the additions wrap, and the slice expression is bounds-checked.\<close>

definition MarshalReader_next :: "MarshalReader \<Rightarrow> MarshalUnit option outcome \<times> MarshalReader" where
  "MarshalReader_next r =
     (let buf = mr_buf r; off = mr_off r
      in if off \<ge> length buf then (Ok None, r)
         else if off + marshalHeaderSize > length buf
         then (Err (PlainErr ''incomplete marshal header''), r)
         else
           let i = le_word (subslice buf off (off + 4));
               typ = le_word (subslice buf (off + 4) (off + 8));
               unitOff = off + marshalHeaderSize
           in if typ \<in> set var_types then
                let len = le_word (subslice buf (off + 8) (off + 16)) :: goint;
                    padded = align8 len;
                    fin = of_nat unitOff + padded
                in if sint fin > int (length buf) then (Err (PlainErr ''marshal overflow''), r)
                   else (case chk_slice buf (int unitOff) (sint (of_nat unitOff + len)) of
                           Ok data \<Rightarrow> (Ok (Some \<lparr>mu_id = i, mu_typ = typ, mu_length = len, mu_data = data\<rparr>),
                                       r\<lparr>mr_off := nat (sint fin)\<rparr>)
                         | Err e \<Rightarrow> (Err e, r)
                         | Panic s \<Rightarrow> (Panic s, r))
              else if typ = cmiSCharType \<or> typ = cmiUCharType then next_fixed 1 i typ r
              else if typ = cmiSShortType \<or> typ = cmiUShortType then next_fixed 2 i typ r
              else if typ = cmiSIntType \<or> typ = cmiUIntType then next_fixed 4 i typ r
              else next_fixed 8 i typ r)"

type_synonym unit_map = "u32 \<Rightarrow> MarshalUnit list"

text \<open>
  The loop of \<^verbatim>\<open>collectUnits\<close>. Every unit takes at least 16 bytes, so the number of bytes is fuel
  enough; \<open>None\<close> would mean that it was not.
\<close>

fun collect_loop :: "nat \<Rightarrow> MarshalReader \<Rightarrow> unit_map \<Rightarrow> unit_map outcome option" where
  "collect_loop 0 r ret = None"
| "collect_loop (Suc n) r ret =
     (case MarshalReader_next r of
        (Ok (Some u), r') \<Rightarrow> collect_loop n r' (ret(mu_id u := ret (mu_id u) @ [u]))
      | (Ok None, r') \<Rightarrow> Some (Ok ret)
      | (Err e, r') \<Rightarrow> Some (Err e)
      | (Panic s, r') \<Rightarrow> Some (Panic s))"

definition collectUnits :: "bytes \<Rightarrow> unit_map outcome option" where
  "collectUnits bdy = collect_loop (Suc (length bdy)) (newMarshalReader bdy) (\<lambda>_. [])"

definition firstUnit :: "unit_map \<Rightarrow> u32 \<Rightarrow> MarshalUnit option" where
  "firstUnit m i = (case m i of [] \<Rightarrow> None | u # _ \<Rightarrow> Some u)"

section \<open>Alignment\<close>

lemma round_down_mod: "x mod 2 ^ 64 div 8 * 8 mod 2 ^ 64 = 8 * (x div 8) mod (2 ^ 64 :: nat)"
proof -
  have p: "(2 :: nat) ^ 64 = 8 * 2 ^ 61" by simp
  have "x mod 2 ^ 64 = 8 * (x div 8 mod 2 ^ 61) + x mod 8"
    unfolding p by (rule mod_mult2_eq)
  then have "x mod 2 ^ 64 div 8 = x div 8 mod 2 ^ 61" by simp
  then have "x mod 2 ^ 64 div 8 * 8 = 8 * (x div 8) mod 2 ^ 64"
    unfolding p by (simp only: mult_mod_right mult.commute)
  then show ?thesis by simp
qed

lemma align8_unat: "unat (align8 v) = 8 * ((unat v + 7) div 8) mod 2 ^ 64"
proof -
  have m: "(7 :: goint) = mask 3" by (simp add: mask_eq_exp_minus_1)
  have "x AND NOT (mask 3) = push_bit 3 (drop_bit 3 x)" for x :: goint
    by (rule bit_word_eqI) (auto simp: bit_simps)
  then have "align8 v = push_bit 3 (drop_bit 3 (v + 7))"
    unfolding align8_def m by simp
  then have "unat (align8 v) = (unat (v + 7) div 8 * 8) mod 2 ^ 64"
    by (simp add: push_bit_eq_mult drop_bit_eq_div unat_word_ariths unat_div)
  also have "unat (v + 7) = (unat v + 7) mod 2 ^ 64"
    by (simp add: unat_word_ariths)
  finally show ?thesis by (simp only: round_down_mod)
qed

lemma unat_of_nat_add: "unat (of_nat a + w :: goint) = (a + unat w) mod 2 ^ 64"
  by (simp add: unat_word_ariths unat_of_nat take_bit_eq_mod mod_add_left_eq)

lemma round_up_bounds: "x \<le> 8 * ((x + 7) div 8)" "8 * ((x + 7) div 8) \<le> x + (7 :: nat)"
  by simp_all

lemma round_up_le: "x < 2 ^ 64 \<Longrightarrow> 8 * ((x + 7) div 8) \<le> (2 ^ 64 :: nat)"
proof -
  assume "x < 2 ^ 64"
  then have "(x + 7) div 8 \<le> (2 ^ 64 + 6) div 8" by (intro div_le_mono) simp
  then show ?thesis by simp
qed

text \<open>The end offset that the reader computes, without and with wrap-around.\<close>

lemma sint_fin:
  fixes len :: goint
  assumes "a < 2 ^ 62"
  defines "e \<equiv> a + 8 * ((unat len + 7) div 8)"
  shows "sint (of_nat a + align8 len) = (if e < 2 ^ 63 then int e else int e - 2 ^ 64)"
proof -
  have "8 * ((unat len + 7) div 8) \<le> 2 ^ 64" using unat_goint_less by (rule round_up_le)
  then have e: "e < 2 ^ 64 + 2 ^ 62" using assms(1) unfolding e_def by simp
  have "unat (of_nat a + align8 len) = e mod 2 ^ 64"
    by (simp only: unat_of_nat_add align8_unat e_def mod_add_right_eq)
  moreover have "e mod 2 ^ 64 = (if e < 2 ^ 64 then e else e - 2 ^ 64)"
    using e by (simp add: mod_if)
  ultimately show ?thesis using e by (simp add: sint_goint of_nat_diff split: if_splits)
qed

lemma sint_hi:
  fixes len :: goint
  assumes "a < 2 ^ 62"
  defines "h \<equiv> a + unat len"
  shows "sint (of_nat a + len) = (if h < 2 ^ 63 then int h else int h - 2 ^ 64)"
proof -
  have h: "h < 2 ^ 64 + 2 ^ 62" using assms(1) unat_goint_less [of len] unfolding h_def by simp
  have "unat (of_nat a + len) = h mod 2 ^ 64" by (simp only: unat_of_nat_add h_def)
  moreover have "h mod 2 ^ 64 = (if h < 2 ^ 64 then h else h - 2 ^ 64)"
    using h by (simp add: mod_if)
  ultimately show ?thesis using h by (simp add: sint_goint of_nat_diff split: if_splits)
qed

section \<open>Reading one unit\<close>

definition unit_typ :: "MarshalReader \<Rightarrow> u32" where
  "unit_typ r = le_word (subslice (mr_buf r) (mr_off r + 4) (mr_off r + 8))"

definition unit_len :: "MarshalReader \<Rightarrow> goint" where
  "unit_len r = le_word (subslice (mr_buf r) (mr_off r + 8) (mr_off r + 16))"

text \<open>The exact end of a variable unit: header, payload, padding to a multiple of 8.\<close>

definition unit_end :: "MarshalReader \<Rightarrow> nat" where
  "unit_end r = mr_off r + 16 + 8 * ((unat (unit_len r) + 7) div 8)"

lemma next_variable:
  assumes "mr_off r + 16 \<le> length (mr_buf r)" and "length (mr_buf r) < 2 ^ 62"
    and "unit_typ r \<in> set var_types"
  shows "MarshalReader_next r =
    (if unit_end r \<ge> 2 ^ 63 then (Panic ''slice bounds out of range'', r)
     else if unit_end r > length (mr_buf r) then (Err (PlainErr ''marshal overflow''), r)
     else (Ok (Some \<lparr>mu_id = le_word (subslice (mr_buf r) (mr_off r) (mr_off r + 4)),
                     mu_typ = unit_typ r, mu_length = unit_len r,
                     mu_data = subslice (mr_buf r) (mr_off r + 16) (mr_off r + 16 + unat (unit_len r))\<rparr>),
           r\<lparr>mr_off := unit_end r\<rparr>))"
proof -
  define a n L where "a = mr_off r + 16" and "n = length (mr_buf r)" and "L = unat (unit_len r)"
  have a: "a < 2 ^ 62" "a \<le> n" "n < 2 ^ 62" using assms(1,2) by (simp_all add: a_def n_def)
  have off: "\<not> n \<le> mr_off r" using assms(1) by (simp add: n_def)
  have L: "L < 2 ^ 64" unfolding L_def by (rule unat_goint_less)
  define X where "X = 8 * ((L + 7) div 8)"
  have X: "L \<le> X" "X \<le> L + 7" "X \<le> 2 ^ 64"
    using round_up_bounds [of L] round_up_le [OF L] by (simp_all add: X_def)
  have e: "unit_end r = a + X" by (simp add: unit_end_def a_def L_def X_def)
  note fin = sint_fin [OF a(1), of "unit_len r", folded L_def, folded X_def]
  note hi = sint_hi [OF a(1), of "unit_len r", folded L_def]
  have "MarshalReader_next r =
    (if sint (of_nat a + align8 (unit_len r)) > int n then (Err (PlainErr ''marshal overflow''), r)
     else (case chk_slice (mr_buf r) (int a) (sint (of_nat a + unit_len r)) of
             Ok data \<Rightarrow> (Ok (Some \<lparr>mu_id = le_word (subslice (mr_buf r) (mr_off r) (mr_off r + 4)),
                 mu_typ = unit_typ r, mu_length = unit_len r, mu_data = data\<rparr>),
               r\<lparr>mr_off := nat (sint (of_nat a + align8 (unit_len r)))\<rparr>)
           | Err e \<Rightarrow> (Err e, r) | Panic s \<Rightarrow> (Panic s, r)))"
    using assms(3) a(2) off unfolding MarshalReader_next_def Let_def unit_typ_def [symmetric]
      unit_len_def [symmetric] unfolding a_def [symmetric] n_def [symmetric] by simp
  also have "\<dots> =
    (if a + X \<ge> 2 ^ 63 then (Panic ''slice bounds out of range'', r)
     else if a + X > n then (Err (PlainErr ''marshal overflow''), r)
     else (Ok (Some \<lparr>mu_id = le_word (subslice (mr_buf r) (mr_off r) (mr_off r + 4)),
                     mu_typ = unit_typ r, mu_length = unit_len r,
                     mu_data = subslice (mr_buf r) a (a + L)\<rparr>), r\<lparr>mr_off := a + X\<rparr>))"
  proof (cases "a + X < 2 ^ 63")
    case True
    with X have "a + L < 2 ^ 63" by simp
    with True X show ?thesis
      by (simp add: fin hi chk_slice_def n_def [symmetric] nat_add_distrib del: of_nat_add)
  next
    case False
    have "\<not> (int a \<le> sint (of_nat a + unit_len r) \<and> sint (of_nat a + unit_len r) \<le> int n)"
      unfolding hi using False X a L by (auto simp del: of_nat_add)
    then have "chk_slice (mr_buf r) (int a) (sint (of_nat a + unit_len r)) = Panic ''slice bounds out of range''"
      by (auto simp: chk_slice_def n_def)
    moreover have "\<not> sint (of_nat a + align8 (unit_len r)) > int n"
      unfolding fin using False X a by (auto simp del: of_nat_add)
    ultimately show ?thesis using False by simp
  qed
  finally show ?thesis by (simp add: e a_def n_def L_def)
qed

definition fixed_width :: "u32 \<Rightarrow> nat" where
  "fixed_width typ =
     (if typ = cmiSCharType \<or> typ = cmiUCharType then 1
      else if typ = cmiSShortType \<or> typ = cmiUShortType then 2
      else if typ = cmiSIntType \<or> typ = cmiUIntType then 4 else 8)"

lemma next_fixed_unit:
  assumes "mr_off r + 16 \<le> length (mr_buf r)" and "unit_typ r \<notin> set var_types"
  shows "MarshalReader_next r =
    (Ok (Some \<lparr>mu_id = le_word (subslice (mr_buf r) (mr_off r) (mr_off r + 4)), mu_typ = unit_typ r,
        mu_length = 0, mu_data = subslice (mr_buf r) (mr_off r + 8) (mr_off r + 8 + fixed_width (unit_typ r))\<rparr>),
     r\<lparr>mr_off := mr_off r + 16\<rparr>)"
  using assms unfolding MarshalReader_next_def Let_def unit_typ_def [symmetric]
  by (simp add: next_fixed_def fixed_width_def)

text \<open>A unit that is read moves the reader by at least a header and not past the end.\<close>

lemma next_progress:
  assumes "MarshalReader_next r = (Ok (Some u), r')" and "length (mr_buf r) < 2 ^ 62"
  shows "mr_buf r' = mr_buf r \<and> mr_off r + 16 \<le> mr_off r' \<and> mr_off r' \<le> length (mr_buf r)"
proof -
  have off: "mr_off r + 16 \<le> length (mr_buf r)"
    using assms(1) by (auto simp: MarshalReader_next_def Let_def split: if_splits)
  show ?thesis
  proof (cases "unit_typ r \<in> set var_types")
    case True
    from next_variable [OF off assms(2) True] assms(1) show ?thesis
      by (auto simp: unit_end_def split: if_splits)
  next
    case False
    from next_fixed_unit [OF off False] assms(1) off show ?thesis by auto
  qed
qed

lemma collect_loop_total:
  "length (mr_buf r) < 2 ^ 62 \<Longrightarrow> length (mr_buf r) - mr_off r < n \<Longrightarrow> collect_loop n r ret \<noteq> None"
proof (induction n arbitrary: r ret)
  case (Suc n)
  show ?case
  proof (cases "\<exists>u r'. MarshalReader_next r = (Ok (Some u), r')")
    case True
    then obtain u r' where u: "MarshalReader_next r = (Ok (Some u), r')" by blast
    from next_progress [OF u Suc.prems(1)] Suc.prems
    have "length (mr_buf r') < 2 ^ 62" and "length (mr_buf r') - mr_off r' < n" by auto
    from Suc.IH [OF this] u show ?thesis by simp
  next
    case False
    then show ?thesis by (auto split: prod.splits outcome.splits option.splits)
  qed
qed simp

section \<open>What the writer's calls put on the wire\<close>

datatype marshal_op =
    AddString u32 string
  | AddBinary u32 bytes
  | AddUInt32 u32 u32
  | AddSInt32 u32 u32
  | AddUInt64 u32 u64
  | AddSInt64 u32 u64

fun apply_op :: "marshal_op \<Rightarrow> MarshalWriter \<Rightarrow> MarshalWriter" where
  "apply_op (AddString i v) w = addString i v w"
| "apply_op (AddBinary i v) w = addBinary i v w"
| "apply_op (AddUInt32 i v) w = addUInt32 i v w"
| "apply_op (AddSInt32 i v) w = addSInt32 i v w"
| "apply_op (AddUInt64 i v) w = addUInt64 i v w"
| "apply_op (AddSInt64 i v) w = addSInt64 i v w"

definition var_unit_bytes :: "u32 \<Rightarrow> u32 \<Rightarrow> bytes \<Rightarrow> bytes" where
  "var_unit_bytes i typ payload =
     le_bytes 4 i @ le_bytes 4 typ @ le_bytes 8 (of_nat (length payload) :: u64)
     @ payload @ replicate (unat (align8 (of_nat (length payload))) - length payload) 0"

fun op_bytes :: "marshal_op \<Rightarrow> bytes" where
  "op_bytes (AddString i v) = var_unit_bytes i cmiStringType (bytes_of_string v)"
| "op_bytes (AddBinary i v) = var_unit_bytes i cmiBinaryType v"
| "op_bytes (AddUInt32 i v) = le_bytes 4 i @ le_bytes 4 cmiUIntType @ le_bytes 4 v @ replicate 4 0"
| "op_bytes (AddSInt32 i v) = le_bytes 4 i @ le_bytes 4 cmiSIntType @ le_bytes 4 v @ replicate 4 0"
| "op_bytes (AddUInt64 i v) = le_bytes 4 i @ le_bytes 4 cmiULongType @ le_bytes 8 v"
| "op_bytes (AddSInt64 i v) = le_bytes 4 i @ le_bytes 4 cmiSLongType @ le_bytes 8 v"

text \<open>The unit that the peer reads for a call.\<close>

fun op_unit :: "marshal_op \<Rightarrow> MarshalUnit" where
  "op_unit (AddString i v) =
     \<lparr>mu_id = i, mu_typ = cmiStringType, mu_length = of_nat (length v), mu_data = bytes_of_string v\<rparr>"
| "op_unit (AddBinary i v) =
     \<lparr>mu_id = i, mu_typ = cmiBinaryType, mu_length = of_nat (length v), mu_data = v\<rparr>"
| "op_unit (AddUInt32 i v) = \<lparr>mu_id = i, mu_typ = cmiUIntType, mu_length = 0, mu_data = le_bytes 4 v\<rparr>"
| "op_unit (AddSInt32 i v) = \<lparr>mu_id = i, mu_typ = cmiSIntType, mu_length = 0, mu_data = le_bytes 4 v\<rparr>"
| "op_unit (AddUInt64 i v) = \<lparr>mu_id = i, mu_typ = cmiULongType, mu_length = 0, mu_data = le_bytes 8 v\<rparr>"
| "op_unit (AddSInt64 i v) = \<lparr>mu_id = i, mu_typ = cmiSLongType, mu_length = 0, mu_data = le_bytes 8 v\<rparr>"

lemma apply_op_enqueue: "apply_op op w = enqueue (op_bytes op) w"
  by (cases op) (simp_all add: addString_def addBinary_def addVariable_def addUInt32_def addSInt32_def
      addUInt64_def addSInt64_def var_unit_bytes_def Let_def)

lemma op_bytes_not_Nil: "op_bytes op \<noteq> []"
proof -
  have "length (op_bytes op) \<ge> 4" by (cases op) (simp_all add: var_unit_bytes_def)
  then show ?thesis by auto
qed

lemma align8_of_nat: "n < 2 ^ 62 \<Longrightarrow> unat (align8 (of_nat n)) = 8 * ((n + 7) div 8)"
proof -
  assume n: "n < 2 ^ 62"
  then have "8 * ((n + 7) div 8) < 2 ^ 64" using round_up_bounds(2) [of n] by simp
  with n show ?thesis by (simp only: align8_unat) (simp add: unat_of_nat take_bit_nat_eq_self)
qed

lemma length_var_unit_bytes:
  "length payload < 2 ^ 62 \<Longrightarrow> length (var_unit_bytes i typ payload) = 16 + 8 * ((length payload + 7) div 8)"
  using round_up_bounds(1) [of "length payload"]
  by (simp add: var_unit_bytes_def align8_of_nat)

lemma next_var_unit:
  assumes "mr_buf r = pre @ var_unit_bytes i typ payload @ post" and "mr_off r = length pre"
    and "length (mr_buf r) < 2 ^ 62" and "typ \<in> set var_types"
  shows "MarshalReader_next r =
    (Ok (Some \<lparr>mu_id = i, mu_typ = typ, mu_length = of_nat (length payload), mu_data = payload\<rparr>),
     r\<lparr>mr_off := length pre + length (var_unit_bytes i typ payload)\<rparr>)"
proof -
  have len: "length payload < 2 ^ 62" using assms(1,3) by (simp add: var_unit_bytes_def)
  then have un: "unat (of_nat (length payload) :: u64) = length payload"
    by (simp add: unat_of_nat take_bit_nat_eq_self)
  have parts: "unit_typ r = typ" "unit_len r = of_nat (length payload)"
    "le_word (subslice (mr_buf r) (mr_off r) (mr_off r + 4)) = i"
    "subslice (mr_buf r) (mr_off r + 16) (mr_off r + 16 + length payload) = payload"
    by (simp_all add: unit_typ_def unit_len_def assms(1,2) var_unit_bytes_def codec_simps)
  have fin: "unit_end r = length pre + length (var_unit_bytes i typ payload)"
    using length_var_unit_bytes [OF len] by (simp add: unit_end_def parts(2) un assms(2))
  have off: "mr_off r + 16 \<le> length (mr_buf r)" and "unit_end r \<le> length (mr_buf r)"
    using fin length_var_unit_bytes [OF len] by (simp_all add: assms(1,2))
  with next_variable [OF off assms(3)] assms(3,4) parts un fin show ?thesis
    by simp
qed

lemma next_op_unit:
  assumes "mr_buf r = pre @ op_bytes op @ post" and "mr_off r = length pre"
    and "length (mr_buf r) < 2 ^ 62"
  shows "MarshalReader_next r = (Ok (Some (op_unit op)), r\<lparr>mr_off := length pre + length (op_bytes op)\<rparr>)"
proof -
  have fixed: "MarshalReader_next r =
      (Ok (Some \<lparr>mu_id = i, mu_typ = ty, mu_length = 0, mu_data = take (fixed_width ty) v\<rparr>),
       r\<lparr>mr_off := length pre + 16\<rparr>)"
    if "op_bytes op = le_bytes 4 i @ le_bytes 4 ty @ v" "length v = 8" "ty \<notin> set var_types" for i ty v
  proof -
    have "unit_typ r = ty" "le_word (subslice (mr_buf r) (mr_off r) (mr_off r + 4)) = i"
      by (simp_all add: unit_typ_def assms(1,2) that codec_simps)
    moreover have "subslice (mr_buf r) (mr_off r + 8) (mr_off r + 8 + fixed_width ty) = take (fixed_width ty) v"
      using that(2) by (simp add: assms(1,2) that(1) fixed_width_def codec_simps)
    moreover have "mr_off r + 16 \<le> length (mr_buf r)" using that by (simp add: assms(1,2))
    ultimately show ?thesis using next_fixed_unit [of r] that(3) assms(2) by simp
  qed
  show ?thesis
  proof (cases op)
    case (AddString i v)
    with next_var_unit [of r pre i cmiStringType "bytes_of_string v" post] assms show ?thesis
      by (simp add: var_types_def)
  next
    case (AddBinary i v)
    with next_var_unit [of r pre i cmiBinaryType v post] assms show ?thesis
      by (simp add: var_types_def)
  next
    case (AddUInt32 i v)
    with fixed [of i cmiUIntType "le_bytes 4 v @ replicate 4 0"] show ?thesis
      by (simp add: var_types_def fixed_width_def)
  next
    case (AddSInt32 i v)
    with fixed [of i cmiSIntType "le_bytes 4 v @ replicate 4 0"] show ?thesis
      by (simp add: var_types_def fixed_width_def)
  next
    case (AddUInt64 i v)
    with fixed [of i cmiULongType "le_bytes 8 v"] show ?thesis
      by (simp add: var_types_def fixed_width_def)
  next
    case (AddSInt64 i v)
    with fixed [of i cmiSLongType "le_bytes 8 v"] show ?thesis
      by (simp add: var_types_def fixed_width_def)
  qed
qed

lemma collect_loop_ops:
  "length (pre @ concat (map op_bytes ops)) < 2 ^ 62 \<Longrightarrow> length ops < n \<Longrightarrow>
    collect_loop n \<lparr>mr_buf = pre @ concat (map op_bytes ops), mr_off = length pre\<rparr> ret
      = Some (Ok (\<lambda>i. ret i @ filter (\<lambda>u. mu_id u = i) (map op_unit ops)))"
proof (induction ops arbitrary: pre n ret)
  case Nil
  then obtain m where "n = Suc m" by (cases n) auto
  then show ?case by (simp add: MarshalReader_next_def)
next
  case (Cons op ops)
  then obtain m where m: "n = Suc m" by (cases n) auto
  let ?r = "\<lparr>mr_buf = pre @ concat (map op_bytes (op # ops)), mr_off = length pre\<rparr>"
  let ?ret = "ret(mu_id (op_unit op) := ret (mu_id (op_unit op)) @ [op_unit op])"
  have "MarshalReader_next ?r = (Ok (Some (op_unit op)), ?r\<lparr>mr_off := length pre + length (op_bytes op)\<rparr>)"
    by (rule next_op_unit [where post = "concat (map op_bytes ops)"]) (use Cons.prems in simp_all)
  moreover have "collect_loop m \<lparr>mr_buf = (pre @ op_bytes op) @ concat (map op_bytes ops),
      mr_off = length (pre @ op_bytes op)\<rparr> ?ret
      = Some (Ok (\<lambda>i. ?ret i @ filter (\<lambda>u. mu_id u = i) (map op_unit ops)))"
    by (rule Cons.IH) (use Cons.prems m in simp_all)
  ultimately show ?case by (auto simp: m)
qed

lemma length_concat_ops: "length ops \<le> length (concat (map op_bytes ops))"
proof (induction ops)
  case (Cons op ops)
  have "length (op_bytes op) \<noteq> 0" using op_bytes_not_Nil by simp
  with Cons show ?case unfolding list.map concat.simps length_append list.size by linarith
qed simp

section \<open>The writer's invariant\<close>

text \<open>
  What the bodies and the open buffer hold after a sequence of calls: the units one after the other
  in call order, no empty body, no body above 64K unless it is a single unit, and an open buffer
  within 64K.
\<close>

definition writer_inv :: "marshal_op list \<Rightarrow> MarshalWriter \<Rightarrow> bool" where
  "writer_inv ops w \<longleftrightarrow>
     concat (mw_bodies w) @ mw_current w = concat (map op_bytes ops)
     \<and> [] \<notin> set (mw_bodies w)
     \<and> (\<forall>b \<in> set (mw_bodies w). length b \<le> cmiPacketMaxBody \<or> b \<in> op_bytes ` set ops)
     \<and> length (mw_current w) \<le> cmiPacketMaxBody"

definition same_target :: "MarshalWriter \<Rightarrow> MarshalWriter \<Rightarrow> bool" where
  "same_target w w' \<longleftrightarrow> mw_protocolID w' = mw_protocolID w \<and> mw_stmtID w' = mw_stmtID w
     \<and> mw_adds w' = mw_adds w"

lemma writer_inv_new: "writer_inv [] (newMarshalWriter p sid ads)"
  by (simp add: writer_inv_def newMarshalWriter_def)

lemma writer_inv_flush: "writer_inv ops w \<Longrightarrow> writer_inv ops (flushCurrent w)"
  by (auto simp: writer_inv_def flushCurrent_def)

lemma flushCurrent_empty: "mw_current (flushCurrent w) = []"
  by (simp add: flushCurrent_def)

lemma writer_inv_apply: "writer_inv ops w \<Longrightarrow> writer_inv (ops @ [op]) (apply_op op w)"
proof -
  assume inv: "writer_inv ops w"
  note flushed = writer_inv_flush [OF inv] flushCurrent_empty [of w]
  show ?thesis
  proof (cases "length (op_bytes op) > cmiPacketMaxBody")
    case True
    with flushed op_bytes_not_Nil [of op] show ?thesis
      by (auto simp: apply_op_enqueue enqueue_def writer_inv_def Let_def)
  next
    case False
    with inv flushed show ?thesis
      by (auto simp: apply_op_enqueue enqueue_def writer_inv_def Let_def)
  qed
qed

lemma same_target_apply: "same_target w (apply_op op w)"
  by (auto simp: apply_op_enqueue enqueue_def flushCurrent_def same_target_def Let_def)

definition run_ops :: "marshal_op list \<Rightarrow> MarshalWriter \<Rightarrow> MarshalWriter" where
  "run_ops ops w = fold apply_op ops w"

lemma run_ops_inv: "writer_inv done w \<Longrightarrow> writer_inv (done @ ops) (run_ops ops w)"
  unfolding run_ops_def
proof (induction ops arbitrary: "done" w)
  case (Cons op ops)
  from Cons.IH [OF writer_inv_apply [OF Cons.prems, of op]] show ?case by simp
qed simp

lemma run_ops_target: "same_target w (run_ops ops w)"
  unfolding run_ops_def
proof (induction ops arbitrary: w)
  case (Cons op ops)
  from Cons.IH [of "apply_op op w"] same_target_apply [of w op] show ?case
    by (simp add: same_target_def)
qed (simp add: same_target_def)

section \<open>Sequence flags\<close>

definition flagged :: "bytes list \<Rightarrow> (byte \<times> bytes) list" where
  "flagged bs = map (\<lambda>(i, b). (fragment_flag (length bs) i, b)) (enumerate 0 bs)"

lemma frags_wf_tail:
  "bs \<noteq> [] \<Longrightarrow> 0 < k \<Longrightarrow> \<forall>b \<in> set bs. length b < 2 ^ 30 \<Longrightarrow> n = k + length bs \<Longrightarrow>
    frags_wf (map (\<lambda>(i, b). (fragment_flag n i, b)) (enumerate k bs))"
proof (induction bs arbitrary: k)
  case (Cons b bs)
  show ?case
  proof (cases bs)
    case Nil
    with Cons.prems show ?thesis by (simp add: fragment_flag_def last_flag_def)
  next
    case (Cons c cs)
    with Cons.IH [of "Suc k"] Cons.prems show ?thesis
      by (auto simp: fragment_flag_def last_flag_def)
  qed
qed simp

lemma frags_wf_flagged:
  assumes "bs \<noteq> []" and "\<forall>b \<in> set bs. length b < 2 ^ 30"
  shows "frags_wf (flagged bs)"
proof (cases bs)
  case (Cons b cs)
  show ?thesis
  proof (cases cs)
    case Nil
    with Cons assms show ?thesis by (simp add: flagged_def fragment_flag_def last_flag_def)
  next
    case (Cons c ds)
    with frags_wf_tail [of cs 1 "length bs"] assms \<open>bs = b # cs\<close> show ?thesis
      by (auto simp: flagged_def fragment_flag_def last_flag_def)
  qed
qed (use assms in simp)

lemma snd_flagged: "map snd (flagged bs) = bs"
  by (simp add: flagged_def comp_def case_prod_beta)

lemma finalize_wire:
  assumes "w1 = flushCurrent w"
  shows "concat (fst (finalize w))
    = frags_wire (mw_protocolID w) (mw_stmtID w) (mw_adds w) (flagged (if mw_bodies w1 = [] then [[]] else mw_bodies w1))"
proof -
  have "mw_protocolID w1 = mw_protocolID w" "mw_stmtID w1 = mw_stmtID w" "mw_adds w1 = mw_adds w"
    by (simp_all add: assms flushCurrent_def)
  then show ?thesis
    by (simp add: finalize_def frags_wire_def flagged_def assms [symmetric] Let_def comp_def case_prod_beta
        cong: map_cong)
qed

section \<open>Properties\<close>

text \<open>
  C7. A message survives the trip: whatever sequence of unit-adding calls fills a writer, the bytes
  of its packets, read by \<^verbatim>\<open>Packet.Read\<close> from a stream and passed to \<^verbatim>\<open>collectUnits\<close>, give back
  under every id exactly the units added with that id, in the order of the calls, with their type
  and data; the stream is left at the byte after the message. The bounds are those of the format:
  a unit fits the 30-bit packet length, the message fits in memory.
\<close>

theorem marshal_end_to_end:
  assumes "\<forall>op \<in> set ops. length (op_bytes op) < 2 ^ 30"
    and "length (concat (map op_bytes ops)) < 2 ^ 62"
  shows "\<exists>pkt'. Packet_Read pkt
      \<lparr>rd_data = concat (fst (finalize (run_ops ops (newMarshalWriter p sid ads)))) @ rest, rd_end = e\<rparr>
      = (None, pkt', \<lparr>rd_data = rest, rd_end = e\<rparr>)
    \<and> protocol pkt' = p \<and> stmtID pkt' = sid \<and> adds pkt' = ads
    \<and> collectUnits (bslice_bytes (body pkt'))
      = Some (Ok (\<lambda>i. filter (\<lambda>u. mu_id u = i) (map op_unit ops)))"
proof -
  let ?w = "run_ops ops (newMarshalWriter p sid ads)"
  let ?bs = "mw_bodies (flushCurrent ?w)"
  let ?frs = "flagged (if ?bs = [] then [[]] else ?bs)"
  have inv: "writer_inv ops (flushCurrent ?w)"
    using run_ops_inv [OF writer_inv_new] writer_inv_flush by fastforce
  then have cat: "concat ?bs = concat (map op_bytes ops)"
    by (simp add: writer_inv_def flushCurrent_empty)
  have bound: "length b < 2 ^ 30" if "b \<in> set ?bs" for b
    using inv that assms(1) by (fastforce simp: writer_inv_def)
  have wf: "frags_wf ?frs" using bound by (intro frags_wf_flagged) auto
  have snd: "concat (map snd ?frs) = concat (map op_bytes ops)" using cat unfolding snd_flagged by (cases "?bs = []") simp_all
  have hd: "snd (hd ?frs) \<noteq> [] \<or> length ?frs = 1"
  proof (cases "?bs = []")
    case False
    then have "snd (hd ?frs) = hd (map snd ?frs)" by (simp add: flagged_def hd_map enumerate_eq_zip)
    then have "snd (hd ?frs) = hd ?bs" using False by (simp add: snd_flagged)
    moreover have "hd ?bs \<noteq> []" using inv False by (metis hd_in_set writer_inv_def)
    ultimately show ?thesis by simp
  qed (simp add: flagged_def)
  have target: "mw_protocolID ?w = p" "mw_stmtID ?w = sid" "mw_adds ?w = ads"
    using run_ops_target [of "newMarshalWriter p sid ads" ops]
    by (simp_all add: same_target_def newMarshalWriter_def)
  have wire: "concat (fst (finalize ?w)) = frags_wire p sid ads ?frs"
    using finalize_wire [OF refl, of ?w] target by simp
  have "collectUnits (concat (map op_bytes ops)) = Some (Ok (\<lambda>i. filter (\<lambda>u. mu_id u = i) (map op_unit ops)))"
    using collect_loop_ops [of "[]" ops "Suc (length (concat (map op_bytes ops)))" "\<lambda>_. []"] assms(2)
      length_concat_ops [of ops]
    by (simp add: collectUnits_def newMarshalReader_def le_imp_less_Suc)
  with Packet_Read_frags [OF wf hd, of pkt p sid ads rest e] snd wire show ?thesis
    by fastforce
qed

theorem marshal_end_to_end_witness:
  "\<exists>pkt'. Packet_Read \<lparr>protocol = 0, flag = 0, adds = 0, stmtID = 0, body = nil_bslice\<rparr>
      \<lparr>rd_data = concat (fst (finalize (run_ops [AddString 1 ''ab'', AddUInt32 2 7]
          (newMarshalWriter 9 5 3)))) @ [42], rd_end = EOF\<rparr>
      = (None, pkt', \<lparr>rd_data = [42], rd_end = EOF\<rparr>)
    \<and> protocol pkt' = 9 \<and> stmtID pkt' = 5 \<and> adds pkt' = 3
    \<and> collectUnits (bslice_bytes (body pkt'))
      = Some (Ok (\<lambda>i. filter (\<lambda>u. mu_id u = i) (map op_unit [AddString 1 ''ab'', AddUInt32 2 7])))"
  by (rule marshal_end_to_end) (simp_all add: length_var_unit_bytes)

text \<open>
  Every reachable writer is well formed: after any sequence of calls the closed bodies and the
  open buffer, joined, are the units in call order; no closed body is empty; a body above 64K is a
  single unit on its own; the open buffer is within 64K; and the target of the message (protocol,
  statement, additional field) is the one it was created with.
\<close>

theorem marshal_writer_invariant:
  "writer_inv ops (run_ops ops (newMarshalWriter p sid ads))
    \<and> same_target (newMarshalWriter p sid ads) (run_ops ops (newMarshalWriter p sid ads))"
  using run_ops_inv [OF writer_inv_new [of p sid ads], of ops] run_ops_target by simp

text \<open>
  On a variable unit the reader panics exactly when the unit's exact end, header plus payload
  padded to eight, lies at or beyond the largest Go \<^verbatim>\<open>int\<close>: the wrapped end offset then passes the
  bounds check and the slice expression fails. It reports an overflow error exactly when the end
  lies in the range of \<^verbatim>\<open>int\<close> but past the buffer.
\<close>

theorem marshal_next_outcome:
  assumes "mr_off r + 16 \<le> length (mr_buf r)" and "length (mr_buf r) < 2 ^ 62"
    and "unit_typ r \<in> set var_types"
  shows "(is_panic (fst (MarshalReader_next r)) \<longleftrightarrow> unit_end r \<ge> 2 ^ 63)
    \<and> (fst (MarshalReader_next r) = Err (PlainErr ''marshal overflow'')
      \<longleftrightarrow> length (mr_buf r) < unit_end r \<and> unit_end r < 2 ^ 63)"
  using assms(2) by (auto simp: next_variable [OF assms])

text \<open>Sixteen bytes that announce a string of length \<open>2 ^ 64 - 1\<close> make the reader panic.\<close>

theorem marshal_next_outcome_witness:
  "is_panic (fst (MarshalReader_next
     \<lparr>mr_buf = [1, 0, 0, 0, 2, 0, 0, 0, 255, 255, 255, 255, 255, 255, 255, 255], mr_off = 0\<rparr>))"
proof -
  let ?r = "\<lparr>mr_buf = [1, 0, 0, 0, 2, 0, 0, 0, 255, 255, 255, 255, 255, 255, 255, 255], mr_off = 0\<rparr>"
  have "unit_typ ?r = 2" and "unit_len ?r = 0xffffffffffffffff"
    by (simp_all add: unit_typ_def unit_len_def subslice_def)
  then have "unit_typ ?r \<in> set var_types" and "unit_end ?r \<ge> 2 ^ 63"
    by (simp_all add: var_types_def unit_end_def)
  with marshal_next_outcome [of ?r] show ?thesis by simp
qed

text \<open>
  C40. \<^verbatim>\<open>collectUnits\<close> always returns: on any body the unit loop ends, because every unit it reads
  moves the offset by at least sixteen bytes; the fuel of the model is enough.
\<close>

theorem collectUnits_returns:
  assumes "length bdy < 2 ^ 62"
  shows "\<exists>res. collectUnits bdy = Some res"
  using collect_loop_total [of "newMarshalReader bdy" "Suc (length bdy)"] assms
  by (auto simp: collectUnits_def newMarshalReader_def)

theorem collectUnits_returns_witness: "\<exists>res. collectUnits [1, 2, 3] = Some res"
  by (rule collectUnits_returns) simp

end
