(* ===== verification/Columns.thy ===== *)
theory Columns
  imports Marshal
begin

text \<open>
  The metadata part of \<^verbatim>\<open>machnet/decode.go\<close>: columns of a result set, parameters of a prepared
  statement, and the block of parameter names.
\<close>

section \<open>Columns\<close>

record ColumnMeta =
  cm_name :: string
  cm_cmType :: u64
  cm_precision :: int
  cm_elementPrecision :: int
  cm_scale :: int
  cm_spinerType :: spinerType
  cm_length :: int
  cm_isVariable :: bool
  cm_sqlType :: SqlType
  cm_nullable :: bool
  cm_nullability :: Nullability
  cm_primaryKey :: bool

text \<open>The packed word of a type unit; 0 when the unit is too short. Then the split of the precision
  field of an array type into cardinality and precision of the elements.\<close>

definition array_precision :: "spinerType \<Rightarrow> int \<Rightarrow> int \<times> int" where
  "array_precision spiner wirePrecision =
     (if isArraySpinerType spiner
      then (wirePrecision AND cmiArrayCardinalityMask,
            drop_bit cmiArrayElementPrecisionShift wirePrecision AND cmiArrayElementPrecisionMask)
      else (wirePrecision, 0))"

definition column_meta :: "MarshalUnit \<Rightarrow> MarshalUnit \<Rightarrow> bool \<Rightarrow> ColumnMeta" where
  "column_meta nam typ v403 =
     (let cmType = (if length (mu_data typ) \<ge> 8 then le_word (take 8 (mu_data typ)) else 0);
          spiner = extractSpinerType cmType;
          (prec, elementPrecision) = array_precision spiner (extractPrecision cmType);
          nullability = extractNullability cmType v403
      in \<lparr>cm_name = string_of_bytes (mu_data nam),
          cm_cmType = cmType,
          cm_precision = prec,
          cm_elementPrecision = elementPrecision,
          cm_scale = extractScale cmType v403,
          cm_spinerType = spiner,
          cm_length = (if isArraySpinerType spiner then computeArrayColumnLength spiner prec elementPrecision
                       else computeColumnLength spiner prec),
          cm_isVariable = isVariableSpinerType spiner,
          cm_sqlType = spinerTypeToSqlType spiner,
          cm_nullable = (nullability = NullabilityNullable),
          cm_nullability = nullability,
          cm_primaryKey = extractPrimaryKey cmType v403\<rparr>)"

text \<open>The loop runs to the shorter of the two unit lists.\<close>

definition buildColumns :: "unit_map \<Rightarrow> bool \<Rightarrow> ColumnMeta list" where
  "buildColumns units v403 =
     map (\<lambda>(n, t). column_meta n t v403) (zip (units cmiPColNameID) (units cmiPColTypeID))"

section \<open>Parameters\<close>

definition param_desc :: "MarshalUnit list \<Rightarrow> bool \<Rightarrow> nat \<Rightarrow> ParamDesc" where
  "param_desc typUnits v403 i =
     (let d = \<lparr>pd_Type = SqlTypeString, pd_Precision = 0, pd_ElementPrecision = 0, pd_Scale = 0,
               pd_Nullable = False, pd_Nullability = NullabilityUnknown, pd_Ordinal = int i + 1, pd_Name = []\<rparr>
      in if i < length typUnits \<and> length (mu_data (typUnits ! i)) \<ge> 8
         then
           let cmType = le_word (take 8 (mu_data (typUnits ! i))) :: u64;
               spiner = extractSpinerType cmType;
               (prec, elementPrecision) = array_precision spiner (extractPrecision cmType);
               nullability = extractNullability cmType v403
           in d\<lparr>pd_Type := spinerTypeToSqlType spiner,
                pd_Precision := prec,
                pd_ElementPrecision := elementPrecision,
                pd_Scale := extractScale cmType v403,
                pd_Nullability := nullability,
                pd_Nullable := (nullability = NullabilityNullable)\<rparr>
         else d)"

definition buildParamDesc :: "unit_map \<Rightarrow> int \<Rightarrow> bool \<Rightarrow> ParamDesc list" where
  "buildParamDesc units cnt v403 =
     (let typUnits = units cmiPParamTypeID;
          n = (if cnt \<le> 0 then length typUnits else nat cnt)
      in map (param_desc typUnits v403) [0..<n])"

section \<open>Parameter names\<close>

text \<open>\<^verbatim>\<open>utf8.Valid\<close>: the ranges of the first and second byte of a sequence by the length of the
  sequence, and continuation bytes.\<close>

definition in_range :: "byte \<Rightarrow> nat \<Rightarrow> nat \<Rightarrow> bool" where
  "in_range b lo hi \<longleftrightarrow> lo \<le> unat b \<and> unat b \<le> hi"

abbreviation (input) continuation :: "byte \<Rightarrow> bool" where
  "continuation b \<equiv> in_range b 0x80 0xbf"

function utf8_Valid :: "bytes \<Rightarrow> bool" where
  "utf8_Valid [] = True"
| "utf8_Valid (a # bs) =
     (if in_range a 0 0x7f then utf8_Valid bs
      else if in_range a 0xc2 0xdf then
        (case bs of b # cs \<Rightarrow> continuation b \<and> utf8_Valid cs | _ \<Rightarrow> False)
      else if in_range a 0xe0 0xef then
        (case bs of
           b # c # cs \<Rightarrow>
             in_range b (if unat a = 0xe0 then 0xa0 else 0x80) (if unat a = 0xed then 0x9f else 0xbf)
             \<and> continuation c \<and> utf8_Valid cs
         | _ \<Rightarrow> False)
      else if in_range a 0xf0 0xf4 then
        (case bs of
           b # c # d # cs \<Rightarrow>
             in_range b (if unat a = 0xf0 then 0x90 else 0x80) (if unat a = 0xf4 then 0x8f else 0xbf)
             \<and> continuation c \<and> continuation d \<and> utf8_Valid cs
         | _ \<Rightarrow> False)
      else False)"
  by pat_completeness auto
termination by (relation "measure length") auto

declare utf8_Valid.simps(2) [simp del]

text \<open>
  One turn of the loop of \<^verbatim>\<open>applyParamMetadataV2\<close>. All offsets are sums of a slice length and 32-bit
  lengths, so they are exact in a 64-bit \<^verbatim>\<open>int\<close>. The entries are written into \<open>desc\<close> as they come,
  also when a later entry fails: the result is the error, if any, and \<open>desc\<close>.
\<close>

record meta_cursor =
  mc_offset :: nat
  mc_seen :: "bool list"
  mc_desc :: "ParamDesc list"

definition meta_entry :: "bytes \<Rightarrow> meta_cursor \<Rightarrow> gerr option \<times> meta_cursor" where
  "meta_entry data st =
     (let offset = mc_offset st; desc = mc_desc st; n = length desc
      in if offset + 8 > length data
         then (Some (PlainErr ''truncated parameter name metadata entry''), st)
         else
           let ordinal = unat (be_word (subslice data offset (offset + 2)) :: u16);
               flags = be_word (subslice data (offset + 2) (offset + 4)) :: u16;
               nameLen = unat (be_word (subslice data (offset + 4) (offset + 8)) :: u32);
               offset = offset + 8
           in if ordinal < 1 \<or> ordinal > n \<or> mc_seen st ! (ordinal - 1) \<or> flags AND NOT 1 \<noteq> 0
                 \<or> offset + nameLen > length data
              then (Some (PlainErr ''invalid parameter name metadata entry''), st)
              else
                let named = (flags AND 1 \<noteq> 0)
                in if (\<not> named \<and> nameLen \<noteq> 0) \<or> (named \<and> nameLen = 0)
                   then (Some (PlainErr ''parameter name metadata flag mismatch''), st)
                   else
                     let nameBytes = subslice data offset (offset + nameLen)
                     in if named \<and> \<not> utf8_Valid nameBytes
                        then (Some (PlainErr ''invalid UTF-8 in parameter name metadata''), st)
                        else
                          let st = (if named
                                then st\<lparr>mc_desc := desc[ordinal - 1 := (desc ! (ordinal - 1))\<lparr>pd_Name := string_of_bytes nameBytes\<rparr>]\<rparr>
                                else st);
                              offset = offset + nameLen
                          in if odd offset \<and> (offset \<ge> length data \<or> data ! offset \<noteq> 0)
                             then (Some (PlainErr ''invalid parameter name metadata padding''), st)
                             else (None, st\<lparr>mc_offset := (if odd offset then offset + 1 else offset),
                                            mc_seen := (mc_seen st)[ordinal - 1 := True]\<rparr>))"

fun meta_entries :: "nat \<Rightarrow> bytes \<Rightarrow> meta_cursor \<Rightarrow> gerr option \<times> meta_cursor" where
  "meta_entries 0 data st = (None, st)"
| "meta_entries (Suc k) data st =
     (case meta_entry data st of
        (None, st') \<Rightarrow> meta_entries k data st'
      | (Some e, st') \<Rightarrow> (Some e, st'))"

definition applyParamMetadataV2 :: "ParamDesc list \<Rightarrow> unit_map \<Rightarrow> gerr option \<times> ParamDesc list" where
  "applyParamMetadataV2 desc units =
     (case units cmiPParamMetaV2ID of
        [blk] \<Rightarrow>
          (let data = mu_data blk
           in if length data < 4 \<or> be_word (take 2 data) \<noteq> (1 :: u16)
                 \<or> unat (be_word (subslice data 2 4) :: u16) \<noteq> length desc
              then (Some (PlainErr ''parameter name metadata header mismatch''), desc)
              else
                case meta_entries (length desc) data
                       \<lparr>mc_offset = 4, mc_seen = replicate (length desc) False, mc_desc = desc\<rparr> of
                  (Some e, st) \<Rightarrow> (Some e, mc_desc st)
                | (None, st) \<Rightarrow>
                    if mc_offset st \<noteq> length data
                    then (Some (PlainErr ''parameter name metadata occurrence mismatch''), mc_desc st)
                    else (None, mc_desc st))
      | _ \<Rightarrow> (Some (PlainErr ''prepare response missing parameter name metadata''), desc))"

section \<open>The format of the name block\<close>

text \<open>An item names a parameter by its ordinal; the empty name is an unnamed parameter.\<close>

type_synonym meta_item = "nat \<times> bytes"

definition item_image :: "meta_item \<Rightarrow> bytes" where
  "item_image it =
     be_bytes 2 (of_nat (fst it) :: u16) @ be_bytes 2 (of_bool (snd it \<noteq> []) :: u16)
     @ be_bytes 4 (of_nat (length (snd it)) :: u32) @ snd it
     @ (if odd (length (snd it)) then [0] else [])"

definition item_ok :: "nat \<Rightarrow> meta_item \<Rightarrow> bool" where
  "item_ok n it \<longleftrightarrow> 1 \<le> fst it \<and> fst it \<le> n \<and> length (snd it) < 2 ^ 32 \<and> utf8_Valid (snd it)"

definition put_name :: "meta_item \<Rightarrow> ParamDesc list \<Rightarrow> ParamDesc list" where
  "put_name it d =
     (if snd it = [] then d
      else d[fst it - 1 := (d ! (fst it - 1))\<lparr>pd_Name := string_of_bytes (snd it)\<rparr>])"

definition after_item :: "meta_item \<Rightarrow> meta_cursor \<Rightarrow> meta_cursor" where
  "after_item it st = \<lparr>mc_offset = mc_offset st + length (item_image it),
     mc_seen = (mc_seen st)[fst it - 1 := True], mc_desc = put_name it (mc_desc st)\<rparr>"

lemma after_item_upd: "after_item it st = st\<lparr>mc_desc := put_name it (mc_desc st),
    mc_offset := mc_offset st + length (item_image it), mc_seen := (mc_seen st)[fst it - 1 := True]\<rparr>"
  by (cases st) (simp add: after_item_def)

lemma length_put_name [simp]: "length (put_name it d) = length d"
  by (simp add: put_name_def)

lemma subslice_drop: "subslice xs (k + a) (k + b) = subslice (drop k xs) a b"
  by (simp add: subslice_def add.commute)

lemma length_item_image: "length (item_image it) = 8 + length (snd it) + of_bool (odd (length (snd it)))"
  by (simp add: item_image_def)

lemma item_image_even: "even (length (item_image it))"
  by (simp add: length_item_image)

lemma item_flags: "(of_bool P :: u16) AND NOT 1 = 0" "(of_bool P :: u16) AND 1 \<noteq> 0 \<longleftrightarrow> P"
  by (cases P; simp)+

text \<open>An item at the cursor is taken.\<close>

lemma meta_entry_take:
  assumes st: "even (mc_offset st)" "length (mc_desc st) < 2 ^ 16"
    and it: "item_ok (length (mc_desc st)) it" "\<not> mc_seen st ! (fst it - 1)"
    and data: "drop (mc_offset st) data = item_image it @ rest"
  shows "meta_entry data st = (None, after_item it st)"
proof -
  let ?o = "mc_offset st" and ?d = "drop (mc_offset st) data" and ?nm = "snd it"
  have len: "length data = ?o + length (item_image it) + length rest"
    using arg_cong [OF data, of length] by (cases "?o \<le> length data") (auto simp: length_item_image)
  have 1: "subslice data ?o (?o + 2) = be_bytes 2 (of_nat (fst it) :: u16)"
    using subslice_drop [of data ?o 0 2] data by (simp add: item_image_def subslice_def)
  have 2: "subslice data (?o + 2) (?o + 4) = be_bytes 2 (of_bool (?nm \<noteq> []) :: u16)"
    unfolding subslice_drop data by (simp add: item_image_def subslice_def)
  have 3: "subslice data (?o + 4) (?o + 8) = be_bytes 4 (of_nat (length ?nm) :: u32)"
    unfolding subslice_drop data by (simp add: item_image_def subslice_def)
  have 4: "subslice data (?o + 8) (?o + 8 + length ?nm) = ?nm"
    unfolding add.assoc [of ?o 8] subslice_drop data by (simp add: item_image_def subslice_def)
  have 5: "data ! (?o + 8 + length ?nm) = 0" if "odd (length ?nm)"
  proof -
    have "data ! (?o + (8 + length ?nm)) = ?d ! (8 + length ?nm)" using len by (simp add: length_item_image)
    also have "\<dots> = 0" unfolding data using that by (simp add: item_image_def nth_append)
    finally show ?thesis by (simp add: add.assoc)
  qed
  have o: "unat (of_nat (fst it) :: u16) = fst it"
    using it(1) st(2) by (intro unat_of_nat_small) (simp add: item_ok_def)
  have l: "unat (of_nat (length ?nm) :: u32) = length ?nm"
    using it(1) by (intro unat_of_nat_small) (simp add: item_ok_def)
  show ?thesis
    unfolding meta_entry_def Let_def 1 2 3
    using st(1) it len 4 5
    by (cases "even (length ?nm)")
      (simp_all add: be_word_be_bytes_id o l item_flags item_ok_def after_item_def put_name_def length_item_image)
qed

text \<open>Whatever is taken was an item at the cursor.\<close>

lemma odd_flag: "(f :: u16) AND NOT 1 = 0 \<Longrightarrow> f = of_bool (f AND 1 \<noteq> 0)"
proof -
  assume f: "f AND NOT 1 = 0"
  have "f = (f AND NOT 1) OR (f AND 1)" by (rule bit_word_eqI) (auto simp: bit_simps)
  then have "f = f AND 1" using f by simp
  then have "f = of_bool (odd f)" by (simp add: and_one_eq mod_2_eq_odd)
  then have "f = 0 \<or> f = 1" by (metis of_bool_eq(1,2))
  then show ?thesis by auto
qed

lemma meta_entry_taken:
  assumes st: "even (mc_offset st)" and taken: "meta_entry data st = (None, st')"
  shows "\<exists>it rest. item_ok (length (mc_desc st)) it \<and> \<not> mc_seen st ! (fst it - 1)
    \<and> drop (mc_offset st) data = item_image it @ rest \<and> st' = after_item it st"
proof -
  let ?o = "mc_offset st"
  define ordinal where "ordinal = (be_word (subslice data ?o (?o + 2)) :: u16)"
  define flags where "flags = (be_word (subslice data (?o + 2) (?o + 4)) :: u16)"
  define nameLen where "nameLen = (be_word (subslice data (?o + 4) (?o + 8)) :: u32)"
  define nm where "nm = subslice data (?o + 8) (?o + 8 + unat nameLen)"
  define pad where "pad = (if odd (unat nameLen) then [0 :: byte] else [])"
  note t = taken [unfolded meta_entry_def Let_def, folded ordinal_def flags_def nameLen_def, folded nm_def]
  from t have guards: "?o + 8 \<le> length data" "1 \<le> unat ordinal" "unat ordinal \<le> length (mc_desc st)"
      "\<not> mc_seen st ! (unat ordinal - 1)" "flags AND NOT 1 = 0" "?o + 8 + unat nameLen \<le> length data"
    by (auto simp del: One_nat_def split: if_splits)
  from t guards have name: "flags AND 1 \<noteq> 0 \<longleftrightarrow> unat nameLen \<noteq> 0" "flags AND 1 \<noteq> 0 \<longrightarrow> utf8_Valid nm"
    by (auto simp del: One_nat_def split: if_splits)
  have ev: "odd (?o + 8 + unat nameLen) \<longleftrightarrow> odd (unat nameLen)" using st by simp
  have pad: "odd (unat nameLen) \<longrightarrow> ?o + 8 + unat nameLen < length data \<and> data ! (?o + 8 + unat nameLen) = 0"
    using t [unfolded ev] guards name by (auto simp del: One_nat_def split: if_splits)
  have lnm: "length nm = unat nameLen" using guards by (simp add: nm_def)
  have nil: "nm = [] \<longleftrightarrow> unat nameLen = 0" using lnm by (metis length_0_conv)
  let ?it = "(unat ordinal, nm)"
  have img: "item_image ?it = subslice data ?o (?o + 2) @ subslice data (?o + 2) (?o + 4)
      @ subslice data (?o + 4) (?o + 8) @ nm @ pad"
  proof -
    have "be_bytes 2 ordinal = subslice data ?o (?o + 2)"
      using guards unfolding ordinal_def by (intro be_bytes_be_word) simp_all
    moreover have "be_bytes 2 flags = subslice data (?o + 2) (?o + 4)"
      using guards unfolding flags_def by (intro be_bytes_be_word) simp_all
    moreover have "be_bytes 4 nameLen = subslice data (?o + 4) (?o + 8)"
      using guards unfolding nameLen_def by (intro be_bytes_be_word) simp_all
    moreover have "flags = of_bool (nm \<noteq> [])" using odd_flag [OF guards(5)] name(1) nil by simp
    ultimately show ?thesis by (simp add: item_image_def pad_def lnm)
  qed
  have st': "st' = after_item ?it st"
    using t [unfolded ev] guards name pad nil lnm
    by (cases "unat nameLen = 0"; cases "odd (unat nameLen)")
      (simp_all del: One_nat_def add: after_item_upd put_name_def length_item_image add.assoc)
  have tail: "pad = subslice data (?o + 8 + unat nameLen) (?o + 8 + unat nameLen + length pad)"
    using pad by (auto simp: pad_def subslice_def take_Suc_conv_app_nth hd_drop_conv_nth take_Suc)
  have "drop ?o data = item_image ?it @ drop (?o + length (item_image ?it)) data"
  proof -
    have "item_image ?it = subslice data ?o (?o + 8 + unat nameLen + length pad)"
    proof -
      let ?e = "?o + 8 + unat nameLen"
      have "subslice data ?o (?e + length pad) = subslice data ?o (?o + 2) @ subslice data (?o + 2) (?o + 4)
          @ subslice data (?o + 4) (?o + 8) @ subslice data (?o + 8) ?e @ subslice data ?e (?e + length pad)"
        using subslice_split [of ?o "?o + 2" "?e + length pad" data]
          subslice_split [of "?o + 2" "?o + 4" "?e + length pad" data]
          subslice_split [of "?o + 4" "?o + 8" "?e + length pad" data]
          subslice_split [of "?o + 8" ?e "?e + length pad" data] by simp
      then show ?thesis unfolding img nm_def [symmetric] tail [symmetric] by simp
    qed
    moreover have "length (item_image ?it) = 8 + unat nameLen + length pad"
      by (simp add: length_item_image lnm pad_def)
    ultimately show ?thesis by (simp add: subslice_def add.assoc) (metis append_take_drop_id drop_drop add.commute)
  qed
  moreover have "item_ok (length (mc_desc st)) ?it"
    using guards name nil lnm unsigned_less [of nameLen] by (auto simp: item_ok_def)
  ultimately show ?thesis using guards(4) st' by fastforce
qed

lemma after_item_simps [simp]:
  "mc_offset (after_item it st) = mc_offset st + length (item_image it)"
  "mc_seen (after_item it st) = (mc_seen st)[fst it - 1 := True]"
  "mc_desc (after_item it st) = put_name it (mc_desc st)"
  by (simp_all add: after_item_def)

lemma fold_after_item:
  "mc_offset (fold after_item items st) = mc_offset st + length (concat (map item_image items))"
  "mc_desc (fold after_item items st) = fold put_name items (mc_desc st)"
  by (induction items arbitrary: st) simp_all

text \<open>Items that fit a cursor: in range, pairwise different ordinals, none of them seen before.\<close>

definition fresh_items :: "meta_cursor \<Rightarrow> meta_item list \<Rightarrow> bool" where
  "fresh_items st items \<longleftrightarrow> list_all (item_ok (length (mc_desc st))) items \<and> distinct (map fst items)
     \<and> list_all (\<lambda>it. \<not> mc_seen st ! (fst it - 1)) items"

lemma fresh_items_Cons:
  assumes "length (mc_seen st) = length (mc_desc st)"
  shows "fresh_items st (it # items) \<longleftrightarrow>
    item_ok (length (mc_desc st)) it \<and> \<not> mc_seen st ! (fst it - 1) \<and> fresh_items (after_item it st) items"
proof -
  have one: "\<not> (mc_seen st)[fst it - 1 := True] ! (fst x - 1) \<longleftrightarrow> fst x \<noteq> fst it \<and> \<not> mc_seen st ! (fst x - 1)"
    if "item_ok (length (mc_desc st)) it" "item_ok (length (mc_desc st)) x" for x
    using that assms by (auto simp: item_ok_def nth_list_update split: if_splits)
  have "list_all (\<lambda>x. \<not> (mc_seen st)[fst it - 1 := True] ! (fst x - 1)) items
      \<longleftrightarrow> fst it \<notin> fst ` set items \<and> list_all (\<lambda>x. \<not> mc_seen st ! (fst x - 1)) items"
    if "item_ok (length (mc_desc st)) it" "list_all (item_ok (length (mc_desc st))) items"
    using that(2) by (induction items) (use one [OF that(1)] in auto)
  then show ?thesis by (auto simp: fresh_items_def simp del: One_nat_def)
qed

lemma meta_entries_iff:
  assumes "even (mc_offset st)" "length (mc_desc st) < 2 ^ 16" "length (mc_seen st) = length (mc_desc st)"
  shows "meta_entries k data st = (None, st') \<longleftrightarrow>
    (\<exists>items rest. length items = k \<and> fresh_items st items \<and> st' = fold after_item items st
      \<and> drop (mc_offset st) data = concat (map item_image items) @ rest)"
  using assms
proof (induction k arbitrary: st)
  case 0
  then show ?case by (auto simp: fresh_items_def)
next
  case (Suc k)
  have step: "meta_entries k data (after_item it st) = (None, st') \<longleftrightarrow>
    (\<exists>items rest. length items = k \<and> fresh_items (after_item it st) items \<and> st' = fold after_item items (after_item it st)
      \<and> drop (length (item_image it)) (drop (mc_offset st) data) = concat (map item_image items) @ rest)" for it
    using Suc.prems item_image_even [of it] by (subst Suc.IH) (simp_all add: add.commute)
  show ?case
  proof
    assume run: "meta_entries (Suc k) data st = (None, st')"
    then obtain st1 where one: "meta_entry data st = (None, st1)" and more: "meta_entries k data st1 = (None, st')"
      by (auto split: prod.splits option.splits)
    from meta_entry_taken [OF Suc.prems(1) one] obtain it rest where
      it: "item_ok (length (mc_desc st)) it" "\<not> mc_seen st ! (fst it - 1)"
        "drop (mc_offset st) data = item_image it @ rest" "st1 = after_item it st" by blast
    from more [unfolded it(4) step] it(3) obtain items rest' where
      "length items = k" "fresh_items (after_item it st) items" "st' = fold after_item items (after_item it st)"
        "rest = concat (map item_image items) @ rest'" by auto
    with it fresh_items_Cons [OF Suc.prems(3), of it items]
    show "\<exists>items rest. length items = Suc k \<and> fresh_items st items \<and> st' = fold after_item items st
        \<and> drop (mc_offset st) data = concat (map item_image items) @ rest"
      by (intro exI [of _ "it # items"] exI [of _ rest']) simp
  next
    assume "\<exists>items rest. length items = Suc k \<and> fresh_items st items \<and> st' = fold after_item items st
        \<and> drop (mc_offset st) data = concat (map item_image items) @ rest"
    then obtain it items rest where its: "length items = k" "fresh_items st (it # items)"
        "st' = fold after_item items (after_item it st)"
        "drop (mc_offset st) data = item_image it @ concat (map item_image items) @ rest"
      by (auto simp: length_Suc_conv)
    then have "meta_entry data st = (None, after_item it st)"
      using Suc.prems fresh_items_Cons [OF Suc.prems(3)] by (intro meta_entry_take) auto
    moreover have "meta_entries k data (after_item it st) = (None, st')"
      unfolding step using its fresh_items_Cons [OF Suc.prems(3)] by auto
    ultimately show "meta_entries (Suc k) data st = (None, st')" by simp
  qed
qed

lemma fresh_items_start:
  "length items = length desc \<and> fresh_items \<lparr>mc_offset = 4, mc_seen = replicate (length desc) False, mc_desc = desc\<rparr> items \<longleftrightarrow> distinct (map fst items) \<and> fst ` set items = {1..length desc}
      \<and> list_all (\<lambda>it. length (snd it) < 2 ^ 32 \<and> utf8_Valid (snd it)) items"
proof -
  have ok: "fresh_items \<lparr>mc_offset = 4, mc_seen = replicate (length desc) False, mc_desc = desc\<rparr> items \<longleftrightarrow> distinct (map fst items) \<and> fst ` set items \<subseteq> {1..length desc}
    \<and> list_all (\<lambda>it. length (snd it) < 2 ^ 32 \<and> utf8_Valid (snd it)) items"
  proof -
    have "item_ok (length desc) it \<longleftrightarrow> fst it \<in> {1..length desc} \<and> length (snd it) < 2 ^ 32 \<and> utf8_Valid (snd it)" for it
      by (auto simp: item_ok_def)
    moreover have "\<not> replicate (length desc) False ! (i - 1)" if "i \<in> {1..length desc}" for i
    proof -
      from that have "i - 1 < length desc" by auto
      then show ?thesis by simp
    qed
    ultimately show ?thesis unfolding fresh_items_def list_all_iff by (simp only: meta_cursor.select_convs) blast
  qed
  have card: "card (fst ` set items) = length items" if "distinct (map fst items)"
    using distinct_card [OF that] by simp
  show ?thesis unfolding ok using card card_subset_eq [of "{1..length desc}" "fst ` set items"] by auto
qed

lemma name_header:
  "length data < 4 \<or> be_word (take 2 data) \<noteq> (1 :: u16) \<or> unat (be_word (subslice data 2 4) :: u16) \<noteq> n
      \<longleftrightarrow> \<not> (n < 2 ^ 16 \<and> take 4 data = be_bytes 2 (1 :: u16) @ be_bytes 2 (of_nat n :: u16))"
proof
  assume l: "\<not> (n < 2 ^ 16 \<and> take 4 data = be_bytes 2 (1 :: u16) @ be_bytes 2 (of_nat n :: u16))"
  show "length data < 4 \<or> be_word (take 2 data) \<noteq> (1 :: u16) \<or> unat (be_word (subslice data 2 4) :: u16) \<noteq> n"
  proof (rule ccontr)
    assume *: "\<not> ?thesis"
    moreover have "be_word (subslice data 2 4) = (of_nat n :: u16)" using * by (metis of_nat_unat ucast_id)
    ultimately have "be_bytes 2 (1 :: u16) = take 2 data" "be_bytes 2 (of_nat n :: u16) = subslice data 2 4"
      using be_bytes_be_word [of "take 2 data" 2, where 'a = 16]
        be_bytes_be_word [of "subslice data 2 4" 2, where 'a = 16] by auto
    moreover have "n < 2 ^ 16" using * unsigned_less [of "be_word (subslice data 2 4) :: u16", where 'a = nat] by simp
    moreover have "take 4 data = take 2 data @ subslice data 2 4"
      using subslice_split [of 0 2 4 data] by (simp add: subslice_0)
    ultimately show False using l by simp
  qed
next
  assume *: "length data < 4 \<or> be_word (take 2 data) \<noteq> (1 :: u16) \<or> unat (be_word (subslice data 2 4) :: u16) \<noteq> n"
  show "\<not> (n < 2 ^ 16 \<and> take 4 data = be_bytes 2 (1 :: u16) @ be_bytes 2 (of_nat n :: u16))"
  proof
    assume h: "n < 2 ^ 16 \<and> take 4 data = be_bytes 2 (1 :: u16) @ be_bytes 2 (of_nat n :: u16)"
    then have "length (take 4 data) = 4" by simp
    moreover have "take 2 data = be_bytes 2 (1 :: u16)"
      using arg_cong [OF conjunct2 [OF h], of "take 2"] by (simp add: min_def)
    moreover have "subslice data 2 4 = be_bytes 2 (of_nat n :: u16)"
      using arg_cong [OF conjunct2 [OF h], of "drop 2"] by (simp add: subslice_def drop_take)
    ultimately show False using * h by (simp add: be_word_be_bytes_id unat_of_nat_small)
  qed
qed

section \<open>Properties\<close>

text \<open>
  \<^verbatim>\<open>applyParamMetadataV2\<close> accepts exactly the well-formed name blocks: version 1, the number of
  parameters, then one item per parameter, every ordinal from 1 to the number of parameters once
  and in any order, names valid UTF-8, each item padded to an even offset, and nothing after the
  last. The names of the items, and nothing else, are stored at their ordinals.
\<close>

theorem param_names_exact:
  "applyParamMetadataV2 desc units = (None, desc') \<longleftrightarrow>
    (\<exists>blk items. units cmiPParamMetaV2ID = [blk] \<and> length desc < 2 ^ 16
      \<and> mu_data blk = be_bytes 2 (1 :: u16) @ be_bytes 2 (of_nat (length desc) :: u16) @ concat (map item_image items)
      \<and> distinct (map fst items) \<and> fst ` set items = {1..length desc}
      \<and> list_all (\<lambda>it. length (snd it) < 2 ^ 32 \<and> utf8_Valid (snd it)) items
      \<and> desc' = fold put_name items desc)"
  (is "?l \<longleftrightarrow> (\<exists>blk items. ?r blk items)")
proof -
  let ?n = "length desc" and ?st = "\<lparr>mc_offset = 4, mc_seen = replicate (length desc) False, mc_desc = desc\<rparr>"
  let ?bad = "\<lambda>data :: bytes. length data < 4 \<or> be_word (take 2 data) \<noteq> (1 :: u16)
    \<or> unat (be_word (subslice data 2 4) :: u16) \<noteq> ?n"
  note fresh = fresh_items_start [of _ desc] and header = name_header [of _ ?n]
  show ?thesis
  proof
    assume ?l
    then obtain blk where blk: "units cmiPParamMetaV2ID = [blk]"
      by (auto simp: applyParamMetadataV2_def split: list.splits)
    let ?d = "mu_data blk"
    from \<open>?l\<close> blk have "\<not> ?bad ?d"
      by (auto simp: applyParamMetadataV2_def Let_def split: if_splits)
    then have n: "?n < 2 ^ 16" "take 4 ?d = be_bytes 2 (1 :: u16) @ be_bytes 2 (of_nat ?n :: u16)"
      using header by blast+
    from \<open>?l\<close> blk obtain st where
      st: "meta_entries ?n ?d ?st = (None, st)" "mc_offset st = length ?d" "desc' = mc_desc st"
      by (auto simp: applyParamMetadataV2_def Let_def split: if_splits prod.splits option.splits)
    from st(1) n(1) obtain items rest where its: "length items = ?n" "fresh_items ?st items"
        "st = fold after_item items ?st" "drop 4 ?d = concat (map item_image items) @ rest"
      by (subst (asm) meta_entries_iff) auto
    have "length ?d = 4 + length (concat (map item_image items))" using st(2) its(3) by (simp add: fold_after_item)
    then have "rest = []" using arg_cong [OF its(4), of length] by simp
    then have "?d = be_bytes 2 (1 :: u16) @ be_bytes 2 (of_nat ?n :: u16) @ concat (map item_image items)"
      using its(4) n(2) append_take_drop_id [of 4 ?d] by simp
    then show "\<exists>blk items. ?r blk items"
      using blk n(1) its fresh [of items] st(3) by (intro exI [of _ blk] exI [of _ items]) (simp add: fold_after_item)
  next
    assume "\<exists>blk items. ?r blk items"
    then obtain blk items where r: "?r blk items" by blast
    then have its: "length items = ?n" "fresh_items ?st items" using fresh [of items] by blast+
    have d: "take 4 (mu_data blk) = be_bytes 2 (1 :: u16) @ be_bytes 2 (of_nat ?n :: u16)"
      "drop 4 (mu_data blk) = concat (map item_image items)" using r by simp_all
    have "meta_entries ?n (mu_data blk) ?st = (None, fold after_item items ?st)"
      using r its d(2) by (subst meta_entries_iff) (auto intro!: exI [of _ items])
    moreover have "\<not> ?bad (mu_data blk)" using header d(1) r by blast
    ultimately show ?l using r its by (simp add: applyParamMetadataV2_def fold_after_item)
  qed
qed

end
