(* ===== verification/Array_Codec.thy ===== *)
theory Array_Codec
  imports Columns
begin

text \<open>
  \<^verbatim>\<open>machnet/array.go\<close>: the wire images of ARRAY columns. The dense image is the cardinality, a
  bitmap of the NULL positions and one slot per position; the sparse image lists the positions that
  are set.
\<close>

abbreviation (input) sparseArrayFormatVersion :: byte where "sparseArrayFormatVersion \<equiv> 1"
abbreviation (input) sparseArrayFlag :: byte where "sparseArrayFlag \<equiv> 1"

section \<open>Reading and writing slices\<close>

text \<open>\<^verbatim>\<open>binary.BigEndian.UintN(b)\<close> panics on a short slice; \<open>copy_at\<close> is \<^verbatim>\<open>copy(dst[off:], src)\<close>.\<close>

definition be_Uint :: "nat \<Rightarrow> bytes \<Rightarrow> 'a::len word outcome" where
  "be_Uint n b = (if length b < n then Panic ''index out of range'' else Ok (be_word (take n b)))"

definition copy_at :: "bytes \<Rightarrow> nat \<Rightarrow> bytes \<Rightarrow> bytes" where
  "copy_at dst off src = take off dst @ take (length dst - off) src @ drop (off + length src) dst"

section \<open>Elements\<close>

definition sentinel_error :: "string \<Rightarrow> 'a outcome" where
  "sentinel_error t = Err (PlainErr (t @ '' ARRAY element uses NULL sentinel''))"

definition decodeArrayElement :: "spinerType \<Rightarrow> bytes \<Rightarrow> int \<Rightarrow> int \<Rightarrow> prim outcome" where
  "decodeArrayElement sp field prec scl =
     switch sp
     [([cmdInt16Type], bind_outcome (be_Uint 2 field) (\<lambda>v. if v = shortNull then sentinel_error ''INT16'' else Ok (VInt16 v))),
      ([cmdUInt16Type], bind_outcome (be_Uint 2 field) (\<lambda>v. if v = ushortNull then sentinel_error ''UINT16'' else Ok (VUint16 v))),
      ([cmdInt32Type], bind_outcome (be_Uint 4 field) (\<lambda>v. if v = intNull then sentinel_error ''INT32'' else Ok (VInt32 v))),
      ([cmdUInt32Type], bind_outcome (be_Uint 4 field) (\<lambda>v. if v = uintNull then sentinel_error ''UINT32'' else Ok (VUint32 v))),
      ([cmdInt64Type], bind_outcome (be_Uint 8 field) (\<lambda>v. if v = longNull then sentinel_error ''INT64'' else Ok (VInt64 v))),
      ([cmdUInt64Type], bind_outcome (be_Uint 8 field) (\<lambda>v. if v = ulongNull then sentinel_error ''UINT64'' else Ok (VUint64 v))),
      ([cmdFlt32Type], bind_outcome (be_Uint 4 field) (\<lambda>v. if v = floatNull then sentinel_error ''FLOAT'' else Ok (VFloat32 v))),
      ([cmdFlt64Type], bind_outcome (be_Uint 8 field) (\<lambda>v. if v = doubleNull then sentinel_error ''DOUBLE'' else Ok (VFloat64 v))),
      ([cmdDecimalType], bind_outcome (decodeDecimal field prec scl)
         (\<lambda>d. Ok (case d of None \<Rightarrow> VNil | Some x \<Rightarrow> VDecimal x)))]
     (Err (PlainErr ''unsupported ARRAY element type''))"

definition invalid_int_element :: "string \<Rightarrow> 'a outcome" where
  "invalid_int_element t = Err (PlainErr (''invalid '' @ t @ '' ARRAY element''))"

definition int_element :: "string \<Rightarrow> int \<Rightarrow> int \<Rightarrow> (int \<Rightarrow> bytes) \<Rightarrow> prim \<Rightarrow> bytes outcome" where
  "int_element t lo hi put value =
     (case toInt64 value of
        Ok v \<Rightarrow> if v < lo \<or> v > hi then invalid_int_element t else Ok (put v)
      | _ \<Rightarrow> invalid_int_element t)"

definition uint_element :: "string \<Rightarrow> nat \<Rightarrow> (nat \<Rightarrow> bytes) \<Rightarrow> prim \<Rightarrow> bytes outcome" where
  "uint_element t hi put value =
     (case toUint64 value of
        Ok v \<Rightarrow> if v > hi then invalid_int_element t else Ok (put v)
      | _ \<Rightarrow> invalid_int_element t)"

text \<open>
  \<^verbatim>\<open>v == math.MinInt64\<close> and \<^verbatim>\<open>v == math.MaxUint64\<close> are the range tests of the 64-bit types: an
  \<^verbatim>\<open>int64\<close> other than the least one is at least \<open>- (2 ^ 63) + 1\<close>.
\<close>

definition encodeArrayElement :: "golib \<Rightarrow> spinerType \<Rightarrow> prim \<Rightarrow> int \<Rightarrow> int \<Rightarrow> bytes outcome" where
  "encodeArrayElement lib sp value prec scl =
     switch sp
     [([cmdInt16Type], int_element ''INT16'' (-32767) 32767 (\<lambda>v. be_bytes 2 (of_int v :: u16)) value),
      ([cmdUInt16Type], uint_element ''UINT16'' 65534 (\<lambda>v. be_bytes 2 (of_nat v :: u16)) value),
      ([cmdInt32Type], int_element ''INT32'' (-2147483647) 2147483647 (\<lambda>v. be_bytes 4 (of_int v :: u32)) value),
      ([cmdUInt32Type], uint_element ''UINT32'' 0xfffffffe (\<lambda>v. be_bytes 4 (of_nat v :: u32)) value),
      ([cmdInt64Type], int_element ''INT64'' (- (2 ^ 63) + 1) (2 ^ 63 - 1) (\<lambda>v. be_bytes 8 (of_int v :: u64)) value),
      ([cmdUInt64Type], uint_element ''UINT64'' (2 ^ 64 - 2) (\<lambda>v. be_bytes 8 (of_nat v :: u64)) value),
      ([cmdFlt32Type], bind_outcome (toFloat64 lib value)
         (\<lambda>v. let bits = f64_narrow v in if bits = floatNull then sentinel_error ''FLOAT'' else Ok (be_bytes 4 bits))),
      ([cmdFlt64Type], bind_outcome (toFloat64 lib value)
         (\<lambda>v. if v = doubleNull then sentinel_error ''DOUBLE'' else Ok (be_bytes 8 v))),
      ([cmdDecimalType], bind_outcome (encodeDecimal lib value prec scl)
         (\<lambda>ret. if list_all (\<lambda>octet. octet = 0) ret then sentinel_error ''DECIMAL'' else Ok ret))]
     (Err (PlainErr ''unsupported ARRAY element type''))"

section \<open>Decoding a payload\<close>

text \<open>
  The loop over the positions. \<^verbatim>\<open>decodeArrayPayload\<close> has checked the length of the payload before, so
  the slices and index expressions are in range.
\<close>

fun decode_elements :: "golib \<Rightarrow> ColumnMeta \<Rightarrow> bytes \<Rightarrow> nat \<Rightarrow> nat \<Rightarrow> nat list \<Rightarrow> Array \<Rightarrow> Array outcome" where
  "decode_elements lib col payload bitmapSize elementSize [] ret = Ok ret"
| "decode_elements lib col payload bitmapSize elementSize (idx # rest) ret =
     (if payload ! (2 + idx div 8) AND push_bit (idx mod 8) 1 \<noteq> 0
      then decode_elements lib col payload bitmapSize elementSize rest ret
      else
        let begn = 2 + bitmapSize + idx * elementSize
        in bind_outcome (decodeArrayElement (arrayBaseSpinerType (cm_spinerType col))
               (subslice payload begn (begn + elementSize)) (cm_elementPrecision col) (cm_scale col)) (\<lambda>value.
             if value = VNil then Err (PlainErr ''non-NULL ARRAY element uses NULL sentinel'')
             else bind_outcome (Array_Set lib ret (int idx) value)
                    (decode_elements lib col payload bitmapSize elementSize rest)))"

definition decodeArrayPayload :: "golib \<Rightarrow> ColumnMeta \<Rightarrow> bytes \<Rightarrow> Array outcome" where
  "decodeArrayPayload lib col payload =
     (let cardinality = cm_precision col;
          base = arrayBaseSpinerType (cm_spinerType col);
          elementSize = computeColumnLength base (cm_elementPrecision col);
          bitmapSize = (cardinality + 7) div 8;
          expected = 2 + bitmapSize + elementSize * cardinality
      in if cardinality < 1 \<or> cardinality > ArrayMaxCardinality \<or> elementSize \<le> 0 \<or> int (length payload) \<noteq> expected
         then Err (PlainErr ''invalid ARRAY payload size'')
         else if uint (be_word (take 2 payload) :: u16) \<noteq> cardinality
         then Err (PlainErr ''ARRAY cardinality mismatch'')
         else if cardinality mod 8 \<noteq> 0
              \<and> payload ! (2 + nat bitmapSize - 1) AND push_bit (nat (cardinality mod 8)) 0xff \<noteq> 0
         then Err (PlainErr ''invalid ARRAY NULL bitmap padding'')
         else bind_outcome (NewSparseArrayWithMeta (spinerTypeToSqlType base) cardinality (cm_elementPrecision col) (cm_scale col))
                (decode_elements lib col payload (nat bitmapSize) (nat elementSize) [0..<nat cardinality]))"

section \<open>Encoding a payload\<close>

text \<open>
  The keys of the entry map in increasing order. Entries lie at positions below the cardinality (the
  invariant of \<open>Api_Array\<close>), so scanning the positions lists all of them.
\<close>

definition sorted_positions :: "Array \<Rightarrow> nat list" where
  "sorted_positions a = filter (\<lambda>i. ar_entries a (int i) \<noteq> None) [0..<nat (ar_cardinality a)]"

definition entry_at :: "Array \<Rightarrow> nat \<Rightarrow> prim" where
  "entry_at a i = (case ar_entries a (int i) of None \<Rightarrow> VNil | Some v \<Rightarrow> v)"

fun sparse_elements :: "(prim \<Rightarrow> bytes outcome) \<Rightarrow> nat \<Rightarrow> Array \<Rightarrow> nat list \<Rightarrow> nat \<Rightarrow> bytes \<Rightarrow> bytes outcome" where
  "sparse_elements enc elementSize a [] offset ret = Ok ret"
| "sparse_elements enc elementSize a (position # ps) offset ret =
     (let ret = copy_at ret offset (be_bytes 2 (of_nat (position + 1) :: u16));
          offset = offset + 2
      in bind_outcome (enc (entry_at a position)) (\<lambda>encoded.
           sparse_elements enc elementSize a ps (offset + elementSize)
             (copy_at ret offset (take elementSize encoded))))"

fun dense_elements :: "(prim \<Rightarrow> bytes outcome) \<Rightarrow> nat \<Rightarrow> nat \<Rightarrow> Array \<Rightarrow> nat list \<Rightarrow> bytes \<Rightarrow> bytes outcome" where
  "dense_elements enc bitmapSize elementSize a [] ret = Ok ret"
| "dense_elements enc bitmapSize elementSize a (position # ps) ret =
     bind_outcome (enc (entry_at a position)) (\<lambda>encoded.
       let k = 2 + position div 8;
           ret = ret[k := ret ! k AND NOT (push_bit (position mod 8) 1)]
       in dense_elements enc bitmapSize elementSize a ps
            (copy_at ret (2 + bitmapSize + position * elementSize) encoded))"

definition mark_null :: "nat \<Rightarrow> bytes \<Rightarrow> bytes" where
  "mark_null idx ret = ret[2 + idx div 8 := ret ! (2 + idx div 8) OR push_bit (idx mod 8) 1]"

text \<open>\<open>Ok None\<close> is the nil slice returned for a nil \<^verbatim>\<open>*Array\<close>.\<close>

definition encodeArrayPayload :: "golib \<Rightarrow> Array option \<Rightarrow> ColumnMeta \<Rightarrow> bool \<Rightarrow> bytes option outcome" where
  "encodeArrayPayload lib value col allowSparse =
     (case value of
        None \<Rightarrow> Ok None
      | Some a \<Rightarrow>
          (let elementType = arrayBaseSpinerType (cm_spinerType col);
               enc = (\<lambda>v. encodeArrayElement lib elementType v (cm_elementPrecision col) (cm_scale col));
               prec = cm_precision col
           in if ar_cardinality a \<noteq> prec then Err (PlainErr ''ARRAY cardinality mismatch'')
              else if ar_elementType a \<noteq> spinerTypeToSqlType elementType
              then Err (PlainErr ''ARRAY element type mismatch'')
              else
                let positions = sorted_positions a;
                    elementSize = computeColumnLength elementType (cm_elementPrecision col);
                    denseSize = computeArrayColumnLength (cm_spinerType col) prec (cm_elementPrecision col);
                    sparseSize = 8 + int (length positions) * (2 + elementSize)
                in if elementSize \<le> 0 \<or> denseSize \<le> 0 then Err (PlainErr ''invalid ARRAY column metadata'')
                   else if allowSparse \<and> sparseSize < denseSize
                   then
                     let ret = (replicate (nat sparseSize) 0)[2 := sparseArrayFormatVersion, 3 := sparseArrayFlag];
                         ret = copy_at ret 4 (be_bytes 2 (of_int prec :: u16));
                         ret = copy_at ret 6 (be_bytes 2 (of_nat (length positions) :: u16))
                     in bind_outcome (sparse_elements enc (nat elementSize) a positions 8 ret) (\<lambda>r. Ok (Some r))
                   else
                     let ret = copy_at (replicate (nat denseSize) 0) 0 (be_bytes 2 (of_int prec :: u16));
                         bitmapSize = nat ((prec + 7) div 8);
                         ret = fold mark_null [0..<nat prec] ret
                     in bind_outcome (dense_elements enc bitmapSize (nat elementSize) a positions ret) (\<lambda>r. Ok (Some r))))"

section \<open>Elements keep their value\<close>

text \<open>
  Elements of the canonical Go type whose wire image has their value: every integer, every DOUBLE,
  the FLOATs that are numbers, decimals of the column's precision and scale.
\<close>

definition wire_exact :: "int \<Rightarrow> int \<Rightarrow> prim \<Rightarrow> bool" where
  "wire_exact p s v \<longleftrightarrow>
     (case v of
        VFloat32 b \<Rightarrow> f32_exp b \<noteq> 255
      | VDecimal d \<Rightarrow> decimal_wf d \<and> precision d = p \<and> scale d = s
      | _ \<Rightarrow> True)"

definition element_types :: "spinerType list" where
  "element_types = [cmdInt16Type, cmdUInt16Type, cmdInt32Type, cmdUInt32Type, cmdInt64Type, cmdUInt64Type,
     cmdFlt32Type, cmdFlt64Type, cmdDecimalType]"

lemma element_type_cases:
  assumes "sp \<in> set element_types" and "canonical (spinerTypeToSqlType sp) v"
  obtains w where "sp = cmdInt16Type" "v = VInt16 w" | w where "sp = cmdUInt16Type" "v = VUint16 w"
  | w where "sp = cmdInt32Type" "v = VInt32 w" | w where "sp = cmdUInt32Type" "v = VUint32 w"
  | w where "sp = cmdInt64Type" "v = VInt64 w" | w where "sp = cmdUInt64Type" "v = VUint64 w"
  | w where "sp = cmdFlt32Type" "v = VFloat32 w" | w where "sp = cmdFlt64Type" "v = VFloat64 w"
  | d where "sp = cmdDecimalType" "v = VDecimal d"
  using assms by (cases v) (auto simp: element_types_def spinerTypeToSqlType_def)

lemma be_Uint_be_bytes: "LENGTH('a) \<le> 8 * n \<Longrightarrow> be_Uint n (be_bytes n (w :: 'a::len word)) = Ok w"
  by (simp add: be_Uint_def be_word_be_bytes_id)

lemma int_element_Ok:
  "int_element t lo hi put v = Ok bs \<longleftrightarrow> (\<exists>i. toInt64 v = Ok i \<and> lo \<le> i \<and> i \<le> hi \<and> bs = put i)"
  by (auto simp: int_element_def invalid_int_element_def split: outcome.splits if_splits)

lemma uint_element_Ok:
  "uint_element t hi put v = Ok bs \<longleftrightarrow> (\<exists>i. toUint64 v = Ok i \<and> i \<le> hi \<and> bs = put i)"
  by (auto simp: uint_element_def invalid_int_element_def split: outcome.splits if_splits)

lemmas element_decode = decodeArrayElement_def be_Uint_be_bytes computeColumnLength_def

lemma element_roundtrip:
  assumes "sp \<in> set element_types" and "canonical (spinerTypeToSqlType sp) v" and "wire_exact p s v"
    and "encodeArrayElement lib sp v p s = Ok bs"
  shows "int (length bs) = computeColumnLength sp p \<and> decodeArrayElement sp bs p s = Ok v"
  using assms(1,2)
proof (cases rule: element_type_cases)
  case (1 w)
  then have "sint w \<noteq> -32768" "bs = be_bytes 2 w" using assms(4) by (auto simp: encodeArrayElement_def int_element_Ok)
  moreover from this have "w \<noteq> shortNull" by auto
  ultimately show ?thesis using 1 by (simp add: element_decode)
next
  case (2 w)
  then have "unat w \<le> 65534" "bs = be_bytes 2 w" using assms(4) by (auto simp: encodeArrayElement_def uint_element_Ok)
  moreover from this have "w \<noteq> ushortNull" by auto
  ultimately show ?thesis using 2 by (simp add: element_decode)
next
  case (3 w)
  then have "sint w \<noteq> -2147483648" "bs = be_bytes 4 w" using assms(4) by (auto simp: encodeArrayElement_def int_element_Ok)
  moreover from this have "w \<noteq> intNull" by auto
  ultimately show ?thesis using 3 by (simp add: element_decode)
next
  case (4 w)
  then have "unat w \<le> 0xfffffffe" "bs = be_bytes 4 w" using assms(4) by (auto simp: encodeArrayElement_def uint_element_Ok)
  moreover from this have "w \<noteq> uintNull" by auto
  ultimately show ?thesis using 4 by (simp add: element_decode)
next
  case (5 w)
  then have "sint w \<noteq> - (2 ^ 63)" "bs = be_bytes 8 w" using assms(4) by (auto simp: encodeArrayElement_def int_element_Ok)
  moreover from this have "w \<noteq> longNull" by auto
  ultimately show ?thesis using 5 by (simp add: element_decode)
next
  case (6 w)
  then have "unat w \<le> 2 ^ 64 - 2" "bs = be_bytes 8 w" using assms(4) by (auto simp: encodeArrayElement_def uint_element_Ok)
  moreover from this have "w \<noteq> ulongNull" by auto
  ultimately show ?thesis using 6 by (simp add: element_decode)
next
  case (7 w)
  then have "w \<noteq> floatNull" "bs = be_bytes 4 w" using assms(3,4)
    by (auto simp: encodeArrayElement_def wire_exact_def f64_narrow_widen Let_def sentinel_error_def split: if_splits)
  then show ?thesis using 7 by (simp add: element_decode)
next
  case (8 w)
  then have "w \<noteq> doubleNull" "bs = be_bytes 8 w" using assms(4)
    by (auto simp: encodeArrayElement_def sentinel_error_def split: if_splits)
  then show ?thesis using 8 by (simp add: element_decode)
next
  case (9 d)
  with assms(3) have "ParseDecimal (Decimal_String d) p s = Ok d" using ParseDecimal_String [of d] by (auto simp: wire_exact_def)
  from decimal_codec [OF this] 9 assms(4) show ?thesis
    by (auto simp: encodeArrayElement_def decodeArrayElement_def encodeDecimal_def computeColumnLength_def sentinel_error_def
        outcome_simps split: if_splits)
qed

text \<open>Normalising a canonical element changes nothing.\<close>

lemma normalize_exact:
  assumes "sp \<in> set element_types" and "canonical (spinerTypeToSqlType sp) v" and "wire_exact p s v"
  shows "normalizeArrayElement lib (spinerTypeToSqlType sp) v p' s' = Ok v"
  using assms(1,2)
proof (cases rule: element_type_cases)
  case (1 w)
  then show ?thesis using sint_ge [of w] sint_lt [of w]
    by (simp add: spinerTypeToSqlType_def normalizeArrayElement_def signed_element_def)
next
  case (2 w)
  then show ?thesis using unsigned_less [of w, where 'a = nat]
    by (simp add: spinerTypeToSqlType_def normalizeArrayElement_def unsigned_element_def)
next
  case (3 w)
  then show ?thesis using sint_ge [of w] sint_lt [of w]
    by (simp add: spinerTypeToSqlType_def normalizeArrayElement_def signed_element_def)
next
  case (4 w)
  then show ?thesis using unsigned_less [of w, where 'a = nat]
    by (simp add: spinerTypeToSqlType_def normalizeArrayElement_def unsigned_element_def)
next
  case (5 w)
  then show ?thesis using sint_ge [of w] sint_lt [of w]
    by (simp add: spinerTypeToSqlType_def normalizeArrayElement_def signed_element_def)
next
  case (6 w)
  then show ?thesis using unsigned_less [of w, where 'a = nat]
    by (simp add: spinerTypeToSqlType_def normalizeArrayElement_def unsigned_element_def)
qed (use assms(3) in \<open>simp_all add: spinerTypeToSqlType_def normalizeArrayElement_def wire_exact_def f64_narrow_widen\<close>)

lemma array_base_cases: "arrayBaseSpinerType sp \<in> set (0 # element_types)"
  by (simp add: arrayBaseSpinerType_def element_types_def)

lemma array_base_scalar:
  "SqlType_ElementType (spinerTypeToSqlType (arrayBaseSpinerType sp)) = spinerTypeToSqlType (arrayBaseSpinerType sp)"
  using array_base_cases [of sp] unfolding element_types_def list.set insert_iff empty_iff simp_thms
  by (elim disjE) (simp_all add: spinerTypeToSqlType_def SqlType_ElementType_def)

lemma array_base_element:
  assumes "isNumericArrayElementType (spinerTypeToSqlType (arrayBaseSpinerType sp))"
  shows "arrayBaseSpinerType sp \<in> set element_types"
proof -
  have "\<not> isNumericArrayElementType (spinerTypeToSqlType 0)"
    by (simp add: spinerTypeToSqlType_def isNumericArrayElementType_def)
  then show ?thesis using assms array_base_cases [of sp] by (metis set_ConsD)
qed

section \<open>Images\<close>

lemma length_copy_at [simp]: "off + length src \<le> length dst \<Longrightarrow> length (copy_at dst off src) = length dst"
  by (simp add: copy_at_def)

lemma copy_at_nth_before: "i < off \<Longrightarrow> off \<le> length dst \<Longrightarrow> copy_at dst off src ! i = dst ! i"
  by (simp add: copy_at_def nth_append)

lemma copy_at_take: "k \<le> off \<Longrightarrow> off \<le> length dst \<Longrightarrow> take k (copy_at dst off src) = take k dst"
  by (simp add: copy_at_def min_def)

lemma copy_at_same: "off + length src \<le> length dst \<Longrightarrow> subslice (copy_at dst off src) off (off + length src) = src"
  by (simp add: copy_at_def subslice_def)

lemma copy_at_disjoint:
  assumes "off + length src \<le> length dst" and "hi \<le> off \<or> off + length src \<le> lo"
  shows "subslice (copy_at dst off src) lo hi = subslice dst lo hi"
proof (rule nth_equalityI)
  fix i assume "i < length (subslice (copy_at dst off src) lo hi)"
  then have "lo + i < hi" "lo + i < length dst" using assms(1) by auto
  with assms show "subslice (copy_at dst off src) lo hi ! i = subslice dst lo hi ! i"
    by (auto simp: subslice_def copy_at_def nth_append)
qed (use assms in simp)

text \<open>The NULL bit and the slot of a position in a dense image.\<close>

definition null_bit :: "bytes \<Rightarrow> nat \<Rightarrow> bool" where
  "null_bit img i \<longleftrightarrow> bit (img ! (2 + i div 8)) (i mod 8)"

definition slot :: "nat \<Rightarrow> nat \<Rightarrow> bytes \<Rightarrow> nat \<Rightarrow> bytes" where
  "slot bitmapSize elementSize img i =
     subslice img (2 + bitmapSize + i * elementSize) (2 + bitmapSize + i * elementSize + elementSize)"

lemma null_bit_test: "img ! (2 + i div 8) AND push_bit (i mod 8) 1 \<noteq> 0 \<longleftrightarrow> null_bit img i"
proof -
  have "b AND push_bit k 1 \<noteq> 0 \<longleftrightarrow> bit b k" if "k < 8" for b :: byte and k
    using that by (auto simp: bit_eq_iff [where 'a = "8 word"] bit_simps)
  then show ?thesis by (simp add: null_bit_def)
qed

text \<open>Setting and clearing NULL bits.\<close>

lemma byte_index_eq: "i div 8 = j div 8 \<and> i mod 8 = j mod 8 \<longleftrightarrow> i = (j :: nat)"
  by (metis div_mult_mod_eq)

lemma null_bit_upd:
  assumes "2 + j div 8 < length img" and "\<And>k. k < 8 \<Longrightarrow> bit b k \<longleftrightarrow> (if k = j mod 8 then v else bit (img ! (2 + j div 8)) k)"
  shows "null_bit (img[2 + j div 8 := b]) i \<longleftrightarrow> (if i = j then v else null_bit img i)"
proof (cases "i div 8 = j div 8")
  case True
  with byte_index_eq [of i j] have "i = j \<longleftrightarrow> i mod 8 = j mod 8" by blast
  with True assms(1) assms(2) [of "i mod 8"] show ?thesis by (simp add: null_bit_def)
next
  case False
  then have "i \<noteq> j" by blast
  with False show ?thesis by (simp add: null_bit_def)
qed

lemma null_bit_mark: "2 + j div 8 < length img \<Longrightarrow> null_bit (mark_null j img) i \<longleftrightarrow> i = j \<or> null_bit img i"
  unfolding mark_null_def by (subst null_bit_upd [where v = True]) (auto simp: bit_simps)

lemma null_bit_clear:
  "2 + j div 8 < length img \<Longrightarrow>
    null_bit (img[2 + j div 8 := img ! (2 + j div 8) AND NOT (push_bit (j mod 8) 1)]) i \<longleftrightarrow> i \<noteq> j \<and> null_bit img i"
  by (subst null_bit_upd [where v = False]) (auto simp: bit_simps)

lemma length_mark_null [simp]: "length (mark_null j img) = length img"
  by (simp add: mark_null_def)

lemma take_mark_null [simp]: "take 2 (mark_null j img) = take 2 img"
  by (simp add: mark_null_def)

lemma fold_mark_null:
  "\<forall>j \<in> set js. 2 + j div 8 < length img \<Longrightarrow>
    length (fold mark_null js img) = length img \<and> take 2 (fold mark_null js img) = take 2 img
    \<and> (null_bit (fold mark_null js img) i \<longleftrightarrow> i \<in> set js \<or> null_bit img i)"
  by (induction js arbitrary: img) (auto simp: null_bit_mark)

text \<open>Slots of different positions do not overlap, and none overlaps the bitmap.\<close>

lemma slot_before: "i < (j :: nat) \<Longrightarrow> i * e + e \<le> j * e"
  by (metis Suc_leI mult_Suc add.commute mult_le_mono1)

lemma slot_copy:
  assumes "length img = 2 + b + n * e" and "j < n" and "length bs = e" and "i < n"
  shows "slot b e (copy_at img (2 + b + j * e) bs) i = (if i = j then bs else slot b e img i)"
proof -
  have fit: "2 + b + j * e + length bs \<le> length img" using assms slot_before [of j n e] by simp
  show ?thesis
  proof (cases "i = j")
    case True
    then show ?thesis using copy_at_same [OF fit] assms(3) by (simp add: slot_def)
  next
    case False
    then have "i < j \<or> j < i" by arith
    then have "2 + b + i * e + e \<le> 2 + b + j * e \<or> 2 + b + j * e + length bs \<le> 2 + b + i * e"
      using slot_before [of i j e] slot_before [of j i e] assms(3) by auto
    with False show ?thesis unfolding slot_def using copy_at_disjoint [OF fit] by simp
  qed
qed

lemma null_bit_copy: "i div 8 < b \<Longrightarrow> 2 + b \<le> off \<Longrightarrow> off \<le> length img \<Longrightarrow>
    null_bit (copy_at img off bs) i \<longleftrightarrow> null_bit img i"
  by (simp add: null_bit_def copy_at_nth_before)

lemma slot_bitmap_upd: "k < 2 + b \<Longrightarrow> slot b e (img[k := v]) i = slot b e img i"
  by (simp add: slot_def subslice_def)

lemma dense_elements_image:
  assumes "dense_elements enc b e a ps img = Ok img'" and "length img = 2 + b + n * e" and "n \<le> 8 * b"
    and "distinct ps" and "\<forall>i \<in> set ps. i < n \<and> (\<forall>bs. enc (entry_at a i) = Ok bs \<longrightarrow> length bs = e)"
  shows "length img' = length img \<and> take 2 img' = take 2 img
    \<and> (\<forall>i < 8 * b. null_bit img' i \<longleftrightarrow> null_bit img i \<and> i \<notin> set ps)
    \<and> (\<forall>i < n. if i \<in> set ps then enc (entry_at a i) = Ok (slot b e img' i) else slot b e img' i = slot b e img i)"
  using assms
proof (induction ps arbitrary: img)
  case (Cons j ps)
  from Cons.prems(1) obtain bs where bs: "enc (entry_at a j) = Ok bs" by (auto simp: outcome_simps)
  define img0 where "img0 = img[2 + j div 8 := img ! (2 + j div 8) AND NOT (push_bit (j mod 8) 1)]"
  define img1 where "img1 = copy_at img0 (2 + b + j * e) bs"
  have run: "dense_elements enc b e a ps img1 = Ok img'"
    using Cons.prems(1) bs by (simp add: Let_def img0_def img1_def)
  have j: "j < n" "length bs = e" "j \<notin> set ps" using Cons.prems(4,5) bs by auto
  have jb: "j div 8 < b" using j(1) Cons.prems(3) by (simp add: less_mult_imp_div_less mult.commute)
  have len0: "length img0 = 2 + b + n * e" using Cons.prems(2) by (simp add: img0_def)
  have fit: "2 + b + j * e + length bs \<le> length img0" using j(1,2) len0 slot_before [of j n e] by simp
  have len1: "length img1 = 2 + b + n * e" using fit len0 by (simp add: img1_def)
  have take1: "take 2 img1 = take 2 img" using fit by (simp add: img1_def copy_at_take img0_def)
  have bits1: "null_bit img1 i \<longleftrightarrow> i \<noteq> j \<and> null_bit img i" if "i < 8 * b" for i
  proof -
    have "i div 8 < b" using that by (simp add: less_mult_imp_div_less mult.commute)
    then have "null_bit img1 i \<longleftrightarrow> null_bit img0 i" unfolding img1_def using fit by (intro null_bit_copy) auto
    also have "\<dots> \<longleftrightarrow> i \<noteq> j \<and> null_bit img i" unfolding img0_def using jb Cons.prems(2) by (intro null_bit_clear) simp
    finally show ?thesis .
  qed
  have slot1: "slot b e img1 i = (if i = j then bs else slot b e img i)" if "i < n" for i
    unfolding img1_def using slot_copy [OF len0 j(1,2) that] jb by (simp add: img0_def slot_bitmap_upd)
  have "\<forall>i \<in> set ps. i < n \<and> (\<forall>bs. enc (entry_at a i) = Ok bs \<longrightarrow> length bs = e)" "distinct ps"
    using Cons.prems(4,5) by simp_all
  from Cons.IH [OF run len1 Cons.prems(3) this(2,1)]
  show ?case using len1 Cons.prems(2) take1 bits1 slot1 j bs by auto
qed simp

text \<open>Decoding the positions of an image whose bits and slots describe the entries \<open>ent\<close>.\<close>

definition describes :: "golib \<Rightarrow> ColumnMeta \<Rightarrow> nat \<Rightarrow> nat \<Rightarrow> bytes \<Rightarrow> Array \<Rightarrow> prim option \<Rightarrow> nat \<Rightarrow> bool" where
  "describes lib col b e img r entry i \<longleftrightarrow> int i < ar_cardinality r \<and>
     (case entry of
        None \<Rightarrow> null_bit img i
      | Some v \<Rightarrow> \<not> null_bit img i \<and> \<not> is_nil_element v
          \<and> decodeArrayElement (arrayBaseSpinerType (cm_spinerType col)) (slot b e img i) (cm_elementPrecision col)
              (cm_scale col) = Ok v
          \<and> normalizeArrayElement lib (ar_elementType r) v (ar_precision r) (ar_scale r) = Ok v)"

lemma describes_entries [simp]: "describes lib col b e img (r\<lparr>ar_entries := m\<rparr>) entry i \<longleftrightarrow> describes lib col b e img r entry i"
  by (cases entry) (simp_all add: describes_def)

lemma decode_elements_image:
  assumes "\<forall>i \<in> set is. describes lib col b e img r (ent (int i)) i"
  shows "decode_elements lib col img b e is r
    = Ok (r\<lparr>ar_entries := \<lambda>j. if j \<in> int ` set is \<and> ent j \<noteq> None then ent j else ar_entries r j\<rparr>)"
  using assms
proof (induction "is" arbitrary: r)
  case (Cons i "is")
  show ?case
  proof (cases "ent (int i)")
    case None
    with Cons.prems have "null_bit img i" by (simp add: describes_def)
    moreover have "(\<lambda>j. if j \<in> int ` set is \<and> ent j \<noteq> None then ent j else ar_entries r j)
        = (\<lambda>j. if j \<in> int ` set (i # is) \<and> ent j \<noteq> None then ent j else ar_entries r j)"
      using None by (intro ext) auto
    ultimately show ?thesis using Cons.IH [of r] Cons.prems by (simp add: null_bit_test [simplified])
  next
    case (Some v)
    let ?r = "r\<lparr>ar_entries := (ar_entries r)(int i \<mapsto> v)\<rparr>"
    have d: "describes lib col b e img r (Some v) i" using Cons.prems Some by simp
    then have set: "Array_Set lib r (int i) v = Ok ?r" by (simp add: Array_Set_def describes_def)
    have "(\<lambda>j. if j \<in> int ` set is \<and> ent j \<noteq> None then ent j else ar_entries ?r j)
        = (\<lambda>j. if j \<in> int ` set (i # is) \<and> ent j \<noteq> None then ent j else ar_entries r j)"
      using Some by (intro ext) auto
    moreover have "decode_elements lib col img b e (i # is) r = decode_elements lib col img b e is ?r"
      using d set by (cases "v = VNil") (simp_all add: describes_def null_bit_test [simplified] Let_def slot_def)
    ultimately show ?thesis using Cons.IH [of ?r] Cons.prems by simp
  qed
qed simp

section \<open>The dense image\<close>

text \<open>The size fields of a column that can hold the array.\<close>

lemma dense_column:
  assumes "array_wf a" and "encodeArrayPayload lib (Some a) col sparse = Ok res"
  obtains b e n where "n = nat (ar_cardinality a)" "b = (n + 7) div 8" "cm_precision col = int n" "1 \<le> n" "n \<le> 1024"
    "computeColumnLength (arrayBaseSpinerType (cm_spinerType col)) (cm_elementPrecision col) = int e" "0 < e"
    "ar_elementType a = spinerTypeToSqlType (arrayBaseSpinerType (cm_spinerType col))"
    "computeArrayColumnLength (cm_spinerType col) (cm_precision col) (cm_elementPrecision col) = int (2 + b + n * e)"
    "nat ((cm_precision col + 7) div 8) = b"
proof -
  let ?e = "computeColumnLength (arrayBaseSpinerType (cm_spinerType col)) (cm_elementPrecision col)"
  define n where "n = nat (ar_cardinality a)"
  from assms(2) have ok: "ar_cardinality a = cm_precision col" "0 < ?e"
    "ar_elementType a = spinerTypeToSqlType (arrayBaseSpinerType (cm_spinerType col))"
    "0 < computeArrayColumnLength (cm_spinerType col) (cm_precision col) (cm_elementPrecision col)"
    by (auto simp: encodeArrayPayload_def Let_def not_le split: if_splits)
  have n: "int n = cm_precision col" "1 \<le> n" "n \<le> 1024" using assms(1) ok(1) by (auto simp: array_wf_def n_def)
  have "computeArrayColumnLength (cm_spinerType col) (cm_precision col) (cm_elementPrecision col)
      = 2 + (int n + 7) div 8 + ?e * int n"
    using ok(4) n(1) by (auto simp: computeArrayColumnLength_def Let_def split: if_splits)
  moreover have "(int n + 7) div 8 = int ((n + 7) div 8)" by (simp add: zdiv_int)
  ultimately show thesis
    using ok(2,3) n ok(1) by (intro that [of n "(n + 7) div 8" "nat ?e"]) (auto simp: n_def)
qed

lemma dense_image:
  assumes wf: "array_wf a" and enc: "encodeArrayPayload lib (Some a) col False = Ok (Some img)"
    and exact: "\<forall>v \<in> ran (ar_entries a). wire_exact (cm_elementPrecision col) (cm_scale col) v"
    and col: "n = nat (ar_cardinality a)" "b = (n + 7) div 8" "cm_precision col = int n" "1 \<le> n"
      "computeColumnLength (arrayBaseSpinerType (cm_spinerType col)) (cm_elementPrecision col) = int e" "0 < e"
      "ar_elementType a = spinerTypeToSqlType (arrayBaseSpinerType (cm_spinerType col))"
      "computeArrayColumnLength (cm_spinerType col) (cm_precision col) (cm_elementPrecision col) = int (2 + b + n * e)"
      "nat ((cm_precision col + 7) div 8) = b"
  shows "length img = 2 + b + n * e \<and> take 2 img = be_bytes 2 (of_nat n :: u16)
    \<and> (\<forall>i < 8 * b. null_bit img i \<longleftrightarrow> i < n \<and> ar_entries a (int i) = None)
    \<and> (\<forall>i v. i < n \<longrightarrow> ar_entries a (int i) = Some v \<longrightarrow>
        decodeArrayElement (arrayBaseSpinerType (cm_spinerType col)) (slot b e img i) (cm_elementPrecision col)
          (cm_scale col) = Ok v)"
proof -
  let ?base = "arrayBaseSpinerType (cm_spinerType col)" and ?p = "cm_elementPrecision col" and ?s = "cm_scale col"
  let ?enc = "\<lambda>v. encodeArrayElement lib ?base v ?p ?s"
  define img0 where "img0 = fold mark_null [0..<n] (copy_at (replicate (2 + b + n * e) 0) 0 (be_bytes 2 (of_nat n :: u16)))"
  have card: "ar_cardinality a = int n" using wf col(1) by (simp add: array_wf_def)
  have run: "dense_elements ?enc b e a (sorted_positions a) img0 = Ok img"
    using enc unfolding encodeArrayPayload_def option.case Let_def col(8,9,5) nat_int img0_def unfolding card col(3)
    using col(6,7) by (simp add: outcome_simps split: if_splits)
  have base: "?base \<in> set element_types"
    using wf array_base_element [of "cm_spinerType col"] col(7) by (simp add: array_wf_def)
  have elem: "int (length bs) = computeColumnLength ?base ?p \<and> decodeArrayElement ?base bs ?p ?s = Ok v"
    if "ar_entries a i = Some v" "?enc v = Ok bs" for i v bs
  proof -
    have "v \<in> ran (ar_entries a)" using that(1) by (rule ranI)
    with wf exact col(7) show ?thesis using element_roundtrip [OF base _ _ that(2)] by (simp add: array_wf_def)
  qed
  have pos: "i \<in> set (sorted_positions a) \<longleftrightarrow> i < n \<and> ar_entries a (int i) \<noteq> None" for i
    by (auto simp: sorted_positions_def col(1))
  have len: "length img0 = 2 + b + n * e \<and> take 2 img0 = be_bytes 2 (of_nat n :: u16)
      \<and> (null_bit img0 i \<longleftrightarrow> i < n)" if "i < 8 * b" for i
  proof -
    let ?z = "copy_at (replicate (2 + b + n * e) 0) 0 (be_bytes 2 (of_nat n :: u16))"
    have "\<forall>j \<in> set [0..<n]. 2 + j div 8 < length ?z" using col(2) by (auto simp: copy_at_def)
    moreover have "\<not> null_bit ?z i"
      using that by (simp add: null_bit_def copy_at_def nth_append less_mult_imp_div_less mult.commute)
    ultimately show ?thesis
      unfolding img0_def using fold_mark_null [of "[0..<n]" ?z i] by (simp add: copy_at_def)
  qed
  have b8: "n \<le> 8 * b" "0 < b" using col(2,4) by auto
  have lens: "\<forall>i \<in> set (sorted_positions a). i < n \<and> (\<forall>bs. ?enc (entry_at a i) = Ok bs \<longrightarrow> length bs = e)"
    using elem pos col(5) by (fastforce simp: entry_at_def split: option.splits)
  have "distinct (sorted_positions a)" by (simp add: sorted_positions_def)
  from dense_elements_image [OF run _ b8(1) this lens] len [of 0] len b8 pos elem show ?thesis
    by (fastforce simp: entry_at_def split: option.splits)
qed

text \<open>Bits above the last position.\<close>

lemma bitmap_padding:
  assumes "length img = 2 + b + m" and "b = (n + 7) div 8" and "n mod 8 \<noteq> 0"
    and "\<And>i. i < 8 * b \<Longrightarrow> n \<le> i \<Longrightarrow> \<not> null_bit img i"
  shows "img ! (2 + b - 1) AND push_bit (n mod 8) 0xff = (0 :: byte)"
proof (rule bit_word_eqI)
  fix k assume k: "k < LENGTH(8)"
  have b: "b = n div 8 + 1" using assms(2,3) by presburger
  show "bit (img ! (2 + b - 1) AND push_bit (n mod 8) 0xff) k = bit (0 :: byte) k"
  proof (cases "n mod 8 \<le> k")
    case True
    let ?i = "8 * (n div 8) + k"
    have "n \<le> ?i" using True by presburger
    moreover have "?i < 8 * b" using k b by simp
    ultimately have "\<not> null_bit img ?i" using assms(4) by blast
    then show ?thesis using k b by (simp add: null_bit_def bit_simps)
  next
    case False
    then show ?thesis by (simp add: bit_simps)
  qed
qed

lemma canonical_not_nil: "canonical et v \<Longrightarrow> \<not> is_nil_element v"
  by (cases v) simp_all

section \<open>Safety of decoding\<close>

lemma decode_element_type:
  assumes "sp \<in> set element_types" and "int (length f) = computeColumnLength sp p"
  shows "\<not> is_panic (decodeArrayElement sp f p s)
    \<and> (decodeArrayElement sp f p s = Ok v \<longrightarrow> v = VNil \<or> canonical (spinerTypeToSqlType sp) v)"
proof -
  have "\<not> is_panic (decodeDecimal f p s)"
    by (auto simp: decodeDecimal_def decimalSize_def NewDecimal_def validateDecimalPrecisionScale_def Let_def
        outcome_simps split: if_splits)
  then have dec: "\<not> is_panic (decodeArrayElement cmdDecimalType f p s)
      \<and> (decodeArrayElement cmdDecimalType f p s = Ok v \<longrightarrow> v = VNil \<or> canonical SqlTypeDecimal v)"
    by (cases "decodeDecimal f p s") (auto simp: decodeArrayElement_def split: option.splits)
  have "(\<not> is_panic (decodeArrayElement sp f p s)
    \<and> (decodeArrayElement sp f p s = Ok v \<longrightarrow> v = VNil \<or> canonical (spinerTypeToSqlType sp) v)) \<or> sp = cmdDecimalType"
    using assms unfolding element_types_def list.set insert_iff empty_iff simp_thms
    by (elim disjE) (auto simp: decodeArrayElement_def be_Uint_def computeColumnLength_def sentinel_error_def
        spinerTypeToSqlType_def)
  with dec show ?thesis by (auto simp: spinerTypeToSqlType_def)
qed

lemma normalize_no_panic: "canonical et v \<Longrightarrow> \<not> is_panic (normalizeArrayElement lib et v p s)"
  by (cases v) (auto simp: normalizeArrayElement_def signed_element_def unsigned_element_def invalid_element_def
      split: option.splits)

lemma decode_elements_safe:
  assumes "arrayBaseSpinerType (cm_spinerType col) \<in> set element_types"
    and "computeColumnLength (arrayBaseSpinerType (cm_spinerType col)) (cm_elementPrecision col) = int e"
    and "length img = 2 + b + n * e"
    and "array_wf r" "ar_elementType r = spinerTypeToSqlType (arrayBaseSpinerType (cm_spinerType col))"
    and "distinct is" "\<forall>i \<in> set is. i < n \<and> ar_entries r (int i) = None"
  shows "\<not> is_panic (decode_elements lib col img b e is r)
    \<and> (decode_elements lib col img b e is r = Ok r' \<longrightarrow>
        array_wf r' \<and> ar_cardinality r' = ar_cardinality r \<and> ar_elementType r' = ar_elementType r
        \<and> (\<forall>j. ar_entries r' j = None \<longleftrightarrow> ar_entries r j = None \<and> (\<forall>i \<in> set is. int i = j \<longrightarrow> null_bit img i)))"
  using assms(4-)
proof (induction "is" arbitrary: r)
  case (Cons i "is")
  let ?base = "arrayBaseSpinerType (cm_spinerType col)"
  show ?case
  proof (cases "null_bit img i")
    case True
    then show ?thesis using Cons by (simp add: null_bit_test [simplified])
  next
    case False
    let ?dec = "decodeArrayElement ?base (slot b e img i) (cm_elementPrecision col) (cm_scale col)"
    have "int (length (slot b e img i)) = computeColumnLength ?base (cm_elementPrecision col)"
      using assms(2,3) Cons.prems(4) slot_before [of i n e] by (simp add: slot_def)
    note dec = decode_element_type [OF assms(1) this, of "cm_scale col"]
    have step: "decode_elements lib col img b e (i # is) r = bind_outcome ?dec (\<lambda>v.
        if v = VNil then Err (PlainErr ''non-NULL ARRAY element uses NULL sentinel'')
        else bind_outcome (Array_Set lib r (int i) v) (decode_elements lib col img b e is))"
      using False by (simp add: null_bit_test [simplified] Let_def slot_def)
    have go: "\<not> is_panic (Array_Set lib r (int i) v) \<and> (\<forall>r1. Array_Set lib r (int i) v = Ok r1 \<longrightarrow>
        array_wf r1 \<and> ar_cardinality r1 = ar_cardinality r \<and> ar_elementType r1 = ar_elementType r
        \<and> (\<forall>j. ar_entries r1 j = None \<longleftrightarrow> ar_entries r j = None \<and> j \<noteq> int i))"
      if "?dec = Ok v" "v \<noteq> VNil" for v
    proof -
      from dec [of v] that Cons.prems(2) have can: "canonical (ar_elementType r) v" by auto
      then have "\<not> is_nil_element v" by (rule canonical_not_nil)
      with normalize_no_panic [OF can, of lib "ar_precision r" "ar_scale r"] have "\<not> is_panic (Array_Set lib r (int i) v)"
        by (cases "normalizeArrayElement lib (ar_elementType r) v (ar_precision r) (ar_scale r)")
          (simp_all add: Array_Set_def)
      moreover have "array_wf r1 \<and> ar_cardinality r1 = ar_cardinality r \<and> ar_elementType r1 = ar_elementType r
          \<and> (\<forall>j. ar_entries r1 j = None \<longleftrightarrow> ar_entries r j = None \<and> j \<noteq> int i)"
        if set: "Array_Set lib r (int i) v = Ok r1" for r1
        using Array_Set_wf [OF Cons.prems(1) set] Array_Set_entry [OF set] \<open>\<not> is_nil_element v\<close>
        by (auto split: option.splits if_splits)
      ultimately show ?thesis by blast
    qed
    show ?thesis
    proof (cases "?dec")
      case (Ok v)
      show ?thesis
      proof (cases "Array_Set lib r (int i) v")
        case (Ok r1)
        with \<open>?dec = Ok v\<close> go [of v] Cons.prems Cons.IH [of r1] False show ?thesis
          unfolding step by (cases "v = VNil") auto
      qed (unfold step, use Ok go [of v] in auto)
    qed (unfold step, use dec in auto)
  qed
qed auto

section \<open>The sparse image\<close>

definition sparse_item :: "(prim \<Rightarrow> bytes outcome) \<Rightarrow> Array \<Rightarrow> nat \<Rightarrow> bytes" where
  "sparse_item enc a i =
     be_bytes 2 (of_nat (i + 1) :: u16) @ (case enc (entry_at a i) of Ok bs \<Rightarrow> bs | _ \<Rightarrow> [])"

lemma copy_at_exact: "copy_at (h @ m @ t) (length h) src = h @ src @ t" if "length m = length src"
  using that by (simp add: copy_at_def)

lemma sparse_elements_image:
  assumes "sparse_elements enc e a ps (length h) (h @ t) = Ok img" and "length t = length ps * (2 + e)"
    and "\<forall>i bs. i \<in> set ps \<longrightarrow> enc (entry_at a i) = Ok bs \<longrightarrow> length bs = e"
  shows "img = h @ concat (map (sparse_item enc a) ps) \<and> length (concat (map (sparse_item enc a) ps)) = length t"
  using assms
proof (induction ps arbitrary: h t)
  case (Cons i ps)
  from Cons.prems(1) obtain bs where bs: "enc (entry_at a i) = Ok bs" by (auto simp: Let_def outcome_simps)
  with Cons.prems(3) have len: "length bs = e" by simp
  let ?p = "be_bytes 2 (of_nat (i + 1) :: u16)"
  define t1 t2 t3 where "t1 = take 2 t" and "t2 = take e (drop 2 t)" and "t3 = drop (2 + e) t"
  have t: "t = t1 @ t2 @ t3" unfolding t1_def t2_def t3_def by (metis append_take_drop_id drop_drop add.commute)
  have lens: "length t1 = 2" "length t2 = e" "length t3 = length ps * (2 + e)"
    using Cons.prems(2) by (simp_all add: t1_def t2_def t3_def)
  have "copy_at (h @ t) (length h) ?p = h @ ?p @ t2 @ t3" unfolding t using lens by (intro copy_at_exact) simp
  moreover have "copy_at ((h @ ?p) @ t2 @ t3) (length (h @ ?p)) bs = (h @ ?p) @ bs @ t3"
    using lens len by (intro copy_at_exact) simp
  ultimately have "sparse_elements enc e a ps (length (h @ ?p @ bs)) ((h @ ?p @ bs) @ t3) = Ok img"
    using Cons.prems(1) bs len by (simp add: Let_def)
  note run = this
  from Cons.IH [OF run lens(3)] Cons.prems(3)
  have "img = (h @ ?p @ bs) @ concat (map (sparse_item enc a) ps)" "length (concat (map (sparse_item enc a) ps)) = length t3"
    by auto
  moreover have "sparse_item enc a i = ?p @ bs" using bs by (simp add: sparse_item_def)
  moreover have "length t = 2 + e + length t3" using Cons.prems(2) lens(3) by simp
  ultimately show ?case using len by simp
qed simp

lemma encodeDecimal_length: "encodeDecimal lib v p s = Ok bs \<Longrightarrow> decimalSize p = Ok (length bs)"
  by (auto simp: encodeDecimal_def encodeDecimalText_def Let_def outcome_simps split: option.splits if_splits)

lemma encodeArrayElement_length:
  assumes "sp \<in> set element_types" and "encodeArrayElement lib sp v p s = Ok bs"
  shows "int (length bs) = computeColumnLength sp p"
proof -
  have "int (length bs) = computeColumnLength sp p \<or> sp = cmdDecimalType"
    using assms unfolding element_types_def list.set insert_iff empty_iff simp_thms
    by (elim disjE) (auto simp: encodeArrayElement_def computeColumnLength_def int_element_Ok uint_element_Ok
        sentinel_error_def Let_def outcome_simps split: if_splits)
  moreover have "int (length bs) = computeColumnLength sp p" if "sp = cmdDecimalType"
    using assms(2) that encodeDecimal_length
    by (auto simp: encodeArrayElement_def computeColumnLength_def sentinel_error_def outcome_simps split: if_splits)
  ultimately show ?thesis by blast
qed

section \<open>Reading the dense image\<close>

lemma entries_below:
  assumes "dom m \<subseteq> {0..<int n}"
  shows "(\<lambda>j. if j \<in> int ` set [0..<n] \<and> m j \<noteq> None then m j else None) = m"
proof
  fix j
  show "(if j \<in> int ` set [0..<n] \<and> m j \<noteq> None then m j else None) = m j"
  proof (cases "m j")
    case (Some v)
    then have "j \<in> {0..<int n}" using assms by auto
    then have "j \<in> int ` set [0..<n]" by (auto simp: image_iff intro!: bexI [of _ "nat j"])
    with Some show ?thesis by simp
  qed simp
qed

lemma dense_describes:
  assumes wf: "array_wf a" and img: "\<forall>i < 8 * b. null_bit img i \<longleftrightarrow> i < n \<and> ar_entries a (int i) = None"
      "\<forall>i v. i < n \<longrightarrow> ar_entries a (int i) = Some v \<longrightarrow>
        decodeArrayElement (arrayBaseSpinerType (cm_spinerType col)) (slot b e img i) (cm_elementPrecision col)
          (cm_scale col) = Ok v"
    and exact: "\<forall>v \<in> ran (ar_entries a). wire_exact (cm_elementPrecision col) (cm_scale col) v"
    and col: "ar_cardinality a = int n" "b = (n + 7) div 8"
      "ar_elementType a = spinerTypeToSqlType (arrayBaseSpinerType (cm_spinerType col))"
    and "i < n"
  shows "describes lib col b e img (Array_Clear a) (ar_entries a (int i)) i"
proof -
  have i: "i < 8 * b" using \<open>i < n\<close> col(2) by presburger
  show ?thesis
  proof (cases "ar_entries a (int i)")
    case None
    with i img \<open>i < n\<close> col(1) show ?thesis by (simp add: describes_def Array_Clear_def)
  next
    case (Some v)
    then have "v \<in> ran (ar_entries a)" by (rule ranI)
    with wf exact have can: "canonical (spinerTypeToSqlType (arrayBaseSpinerType (cm_spinerType col))) v"
      "wire_exact (cm_elementPrecision col) (cm_scale col) v"
      unfolding col(3) [symmetric] by (auto simp: array_wf_def)
    have "arrayBaseSpinerType (cm_spinerType col) \<in> set element_types"
      using wf array_base_element [of "cm_spinerType col"] col(3) by (simp add: array_wf_def)
    from normalize_exact [OF this can] canonical_not_nil [OF can(1)] Some img i \<open>i < n\<close> col show ?thesis
      by (auto simp: describes_def Array_Clear_def)
  qed
qed

lemma decodeArrayPayload_outcome:
  "case decodeArrayPayload lib col img of
     Ok a \<Rightarrow> array_wf a \<and> ar_cardinality a = cm_precision col
       \<and> (\<forall>j. ar_entries a j = None \<longleftrightarrow> j < 0 \<or> cm_precision col \<le> j \<or> null_bit img (nat j))
   | Err e \<Rightarrow> True
   | Panic m \<Rightarrow> False"
proof -
  let ?base = "arrayBaseSpinerType (cm_spinerType col)"
  define n e b where "n = nat (cm_precision col)" and "e = nat (computeColumnLength ?base (cm_elementPrecision col))"
    and "b = nat ((cm_precision col + 7) div 8)"
  define new where "new = NewSparseArrayWithMeta (spinerTypeToSqlType ?base) (cm_precision col) (cm_elementPrecision col) (cm_scale col)"
  have new: "\<not> is_panic new"
    unfolding new_def by (simp add: NewSparseArrayWithMeta_def validateDecimalPrecisionScale_def Let_def)
  consider e where "decodeArrayPayload lib col img = Err e"
    | "decodeArrayPayload lib col img = bind_outcome new (decode_elements lib col img b e [0..<n])"
      "1 \<le> cm_precision col" "0 < computeColumnLength ?base (cm_elementPrecision col)"
      "int (length img) = 2 + (cm_precision col + 7) div 8
        + computeColumnLength ?base (cm_elementPrecision col) * cm_precision col"
  proof -
    have "(\<exists>e. decodeArrayPayload lib col img = Err e) \<or>
      decodeArrayPayload lib col img = bind_outcome new (decode_elements lib col img b e [0..<n])
      \<and> \<not> (cm_precision col < 1 \<or> cm_precision col > 1024 \<or> computeColumnLength ?base (cm_elementPrecision col) \<le> 0
        \<or> int (length img) \<noteq> 2 + (cm_precision col + 7) div 8
            + computeColumnLength ?base (cm_elementPrecision col) * cm_precision col)"
      unfolding decodeArrayPayload_def Let_def new_def n_def e_def b_def by (metis (full_types))
    then show ?thesis using that by fastforce
  qed
  then show ?thesis
  proof cases
    case 2
    show ?thesis
    proof (cases new)
      case (Ok r)
      have r: "array_wf r" "ar_cardinality r = int n" "ar_entries r = Map.empty" "ar_elementType r = spinerTypeToSqlType ?base"
        using NewSparseArrayWithMeta_wf [OF Ok [unfolded new_def]] 2(2) by (simp_all add: n_def array_base_scalar)
      have base: "?base \<in> set element_types"
        using r(1,4) array_base_element [of "cm_spinerType col"] by (simp add: array_wf_def)
      have "int (length img) = int (2 + b + n * e)" using 2(2-4) by (simp add: n_def e_def b_def)
      then have len: "length img = 2 + b + n * e" by (simp only: of_nat_eq_iff)
      have safe: "\<not> is_panic (decode_elements lib col img b e [0..<n] r)
        \<and> (decode_elements lib col img b e [0..<n] r = Ok r' \<longrightarrow>
            array_wf r' \<and> ar_cardinality r' = ar_cardinality r \<and> ar_elementType r' = ar_elementType r
            \<and> (\<forall>j. ar_entries r' j = None \<longleftrightarrow> ar_entries r j = None \<and> (\<forall>i \<in> set [0..<n]. int i = j \<longrightarrow> null_bit img i)))" for r'
        using 2(3) r(3) by (intro decode_elements_safe [OF base _ len r(1,4)]) (simp_all add: e_def)
      have pos: "(\<forall>i \<in> set [0..<n]. int i = j \<longrightarrow> null_bit img i) \<longleftrightarrow> j < 0 \<or> int n \<le> j \<or> null_bit img (nat j)" for j
      proof (cases "0 \<le> j \<and> j < int n")
        case True
        then have "nat j \<in> set [0..<n]" "int (nat j) = j" by (simp_all add: nat_less_iff)
        then show ?thesis using True by auto
      qed auto
      have prec: "cm_precision col = int n" using 2(2) by (simp add: n_def)
      show ?thesis
        using safe unfolding 2(1) Ok bind_outcome.simps prec pos r(2,3)
        by (cases "decode_elements lib col img b e [0..<n] r") auto
    qed (use 2(1) new in auto)
  qed simp
qed

section \<open>Properties\<close>

text \<open>
  C24. The dense image reads back: an array that was made for a column, whose elements have an exact
  wire image, is given back by \<^verbatim>\<open>decodeArrayPayload\<close> from what \<^verbatim>\<open>encodeArrayPayload\<close> wrote, NULL
  elements included.
\<close>

theorem array_dense_roundtrip:
  assumes wf: "array_wf a" and enc: "encodeArrayPayload lib (Some a) col False = Ok (Some img)"
    and made: "NewSparseArrayWithMeta (ar_elementType a) (ar_cardinality a) (cm_elementPrecision col) (cm_scale col)
      = Ok (Array_Clear a)"
    and exact: "\<forall>v \<in> ran (ar_entries a). wire_exact (cm_elementPrecision col) (cm_scale col) v"
  shows "decodeArrayPayload lib col img = Ok a"
proof -
  let ?base = "arrayBaseSpinerType (cm_spinerType col)"
  obtain b e n where col: "n = nat (ar_cardinality a)" "b = (n + 7) div 8" "cm_precision col = int n" "1 \<le> n" "n \<le> 1024"
    "computeColumnLength ?base (cm_elementPrecision col) = int e" "0 < e"
    "ar_elementType a = spinerTypeToSqlType ?base"
    "computeArrayColumnLength (cm_spinerType col) (cm_precision col) (cm_elementPrecision col) = int (2 + b + n * e)"
    "nat ((cm_precision col + 7) div 8) = b"
    using dense_column [OF wf enc] by metis
  note img = dense_image [OF wf enc exact col(1-4,6-)]
  have card: "ar_cardinality a = int n" using col(1) wf by (simp add: array_wf_def)
  have "dom (ar_entries a) \<subseteq> {0..<int n}" using wf card by (simp add: array_wf_def)
  then have dec: "decode_elements lib col img b e [0..<n] (Array_Clear a) = Ok a"
    using decode_elements_image [of "[0..<n]" lib col b e img "Array_Clear a" "ar_entries a"]
      dense_describes [OF wf _ _ exact card col(2,8), where img = img and e = e] img entries_below [of "ar_entries a" n]
    by (simp add: Array_Clear_def cong: if_cong)
  have head: "uint (be_word (take 2 img) :: u16) = int n"
  proof -
    have "unat (be_word (take 2 img) :: u16) = n" using img col(5) by (simp add: be_word_be_bytes_id unat_of_nat_small)
    then show ?thesis by (metis of_nat_unat)
  qed
  have pad: "img ! (2 + b - 1) AND push_bit (nat (int n mod 8)) 0xff = 0 \<or> int n mod 8 = 0"
  proof (rule disjCI)
    assume that: "int n mod 8 \<noteq> 0"
    show "img ! (2 + b - 1) AND push_bit (nat (int n mod 8)) 0xff = 0"
    proof -
      have "n mod 8 \<noteq> 0" "nat (int n mod 8) = n mod 8" using that by (presburger, simp add: nat_mod_distrib)
      with bitmap_padding [of img b "n * e" n] img col(2) show ?thesis by simp
    qed
  qed
  have sz: "(int n + 7) div 8 = int b" using col(2) by (simp add: zdiv_int)
  have len: "int (length img) = 2 + int b + int e * int n" using img by simp
  have made': "NewSparseArrayWithMeta (spinerTypeToSqlType ?base) (int n) (cm_elementPrecision col) (cm_scale col)
      = Ok (Array_Clear a)" using made col(8) card by simp
  have checks: "\<not> (int n < 1 \<or> int n > 1024 \<or> int e \<le> 0)" using col(4,5,7) by simp
  show ?thesis
    unfolding decodeArrayPayload_def Let_def col(3,6) sz len head made'
    using checks disj_commute [THEN iffD1, OF pad] dec by simp
qed

theorem array_dense_roundtrip_witness:
  "\<forall>lib. \<exists>img. encodeArrayPayload lib (Some \<lparr>ar_elementType = SqlTypeInt16, ar_cardinality = 2, ar_precision = 0,
        ar_scale = 0, ar_entries = [1 \<mapsto> VInt16 7]\<rparr>)
      \<lparr>cm_name = ''A'', cm_cmType = 0, cm_precision = 2, cm_elementPrecision = 0, cm_scale = 0,
        cm_spinerType = cmdInt16ArrayType, cm_length = 7, cm_isVariable = True, cm_sqlType = SqlTypeInt16Array,
        cm_nullable = True, cm_nullability = NullabilityNullable, cm_primaryKey = False\<rparr> False = Ok (Some img)
    \<and> decodeArrayPayload lib
      \<lparr>cm_name = ''A'', cm_cmType = 0, cm_precision = 2, cm_elementPrecision = 0, cm_scale = 0,
        cm_spinerType = cmdInt16ArrayType, cm_length = 7, cm_isVariable = True, cm_sqlType = SqlTypeInt16Array,
        cm_nullable = True, cm_nullability = NullabilityNullable, cm_primaryKey = False\<rparr> img
      = Ok \<lparr>ar_elementType = SqlTypeInt16, ar_cardinality = 2, ar_precision = 0,
        ar_scale = 0, ar_entries = [1 \<mapsto> VInt16 7]\<rparr>"
proof
  fix lib
  let ?a = "\<lparr>ar_elementType = SqlTypeInt16, ar_cardinality = 2, ar_precision = 0,
        ar_scale = 0, ar_entries = [1 \<mapsto> VInt16 7]\<rparr>"
  let ?col = "\<lparr>cm_name = ''A'', cm_cmType = 0, cm_precision = 2, cm_elementPrecision = 0, cm_scale = 0,
        cm_spinerType = cmdInt16ArrayType, cm_length = 7, cm_isVariable = True, cm_sqlType = SqlTypeInt16Array,
        cm_nullable = True, cm_nullability = NullabilityNullable, cm_primaryKey = False\<rparr>"
  have "sorted_positions ?a = [1]" by (simp add: sorted_positions_def upt_rec)
  then obtain img where "encodeArrayPayload lib (Some ?a) ?col False = Ok (Some img)"
    by (simp add: encodeArrayPayload_def arrayBaseSpinerType_def spinerTypeToSqlType_def computeColumnLength_def
        computeArrayColumnLength_def isArraySpinerType_def entry_at_def encodeArrayElement_def int_element_def Let_def)
  moreover from this have "decodeArrayPayload lib ?col img = Ok ?a"
    by (rule array_dense_roundtrip [rotated])
      (simp_all add: array_wf_def isNumericArrayElementType_def NewSparseArrayWithMeta_def SqlType_ElementType_def
        Array_Clear_def wire_exact_def)
  ultimately show "\<exists>img. encodeArrayPayload lib (Some ?a) ?col False = Ok (Some img)
      \<and> decodeArrayPayload lib ?col img = Ok ?a" by blast
qed

text \<open>
  The encoder writes the smaller image: with sparse images allowed, the result has the size of the
  sparse image when that is smaller and of the dense image otherwise, and a sparse image is the
  marker, the cardinality, the number of entries and the entries in the order of their 1-based
  positions.
\<close>

theorem array_payload_format:
  assumes wf: "array_wf a" and enc: "encodeArrayPayload lib (Some a) col True = Ok (Some img)"
  defines "elt \<equiv> \<lambda>v. encodeArrayElement lib (arrayBaseSpinerType (cm_spinerType col)) v (cm_elementPrecision col) (cm_scale col)"
    and "sparse \<equiv> 8 + int (length (sorted_positions a))
      * (2 + computeColumnLength (arrayBaseSpinerType (cm_spinerType col)) (cm_elementPrecision col))"
    and "dense \<equiv> computeArrayColumnLength (cm_spinerType col) (cm_precision col) (cm_elementPrecision col)"
  shows "int (length img) = min sparse dense
    \<and> (sparse < dense \<longrightarrow> img = [0, 0, 1, 1] @ be_bytes 2 (of_int (ar_cardinality a) :: u16)
        @ be_bytes 2 (of_nat (length (sorted_positions a)) :: u16) @ concat (map (sparse_item elt a) (sorted_positions a)))"
proof -
  let ?base = "arrayBaseSpinerType (cm_spinerType col)" and ?ps = "sorted_positions a"
  obtain b e n where col: "n = nat (ar_cardinality a)" "b = (n + 7) div 8" "cm_precision col = int n" "1 \<le> n" "n \<le> 1024"
    "computeColumnLength ?base (cm_elementPrecision col) = int e" "0 < e"
    "ar_elementType a = spinerTypeToSqlType ?base"
    "computeArrayColumnLength (cm_spinerType col) (cm_precision col) (cm_elementPrecision col) = int (2 + b + n * e)"
    "nat ((cm_precision col + 7) div 8) = b"
    using dense_column [OF wf enc] by metis
  have card: "ar_cardinality a = int n" using col(1) wf by (simp add: array_wf_def)
  have base: "?base \<in> set element_types"
    using wf array_base_element [of "cm_spinerType col"] col(8) by (simp add: array_wf_def)
  have elt: "length bs = e" if "elt v = Ok bs" for v bs
    using encodeArrayElement_length [OF base that [unfolded elt_def]] col(6) by simp
  have sizes: "sparse = int (8 + length ?ps * (2 + e))" "dense = int (2 + b + n * e)"
    using col(6,9) by (simp_all add: sparse_def dense_def distrib_left)
  note run = enc [unfolded encodeArrayPayload_def option.case Let_def, folded elt_def sparse_def dense_def,
      unfolded sizes nat_int col(10,6), unfolded card col(3)]
  show ?thesis
  proof (cases "sparse < dense")
    case True
    let ?h = "[0, 0, 1, 1] @ be_bytes 2 (of_nat n :: u16) @ be_bytes 2 (of_nat (length ?ps) :: u16)"
    let ?t = "replicate (length ?ps * (2 + e)) (0 :: byte)"
    have ret: "copy_at (copy_at ((replicate (8 + length ?ps * (2 + e)) 0)[2 := 1, 3 := 1]) 4 (be_bytes 2 (of_nat n :: u16))) 6
        (be_bytes 2 (of_nat (length ?ps) :: u16)) = ?h @ ?t"
      by (simp add: copy_at_def replicate_add eval_nat_numeral be_bytes_def)
    have "sparse_elements elt e a ?ps (length ?h) (?h @ ?t) = Ok img"
      using run True sizes ret col(7,8) by (auto simp: outcome_simps split: if_splits)
    from sparse_elements_image [OF this] elt
    have "img = ?h @ concat (map (sparse_item elt a) ?ps)" "length (concat (map (sparse_item elt a) ?ps)) = length ?t"
      by auto
    with True sizes card show ?thesis by simp
  next
    case False
    let ?ret = "fold mark_null [0..<n] (copy_at (replicate (2 + b + n * e) 0) 0 (be_bytes 2 (of_nat n :: u16)))"
    have "\<forall>j \<in> set [0..<n]. 2 + j div 8 < length (copy_at (replicate (2 + b + n * e) 0) 0 (be_bytes 2 (of_nat n :: u16)))"
      using col(2) by (auto simp: copy_at_def)
    from fold_mark_null [OF this] have ret: "length ?ret = 2 + b + n * e" by (simp add: copy_at_def)
    have "dense_elements elt b e a ?ps ?ret = Ok img"
      using run False sizes col(7,8) by (auto simp: outcome_simps split: if_splits)
    from dense_elements_image [OF this ret] elt have "length img = length ?ret"
      using col(1,2) by (auto simp: sorted_positions_def)
    with False ret sizes show ?thesis by simp
  qed
qed

theorem array_payload_format_witness:
  "\<forall>lib. \<exists>img. encodeArrayPayload lib (Some \<lparr>ar_elementType = SqlTypeInt16, ar_cardinality = 8, ar_precision = 0,
        ar_scale = 0, ar_entries = [1 \<mapsto> VInt16 7]\<rparr>)
      \<lparr>cm_name = ''A'', cm_cmType = 0, cm_precision = 8, cm_elementPrecision = 0, cm_scale = 0,
        cm_spinerType = cmdInt16ArrayType, cm_length = 19, cm_isVariable = True, cm_sqlType = SqlTypeInt16Array,
        cm_nullable = True, cm_nullability = NullabilityNullable, cm_primaryKey = False\<rparr> True = Ok (Some img)
    \<and> length img = 12"
proof
  fix lib
  let ?a = "\<lparr>ar_elementType = SqlTypeInt16, ar_cardinality = 8, ar_precision = 0,
        ar_scale = 0, ar_entries = [1 \<mapsto> VInt16 7]\<rparr>"
  let ?col = "\<lparr>cm_name = ''A'', cm_cmType = 0, cm_precision = 8, cm_elementPrecision = 0, cm_scale = 0,
        cm_spinerType = cmdInt16ArrayType, cm_length = 19, cm_isVariable = True, cm_sqlType = SqlTypeInt16Array,
        cm_nullable = True, cm_nullability = NullabilityNullable, cm_primaryKey = False\<rparr>"
  have ps: "sorted_positions ?a = [1]" by (simp add: sorted_positions_def upt_rec)
  then obtain img where enc: "encodeArrayPayload lib (Some ?a) ?col True = Ok (Some img)"
    by (simp add: encodeArrayPayload_def arrayBaseSpinerType_def spinerTypeToSqlType_def computeColumnLength_def
        computeArrayColumnLength_def isArraySpinerType_def entry_at_def encodeArrayElement_def int_element_def Let_def)
  have "array_wf ?a" by (simp add: array_wf_def isNumericArrayElementType_def)
  from array_payload_format [OF this enc, THEN conjunct1] ps have "int (length img) = 12"
    by (simp add: arrayBaseSpinerType_def computeColumnLength_def computeArrayColumnLength_def isArraySpinerType_def)
  with enc show "\<exists>img. encodeArrayPayload lib (Some ?a) ?col True = Ok (Some img) \<and> length img = 12" by auto
qed

text \<open>
  C37. Decoding an ARRAY payload is safe: whatever bytes the server sends and whatever the column says,
  \<^verbatim>\<open>decodeArrayPayload\<close> does not panic, and an array it returns is well formed, has the cardinality of the
  column, and is NULL exactly at the positions whose bit is set.
\<close>

theorem array_decode_safe:
  "case decodeArrayPayload lib col img of
     Ok a \<Rightarrow> array_wf a \<and> ar_cardinality a = cm_precision col
       \<and> (\<forall>j. ar_entries a j = None \<longleftrightarrow> j < 0 \<or> cm_precision col \<le> j \<or> null_bit img (nat j))
   | Err e \<Rightarrow> True
   | Panic m \<Rightarrow> False"
  by (rule decodeArrayPayload_outcome)

end
