(* ===== verification/Rows.thy ===== *)
theory Rows
  imports Array_Codec
begin

text \<open>
  The row part of \<^verbatim>\<open>machnet/decode.go\<close>: fixed and variable fields of a fetched row. Offsets are sums
  of the row length and 32-bit lengths and never leave the range of \<^verbatim>\<open>int\<close>, so they are \<open>nat\<close>.
\<close>

section \<open>Values of a row\<close>

text \<open>
  The dynamic values beyond \<open>prim\<close>: pointers to arrays, arrays, and slices of \<^verbatim>\<open>any\<close>. \<open>sprint_any\<close> is
  \<^verbatim>\<open>fmt.Sprint\<close>: a \<^verbatim>\<open>*Array\<close> prints by its \<^verbatim>\<open>String\<close> method, which is defined on the nil pointer too;
  the text of the other two is the parameter \<open>spr\<close>.
\<close>

datatype goval = GPrim prim | GArrayPtr "Array option" | GArrayVal Array | GSlice "prim list"

abbreviation GNil :: goval where "GNil \<equiv> GPrim VNil"

fun sprint_any :: "golib \<Rightarrow> (goval \<Rightarrow> string) \<Rightarrow> goval \<Rightarrow> string" where
  "sprint_any lib spr (GPrim p) = sprint lib p"
| "sprint_any lib spr (GArrayPtr None) = ''NULL''"
| "sprint_any lib spr (GArrayPtr (Some a)) = Array_String lib a"
| "sprint_any lib spr v = spr v"

section \<open>Fields\<close>

definition array_types :: "spinerType list" where
  "array_types = [cmdInt16ArrayType, cmdUInt16ArrayType, cmdInt32ArrayType, cmdUInt32ArrayType, cmdInt64ArrayType,
     cmdUInt64ArrayType, cmdFlt32ArrayType, cmdFlt64ArrayType, cmdDecimalArrayType]"

definition decodeVariableField :: "golib \<Rightarrow> ColumnMeta \<Rightarrow> bytes \<Rightarrow> goval outcome" where
  "decodeVariableField lib col field =
     (if cm_spinerType col \<in> set array_types
      then bind_outcome (decodeArrayPayload lib col field) (\<lambda>a. Ok (GArrayPtr (Some a)))
      else if cm_spinerType col \<in> set [cmdVarcharType, cmdTextType, cmdCharType, cmdJSONType, cmdClobType, cmdIPNetType]
      then Ok (GPrim (VString (string_of_bytes field)))
      else Ok (GPrim (VBytes field)))"

text \<open>
  Two floats are equal as Go values when they are equal numbers; for the two NULL patterns, which
  are finite and not zero, that is equality of the bits.
\<close>

definition fixed_value :: "nat \<Rightarrow> bytes \<Rightarrow> 'a::len word \<Rightarrow> ('a word \<Rightarrow> prim) \<Rightarrow> prim" where
  "fixed_value n field null mk =
     (if length field < n then VNil
      else let v = be_word (take n field) in if v = null then VNil else mk v)"

definition decodeFixedField :: "ColumnMeta \<Rightarrow> bytes \<Rightarrow> prim" where
  "decodeFixedField col field =
     switch (cm_spinerType col)
     [([cmdBoolType, cmdInt16Type], fixed_value 2 field shortNull VInt16),
      ([cmdUInt16Type], fixed_value 2 field ushortNull (\<lambda>v. VInt32 (ucast v))),
      ([cmdInt32Type], fixed_value 4 field intNull VInt32),
      ([cmdUInt32Type], fixed_value 4 field uintNull (\<lambda>v. VInt64 (ucast v))),
      ([cmdInt64Type], fixed_value 8 field longNull VInt64),
      ([cmdUInt64Type], fixed_value 8 field ulongNull VInt64),
      ([cmdFlt32Type], fixed_value 4 field floatNull VFloat32),
      ([cmdFlt64Type], fixed_value 8 field doubleNull VFloat64),
      ([cmdDateType], fixed_value 8 field datetimeNull VTime),
      ([cmdIpv4Type], if length field < 5 \<or> hd field = 0 then VNil else VIP (subslice field 1 5)),
      ([cmdIpv6Type], if length field < 17 \<or> hd field = 0 then VNil else VIP (subslice field 1 17)),
      ([cmdNulType], VNil)]
     (if list_all (\<lambda>b. b = 0) field then VNil else VBytes field)"

section \<open>Rows\<close>

text \<open>One column at offset \<open>off\<close>: the value and the offset after it.\<close>

definition decode_column :: "golib \<Rightarrow> ColumnMeta \<Rightarrow> bytes \<Rightarrow> int \<Rightarrow> (goval \<times> int) outcome" where
  "decode_column lib col data off =
     (if cm_isVariable col
      then
        if off + 4 > int (length data) then Err (PlainErr ''malformed row variable length'')
        else
          bind_outcome (chk_slice data off (off + 4)) (\<lambda>h.
          let l = uint (be_word h :: u32); off = off + 4
          in if l = 0 then Ok (GNil, off)
             else if off + l > int (length data) then Err (PlainErr ''malformed row variable overrun'')
             else
               bind_outcome (chk_slice data off (off + l)) (\<lambda>field.
               bind_outcome (decodeVariableField lib col field) (\<lambda>v. Ok (v, off + l))))
      else if cm_length col = 0 then Ok (GNil, off)
      else if off + cm_length col > int (length data) then Err (PlainErr ''malformed row fixed overrun'')
      else
        bind_outcome (chk_slice data off (off + cm_length col)) (\<lambda>field.
        if cm_spinerType col = cmdDecimalType
        then bind_outcome (decodeDecimal field (cm_precision col) (cm_scale col)) (\<lambda>d.
               Ok (GPrim (case d of None \<Rightarrow> VNil | Some x \<Rightarrow> VDecimal x), off + cm_length col))
        else Ok (GPrim (decodeFixedField col field), off + cm_length col)))"

fun decode_columns :: "golib \<Rightarrow> ColumnMeta list \<Rightarrow> bytes \<Rightarrow> int \<Rightarrow> goval list outcome" where
  "decode_columns lib [] data off = Ok []"
| "decode_columns lib (col # cols) data off =
     bind_outcome (decode_column lib col data off) (\<lambda>(v, off').
     bind_outcome (decode_columns lib cols data off') (\<lambda>vs. Ok (v # vs)))"

text \<open>\<^verbatim>\<open>decodeRowInto\<close> fills the front of the slice \<open>ret\<close>; an error leaves a partly filled row that the
  caller drops.\<close>

definition decodeRowInto :: "golib \<Rightarrow> goval list \<Rightarrow> bytes \<Rightarrow> ColumnMeta list \<Rightarrow> goval list outcome" where
  "decodeRowInto lib ret data columns =
     (if length ret < length columns then Err (PlainErr ''invalid row buffer size'')
      else bind_outcome (decode_columns lib columns data 0) (\<lambda>vs. Ok (vs @ drop (length columns) ret)))"

fun decode_units :: "golib \<Rightarrow> MarshalUnit list \<Rightarrow> ColumnMeta list \<Rightarrow> goval list list outcome" where
  "decode_units lib [] columns = Ok []"
| "decode_units lib (u # us) columns =
     bind_outcome (decodeRowInto lib (replicate (length columns) GNil) (mu_data u) columns) (\<lambda>row.
     bind_outcome (decode_units lib us columns) (\<lambda>rows. Ok (row # rows)))"

text \<open>Without columns the rows stay nil slices, here empty lists.\<close>

definition decodeRowsFromUnits :: "golib \<Rightarrow> MarshalUnit list \<Rightarrow> ColumnMeta list \<Rightarrow> goval list list outcome" where
  "decodeRowsFromUnits lib units columns =
     (if units = [] then Ok []
      else if columns = [] then Ok (replicate (length units) [])
      else decode_units lib units columns)"

section \<open>Columns from the wire\<close>

text \<open>Lengths and precisions that come from the packed word are not negative.\<close>

lemma computeColumnLength_nonneg: "0 \<le> prec \<Longrightarrow> 0 \<le> computeColumnLength sp prec"
  by (simp add: computeColumnLength_def switch_def split: outcome.splits)

lemma computeArrayColumnLength_nonneg: "0 \<le> computeArrayColumnLength sp n prec"
  by (auto simp: computeArrayColumnLength_def Let_def intro!: add_nonneg_nonneg mult_nonneg_nonneg)

definition column_ok :: "ColumnMeta \<Rightarrow> bool" where
  "column_ok col \<longleftrightarrow> 0 \<le> cm_length col"

lemma column_meta_ok: "column_ok (column_meta nam typ v403)"
  by (auto simp: column_ok_def column_meta_def Let_def array_precision_def extractPrecision_def split: prod.splits
      intro!: computeColumnLength_nonneg computeArrayColumnLength_nonneg)

lemma buildColumns_ok: "list_all column_ok (buildColumns units v403)"
  by (auto simp: buildColumns_def list_all_iff column_meta_ok)

section \<open>Safety\<close>

lemma decodeVariableField_no_panic: "\<not> is_panic (decodeVariableField lib col field)"
  using decodeArrayPayload_outcome [where lib = lib and col = col and img = field]
  by (cases "decodeArrayPayload lib col field") (simp_all add: decodeVariableField_def)

lemma decodeDecimal_no_panic: "\<not> is_panic (decodeDecimal data p s)"
  by (simp add: decodeDecimal_def decimalSize_def NewDecimal_def validateDecimalPrecisionScale_def Let_def)

lemma chk_slice_in: "0 \<le> lo \<Longrightarrow> lo \<le> hi \<Longrightarrow> hi \<le> int (length xs) \<Longrightarrow>
    chk_slice xs lo hi = Ok (subslice xs (nat lo) (nat hi))"
  by (simp add: chk_slice_def)

lemma decode_column_safe:
  assumes "column_ok col" and "0 \<le> off"
  shows "case decode_column lib col data off of Ok (v, off') \<Rightarrow> 0 \<le> off' | Err e \<Rightarrow> True | Panic m \<Rightarrow> False"
proof (cases "cm_isVariable col")
  case True
  show ?thesis
  proof (cases "off + 4 > int (length data)")
    case False
    let ?l = "uint (be_word (subslice data (nat off) (nat (off + 4))) :: u32)"
    have head: "chk_slice data off (off + 4) = Ok (subslice data (nat off) (nat (off + 4)))"
      using False assms(2) by (intro chk_slice_in) auto
    show ?thesis
    proof (cases "?l = 0 \<or> off + 4 + ?l > int (length data)")
      case True
      with \<open>cm_isVariable col\<close> False head assms(2) show ?thesis by (auto simp: decode_column_def Let_def)
    next
      case fits: False
      let ?field = "subslice data (nat (off + 4)) (nat (off + 4 + ?l))"
      have "chk_slice data (off + 4) (off + 4 + ?l) = Ok ?field" using fits assms(2) by (intro chk_slice_in) auto
      with \<open>cm_isVariable col\<close> False head fits assms(2) decodeVariableField_no_panic [of lib col ?field] show ?thesis
        by (cases "decodeVariableField lib col ?field") (auto simp: decode_column_def Let_def)
    qed
  qed (use True in \<open>simp add: decode_column_def\<close>)
next
  case False
  let ?hi = "off + cm_length col"
  show ?thesis
  proof (cases "cm_length col = 0 \<or> ?hi > int (length data)")
    case True
    with False assms(2) show ?thesis by (auto simp: decode_column_def)
  next
    case fits: False
    let ?field = "subslice data (nat off) (nat ?hi)"
    have "chk_slice data off ?hi = Ok ?field" using fits assms by (intro chk_slice_in) (auto simp: column_ok_def)
    with False fits assms decodeDecimal_no_panic [of ?field "cm_precision col" "cm_scale col"] show ?thesis
      by (cases "decodeDecimal ?field (cm_precision col) (cm_scale col)") (auto simp: decode_column_def column_ok_def)
  qed
qed

lemma decode_columns_safe:
  "list_all column_ok cols \<Longrightarrow> 0 \<le> off \<Longrightarrow>
    case decode_columns lib cols data off of Ok vs \<Rightarrow> length vs = length cols | Err e \<Rightarrow> True | Panic m \<Rightarrow> False"
proof (induction cols arbitrary: off)
  case (Cons col cols)
  show ?case
  proof (cases "decode_column lib col data off")
    case (Ok r)
    obtain v off' where r: "r = (v, off')" by fastforce
    have "0 \<le> off'" using decode_column_safe [of col off lib data] Cons.prems Ok r by simp
    with Cons Ok r show ?thesis
      by (cases "decode_columns lib cols data off'") (fastforce split: outcome.splits)+
  qed (use decode_column_safe [of col off lib data] Cons.prems in auto)
qed simp

lemma decode_units_safe:
  "list_all column_ok cols \<Longrightarrow>
    case decode_units lib us cols of Ok rows \<Rightarrow> length rows = length us \<and> list_all (\<lambda>r. length r = length cols) rows
    | Err e \<Rightarrow> True | Panic m \<Rightarrow> False"
proof (induction us)
  case (Cons u us)
  show ?case
    using Cons decode_columns_safe [of cols 0 lib "mu_data u"]
    by (cases "decode_columns lib cols (mu_data u) 0"; cases "decode_units lib us cols") (auto simp: decodeRowInto_def)
qed simp

section \<open>Layout of a row\<close>

text \<open>
  The image of a field, and the value of a field on its own. A variable field carries its length, an
  empty one is NULL.
\<close>

definition field_image :: "ColumnMeta \<Rightarrow> bytes \<Rightarrow> bytes" where
  "field_image col f = (if cm_isVariable col then be_bytes 4 (of_nat (length f) :: u32) @ f else f)"

definition field_fits :: "ColumnMeta \<Rightarrow> bytes \<Rightarrow> bool" where
  "field_fits col f \<longleftrightarrow> (if cm_isVariable col then length f < 2 ^ 32 else int (length f) = cm_length col)"

definition field_value :: "golib \<Rightarrow> ColumnMeta \<Rightarrow> bytes \<Rightarrow> goval outcome" where
  "field_value lib col f =
     (if f = [] then Ok GNil
      else if cm_isVariable col then decodeVariableField lib col f
      else if cm_spinerType col = cmdDecimalType
      then bind_outcome (decodeDecimal f (cm_precision col) (cm_scale col))
             (\<lambda>d. Ok (GPrim (case d of None \<Rightarrow> VNil | Some x \<Rightarrow> VDecimal x)))
      else Ok (GPrim (decodeFixedField col f)))"

fun all_ok :: "'a outcome list \<Rightarrow> 'a list outcome" where
  "all_ok [] = Ok []"
| "all_ok (x # xs) = bind_outcome x (\<lambda>v. bind_outcome (all_ok xs) (\<lambda>vs. Ok (v # vs)))"

lemma bind_outcome_assoc: "bind_outcome (bind_outcome m f) g = bind_outcome m (\<lambda>x. bind_outcome (f x) g)"
  by (cases m) simp_all

lemma decode_column_image:
  assumes "field_fits col f"
  shows "decode_column lib col (pre @ field_image col f @ post) (int (length pre))
    = bind_outcome (field_value lib col f) (\<lambda>v. Ok (v, int (length (pre @ field_image col f))))"
proof (cases "cm_isVariable col")
  case True
  let ?h = "be_bytes 4 (of_nat (length f) :: u32)"
  have l: "uint (be_word ?h :: u32) = int (length f)"
  proof -
    have "unat (be_word ?h :: u32) = length f"
      using assms True by (simp add: be_word_be_bytes_id unat_of_nat_small field_fits_def)
    then show ?thesis by (metis of_nat_unat)
  qed
  have s1: "chk_slice (pre @ ?h @ f @ post) (int (length pre)) (int (length pre) + 4) = Ok ?h"
    by (simp add: chk_slice_def nat_add_distrib subslice_def)
  have s2: "chk_slice (pre @ ?h @ f @ post) (int (length pre) + 4) (int (length pre) + 4 + int (length f)) = Ok f"
    by (simp add: chk_slice_def nat_add_distrib subslice_def)
  show ?thesis using True s1 s2 l
    by (simp add: decode_column_def field_image_def field_value_def Let_def add.assoc)
next
  case False
  have "chk_slice (pre @ f @ post) (int (length pre)) (int (length pre) + int (length f)) = Ok f"
    by (simp add: chk_slice_def nat_add_distrib subslice_def)
  with False assms show ?thesis
    by (cases "f = []") (auto simp: decode_column_def field_image_def field_value_def field_fits_def bind_outcome_assoc)
qed

lemma decode_columns_image:
  "list_all2 field_fits cols fs \<Longrightarrow>
    decode_columns lib cols (pre @ concat (map2 field_image cols fs) @ post) (int (length pre))
      = all_ok (map2 (field_value lib) cols fs)"
proof (induction cols fs arbitrary: pre rule: list_all2_induct)
  case (Cons col cols f fs)
  let ?rest = "concat (map2 field_image cols fs) @ post"
  have "decode_column lib col (pre @ field_image col f @ ?rest) (int (length pre))
      = bind_outcome (field_value lib col f) (\<lambda>v. Ok (v, int (length (pre @ field_image col f))))"
    using Cons.hyps(1) by (rule decode_column_image)
  with Cons.IH [of "pre @ field_image col f"] show ?case by (simp add: bind_outcome_assoc)
qed simp

section \<open>Properties\<close>

text \<open>
  C36. Decoding fetched rows is safe: for columns described by any bytes of the server and rows of any
  bytes, no slice expression leaves its bounds; a result has one row per unit and one value per
  column.
\<close>

theorem rows_decode_safe:
  "case decodeRowsFromUnits lib us (buildColumns units v403) of
     Ok rows \<Rightarrow> length rows = length us \<and> list_all (\<lambda>r. length r = length (buildColumns units v403)) rows
   | Err e \<Rightarrow> True
   | Panic m \<Rightarrow> False"
  using decode_units_safe [OF buildColumns_ok [of units v403], where lib = lib and us = us]
  by (cases "us = []") (auto simp: decodeRowsFromUnits_def list_all_iff)

text \<open>
  C30. Layout of a row: every column is decoded from its own field. In a row that is the
  concatenation of field images (a variable field behind its 32-bit length, a fixed field of the
  width of its column), whatever follows it, column \<open>i\<close> gets the value of field \<open>i\<close>, an empty
  variable field or a zero-width column is NULL, and an error is that of the first field that has one.
\<close>

theorem row_layout:
  assumes "list_all2 field_fits cols fs" and "length ret = length cols"
  shows "decodeRowInto lib ret (concat (map2 field_image cols fs) @ post) cols
    = all_ok (map2 (field_value lib) cols fs)"
  using decode_columns_image [OF assms(1), of lib "[]" post] assms(2)
  by (cases "all_ok (map2 (field_value lib) cols fs)") (simp_all add: decodeRowInto_def)

text \<open>A VARCHAR field and an INT16 field.\<close>

theorem row_layout_witness:
  "\<forall>lib. decodeRowInto lib [GNil, GNil] ([0, 0, 0, 2, 72, 105, 1, 2])
      [\<lparr>cm_name = ''A'', cm_cmType = 0, cm_precision = 10, cm_elementPrecision = 0, cm_scale = 0,
        cm_spinerType = cmdVarcharType, cm_length = 10, cm_isVariable = True, cm_sqlType = SqlTypeString,
        cm_nullable = True, cm_nullability = NullabilityNullable, cm_primaryKey = False\<rparr>,
       \<lparr>cm_name = ''B'', cm_cmType = 0, cm_precision = 0, cm_elementPrecision = 0, cm_scale = 0,
        cm_spinerType = cmdInt16Type, cm_length = 2, cm_isVariable = False, cm_sqlType = SqlTypeInt16,
        cm_nullable = True, cm_nullability = NullabilityNullable, cm_primaryKey = False\<rparr>]
    = Ok [GPrim (VString ''Hi''), GPrim (VInt16 258)]"
proof
  fix lib
  let ?a = "\<lparr>cm_name = ''A'', cm_cmType = 0, cm_precision = 10, cm_elementPrecision = 0, cm_scale = 0,
        cm_spinerType = cmdVarcharType, cm_length = 10, cm_isVariable = True, cm_sqlType = SqlTypeString,
        cm_nullable = True, cm_nullability = NullabilityNullable, cm_primaryKey = False\<rparr>"
  let ?b = "\<lparr>cm_name = ''B'', cm_cmType = 0, cm_precision = 0, cm_elementPrecision = 0, cm_scale = 0,
        cm_spinerType = cmdInt16Type, cm_length = 2, cm_isVariable = False, cm_sqlType = SqlTypeInt16,
        cm_nullable = True, cm_nullability = NullabilityNullable, cm_primaryKey = False\<rparr>"
  have h: "be_bytes 4 (2 :: u32) = [0, 0, 0, 2]" by (simp add: be_bytes_def le_bytes_numeral)
  have s: "string_of_bytes [72, 105] = ''Hi''" by code_simp
  have i: "(be_word [1, 2] :: u16) = 258" by (simp add: be_word_def)
  have "decodeRowInto lib [GNil, GNil] (concat (map2 field_image [?a, ?b] [[72, 105], [1, 2]]) @ []) [?a, ?b]
      = all_ok (map2 (field_value lib) [?a, ?b] [[72, 105], [1, 2]])"
    by (rule row_layout) (simp_all add: field_fits_def)
  moreover have "concat (map2 field_image [?a, ?b] [[72, 105], [1, 2]]) = [0, 0, 0, 2, 72, 105, 1, 2]"
    using h by (simp add: field_image_def)
  moreover have "all_ok (map2 (field_value lib) [?a, ?b] [[72, 105], [1, 2]])
      = Ok [GPrim (VString ''Hi''), GPrim (VInt16 258)]"
    using s i by (simp add: field_value_def decodeVariableField_def array_types_def decodeFixedField_def fixed_value_def)
  ultimately show "decodeRowInto lib [GNil, GNil] [0, 0, 0, 2, 72, 105, 1, 2] [?a, ?b]
      = Ok [GPrim (VString ''Hi''), GPrim (VInt16 258)]" by simp
qed

end
