(* ===== verification/Go_Encoding.thy ===== *)
theory Go_Encoding
  imports Go_Strings
begin

text \<open>
  The text encodings of bytes that \<^verbatim>\<open>parseBinary\<close> of \<^verbatim>\<open>api/datatypes.go\<close> accepts: \<^verbatim>\<open>encoding/hex\<close> and the
  standard alphabet of \<^verbatim>\<open>encoding/base64\<close>.
\<close>

section \<open>Hexadecimal\<close>

definition hex_val :: "char \<Rightarrow> nat option" where
  "hex_val c =
     (let k = of_char c :: nat
      in if 48 \<le> k \<and> k \<le> 57 then Some (k - 48)
         else if 97 \<le> k \<and> k \<le> 102 then Some (k - 87)
         else if 65 \<le> k \<and> k \<le> 70 then Some (k - 55)
         else None)"

fun hex_DecodeString :: "string \<Rightarrow> bytes outcome" where
  "hex_DecodeString [] = Ok []"
| "hex_DecodeString [c] = Err (PlainErr ''encoding/hex: odd length hex string'')"
| "hex_DecodeString (a # b # cs) =
     (case (hex_val a, hex_val b) of
        (Some x, Some y) \<Rightarrow> bind_outcome (hex_DecodeString cs) (\<lambda>bs. Ok (of_nat (16 * x + y) # bs))
      | _ \<Rightarrow> Err (PlainErr ''encoding/hex: invalid byte''))"

section \<open>Base64\<close>

definition base64_val :: "char \<Rightarrow> nat option" where
  "base64_val c =
     (let k = of_char c :: nat
      in if 65 \<le> k \<and> k \<le> 90 then Some (k - 65)
         else if 97 \<le> k \<and> k \<le> 122 then Some (k - 71)
         else if 48 \<le> k \<and> k \<le> 57 then Some (k + 4)
         else if k = 43 then Some 62
         else if k = 47 then Some 63
         else None)"

definition base64_error :: "'a outcome" where
  "base64_error = Err (PlainErr ''illegal base64 data'')"

text \<open>Quanta of four characters; padding only in the last one. Newlines are dropped beforehand, as the
  decoder skips them everywhere.\<close>

fun base64_quanta :: "string \<Rightarrow> bytes outcome" where
  "base64_quanta [] = Ok []"
| "base64_quanta (a # b # c # d # cs) =
     (case (base64_val a, base64_val b) of
        (Some w, Some x) \<Rightarrow>
          (case (base64_val c, base64_val d) of
             (Some y, Some z) \<Rightarrow>
               bind_outcome (base64_quanta cs) (\<lambda>bs.
                 Ok (of_nat (4 * w + x div 16) # of_nat (16 * (x mod 16) + y div 4) # of_nat (64 * (y mod 4) + z) # bs))
           | (Some y, None) \<Rightarrow>
               if d = CHR ''='' \<and> cs = [] then Ok [of_nat (4 * w + x div 16), of_nat (16 * (x mod 16) + y div 4)]
               else base64_error
           | (None, _) \<Rightarrow>
               if c = CHR ''='' \<and> d = CHR ''='' \<and> cs = [] then Ok [of_nat (4 * w + x div 16)] else base64_error)
      | _ \<Rightarrow> base64_error)"
| "base64_quanta cs = base64_error"

definition base64_DecodeString :: "string \<Rightarrow> bytes outcome" where
  "base64_DecodeString s = base64_quanta (filter (\<lambda>c. c \<noteq> CHR 0x0A \<and> c \<noteq> CHR 0x0D) s)"

section \<open>Binary values\<close>

text \<open>\<^verbatim>\<open>parseBinary\<close> on a string.\<close>

definition parseBinary_string :: "string \<Rightarrow> bytes outcome" where
  "parseBinary_string v =
     (if HasPrefix v ''0x'' \<or> HasPrefix v ''0X'' then hex_DecodeString (drop 2 v)
      else case base64_DecodeString v of
             Ok d \<Rightarrow> Ok d
           | Err e \<Rightarrow> Err (PlainErr ''failed to decode base64 string'')
           | Panic m \<Rightarrow> Panic m)"

end
