(* ===== verification/Bind.thy ===== *)
theory Bind
  imports Rows Go_Encoding
begin

text \<open>
  \<^verbatim>\<open>machnet/bind.go\<close>: the parameters of an execute request. The values of parameters and their
  conversions are in \<open>Values\<close>.
\<close>

section \<open>One parameter\<close>

record BoundParam =
  bp_sqlType :: SqlType
  bp_value :: goval
  bp_isNull :: bool
  bp_cardinality :: int
  bp_elementPrecision :: int
  bp_scale :: int

abbreviation (input) sqlParamInput :: byte where "sqlParamInput \<equiv> 1"

text \<open>A value as the scalar conversions see it: arrays and slices are of no type they know.\<close>

fun as_prim :: "goval \<Rightarrow> prim" where
  "as_prim (GPrim p) = p"
| "as_prim (GArrayPtr a) = VOther ''*api.Array''"
| "as_prim (GArrayVal a) = VOther ''api.Array''"
| "as_prim (GSlice vs) = VOther ''[]interface {}''"

fun encodeDecimal_any :: "golib \<Rightarrow> (goval \<Rightarrow> string) \<Rightarrow> goval \<Rightarrow> int \<Rightarrow> int \<Rightarrow> bytes outcome" where
  "encodeDecimal_any lib spr (GPrim p) prec scl = encodeDecimal lib p prec scl"
| "encodeDecimal_any lib spr v prec scl = encodeDecimalText (Some (sprint_any lib spr v)) prec scl"

definition null_param :: "SqlType \<Rightarrow> bytes outcome" where
  "null_param t =
     switch t
     [([SqlTypeInt16], Ok (be_bytes 2 (0x8000 :: u16))),
      ([SqlTypeInt32], Ok (be_bytes 4 (0x80000000 :: u32))),
      ([SqlTypeInt64], Ok (be_bytes 8 (0x8000000000000000 :: u64))),
      ([SqlTypeDatetime], Ok (be_bytes 8 datetimeNull)),
      ([SqlTypeFloat], Ok (be_bytes 4 floatNull)),
      ([SqlTypeDouble], Ok (be_bytes 8 doubleNull)),
      ([SqlTypeIPv4], Ok (replicate 5 0)),
      ([SqlTypeIPv6], Ok (replicate 17 0)),
      ([SqlTypeDecimal], bind_outcome (decimalSize DecimalMaxPrecision) (\<lambda>sz. Ok (replicate sz 0)))]
     (Ok [])"

definition array_param :: "golib \<Rightarrow> BoundParam \<Rightarrow> spinerType \<Rightarrow> Array option \<Rightarrow> bytes outcome" where
  "array_param lib p cmdType value =
     (let card0 = (case value of None \<Rightarrow> 0 | Some a \<Rightarrow> ar_cardinality a);
          prec0 = (case value of None \<Rightarrow> 0 | Some a \<Rightarrow> ar_precision a);
          scl0 = (case value of None \<Rightarrow> 0 | Some a \<Rightarrow> ar_scale a);
          cardinality = (if bp_cardinality p = 0 then card0 else bp_cardinality p);
          own = (SqlType_ElementType (bp_sqlType p) = SqlTypeDecimal \<and> bp_elementPrecision p = 0);
          elementPrecision = (if own then prec0 else bp_elementPrecision p);
          scl = (if own then scl0 else bp_scale p);
          col = \<lparr>cm_name = [], cm_cmType = 0, cm_precision = cardinality, cm_elementPrecision = elementPrecision,
                 cm_scale = scl, cm_spinerType = cmdType, cm_length = 0, cm_isVariable = False, cm_sqlType = 0,
                 cm_nullable = False, cm_nullability = NullabilityUnknown, cm_primaryKey = False\<rparr>
      in bind_outcome (encodeArrayPayload lib value col True)
           (\<lambda>r. Ok (case r of None \<Rightarrow> [] | Some bs \<Rightarrow> bs)))"

definition ip_param :: "byte \<Rightarrow> nat \<Rightarrow> bytes option \<Rightarrow> bytes" where
  "ip_param tag n addr = (case addr of None \<Rightarrow> replicate (n + 1) 0 | Some a \<Rightarrow> tag # a)"

definition uint_overflow :: "string \<Rightarrow> 'a outcome" where
  "uint_overflow t = Err (PlainErr (t @ '' value overflows''))"

definition scalar_param :: "golib \<Rightarrow> (goval \<Rightarrow> string) \<Rightarrow> BoundParam \<Rightarrow> spinerType \<Rightarrow> (spinerType \<times> bytes) outcome" where
  "scalar_param lib spr p cmdType =
     (let value = bp_value p;
          v = as_prim value;
          ret = (\<lambda>m. bind_outcome m (\<lambda>b. Ok (cmdType, b)))
      in switch (bp_sqlType p)
         [([SqlTypeInt16], ret (bind_outcome (toInt64 v) (\<lambda>i. Ok (be_bytes 2 (of_int i :: u16))))),
          ([SqlTypeInt32], ret (bind_outcome (toInt64 v) (\<lambda>i. Ok (be_bytes 4 (of_int i :: u32))))),
          ([SqlTypeInt64], ret (bind_outcome (toInt64 v) (\<lambda>i. Ok (be_bytes 8 (of_int i :: u64))))),
          ([SqlTypeUInt16], ret (bind_outcome (toUint64 v) (\<lambda>n.
             if n > 2 ^ 16 - 1 then uint_overflow ''uint16'' else Ok (be_bytes 2 (of_nat n :: u16))))),
          ([SqlTypeUInt32], ret (bind_outcome (toUint64 v) (\<lambda>n.
             if n > 2 ^ 32 - 1 then uint_overflow ''uint32'' else Ok (be_bytes 4 (of_nat n :: u32))))),
          ([SqlTypeUInt64], ret (bind_outcome (toUint64 v) (\<lambda>n. Ok (be_bytes 8 (of_nat n :: u64))))),
          ([SqlTypeDatetime], ret (bind_outcome (toDateTimeInt64 lib v) (\<lambda>t. Ok (be_bytes 8 t)))),
          ([SqlTypeFloat], ret (bind_outcome (toFloat64 lib v) (\<lambda>f. Ok (be_bytes 4 (f64_narrow f))))),
          ([SqlTypeDouble], ret (bind_outcome (toFloat64 lib v) (\<lambda>f. Ok (be_bytes 8 f)))),
          ([SqlTypeIPv4], ret (bind_outcome (toIP lib v) (\<lambda>ip. Ok (ip_param 4 4 (To4 ip))))),
          ([SqlTypeIPv6], ret (bind_outcome (toIP lib v) (\<lambda>ip. Ok (ip_param 6 16 (To16 ip))))),
          ([SqlTypeBinary],
             (case v of
                VBytes b \<Rightarrow> Ok (cmdType, b)
              | VString s \<Rightarrow> ret (parseBinary_string s)
              | _ \<Rightarrow> Err (PlainErr ''unsupported binary type''))),
          ([SqlTypeDecimal],
             (case encodeDecimal_any lib spr value DecimalMaxPrecision DecimalMaxScale of
                Ok b \<Rightarrow> Ok (cmdType, b)
              | Err e \<Rightarrow>
                  (case v of
                     VDecimal d \<Rightarrow> Ok (cmdVarcharType, bytes_of_string (Decimal_String d))
                   | VDecimalPtr (Some d) \<Rightarrow> Ok (cmdVarcharType, bytes_of_string (Decimal_String d))
                   | _ \<Rightarrow> Err e)
              | Panic m \<Rightarrow> Panic m))]
         (case v of
            VString s \<Rightarrow> Ok (cmdType, bytes_of_string s)
          | VBytes b \<Rightarrow> Ok (cmdType, b)
          | _ \<Rightarrow> Ok (cmdType, bytes_of_string (sprint_any lib spr value))))"

definition encodeBoundParam :: "golib \<Rightarrow> (goval \<Rightarrow> string) \<Rightarrow> BoundParam \<Rightarrow> (spinerType \<times> bytes) outcome" where
  "encodeBoundParam lib spr p =
     (let cmdType = sqlTypeToCmdType (bp_sqlType p)
      in if bp_isNull p \<or> bp_value p = GNil
         then bind_outcome (null_param (bp_sqlType p)) (\<lambda>b. Ok (cmdType, b))
         else if SqlType_IsArray (bp_sqlType p)
         then
           (case bp_value p of
              GArrayPtr a \<Rightarrow> bind_outcome (array_param lib p cmdType a) (\<lambda>b. Ok (cmdType, b))
            | GArrayVal a \<Rightarrow> bind_outcome (array_param lib p cmdType (Some (Array_Clone a))) (\<lambda>b. Ok (cmdType, b))
            | _ \<Rightarrow> Err (PlainErr ''unsupported ARRAY type''))
         else scalar_param lib spr p cmdType)"

section \<open>The parameter block\<close>

text \<open>\<open>offset\<close> is the number of bytes written so far, the length of the buffer.\<close>

definition param_entry :: "bool \<Rightarrow> nat \<Rightarrow> spinerType \<Rightarrow> bytes \<Rightarrow> bytes" where
  "param_entry v403 idx typ data =
     (if v403 then be_bytes 2 (of_nat (idx + 1) :: u16) else [of_nat (idx + 1)])
     @ [sqlParamInput, of_int typ] @ be_bytes 4 (of_nat (length data) :: u32) @ be_bytes 4 (of_nat (length data) :: u32)"

fun append_params :: "golib \<Rightarrow> (goval \<Rightarrow> string) \<Rightarrow> bool \<Rightarrow> nat \<Rightarrow> BoundParam list \<Rightarrow> bytes \<Rightarrow> bytes outcome" where
  "append_params lib spr v403 idx [] buf = Ok buf"
| "append_params lib spr v403 idx (p # ps) buf =
     (case encodeBoundParam lib spr p of
        Ok (typ, data) \<Rightarrow>
          (let buf = buf @ param_entry v403 idx typ data @ data
           in append_params lib spr v403 (idx + 1) ps (if odd (length buf) then buf @ [0] else buf))
      | Err e \<Rightarrow> Err (PlainErr (''bind '' @ itoa (int idx) @ '': '' @ error_text e))
      | Panic m \<Rightarrow> Panic m)"

definition encodeParams :: "golib \<Rightarrow> (goval \<Rightarrow> string) \<Rightarrow> BoundParam list \<Rightarrow> bool \<Rightarrow> bytes outcome" where
  "encodeParams lib spr params v403 =
     (if params = [] then Ok []
      else if length params > 0xffff then Err (PlainErr ''parameter count exceeds protocol limit'')
      else if \<not> v403 \<and> length params > 0xff
      then Err (PlainErr ''protocol versions before 4.0.3 support at most 255 parameters'')
      else append_params lib spr v403 0 params
             ((if v403 then be_bytes 2 (2 :: u16) else []) @ be_bytes 2 (of_nat (length params) :: u16)))"

section \<open>The format of the block\<close>

text \<open>An entry with its data, padded to an even length; the header in front of the entries.\<close>

definition entry_image :: "bool \<Rightarrow> nat \<Rightarrow> spinerType \<times> bytes \<Rightarrow> bytes" where
  "entry_image v403 idx it =
     (let e = param_entry v403 idx (fst it) (snd it) @ snd it in if odd (length e) then e @ [0] else e)"

definition block_header :: "bool \<Rightarrow> nat \<Rightarrow> bytes" where
  "block_header v403 n = (if v403 then be_bytes 2 (2 :: u16) else []) @ be_bytes 2 (of_nat n :: u16)"

definition entries_image :: "bool \<Rightarrow> nat \<Rightarrow> (spinerType \<times> bytes) list \<Rightarrow> bytes" where
  "entries_image v403 idx items = concat (map (\<lambda>(i, it). entry_image v403 i it) (enumerate idx items))"

lemma entries_image_simps [simp]:
  "entries_image v403 idx [] = []"
  "entries_image v403 idx (it # items) = entry_image v403 idx it @ entries_image v403 (Suc idx) items"
  by (simp_all add: entries_image_def)

lemma even_entry_image: "even (length (entry_image v403 idx it))"
  by (simp add: entry_image_def Let_def)

lemma even_entries_image: "even (length (entries_image v403 idx items))"
  by (induction items arbitrary: idx) (simp_all add: even_entry_image)

lemma even_block_header: "even (length (block_header v403 n))"
  by (simp add: block_header_def)

lemma append_params_iff:
  "even (length buf) \<Longrightarrow> append_params lib spr v403 idx ps buf = Ok buf' \<longleftrightarrow>
    (\<exists>items. map (encodeBoundParam lib spr) ps = map Ok items \<and> buf' = buf @ entries_image v403 idx items)"
proof (induction ps arbitrary: idx buf)
  case (Cons p ps)
  show ?case
  proof (cases "encodeBoundParam lib spr p")
    case (Ok it)
    obtain t d where it: "it = (t, d)" by fastforce
    let ?buf = "buf @ entry_image v403 idx it"
    have step: "append_params lib spr v403 idx (p # ps) buf = append_params lib spr v403 (Suc idx) ps ?buf"
      using Cons.prems by (simp add: Ok it Let_def entry_image_def)
    have "even (length ?buf)" using Cons.prems even_entry_image by simp
    from Cons.IH [OF this, of "Suc idx"] show ?thesis unfolding step
      by (auto simp: Ok map_eq_Cons_conv intro: exI [of _ "it # _"])
  qed (auto simp: map_eq_Cons_conv)
qed auto

text \<open>A reader of the block, for \<open>n\<close> entries that fill the bytes exactly.\<close>

fun read_entries :: "bool \<Rightarrow> nat \<Rightarrow> bytes \<Rightarrow> (nat \<times> byte \<times> bytes) list option" where
  "read_entries v403 0 bs = (if bs = [] then Some [] else None)"
| "read_entries v403 (Suc n) bs =
     (let k = (if v403 then 12 else 11);
          ord = (if v403 then unat (be_word (take 2 bs) :: u16) else unat (hd bs));
          len = unat (be_word (subslice bs (k - 4) k) :: u32);
          total = (if odd (k + len) then k + len + 1 else k + len)
      in if length bs < k \<or> length bs < total then None
         else map_option ((#) (ord, bs ! (k - 9), subslice bs k (k + len))) (read_entries v403 n (drop total bs)))"

lemma read_entries_image:
  "list_all (\<lambda>it. length (snd it) < 2 ^ 32) items \<Longrightarrow>
    idx + length items < 2 ^ (if v403 then 16 else 8) \<Longrightarrow>
    read_entries v403 (length items) (entries_image v403 idx items)
      = Some (map (\<lambda>(i, t, d). (i + 1, of_int t, d)) (enumerate idx items))"
proof (induction items arbitrary: idx)
  case (Cons it items)
  obtain t d where it: "it = (t, d)" by fastforce
  define k :: nat where "k = (if v403 then 12 else 11)"
  define rest where "rest = entries_image v403 (Suc idx) items"
  have img: "entry_image v403 idx it = param_entry v403 idx t d @ d @ (if odd (k + length d) then [0] else [])"
    by (simp add: entry_image_def it param_entry_def k_def)
  have len: "length (param_entry v403 idx t d) = k" by (simp add: param_entry_def k_def)
  have u: "unat (of_nat (length d) :: u32) = length d" using Cons.prems(1) it by (intro unat_of_nat_small) simp
  let ?bs = "entry_image v403 idx it @ rest"
  have 1: "(if v403 then unat (be_word (take 2 ?bs) :: u16) else unat (hd ?bs)) = idx + 1"
  proof (cases v403)
    case True
    then have "unat (of_nat (idx + 1) :: u16) = idx + 1" using Cons.prems(2) by (intro unat_of_nat_small) simp
    with True show ?thesis unfolding img by (simp add: param_entry_def be_word_be_bytes_id)
  next
    case False
    then have "unat (of_nat (idx + 1) :: byte) = idx + 1" using Cons.prems(2) by (intro unat_of_nat_small) simp
    with False show ?thesis unfolding img by (simp add: param_entry_def)
  qed
  have 2: "unat (be_word (subslice ?bs (k - 4) k) :: u32) = length d"
    unfolding img by (cases v403) (simp_all add: param_entry_def k_def subslice_def be_word_be_bytes_id u)
  have 3: "?bs ! (k - 9) = of_int t" unfolding img by (cases v403) (simp_all add: param_entry_def k_def nth_append)
  have 4: "subslice ?bs k (k + length d) = d" unfolding img using len by (simp add: subslice_def)
  have 5: "length (entry_image v403 idx it) = (if odd (k + length d) then k + length d + 1 else k + length d)"
    unfolding img using len by simp
  have IH: "read_entries v403 (length items) rest = Some (map (\<lambda>(i, t, d). (i + 1, of_int t, d)) (enumerate (Suc idx) items))"
    unfolding rest_def using Cons by simp
  have "read_entries v403 (Suc (length items)) ?bs
      = map_option ((#) (idx + 1, of_int t, d)) (read_entries v403 (length items) rest)"
    unfolding read_entries.simps Let_def k_def [symmetric] 1 2 3 4 using 5
    by (cases "odd (k + length d)") simp_all
  with IH it show ?case by (simp add: rest_def)
qed simp

section \<open>Parameters and columns\<close>

text \<open>Values whose image is not a NULL pattern, and what a column of the same type decodes them to:
  unsigned integers come back in the next wider signed type, a UINT64 as its bits in an \<^verbatim>\<open>int64\<close>.\<close>

fun bindable :: "SqlType \<Rightarrow> prim \<Rightarrow> bool" where
  "bindable t (VInt16 w) = (t = SqlTypeInt16 \<and> w \<noteq> shortNull)"
| "bindable t (VUint16 w) = (t = SqlTypeUInt16 \<and> w \<noteq> ushortNull)"
| "bindable t (VInt32 w) = (t = SqlTypeInt32 \<and> w \<noteq> intNull)"
| "bindable t (VUint32 w) = (t = SqlTypeUInt32 \<and> w \<noteq> uintNull)"
| "bindable t (VInt64 w) = (t = SqlTypeInt64 \<and> w \<noteq> longNull)"
| "bindable t (VUint64 w) = (t = SqlTypeUInt64 \<and> w \<noteq> ulongNull)"
| "bindable t (VFloat32 w) = (t = SqlTypeFloat \<and> w \<noteq> floatNull \<and> f32_exp w \<noteq> 255)"
| "bindable t (VFloat64 w) = (t = SqlTypeDouble \<and> w \<noteq> doubleNull)"
| "bindable t (VTime w) = (t = SqlTypeDatetime \<and> w \<noteq> datetimeNull)"
| "bindable t v = False"

fun fetched :: "prim \<Rightarrow> prim" where
  "fetched (VUint16 w) = VInt32 (ucast w)"
| "fetched (VUint32 w) = VInt64 (ucast w)"
| "fetched (VUint64 w) = VInt64 w"
| "fetched v = v"

lemma fixed_value_bytes:
  "LENGTH('a) \<le> 8 * n \<Longrightarrow> fixed_value n (be_bytes n (w :: 'a::len word)) null mk = (if w = null then VNil else mk w)"
  by (simp add: fixed_value_def be_word_be_bytes_id)

lemma fixed_value_short: "length f < n \<Longrightarrow> fixed_value n f null mk = VNil"
  by (simp add: fixed_value_def)

lemma unat_le_max: "\<not> unat (w :: u16) > 2 ^ 16 - 1" "\<not> unat (x :: u32) > 2 ^ 32 - 1"
  using unsigned_less [of w, where 'a = nat] unsigned_less [of x, where 'a = nat] by simp_all

lemmas bind_eval = scalar_param_def SqlType_IsArray_def sqlTypeToCmdType_def decodeFixedField_def fixed_value_bytes
  computeColumnLength_def f64_narrow_widen

section \<open>Properties\<close>

text \<open>
  The parameter block: \<^verbatim>\<open>encodeParams\<close> succeeds exactly when the number of parameters fits the
  protocol version and every parameter can be encoded; the block is then the header followed by the
  entries in order, numbered from 1, each padded to an even length, so that every entry starts at an
  even offset.
\<close>

theorem params_format:
  "encodeParams lib spr ps v403 = Ok buf \<longleftrightarrow>
    ps = [] \<and> buf = []
    \<or> ps \<noteq> [] \<and> length ps \<le> (if v403 then 0xffff else 0xff)
      \<and> (\<exists>items. map (encodeBoundParam lib spr) ps = map Ok items
          \<and> buf = block_header v403 (length ps) @ entries_image v403 0 items)"
  using append_params_iff [OF even_block_header, of lib spr v403 0 ps v403 "length ps" buf]
  by (auto simp: encodeParams_def block_header_def not_less)

text \<open>
  The parameter block can be read back: from what follows the header, a reader that takes as many
  entries as there are parameters gets every ordinal, type and value, with no bytes left.
\<close>

theorem params_readable:
  assumes "encodeParams lib spr ps v403 = Ok buf" and "ps \<noteq> []"
    and "\<forall>p \<in> set ps. \<forall>t d. encodeBoundParam lib spr p = Ok (t, d) \<longrightarrow> length d < 2 ^ 32"
  shows "\<exists>items. map (encodeBoundParam lib spr) ps = map Ok items
    \<and> read_entries v403 (length ps) (drop (length (block_header v403 (length ps))) buf)
      = Some (map (\<lambda>(i, t, d). (i + 1, of_int t, d)) (enumerate 0 items))"
proof -
  from assms(1,2) have run: "append_params lib spr v403 0 ps (block_header v403 (length ps)) = Ok buf"
    and n: "length ps \<le> (if v403 then 0xffff else 0xff)"
    by (auto simp: encodeParams_def block_header_def split: if_splits)
  from run obtain items where items: "map (encodeBoundParam lib spr) ps = map Ok items"
    "buf = block_header v403 (length ps) @ entries_image v403 0 items"
    using append_params_iff [OF even_block_header] by blast
  have len: "length items = length ps" using arg_cong [OF items(1), of length] by simp
  have "length (snd it) < 2 ^ 32" if "it \<in> set items" for it
  proof -
    from that have "Ok it \<in> set (map (encodeBoundParam lib spr) ps)" unfolding items(1) by simp
    then obtain p where "p \<in> set ps" "encodeBoundParam lib spr p = Ok it" by (auto dest: sym)
    then show ?thesis using assms(3) by (cases it) auto
  qed
  then have "list_all (\<lambda>it. length (snd it) < 2 ^ 32) items" by (simp add: list_all_iff)
  from read_entries_image [OF this, of 0 v403] n len items show ?thesis by (auto split: if_splits)
qed

theorem params_readable_witness:
  "\<forall>lib spr. \<exists>buf. encodeParams lib spr [\<lparr>bp_sqlType = SqlTypeInt16, bp_value = GPrim (VInt16 5), bp_isNull = False,
        bp_cardinality = 0, bp_elementPrecision = 0, bp_scale = 0\<rparr>] True = Ok buf
    \<and> read_entries True 1 (drop 4 buf) = Some [(1, 4, [0, 5])]"
proof (intro allI)
  fix lib spr
  let ?p = "\<lparr>bp_sqlType = SqlTypeInt16, bp_value = GPrim (VInt16 5), bp_isNull = False,
        bp_cardinality = 0, bp_elementPrecision = 0, bp_scale = 0\<rparr>"
  have e: "encodeBoundParam lib spr ?p = Ok (4, [0, 5])"
    by (simp add: encodeBoundParam_def scalar_param_def SqlType_IsArray_def sqlTypeToCmdType_def be_bytes_def le_bytes_numeral)
  then obtain buf where buf: "encodeParams lib spr [?p] True = Ok buf" by (simp add: encodeParams_def Let_def)
  from params_readable [OF buf] e have "read_entries True 1 (drop 4 buf) = Some [(1, 4, [0, 5])]"
    by (auto simp: block_header_def)
  with buf show "\<exists>buf. encodeParams lib spr [?p] True = Ok buf
      \<and> read_entries True 1 (drop 4 buf) = Some [(1, 4, [0, 5])]" by blast
qed



end
