(* ===== verification/Append_Encode.thy ===== *)
theory Append_Encode
  imports Bind
begin

text \<open>
  \<^verbatim>\<open>machnet/append_encode.go\<close>: the targets of an append, the binding of input names to server columns
  and the image of an appended row.
\<close>

section \<open>Targets\<close>

definition normalizeIdentifier :: "string \<Rightarrow> string" where
  "normalizeIdentifier name =
     (let normalized = TrimSpace name
      in if normalized = [] then [] else ToUpper (filter (\<lambda>c. c \<noteq> CHR 0x22) normalized))"

definition parseAppendTarget :: "string \<Rightarrow> (string \<times> nat) outcome" where
  "parseAppendTarget target =
     (let trimmed = TrimSpace target
      in if trimmed = [] then Err (PlainErr ''append column name is empty'')
         else if \<not> HasSuffix trimmed '']'' then Ok (normalizeIdentifier trimmed, 0)
         else
           case LastIndexByte trimmed CHR ''['' of
             None \<Rightarrow> Err (PlainErr ''invalid append ARRAY target'')
           | Some opn \<Rightarrow>
               if opn = 0 \<or> opn = length trimmed - 2 then Err (PlainErr ''invalid append ARRAY target'')
               else
                 case ParseInt (TrimSpace (subslice trimmed (opn + 1) (length trimmed - 1))) of
                   Ok position \<Rightarrow>
                     if position < 0 \<or> position \<ge> ArrayMaxCardinality
                     then Err (PlainErr ''invalid append ARRAY position'')
                     else
                       let name = normalizeIdentifier (take opn trimmed)
                       in if name = [] then Err (PlainErr ''append column name is empty'')
                          else Ok (name, nat position + 1)
                 | _ \<Rightarrow> Err (PlainErr ''invalid append ARRAY position''))"

definition target_key :: "string \<times> nat \<Rightarrow> string" where
  "target_key t = fst t @ ''['' @ itoa (int (snd t)) @ '']''"

definition appendInputBindingKey :: "string \<Rightarrow> string outcome" where
  "appendInputBindingKey name =
     bind_outcome (parseAppendTarget name) (\<lambda>t. Ok (if snd t = 0 then fst t else target_key t))"

text \<open>The state of the loop of \<^verbatim>\<open>encodeAppendTargets\<close>: the maps \<^verbatim>\<open>seen\<close>, \<^verbatim>\<open>whole\<close> and \<^verbatim>\<open>elements\<close>
  as lists of their keys.\<close>

record targets_state =
  ts_seen :: "string list"
  ts_whole :: "string list"
  ts_elements :: "string list"
  ts_entries :: "(string \<times> nat) list"

definition add_target :: "string \<Rightarrow> targets_state \<Rightarrow> targets_state outcome" where
  "add_target target st =
     bind_outcome (parseAppendTarget target) (\<lambda>(name, position).
       let key = target_key (name, position);
           conflict = Err (PlainErr ''whole ARRAY and element targets conflict'')
       in if key \<in> set (ts_seen st) then Err (PlainErr ''duplicate append target'')
          else
            let st = st\<lparr>ts_seen := key # ts_seen st\<rparr>
            in bind_outcome
                 (if position = 0
                  then if name \<in> set (ts_elements st) then conflict
                       else Ok (st\<lparr>ts_whole := name # ts_whole st\<rparr>)
                  else if name \<in> set (ts_whole st) then conflict
                       else Ok (st\<lparr>ts_elements := name # ts_elements st\<rparr>))
                 (\<lambda>st. if length name > 0xffff then Err (PlainErr ''append column name is too long'')
                       else Ok (st\<lparr>ts_entries := ts_entries st @ [(name, position)]\<rparr>)))"

fun add_targets :: "string list \<Rightarrow> targets_state \<Rightarrow> targets_state outcome" where
  "add_targets [] st = Ok st"
| "add_targets (t # ts) st = bind_outcome (add_target t st) (add_targets ts)"

definition target_image :: "string \<times> nat \<Rightarrow> bytes" where
  "target_image t =
     be_bytes 2 (of_nat (length (fst t)) :: u16) @ bytes_of_string (fst t) @ be_bytes 2 (of_nat (snd t) :: u16)"

definition encodeAppendTargets :: "string list \<Rightarrow> bytes outcome" where
  "encodeAppendTargets targets =
     (if targets = [] \<or> length targets > 0xffff then Err (PlainErr ''invalid append target count'')
      else bind_outcome (add_targets targets \<lparr>ts_seen = [], ts_whole = [], ts_elements = [], ts_entries = []\<rparr>) (\<lambda>st.
             Ok (be_bytes 2 (1 :: u16) @ be_bytes 2 (of_nat (length (ts_entries st)) :: u16)
                 @ concat (map target_image (ts_entries st)))))"

section \<open>Bindings\<close>

abbreviation (input) appendBindingNull :: int where "appendBindingNull \<equiv> -1"
abbreviation (input) appendBindingArrival :: int where "appendBindingArrival \<equiv> -2"

record AppendBindings =
  byColumn :: "int list"
  arrivalArg :: int

definition isAppendArrivalColumn :: "ColumnMeta \<Rightarrow> nat \<Rightarrow> bool" where
  "isAppendArrivalColumn col idx \<longleftrightarrow>
     (let name = normalizeIdentifier (cm_name col) in idx = 0 \<and> name = [] \<or> name = ''_ARRIVAL_TIME'')"

definition arrival_key :: "string \<Rightarrow> bool" where
  "arrival_key key \<longleftrightarrow> key = ''_ARRIVAL_TIME'' \<or> key = ''ARRIVAL_TIME''"

text \<open>The first loop: the map from keys to input indices, and the index of the arrival time.\<close>

fun input_keys :: "string list \<Rightarrow> nat \<Rightarrow> (string \<rightharpoonup> nat) \<Rightarrow> int \<Rightarrow> ((string \<rightharpoonup> nat) \<times> int) outcome" where
  "input_keys [] idx m arr = Ok (m, arr)"
| "input_keys (name # names) idx m arr =
     bind_outcome (appendInputBindingKey name) (\<lambda>key.
       if key = [] then input_keys names (idx + 1) m arr
       else if m key \<noteq> None then Err (PlainErr ''duplicate append column'')
       else input_keys names (idx + 1) (m(key \<mapsto> idx)) (if arrival_key key then int idx else arr))"

definition bind_column :: "(string \<rightharpoonup> nat) \<Rightarrow> nat \<Rightarrow> ColumnMeta \<Rightarrow> int" where
  "bind_column m idx col =
     (if isAppendArrivalColumn col idx then appendBindingArrival
      else
        let key = normalizeIdentifier (cm_name col)
        in if key = [] then appendBindingNull
           else case m key of Some argIdx \<Rightarrow> int argIdx | None \<Rightarrow> appendBindingNull)"

text \<open>\<^verbatim>\<open>matched[idx]\<close> holds when some column is bound to input \<open>idx\<close>.\<close>

fun check_matched :: "int list \<Rightarrow> nat \<Rightarrow> string list \<Rightarrow> unit outcome" where
  "check_matched bound idx [] = Ok ()"
| "check_matched bound idx (name # names) =
     bind_outcome (appendInputBindingKey name) (\<lambda>key.
       if key = [] \<or> arrival_key key \<or> int idx \<in> set bound then check_matched bound (idx + 1) names
       else Err (PlainErr ''append column is not accepted by server metadata''))"

definition buildAppendBindings :: "ColumnMeta list \<Rightarrow> string list \<Rightarrow> AppendBindings outcome" where
  "buildAppendBindings columns names =
     bind_outcome (input_keys names 0 Map.empty (-1)) (\<lambda>(m, arr).
       let bound = map (\<lambda>(idx, col). bind_column m idx col) (enumerate 0 columns)
       in bind_outcome (check_matched bound 0 names) (\<lambda>_. Ok \<lparr>byColumn = bound, arrivalArg = arr\<rparr>))"

section \<open>Column values\<close>

definition uint16ByEndian :: "u16 \<Rightarrow> u32 \<Rightarrow> bytes" where
  "uint16ByEndian v serverEndian = (if serverEndian = 0 then le_bytes 2 v else be_bytes 2 v)"

definition uint32ByEndian :: "u32 \<Rightarrow> u32 \<Rightarrow> bytes" where
  "uint32ByEndian v serverEndian = (if serverEndian = 0 then le_bytes 4 v else be_bytes 4 v)"

definition uint64ByEndian :: "u64 \<Rightarrow> u32 \<Rightarrow> bytes" where
  "uint64ByEndian v serverEndian = (if serverEndian = 0 then le_bytes 8 v else be_bytes 8 v)"

definition encodeAppendVarField :: "bytes \<Rightarrow> u32 \<Rightarrow> bytes" where
  "encodeAppendVarField data serverEndian = uint32ByEndian (of_nat (length data)) serverEndian @ data"

fun isNilAppendValue :: "goval \<Rightarrow> bool" where
  "isNilAppendValue (GPrim v) = is_nil_element v"
| "isNilAppendValue (GArrayPtr None) = True"
| "isNilAppendValue v = False"

definition isProjectedAppendArrayElement :: "string \<Rightarrow> bool" where
  "isProjectedAppendArrayElement name \<longleftrightarrow> (case parseAppendTarget name of Ok (n, position) \<Rightarrow> position > 0 | _ \<Rightarrow> False)"

fun toAppendBool :: "prim \<Rightarrow> bool outcome" where
  "toAppendBool (VBool b) = Ok b"
| "toAppendBool (VInt x) = Ok (x \<noteq> 0)"
| "toAppendBool (VInt8 x) = Ok (x \<noteq> 0)"
| "toAppendBool (VInt16 x) = Ok (x \<noteq> 0)"
| "toAppendBool (VInt32 x) = Ok (x \<noteq> 0)"
| "toAppendBool (VInt64 x) = Ok (x \<noteq> 0)"
| "toAppendBool (VUint x) = Ok (x \<noteq> 0)"
| "toAppendBool (VUint8 x) = Ok (x \<noteq> 0)"
| "toAppendBool (VUint16 x) = Ok (x \<noteq> 0)"
| "toAppendBool (VUint32 x) = Ok (x \<noteq> 0)"
| "toAppendBool (VUint64 x) = Ok (x \<noteq> 0)"
| "toAppendBool (VFloat32 x) = Ok (f64_nonzero (f32_widen x))"
| "toAppendBool (VFloat64 x) = Ok (f64_nonzero x)"
| "toAppendBool (VString s) =
     switch (ToLower (TrimSpace s))
       [([''1'', ''true'', ''t'', ''y'', ''yes''], Ok True),
        ([''0'', ''false'', ''f'', ''n'', ''no''], Ok False)]
       (Err (PlainErr ''invalid boolean string''))"
| "toAppendBool v = Err (PlainErr ''unsupported boolean type'')"

definition append_array :: "golib \<Rightarrow> ColumnMeta \<Rightarrow> goval \<Rightarrow> Array option outcome" where
  "append_array lib col value =
     (case value of
        GArrayPtr a \<Rightarrow> Ok a
      | GArrayVal a \<Rightarrow> Ok (Some (Array_Clone a))
      | GSlice vs \<Rightarrow>
          bind_outcome (NewArray lib (spinerTypeToSqlType (arrayBaseSpinerType (cm_spinerType col))) vs) (\<lambda>a. Ok (Some a))
      | _ \<Rightarrow> Err (PlainErr ''ARRAY column expects api.Array or []any''))"

definition out_of_range :: "string \<Rightarrow> 'a outcome" where
  "out_of_range t = Err (PlainErr (''out of '' @ t @ '' range''))"

definition encodeAppendColumnValue :: "golib \<Rightarrow> (goval \<Rightarrow> string) \<Rightarrow> ColumnMeta \<Rightarrow> goval \<Rightarrow> u32 \<Rightarrow> bytes outcome" where
  "encodeAppendColumnValue lib spr col value serverEndian =
     (let isArrayElement = isProjectedAppendArrayElement (cm_name col);
          v = as_prim value;
          var = (\<lambda>data. Ok (encodeAppendVarField data serverEndian))
      in if cm_spinerType col \<in> set array_types
         then bind_outcome (append_array lib col value) (\<lambda>a.
              bind_outcome (encodeArrayPayload lib a col True) (\<lambda>r.
                var (case r of None \<Rightarrow> [] | Some bs \<Rightarrow> bs)))
         else switch (cm_spinerType col)
         [([cmdBoolType], bind_outcome (toAppendBool v) (\<lambda>b. Ok (uint16ByEndian (if b then 1 else 0) serverEndian))),
          ([cmdInt16Type], bind_outcome (toInt64 v) (\<lambda>i.
             if i < - (2 ^ 15) \<or> i > 2 ^ 15 - 1 \<or> (isArrayElement \<and> i = - (2 ^ 15)) then out_of_range ''int16''
             else Ok (uint16ByEndian (of_int i) serverEndian))),
          ([cmdUInt16Type], bind_outcome (toUint64 v) (\<lambda>n.
             if n > 2 ^ 16 - 1 \<or> (isArrayElement \<and> n = 2 ^ 16 - 1) then out_of_range ''uint16''
             else Ok (uint16ByEndian (of_nat n) serverEndian))),
          ([cmdInt32Type], bind_outcome (toInt64 v) (\<lambda>i.
             if i < - (2 ^ 31) \<or> i > 2 ^ 31 - 1 \<or> (isArrayElement \<and> i = - (2 ^ 31)) then out_of_range ''int32''
             else Ok (uint32ByEndian (of_int i) serverEndian))),
          ([cmdUInt32Type], bind_outcome (toUint64 v) (\<lambda>n.
             if n > 2 ^ 32 - 1 \<or> (isArrayElement \<and> n = 2 ^ 32 - 1) then out_of_range ''uint32''
             else Ok (uint32ByEndian (of_nat n) serverEndian))),
          ([cmdInt64Type], bind_outcome (toInt64 v) (\<lambda>i.
             if isArrayElement \<and> i = - (2 ^ 63) then Err (PlainErr ''INT64 value uses NULL sentinel'')
             else Ok (uint64ByEndian (of_int i) serverEndian))),
          ([cmdUInt64Type], bind_outcome (toUint64 v) (\<lambda>n.
             if n = 2 ^ 64 - 1 then Err (PlainErr ''UINT64 value uses NULL sentinel'')
             else Ok (uint64ByEndian (of_nat n) serverEndian))),
          ([cmdFlt32Type], bind_outcome (toFloat64 lib v) (\<lambda>f.
             let bits = f64_narrow f
             in if isArrayElement \<and> bits = floatNull then Err (PlainErr ''FLOAT value uses NULL sentinel'')
                else Ok (uint32ByEndian bits serverEndian))),
          ([cmdFlt64Type], bind_outcome (toFloat64 lib v) (\<lambda>bits.
             if isArrayElement \<and> bits = doubleNull then Err (PlainErr ''DOUBLE value uses NULL sentinel'')
             else Ok (uint64ByEndian bits serverEndian))),
          ([cmdDateType], bind_outcome (toDateTimeInt64 lib v) (\<lambda>t. Ok (uint64ByEndian t serverEndian))),
          ([cmdDecimalType], encodeDecimal_any lib spr value (cm_precision col) (cm_scale col)),
          ([cmdIpv4Type], bind_outcome (toIP lib v) (\<lambda>ip.
             case To4 ip of None \<Rightarrow> Err (PlainErr ''invalid ipv4 value'') | Some a \<Rightarrow> Ok (4 # a))),
          ([cmdIpv6Type], bind_outcome (toIP lib v) (\<lambda>ip.
             case To16 ip of None \<Rightarrow> Err (PlainErr ''invalid ipv6 value'') | Some a \<Rightarrow> Ok (6 # a))),
          ([cmdTextType, cmdVarcharType, cmdJSONType, cmdCharType, cmdClobType, cmdIPNetType],
             (case v of
                VBytes x \<Rightarrow> var x
              | VString x \<Rightarrow> var (bytes_of_string x)
              | _ \<Rightarrow> var (bytes_of_string (sprint_any lib spr value)))),
          ([cmdBinaryType, cmdBlobType],
             (case v of
                VBytes x \<Rightarrow> var x
              | VString x \<Rightarrow> var (bytes_of_string x)
              | _ \<Rightarrow> Err (PlainErr ''unsupported binary type''))),
          ([cmdNulType], Ok [])]
         (if cm_isVariable col then var (bytes_of_string (sprint_any lib spr value))
          else Err (PlainErr ''unsupported append spiner type'')))"

section \<open>Rows\<close>

text \<open>\<open>setAppendNullBit bits ordinal\<close> on \<^verbatim>\<open>row[nullOffset:]\<close>; ordinals are never negative.\<close>

definition setAppendNullBit :: "bytes \<Rightarrow> nat \<Rightarrow> bytes" where
  "setAppendNullBit bits ordinal =
     (let bytePos = ordinal div 8
      in if bytePos \<ge> length bits then bits
         else bits[bytePos := bits ! bytePos OR push_bit (7 - ordinal mod 8) 1])"

text \<open>One column of the row: the row up to the bitmap, the rest of the row after it.\<close>

definition append_column :: "golib \<Rightarrow> (goval \<Rightarrow> string) \<Rightarrow> AppendBindings \<Rightarrow> goval list \<Rightarrow> u32 \<Rightarrow> goint \<Rightarrow> nat \<Rightarrow> ColumnMeta
    \<Rightarrow> bytes option outcome" where
  "append_column lib spr bindings args serverEndian arrival idx col =
     (let argIdx = (if idx < length (byColumn bindings) then byColumn bindings ! idx else appendBindingNull)
      in if argIdx = appendBindingArrival then Ok (Some (uint64ByEndian arrival serverEndian))
         else if argIdx = appendBindingNull then Ok None
         else if argIdx < 0 \<or> argIdx \<ge> int (length args) then Ok None
         else
           let value = args ! nat argIdx
           in if isNilAppendValue value then Ok None
              else case encodeAppendColumnValue lib spr col value serverEndian of
                     Ok field \<Rightarrow> Ok (Some field)
                   | Err e \<Rightarrow> Err (PlainErr (''append column '' @ cm_name col @ '': '' @ error_text e))
                   | Panic m \<Rightarrow> Panic m)"

fun append_columns :: "golib \<Rightarrow> (goval \<Rightarrow> string) \<Rightarrow> AppendBindings \<Rightarrow> goval list \<Rightarrow> u32 \<Rightarrow> goint \<Rightarrow> nat \<Rightarrow> ColumnMeta list
    \<Rightarrow> nat \<Rightarrow> bytes \<Rightarrow> bytes outcome" where
  "append_columns lib spr bindings args endi arrival idx [] nullOffset row = Ok row"
| "append_columns lib spr bindings args endi arrival idx (col # cols) nullOffset row =
     bind_outcome (append_column lib spr bindings args endi arrival idx col) (\<lambda>r.
       append_columns lib spr bindings args endi arrival (idx + 1) cols nullOffset
         (case r of
            Some field \<Rightarrow> row @ field
          | None \<Rightarrow> take nullOffset row @ setAppendNullBit (drop nullOffset row) idx))"

definition encodeAppendRow :: "golib \<Rightarrow> (goval \<Rightarrow> string) \<Rightarrow> ColumnMeta list \<Rightarrow> AppendBindings \<Rightarrow> goval list \<Rightarrow> u32
    \<Rightarrow> bytes outcome" where
  "encodeAppendRow lib spr columns bindings args serverEndian =
     (let nullBytes = (if columns = [] then 0 else length columns div 8 + 1);
          row = 0 # uint32ByEndian (of_nat nullBytes) serverEndian;
          nullOffset = length row;
          row = row @ replicate nullBytes 0;
          arr = arrivalArg bindings
      in bind_outcome
           (if arr \<ge> 0 \<and> arr < int (length args) \<and> args ! nat arr \<noteq> GNil
            then (case toDateTimeInt64 lib (as_prim (args ! nat arr)) of
                    Ok t \<Rightarrow> Ok t
                  | Err e \<Rightarrow> Err (PlainErr (''invalid arrival time: '' @ error_text e))
                  | Panic m \<Rightarrow> Panic m)
            else Ok 0)
           (\<lambda>arrival. append_columns lib spr bindings args serverEndian arrival 0 columns nullOffset row))"

section \<open>The image of a row\<close>

text \<open>The NULL bit of a column: most significant bit first.\<close>

definition append_null :: "bytes \<Rightarrow> nat \<Rightarrow> bool" where
  "append_null bits i \<longleftrightarrow> bit (bits ! (i div 8)) (7 - i mod 8)"

lemma length_setAppendNullBit [simp]: "length (setAppendNullBit bits i) = length bits"
  by (simp add: setAppendNullBit_def Let_def)

lemma setAppendNullBit_append:
  "i div 8 < length bits \<Longrightarrow> setAppendNullBit (bits @ rest) i = setAppendNullBit bits i @ rest"
  by (simp add: setAppendNullBit_def Let_def nth_append list_update_append)

lemma msb_index: "a < 8 \<Longrightarrow> b < 8 \<Longrightarrow> 7 - a = 7 - b \<longleftrightarrow> a = (b :: nat)"
  by arith

lemma append_null_set:
  assumes "j div 8 < length bits"
  shows "append_null (setAppendNullBit bits j) i \<longleftrightarrow> i = j \<or> append_null bits i"
proof (cases "i div 8 = j div 8")
  case True
  have "7 - i mod 8 = 7 - j mod 8 \<longleftrightarrow> i mod 8 = j mod 8" by (rule msb_index) simp_all
  with True byte_index_eq [of i j] have "7 - i mod 8 = 7 - j mod 8 \<longleftrightarrow> i = j" by blast
  with True assms show ?thesis by (auto simp: append_null_def setAppendNullBit_def Let_def bit_simps)
next
  case False
  then have "i \<noteq> j" by blast
  with False assms show ?thesis by (simp add: append_null_def setAppendNullBit_def Let_def)
qed

definition field_bytes :: "bytes option \<Rightarrow> bytes" where
  "field_bytes f = (case f of None \<Rightarrow> [] | Some b \<Rightarrow> b)"

lemma append_columns_image:
  assumes "append_columns lib spr bnd args endi arr idx cols (length h) (h @ bm @ bdy) = Ok row"
    and "idx + length cols \<le> 8 * length bm"
  shows "\<exists>fields bm'. map (\<lambda>(i, c). append_column lib spr bnd args endi arr i c) (enumerate idx cols) = map Ok fields
    \<and> row = h @ bm' @ bdy @ concat (map field_bytes fields) \<and> length bm' = length bm
    \<and> (\<forall>i. append_null bm' i \<longleftrightarrow> append_null bm i \<or> (idx \<le> i \<and> i < idx + length fields \<and> fields ! (i - idx) = None))"
  using assms
proof (induction cols arbitrary: idx bm bdy)
  case Nil
  then show ?case by (intro exI [of _ "[] :: bytes option list"] exI [of _ bm]) auto
next
  case (Cons col cols)
  from Cons.prems(1) obtain f where f: "append_column lib spr bnd args endi arr idx col = Ok f"
    by (auto simp: outcome_simps)
  define bm1 where "bm1 = (case f of None \<Rightarrow> setAppendNullBit bm idx | Some b \<Rightarrow> bm)"
  have i: "idx div 8 < length bm" using Cons.prems(2) by (simp add: less_mult_imp_div_less mult.commute)
  have run: "append_columns lib spr bnd args endi arr (Suc idx) cols (length h) (h @ bm1 @ bdy @ field_bytes f) = Ok row"
    using Cons.prems(1) f i by (cases f) (simp_all add: bm1_def field_bytes_def setAppendNullBit_append)
  have len: "length bm1 = length bm" by (simp add: bm1_def split: option.split)
  have bits: "append_null bm1 j \<longleftrightarrow> append_null bm j \<or> j = idx \<and> f = None" for j
    using append_null_set [OF i, of j] by (auto simp: bm1_def split: option.split)
  from Cons.IH [OF run] Cons.prems(2) len obtain fields bm' where
    IH: "map (\<lambda>(i, c). append_column lib spr bnd args endi arr i c) (enumerate (Suc idx) cols) = map Ok fields"
      "row = h @ bm' @ (bdy @ field_bytes f) @ concat (map field_bytes fields)" "length bm' = length bm"
      "\<forall>j. append_null bm' j \<longleftrightarrow> append_null bm1 j \<or> (Suc idx \<le> j \<and> j < Suc idx + length fields \<and> fields ! (j - Suc idx) = None)"
    by auto
  have "append_null bm' j \<longleftrightarrow> append_null bm j \<or> (idx \<le> j \<and> j < idx + length (f # fields) \<and> (f # fields) ! (j - idx) = None)" for j
    using IH(4) bits [of j] by (cases "j = idx") (auto simp: nth_Cons')
  then show ?case using IH(1-3) f by (intro exI [of _ "f # fields"] exI [of _ bm']) simp
qed

section \<open>Accepted targets\<close>

text \<open>The loop state after the targets \<open>es\<close> were accepted, and the condition they satisfy.\<close>

definition whole_names :: "(string \<times> nat) list \<Rightarrow> string list" where
  "whole_names es = map fst (filter (\<lambda>e. snd e = 0) es)"

definition element_names :: "(string \<times> nat) list \<Rightarrow> string list" where
  "element_names es = map fst (filter (\<lambda>e. snd e \<noteq> 0) es)"

definition targets_ok :: "(string \<times> nat) list \<Rightarrow> bool" where
  "targets_ok es \<longleftrightarrow> distinct (map target_key es) \<and> list_all (\<lambda>e. length (fst e) \<le> 0xffff) es
     \<and> set (whole_names es) \<inter> set (element_names es) = {}"

definition state_of :: "(string \<times> nat) list \<Rightarrow> targets_state" where
  "state_of es = \<lparr>ts_seen = rev (map target_key es), ts_whole = rev (whole_names es),
     ts_elements = rev (element_names es), ts_entries = es\<rparr>"

definition refused :: "(string \<times> nat) list \<Rightarrow> string \<times> nat \<Rightarrow> bool" where
  "refused es e \<longleftrightarrow> target_key e \<in> set (map target_key es) \<or> length (fst e) > 0xffff
     \<or> (if snd e = 0 then fst e \<in> set (element_names es) else fst e \<in> set (whole_names es))"

lemma targets_ok_snoc: "targets_ok es \<Longrightarrow> targets_ok (es @ [e]) \<longleftrightarrow> \<not> refused es e"
  by (auto simp: targets_ok_def refused_def whole_names_def element_names_def)

lemma state_of_snoc: "state_of (es @ [(name, k)])
    = \<lparr>ts_seen = target_key (name, k) # ts_seen (state_of es),
       ts_whole = (if k = 0 then name # ts_whole (state_of es) else ts_whole (state_of es)),
       ts_elements = (if k = 0 then ts_elements (state_of es) else name # ts_elements (state_of es)),
       ts_entries = es @ [(name, k)]\<rparr>"
  by (simp add: state_of_def whole_names_def element_names_def)

lemma add_target_iff:
  assumes "targets_ok es"
  shows "add_target t (state_of es) = Ok st \<longleftrightarrow>
    (\<exists>e. parseAppendTarget t = Ok e \<and> targets_ok (es @ [e]) \<and> st = state_of (es @ [e]))"
proof (cases "parseAppendTarget t")
  case (Ok e)
  obtain name k where e: "e = (name, k)" by fastforce
  have "add_target t (state_of es) = Ok st \<longleftrightarrow> \<not> refused es e \<and> st = state_of (es @ [e])"
    by (cases "target_key e \<in> set (map target_key es)"; cases "k = 0")
      (auto simp: add_target_def Ok e state_of_def [of es] state_of_snoc refused_def Let_def split: if_splits)
  with Ok targets_ok_snoc [OF assms] show ?thesis by auto
qed (simp_all add: add_target_def)

lemma targets_ok_prefix: "targets_ok (es @ fs) \<Longrightarrow> targets_ok es"
  by (auto simp: targets_ok_def whole_names_def element_names_def)

lemma add_targets_iff:
  "targets_ok es \<Longrightarrow> add_targets ts (state_of es) = Ok st \<longleftrightarrow>
    (\<exists>fs. map parseAppendTarget ts = map Ok fs \<and> targets_ok (es @ fs) \<and> st = state_of (es @ fs))"
proof (induction ts arbitrary: es)
  case (Cons t ts)
  show ?case
  proof
    assume "add_targets (t # ts) (state_of es) = Ok st"
    then obtain e where e: "parseAppendTarget t = Ok e" "targets_ok (es @ [e])" "add_targets ts (state_of (es @ [e])) = Ok st"
      using add_target_iff [OF Cons.prems] by (auto simp: outcome_simps)
    with Cons.IH [OF e(2)] show "\<exists>fs. map parseAppendTarget (t # ts) = map Ok fs \<and> targets_ok (es @ fs) \<and> st = state_of (es @ fs)"
      by (auto intro: exI [of _ "e # _"])
  next
    assume "\<exists>fs. map parseAppendTarget (t # ts) = map Ok fs \<and> targets_ok (es @ fs) \<and> st = state_of (es @ fs)"
    then obtain e fs where e: "parseAppendTarget t = Ok e" "map parseAppendTarget ts = map Ok fs"
      "targets_ok ((es @ [e]) @ fs)" "st = state_of ((es @ [e]) @ fs)"
      by (auto simp: map_eq_Cons_conv Cons_eq_map_conv)
    then have "add_targets ts (state_of (es @ [e])) = Ok st"
      using Cons.IH [of "es @ [e]"] targets_ok_prefix by blast
    moreover have "add_target t (state_of es) = Ok (state_of (es @ [e]))"
      using add_target_iff [OF Cons.prems] e(1) targets_ok_prefix [OF e(3)] by blast
    ultimately show "add_targets (t # ts) (state_of es) = Ok st" by simp
  qed
qed auto

section \<open>Bound columns\<close>

lemma input_keys_entry:
  "input_keys names idx m arr = Ok (m', arr') \<Longrightarrow> m' key = Some j \<Longrightarrow>
    m key = Some j \<or> (\<exists>i < length names. j = idx + i \<and> key \<noteq> [] \<and> appendInputBindingKey (names ! i) = Ok key)"
proof (induction names arbitrary: idx m arr)
  case (Cons name names)
  from Cons.prems(1) obtain k where k: "appendInputBindingKey name = Ok k" unfolding input_keys.simps bind_outcome_Ok_iff
    by blast
  define m1 where "m1 = (if k = [] then m else m(k \<mapsto> idx))"
  have run: "input_keys names (idx + 1) m1 (if k \<noteq> [] \<and> arrival_key k then int idx else arr) = Ok (m', arr')"
    using Cons.prems(1) k by (cases "k = []"; cases "m k") (simp_all add: m1_def)
  from Cons.IH [OF run Cons.prems(2)] show ?case
  proof (elim disjE exE conjE)
    assume "m1 key = Some j"
    then have "m key = Some j \<or> key = k \<and> k \<noteq> [] \<and> j = idx"
      unfolding m1_def by (cases "k = []"; cases "key = k") simp_all
    then show ?thesis
    proof
      assume "key = k \<and> k \<noteq> [] \<and> j = idx"
      then have "0 < length (name # names) \<and> j = idx + 0 \<and> key \<noteq> [] \<and> appendInputBindingKey ((name # names) ! 0) = Ok key"
        using k by simp
      then show ?thesis by blast
    qed simp
  next
    fix i assume "i < length names" "j = idx + 1 + i" "key \<noteq> []" "appendInputBindingKey (names ! i) = Ok key"
    then have "Suc i < length (name # names) \<and> j = idx + Suc i \<and> key \<noteq> []
        \<and> appendInputBindingKey ((name # names) ! Suc i) = Ok key" by simp
    then show ?thesis by blast
  qed
qed auto

lemma check_matched_bound:
  "check_matched bnd idx names = Ok () \<Longrightarrow> i < length names \<Longrightarrow>
    \<exists>key. appendInputBindingKey (names ! i) = Ok key \<and> (key = [] \<or> arrival_key key \<or> int (idx + i) \<in> set bnd)"
proof (induction names arbitrary: idx i)
  case (Cons name names)
  from Cons.prems(1) obtain k where k: "appendInputBindingKey name = Ok k" unfolding check_matched.simps bind_outcome_Ok_iff
    by blast
  with Cons.prems(1) have ok: "k = [] \<or> arrival_key k \<or> int idx \<in> set bnd" and rest: "check_matched bnd (idx + 1) names = Ok ()"
    by (simp_all split: if_split_asm)
  show ?case
  proof (cases i)
    case 0
    with k ok show ?thesis by simp
  next
    case (Suc l)
    with Cons.IH [OF rest, of l] Cons.prems(2) show ?thesis by simp
  qed
qed simp

section \<open>Properties\<close>



text \<open>
  The target list of an append: \<^verbatim>\<open>encodeAppendTargets\<close> accepts exactly the lists of 1 to 65535
  targets that all parse, name no target twice, have names of at most 65535 bytes and never target a
  column both as a whole and by element; the image lists the targets in their order.
\<close>

theorem append_targets_format:
  "encodeAppendTargets ts = Ok img \<longleftrightarrow>
    ts \<noteq> [] \<and> length ts \<le> 0xffff
    \<and> (\<exists>es. map parseAppendTarget ts = map Ok es \<and> targets_ok es
        \<and> img = be_bytes 2 (1 :: u16) @ be_bytes 2 (of_nat (length ts) :: u16) @ concat (map target_image es))"
proof -
  have "targets_ok []" by (simp add: targets_ok_def whole_names_def element_names_def)
  moreover have "\<lparr>ts_seen = [], ts_whole = [], ts_elements = [], ts_entries = []\<rparr> = state_of []"
    by (simp add: state_of_def whole_names_def element_names_def)
  moreover have "ts_entries (state_of es) = es" for es by (simp add: state_of_def)
  moreover have "length es = length ts" if "map parseAppendTarget ts = map Ok es" for es
    using arg_cong [OF that, of length] by simp
  ultimately show ?thesis
    using add_targets_iff [of "[]" ts] by (auto simp: encodeAppendTargets_def outcome_simps not_less)
qed

text \<open>
  Bindings of an append: when \<^verbatim>\<open>buildAppendBindings\<close> succeeds there is one binding per column; a
  column that is bound to an input is bound to one whose key is the name of the column; and every
  input name, other than the arrival time, is bound to some column, so no value is dropped silently.
\<close>

theorem append_bindings_sound:
  assumes "buildAppendBindings columns names = Ok b"
  shows "length (byColumn b) = length columns
    \<and> (\<forall>i < length columns. byColumn b ! i \<ge> 0 \<longrightarrow>
        nat (byColumn b ! i) < length names
        \<and> appendInputBindingKey (names ! nat (byColumn b ! i)) = Ok (normalizeIdentifier (cm_name (columns ! i))))
    \<and> (\<forall>j < length names. \<exists>key. appendInputBindingKey (names ! j) = Ok key
        \<and> (key = [] \<or> arrival_key key \<or> int j \<in> set (byColumn b)))"
proof -
  from assms obtain m arr where m: "input_keys names 0 Map.empty (-1) = Ok (m, arr)"
    and chk: "check_matched (map (\<lambda>(idx, col). bind_column m idx col) (enumerate 0 columns)) 0 names = Ok ()"
    and b: "byColumn b = map (\<lambda>(idx, col). bind_column m idx col) (enumerate 0 columns)"
    by (auto simp: buildAppendBindings_def outcome_simps Let_def)
  have col: "byColumn b ! i = bind_column m i (columns ! i)" if "i < length columns" for i
    using that by (simp add: b nth_enumerate_eq)
  have "nat (byColumn b ! i) < length names
      \<and> appendInputBindingKey (names ! nat (byColumn b ! i)) = Ok (normalizeIdentifier (cm_name (columns ! i)))"
    if "i < length columns" "byColumn b ! i \<ge> 0" for i
  proof -
    from that col obtain j where j: "m (normalizeIdentifier (cm_name (columns ! i))) = Some j" "byColumn b ! i = int j"
      by (fastforce simp: bind_column_def Let_def split: if_splits option.splits)
    from input_keys_entry [OF m j(1)] j(2) show ?thesis by auto
  qed
  moreover have "length (byColumn b) = length columns" by (simp add: b)
  ultimately show ?thesis using check_matched_bound [OF chk] unfolding b by simp
qed

theorem append_bindings_sound_witness:
  "\<exists>b. buildAppendBindings [\<lparr>cm_name = ''A'', cm_cmType = 0, cm_precision = 0, cm_elementPrecision = 0, cm_scale = 0,
        cm_spinerType = cmdInt16Type, cm_length = 2, cm_isVariable = False, cm_sqlType = SqlTypeInt16,
        cm_nullable = True, cm_nullability = NullabilityNullable, cm_primaryKey = False\<rparr>] [''a''] = Ok b
    \<and> length (byColumn b) = 1"
proof -
  let ?c = "\<lparr>cm_name = ''A'', cm_cmType = 0, cm_precision = 0, cm_elementPrecision = 0, cm_scale = 0,
        cm_spinerType = cmdInt16Type, cm_length = 2, cm_isVariable = False, cm_sqlType = SqlTypeInt16,
        cm_nullable = True, cm_nullability = NullabilityNullable, cm_primaryKey = False\<rparr>"
  have "TrimSpace ''a'' = ''a''" "TrimSpace ''A'' = ''A''"
    by (rule TrimSpace_graphic; simp add: graphic_def code_def)+
  moreover have "ToUpper ''a'' = ''A''" "ToUpper ''A'' = ''A''" by code_simp+
  ultimately have "appendInputBindingKey ''a'' = Ok ''A''" "normalizeIdentifier ''A'' = ''A''"
    by (simp_all add: appendInputBindingKey_def parseAppendTarget_def normalizeIdentifier_def HasSuffix_def)
  then have "buildAppendBindings [?c] [''a''] = Ok \<lparr>byColumn = [0], arrivalArg = -1\<rparr>"
    by (simp add: buildAppendBindings_def bind_column_def isAppendArrivalColumn_def arrival_key_def)
  from append_bindings_sound [OF this] this show ?thesis by auto
qed

end
