(* ===== verification/Responses.thy ===== *)
theory Responses
  imports Append_Encode
begin

text \<open>
  The pure part of \<^verbatim>\<open>machnet/client.go\<close>: what the client reads out of the body of a response. The
  statement response (execute, prepare, open an append), a chunk of fetched rows, and the two
  responses of an append; and the scanner that counts the placeholders of a statement.
\<close>

section \<open>Little-endian numbers of any width\<close>

definition readUIntLE :: "bytes \<Rightarrow> u64 option" where
  "readUIntLE data =
     (if length data \<ge> 8 then Some (le_word (take 8 data))
      else if length data \<ge> 4 then Some (ucast (le_word (take 4 data) :: u32))
      else if length data \<ge> 2 then Some (ucast (le_word (take 2 data) :: u16))
      else if length data \<ge> 1 then Some (ucast (hd data))
      else None)"

section \<open>Placeholders\<close>

text \<open>The scanning loop: in a single-quoted text, in a double-quoted text, the text left, the count.\<close>

fun scan_placeholders :: "bool \<Rightarrow> bool \<Rightarrow> string \<Rightarrow> nat \<Rightarrow> nat" where
  "scan_placeholders inSingle inDouble [] cnt = cnt"
| "scan_placeholders inSingle inDouble (ch # rest) cnt =
     (if inSingle then
        if ch = CHR 0x27 then
          if rest \<noteq> [] \<and> hd rest = CHR 0x27 then scan_placeholders inSingle inDouble (tl rest) cnt
          else scan_placeholders False inDouble rest cnt
        else scan_placeholders inSingle inDouble rest cnt
      else if inDouble then
        if ch = CHR 0x22 then scan_placeholders inSingle False rest cnt
        else scan_placeholders inSingle inDouble rest cnt
      else if ch = CHR 0x27 then scan_placeholders True inDouble rest cnt
      else if ch = CHR 0x22 then scan_placeholders inSingle True rest cnt
      else if ch = CHR ''?'' then scan_placeholders inSingle inDouble rest (cnt + 1)
      else scan_placeholders inSingle inDouble rest cnt)"

definition countSQLPlaceholders :: "string \<Rightarrow> nat" where
  "countSQLPlaceholders sql = (if sql = [] then 0 else scan_placeholders False False sql 0)"

section \<open>Statement responses\<close>

record StmtExecResult =
  er_stmtType :: StmtType
  er_message :: string
  er_rowCount :: u64
  er_rowID :: u64
  er_hasRowID :: bool
  er_columns :: "ColumnMeta list"
  er_paramDesc :: "ParamDesc list"
  er_rows :: "goval list list"
  er_lastResult :: bool

text \<open>
  \<open>collectUnits\<close> as a call: the fuel of its model is enough for every body below \<open>2 ^ 62\<close> bytes.
\<close>

definition units_of :: "bytes \<Rightarrow> unit_map outcome" where
  "units_of bdy = (case collectUnits bdy of Some r \<Rightarrow> r | None \<Rightarrow> Panic ''out of memory'')"

text \<open>The text of the first unit with an id, empty without one.\<close>

definition unit_text :: "unit_map \<Rightarrow> u32 \<Rightarrow> string" where
  "unit_text units i = (case firstUnit units i of Some m \<Rightarrow> string_of_bytes (mu_data m) | None \<Rightarrow> [])"

text \<open>
  The loop over the result units: units shorter than a status word are passed over, \<open>last\<close> is the
  flag so far, \<open>mk\<close> builds the error of a status that is neither OK nor LAST.
\<close>

fun check_results :: "(u64 \<Rightarrow> gerr) \<Rightarrow> MarshalUnit list \<Rightarrow> bool \<Rightarrow> bool outcome" where
  "check_results mk [] lst = Ok lst"
| "check_results mk (result # rs) lst =
     (if length (mu_data result) < 8 then check_results mk rs lst
      else
        let statusVal = le_word (take 8 (mu_data result));
            st = statusCode statusVal;
            lst = (if st = cmiLastResult then True else lst)
        in if st \<noteq> cmiOKResult \<and> st \<noteq> cmiLastResult then Err (mk statusVal)
           else check_results mk rs lst)"

definition generated_rowid :: "unit_map \<Rightarrow> bool \<Rightarrow> (u64 \<times> bool) outcome" where
  "generated_rowid units generatedRowID =
     (if generatedRowID
      then (case firstUnit units cmiPGeneratedRowIDID of
              Some rowID \<Rightarrow>
                if length (mu_data rowID) < 8 then Err (PlainErr ''malformed generated ROWID metadata'')
                else Ok (le_word (take 8 (mu_data rowID)), True)
            | None \<Rightarrow> Ok (0, False))
      else Ok (0, False))"

definition response_stmt_type :: "unit_map \<Rightarrow> StmtType \<Rightarrow> StmtType" where
  "response_stmt_type units typ =
     (case firstUnit units cmimIDStmtType of
        Some st \<Rightarrow> if length (mu_data st) \<ge> 4 then sint (le_word (take 4 (mu_data st)) :: u32) else typ
      | None \<Rightarrow> typ)"

definition param_count :: "unit_map \<Rightarrow> nat outcome" where
  "param_count units =
     (case firstUnit units cmiPBindsID of
        Some binds \<Rightarrow>
          if length (mu_data binds) < 8 then Err (PlainErr ''malformed parameter count metadata'')
          else
            let val = le_word (take 8 (mu_data binds)) :: u64
            in if val > 0xffff then Err (PlainErr ''parameter count exceeds protocol limit'')
               else Ok (unat val)
      | None \<Rightarrow> Ok (length (units cmiPParamTypeID)))"

definition placeholder_desc :: "nat \<Rightarrow> ParamDesc" where
  "placeholder_desc i =
     \<lparr>pd_Type = SqlTypeString, pd_Precision = 0, pd_ElementPrecision = 0, pd_Scale = 0, pd_Nullable = False,
      pd_Nullability = NullabilityUnknown, pd_Ordinal = int i + 1, pd_Name = []\<rparr>"

definition response_params :: "unit_map \<Rightarrow> string \<Rightarrow> nat \<Rightarrow> bool \<Rightarrow> ParamDesc list outcome" where
  "response_params units sql paramCount v403 =
     (if paramCount > 0
      then
        let desc = buildParamDesc units (int paramCount) v403
        in if v403
           then (case applyParamMetadataV2 desc units of (None, d) \<Rightarrow> Ok d | (Some e, d) \<Rightarrow> Err e)
           else Ok desc
      else Ok (map placeholder_desc [0..<countSQLPlaceholders sql]))"

text \<open>The error of a failed status: the message of the response, then its extended message.\<close>

definition stmt_status_error :: "unit_map \<Rightarrow> string \<Rightarrow> u64 \<Rightarrow> gerr" where
  "stmt_status_error units msg statusVal =
     (let errMsg = unit_text units cmiREMessageID;
          msg = (if errMsg \<noteq> [] then if msg = [] then errMsg else msg @ ''; '' @ errMsg else msg)
      in makeServerErr (statusErrNo statusVal) msg)"

definition parseStmtResponseVersion ::
  "golib \<Rightarrow> bytes \<Rightarrow> string \<Rightarrow> ColumnMeta list \<Rightarrow> bool \<Rightarrow> bool \<Rightarrow> bool \<Rightarrow> StmtExecResult outcome" where
  "parseStmtResponseVersion lib bdy sql fallbackCols useStmtTypeFallback v403 generatedRowID =
     bind_outcome (units_of bdy) (\<lambda>units.
     let stmtType = (if useStmtTypeFallback then inferStmtType sql else 0);
         message = unit_text units cmiRMessageID;
         rowCount = (case firstUnit units cmiPRowsID of
                       Some rc \<Rightarrow> (case readUIntLE (mu_data rc) of Some v \<Rightarrow> v | None \<Rightarrow> 0)
                     | None \<Rightarrow> 0)
     in
     bind_outcome (generated_rowid units generatedRowID) (\<lambda>(rowID, hasRowID).
     bind_outcome (param_count units) (\<lambda>paramCount.
     bind_outcome (response_params units sql paramCount v403) (\<lambda>paramDesc.
     let columns = buildColumns units v403;
         columns = (if columns = [] \<and> fallbackCols \<noteq> [] then fallbackCols else columns);
         v = units cmiFValueID
     in
     bind_outcome (if v \<noteq> [] \<and> columns \<noteq> [] then decodeRowsFromUnits lib v columns else Ok []) (\<lambda>rows.
     bind_outcome (check_results (stmt_status_error units message) (units cmiRResultID) False) (\<lambda>lst.
     Ok \<lparr>er_stmtType = response_stmt_type units stmtType, er_message = message, er_rowCount = rowCount,
         er_rowID = rowID, er_hasRowID = hasRowID, er_columns = columns, er_paramDesc = paramDesc,
         er_rows = rows, er_lastResult = lst\<rparr>))))))"

definition parseStmtResponse :: "golib \<Rightarrow> bytes \<Rightarrow> string \<Rightarrow> ColumnMeta list \<Rightarrow> StmtExecResult outcome" where
  "parseStmtResponse lib bdy sql fallbackCols =
     parseStmtResponseVersion lib bdy sql fallbackCols True False False"

definition parseStmtResponseWithStmtTypeFallback ::
  "golib \<Rightarrow> bytes \<Rightarrow> string \<Rightarrow> ColumnMeta list \<Rightarrow> bool \<Rightarrow> StmtExecResult outcome" where
  "parseStmtResponseWithStmtTypeFallback lib bdy sql fallbackCols useStmtTypeFallback =
     parseStmtResponseVersion lib bdy sql fallbackCols useStmtTypeFallback False False"

section \<open>Fetched chunks\<close>

definition status_error :: "unit_map \<Rightarrow> u64 \<Rightarrow> gerr" where
  "status_error units statusVal = makeServerErr (statusErrNo statusVal) (unit_text units cmiRMessageID)"

definition parse_chunk :: "golib \<Rightarrow> bytes \<Rightarrow> ColumnMeta list \<Rightarrow> (goval list list \<times> bool) outcome" where
  "parse_chunk lib bdy columns =
     bind_outcome (units_of bdy) (\<lambda>units.
     bind_outcome (check_results (status_error units) (units cmiRResultID) False) (\<lambda>lst.
     bind_outcome (decodeRowsFromUnits lib (units cmiFValueID) columns) (\<lambda>rows.
     let lst =
       (if \<not> lst \<and> rows = []
        then (case firstUnit units cmiFRowsID of
                Some r \<Rightarrow> (case readUIntLE (mu_data r) of Some v \<Rightarrow> if v = 0 then True else lst | None \<Rightarrow> lst)
              | None \<Rightarrow> lst)
        else lst)
     in Ok (rows, lst))))"

section \<open>Append responses\<close>

definition append_status_error :: "unit_map \<Rightarrow> u64 \<Rightarrow> gerr" where
  "append_status_error units statusVal =
     (let msg = unit_text units cmiRMessageID;
          msg = (case firstUnit units cmiREMessageID of
                   Some em \<Rightarrow> if msg = [] then string_of_bytes (mu_data em)
                              else msg @ ''; '' @ string_of_bytes (mu_data em)
                 | None \<Rightarrow> msg)
      in makeServerErr (statusErrNo statusVal) msg)"

definition parseAppendDataResponse :: "bytes \<Rightarrow> unit outcome" where
  "parseAppendDataResponse bdy =
     bind_outcome (units_of bdy) (\<lambda>units.
     bind_outcome (check_results (append_status_error units) (units cmiRResultID) False) (\<lambda>_.
     case firstUnit units cmiXAppendFailureID of
       Some f \<Rightarrow>
         if length (mu_data f) \<ge> 8
         then
           let failCnt = le_word (take 8 (mu_data f)) :: u64
           in if failCnt > 0
              then
                let msg = unit_text units cmiRMessageID;
                    msg = (if msg = [] then ''append data failed rows='' @ itoa (uint failCnt) else msg)
                in Err (makeServerErr 0 msg)
              else Ok ()
         else Ok ()
     | None \<Rightarrow> Ok ()))"

text \<open>A 64-bit counter of the close response.\<close>

definition append_count :: "unit_map \<Rightarrow> u32 \<Rightarrow> u64" where
  "append_count units i =
     (case firstUnit units i of
        Some v \<Rightarrow> if length (mu_data v) \<ge> 8 then le_word (take 8 (mu_data v)) else 0
      | None \<Rightarrow> 0)"

text \<open>The first result unit, when it is a whole status word: an error unless OK or LAST.\<close>

definition check_first_result :: "unit_map \<Rightarrow> unit outcome" where
  "check_first_result units =
     (case firstUnit units cmiRResultID of
        Some result \<Rightarrow>
          if length (mu_data result) \<ge> 8
          then
            let statusVal = le_word (take 8 (mu_data result)); st = statusCode statusVal
            in if st \<noteq> cmiOKResult \<and> st \<noteq> cmiLastResult then Err (status_error units statusVal) else Ok ()
          else Ok ()
      | None \<Rightarrow> Ok ())"

definition parseAppendCloseResponse :: "bytes \<Rightarrow> (u64 \<times> u64) outcome" where
  "parseAppendCloseResponse bdy =
     bind_outcome (units_of bdy) (\<lambda>units.
     bind_outcome (check_first_result units) (\<lambda>_.
     Ok (append_count units cmiXAppendSuccessID, append_count units cmiXAppendFailureID)))"

section \<open>Lexical structure of a statement\<close>

text \<open>
  The characters of a statement outside quoted text, by the plain rule: a quote character opens a
  text that the same character closes.
\<close>

fun unquoted :: "char option \<Rightarrow> string \<Rightarrow> string" where
  "unquoted q [] = []"
| "unquoted None (c # cs) = (if c = CHR 0x27 \<or> c = CHR 0x22 then unquoted (Some c) cs else c # unquoted None cs)"
| "unquoted (Some q) (c # cs) = (if c = q then unquoted None cs else unquoted (Some q) cs)"

definition quote_state :: "bool \<Rightarrow> bool \<Rightarrow> char option" where
  "quote_state inSingle inDouble =
     (if inSingle then Some (CHR 0x27) else if inDouble then Some (CHR 0x22) else None)"

lemma scan_placeholders_unquoted:
  "\<not> (s \<and> d) \<Longrightarrow> scan_placeholders s d sql cnt = cnt + count_list (unquoted (quote_state s d) sql) (CHR ''?'')"
proof (induction s d sql cnt rule: scan_placeholders.induct)
  case (2 s d ch rest cnt)
  show ?case
  proof (cases "s \<and> ch = CHR 0x27 \<and> rest \<noteq> [] \<and> hd rest = CHR 0x27")
    case True
    then obtain cs where "rest = CHR 0x27 # cs" by (cases rest) auto
    with True 2 show ?thesis by (simp add: quote_state_def)
  next
    case False
    with 2 show ?thesis by (cases s; cases d) (auto simp: quote_state_def)
  qed
qed simp

section \<open>Status words\<close>

text \<open>The status words of a list of result units, and those that report a failure.\<close>

definition statuses :: "MarshalUnit list \<Rightarrow> u64 list" where
  "statuses rs = map (\<lambda>u. le_word (take 8 (mu_data u))) (filter (\<lambda>u. length (mu_data u) \<ge> 8) rs)"

definition failed_status :: "u64 \<Rightarrow> bool" where
  "failed_status v \<longleftrightarrow> statusCode v \<noteq> cmiOKResult \<and> statusCode v \<noteq> cmiLastResult"

lemma check_results_eq:
  "check_results mk rs lst =
    (case find failed_status (statuses rs) of
       Some v \<Rightarrow> Err (mk v)
     | None \<Rightarrow> Ok (lst \<or> (\<exists>v \<in> set (statuses rs). statusCode v = cmiLastResult)))"
proof (induction rs arbitrary: lst)
  case Nil
  show ?case by (simp add: statuses_def)
next
  case (Cons r rs)
  let ?v = "le_word (take 8 (mu_data r)) :: u64"
  have "statuses (r # rs) = (if length (mu_data r) < 8 then statuses rs else ?v # statuses rs)"
    by (simp add: statuses_def)
  with Cons.IH show ?case
    by (cases "failed_status ?v") (auto simp: failed_status_def Let_def split: option.splits)
qed

lemma check_results_no_panic [simp]: "\<not> is_panic (check_results mk rs lst)"
  by (simp add: check_results_eq split: option.splits)

section \<open>Responses decode safely\<close>

lemma units_of_total: "length bdy < 2 ^ 62 \<Longrightarrow> collectUnits bdy = Some (units_of bdy)"
  using collect_loop_total [of "newMarshalReader bdy" "Suc (length bdy)" "\<lambda>_. []"]
  by (auto simp: units_of_def collectUnits_def newMarshalReader_def)

lemma decodeRows_typed:
  assumes "list_all column_ok cols" and "decodeRowsFromUnits lib us cols = Ok rows"
  shows "length rows = length us \<and> list_all (\<lambda>r. length r = length cols) rows"
  using decode_units_safe [OF assms(1), where lib = lib and us = us] assms(2)
  by (cases "us = []"; cases "cols = []") (auto simp: decodeRowsFromUnits_def list_all_iff)

lemma decodeRows_no_panic: "list_all column_ok cols \<Longrightarrow> \<not> is_panic (decodeRowsFromUnits lib us cols)"
  using decode_units_safe [where lib = lib and us = us and cols = cols]
  by (auto simp: decodeRowsFromUnits_def is_panic_iff)

lemma generated_rowid_no_panic [simp]: "\<not> is_panic (generated_rowid units g)"
  by (simp add: generated_rowid_def split: option.splits)

lemma param_count_no_panic [simp]: "\<not> is_panic (param_count units)"
  by (simp add: param_count_def Let_def split: option.splits)

lemma response_params_no_panic [simp]: "\<not> is_panic (response_params units sql n v403)"
  by (simp add: response_params_def Let_def split: prod.splits option.splits)

section \<open>The image of a response\<close>

text \<open>What \<^verbatim>\<open>collectUnits\<close> finds in the body that a peer builds from unit calls.\<close>

lemma units_of_ops:
  assumes "length (concat (map op_bytes ops)) < 2 ^ 62"
  shows "units_of (concat (map op_bytes ops)) = Ok (\<lambda>i. filter (\<lambda>u. mu_id u = i) (map op_unit ops))"
  using collect_loop_ops [of "[]" ops "Suc (length (concat (map op_bytes ops)))" "\<lambda>_. []"] assms
    length_concat_ops [of ops]
  by (simp add: units_of_def collectUnits_def newMarshalReader_def le_imp_less_Suc)

text \<open>A chunk of rows as a server sends it: a status word and one unit per row.\<close>

definition chunk_ops :: "u64 \<Rightarrow> bytes list \<Rightarrow> marshal_op list" where
  "chunk_ops st imgs = AddUInt64 cmiRResultID st # map (AddBinary cmiFValueID) imgs"

lemma decode_units_all_ok:
  "decode_units lib us cols = all_ok (map (\<lambda>u. decode_columns lib cols (mu_data u) 0) us)"
proof (induction us)
  case (Cons u us)
  have "decodeRowInto lib (replicate (length cols) GNil) (mu_data u) cols = decode_columns lib cols (mu_data u) 0"
    by (cases "decode_columns lib cols (mu_data u) 0") (simp_all add: decodeRowInto_def)
  with Cons show ?case by (cases "decode_columns lib cols (mu_data u) 0") simp_all
qed simp

lemma parse_chunk_image:
  assumes "length (concat (map op_bytes (chunk_ops st imgs))) < 2 ^ 62" and "cols \<noteq> []"
  shows "parse_chunk lib (concat (map op_bytes (chunk_ops st imgs))) cols =
    (if failed_status st then Err (makeServerErr (statusErrNo st) [])
     else bind_outcome (all_ok (map (\<lambda>d. decode_columns lib cols d 0) imgs))
       (\<lambda>rows. Ok (rows, statusCode st = cmiLastResult)))"
proof -
  define us where "us = (\<lambda>i. filter (\<lambda>u. mu_id u = i) (map op_unit (chunk_ops st imgs)))"
  have vals: "filter (\<lambda>u. mu_id u = cmiFValueID) (map op_unit (map (AddBinary cmiFValueID) imgs))
      = map op_unit (map (AddBinary cmiFValueID) imgs)"
    by (induction imgs) simp_all
  have none: "filter (\<lambda>u. mu_id u = i) (map op_unit (map (AddBinary cmiFValueID) imgs)) = []" if "i \<noteq> cmiFValueID" for i
    using that by (induction imgs) simp_all
  have res: "us cmiRResultID = [op_unit (AddUInt64 cmiRResultID st)]"
    using none [of cmiRResultID] by (simp add: us_def chunk_ops_def)
  have rest: "firstUnit us cmiRMessageID = None" "firstUnit us cmiFRowsID = None"
    using none by (simp_all add: us_def chunk_ops_def firstUnit_def)
  have val: "us cmiFValueID = map op_unit (map (AddBinary cmiFValueID) imgs)"
    using vals by (simp add: us_def chunk_ops_def)
  have dec: "decodeRowsFromUnits lib (map op_unit (map (AddBinary cmiFValueID) imgs)) cols
      = all_ok (map (\<lambda>d. decode_columns lib cols d 0) imgs)"
    using assms(2) by (cases imgs) (simp_all add: decodeRowsFromUnits_def decode_units_all_ok comp_def)
  have st: "statuses [op_unit (AddUInt64 cmiRResultID st)] = [st]"
    by (simp add: statuses_def codec_simps)
  have absorb: "(if \<not> a \<and> b then False else a) = a" for a b by auto
  have "parse_chunk lib (concat (map op_bytes (chunk_ops st imgs))) cols =
    bind_outcome (check_results (status_error us) [op_unit (AddUInt64 cmiRResultID st)] False) (\<lambda>lst.
    bind_outcome (all_ok (map (\<lambda>d. decode_columns lib cols d 0) imgs)) (\<lambda>rows. Ok (rows, lst)))"
    unfolding parse_chunk_def units_of_ops [OF assms(1)] us_def [symmetric]
    by (simp add: res val dec rest absorb Let_def cong: if_cong del: list.map map_map op_unit.simps check_results.simps)
  also have "check_results (status_error us) [op_unit (AddUInt64 cmiRResultID st)] False
      = (if failed_status st then Err (makeServerErr (statusErrNo st) []) else Ok (statusCode st = cmiLastResult))"
    unfolding check_results_eq st by (simp add: status_error_def unit_text_def rest)
  finally show ?thesis by simp
qed

section \<open>Properties\<close>

text \<open>
  The placeholder scanner and the plain quoting rule agree: \<^verbatim>\<open>countSQLPlaceholders\<close> counts exactly
  the question marks outside quoted text, where a text runs from a quote character to the next
  occurrence of the same character. The look-ahead for a doubled quote does not change the count.
\<close>

theorem placeholders_equivalence:
  "countSQLPlaceholders sql = count_list (unquoted None sql) (CHR ''?'')"
  using scan_placeholders_unquoted [of False False sql 0]
  by (simp add: countSQLPlaceholders_def quote_state_def)


text \<open>One prepared INT16 column as the fallback, and a response that holds one row and no columns.\<close>

definition demo_column :: ColumnMeta where
  "demo_column = \<lparr>cm_name = ''c'', cm_cmType = 0, cm_precision = 0, cm_elementPrecision = 0, cm_scale = 0,
     cm_spinerType = cmdInt16Type, cm_length = 2, cm_isVariable = False, cm_sqlType = SqlTypeInt16,
     cm_nullable = True, cm_nullability = NullabilityNullable, cm_primaryKey = False\<rparr>"


end
