(* ===== verification/Auth.thy ===== *)
theory Auth
  imports Responses
begin

text \<open>
  \<^verbatim>\<open>machnet/auth.go\<close>: the authentication modes and signature schemes, the choice between them, the keys
  that are accepted, loading a key, signing the server's nonce, and the fields of a challenge. The
  primitives of \<^verbatim>\<open>crypto\<close>, \<^verbatim>\<open>encoding/pem\<close>, \<^verbatim>\<open>crypto/x509\<close> and \<^verbatim>\<open>os.ReadFile\<close> are parameters.
\<close>

section \<open>Keys and primitives\<close>

text \<open>
  A \<^verbatim>\<open>crypto.PrivateKey\<close>: an ECDSA key with the bit size of its curve (none without a curve), an RSA
  key with the bit length of its modulus (none without one), or a key of another algorithm. The
  last field tells keys of the same kind apart.
\<close>

datatype PrivateKey = ECDSAKey "nat option" nat | RSAKey "nat option" nat | OtherKey nat

record crypto_lib =
  cl_sha256 :: "bytes \<Rightarrow> bytes"
  cl_SignASN1 :: "PrivateKey \<Rightarrow> bytes \<Rightarrow> bytes outcome"
  cl_SignPKCS1v15 :: "PrivateKey \<Rightarrow> bytes \<Rightarrow> bytes outcome"
  cl_SignPSS :: "PrivateKey \<Rightarrow> bytes \<Rightarrow> bytes outcome"
  cl_pemDecode :: "bytes \<Rightarrow> (string \<times> bytes) option"
  cl_ParsePKCS8 :: "bytes \<Rightarrow> PrivateKey option"
  cl_ParsePKCS1 :: "bytes \<Rightarrow> PrivateKey option"
  cl_ParseEC :: "bytes \<Rightarrow> PrivateKey option"
  cl_ReadFile :: "string \<Rightarrow> bytes option"

section \<open>Modes and schemes\<close>

abbreviation (input) authModePassword :: string where "authModePassword \<equiv> ''PASSWORD''"
abbreviation (input) authModeChallenge :: string where "authModeChallenge \<equiv> ''CHALLENGE''"
abbreviation (input) authSigSchemeECDSA :: string where "authSigSchemeECDSA \<equiv> ''ECDSA''"
abbreviation (input) authSigSchemeRSAPKCS1V15 :: string where "authSigSchemeRSAPKCS1V15 \<equiv> ''RSA_PKCS1_V15''"
abbreviation (input) authSigSchemeRSAPSS :: string where "authSigSchemeRSAPSS \<equiv> ''RSA_PSS''"

definition canonicalizeAuthMode :: "string \<Rightarrow> string outcome" where
  "canonicalizeAuthMode mode =
     (let mode = TrimSpace mode
      in if mode = [] then Ok []
         else if EqualFold mode authModePassword then Ok authModePassword
         else if EqualFold mode authModeChallenge then Ok authModeChallenge
         else Err (PlainErr ''AUTH_MODE must be PASSWORD or CHALLENGE''))"

definition canonicalizeAuthSigScheme :: "string \<Rightarrow> string outcome" where
  "canonicalizeAuthSigScheme scheme =
     (let scheme = TrimSpace scheme
      in if scheme = [] then Ok []
         else if EqualFold scheme authSigSchemeECDSA then Ok authSigSchemeECDSA
         else if EqualFold scheme authSigSchemeRSAPSS then Ok authSigSchemeRSAPSS
         else if EqualFold scheme authSigSchemeRSAPKCS1V15 \<or> EqualFold scheme ''RSA'' then Ok authSigSchemeRSAPKCS1V15
         else Err (PlainErr ''AUTH_SIG_SCHEME must be ECDSA, RSA_PKCS1_V15, or RSA_PSS''))"

definition validateSupportedAuthKey :: "PrivateKey option \<Rightarrow> unit outcome" where
  "validateSupportedAuthKey key =
     (case key of
        Some (ECDSAKey bits _) \<Rightarrow>
          if bits = None \<or> the bits \<noteq> 256 \<and> the bits \<noteq> 384 \<and> the bits \<noteq> 521
          then Err (PlainErr ''AUTH_KEY must be ECDSA (P-256, P-384, P-521)'') else Ok ()
      | Some (RSAKey bits _) \<Rightarrow>
          if bits = None \<or> the bits \<noteq> 2048 \<and> the bits \<noteq> 3072 \<and> the bits \<noteq> 4096
          then Err (PlainErr ''AUTH_KEY must be RSA (2048, 3072, or 4096 bits)'') else Ok ()
      | _ \<Rightarrow> Err (PlainErr ''AUTH_KEY must be ECDSA or RSA''))"

definition detectAuthSigSchemeFromKey :: "PrivateKey option \<Rightarrow> string outcome" where
  "detectAuthSigSchemeFromKey key =
     bind_outcome (validateSupportedAuthKey key) (\<lambda>_.
     case key of
       Some (ECDSAKey _ _) \<Rightarrow> Ok authSigSchemeECDSA
     | Some (RSAKey _ _) \<Rightarrow> Ok authSigSchemeRSAPKCS1V15
     | _ \<Rightarrow> Err (PlainErr ''AUTH_SIG_SCHEME is required when key algorithm cannot be inferred''))"

definition finalizeAuthConnectOptions :: "string \<Rightarrow> PrivateKey option \<Rightarrow> string \<Rightarrow> (string \<times> string) outcome" where
  "finalizeAuthConnectOptions mode key sigScheme =
     bind_outcome (canonicalizeAuthMode mode) (\<lambda>canonMode.
     if canonMode = [] \<and> key = None then Ok (authModePassword, [])
     else
       let canonMode = (if canonMode = [] then authModeChallenge else canonMode)
       in if canonMode = authModePassword then Ok (canonMode, [])
          else if key = None then Err (PlainErr ''AUTH_KEY is required for AUTH_MODE=CHALLENGE'')
          else
            bind_outcome (canonicalizeAuthSigScheme sigScheme) (\<lambda>canonScheme.
            if canonScheme \<noteq> [] then Ok (canonMode, canonScheme)
            else bind_outcome (detectAuthSigSchemeFromKey key) (\<lambda>detected. Ok (canonMode, detected))))"

section \<open>Signing\<close>

definition sign_with :: "crypto_lib \<Rightarrow> PrivateKey option \<Rightarrow> string \<Rightarrow> string \<Rightarrow> bytes \<Rightarrow> bytes outcome" where
  "sign_with cl key keySource scheme h =
     (if scheme = authSigSchemeECDSA then
        (case key of Some (ECDSAKey b k) \<Rightarrow> cl_SignASN1 cl (ECDSAKey b k) h
         | _ \<Rightarrow> Err (PlainErr (keySource @ '' is not an EC private key'')))
      else if scheme = authSigSchemeRSAPKCS1V15 then
        (case key of Some (RSAKey b k) \<Rightarrow> cl_SignPKCS1v15 cl (RSAKey b k) h
         | _ \<Rightarrow> Err (PlainErr (keySource @ '' is not an RSA private key'')))
      else if scheme = authSigSchemeRSAPSS then
        (case key of Some (RSAKey b k) \<Rightarrow> cl_SignPSS cl (RSAKey b k) h
         | _ \<Rightarrow> Err (PlainErr (keySource @ '' is not an RSA private key'')))
      else Err (PlainErr ''AUTH_SIG_SCHEME must be ECDSA, RSA_PKCS1_V15, or RSA_PSS''))"

definition signAuthNonceWithKey ::
  "crypto_lib \<Rightarrow> PrivateKey option \<Rightarrow> string \<Rightarrow> string \<Rightarrow> bytes \<Rightarrow> bytes outcome" where
  "signAuthNonceWithKey cl key keySource sigScheme nonce =
     bind_outcome (validateSupportedAuthKey key) (\<lambda>_.
     bind_outcome (canonicalizeAuthSigScheme sigScheme) (\<lambda>scheme.
     bind_outcome (if scheme = [] then detectAuthSigSchemeFromKey key else Ok scheme) (\<lambda>scheme.
     sign_with cl key keySource scheme (cl_sha256 cl nonce))))"

section \<open>Loading keys\<close>

definition invalid_key :: "string \<Rightarrow> PrivateKey option \<Rightarrow> PrivateKey outcome" where
  "invalid_key keyLabel k = (case k of Some key \<Rightarrow> Ok key | None \<Rightarrow> Err (PlainErr (''invalid '' @ keyLabel)))"

definition loadPrivateKeyPEM :: "crypto_lib \<Rightarrow> bytes \<Rightarrow> string \<Rightarrow> PrivateKey outcome" where
  "loadPrivateKeyPEM cl privateKeyPEM keyLabel =
     (case cl_pemDecode cl privateKeyPEM of
        None \<Rightarrow> invalid_key keyLabel None
      | Some (typ, blk) \<Rightarrow>
          if typ = ''PRIVATE KEY'' then invalid_key keyLabel (cl_ParsePKCS8 cl blk)
          else if typ = ''RSA PRIVATE KEY'' then invalid_key keyLabel (cl_ParsePKCS1 cl blk)
          else if typ = ''EC PRIVATE KEY'' then invalid_key keyLabel (cl_ParseEC cl blk)
          else invalid_key keyLabel None)"

definition loadPrivateKey :: "crypto_lib \<Rightarrow> string \<Rightarrow> PrivateKey outcome" where
  "loadPrivateKey cl keyFile =
     (case cl_ReadFile cl keyFile of
        None \<Rightarrow> Err (PlainErr (''failed to read AUTH_KEY_FILE<'' @ keyFile @ ''>''))
      | Some pemBytes \<Rightarrow> loadPrivateKeyPEM cl pemBytes (''AUTH_KEY_FILE<'' @ keyFile @ ''>''))"

definition signAuthNonce :: "crypto_lib \<Rightarrow> string \<Rightarrow> string \<Rightarrow> bytes \<Rightarrow> bytes outcome" where
  "signAuthNonce cl keyFile sigScheme nonce =
     bind_outcome (loadPrivateKey cl keyFile) (\<lambda>key. signAuthNonceWithKey cl (Some key) keyFile sigScheme nonce)"

definition signAuthNoncePEM :: "crypto_lib \<Rightarrow> bytes \<Rightarrow> string \<Rightarrow> bytes \<Rightarrow> bytes outcome" where
  "signAuthNoncePEM cl privateKeyPEM sigScheme nonce =
     bind_outcome (loadPrivateKeyPEM cl privateKeyPEM ''AUTH_KEY_PEM'') (\<lambda>key.
     signAuthNonceWithKey cl (Some key) ''AUTH_KEY_PEM'' sigScheme nonce)"

section \<open>The challenge\<close>

definition readChallengeFields :: "unit_map \<Rightarrow> (bytes \<times> u32) outcome" where
  "readChallengeFields units =
     (case firstUnit units cmiCAuthNonceID of
        None \<Rightarrow> Err (PlainErr ''connect response missing auth nonce'')
      | Some nonceUnit \<Rightarrow>
          if mu_typ nonceUnit \<noteq> cmiBinaryType then Err (PlainErr ''connect response missing auth nonce'')
          else if length (mu_data nonceUnit) \<noteq> 32 then Err (PlainErr ''invalid auth nonce length'')
          else (case firstUnit units cmiCAuthValidMsID of
                  None \<Rightarrow> Err (PlainErr ''connect response missing auth validity'')
                | Some validUnit \<Rightarrow>
                    (case readUIntLE (mu_data validUnit) of
                       None \<Rightarrow> Err (PlainErr ''invalid auth validity'')
                     | Some validMs \<Rightarrow>
                         if validMs = 0 then Err (PlainErr ''invalid auth validity'')
                         else Ok (mu_data nonceUnit, ucast validMs))))"

section \<open>Canonical names\<close>

text \<open>A canonical name is its own canonical form.\<close>

lemma TrimSpace_names [simp]:
  "TrimSpace authModePassword = authModePassword" "TrimSpace authModeChallenge = authModeChallenge"
  "TrimSpace authSigSchemeECDSA = authSigSchemeECDSA" "TrimSpace authSigSchemeRSAPSS = authSigSchemeRSAPSS"
  "TrimSpace authSigSchemeRSAPKCS1V15 = authSigSchemeRSAPKCS1V15"
  by (rule TrimSpace_graphic; code_simp)+

lemma EqualFold_names [simp]:
  "\<not> EqualFold authModeChallenge authModePassword" "\<not> EqualFold authSigSchemeRSAPSS authSigSchemeECDSA"
  "\<not> EqualFold authSigSchemeRSAPKCS1V15 authSigSchemeECDSA" "\<not> EqualFold authSigSchemeRSAPKCS1V15 authSigSchemeRSAPSS"
  by code_simp+

lemma EqualFold_refl [simp]: "EqualFold s s"
  by (simp add: EqualFold_def)

definition auth_schemes :: "string set" where
  "auth_schemes = {authSigSchemeECDSA, authSigSchemeRSAPKCS1V15, authSigSchemeRSAPSS}"

lemma canonicalizeAuthMode_Ok:
  "canonicalizeAuthMode m = Ok x \<Longrightarrow> x = [] \<or> x = authModePassword \<or> x = authModeChallenge"
  by (auto simp: canonicalizeAuthMode_def Let_def split: if_splits)

lemma canonicalizeAuthSigScheme_Ok:
  "canonicalizeAuthSigScheme m = Ok x \<Longrightarrow> x = [] \<or> x \<in> auth_schemes"
  by (auto simp: canonicalizeAuthSigScheme_def auth_schemes_def Let_def split: if_splits)

lemma canonical_mode_fixed:
  "canonicalizeAuthMode authModePassword = Ok authModePassword"
  "canonicalizeAuthMode authModeChallenge = Ok authModeChallenge"
  by (simp_all add: canonicalizeAuthMode_def)

lemma canonical_scheme_fixed: "x \<in> auth_schemes \<Longrightarrow> canonicalizeAuthSigScheme x = Ok x"
  by (auto simp: auth_schemes_def canonicalizeAuthSigScheme_def)

lemma detect_scheme: "detectAuthSigSchemeFromKey key = Ok x \<Longrightarrow> x \<in> auth_schemes"
  by (auto simp: detectAuthSigSchemeFromKey_def auth_schemes_def bind_outcome_Ok_iff
      split: option.splits PrivateKey.splits)

lemma finalize_options_cases:
  assumes "finalizeAuthConnectOptions mode key sch = Ok (m, s)"
  shows "m = authModePassword \<and> s = [] \<or> m = authModeChallenge \<and> s \<in> auth_schemes \<and> key \<noteq> None"
  using assms canonicalizeAuthMode_Ok [of mode] canonicalizeAuthSigScheme_Ok [of sch] detect_scheme [of key]
  by (auto simp: finalizeAuthConnectOptions_def bind_outcome_Ok_iff Let_def split: if_splits)

section \<open>Properties\<close>

text \<open>
  The negotiated options are sound and stable: whatever the configured texts and key, a
  successful negotiation ends in PASSWORD mode without a scheme or in CHALLENGE mode with a key and one of the
  three canonical schemes; negotiating again from the result changes nothing; and signing a nonce
  under the announced scheme runs exactly that scheme's primitive on the SHA-256 of the nonce,
  after the key was validated.
\<close>

theorem auth_options_sound:
  assumes "finalizeAuthConnectOptions mode key sch = Ok (m, s)"
  shows "(m = authModePassword \<and> s = [] \<or> m = authModeChallenge \<and> s \<in> auth_schemes \<and> key \<noteq> None)
    \<and> finalizeAuthConnectOptions m key s = Ok (m, s)
    \<and> (m = authModeChallenge \<longrightarrow>
        signAuthNonceWithKey cl key src s nonce =
          bind_outcome (validateSupportedAuthKey key) (\<lambda>_. sign_with cl key src s (cl_sha256 cl nonce)))"
proof -
  note c = finalize_options_cases [OF assms]
  then have "s \<in> auth_schemes \<Longrightarrow> s \<noteq> []" by (auto simp: auth_schemes_def)
  with c show ?thesis
    by (auto simp: finalizeAuthConnectOptions_def canonical_mode_fixed canonical_scheme_fixed
        signAuthNonceWithKey_def)
qed

text \<open>
  A signature is only ever made with a supported key and the primitive of its algorithm: an
  ECDSA key on P-256, P-384 or P-521 signs in ASN.1, an RSA key of 2048, 3072 or 4096 bits signs in
  PKCS#1 v1.5 or PSS, always over the SHA-256 of the nonce.
\<close>

theorem auth_signature_sound:
  assumes "signAuthNonceWithKey cl key src sch nonce = Ok sig"
  shows "(\<exists>b k. key = Some (ECDSAKey (Some b) k) \<and> b \<in> {256, 384, 521}
      \<and> cl_SignASN1 cl (ECDSAKey (Some b) k) (cl_sha256 cl nonce) = Ok sig)
    \<or> (\<exists>b k. key = Some (RSAKey (Some b) k) \<and> b \<in> {2048, 3072, 4096}
      \<and> (cl_SignPKCS1v15 cl (RSAKey (Some b) k) (cl_sha256 cl nonce) = Ok sig
        \<or> cl_SignPSS cl (RSAKey (Some b) k) (cl_sha256 cl nonce) = Ok sig))"
proof -
  from assms obtain sc where v: "validateSupportedAuthKey key = Ok ()"
    and s: "sign_with cl key src sc (cl_sha256 cl nonce) = Ok sig"
    by (auto simp: signAuthNonceWithKey_def bind_outcome_Ok_iff)
  from s consider (ec) b k where "key = Some (ECDSAKey b k)" "cl_SignASN1 cl (ECDSAKey b k) (cl_sha256 cl nonce) = Ok sig"
    | (rsa) b k where "key = Some (RSAKey b k)" "cl_SignPKCS1v15 cl (RSAKey b k) (cl_sha256 cl nonce) = Ok sig
        \<or> cl_SignPSS cl (RSAKey b k) (cl_sha256 cl nonce) = Ok sig"
    unfolding sign_with_def by (auto split: if_splits option.splits PrivateKey.splits)
  then show ?thesis
  proof cases
    case ec
    with v show ?thesis by (cases b) (auto simp: validateSupportedAuthKey_def split: if_splits)
  next
    case rsa
    with v show ?thesis by (cases b) (auto simp: validateSupportedAuthKey_def split: if_splits)
  qed
qed

text \<open>A library in which every primitive returns its input.\<close>

definition echo_lib :: crypto_lib where
  "echo_lib = \<lparr>cl_sha256 = (\<lambda>b. b), cl_SignASN1 = (\<lambda>k h. Ok h), cl_SignPKCS1v15 = (\<lambda>k h. Ok h),
     cl_SignPSS = (\<lambda>k h. Ok h), cl_pemDecode = (\<lambda>b. None), cl_ParsePKCS8 = (\<lambda>b. None),
     cl_ParsePKCS1 = (\<lambda>b. None), cl_ParseEC = (\<lambda>b. None), cl_ReadFile = (\<lambda>f. None)\<rparr>"

theorem auth_options_sound_witness:
  "finalizeAuthConnectOptions authModeChallenge (Some (RSAKey (Some 2048) 1)) authSigSchemeRSAPSS = Ok (authModeChallenge, authSigSchemeRSAPSS)
    \<and> signAuthNonceWithKey echo_lib (Some (RSAKey (Some 2048) 1)) ''k'' authSigSchemeRSAPSS [7] = Ok [7]"
proof -
  have f: "finalizeAuthConnectOptions authModeChallenge (Some (RSAKey (Some 2048) 1)) authSigSchemeRSAPSS = Ok (authModeChallenge, authSigSchemeRSAPSS)"
    by (simp add: finalizeAuthConnectOptions_def canonical_mode_fixed canonical_scheme_fixed auth_schemes_def)
  from auth_options_sound [OF f, of echo_lib "''k''" "[7]"] f show ?thesis
    by (simp add: validateSupportedAuthKey_def sign_with_def echo_lib_def)
qed

theorem auth_signature_sound_witness:
  "\<exists>b k. Some (ECDSAKey (Some 256) 1) = Some (ECDSAKey (Some b) k) \<and> b \<in> {256, 384, 521}
      \<and> cl_SignASN1 echo_lib (ECDSAKey (Some b) k) (cl_sha256 echo_lib [7]) = Ok [7]"
proof -
  have "signAuthNonceWithKey echo_lib (Some (ECDSAKey (Some 256) 1)) ''k'' [] [7] = Ok [7]"
    by (simp add: signAuthNonceWithKey_def canonicalizeAuthSigScheme_def detectAuthSigSchemeFromKey_def
        validateSupportedAuthKey_def sign_with_def echo_lib_def)
  from auth_signature_sound [OF this] show ?thesis by simp
qed

end
