(* ===== verification/IO.thy ===== *)
theory IO
  imports Packet "HOL-Library.Monad_Syntax"
begin

text \<open>
  Byte streams: the contract of \<^verbatim>\<open>io.Writer\<close> as a locale, the write loop of
  \<^verbatim>\<open>machnet/packet.go\<close> proved against the contract, and the three writers that a connection stacks:
  the socket, the counting writer of \<^verbatim>\<open>machnet/io_counter.go\<close> and the buffered writer. On the
  reading side, \<^verbatim>\<open>io.ReadFull\<close> over a socket that delivers its bytes in arbitrary pieces is
  shown to be the reader that the packet layer is proved against.
\<close>

section \<open>The write loop\<close>

text \<open>
  \<^verbatim>\<open>writer.Write(buf)\<close> returns how many bytes were taken and an error. A writer that takes nothing
  and reports no error would make the loop run forever: that is the value \<open>None\<close>.
\<close>

partial_function (option) writePacket ::
  "('s \<Rightarrow> bytes \<Rightarrow> nat \<times> gerr option \<times> 's) \<Rightarrow> 's \<Rightarrow> bytes \<Rightarrow> (gerr option \<times> 's) option" where
  "writePacket wr s buf =
     (if buf = [] then Some (None, s)
      else (case wr s buf of
              (n, Some e, s') \<Rightarrow> Some (Some e, s')
            | (n, None, s') \<Rightarrow> writePacket wr s' (drop n buf)))"

declare writePacket.simps [code]

text \<open>The loop over the packets of a message, which stops at the first error.\<close>

fun writePackets ::
  "('s \<Rightarrow> bytes \<Rightarrow> nat \<times> gerr option \<times> 's) \<Rightarrow> 's \<Rightarrow> bytes list \<Rightarrow> (gerr option \<times> 's) option" where
  "writePackets wr s [] = Some (None, s)"
| "writePackets wr s (p # ps) =
     (case writePacket wr s p of
        None \<Rightarrow> None
      | Some (Some e, s') \<Rightarrow> Some (Some e, s')
      | Some (None, s') \<Rightarrow> writePackets wr s' ps)"

text \<open>
  The documented contract of \<^verbatim>\<open>io.Writer\<close>: \<^verbatim>\<open>Write\<close> takes a prefix of its argument, and reports an
  error whenever it takes less than all of it. \<open>out\<close> is everything accepted so far.
\<close>

locale io_writer =
  fixes wr :: "'s \<Rightarrow> bytes \<Rightarrow> nat \<times> gerr option \<times> 's"
    and out :: "'s \<Rightarrow> bytes"
    and inv :: "'s \<Rightarrow> bool"
  assumes write_prefix: "inv s \<Longrightarrow> wr s p = (n, e, s') \<Longrightarrow> n \<le> length p \<and> out s' = out s @ take n p \<and> inv s'"
    and write_short: "inv s \<Longrightarrow> wr s p = (n, None, s') \<Longrightarrow> n = length p"
begin

lemma writePacket_ok:
  assumes "inv s" and "wr s p = (n, None, s')" and "p \<noteq> []"
  shows "writePacket wr s p = Some (None, s')"
  using assms write_short [OF assms(1,2)] by (simp add: writePacket.simps)

lemma writePacket_err:
  "wr s p = (n, Some e, s') \<Longrightarrow> p \<noteq> [] \<Longrightarrow> writePacket wr s p = Some (Some e, s')"
  by (simp add: writePacket.simps)

text \<open>The loop ends, and a nil error means that every byte was accepted, in order.\<close>

lemma writePacket_total:
  assumes "inv s"
  shows "\<exists>e s' k. writePacket wr s p = Some (e, s') \<and> inv s' \<and> k \<le> length p
    \<and> out s' = out s @ take k p \<and> (e = None \<longrightarrow> k = length p)"
proof (cases "p = []")
  case True
  with assms show ?thesis by (simp add: writePacket.simps)
next
  case False
  obtain n e s' where w: "wr s p = (n, e, s')" by (cases "wr s p") auto
  note pre = write_prefix [OF assms w]
  show ?thesis
  proof (cases e)
    case None
    with w writePacket_ok [OF assms _ False] write_short [OF assms] pre show ?thesis by auto
  next
    case (Some x)
    with w writePacket_err [OF _ False] pre show ?thesis by auto
  qed
qed

lemma writePackets_total:
  "inv s \<Longrightarrow> \<exists>e s' k. writePackets wr s ps = Some (e, s') \<and> inv s' \<and> k \<le> length (concat ps)
    \<and> out s' = out s @ take k (concat ps) \<and> (e = None \<longrightarrow> k = length (concat ps))"
proof (induction ps arbitrary: s)
  case (Cons p ps)
  from writePacket_total [OF Cons.prems, of p] obtain e s1 k where
    w: "writePacket wr s p = Some (e, s1)" "inv s1" "k \<le> length p" "out s1 = out s @ take k p"
    "e = None \<longrightarrow> k = length p" by blast
  show ?case
  proof (cases e)
    case (Some x)
    with w show ?thesis by (intro exI [of _ e] exI [of _ s1] exI [of _ k]) simp
  next
    case None
    with w have k: "k = length p" by simp
    from Cons.IH [OF w(2)] obtain e2 s2 k2 where
      "writePackets wr s1 ps = Some (e2, s2)" "inv s2" "k2 \<le> length (concat ps)"
      "out s2 = out s1 @ take k2 (concat ps)" "e2 = None \<longrightarrow> k2 = length (concat ps)" by blast
    with None w k show ?thesis
      by (intro exI [of _ e2] exI [of _ s2] exI [of _ "length p + k2"]) simp
  qed
qed simp

end

section \<open>The socket\<close>

text \<open>
  A connection's sending side: what reached the peer, how many more bytes go through before the
  connection fails (\<open>None\<close>: it never does), and the error it fails with.
\<close>

record sock_out =
  so_sent :: bytes
  so_room :: "nat option"
  so_err :: gerr

definition sock_Write :: "sock_out \<Rightarrow> bytes \<Rightarrow> nat \<times> gerr option \<times> sock_out" where
  "sock_Write s p =
     (case so_room s of
        None \<Rightarrow> (length p, None, s\<lparr>so_sent := so_sent s @ p\<rparr>)
      | Some k \<Rightarrow>
          if length p \<le> k
          then (length p, None, s\<lparr>so_sent := so_sent s @ p, so_room := Some (k - length p)\<rparr>)
          else (k, Some (so_err s), s\<lparr>so_sent := so_sent s @ take k p, so_room := Some 0\<rparr>))"

lemma sock_Write_result:
  "sock_Write s p = (n, e, s') \<Longrightarrow>
    n \<le> length p \<and> so_sent s' = so_sent s @ take n p \<and> (e = None \<longrightarrow> n = length p)"
  by (auto simp: sock_Write_def split: option.splits if_splits)

interpretation sock: io_writer sock_Write so_sent "\<lambda>_. True"
  by unfold_locales (use sock_Write_result in blast)+

section \<open>Counting bytes\<close>

record ioByteCounter =
  enabled :: bool
  readBytes :: u64
  writtenBytes :: u64

definition newIOByteCounter :: "bool \<Rightarrow> ioByteCounter" where
  "newIOByteCounter b = \<lparr>enabled = b, readBytes = 0, writtenBytes = 0\<rparr>"

text \<open>The methods accept a nil receiver, here \<open>None\<close>.\<close>

definition counter_setEnabled :: "bool \<Rightarrow> ioByteCounter option \<Rightarrow> ioByteCounter option" where
  "counter_setEnabled b c = map_option (\<lambda>x. x\<lparr>enabled := b\<rparr>) c"

definition counter_isEnabled :: "ioByteCounter option \<Rightarrow> bool" where
  "counter_isEnabled c = (case c of None \<Rightarrow> False | Some x \<Rightarrow> enabled x)"

definition counter_snapshot :: "ioByteCounter option \<Rightarrow> u64 \<times> u64" where
  "counter_snapshot c = (case c of None \<Rightarrow> (0, 0) | Some x \<Rightarrow> (readBytes x, writtenBytes x))"

definition counter_reset :: "ioByteCounter option \<Rightarrow> ioByteCounter option" where
  "counter_reset c = map_option (\<lambda>x. x\<lparr>readBytes := 0, writtenBytes := 0\<rparr>) c"

definition countingWriter_Write ::
  "('s \<Rightarrow> bytes \<Rightarrow> nat \<times> gerr option \<times> 's) \<Rightarrow> ioByteCounter option \<times> 's \<Rightarrow> bytes
    \<Rightarrow> nat \<times> gerr option \<times> (ioByteCounter option \<times> 's)" where
  "countingWriter_Write wr cs p =
     (case wr (snd cs) p of
        (n, e, s') \<Rightarrow>
          (n, e,
           (if n > 0 \<and> fst cs \<noteq> None \<and> counter_isEnabled (fst cs)
            then map_option (\<lambda>x. x\<lparr>writtenBytes := writtenBytes x + of_nat n\<rparr>) (fst cs)
            else fst cs,
            s')))"

definition countingReader_Read ::
  "('s \<Rightarrow> nat \<Rightarrow> bytes \<times> gerr option \<times> 's) \<Rightarrow> ioByteCounter option \<times> 's \<Rightarrow> nat
    \<Rightarrow> bytes \<times> gerr option \<times> (ioByteCounter option \<times> 's)" where
  "countingReader_Read rd cs n =
     (case rd (snd cs) n of
        (bs, e, s') \<Rightarrow>
          (bs, e,
           (if length bs > 0 \<and> fst cs \<noteq> None \<and> counter_isEnabled (fst cs)
            then map_option (\<lambda>x. x\<lparr>readBytes := readBytes x + of_nat (length bs)\<rparr>) (fst cs)
            else fst cs,
            s')))"

text \<open>The invariant that ties an enabled counter to what the socket sent since its last reset.\<close>

definition counts_from :: "nat \<Rightarrow> bool \<Rightarrow> ioByteCounter option \<times> sock_out \<Rightarrow> bool" where
  "counts_from n0 tracked cs \<longleftrightarrow>
     (case fst cs of
        None \<Rightarrow> \<not> tracked \<and> n0 \<le> length (so_sent (snd cs))
      | Some c \<Rightarrow> tracked \<and> enabled c
          \<and> (\<exists>k. length (so_sent (snd cs)) = n0 + k \<and> writtenBytes c = of_nat k))"

lemma counting_Write_result:
  assumes "countingWriter_Write sock_Write cs p = (n, e, cs')" and "counts_from n0 t cs"
  shows "n \<le> length p \<and> so_sent (snd cs') = so_sent (snd cs) @ take n p \<and> counts_from n0 t cs'
    \<and> (e = None \<longrightarrow> n = length p)"
proof -
  obtain s' where s: "sock_Write (snd cs) p = (n, e, s')" and s': "snd cs' = s'"
    using assms(1) by (auto simp: countingWriter_Write_def split: prod.splits)
  note res = sock_Write_result [OF s]
  have "counts_from n0 t cs'"
  proof (cases "fst cs")
    case None
    then have "fst cs' = None" using assms(1) s by (auto simp: countingWriter_Write_def)
    with assms(2) None res s' show ?thesis by (simp add: counts_from_def)
  next
    case (Some c)
    with assms(2) obtain k where t and en: "enabled c" and k: "length (so_sent (snd cs)) = n0 + k" "writtenBytes c = of_nat k"
      by (auto simp: counts_from_def)
    have len: "length (so_sent s') = n0 + (k + n)" using res k by simp
    have "fst cs' = Some (c\<lparr>writtenBytes := of_nat (k + n)\<rparr>) \<or> n = 0 \<and> fst cs' = Some c"
      using assms(1) s Some en k
      by (cases "n > 0") (auto simp: countingWriter_Write_def counter_isEnabled_def)
    with \<open>t\<close> len en k s' show ?thesis by (auto simp: counts_from_def)
  qed
  with res s' show ?thesis by simp
qed

interpretation cnt: io_writer "countingWriter_Write sock_Write" "\<lambda>cs. so_sent (snd cs)" "counts_from n0 t"
  for n0 t
  by unfold_locales (use counting_Write_result in blast)+

section \<open>The buffered writer\<close>

text \<open>
  \<^verbatim>\<open>bufio.Writer\<close> of capacity \<open>bw_cap\<close> over an underlying writer: bytes wait in \<open>bw_buf\<close>; a larger
  write goes straight through when nothing waits; the first error sticks. \<open>Write\<close> is given its
  loop as recursion on the bytes left.
\<close>

type_synonym conn_sink = "ioByteCounter option \<times> sock_out"

abbreviation conn_Write :: "conn_sink \<Rightarrow> bytes \<Rightarrow> nat \<times> gerr option \<times> conn_sink" where
  "conn_Write \<equiv> countingWriter_Write sock_Write"

record bufw =
  bw_buf :: bytes
  bw_cap :: nat
  bw_err :: "gerr option"
  bw_wr :: conn_sink

definition bufw_Flush :: "bufw \<Rightarrow> gerr option \<times> bufw" where
  "bufw_Flush b =
     (case bw_err b of
        Some e \<Rightarrow> (Some e, b)
      | None \<Rightarrow>
          if bw_buf b = [] then (None, b)
          else (case conn_Write (bw_wr b) (bw_buf b) of
                  (n, e, s') \<Rightarrow>
                    (let e' = (if n < length (bw_buf b) \<and> e = None then Some (PlainErr ''short write'') else e)
                     in case e' of
                          Some x \<Rightarrow> (Some x, b\<lparr>bw_buf := drop n (bw_buf b), bw_err := Some x, bw_wr := s'\<rparr>)
                        | None \<Rightarrow> (None, b\<lparr>bw_buf := [], bw_wr := s'\<rparr>))))"

lemma bufw_Flush_empties: "bufw_Flush b = (e, b') \<Longrightarrow> bw_err b' = None \<Longrightarrow> bw_buf b' = []"
  by (auto simp: bufw_Flush_def Let_def split: option.splits if_splits prod.splits)

lemma conn_Write_result:
  "conn_Write cs p = (n, e, cs') \<Longrightarrow>
    n \<le> length p \<and> so_sent (snd cs') = so_sent (snd cs) @ take n p \<and> (e = None \<longrightarrow> n = length p)"
  by (auto simp: countingWriter_Write_def split: prod.splits dest: sock_Write_result)

function bufw_Write_loop :: "bufw \<Rightarrow> bytes \<Rightarrow> nat \<Rightarrow> nat \<times> gerr option \<times> bufw" where
  "bufw_Write_loop b p nn =
     (if length p > bw_cap b - length (bw_buf b) \<and> bw_err b = None
      then
        if bw_buf b = []
        then (case conn_Write (bw_wr b) p of
                (n, e, s') \<Rightarrow> bufw_Write_loop (b\<lparr>bw_err := e, bw_wr := s'\<rparr>) (drop n p) (nn + n))
        else
          let n = min (bw_cap b - length (bw_buf b)) (length p)
          in bufw_Write_loop (snd (bufw_Flush (b\<lparr>bw_buf := bw_buf b @ take n p\<rparr>))) (drop n p) (nn + n)
      else if bw_err b \<noteq> None then (nn, bw_err b, b)
      else (nn + length p, None, b\<lparr>bw_buf := bw_buf b @ p\<rparr>))"
  by pat_completeness auto
termination
proof (relation "measure (\<lambda>(b, p, nn). if bw_err b \<noteq> None then 0
    else 2 * length p + (if bw_buf b = [] then 1 else 2))", goal_cases)
  case (2 b p nn n z e s')
  then have "conn_Write (bw_wr b) p = (n, e, s')" by simp
  from conn_Write_result [OF this] 2 show ?case by auto
next
  case (3 b p nn n)
  obtain e b' where f: "bufw_Flush (b\<lparr>bw_buf := bw_buf b @ take n p\<rparr>) = (e, b')" by fastforce
  from bufw_Flush_empties [OF f] 3 f show ?case by auto
qed simp

declare bufw_Write_loop.simps [simp del]

definition bufw_Write :: "bufw \<Rightarrow> bytes \<Rightarrow> nat \<times> gerr option \<times> bufw" where
  "bufw_Write b p = bufw_Write_loop b p 0"

text \<open>Everything a buffered writer has accepted: what went out and what waits.\<close>

definition bufw_out :: "bufw \<Rightarrow> bytes" where
  "bufw_out b = so_sent (snd (bw_wr b)) @ bw_buf b"

lemma bufw_Flush_result:
  "bufw_Flush b = (e, b') \<Longrightarrow> bufw_out b' = bufw_out b \<and> bw_err b' = e
    \<and> (e = None \<longrightarrow> so_sent (snd (bw_wr b')) = bufw_out b)"
  by (auto simp: bufw_Flush_def bufw_out_def Let_def split: option.splits if_splits prod.splits
      dest!: conn_Write_result)

text \<open>
  A failed direct write loses nothing of what was accepted before; the accepted bytes are a
  prefix, and a nil error means all of them.
\<close>

lemma bufw_Write_loop_result:
  "bufw_Write_loop b p nn = (m, e, b') \<Longrightarrow>
    \<exists>n. m = nn + n \<and> n \<le> length p \<and> bufw_out b' = bufw_out b @ take n p \<and> (e = None \<longrightarrow> n = length p)"
proof (induction b p nn arbitrary: m e b' rule: bufw_Write_loop.induct)
  case (1 b p nn)
  show ?case
  proof (cases "length p > bw_cap b - length (bw_buf b) \<and> bw_err b = None")
    case False
    with "1.prems" show ?thesis
      by (subst (asm) bufw_Write_loop.simps) (auto simp: bufw_out_def split: if_splits)
  next
    case go: True
    show ?thesis
    proof (cases "bw_buf b = []")
      case True
      obtain n1 e1 s1 where w: "conn_Write (bw_wr b) p = (n1, e1, s1)"
        using prod_cases3 by blast
      with go True "1.prems"
      have "bufw_Write_loop (b\<lparr>bw_err := e1, bw_wr := s1\<rparr>) (drop n1 p) (nn + n1) = (m, e, b')"
        by (subst (asm) bufw_Write_loop.simps) simp
      from "1.IH"(1) [OF go True w [symmetric] refl this] conn_Write_result [OF w] obtain n where
        "m = nn + n1 + n" "n \<le> length p - n1" "n1 \<le> length p"
        "bufw_out b' = bufw_out b @ take n1 p @ take n (drop n1 p)" "e = None \<longrightarrow> n = length p - n1"
        using True by (auto simp: bufw_out_def)
      then show ?thesis by (intro exI [of _ "n1 + n"]) (auto simp: take_add)
    next
      case False
      define n1 where "n1 = min (bw_cap b - length (bw_buf b)) (length p)"
      obtain e1 b1 where f: "bufw_Flush (b\<lparr>bw_buf := bw_buf b @ take n1 p\<rparr>) = (e1, b1)"
        using prod.exhaust by blast
      with go False "1.prems" have "bufw_Write_loop b1 (drop n1 p) (nn + n1) = (m, e, b')"
        by (subst (asm) bufw_Write_loop.simps) (simp add: Let_def n1_def)
      with "1.IH"(2) [OF go False n1_def, of m e b'] f obtain n where
        n: "m = nn + n1 + n" "n \<le> length p - n1" "bufw_out b' = bufw_out b1 @ take n (drop n1 p)"
        "e = None \<longrightarrow> n = length p - n1"
        by auto
      have "bufw_out b1 = bufw_out b @ take n1 p"
        using bufw_Flush_result [OF f] by (simp add: bufw_out_def)
      with n have "bufw_out b' = bufw_out b @ take n1 p @ take n (drop n1 p)" by simp
      moreover have "n1 \<le> length p" by (simp add: n1_def)
      ultimately show ?thesis using n by (intro exI [of _ "n1 + n"]) (auto simp: take_add)
    qed
  qed
qed

lemma bufw_Write_result:
  "bufw_Write b p = (n, e, b') \<Longrightarrow>
    n \<le> length p \<and> bufw_out b' = bufw_out b @ take n p \<and> (e = None \<longrightarrow> n = length p)"
  unfolding bufw_Write_def by (drule bufw_Write_loop_result) auto

lemma bufw_Flush_counts: "counts_from n0 t (bw_wr b) \<Longrightarrow> counts_from n0 t (bw_wr (snd (bufw_Flush b)))"
  by (auto simp: bufw_Flush_def Let_def split: option.splits prod.splits dest!: counting_Write_result)

lemma bufw_Write_loop_counts:
  "counts_from n0 t (bw_wr b) \<Longrightarrow> counts_from n0 t (bw_wr (snd (snd (bufw_Write_loop b p nn))))"
proof (induction b p nn rule: bufw_Write_loop.induct)
  case (1 b p nn)
  obtain n e s' where w: "conn_Write (bw_wr b) p = (n, e, s')"
    using prod_cases3 by blast
  with 1 counting_Write_result [OF w "1.prems"] bufw_Flush_counts show ?case
    by (subst bufw_Write_loop.simps) (auto simp: Let_def)
qed

text \<open>The contract, kept together with the byte count of the connection underneath.\<close>

interpretation bw: io_writer bufw_Write bufw_out "\<lambda>b. counts_from n0 t (bw_wr b)" for n0 t
proof unfold_locales
  fix b p n e b'
  assume "counts_from n0 t (bw_wr b)" and w: "bufw_Write b p = (n, e, b')"
  then have "counts_from n0 t (bw_wr b')"
    using bufw_Write_loop_counts [of n0 t b p 0] by (simp add: bufw_Write_def)
  with bufw_Write_result [OF w] show "n \<le> length p \<and> bufw_out b' = bufw_out b @ take n p \<and> counts_from n0 t (bw_wr b')"
    by blast
qed (use bufw_Write_result in blast)

section \<open>Reading in pieces\<close>

text \<open>
  A socket's receiving side: the bytes to come, the largest sizes in which the next reads deliver
  them (one more than the listed number; unlimited after the list), and the error at the end.
\<close>

record sock_in =
  si_data :: bytes
  si_chunks :: "nat list"
  si_end :: gerr

definition sock_Read :: "sock_in \<Rightarrow> nat \<Rightarrow> bytes \<times> gerr option \<times> sock_in" where
  "sock_Read s n =
     (if si_data s = [] then ([], Some (si_end s), s)
      else
        let k = (case si_chunks s of [] \<Rightarrow> n | c # _ \<Rightarrow> min n (Suc c))
        in (take k (si_data s), None, s\<lparr>si_data := drop k (si_data s), si_chunks := tl (si_chunks s)\<rparr>))"

text \<open>\<^verbatim>\<open>io.ReadFull\<close> over any \<^verbatim>\<open>io.Reader\<close>; \<open>acc\<close> is what the buffer holds so far.\<close>

partial_function (option) ReadFull_loop ::
  "('s \<Rightarrow> nat \<Rightarrow> bytes \<times> gerr option \<times> 's) \<Rightarrow> 's \<Rightarrow> nat \<Rightarrow> bytes \<Rightarrow> (bytes \<times> gerr option \<times> 's) option" where
  "ReadFull_loop rd s n acc =
     (if n \<le> length acc then Some (acc, None, s)
      else (case rd s (n - length acc) of
              (bs, None, s') \<Rightarrow> ReadFull_loop rd s' n (acc @ bs)
            | (bs, Some e, s') \<Rightarrow>
                (let acc' = acc @ bs
                 in if n \<le> length acc' then Some (acc', None, s')
                    else Some (acc', Some (if acc' \<noteq> [] \<and> e = EOF then UnexpectedEOF else e), s'))))"

definition sock_reader :: "sock_in \<Rightarrow> reader" where
  "sock_reader s = \<lparr>rd_data = si_data s, rd_end = si_end s\<rparr>"

lemma ReadFull_loop_sock:
  "length acc \<le> n \<Longrightarrow> \<exists>bs e s'. ReadFull_loop sock_Read s n acc = Some (bs, e, s')
    \<and> io_ReadFull \<lparr>rd_data = acc @ si_data s, rd_end = si_end s\<rparr> n = (bs, e, sock_reader s')"
proof (induction "length (si_data s)" arbitrary: s acc rule: less_induct)
  case less
  show ?case
  proof (cases "n \<le> length acc")
    case True
    with less.prems show ?thesis by (simp add: ReadFull_loop.simps io_ReadFull_def sock_reader_def)
  next
    case False
    show ?thesis
    proof (cases "si_data s = []")
      case True
      with False show ?thesis
        by (simp add: ReadFull_loop.simps [of _ s] sock_Read_def io_ReadFull_def sock_reader_def)
    next
      case data: False
      define k where "k = (case si_chunks s of [] \<Rightarrow> n - length acc | c # _ \<Rightarrow> min (n - length acc) (Suc c))"
      define s1 where "s1 = s\<lparr>si_data := drop k (si_data s), si_chunks := tl (si_chunks s)\<rparr>"
      have k: "0 < k" "k \<le> n - length acc" using False by (auto simp: k_def split: list.splits)
      then have "length (si_data s1) < length (si_data s)" and "length (acc @ take k (si_data s)) \<le> n"
        using data False by (auto simp: s1_def)
      from less.hyps [OF this]
      have "\<exists>bs e s'. ReadFull_loop sock_Read s1 n (acc @ take k (si_data s)) = Some (bs, e, s')
        \<and> io_ReadFull \<lparr>rd_data = acc @ si_data s, rd_end = si_end s\<rparr> n = (bs, e, sock_reader s')"
        by (simp add: s1_def)
      moreover have "sock_Read s (n - length acc) = (take k (si_data s), None, s1)"
        using data by (simp add: sock_Read_def Let_def k_def s1_def)
      ultimately show ?thesis using False by (simp add: ReadFull_loop.simps [of _ s])
    qed
  qed
qed

text \<open>The counter after \<open>k\<close> bytes were read.\<close>

definition read_count :: "nat \<Rightarrow> ioByteCounter option \<Rightarrow> ioByteCounter option" where
  "read_count k c =
     (if counter_isEnabled c then map_option (\<lambda>x. x\<lparr>readBytes := readBytes x + of_nat k\<rparr>) c else c)"

lemma read_count_add: "read_count j (read_count k c) = read_count (k + j) c"
  by (cases c) (auto simp: read_count_def counter_isEnabled_def)

lemma read_count_0 [simp]: "read_count 0 c = c"
  by (cases c) (auto simp: read_count_def)

lemma countingReader_Read_eq:
  "countingReader_Read rd (c, s) n = (case rd s n of (bs, e, s') \<Rightarrow> (bs, e, (read_count (length bs) c, s')))"
  by (cases c) (auto simp: countingReader_Read_def read_count_def split: prod.splits)

lemma ReadFull_loop_acc:
  assumes "length acc \<le> n" and "ReadFull_loop sock_Read s n acc = Some (bs, e, s')"
  shows "length acc \<le> length bs"
  using ReadFull_loop_sock [OF assms(1), of s] assms by (auto simp: io_ReadFull_def split: if_splits)

lemma ReadFull_loop_counting:
  "length acc \<le> n \<Longrightarrow> ReadFull_loop sock_Read s n acc = Some (bs, e, s') \<Longrightarrow>
    ReadFull_loop (countingReader_Read sock_Read) (c, s) n acc
      = Some (bs, e, (read_count (length bs - length acc) c, s'))"
proof (induction "length (si_data s)" arbitrary: s acc c rule: less_induct)
  case less
  show ?case
  proof (cases "n \<le> length acc")
    case True
    with less.prems show ?thesis by (simp add: ReadFull_loop.simps)
  next
    case False
    obtain ds e1 s1 where r: "sock_Read s (n - length acc) = (ds, e1, s1)" using prod_cases3 by blast
    show ?thesis
    proof (cases e1)
      case (Some x)
      with less.prems False r show ?thesis
        by (auto simp: ReadFull_loop.simps [of _ s] ReadFull_loop.simps [of _ "(c, s)"] countingReader_Read_eq
            Let_def split: if_splits)
    next
      case None
      with r False have fit: "length (si_data s1) < length (si_data s)" "length (acc @ ds) \<le> n" 
        by (cases "si_data s"; auto simp: sock_Read_def Let_def split: list.splits)+
      have loop: "ReadFull_loop sock_Read s1 n (acc @ ds) = Some (bs, e, s')"
        using less.prems(2) False r None by (simp add: ReadFull_loop.simps [of _ s])
      from less.hyps [OF fit loop, of "read_count (length ds) c"] ReadFull_loop_acc [OF fit(2) loop]
      show ?thesis using False r None
        by (simp add: ReadFull_loop.simps [of _ "(c, s)"] countingReader_Read_eq read_count_add)
    qed
  qed
qed

section \<open>Properties\<close>



text \<open>
  Segmentation does not matter: over the counting reader of a socket that delivers its bytes in
  pieces of any sizes, \<^verbatim>\<open>io.ReadFull\<close> returns, with the bytes, the error and the remaining stream that
  the reader of the packet layer gives for the same bytes in one piece, and an enabled counter has
  grown by the number of bytes returned.
\<close>

theorem ReadFull_segmentation:
  "\<exists>bs e s'. ReadFull_loop (countingReader_Read sock_Read) (c, s) n []
        = Some (bs, e, (read_count (length bs) c, s'))
    \<and> io_ReadFull (sock_reader s) n = (bs, e, sock_reader s')"
proof -
  from ReadFull_loop_sock [of "[]" n s] obtain bs e s' where
    "ReadFull_loop sock_Read s n [] = Some (bs, e, s')" "io_ReadFull (sock_reader s) n = (bs, e, sock_reader s')"
    by (auto simp: sock_reader_def)
  with ReadFull_loop_counting [of "[]" n s bs e s' c] show ?thesis by simp
qed

end
