(* ===== verification/Stmt_Ids.thy ===== *)
theory Stmt_Ids
  imports Machnet_Types
begin

text \<open>
  The statement-id allocator of a connection (\<^verbatim>\<open>nextStmtID\<close> and \<^verbatim>\<open>releaseStmtID\<close> of
  \<^verbatim>\<open>machnet/client.go\<close>): a table of 1024 flags, a count and a round-robin cursor, guarded by a mutex
  of its own, so that the two operations are atomic steps. The contract of an id allocator is a
  locale; what its clients may rely on is proved there once and holds of the code's table by
  interpretation.
\<close>

section \<open>The contract of an id allocator\<close>

text \<open>
  The ids that clients hold when an allocator is used from its initial state, and clients release
  only ids they hold.
\<close>

inductive held ::
  "('s \<Rightarrow> nat outcome \<times> 's) \<Rightarrow> (nat \<Rightarrow> 's \<Rightarrow> 's) \<Rightarrow> 's \<Rightarrow> 's \<Rightarrow> nat list \<Rightarrow> bool"
  for alloc release init where
    held_init: "held alloc release init init []"
  | held_alloc: "held alloc release init s hs \<Longrightarrow> alloc s = (Ok i, s') \<Longrightarrow> held alloc release init s' (i # hs)"
  | held_fail: "held alloc release init s hs \<Longrightarrow> alloc s = (Err e, s') \<Longrightarrow> held alloc release init s' hs"
  | held_release: "held alloc release init s hs \<Longrightarrow> i \<in> set hs
      \<Longrightarrow> held alloc release init (release i s) (removeAll i hs)"

inductive_cases held_elim: "held alloc release init s hs"

locale id_allocator =
  fixes alloc :: "'s \<Rightarrow> nat outcome \<times> 's"
    and release :: "nat \<Rightarrow> 's \<Rightarrow> 's"
    and used :: "'s \<Rightarrow> nat set"
    and inv :: "'s \<Rightarrow> bool"
    and init :: 's
    and limit :: nat
  assumes init_inv: "inv init" and init_used: "used init = {}"
    and used_range: "inv s \<Longrightarrow> used s \<subseteq> {..<limit}"
    and alloc_ok: "inv s \<Longrightarrow> alloc s = (Ok i, s') \<Longrightarrow> i \<notin> used s \<and> used s' = insert i (used s) \<and> inv s'"
    and alloc_err: "inv s \<Longrightarrow> alloc s = (Err e, s') \<Longrightarrow> s' = s \<and> used s = {..<limit}"
    and alloc_no_panic: "inv s \<Longrightarrow> \<not> is_panic (fst (alloc s))"
    and release_used: "inv s \<Longrightarrow> inv (release i s) \<and> used (release i s) = used s - {i}"
begin

text \<open>No id is held twice, the table knows exactly the held ids, and it never refuses while one of
  the ids is free.\<close>

lemma held_exact: "held alloc release init s hs \<Longrightarrow> inv s \<and> distinct hs \<and> set hs = used s"
proof (induction rule: held.induct)
  case held_init
  then show ?case using init_inv init_used by simp
next
  case (held_alloc s hs i s')
  then show ?case using alloc_ok by auto
next
  case (held_fail s hs e s')
  then show ?case using alloc_err by blast
next
  case (held_release s hs i)
  then show ?case using release_used by (auto simp: distinct_removeAll)
qed

lemma held_bound: "held alloc release init s hs \<Longrightarrow> length hs \<le> limit"
  using held_exact [of s hs] used_range [of s]
  by (metis card_lessThan card_mono distinct_card finite_lessThan)

lemma alloc_available:
  assumes "held alloc release init s hs" and "length hs < limit"
  shows "\<exists>i s'. alloc s = (Ok i, s') \<and> i \<notin> set hs \<and> i < limit"
proof -
  note h = held_exact [OF assms(1)]
  have "used s \<noteq> {..<limit}"
    using h assms(2) by (metis card_lessThan distinct_card nat_neq_iff)
  then obtain i s' where a: "alloc s = (Ok i, s')"
    using alloc_err [of s] alloc_no_panic [of s] h by (cases "alloc s"; cases "fst (alloc s)") auto
  from alloc_ok [OF _ a] h have "i \<notin> set hs" "used s' = insert i (used s)" "inv s'" by auto
  with used_range [of s'] a show ?thesis by blast
qed

end

section \<open>The table\<close>

abbreviation (input) stmtIDLimit :: nat where "stmtIDLimit \<equiv> 1024"

record stmt_table =
  stmtCursor :: nat
  stmtUsed :: "bool list"
  stmtUsedCnt :: nat

text \<open>The zero value of the fields.\<close>

definition new_stmt_table :: stmt_table where
  "new_stmt_table = \<lparr>stmtCursor = 0, stmtUsed = replicate stmtIDLimit False, stmtUsedCnt = 0\<rparr>"

text \<open>The probing loop: candidates \<open>start, start + 1, ...\<close> modulo the limit.\<close>

function probe :: "bool list \<Rightarrow> nat \<Rightarrow> nat \<Rightarrow> nat option" where
  "probe usd start i =
     (if i < stmtIDLimit
      then
        let candidate = (start + i) mod stmtIDLimit
        in if \<not> usd ! candidate then Some candidate else probe usd start (Suc i)
      else None)"
  by pat_completeness auto
termination by (relation "measure (\<lambda>(usd, start, i). stmtIDLimit - i)") auto

declare probe.simps [simp del]

definition stmt_overflow :: gerr where
  "stmt_overflow = makeClientErr ''Statement ID overflow''"

definition nextStmtID :: "stmt_table \<Rightarrow> nat outcome \<times> stmt_table" where
  "nextStmtID c =
     (if stmtUsedCnt c \<ge> stmtIDLimit then (Err stmt_overflow, c)
      else
        case probe (stmtUsed c) (stmtCursor c mod stmtIDLimit) 0 of
          Some candidate \<Rightarrow>
            (Ok candidate,
             c\<lparr>stmtUsed := (stmtUsed c)[candidate := True], stmtUsedCnt := stmtUsedCnt c + 1,
               stmtCursor := (candidate + 1) mod stmtIDLimit\<rparr>)
        | None \<Rightarrow> (Err stmt_overflow, c))"

definition releaseStmtID :: "nat \<Rightarrow> stmt_table \<Rightarrow> stmt_table" where
  "releaseStmtID i c =
     (if i \<ge> stmtIDLimit then c
      else if stmtUsed c ! i
      then c\<lparr>stmtUsed := (stmtUsed c)[i := False],
             stmtUsedCnt := (if stmtUsedCnt c > 0 then stmtUsedCnt c - 1 else stmtUsedCnt c)\<rparr>
      else c)"

section \<open>The table is an id allocator\<close>

definition used_ids :: "stmt_table \<Rightarrow> nat set" where
  "used_ids c = {i. i < stmtIDLimit \<and> stmtUsed c ! i}"

definition table_inv :: "stmt_table \<Rightarrow> bool" where
  "table_inv c \<longleftrightarrow> length (stmtUsed c) = stmtIDLimit \<and> stmtUsedCnt c = card (used_ids c)
     \<and> stmtCursor c < stmtIDLimit"

lemma used_ids_subset: "used_ids c \<subseteq> {..<stmtIDLimit}"
  by (auto simp: used_ids_def)

lemma finite_used_ids [simp]: "finite (used_ids c)"
  by (rule finite_subset [OF used_ids_subset]) simp

text \<open>The loop finds the first free candidate in cyclic order, and only a full table has none.\<close>

lemma probe_Some:
  "probe usd start i = Some c \<Longrightarrow>
    \<exists>k. i \<le> k \<and> k < stmtIDLimit \<and> c = (start + k) mod stmtIDLimit \<and> \<not> usd ! c
      \<and> (\<forall>j. i \<le> j \<and> j < k \<longrightarrow> usd ! ((start + j) mod stmtIDLimit))"
proof (induction usd start i rule: probe.induct)
  case (1 usd start i)
  show ?case
  proof (cases "i < stmtIDLimit \<and> usd ! ((start + i) mod stmtIDLimit)")
    case True
    with "1.prems" have "probe usd start (Suc i) = Some c" by (subst (asm) probe.simps) simp
    with "1.IH" True obtain k where "Suc i \<le> k" "k < stmtIDLimit" "c = (start + k) mod stmtIDLimit" "\<not> usd ! c"
      "\<forall>j. Suc i \<le> j \<and> j < k \<longrightarrow> usd ! ((start + j) mod stmtIDLimit)" by auto
    with True show ?thesis by (metis Suc_leI Suc_le_lessD le_neq_implies_less less_imp_le_nat)
  next
    case False
    with "1.prems" show ?thesis
      by (subst (asm) probe.simps) (auto simp: Let_def split: if_splits)
  qed
qed

lemma probe_None:
  "probe usd start i = None \<Longrightarrow> i \<le> j \<Longrightarrow> j < stmtIDLimit \<Longrightarrow> usd ! ((start + j) mod stmtIDLimit)"
proof (induction usd start i rule: probe.induct)
  case (1 usd start i)
  then have "i < stmtIDLimit" by simp
  with "1.prems"(1) have u: "usd ! ((start + i) mod stmtIDLimit)" "probe usd start (Suc i) = None"
    by (subst (asm) probe.simps; auto simp: Let_def split: if_splits)+
  with "1.IH" \<open>i < stmtIDLimit\<close> "1.prems"(2,3) show ?case by (cases "i = j") auto
qed

lemma cyclic_reach: "start < n \<Longrightarrow> c < n \<Longrightarrow> \<exists>j < n. (start + j) mod n = (c :: nat)"
  by (rule exI [of _ "(c + (n - start)) mod n"]) (auto simp: mod_add_right_eq)

lemma probe_full: "start < stmtIDLimit \<Longrightarrow> probe usd start 0 = None \<Longrightarrow> c < stmtIDLimit \<Longrightarrow> usd ! c"
  using cyclic_reach [of start stmtIDLimit c] probe_None [of usd start 0] by auto

lemma used_ids_mark:
  "length (stmtUsed c) = stmtIDLimit \<Longrightarrow> i < stmtIDLimit \<Longrightarrow> stmtUsed c' = (stmtUsed c)[i := b] \<Longrightarrow>
    used_ids c' = (if b then insert i (used_ids c) else used_ids c - {i})"
  by (auto simp: used_ids_def nth_list_update split: if_splits)

lemma nextStmtID_Ok:
  assumes inv: "table_inv c" and ok: "nextStmtID c = (Ok i, c')"
  shows "i < stmtIDLimit" and "i \<notin> used_ids c" and "used_ids c' = insert i (used_ids c)" and "table_inv c'"
proof -
  from ok have p: "probe (stmtUsed c) (stmtCursor c) 0 = Some i"
    and c': "c' = c\<lparr>stmtUsed := (stmtUsed c)[i := True], stmtUsedCnt := stmtUsedCnt c + 1,
               stmtCursor := (i + 1) mod stmtIDLimit\<rparr>"
    using inv by (auto simp: nextStmtID_def table_inv_def split: if_splits option.splits)
  from probe_Some [OF p] show i: "i < stmtIDLimit" and free: "i \<notin> used_ids c"
    by (auto simp: used_ids_def)
  show used: "used_ids c' = insert i (used_ids c)"
    using used_ids_mark [of c i c' True] inv i by (simp add: c' table_inv_def)
  with inv free show "table_inv c'" by (simp add: table_inv_def) (simp add: c')
qed

lemma nextStmtID_Err:
  assumes inv: "table_inv c" and err: "nextStmtID c = (Err e, c')"
  shows "c' = c" and "used_ids c = {..<stmtIDLimit}" and "e = stmt_overflow"
proof -
  from err show "c' = c" "e = stmt_overflow"
    by (auto simp: nextStmtID_def split: if_splits option.splits)
  from err consider "stmtUsedCnt c \<ge> stmtIDLimit" | "probe (stmtUsed c) (stmtCursor c) 0 = None"
    using inv by (auto simp: nextStmtID_def table_inv_def split: if_splits option.splits)
  then show "used_ids c = {..<stmtIDLimit}"
  proof cases
    case 1
    with inv have "card {..<stmtIDLimit} \<le> card (used_ids c)" by (simp add: table_inv_def)
    then show ?thesis by (intro card_seteq used_ids_subset) simp_all
  next
    case 2
    with probe_full [of "stmtCursor c" "stmtUsed c"] inv show ?thesis
      by (auto simp: used_ids_def table_inv_def)
  qed
qed

lemma releaseStmtID_used:
  assumes "table_inv c"
  shows "table_inv (releaseStmtID i c) \<and> used_ids (releaseStmtID i c) = used_ids c - {i}"
proof (cases "i < stmtIDLimit \<and> stmtUsed c ! i")
  case True
  then have r: "releaseStmtID i c = c\<lparr>stmtUsed := (stmtUsed c)[i := False],
             stmtUsedCnt := (if stmtUsedCnt c > 0 then stmtUsedCnt c - 1 else stmtUsedCnt c)\<rparr>"
    by (simp add: releaseStmtID_def)
  from True have i: "i \<in> used_ids c" by (simp add: used_ids_def)
  have used: "used_ids (releaseStmtID i c) = used_ids c - {i}"
    using used_ids_mark [of c i "releaseStmtID i c" False] assms True
    by (simp add: r table_inv_def)
  moreover have "stmtUsedCnt (releaseStmtID i c) = card (used_ids c - {i})"
    using assms i by (auto simp: r table_inv_def)
  ultimately show ?thesis using assms by (simp add: table_inv_def) (simp add: r)
next
  case False
  with assms show ?thesis by (auto simp: releaseStmtID_def used_ids_def)
qed

interpretation stmt: id_allocator nextStmtID releaseStmtID used_ids table_inv new_stmt_table stmtIDLimit
proof unfold_locales
  show "table_inv new_stmt_table"
    by (simp add: table_inv_def new_stmt_table_def used_ids_def cong: conj_cong)
  show "used_ids new_stmt_table = {}"
    by (simp add: new_stmt_table_def used_ids_def cong: conj_cong)
  show "\<not> is_panic (fst (nextStmtID s))" for s
    by (auto simp: nextStmtID_def split: option.splits)
  show "used_ids s \<subseteq> {..<stmtIDLimit}" for s by (rule used_ids_subset)
  show "i \<notin> used_ids s \<and> used_ids s' = insert i (used_ids s) \<and> table_inv s'"
    if "table_inv s" "nextStmtID s = (Ok i, s')" for s i s'
    using nextStmtID_Ok [OF that] by blast
  show "s' = s \<and> used_ids s = {..<stmtIDLimit}"
    if "table_inv s" "nextStmtID s = (Err e, s')" for s e s'
    using nextStmtID_Err [OF that] by blast
  show "table_inv (releaseStmtID i s) \<and> used_ids (releaseStmtID i s) = used_ids s - {i}"
    if "table_inv s" for s i
    using that by (rule releaseStmtID_used)
qed

section \<open>Properties\<close>

text \<open>
  C12. Ids are exclusive and never leak inside the allocator: in every state reachable by allocating
  and by releasing held ids, the held ids are pairwise different, are exactly the flagged entries,
  the counter equals their number (at most 1024), and while fewer than 1024 are held the next
  allocation succeeds with an id that nobody holds.
\<close>

theorem stmt_ids_exclusive:
  assumes "held nextStmtID releaseStmtID new_stmt_table s hs"
  shows "distinct hs \<and> set hs = used_ids s \<and> stmtUsedCnt s = length hs \<and> length hs \<le> 1024
    \<and> (length hs < 1024 \<longrightarrow> (\<exists>i s'. nextStmtID s = (Ok i, s') \<and> i \<notin> set hs \<and> i < 1024))"
  using stmt.held_exact [OF assms] stmt.held_bound [OF assms] stmt.alloc_available [OF assms]
  by (auto simp: table_inv_def distinct_card dest: sym)

theorem stmt_ids_exclusive_witness:
  "stmtUsedCnt new_stmt_table = 0 \<and> (\<exists>i s'. nextStmtID new_stmt_table = (Ok i, s') \<and> i < 1024)"
  using stmt_ids_exclusive [OF held_init] by simp

text \<open>
  Allocation is round robin: the id given out is the first free one at or after the cursor, going
  around the table, and the cursor moves just past it, so an id that was released is not given
  out again before every other free id has had its turn.
\<close>

theorem stmt_ids_round_robin:
  assumes "table_inv s" and "nextStmtID s = (Ok i, s')"
  shows "\<exists>k < 1024. i = (stmtCursor s + k) mod 1024 \<and> i \<notin> used_ids s
    \<and> (\<forall>j < k. (stmtCursor s + j) mod 1024 \<in> used_ids s)
    \<and> stmtCursor s' = (i + 1) mod 1024"
proof -
  from assms have "probe (stmtUsed s) (stmtCursor s) 0 = Some i" and "stmtCursor s' = (i + 1) mod 1024"
    by (auto simp: nextStmtID_def table_inv_def split: if_splits option.splits)
  from probe_Some [OF this(1)] this(2) show ?thesis by (auto simp: used_ids_def)
qed

text \<open>A table in which ids 0 to 2 are taken and the cursor is at 1.\<close>

theorem stmt_ids_round_robin_witness:
  "\<exists>k < 1024. 3 = (1 + k) mod 1024
    \<and> 3 \<notin> used_ids \<lparr>stmtCursor = 1, stmtUsed = replicate 3 True @ replicate 1021 False, stmtUsedCnt = 3\<rparr>
    \<and> (\<forall>j < k. (1 + j) mod 1024
        \<in> used_ids \<lparr>stmtCursor = 1, stmtUsed = replicate 3 True @ replicate 1021 False, stmtUsedCnt = 3\<rparr>)"
proof -
  let ?s = "\<lparr>stmtCursor = 1, stmtUsed = replicate 3 True @ replicate 1021 False, stmtUsedCnt = 3\<rparr>"
  have "used_ids ?s = {..<3}"
    by (auto simp: used_ids_def nth_append split: if_splits)
  then have "table_inv ?s" by (simp add: table_inv_def)
  moreover obtain s' where "nextStmtID ?s = (Ok 3, s')"
    by (simp add: nextStmtID_def probe.simps nth_append)
  ultimately show ?thesis using stmt_ids_round_robin [of ?s 3 s'] by auto
qed

end
