(* ===== verification/Client.thy ===== *)
theory Client
  imports Auth IO Stmt_Ids
begin

text \<open>
  The stateful part of \<^verbatim>\<open>machnet/client.go\<close>: a native connection and the exchanges it makes with the
  server. All socket I/O happens under the connection's mutex, so an operation is one step on the
  connection record.

  The peer is represented by what arrives: \<open>nc_br\<close> is the stream of bytes that the reads of the
  connection find, with the error that follows them. A read that ends in that error leaves the next
  element of \<open>nc_later\<close> for the reads after it, so that bytes which arrive after a timeout are
  there for a later exchange. The socket's deadlines are part of the state, and so is what the
  goroutine of \<^verbatim>\<open>watchContext\<close> did to them.
\<close>

section \<open>The connection\<close>

abbreviation (input) defaultFetchRows :: int where "defaultFetchRows \<equiv> 1000"
abbreviation (input) defaultReadBufferSize :: nat where "defaultReadBufferSize \<equiv> 128 * 1024"
abbreviation (input) defaultWriteBufferSize :: nat where "defaultWriteBufferSize \<equiv> 128 * 1024"
abbreviation (input) defaultConnectTimeout :: int where "defaultConnectTimeout \<equiv> 5 * 10 ^ 9"
abbreviation (input) defaultQueryTimeout :: int where "defaultQueryTimeout \<equiv> 60 * 10 ^ 9"

record NativeConn =
  nc_bw :: bufw
  nc_br :: reader
  nc_later :: "reader list"
  nc_packet :: packet
  nc_netClosed :: bool
  nc_closeErr :: "gerr option"
  nc_readDeadline :: "int option"
  nc_writeDeadline :: "int option"
  nc_localIP :: "string option"
  nc_user :: string
  nc_password :: string
  nc_authMode :: string
  nc_authKey :: "PrivateKey option"
  nc_authSigScheme :: string
  nc_queryTimeout :: int
  nc_fetchRows :: int
  nc_sessionID :: u64
  nc_serverEndian :: u32
  nc_serverVersion :: u64
  nc_closed :: bool
  nc_ids :: stmt_table

definition isClosed :: "NativeConn option \<Rightarrow> bool" where
  "isClosed c = (case c of None \<Rightarrow> True | Some x \<Rightarrow> nc_closed x)"

definition conn_close :: "NativeConn \<Rightarrow> gerr option \<times> NativeConn" where
  "conn_close c =
     (if nc_closed c then (None, c)
      else (nc_closeErr c, c\<lparr>nc_closed := True, nc_netClosed := True\<rparr>))"

definition markBrokenLocked :: "NativeConn \<Rightarrow> NativeConn" where
  "markBrokenLocked c = (if nc_closed c then c else c\<lparr>nc_closed := True, nc_netClosed := True\<rparr>)"

section \<open>Contexts and deadlines\<close>

text \<open>
  A call's context: the time, the deadline of the context, whether it can be cancelled, what
  \<^verbatim>\<open>ctx.Err()\<close> says when it is asked, and whether the watcher saw it done before it was stopped:
  while the packets were on their way, or only after the response was there. Times are in
  nanoseconds.
\<close>

datatype fire_point = DuringIO | AtReturn

record call_ctx =
  cx_now :: int
  cx_deadline :: "int option"
  cx_cancelable :: bool
  cx_fire :: "fire_point option"
  cx_err :: "string option"

definition Background :: "int \<Rightarrow> call_ctx" where
  "Background now = \<lparr>cx_now = now, cx_deadline = None, cx_cancelable = False, cx_fire = None, cx_err = None\<rparr>"

definition ctxDeadline :: "call_ctx \<Rightarrow> int \<Rightarrow> int option" where
  "ctxDeadline cx timeout =
     (let d = (if timeout > 0 then Some (cx_now cx + timeout) else None)
      in case cx_deadline cx of
           Some cd \<Rightarrow> if d = None \<or> cd < the d then Some cd else d
         | None \<Rightarrow> d)"

text \<open>
  What stopping the watcher leaves: if it fired at one of the points, it has set both deadlines to
  the present.
\<close>

definition watcher_stopped :: "call_ctx \<Rightarrow> fire_point list \<Rightarrow> NativeConn \<Rightarrow> NativeConn" where
  "watcher_stopped cx pts c =
     (if cx_cancelable cx \<and> (\<exists>p \<in> set pts. cx_fire cx = Some p)
      then c\<lparr>nc_readDeadline := Some (cx_now cx), nc_writeDeadline := Some (cx_now cx)\<rparr> else c)"

definition retireOnTimeout :: "gerr \<Rightarrow> NativeConn \<Rightarrow> gerr \<times> NativeConn" where
  "retireOnTimeout e c = (e, if e = TimeoutErr then markBrokenLocked c else c)"

definition ctxAbortErr :: "call_ctx \<Rightarrow> gerr \<Rightarrow> NativeConn \<Rightarrow> gerr \<times> NativeConn" where
  "ctxAbortErr cx e c =
     (case cx_err cx of
        Some m \<Rightarrow> (PlainErr (''connection closed: '' @ m), markBrokenLocked c)
      | None \<Rightarrow> retireOnTimeout e c)"

section \<open>Sending and receiving\<close>

text \<open>The write loop over the packets and the flush; the write loop always returns.\<close>

definition send_all :: "bytes list \<Rightarrow> bufw \<Rightarrow> gerr option \<times> bufw" where
  "send_all ps b =
     (case writePackets bufw_Write b ps of
        Some (None, b') \<Rightarrow> bufw_Flush b'
      | Some (Some e, b') \<Rightarrow> (Some e, b')
      | None \<Rightarrow> (Some (PlainErr ''no progress''), b))"

definition unexpected_protocol :: gerr where
  "unexpected_protocol = PlainErr ''unexpected protocol''"

text \<open>
  \<^verbatim>\<open>c.packet.Read(c.br)\<close>. After an error of the socket the reads continue with what arrives later; a
  protocol mismatch between fragments is found in bytes that were read and leaves the rest there.
\<close>

definition conn_Read :: "NativeConn \<Rightarrow> gerr option \<times> NativeConn" where
  "conn_Read c =
     (case Packet_Read (nc_packet c) (nc_br c) of
        (None, pkt, r) \<Rightarrow> (None, c\<lparr>nc_packet := pkt, nc_br := r\<rparr>)
      | (Some e, pkt, r) \<Rightarrow>
          (Some e, (case nc_later c of
                      [] \<Rightarrow> c\<lparr>nc_packet := pkt, nc_br := r\<rparr>
                    | s # ss \<Rightarrow>
                        if e = unexpected_protocol then c\<lparr>nc_packet := pkt, nc_br := r\<rparr>
                        else c\<lparr>nc_packet := pkt, nc_br := s, nc_later := ss\<rparr>)))"

text \<open>The received packet, checked against the expected protocol.\<close>

definition expect_protocol :: "byte \<Rightarrow> NativeConn \<Rightarrow> bytes outcome \<times> NativeConn" where
  "expect_protocol expected c =
     (if protocol (nc_packet c) \<noteq> expected then (Err unexpected_protocol, markBrokenLocked c)
      else (Ok (bslice_bytes (body (nc_packet c))), c))"

definition abort_with :: "gerr \<times> NativeConn \<Rightarrow> 'a outcome \<times> NativeConn" where
  "abort_with ec = (Err (fst ec), snd ec)"

definition set_deadlines :: "int option option \<Rightarrow> int option option \<Rightarrow> NativeConn \<Rightarrow> NativeConn" where
  "set_deadlines rd wd c =
     c\<lparr>nc_readDeadline := (case rd of None \<Rightarrow> nc_readDeadline c | Some d \<Rightarrow> d),
       nc_writeDeadline := (case wd of None \<Rightarrow> nc_writeDeadline c | Some d \<Rightarrow> d)\<rparr>"

definition exchange :: "call_ctx \<Rightarrow> bytes list \<Rightarrow> byte \<Rightarrow> NativeConn \<Rightarrow> bytes outcome \<times> NativeConn" where
  "exchange cx packets expected c =
     (case send_all packets (nc_bw c) of
        (Some e, b) \<Rightarrow> abort_with (ctxAbortErr cx e (c\<lparr>nc_bw := b\<rparr>))
      | (None, b) \<Rightarrow>
          (case conn_Read (c\<lparr>nc_bw := b\<rparr>) of
             (Some e, c') \<Rightarrow> abort_with (ctxAbortErr cx e c')
           | (None, c') \<Rightarrow> expect_protocol expected c'))"

definition closed_error :: "'a outcome" where
  "closed_error = Err (PlainErr ''connection closed'')"

text \<open>
  The deferred calls run in reverse order: the watcher is stopped first, then the deadlines that
  were set are cleared.
\<close>

definition sendPackets ::
  "call_ctx \<Rightarrow> bytes list \<Rightarrow> byte \<Rightarrow> int \<Rightarrow> NativeConn \<Rightarrow> bytes outcome \<times> NativeConn" where
  "sendPackets cx packets expected timeout c =
     (if nc_closed c then (closed_error, c)
      else
        let wd = timeout > 0;
            rd = cx_deadline cx \<noteq> None;
            c1 = set_deadlines (if rd then Some (cx_deadline cx) else None)
                   (if wd then Some (Some (cx_now cx + timeout)) else None) c
        in case exchange cx packets expected c1 of
             (res, c2) \<Rightarrow>
               (res, set_deadlines (if rd then Some None else None) (if wd then Some None else None)
                       (watcher_stopped cx [DuringIO, AtReturn] c2)))"

definition sendPacketsNoResponse ::
  "call_ctx \<Rightarrow> bytes list \<Rightarrow> int \<Rightarrow> NativeConn \<Rightarrow> unit outcome \<times> NativeConn" where
  "sendPacketsNoResponse cx packets timeout c =
     (if nc_closed c then (closed_error, c)
      else
        let dl = ctxDeadline cx timeout;
            on = (\<lambda>d. if dl \<noteq> None then Some d else None);
            c1 = set_deadlines (on dl) (on dl) c
        in case (case send_all packets (nc_bw c1) of
                   (Some e, b) \<Rightarrow> abort_with (ctxAbortErr cx e (c1\<lparr>nc_bw := b\<rparr>))
                 | (None, b) \<Rightarrow> (Ok (), c1\<lparr>nc_bw := b\<rparr>)) of
             (res, c2) \<Rightarrow>
               (res, set_deadlines (on None) (on None) (watcher_stopped cx [DuringIO, AtReturn] c2)))"

text \<open>
  An optional response: a read that times out is no error and the connection stays as it is. The
  read deadline is cleared before the watcher is stopped.
\<close>

definition sendPacketsOptional ::
  "call_ctx \<Rightarrow> bytes list \<Rightarrow> byte \<Rightarrow> int \<Rightarrow> int \<Rightarrow> NativeConn \<Rightarrow> bytes option outcome \<times> NativeConn" where
  "sendPacketsOptional cx packets expected writeTimeout readTimeout c =
     (if nc_closed c then (closed_error, c)
      else
        let wdl = ctxDeadline cx writeTimeout;
            rdl = ctxDeadline cx readTimeout;
            won = (\<lambda>d. if wdl \<noteq> None then Some d else None);
            ron = (\<lambda>d. if rdl \<noteq> None then Some d else None);
            c1 = set_deadlines None (won wdl) c
        in case send_all packets (nc_bw c1) of
             (Some e, b) \<Rightarrow>
               (case abort_with (ctxAbortErr cx e (c1\<lparr>nc_bw := b\<rparr>)) of
                  (res, c2) \<Rightarrow> (res, set_deadlines None (won None) (watcher_stopped cx [DuringIO, AtReturn] c2)))
           | (None, b) \<Rightarrow>
               (let c2 = set_deadlines (ron rdl) None (watcher_stopped cx [DuringIO] (c1\<lparr>nc_bw := b\<rparr>))
                in case (case conn_Read c2 of
                           (Some e, c3) \<Rightarrow>
                             if e = TimeoutErr then (Ok None, c3) else abort_with (ctxAbortErr cx e c3)
                         | (None, c3) \<Rightarrow>
                             (case expect_protocol expected c3 of
                                (Ok bdy, c4) \<Rightarrow> (Ok (Some bdy), c4)
                              | (Err e, c4) \<Rightarrow> (Err e, c4)
                              | (Panic m, c4) \<Rightarrow> (Panic m, c4))) of
                     (res, c5) \<Rightarrow>
                       (res, set_deadlines None (won None)
                               (watcher_stopped cx [AtReturn] (set_deadlines (ron None) None c5)))))"

section \<open>Connecting\<close>

definition set_br :: "reader \<Rightarrow> NativeConn \<Rightarrow> NativeConn" where
  "set_br r c = c\<lparr>nc_br := r\<rparr>"

definition handshake :: "int \<Rightarrow> NativeConn \<Rightarrow> unit outcome \<times> NativeConn" where
  "handshake now c =
     (let payload = bytes_of_string cmiHandshakePayload
      in if length payload \<noteq> cmiProtoCnt then (Err (PlainErr ''invalid handshake payload size''), c)
         else
           let c1 = set_deadlines (Some (Some (now + defaultConnectTimeout))) (Some (Some (now + defaultConnectTimeout))) c
           in case (case send_all [payload] (nc_bw c1) of
                      (Some e, b) \<Rightarrow> (Err e, c1\<lparr>nc_bw := b\<rparr>)
                    | (None, b) \<Rightarrow>
                        (case io_ReadFull (nc_br c1) cmiProtoCnt of
                           (resp, Some e, r) \<Rightarrow> (Err e, set_br r (c1\<lparr>nc_bw := b\<rparr>))
                         | (resp, None, r) \<Rightarrow>
                             (if string_of_bytes resp \<noteq> cmiHandshakeReady then Err (PlainErr ''handshake failed'') else Ok (),
                              set_br r (c1\<lparr>nc_bw := b\<rparr>)))) of
                (res, c2) \<Rightarrow> (res, set_deadlines (Some None) (Some None) c2))"

definition local_ip :: "NativeConn \<Rightarrow> string" where
  "local_ip c = (case nc_localIP c of Some ip \<Rightarrow> ip | None \<Rightarrow> ''127.0.0.1'')"

text \<open>The request of a connection, and its answer to a challenge.\<close>

definition connect_request :: "NativeConn \<Rightarrow> string \<Rightarrow> string \<Rightarrow> MarshalWriter" where
  "connect_request c mode sigScheme =
     (let w = newMarshalWriter cmiConnectProtocol 0 0;
          w = addUInt64 cmiCVersionID protocolVersion w;
          w = addString cmiCClientID ''CLI'' w;
          w = addString cmiCDatabaseID ''data'' w;
          w = addString cmiCUserID (nc_user c) w;
          w = (if mode \<noteq> authModeChallenge then addString cmiCPasswordID (nc_password c) w else w);
          w = (if mode \<noteq> [] then addString cmiCAuthModeID mode w else w);
          w = (if sigScheme \<noteq> [] then addString cmiCAuthSigSchemeID sigScheme w else w);
          w = addUInt64 cmiCTimeoutID (of_int (defaultQueryTimeout div 10 ^ 9)) w;
          w = addUInt32 cmiCSHCID 0 w
      in addString cmiCIPID (local_ip c) w)"

definition challenge_request :: "NativeConn \<Rightarrow> string \<Rightarrow> string \<Rightarrow> bytes \<Rightarrow> MarshalWriter" where
  "challenge_request c mode sigScheme signature =
     (let w = newMarshalWriter cmiConnectProtocol 0 0;
          w = addUInt64 cmiCVersionID protocolVersion w;
          w = addString cmiCClientID ''CLI'' w;
          w = addString cmiCDatabaseID ''data'' w;
          w = addString cmiCUserID (nc_user c) w;
          w = addString cmiCAuthModeID mode w;
          w = addString cmiCAuthSigSchemeID sigScheme w;
          w = addBinary cmiCAuthSignatureID signature w;
          w = addUInt64 cmiCTimeoutID (of_int (defaultQueryTimeout div 10 ^ 9)) w;
          w = addUInt32 cmiCSHCID 0 w
      in addString cmiCIPID (local_ip c) w)"

text \<open>A connect response: its units, when its first result is OK.\<close>

definition connect_response :: "bytes \<Rightarrow> unit_map outcome" where
  "connect_response bdy =
     bind_outcome (units_of bdy) (\<lambda>units.
     case firstUnit units cmiRResultID of
       None \<Rightarrow> Err (PlainErr ''connect response missing result'')
     | Some result \<Rightarrow>
         if length (mu_data result) < 8 then Err (PlainErr ''connect response missing result'')
         else
           let statusVal = le_word (take 8 (mu_data result))
           in if statusCode statusVal \<noteq> cmiOKResult then Err (status_error units statusVal) else Ok units)"

definition set_version :: "unit_map \<Rightarrow> NativeConn \<Rightarrow> NativeConn" where
  "set_version units c =
     (case firstUnit units cmiCVersionID of
        Some v \<Rightarrow> if length (mu_data v) \<ge> 8 then c\<lparr>nc_serverVersion := le_word (take 8 (mu_data v))\<rparr> else c
      | None \<Rightarrow> c)"

definition set_session :: "unit_map \<Rightarrow> NativeConn \<Rightarrow> NativeConn" where
  "set_session units c =
     (let c = (case firstUnit units cmiCSIDID of
                 Some sid \<Rightarrow> if length (mu_data sid) \<ge> 8 then c\<lparr>nc_sessionID := le_word (take 8 (mu_data sid))\<rparr> else c
               | None \<Rightarrow> c);
          c = set_version units c
      in case firstUnit units cmiCEndianID of
           Some e \<Rightarrow>
             c\<lparr>nc_serverEndian :=
                 (if length (mu_data e) \<ge> 4 then le_word (take 4 (mu_data e))
                  else if length (mu_data e) \<ge> 1 then ucast (hd (mu_data e)) else 0)\<rparr>
         | None \<Rightarrow> c)"

text \<open>A request and the value made of its response; errors and panics end the operation.\<close>

definition request ::
  "call_ctx \<Rightarrow> MarshalWriter \<Rightarrow> byte \<Rightarrow> int \<Rightarrow> (bytes \<Rightarrow> 'a outcome) \<Rightarrow> NativeConn \<Rightarrow> 'a outcome \<times> NativeConn" where
  "request cx w expected timeout parse c =
     (case sendPackets cx (fst (finalize w)) expected timeout c of
        (res, c') \<Rightarrow> (bind_outcome res parse, c'))"

definition answer_challenge ::
  "crypto_lib \<Rightarrow> int \<Rightarrow> string \<Rightarrow> string \<Rightarrow> unit_map \<Rightarrow> NativeConn \<Rightarrow> unit_map outcome \<times> NativeConn" where
  "answer_challenge cl now mode sigScheme units c =
     (case bind_outcome (readChallengeFields units) (\<lambda>(nonce, validMs).
             signAuthNonceWithKey cl (nc_authKey c) ''AUTH_KEY'' sigScheme nonce) of
        Ok signature \<Rightarrow>
          request (Background now) (challenge_request c mode sigScheme signature) cmiConnectProtocol
            defaultConnectTimeout connect_response c
      | Err e \<Rightarrow> (Err e, c)
      | Panic m \<Rightarrow> (Panic m, c))"

definition connectProtocol :: "crypto_lib \<Rightarrow> int \<Rightarrow> NativeConn \<Rightarrow> unit outcome \<times> NativeConn" where
  "connectProtocol cl now c =
     (case finalizeAuthConnectOptions (nc_authMode c) (nc_authKey c) (nc_authSigScheme c) of
        Err e \<Rightarrow> (Err e, c)
      | Panic m \<Rightarrow> (Panic m, c)
      | Ok (mode, sigScheme) \<Rightarrow>
          (case request (Background now) (connect_request c mode sigScheme) cmiConnectProtocol
                  defaultConnectTimeout connect_response c of
             (Err e, c1) \<Rightarrow> (Err e, c1)
           | (Panic m, c1) \<Rightarrow> (Panic m, c1)
           | (Ok units, c1) \<Rightarrow>
               (case (if mode = authModeChallenge
                      then answer_challenge cl now mode sigScheme units (set_version units c1)
                      else (Ok units, set_version units c1)) of
                  (Ok units2, c2) \<Rightarrow> (Ok (), set_session units2 c2)
                | (Err e, c2) \<Rightarrow> (Err e, c2)
                | (Panic m, c2) \<Rightarrow> (Panic m, c2))))"

definition supportsV403 :: "NativeConn \<Rightarrow> bool" where
  "supportsV403 c \<longleftrightarrow> protocolVersion \<ge> cmiV403MetadataVersion \<and> nc_serverVersion c \<ge> cmiV403MetadataVersion"

definition supportsGeneratedRowID :: "NativeConn \<Rightarrow> bool" where
  "supportsGeneratedRowID c \<longleftrightarrow>
     protocolVersion \<ge> cmiGeneratedRowIDVersion \<and> nc_serverVersion c \<ge> cmiGeneratedRowIDVersion"

definition supportsArray :: "NativeConn \<Rightarrow> bool" where
  "supportsArray c \<longleftrightarrow> protocolVersion \<ge> cmiArrayVersion \<and> nc_serverVersion c \<ge> cmiArrayVersion"

section \<open>Dialling\<close>

record ConnConfig =
  cfg_Host :: string
  cfg_Port :: int
  cfg_User :: string
  cfg_Password :: string
  cfg_AuthMode :: string
  cfg_AuthSigScheme :: string
  cfg_AlternativeServers :: "string list"
  cfg_FetchRows :: int
  cfg_TrackIOBytes :: bool
  cfg_PrivateKey :: "PrivateKey option"

text \<open>A socket that \<^verbatim>\<open>net.DialTimeout\<close> returns: its two directions, its local address, the result of closing it.\<close>

record dialed =
  dl_out :: sock_out
  dl_in :: reader
  dl_later :: "reader list"
  dl_ip :: "string option"
  dl_closeErr :: "gerr option"

definition new_conn :: "ConnConfig \<Rightarrow> dialed \<Rightarrow> NativeConn" where
  "new_conn cfg d =
     \<lparr>nc_bw = \<lparr>bw_buf = [], bw_cap = defaultWriteBufferSize, bw_err = None,
               bw_wr = (if cfg_TrackIOBytes cfg then Some (newIOByteCounter True) else None, dl_out d)\<rparr>,
      nc_br = dl_in d, nc_later = dl_later d,
      nc_packet = \<lparr>protocol = 0, flag = 0, adds = 0, stmtID = 0, body = nil_bslice\<rparr>,
      nc_netClosed = False, nc_closeErr = dl_closeErr d, nc_readDeadline = None, nc_writeDeadline = None,
      nc_localIP = dl_ip d, nc_user = cfg_User cfg, nc_password = cfg_Password cfg, nc_authMode = cfg_AuthMode cfg,
      nc_authKey = cfg_PrivateKey cfg, nc_authSigScheme = cfg_AuthSigScheme cfg,
      nc_queryTimeout = defaultQueryTimeout, nc_fetchRows = cfg_FetchRows cfg, nc_sessionID = 0,
      nc_serverEndian = 0, nc_serverVersion = 0, nc_closed = False, nc_ids = new_stmt_table\<rparr>"

text \<open>One endpoint, then the loop over the endpoints: the first that connects, or the last error.\<close>

definition dial_endpoint ::
  "crypto_lib \<Rightarrow> (string \<Rightarrow> dialed outcome) \<Rightarrow> int \<Rightarrow> ConnConfig \<Rightarrow> string \<Rightarrow> NativeConn outcome" where
  "dial_endpoint cl dial now cfg ep =
     bind_outcome (dial ep) (\<lambda>d.
     case handshake now (new_conn cfg d) of
       (Ok _, nc) \<Rightarrow>
         (case connectProtocol cl now nc of
            (Ok _, nc') \<Rightarrow> Ok nc'
          | (Err e, _) \<Rightarrow> Err e
          | (Panic m, _) \<Rightarrow> Panic m)
     | (Err e, _) \<Rightarrow> Err e
     | (Panic m, _) \<Rightarrow> Panic m)"

fun dial_loop ::
  "crypto_lib \<Rightarrow> (string \<Rightarrow> dialed outcome) \<Rightarrow> int \<Rightarrow> ConnConfig \<Rightarrow> string list \<Rightarrow> gerr option \<Rightarrow> NativeConn outcome" where
  "dial_loop cl dial now cfg [] lastErr =
     Err (case lastErr of Some e \<Rightarrow> e | None \<Rightarrow> PlainErr ''connect failed'')"
| "dial_loop cl dial now cfg (ep # eps) lastErr =
     (case dial_endpoint cl dial now cfg ep of
        Ok nc \<Rightarrow> Ok nc
      | Err e \<Rightarrow> dial_loop cl dial now cfg eps (Some e)
      | Panic m \<Rightarrow> Panic m)"

definition dialNative :: "crypto_lib \<Rightarrow> (string \<Rightarrow> dialed outcome) \<Rightarrow> int \<Rightarrow> ConnConfig \<Rightarrow> NativeConn outcome" where
  "dialNative cl dial now cfg =
     (let cfg = (if cfg_FetchRows cfg \<le> 0 then cfg\<lparr>cfg_FetchRows := defaultFetchRows\<rparr> else cfg);
          endpoints = (cfg_Host cfg @ '':'' @ itoa (cfg_Port cfg))
                      # filter (\<lambda>alt. TrimSpace alt \<noteq> []) (cfg_AlternativeServers cfg)
      in dial_loop cl dial now cfg endpoints None)"

section \<open>Statements\<close>

definition fetch_request :: "u32 \<Rightarrow> int \<Rightarrow> MarshalWriter" where
  "fetch_request sid fetchRows =
     addSInt64 cmiFRowsID (of_int fetchRows) (addUInt32 cmiFIDID sid (newMarshalWriter cmiFetchProtocol sid 0))"

definition fetchRowsChunk ::
  "golib \<Rightarrow> call_ctx \<Rightarrow> u32 \<Rightarrow> ColumnMeta list \<Rightarrow> int \<Rightarrow> NativeConn \<Rightarrow> (goval list list \<times> bool) outcome \<times> NativeConn" where
  "fetchRowsChunk lib cx sid columns fetchRows c =
     (let fetchRows = (if fetchRows \<le> 0 then if nc_fetchRows c \<le> 0 then defaultFetchRows else nc_fetchRows c
                       else fetchRows)
      in request cx (fetch_request sid fetchRows) cmiFetchProtocol (nc_queryTimeout c)
           (\<lambda>bdy. parse_chunk lib bdy columns) c)"

text \<open>The row count of a result that came whole with its last chunk.\<close>

definition settle_count :: "StmtExecResult \<Rightarrow> StmtExecResult" where
  "settle_count r =
     (if er_lastResult r \<and> er_rowCount r = 0 \<and> er_columns r \<noteq> [] then r\<lparr>er_rowCount := of_nat (length (er_rows r))\<rparr> else r)"

definition settle_type :: "string \<Rightarrow> StmtExecResult \<Rightarrow> StmtExecResult" where
  "settle_type sql r = (if er_stmtType r = 0 then r\<lparr>er_stmtType := inferStmtType sql\<rparr> else r)"

definition execDirect ::
  "golib \<Rightarrow> call_ctx \<Rightarrow> u32 \<Rightarrow> string \<Rightarrow> NativeConn \<Rightarrow> StmtExecResult outcome \<times> NativeConn" where
  "execDirect lib cx sid sql c =
     (let w = newMarshalWriter cmiExecDirectProtocol sid 0;
          w = addString cmiDStatementID sql w;
          w = addUInt64 cmiPIDID (ucast sid) w;
          w = addSInt64 cmiFRowsID (of_int (nc_fetchRows c)) w
      in request cx w cmiExecDirectProtocol (nc_queryTimeout c)
           (\<lambda>bdy. bind_outcome
              (parseStmtResponseVersion lib bdy sql [] True (supportsV403 c) (supportsGeneratedRowID c))
              (\<lambda>r. Ok (settle_type sql (settle_count r)))) c)"

definition conn_prepare ::
  "golib \<Rightarrow> call_ctx \<Rightarrow> u32 \<Rightarrow> string \<Rightarrow> NativeConn \<Rightarrow> StmtExecResult outcome \<times> NativeConn" where
  "conn_prepare lib cx sid sql c =
     (let w = newMarshalWriter cmiPrepareProtocol sid 0;
          w = addUInt64 cmiPIDID (ucast sid) w;
          w = addString cmiPStatementID sql w
      in request cx w cmiPrepareProtocol (nc_queryTimeout c)
           (\<lambda>bdy. bind_outcome
              (parseStmtResponseVersion lib bdy sql [] True (supportsV403 c) (supportsGeneratedRowID c))
              (\<lambda>r. Ok (settle_type sql r))) c)"

definition execute_params ::
  "golib \<Rightarrow> (goval \<Rightarrow> string) \<Rightarrow> BoundParam list \<Rightarrow> bool \<Rightarrow> MarshalWriter \<Rightarrow> MarshalWriter outcome" where
  "execute_params lib spr params v403 w =
     (if params = [] then Ok w
      else
        bind_outcome (encodeParams lib spr params v403) (\<lambda>p.
        Ok (if p = [] then w else addBinary (if v403 then cmiEParamV2ID else cmiEParamID) p w)))"

definition executePrepared ::
  "golib \<Rightarrow> (goval \<Rightarrow> string) \<Rightarrow> call_ctx \<Rightarrow> u32 \<Rightarrow> string \<Rightarrow> BoundParam list \<Rightarrow> ColumnMeta list
    \<Rightarrow> NativeConn \<Rightarrow> StmtExecResult outcome \<times> NativeConn" where
  "executePrepared lib spr cx sid sql params preparedCols c =
     (let w = newMarshalWriter cmiExecuteProtocol sid 0;
          w = addUInt64 cmiPIDID (ucast sid) w;
          w = addSInt64 cmiFRowsID (of_int (nc_fetchRows c)) w
      in case execute_params lib spr params (supportsV403 c) w of
           Ok w \<Rightarrow>
             request cx w cmiExecuteProtocol (nc_queryTimeout c)
               (\<lambda>bdy. bind_outcome
                  (parseStmtResponseVersion lib bdy sql preparedCols False (supportsV403 c) (supportsGeneratedRowID c))
                  (\<lambda>r. Ok (settle_count r))) c
         | Err e \<Rightarrow> (Err e, c)
         | Panic m \<Rightarrow> (Panic m, c))"

definition conn_free :: "int \<Rightarrow> u32 \<Rightarrow> NativeConn \<Rightarrow> unit outcome \<times> NativeConn" where
  "conn_free now sid c =
     (let w = addUInt64 cmiXIDID (ucast sid) (newMarshalWriter cmiFreeProtocol sid 0)
      in case sendPackets (Background now) (fst (finalize w)) cmiFreeProtocol (nc_queryTimeout c) c of
           (Err e, c') \<Rightarrow> (if Contains (error_text e) ''unexpected protocol'' then Ok () else Err e, c')
         | (Panic m, c') \<Rightarrow> (Panic m, c')
         | (Ok bdy, c') \<Rightarrow> (bind_outcome (units_of bdy) check_first_result, c'))"

section \<open>Appending\<close>

fun element_targets :: "string list \<Rightarrow> unit outcome" where
  "element_targets [] = Ok ()"
| "element_targets (target # ts) =
     bind_outcome (parseAppendTarget target) (\<lambda>(_, position).
     if position \<noteq> 0 then Err (makeClientErr ''ARRAY element projection requires CMI 4.0.4 or later'')
     else element_targets ts)"

definition append_open_writer :: "u32 \<Rightarrow> string \<Rightarrow> string list \<Rightarrow> NativeConn \<Rightarrow> MarshalWriter outcome" where
  "append_open_writer sid table targets c =
     bind_outcome (if targets \<noteq> [] \<and> \<not> supportsArray c then element_targets targets else Ok ()) (\<lambda>_.
     let w = newMarshalWriter cmiAppendOpenProtocol sid 0;
         w = addUInt64 cmiPIDID (ucast sid) w;
         w = addString cmiPTableID table w;
         w = addUInt64 cmiEEndianID 0 w
     in if targets \<noteq> [] \<and> supportsArray c
        then bind_outcome (encodeAppendTargets targets) (\<lambda>projection. Ok (addBinary cmiPAppendTargetsID projection w))
        else Ok w)"

definition appendOpen ::
  "golib \<Rightarrow> int \<Rightarrow> u32 \<Rightarrow> string \<Rightarrow> string list \<Rightarrow> NativeConn \<Rightarrow> StmtExecResult outcome \<times> NativeConn" where
  "appendOpen lib now sid table targets c =
     (case append_open_writer sid table targets c of
        Ok w \<Rightarrow>
          request (Background now) w cmiAppendOpenProtocol (nc_queryTimeout c)
            (\<lambda>bdy. parseStmtResponseVersion lib bdy (''APPEND '' @ table) [] True (supportsV403 c) False) c
      | Err e \<Rightarrow> (Err e, c)
      | Panic m \<Rightarrow> (Panic m, c))"

definition append_data_writer :: "u32 \<Rightarrow> bytes list \<Rightarrow> MarshalWriter" where
  "append_data_writer sid rows =
     fold (\<lambda>row w. if row = [] then w else addBinary cmiPRowsID row w) rows
       (newMarshalWriter cmiAppendDataProtocol sid (ucast (sid AND 0xffff)))"

definition appendData :: "int \<Rightarrow> u32 \<Rightarrow> bytes list \<Rightarrow> bool \<Rightarrow> NativeConn \<Rightarrow> unit outcome \<times> NativeConn" where
  "appendData now sid rows checkResponse c =
     (if rows = [] then (Ok (), c)
      else
        let packets = fst (finalize (append_data_writer sid rows))
        in if \<not> checkResponse then sendPacketsNoResponse (Background now) packets (nc_queryTimeout c) c
           else
             let timeout = 5 * 10 ^ 6;
                 timeout = (if nc_queryTimeout c > 0 \<and> timeout > nc_queryTimeout c then nc_queryTimeout c else timeout)
             in case sendPacketsOptional (Background now) packets cmiAppendDataProtocol (nc_queryTimeout c) timeout c of
                  (Ok (Some bdy), c') \<Rightarrow> (if bdy = [] then Ok () else parseAppendDataResponse bdy, c')
                | (Ok None, c') \<Rightarrow> (Ok (), c')
                | (Err e, c') \<Rightarrow> (Err e, c')
                | (Panic m, c') \<Rightarrow> (Panic m, c'))"

text \<open>A packet that was read is gone from the stream.\<close>

lemma read_fragments_shrinks:
  "read_fragments p out r = (e, out', r') \<Longrightarrow> length (rd_data r') \<le> length (rd_data r)"
proof (induction p out r arbitrary: e out' r' rule: read_fragments.induct)
  case (1 p out r)
  obtain h r1 where h: "readPacketHeader r = (h, r1)" by fastforce
  have r1: "length (rd_data r1) \<le> length (rd_data r)"
    using h by (auto simp: readPacketHeader_def Let_def split: prod.splits option.splits dest: io_ReadFull_shrinks)
  show ?case
  proof (cases h)
    case (Ok t)
    obtain np nf a b n where t: "t = (np, nf, a, b, n)" by (cases t) auto
    obtain bs e2 r2 where f: "(if n > 0 then io_ReadFull r1 n else ([], None, r1)) = (bs, e2, r2)"
      using prod_cases3 by blast
    then have r2: "length (rd_data r2) \<le> length (rd_data r1)"
      by (auto split: if_splits dest: io_ReadFull_shrinks)
    show ?thesis
    proof (cases "np = p \<and> e2 = None \<and> \<not> last_flag nf")
      case True
      then have "read_fragments p (bslice_fill (ensureAppendCapacity out n) (sl_len out) bs) r2 = (e, out', r')"
        using "1.prems" h Ok t f by (subst (asm) read_fragments.simps) (simp add: Let_def)
      moreover have "\<And>e out' r'. read_fragments p (bslice_fill (ensureAppendCapacity out n) (sl_len out) bs) r2 = (e, out', r') \<Longrightarrow>
          length (rd_data r') \<le> length (rd_data r2)"
        using "1.IH" [of h r1 t np _ nf _ a _ b n "sl_len out" "ensureAppendCapacity out n"] h Ok t f True by auto
      ultimately show ?thesis using r1 r2 by fastforce
    next
      case False
      with "1.prems" h Ok t f r1 r2 show ?thesis
        by (subst (asm) read_fragments.simps) (auto simp: Let_def split: if_splits option.splits)
    qed
  qed (use "1.prems" h r1 in \<open>auto simp: read_fragments.simps [of p out r]\<close>)
qed

lemma Packet_Read_consumes:
  assumes "Packet_Read pkt r = (None, pkt', r')"
  shows "length (rd_data r') < length (rd_data r)"
proof -
  obtain h r1 where h: "readPacketHeader r = (Ok h, r1)"
    using assms by (auto simp: Packet_Read_def split: prod.splits outcome.splits)
  obtain p f a s n where t: "h = (p, f, a, s, n)" by (cases h) auto
  obtain bs e2 r2 where f: "io_ReadFull r1 n = (bs, e2, r2)" using prod_cases3 by blast
  have "length (rd_data r') \<le> length (rd_data r1)"
    using assms h t f io_ReadFull_shrinks [OF f]
    by (auto simp: Packet_Read_def Let_def split: if_splits option.splits prod.splits dest!: read_fragments_shrinks)
  with readPacketHeader_consumes [OF h] show ?thesis by simp
qed

lemma conn_Read_consumes: "conn_Read c = (None, c') \<Longrightarrow> length (rd_data (nc_br c')) < length (rd_data (nc_br c))"
  by (auto simp: conn_Read_def split: prod.splits option.splits dest!: Packet_Read_consumes)

lemma set_deadlines_br [simp]: "nc_br (set_deadlines rd wd c) = nc_br c"
  by (simp add: set_deadlines_def)

text \<open>
  The loop of \<^verbatim>\<open>appendClose\<close>, which passes over the responses to data sent before; it ends because
  every turn takes a packet off the stream.
\<close>

function append_close_loop :: "int \<Rightarrow> NativeConn \<Rightarrow> (u64 \<times> u64) outcome \<times> NativeConn" where
  "append_close_loop now c =
     (let on = (\<lambda>d. if nc_queryTimeout c > 0 then Some d else None);
          c1 = set_deadlines (on (Some (now + nc_queryTimeout c))) None c
      in case conn_Read c1 of
           (Some e, c2) \<Rightarrow> abort_with (retireOnTimeout e (set_deadlines (on None) None c2))
         | (None, c2) \<Rightarrow>
             (let c3 = set_deadlines (on None) None c2;
                  bdy = bslice_bytes (body (nc_packet c3))
              in if protocol (nc_packet c3) = cmiAppendDataProtocol
                 then (case parseAppendDataResponse bdy of
                         Ok _ \<Rightarrow> append_close_loop now c3
                       | Err e \<Rightarrow> (Err e, c3)
                       | Panic m \<Rightarrow> (Panic m, c3))
                 else if protocol (nc_packet c3) = cmiAppendCloseProtocol then (parseAppendCloseResponse bdy, c3)
                 else (Err unexpected_protocol, markBrokenLocked c3)))"
  by pat_completeness auto
termination
  by (relation "measure (\<lambda>(now, c). length (rd_data (nc_br c)))") (auto dest!: conn_Read_consumes [OF sym])

declare append_close_loop.simps [simp del]

definition appendClose :: "int \<Rightarrow> u32 \<Rightarrow> NativeConn \<Rightarrow> (u64 \<times> u64) outcome \<times> NativeConn" where
  "appendClose now sid c =
     (let packets = fst (finalize (addUInt64 cmiPIDID (ucast sid) (newMarshalWriter cmiAppendCloseProtocol sid 0)))
      in if nc_closed c then (closed_error, c)
         else
           let on = (\<lambda>d. if nc_queryTimeout c > 0 then Some d else None);
               c1 = set_deadlines None (on (Some (now + nc_queryTimeout c))) c
           in case (case send_all packets (nc_bw c1) of
                      (Some e, b) \<Rightarrow> abort_with (retireOnTimeout e (c1\<lparr>nc_bw := b\<rparr>))
                    | (None, b) \<Rightarrow> append_close_loop now (c1\<lparr>nc_bw := b\<rparr>)) of
                (res, c2) \<Rightarrow> (res, set_deadlines None (on None) c2))"

end
