(* ===== verification/Session.thy ===== *)
theory Session
  imports Client
begin

text \<open>
  What the clients of a native connection may rely on. A connection over a healthy socket is a
  refinement of an abstract channel that answers the requests in order; the relation is lifted to
  whole sessions by a locale for simulations. Over all operations of the connection: the state
  that is kept, and that a connection once closed is silent.
\<close>

section \<open>Simulations\<close>

text \<open>A machine that takes an input and gives an output, run on a list of inputs.\<close>

fun run_steps :: "('i \<Rightarrow> 's \<Rightarrow> 'o \<times> 's) \<Rightarrow> 'i list \<Rightarrow> 's \<Rightarrow> 'o list \<times> 's" where
  "run_steps step [] s = ([], s)"
| "run_steps step (i # is) s =
     (case step i s of (x, s') \<Rightarrow> (case run_steps step is s' of (xs, s'') \<Rightarrow> (x # xs, s'')))"

locale simulation =
  fixes cstep :: "'i \<Rightarrow> 'c \<Rightarrow> 'o \<times> 'c"
    and astep :: "'i \<Rightarrow> 'a \<Rightarrow> 'o \<times> 'a"
    and rel :: "'c \<Rightarrow> 'a \<Rightarrow> bool"
  assumes sim: "rel c a \<Longrightarrow> fst (cstep i c) = fst (astep i a) \<and> rel (snd (cstep i c)) (snd (astep i a))"
begin

lemma run_sim:
  "rel c a \<Longrightarrow> fst (run_steps cstep is c) = fst (run_steps astep is a)
    \<and> rel (snd (run_steps cstep is c)) (snd (run_steps astep is a))"
proof (induction "is" arbitrary: c a)
  case (Cons i "is")
  obtain x c' where c: "cstep i c = (x, c')" by fastforce
  obtain y a' where a: "astep i a = (y, a')" by fastforce
  from sim [OF Cons.prems, of i] c a have "x = y" "rel c' a'" by simp_all
  with Cons.IH [of c' a'] c a show ?case by (simp add: case_prod_beta)
qed simp

end

section \<open>Writing to a healthy socket\<close>

interpretation bwp: io_writer bufw_Write bufw_out "\<lambda>_. True"
  by unfold_locales (use bufw_Write_result in blast)+

lemma send_all_result:
  assumes "send_all ps b = (e, b')"
  shows "\<exists>k \<le> length (concat ps). bufw_out b' = bufw_out b @ take k (concat ps)
    \<and> (e = None \<longrightarrow> k = length (concat ps) \<and> so_sent (snd (bw_wr b')) = bufw_out b @ concat ps)"
proof -
  from bwp.writePackets_total [of b ps] obtain e1 b1 k where
    w: "writePackets bufw_Write b ps = Some (e1, b1)" "k \<le> length (concat ps)"
    "bufw_out b1 = bufw_out b @ take k (concat ps)" "e1 = None \<longrightarrow> k = length (concat ps)" by auto
  show ?thesis
  proof (cases e1)
    case None
    with assms w(1) have "bufw_Flush b1 = (e, b')" by (simp add: send_all_def)
    from bufw_Flush_result [OF this] None w show ?thesis by auto
  next
    case (Some x)
    with assms w show ?thesis by (auto simp: send_all_def)
  qed
qed

text \<open>A socket without a failure ahead of it, and a buffered writer over one.\<close>

definition healthy :: "bufw \<Rightarrow> bool" where
  "healthy b \<longleftrightarrow> bw_err b = None \<and> so_room (snd (bw_wr b)) = None"

lemma conn_Write_healthy:
  assumes "so_room (snd cs) = None" and "conn_Write cs p = (n, e, cs')"
  shows "e = None \<and> n = length p \<and> so_room (snd cs') = None"
  using assms by (auto simp: countingWriter_Write_def sock_Write_def)

lemma bufw_Flush_healthy:
  assumes "healthy b" and "bufw_Flush b = (e, b')"
  shows "e = None \<and> healthy b' \<and> bw_buf b' = []"
proof (cases "bw_buf b = []")
  case True
  with assms show ?thesis by (simp add: bufw_Flush_def healthy_def)
next
  case False
  obtain n e1 s1 where w: "conn_Write (bw_wr b) (bw_buf b) = (n, e1, s1)" using prod_cases3 by blast
  have "e1 = None \<and> n = length (bw_buf b) \<and> so_room (snd s1) = None"
    using conn_Write_healthy [OF _ w] assms(1) by (simp add: healthy_def)
  with False w assms show ?thesis by (auto simp: bufw_Flush_def healthy_def)
qed

lemma bufw_Write_loop_healthy:
  "healthy b \<Longrightarrow> bufw_Write_loop b p nn = (n, e, b') \<Longrightarrow> e = None \<and> healthy b'"
proof (induction b p nn arbitrary: n e b' rule: bufw_Write_loop.induct)
  case (1 b p nn)
  show ?case
  proof (cases "length p > bw_cap b - length (bw_buf b) \<and> bw_err b = None")
    case False
    have "bw_err b = None" using "1.prems"(1) by (simp add: healthy_def)
    with False "1.prems"(2) have "e = None \<and> b' = b\<lparr>bw_buf := bw_buf b @ p\<rparr>"
      by (subst (asm) bufw_Write_loop.simps) simp
    with "1.prems"(1) show ?thesis by (simp add: healthy_def)
  next
    case go: True
    show ?thesis
    proof (cases "bw_buf b = []")
      case True
      obtain n1 e1 s1 where w: "conn_Write (bw_wr b) p = (n1, e1, s1)" using prod_cases3 by blast
      have h: "healthy (b\<lparr>bw_err := e1, bw_wr := s1\<rparr>)"
        using conn_Write_healthy [OF _ w] "1.prems"(1) by (simp add: healthy_def)
      have "bufw_Write_loop (b\<lparr>bw_err := e1, bw_wr := s1\<rparr>) (drop n1 p) (nn + n1) = (n, e, b')"
        using w go True "1.prems"(2) by (subst (asm) bufw_Write_loop.simps) simp
      from "1.IH"(1) [OF go True w [symmetric] refl h this] show ?thesis .
    next
      case False
      define n1 where "n1 = min (bw_cap b - length (bw_buf b)) (length p)"
      obtain e1 b1 where f: "bufw_Flush (b\<lparr>bw_buf := bw_buf b @ take n1 p\<rparr>) = (e1, b1)" by fastforce
      have "healthy (b\<lparr>bw_buf := bw_buf b @ take n1 p\<rparr>)" using "1.prems"(1) by (simp add: healthy_def)
      from bufw_Flush_healthy [OF this f] have h: "healthy b1" by simp
      have "bufw_Write_loop b1 (drop n1 p) (nn + n1) = (n, e, b')"
        using f go False "1.prems"(2) by (subst (asm) bufw_Write_loop.simps) (simp add: Let_def n1_def)
      with "1.IH"(2) [OF go False n1_def] f h show ?thesis by simp
    qed
  qed
qed

lemma writePacket_healthy:
  assumes "healthy b"
  shows "\<exists>b'. writePacket bufw_Write b p = Some (None, b') \<and> healthy b'"
proof (cases "p = []")
  case False
  obtain n e b' where w: "bufw_Write b p = (n, e, b')" using prod_cases3 by blast
  from bufw_Write_loop_healthy [OF assms] w have "e = None" "healthy b'" by (auto simp: bufw_Write_def)
  with bwp.writePacket_ok [OF _ _ False] w show ?thesis by auto
qed (use assms in \<open>simp add: writePacket.simps\<close>)

lemma writePackets_healthy: "healthy b \<Longrightarrow> \<exists>b'. writePackets bufw_Write b ps = Some (None, b') \<and> healthy b'"
proof (induction ps arbitrary: b)
  case (Cons p ps)
  from writePacket_healthy [OF Cons.prems, of p] Cons.IH show ?case by fastforce
qed simp

lemma send_all_healthy:
  assumes "healthy b" and "bw_buf b = []"
  shows "\<exists>b'. send_all ps b = (None, b') \<and> healthy b' \<and> bw_buf b' = []
    \<and> so_sent (snd (bw_wr b')) = so_sent (snd (bw_wr b)) @ concat ps"
proof -
  from writePackets_healthy [OF assms(1), of ps] obtain b1 where
    w: "writePackets bufw_Write b ps = Some (None, b1)" "healthy b1" by blast
  obtain e b' where f: "bufw_Flush b1 = (e, b')" by fastforce
  from bufw_Flush_healthy [OF w(2) f] have h: "e = None" "healthy b'" "bw_buf b' = []" by simp_all
  have "send_all ps b = (None, b')" using w f h by (simp add: send_all_def)
  with send_all_result [OF this] h assms(2) show ?thesis by (auto simp: bufw_out_def)
qed

section \<open>The abstract channel\<close>

text \<open>
  What a connection promises: requests go out in order, the \<open>k\<close>-th request gets the \<open>k\<close>-th reply,
  a reply of the wrong protocol or a timeout closes the channel, a closed channel answers nothing
  and sends nothing.
\<close>

record channel =
  ch_open :: bool
  ch_sent :: bytes
  ch_replies :: "(byte \<times> bytes) list"
  ch_end :: gerr

type_synonym call = "call_ctx \<times> bytes list \<times> byte \<times> int"

fun channel_call :: "call \<Rightarrow> channel \<Rightarrow> bytes outcome \<times> channel" where
  "channel_call (cx, ps, expected, timeout) ch =
     (if \<not> ch_open ch then (closed_error, ch)
      else
        let ch = ch\<lparr>ch_sent := ch_sent ch @ concat ps\<rparr>
        in case ch_replies ch of
             [] \<Rightarrow>
               (case cx_err cx of
                  Some m \<Rightarrow> (Err (PlainErr (''connection closed: '' @ m)), ch\<lparr>ch_open := False\<rparr>)
                | None \<Rightarrow> (Err (ch_end ch), ch\<lparr>ch_open := ch_end ch \<noteq> TimeoutErr\<rparr>))
           | (p, bdy) # rs \<Rightarrow>
               if p = expected then (Ok bdy, ch\<lparr>ch_replies := rs\<rparr>)
               else (Err unexpected_protocol, ch\<lparr>ch_replies := rs, ch_open := False\<rparr>))"

fun conn_call :: "call \<Rightarrow> NativeConn \<Rightarrow> bytes outcome \<times> NativeConn" where
  "conn_call (cx, ps, expected, timeout) c = sendPackets cx ps expected timeout c"

text \<open>A reply on the wire: the fragments of one packet sequence.\<close>

type_synonym reply = "byte \<times> u32 \<times> u16 \<times> (byte \<times> bytes) list"

fun reply_wf :: "reply \<Rightarrow> bool" where
  "reply_wf (p, sid, ads, frs) \<longleftrightarrow> frags_wf frs \<and> (snd (hd frs) \<noteq> [] \<or> length frs = 1)"

fun reply_wire :: "reply \<Rightarrow> bytes" where
  "reply_wire (p, sid, ads, frs) = frags_wire p sid ads frs"

fun reply_body :: "reply \<Rightarrow> byte \<times> bytes" where
  "reply_body (p, sid, ads, frs) = (p, concat (map snd frs))"

definition stream_of :: "reply list \<Rightarrow> gerr \<Rightarrow> reader" where
  "stream_of rs e = \<lparr>rd_data = concat (map reply_wire rs), rd_end = e\<rparr>"

definition session_rel :: "NativeConn \<Rightarrow> channel \<Rightarrow> bool" where
  "session_rel c ch \<longleftrightarrow>
     healthy (nc_bw c) \<and> bw_buf (nc_bw c) = [] \<and> so_sent (snd (bw_wr (nc_bw c))) = ch_sent ch
     \<and> nc_closed c = (\<not> ch_open ch) \<and> nc_later c = []
     \<and> (\<exists>rs. list_all reply_wf rs \<and> nc_br c = stream_of rs (ch_end ch) \<and> ch_replies ch = map reply_body rs)"

lemma Packet_Read_reply:
  assumes "reply_wf r" and "r = (p, sid, ads, frs)"
  shows "\<exists>pkt'. Packet_Read pkt (stream_of (r # rs) e) = (None, pkt', stream_of rs e)
    \<and> protocol pkt' = p \<and> bslice_bytes (body pkt') = snd (reply_body r)"
  using Packet_Read_frags [of frs pkt p sid ads "concat (map reply_wire rs)" e] assms
  by (auto simp: stream_of_def)

lemma Packet_Read_end: "Packet_Read pkt (stream_of [] e) = (Some e, pkt, stream_of [] e)"
  by (simp add: stream_of_def Packet_Read_def readPacketHeader_def io_ReadFull_def)

text \<open>The fields that an exchange does not touch, and those that deadlines do not.\<close>

lemma deadlines_only [simp]:
  "nc_bw (set_deadlines rd wd c) = nc_bw c" "nc_closed (set_deadlines rd wd c) = nc_closed c"
  "nc_later (set_deadlines rd wd c) = nc_later c" "nc_packet (set_deadlines rd wd c) = nc_packet c"
  "nc_netClosed (set_deadlines rd wd c) = nc_netClosed c" "nc_ids (set_deadlines rd wd c) = nc_ids c"
  "nc_queryTimeout (set_deadlines rd wd c) = nc_queryTimeout c"
  by (simp_all add: set_deadlines_def)

lemma watcher_only [simp]:
  "nc_bw (watcher_stopped cx pts c) = nc_bw c" "nc_closed (watcher_stopped cx pts c) = nc_closed c"
  "nc_later (watcher_stopped cx pts c) = nc_later c" "nc_packet (watcher_stopped cx pts c) = nc_packet c"
  "nc_netClosed (watcher_stopped cx pts c) = nc_netClosed c" "nc_ids (watcher_stopped cx pts c) = nc_ids c"
  "nc_br (watcher_stopped cx pts c) = nc_br c" "nc_queryTimeout (watcher_stopped cx pts c) = nc_queryTimeout c"
  by (simp_all add: watcher_stopped_def)

lemma session_rel_deadlines [simp]:
  "session_rel (set_deadlines rd wd c) ch = session_rel c ch"
  "session_rel (watcher_stopped cx pts c) ch = session_rel c ch"
  by (simp_all add: session_rel_def)

lemma session_rel_mark:
  "session_rel c ch \<Longrightarrow> session_rel (markBrokenLocked c) (ch\<lparr>ch_open := False\<rparr>)"
  by (auto simp: session_rel_def markBrokenLocked_def)

lemma exchange_refines:
  assumes rel: "session_rel c ch" and op: "ch_open ch"
  shows "fst (exchange cx ps expected c) = fst (channel_call (cx, ps, expected, t) ch)
    \<and> session_rel (snd (exchange cx ps expected c)) (snd (channel_call (cx, ps, expected, t) ch))"
proof -
  let ?ch = "ch\<lparr>ch_sent := ch_sent ch @ concat ps\<rparr>"
  from rel obtain rs where rs: "list_all reply_wf rs" "nc_br c = stream_of rs (ch_end ch)" "ch_replies ch = map reply_body rs"
    by (auto simp: session_rel_def)
  from rel send_all_healthy [of "nc_bw c" ps] obtain b where
    b: "send_all ps (nc_bw c) = (None, b)" "healthy b" "bw_buf b = []" "so_sent (snd (bw_wr b)) = ch_sent ch @ concat ps"
    by (auto simp: session_rel_def)
  let ?c = "c\<lparr>nc_bw := b\<rparr>"
  have later: "nc_later c = []" and cl: "\<not> nc_closed c" using rel op by (auto simp: session_rel_def)
  show ?thesis
  proof (cases rs)
    case Nil
    let ?c2 = "?c\<lparr>nc_packet := nc_packet c, nc_br := stream_of [] (ch_end ch)\<rparr>"
    have r: "conn_Read ?c = (Some (ch_end ch), ?c2)"
      using Nil rs(2) later by (simp add: conn_Read_def Packet_Read_end)
    have rel2: "session_rel ?c2 ?ch" using rel rs b Nil by (auto simp: session_rel_def)
    have ex: "exchange cx ps expected c = abort_with (ctxAbortErr cx (ch_end ch) ?c2)"
      using b(1) r by (simp add: exchange_def)
    have ch: "channel_call (cx, ps, expected, t) ch = (case cx_err cx of
                  Some m \<Rightarrow> (Err (PlainErr (''connection closed: '' @ m)), ?ch\<lparr>ch_open := False\<rparr>)
                | None \<Rightarrow> (Err (ch_end ch), ?ch\<lparr>ch_open := ch_end ch \<noteq> TimeoutErr\<rparr>))"
      using op Nil rs(3) by (simp add: Let_def split: option.splits)
    have open_same: "?ch\<lparr>ch_open := True\<rparr> = ?ch" using op by simp
    show ?thesis
      unfolding ex ch using session_rel_mark [OF rel2] rel2 open_same
      by (cases "cx_err cx"; cases "ch_end ch = TimeoutErr") (simp_all add: abort_with_def ctxAbortErr_def retireOnTimeout_def)
  next
    case (Cons r rs')
    obtain p sid ads frs where r: "r = (p, sid, ads, frs)" by (cases r) auto
    with Packet_Read_reply [of r p sid ads frs "nc_packet c" rs' "ch_end ch"] rs(1) Cons obtain pkt' where
      pk: "Packet_Read (nc_packet c) (stream_of (r # rs') (ch_end ch)) = (None, pkt', stream_of rs' (ch_end ch))"
      "protocol pkt' = p" "bslice_bytes (body pkt') = snd (reply_body r)" by auto
    let ?c2 = "?c\<lparr>nc_packet := pkt', nc_br := stream_of rs' (ch_end ch)\<rparr>"
    have "conn_Read ?c = (None, ?c2)" using pk(1) rs(2) Cons by (simp add: conn_Read_def)
    then have ex: "exchange cx ps expected c = expect_protocol expected ?c2"
      using b(1) by (simp add: exchange_def)
    have rel2: "session_rel ?c2 (?ch\<lparr>ch_replies := map reply_body rs'\<rparr>)"
      using rel rs b Cons by (auto simp: session_rel_def)
    have ch: "channel_call (cx, ps, expected, t) ch = (if p = expected
        then (Ok (snd (reply_body r)), ?ch\<lparr>ch_replies := map reply_body rs'\<rparr>)
        else (Err unexpected_protocol, ?ch\<lparr>ch_replies := map reply_body rs', ch_open := False\<rparr>))"
      using op Cons rs(3) r by (simp add: Let_def)
    show ?thesis
      unfolding ex ch using session_rel_mark [OF rel2] rel2 pk by (simp add: expect_protocol_def)
  qed
qed

lemma sendPackets_exchange:
  "\<not> nc_closed c \<Longrightarrow> \<exists>rd wd rd' wd'. sendPackets cx ps expected t c =
    (case exchange cx ps expected (set_deadlines rd wd c) of
       (res, c2) \<Rightarrow> (res, set_deadlines rd' wd' (watcher_stopped cx [DuringIO, AtReturn] c2)))"
  by (simp only: sendPackets_def Let_def if_False) blast

lemma conn_call_refines:
  assumes "session_rel c ch"
  shows "fst (conn_call i c) = fst (channel_call i ch) \<and> session_rel (snd (conn_call i c)) (snd (channel_call i ch))"
proof -
  obtain cx ps expected t where i: "i = (cx, ps, expected, t)" by (cases i) auto
  show ?thesis
  proof (cases "ch_open ch")
    case False
    with assms show ?thesis by (simp add: i sendPackets_def session_rel_def)
  next
    case True
    with assms have "\<not> nc_closed c" by (simp add: session_rel_def)
    from sendPackets_exchange [OF this] obtain rd wd rd' wd' where
      "sendPackets cx ps expected t c = (case exchange cx ps expected (set_deadlines rd wd c) of
         (res, c2) \<Rightarrow> (res, set_deadlines rd' wd' (watcher_stopped cx [DuringIO, AtReturn] c2)))" by blast
    moreover have "session_rel (set_deadlines rd wd c) ch" using assms by simp
    note exchange_refines [OF this True, of cx ps expected t]
    ultimately show ?thesis unfolding i conn_call.simps by (simp add: case_prod_beta)
  qed
qed

interpretation chan: simulation conn_call channel_call session_rel
  by unfold_locales (rule conn_call_refines)

section \<open>The operations of a connection\<close>

text \<open>
  Every operation that the statement layer calls on a connection, as a step. The contexts, the
  statement ids and the values are arbitrary.
\<close>

inductive conn_step :: "golib \<Rightarrow> (goval \<Rightarrow> string) \<Rightarrow> NativeConn \<Rightarrow> NativeConn \<Rightarrow> bool"
  for lib spr where
    step_exec: "execDirect lib cx sid sql c = (r, c') \<Longrightarrow> conn_step lib spr c c'"
  | step_prepare: "conn_prepare lib cx sid sql c = (r, c') \<Longrightarrow> conn_step lib spr c c'"
  | step_execute: "executePrepared lib spr cx sid sql ps cols c = (r, c') \<Longrightarrow> conn_step lib spr c c'"
  | step_fetch: "fetchRowsChunk lib cx sid cols n c = (q, c') \<Longrightarrow> conn_step lib spr c c'"
  | step_free: "conn_free now sid c = (u, c') \<Longrightarrow> conn_step lib spr c c'"
  | step_append_open: "appendOpen lib now sid table targets c = (r, c') \<Longrightarrow> conn_step lib spr c c'"
  | step_append_data: "appendData now sid rows chk c = (u, c') \<Longrightarrow> conn_step lib spr c c'"
  | step_append_close: "appendClose now sid c = (n, c') \<Longrightarrow> conn_step lib spr c c'"
  | step_close: "conn_close c = (e, c') \<Longrightarrow> conn_step lib spr c c'"
  | step_alloc: "nextStmtID (nc_ids c) = (i, t) \<Longrightarrow> conn_step lib spr c (c\<lparr>nc_ids := t\<rparr>)"
  | step_release: "conn_step lib spr c (c\<lparr>nc_ids := releaseStmtID j (nc_ids c)\<rparr>)"

inductive_cases conn_step_elim: "conn_step lib spr c c'"

text \<open>
  What an operation keeps: the flag and the socket agree, the ids and the number of rows per fetch
  are as before.
\<close>

definition keeps :: "NativeConn \<Rightarrow> NativeConn \<Rightarrow> bool" where
  "keeps c c' \<longleftrightarrow> nc_ids c' = nc_ids c \<and> nc_fetchRows c' = nc_fetchRows c
     \<and> (nc_closed c = nc_netClosed c \<longrightarrow> nc_closed c' = nc_netClosed c')"

lemma keeps_refl [intro, simp]: "keeps c c"
  by (simp add: keeps_def)

lemma keeps_trans: "keeps c c' \<Longrightarrow> keeps c' c'' \<Longrightarrow> keeps c c''"
  by (simp add: keeps_def)

lemma keeps_mark: "keeps c c' \<Longrightarrow> keeps c (markBrokenLocked c')"
  by (simp add: keeps_def markBrokenLocked_def)

lemma keeps_deadlines: "keeps c (set_deadlines rd wd c') = keeps c c'" "keeps (set_deadlines rd wd c) c' = keeps c c'"
  by (simp_all add: keeps_def set_deadlines_def)

lemma keeps_watcher: "keeps c (watcher_stopped cx pts c') = keeps c c'"
  by (simp add: keeps_def watcher_stopped_def)

lemma keeps_bw: "keeps c (c'\<lparr>nc_bw := b\<rparr>) = keeps c c'" "keeps (c\<lparr>nc_bw := b\<rparr>) c' = keeps c c'"
  by (simp_all add: keeps_def)

lemma snd_abort_with [simp]: "snd (abort_with ec) = snd ec"
  by (simp add: abort_with_def)

lemma keeps_abort: "keeps c c' \<Longrightarrow> keeps c (snd (ctxAbortErr cx e c'))"
  "keeps c c' \<Longrightarrow> keeps c (snd (retireOnTimeout e c'))"
  by (auto simp: ctxAbortErr_def retireOnTimeout_def keeps_mark split: option.splits)

lemma keeps_Read: "keeps c (snd (conn_Read c))"
  by (simp add: keeps_def conn_Read_def split: prod.splits option.splits list.splits)

lemma keeps_expect: "keeps c (snd (expect_protocol p c))"
  by (simp add: expect_protocol_def keeps_mark)

lemmas keeps_simps = keeps_deadlines keeps_watcher keeps_bw

lemma keeps_exchange: "keeps c (snd (exchange cx ps expected c))"
proof -
  obtain e b where s: "send_all ps (nc_bw c) = (e, b)" by fastforce
  let ?c = "c\<lparr>nc_bw := b\<rparr>"
  obtain e2 c2 where r: "conn_Read ?c = (e2, c2)" by fastforce
  have c2: "keeps c c2" using keeps_Read [of ?c] r by (simp add: keeps_simps)
  show ?thesis
  proof (cases e)
    case (Some x)
    then show ?thesis using s keeps_abort(1) [of c ?c cx x] by (simp add: exchange_def keeps_simps)
  next
    case None
    then show ?thesis
      using s r keeps_abort(1) [OF c2] keeps_trans [OF c2 keeps_expect]
      by (cases e2) (simp_all add: exchange_def)
  qed
qed

lemma keeps_sendPackets: "keeps c (snd (sendPackets cx ps expected t c))"
proof (cases "nc_closed c")
  case False
  from sendPackets_exchange [OF this] obtain rd wd rd' wd' where
    "sendPackets cx ps expected t c = (case exchange cx ps expected (set_deadlines rd wd c) of
       (res, c2) \<Rightarrow> (res, set_deadlines rd' wd' (watcher_stopped cx [DuringIO, AtReturn] c2)))" by blast
  then show ?thesis using keeps_exchange [of "set_deadlines rd wd c" cx ps expected]
    by (simp add: case_prod_beta keeps_simps)
qed (simp add: sendPackets_def)

lemma keeps_NoResponse: "keeps c (snd (sendPacketsNoResponse cx ps t c))"
proof (cases "nc_closed c")
  case False
  obtain e b where s: "send_all ps (nc_bw c) = (e, b)" by fastforce
  show ?thesis
    using False s keeps_abort(1) [of c "set_deadlines rd wd c\<lparr>nc_bw := b\<rparr>" cx for rd wd]
    by (cases e) (simp_all add: sendPacketsNoResponse_def Let_def keeps_simps case_prod_beta)
qed (simp add: sendPacketsNoResponse_def)

text \<open>Reading an optional response.\<close>

definition read_optional :: "call_ctx \<Rightarrow> byte \<Rightarrow> NativeConn \<Rightarrow> bytes option outcome \<times> NativeConn" where
  "read_optional cx expected c =
     (case conn_Read c of
        (Some e, c3) \<Rightarrow> if e = TimeoutErr then (Ok None, c3) else abort_with (ctxAbortErr cx e c3)
      | (None, c3) \<Rightarrow>
          (case expect_protocol expected c3 of
             (Ok bdy, c4) \<Rightarrow> (Ok (Some bdy), c4)
           | (Err e, c4) \<Rightarrow> (Err e, c4)
           | (Panic m, c4) \<Rightarrow> (Panic m, c4)))"

lemma keeps_read_optional: "keeps c (snd (read_optional cx expected c))"
proof -
  obtain e c2 where r: "conn_Read c = (e, c2)" by fastforce
  have c2: "keeps c c2" using keeps_Read [of c] r by simp
  obtain x c3 where x: "expect_protocol expected c2 = (x, c3)" by fastforce
  have c3: "keeps c c3" using keeps_trans [OF c2] keeps_expect [of c2 expected] x by simp
  show ?thesis
  proof (cases e)
    case None
    with r x c3 show ?thesis by (cases x) (simp_all add: read_optional_def)
  next
    case (Some y)
    with r c2 keeps_abort(1) [OF c2] show ?thesis by (simp add: read_optional_def)
  qed
qed

lemma keeps_Optional: "keeps c (snd (sendPacketsOptional cx ps expected t1 t2 c))"
proof (cases "nc_closed c")
  case False
  obtain e b where s: "send_all ps (nc_bw c) = (e, b)" by fastforce
  show ?thesis
  proof (cases e)
    case (Some x)
    with False s keeps_abort(1) [of c "set_deadlines rd wd c\<lparr>nc_bw := b\<rparr>" cx x for rd wd] show ?thesis
      by (simp add: sendPacketsOptional_def Let_def keeps_simps case_prod_beta)
  next
    case None
    define X where "X rd wd pts = set_deadlines rd None (watcher_stopped cx pts (set_deadlines None wd c\<lparr>nc_bw := b\<rparr>))" for rd wd pts
    from None False s obtain rd wd rd' wd' wd'' pts pts' where
      eq: "sendPacketsOptional cx ps expected t1 t2 c = (case read_optional cx expected (X rd wd pts) of
          (res, c5) \<Rightarrow> (res, set_deadlines None wd'' (watcher_stopped cx pts' (set_deadlines rd' wd' c5))))"
      unfolding sendPacketsOptional_def read_optional_def Let_def X_def
      by (simp only: if_False deadlines_only prod.case option.case)
    have "keeps c (X rd wd pts)" by (simp add: X_def keeps_simps)
    from keeps_trans [OF this keeps_read_optional] show ?thesis
      by (simp add: eq case_prod_beta keeps_simps)
  qed
qed (simp add: sendPacketsOptional_def)

lemma keeps_close_loop: "keeps c (snd (append_close_loop now c))"
proof (induction now c rule: append_close_loop.induct)
  case (1 now c)
  let ?on = "\<lambda>d. if nc_queryTimeout c > 0 then Some d else None"
  let ?c1 = "set_deadlines (?on (Some (now + nc_queryTimeout c))) None c"
  obtain e c2 where r: "conn_Read ?c1 = (e, c2)" by fastforce
  let ?c3 = "set_deadlines (?on None) None c2"
  have c2: "keeps c c2" using keeps_Read [of ?c1] r by (simp add: keeps_simps)
  have c3: "keeps c ?c3" using c2 by (simp add: keeps_simps)
  show ?case
  proof (cases e)
    case (Some x)
    with r keeps_abort(2) [OF c3] show ?thesis by (simp add: append_close_loop.simps [of now c] Let_def)
  next
    case None
    let ?p = "protocol (nc_packet c2)" and ?b = "parseAppendDataResponse (bslice_bytes (body (nc_packet c2)))"
    show ?thesis
    proof (cases "?p = cmiAppendDataProtocol \<and> is_ok ?b")
      case True
      then obtain u where u: "?b = Ok u" by (cases ?b) auto
      have "keeps ?c3 (snd (append_close_loop now ?c3))"
        using "1.IH" [OF refl refl r [symmetric]] None True u by simp
      then show ?thesis
        using r None True u keeps_trans [OF c3] by (simp add: append_close_loop.simps [of now c] Let_def)
    next
      case False
      with r None c3 keeps_mark [OF c3] show ?thesis
        by (cases ?b) (auto simp: append_close_loop.simps [of now c] Let_def)
    qed
  qed
qed

lemma keeps_request: "keeps c (snd (request cx w p t f c))"
  using keeps_sendPackets [of c cx "fst (finalize w)" p t] by (simp add: request_def case_prod_beta)

lemma keeps_handshake: "keeps c (snd (handshake now c))"
  by (simp add: handshake_def Let_def set_br_def set_deadlines_def keeps_def
      split: prod.splits option.splits)

lemma keeps_connect: "keeps c (snd (connectProtocol cl now c))"
proof -
  have set: "keeps c (set_session us c') = keeps c c'" "keeps c (set_version us c') = keeps c c'" for us c'
    by (simp_all add: keeps_def set_session_def set_version_def Let_def split: option.splits)
  have ans: "keeps c c' \<Longrightarrow> keeps c (snd (answer_challenge cl now m sch us c'))" for m sch us c'
    using keeps_trans [OF _ keeps_request] by (auto simp: answer_challenge_def split: outcome.splits)
  show ?thesis
  proof (cases "finalizeAuthConnectOptions (nc_authMode c) (nc_authKey c) (nc_authSigScheme c)")
    case (Ok ms)
    obtain mode sch where ms: "ms = (mode, sch)" by fastforce
    obtain res c1 where r: "request (Background now) (connect_request c mode sch) cmiConnectProtocol
        defaultConnectTimeout connect_response c = (res, c1)" by fastforce
    have c1: "keeps c c1" using keeps_request [of c "Background now" "connect_request c mode sch" cmiConnectProtocol
        defaultConnectTimeout connect_response] r by simp
    show ?thesis
    proof (cases res)
      case ok: (Ok us)
      obtain res2 c2 where a: "(if mode = authModeChallenge then answer_challenge cl now mode sch us (set_version us c1)
          else (Ok us, set_version us c1)) = (res2, c2)" by fastforce
      have "keeps c c2" using a ans [of "set_version us c1" mode sch us] set c1 by (auto split: if_splits)
      with ok Ok ms r a set show ?thesis by (cases res2) (simp_all add: connectProtocol_def)
    qed (use Ok ms r c1 in \<open>simp_all add: connectProtocol_def\<close>)
  qed (simp_all add: connectProtocol_def)
qed

lemma snd_case_parse: "snd (case x of (r, c') \<Rightarrow> (f r, g c')) = g (snd x)"
  by (simp add: case_prod_beta)

lemma keeps_ops [simp]:
  "keeps c (snd (execDirect lib cx sid sql c))"
  "keeps c (snd (conn_prepare lib cx sid sql c))"
  "keeps c (snd (executePrepared lib spr cx sid sql ps cols c))"
  "keeps c (snd (fetchRowsChunk lib cx sid cols n c))"
  "keeps c (snd (appendOpen lib now sid table targets c))"
  by (simp_all add: execDirect_def conn_prepare_def executePrepared_def fetchRowsChunk_def appendOpen_def Let_def
      keeps_request split: outcome.splits)

lemma keeps_free [simp]: "keeps c (snd (conn_free now sid c))"
proof -
  let ?w = "fst (finalize (addUInt64 cmiXIDID (ucast sid) (newMarshalWriter cmiFreeProtocol sid 0)))"
  obtain res c1 where r: "sendPackets (Background now) ?w cmiFreeProtocol (nc_queryTimeout c) c = (res, c1)" by fastforce
  with keeps_sendPackets [of c "Background now" ?w cmiFreeProtocol "nc_queryTimeout c"] show ?thesis
    by (cases res) (simp_all add: conn_free_def)
qed

lemma keeps_append_data [simp]: "keeps c (snd (appendData now sid rows chk c))"
proof -
  let ?ps = "fst (finalize (append_data_writer sid rows))"
  let ?t = "if nc_queryTimeout c > 0 \<and> 5 * 10 ^ 6 > nc_queryTimeout c then nc_queryTimeout c else 5 * 10 ^ 6"
  obtain res c1 where r: "sendPacketsOptional (Background now) ?ps cmiAppendDataProtocol (nc_queryTimeout c) ?t c = (res, c1)"
    by fastforce
  have "keeps c c1" using keeps_Optional [of c "Background now" ?ps cmiAppendDataProtocol "nc_queryTimeout c" ?t] r by simp
  then have "keeps c (snd (case (res, c1) of (Ok (Some bdy), c') \<Rightarrow> (if bdy = [] then Ok () else parseAppendDataResponse bdy, c')
      | (Ok None, c') \<Rightarrow> (Ok (), c') | (Err e, c') \<Rightarrow> (Err e, c') | (Panic m, c') \<Rightarrow> (Panic m, c')))"
    by (cases res) (auto split: option.splits)
  then show ?thesis using keeps_NoResponse unfolding appendData_def Let_def r by simp
qed

lemma keeps_append_close [simp]: "keeps c (snd (appendClose now sid c))"
proof (cases "nc_closed c")
  case False
  let ?w = "fst (finalize (addUInt64 cmiPIDID (ucast sid) (newMarshalWriter cmiAppendCloseProtocol sid 0)))"
  let ?on = "\<lambda>d. if nc_queryTimeout c > 0 then Some d else None"
  let ?c1 = "set_deadlines None (?on (Some (now + nc_queryTimeout c))) c"
  obtain e b where s: "send_all ?w (nc_bw c) = (e, b)" by fastforce
  have k: "keeps c (?c1\<lparr>nc_bw := b\<rparr>)" by (simp add: keeps_simps)
  show ?thesis
    using False s keeps_trans [OF k keeps_close_loop] keeps_abort(2) [OF k]
    by (cases e) (simp_all add: appendClose_def Let_def case_prod_beta keeps_simps)
qed (simp add: appendClose_def)

lemma step_keeps:
  "conn_step lib spr c c' \<Longrightarrow> keeps c c' \<or> (\<exists>t. c' = c\<lparr>nc_ids := t\<rparr> \<and> (table_inv (nc_ids c) \<longrightarrow> table_inv t))
    \<or> c' = snd (conn_close c)"
proof (induction rule: conn_step.induct)
  case (step_alloc c i t)
  have "table_inv t" if inv: "table_inv (nc_ids c)"
  proof (cases i)
    case (Panic m)
    with stmt.alloc_no_panic [OF inv] step_alloc show ?thesis by simp
  qed (use nextStmtID_Ok(4) [OF inv] nextStmtID_Err(1) [OF inv] step_alloc inv in simp_all)
  then show ?case by blast
next
  case (step_release c j)
  then show ?case using releaseStmtID_used by blast
qed (use keeps_ops keeps_free keeps_append_data keeps_append_close in \<open>metis snd_conv\<close>)+

text \<open>On a closed connection every operation is without effect but for the ids.\<close>

lemma closed_request: "nc_closed c \<Longrightarrow> request cx w p t f c = (closed_error, c)"
  by (simp add: request_def sendPackets_def closed_error_def)

lemma same_ids [simp]: "\<exists>t. c = c\<lparr>nc_ids := t\<rparr>" for c :: NativeConn
  by (rule exI [of _ "nc_ids c"]) simp

lemma closed_append_data: "nc_closed c \<Longrightarrow> snd (appendData now sid rows chk c) = c"
  by (simp add: appendData_def sendPacketsNoResponse_def sendPacketsOptional_def closed_error_def Let_def)

lemma step_closed:
  "conn_step lib spr c c' \<Longrightarrow> nc_closed c \<Longrightarrow> \<exists>t. c' = c\<lparr>nc_ids := t\<rparr>"
proof (induction rule: conn_step.induct)
  case (step_append_data now sid rows chk c u c')
  then show ?case using closed_append_data [of c now sid rows chk] by simp
qed (auto simp: execDirect_def conn_prepare_def executePrepared_def fetchRowsChunk_def appendOpen_def conn_close_def Let_def
    conn_free_def appendClose_def sendPackets_def closed_error_def closed_request split: outcome.splits)

section \<open>Dialled connections\<close>

lemma dial_endpoint_keeps: "dial_endpoint cl dial now cfg ep = Ok c \<Longrightarrow> \<exists>d. keeps (new_conn cfg d) c"
proof -
  assume ok: "dial_endpoint cl dial now cfg ep = Ok c"
  then obtain d where d: "dial ep = Ok d" by (auto simp: dial_endpoint_def bind_outcome_Ok_iff)
  obtain r1 c1 where h: "handshake now (new_conn cfg d) = (r1, c1)" by fastforce
  obtain r2 c2 where p: "connectProtocol cl now c1 = (r2, c2)" by fastforce
  from ok d h p have "c = c2" by (cases r1; cases r2) (simp_all add: dial_endpoint_def)
  with keeps_handshake [of "new_conn cfg d" now] keeps_connect [of c1 cl now] h p keeps_trans show ?thesis by auto
qed

lemma dial_loop_keeps: "dial_loop cl dial now cfg eps le = Ok c \<Longrightarrow> \<exists>d. keeps (new_conn cfg d) c"
  by (induction eps arbitrary: le) (auto split: outcome.splits dest: dial_endpoint_keeps)

lemma dialNative_start:
  assumes "dialNative cl dial now cfg = Ok c"
  shows "nc_closed c = nc_netClosed c \<and> table_inv (nc_ids c) \<and> 0 < nc_fetchRows c"
proof -
  let ?cfg = "if cfg_FetchRows cfg \<le> 0 then cfg\<lparr>cfg_FetchRows := defaultFetchRows\<rparr> else cfg"
  from assms obtain d where "keeps (new_conn ?cfg d) c"
    unfolding dialNative_def Let_def by (blast dest: dial_loop_keeps)
  moreover have "0 < cfg_FetchRows ?cfg" by simp
  ultimately show ?thesis using stmt.init_inv by (simp add: keeps_def new_conn_def)
qed

lemma steps_invariant:
  assumes "(conn_step lib spr)\<^sup>*\<^sup>* c c'" and "nc_closed c = nc_netClosed c \<and> table_inv (nc_ids c) \<and> 0 < nc_fetchRows c"
  shows "nc_closed c' = nc_netClosed c' \<and> table_inv (nc_ids c') \<and> 0 < nc_fetchRows c'"
  using assms
proof (induction rule: rtranclp_induct)
  case (step c1 c2)
  from step_keeps [OF step.hyps(2)] step.IH [OF step.prems] show ?case
    by (auto simp: keeps_def conn_close_def)
qed simp

section \<open>Data responses before the close\<close>

lemma append_close_loop_drains:
  assumes "list_all (\<lambda>r. reply_wf r \<and> fst (reply_body r) = cmiAppendDataProtocol
      \<and> parseAppendDataResponse (snd (reply_body r)) = Ok ()) acks"
    and "reply_wf fin" and "fst (reply_body fin) = cmiAppendCloseProtocol"
    and "nc_br c = stream_of (acks @ fin # rest) e"
  shows "fst (append_close_loop now c) = parseAppendCloseResponse (snd (reply_body fin))
    \<and> nc_br (snd (append_close_loop now c)) = stream_of rest e
    \<and> nc_closed (snd (append_close_loop now c)) = nc_closed c"
  using assms
proof (induction acks arbitrary: c)
  case Nil
  obtain p sid ads frs where f: "fin = (p, sid, ads, frs)" by (cases fin) auto
  let ?c1 = "set_deadlines (if nc_queryTimeout c > 0 then Some (Some (now + nc_queryTimeout c)) else None) None c"
  from Packet_Read_reply [OF Nil.prems(2) f, of "nc_packet c" rest e] obtain pkt where
    "Packet_Read (nc_packet c) (stream_of (fin # rest) e) = (None, pkt, stream_of rest e)"
    "protocol pkt = p" "bslice_bytes (body pkt) = snd (reply_body fin)" by blast
  moreover from this have "conn_Read ?c1 = (None, ?c1\<lparr>nc_packet := pkt, nc_br := stream_of rest e\<rparr>)"
    using Nil.prems(4) by (simp add: conn_Read_def)
  ultimately show ?case
    using Nil.prems(3) f by (subst append_close_loop.simps, subst append_close_loop.simps, subst append_close_loop.simps) (simp add: Let_def)
next
  case (Cons r acks)
  obtain p sid ads frs where f: "r = (p, sid, ads, frs)" by (cases r) auto
  have wf: "reply_wf r" using Cons.prems(1) by simp
  let ?c1 = "set_deadlines (if nc_queryTimeout c > 0 then Some (Some (now + nc_queryTimeout c)) else None) None c"
  from Packet_Read_reply [OF wf f, of "nc_packet c" "acks @ fin # rest" e] obtain pkt where
    pk: "Packet_Read (nc_packet c) (stream_of (r # acks @ fin # rest) e) = (None, pkt, stream_of (acks @ fin # rest) e)"
    "protocol pkt = p" "bslice_bytes (body pkt) = snd (reply_body r)" by blast
  let ?c2 = "?c1\<lparr>nc_packet := pkt, nc_br := stream_of (acks @ fin # rest) e\<rparr>"
  let ?c3 = "set_deadlines (if nc_queryTimeout c > 0 then Some None else None) None ?c2"
  have "conn_Read ?c1 = (None, ?c2)" using Cons.prems(4) pk(1) by (simp add: conn_Read_def)
  then have eq: "append_close_loop now c = append_close_loop now ?c3"
    using Cons.prems(1) f pk by (subst append_close_loop.simps) (simp add: Let_def)
  from Cons.IH [of ?c3] Cons.prems show ?case unfolding eq by simp
qed

section \<open>The password\<close>

text \<open>No step of an exchange looks at the password.\<close>

abbreviation with_password :: "string \<Rightarrow> NativeConn \<Rightarrow> NativeConn" where
  "with_password p c \<equiv> c\<lparr>nc_password := p\<rparr>"

lemma password_primitives:
  "markBrokenLocked (with_password p c) = with_password p (markBrokenLocked c)"
  "set_deadlines rd wd (with_password p c) = with_password p (set_deadlines rd wd c)"
  "watcher_stopped cx pts (with_password p c) = with_password p (watcher_stopped cx pts c)"
  "set_version us (with_password p c) = with_password p (set_version us c)"
  "set_session us (with_password p c) = with_password p (set_session us c)"
  by (auto simp: markBrokenLocked_def set_deadlines_def watcher_stopped_def set_version_def set_session_def Let_def
      split: option.splits)

lemma password_abort:
  "abort_with (ctxAbortErr cx e (with_password p c)) = map_prod (\<lambda>x. x) (with_password p) (abort_with (ctxAbortErr cx e c))"
  by (simp add: abort_with_def ctxAbortErr_def retireOnTimeout_def password_primitives split: option.splits)

lemma password_Read: "conn_Read (with_password p c) = map_prod (\<lambda>x. x) (with_password p) (conn_Read c)"
  by (simp add: conn_Read_def split: prod.splits option.splits list.splits)

lemma password_exchange:
  "exchange cx ps ex (with_password p c) = map_prod (\<lambda>x. x) (with_password p) (exchange cx ps ex c)"
proof -
  have bw: "with_password p c\<lparr>nc_bw := b\<rparr> = with_password p (c\<lparr>nc_bw := b\<rparr>)" for b by simp
  obtain e b where s: "send_all ps (nc_bw c) = (e, b)" by fastforce
  obtain e2 c2 where r: "conn_Read (c\<lparr>nc_bw := b\<rparr>) = (e2, c2)" by fastforce
  have r': "conn_Read (with_password p (c\<lparr>nc_bw := b\<rparr>)) = (e2, with_password p c2)" using r by (simp only: password_Read map_prod_simp)
  have x: "expect_protocol ex (with_password p c2) = map_prod (\<lambda>x. x) (with_password p) (expect_protocol ex c2)"
    by (simp add: expect_protocol_def password_primitives)
  show ?thesis
    unfolding exchange_def
    using s r r' x by (cases e; cases e2) (simp_all add: bw password_abort del: NativeConn.update_convs)
qed

lemma password_request:
  "request cx w ex t f (with_password p c) = map_prod (\<lambda>x. x) (with_password p) (request cx w ex t f c)"
proof -
  have "sendPackets cx ps ex t (with_password p c) = map_prod (\<lambda>x. x) (with_password p) (sendPackets cx ps ex t c)" for ps
    by (simp add: sendPackets_def Let_def password_primitives password_exchange case_prod_beta)
  then show ?thesis by (simp add: request_def case_prod_beta)
qed

lemma password_answer:
  "answer_challenge cl now m sch us (with_password p c) = map_prod (\<lambda>x. x) (with_password p) (answer_challenge cl now m sch us c)"
  by (simp add: answer_challenge_def challenge_request_def local_ip_def password_request split: outcome.splits)

section \<open>Deadlines\<close>

lemma exchange_keeps_deadlines:
  "nc_readDeadline (snd (exchange cx ps ex c)) = nc_readDeadline c \<and> nc_writeDeadline (snd (exchange cx ps ex c)) = nc_writeDeadline c"
proof -
  have mark: "nc_readDeadline (markBrokenLocked x) = nc_readDeadline x" "nc_writeDeadline (markBrokenLocked x) = nc_writeDeadline x" for x
    by (simp_all add: markBrokenLocked_def)
  have abort: "nc_readDeadline (snd (ctxAbortErr cx e x)) = nc_readDeadline x \<and> nc_writeDeadline (snd (ctxAbortErr cx e x)) = nc_writeDeadline x" for e x
    by (simp add: ctxAbortErr_def retireOnTimeout_def mark split: option.splits)
  have read: "nc_readDeadline (snd (conn_Read x)) = nc_readDeadline x \<and> nc_writeDeadline (snd (conn_Read x)) = nc_writeDeadline x" for x
    by (simp add: conn_Read_def split: prod.splits option.splits list.splits)
  obtain e b where s: "send_all ps (nc_bw c) = (e, b)" by fastforce
  obtain e2 c2 where r: "conn_Read (c\<lparr>nc_bw := b\<rparr>) = (e2, c2)" by fastforce
  show ?thesis
    using s r read [of "c\<lparr>nc_bw := b\<rparr>"] by (cases e; cases e2) (simp_all add: exchange_def abort mark expect_protocol_def)
qed

lemma sendPackets_deadlines:
  assumes "\<not> nc_closed c" and "nc_readDeadline c = None" and "nc_writeDeadline c = None"
  shows "nc_readDeadline (snd (sendPackets cx ps expected t c))
      = (if cx_cancelable cx \<and> cx_fire cx \<noteq> None \<and> cx_deadline cx = None then Some (cx_now cx) else None)
    \<and> nc_writeDeadline (snd (sendPackets cx ps expected t c))
      = (if cx_cancelable cx \<and> cx_fire cx \<noteq> None \<and> t \<le> 0 then Some (cx_now cx) else None)"
proof -
  have watch: "watcher_stopped cx [DuringIO, AtReturn] x = (if cx_cancelable cx \<and> cx_fire cx \<noteq> None
      then x\<lparr>nc_readDeadline := Some (cx_now cx), nc_writeDeadline := Some (cx_now cx)\<rparr> else x)" for x
  proof (cases "cx_fire cx")
    case (Some y)
    then show ?thesis by (cases y) (simp_all add: watcher_stopped_def)
  qed (simp add: watcher_stopped_def)
  let ?c = "set_deadlines (if cx_deadline cx \<noteq> None then Some (cx_deadline cx) else None)
      (if t > 0 then Some (Some (cx_now cx + t)) else None) c"
  from exchange_keeps_deadlines [of cx ps expected ?c] assms show ?thesis
    by (simp add: sendPackets_def Let_def case_prod_beta watch) (auto simp: set_deadlines_def)
qed

section \<open>A server that answers\<close>

lemma handshake_ready:
  assumes "healthy (nc_bw c)" and "bw_buf (nc_bw c) = []"
    and "nc_br c = \<lparr>rd_data = bytes_of_string cmiHandshakeReady @ rest, rd_end = e\<rparr>"
  shows "\<exists>b. healthy b \<and> bw_buf b = [] \<and> handshake now c
    = (Ok (), c\<lparr>nc_bw := b, nc_br := \<lparr>rd_data = rest, rd_end = e\<rparr>, nc_readDeadline := None, nc_writeDeadline := None\<rparr>)"
proof -
  from send_all_healthy [OF assms(1,2), of "[bytes_of_string cmiHandshakePayload]"] obtain b where
    b: "send_all [bytes_of_string cmiHandshakePayload] (nc_bw c) = (None, b)" "healthy b" "bw_buf b = []" by blast
  have len: "length (bytes_of_string cmiHandshakePayload) = 9" "length (bytes_of_string cmiHandshakeReady) = 9"
    by (simp_all add: bytes_of_string_def)
  have read: "io_ReadFull \<lparr>rd_data = bytes_of_string cmiHandshakeReady @ rest, rd_end = e\<rparr> 9
      = (bytes_of_string cmiHandshakeReady, None, \<lparr>rd_data = rest, rd_end = e\<rparr>)"
    using len(2) by (simp add: io_ReadFull_def)
  show ?thesis
    using b len(1) assms(3) read
    by (intro exI [of _ b]) (simp add: handshake_def Let_def set_br_def set_deadlines_def del: append.append_Cons)
qed

lemma connect_response_ok:
  "connect_response (op_bytes (AddUInt64 cmiRResultID cmiOKResult))
    = Ok (\<lambda>i. filter (\<lambda>u. mu_id u = i) [op_unit (AddUInt64 cmiRResultID cmiOKResult)])"
  using units_of_ops [of "[AddUInt64 cmiRResultID cmiOKResult]"]
  by (simp add: connect_response_def firstUnit_def codec_simps statusCode_def del: op_bytes.simps)
    (simp add: codec_simps statusCode_def)

text \<open>The bytes of a server that accepts a password connection.\<close>

definition accepting :: "reply list \<Rightarrow> gerr \<Rightarrow> dialed" where
  "accepting rs e =
     \<lparr>dl_out = \<lparr>so_sent = [], so_room = None, so_err = e\<rparr>,
      dl_in = \<lparr>rd_data = bytes_of_string cmiHandshakeReady @ concat (map reply_wire
        ((cmiConnectProtocol, 0, 0, [(0, op_bytes (AddUInt64 cmiRResultID cmiOKResult))]) # rs)), rd_end = e\<rparr>,
      dl_later = [], dl_ip = None, dl_closeErr = None\<rparr>"

lemma dial_accepted:
  assumes "list_all reply_wf rs" and "cfg_AuthMode cfg = []" and "cfg_PrivateKey cfg = None"
  shows "\<exists>c ch. dial_endpoint cl (\<lambda>_. Ok (accepting rs e)) now cfg ep = Ok c \<and> session_rel c ch
    \<and> ch_open ch \<and> ch_replies ch = map reply_body rs \<and> ch_end ch = e
    \<and> nc_readDeadline c = None \<and> nc_writeDeadline c = None"
proof -
  let ?ok = "op_bytes (AddUInt64 cmiRResultID cmiOKResult)"
  let ?first = "(cmiConnectProtocol, 0, 0, [(0, ?ok)]) :: reply"
  let ?c0 = "new_conn cfg (accepting rs e)"
  have "healthy (nc_bw ?c0)" "bw_buf (nc_bw ?c0) = []"
    "nc_br ?c0 = \<lparr>rd_data = bytes_of_string cmiHandshakeReady @ concat (map reply_wire (?first # rs)), rd_end = e\<rparr>"
    by (simp_all add: new_conn_def accepting_def healthy_def)
  from handshake_ready [OF this] obtain b where b: "healthy b" "bw_buf b = []" and
    h: "handshake now ?c0 = (Ok (), ?c0\<lparr>nc_bw := b, nc_br := stream_of (?first # rs) e,
        nc_readDeadline := None, nc_writeDeadline := None\<rparr>)"
    unfolding stream_of_def by blast
  define c1 where "c1 = ?c0\<lparr>nc_bw := b, nc_br := stream_of (?first # rs) e, nc_readDeadline := None, nc_writeDeadline := None\<rparr>"
  define ch1 where "ch1 = \<lparr>ch_open = True, ch_sent = so_sent (snd (bw_wr b)), ch_replies = map reply_body (?first # rs), ch_end = e\<rparr>"
  have wf: "list_all reply_wf (?first # rs)" using assms(1) by (simp add: last_flag_def)
  have rel1: "session_rel c1 ch1"
    unfolding session_rel_def using b wf
    by (intro conjI exI [of _ "?first # rs"]) (simp_all add: c1_def ch1_def new_conn_def accepting_def)
  define call where "call = (Background now, fst (finalize (connect_request c1 authModePassword [])), cmiConnectProtocol, defaultConnectTimeout)"
  obtain res c2 where s: "conn_call call c1 = (res, c2)" by fastforce
  define ch2 where "ch2 = snd (channel_call call ch1)"
  have r: "res = Ok ?ok" "session_rel c2 ch2"
    using conn_call_refines [OF rel1, of call] s unfolding ch2_def by (simp_all add: call_def ch1_def)
  have ch2: "ch_open ch2" "ch_replies ch2 = map reply_body rs" "ch_end ch2 = e"
    by (simp_all add: ch2_def call_def ch1_def)
  have dl: "nc_readDeadline c2 = None" "nc_writeDeadline c2 = None"
    using sendPackets_deadlines [of c1 "Background now"] s
    by (simp_all add: call_def c1_def new_conn_def Background_def) (metis snd_conv)+
  define us where "us = (\<lambda>i. filter (\<lambda>u. mu_id u = i) [op_unit (AddUInt64 cmiRResultID cmiOKResult)])"
  have mode: "finalizeAuthConnectOptions (nc_authMode c1) (nc_authKey c1) (nc_authSigScheme c1) = Ok (authModePassword, [])"
    using assms by (simp add: c1_def new_conn_def finalizeAuthConnectOptions_def canonicalizeAuthMode_def)
  have "connectProtocol cl now c1 = (Ok (), set_session us (set_version us c2))"
    using mode s r(1) by (simp add: connectProtocol_def request_def call_def connect_response_ok us_def del: op_bytes.simps)
  moreover have same: "set_session us (set_version us c2) = c2"
    by (simp add: us_def set_session_def set_version_def firstUnit_def)
  ultimately have "dial_endpoint cl (\<lambda>_. Ok (accepting rs e)) now cfg ep = Ok c2"
    using h by (simp add: dial_endpoint_def c1_def)
  with r(2) ch2 dl show ?thesis by blast
qed

section \<open>Sample connections\<close>

definition demo_cfg :: ConnConfig where
  "demo_cfg = \<lparr>cfg_Host = ''db'', cfg_Port = 5656, cfg_User = ''sys'', cfg_Password = ''manager'', cfg_AuthMode = [],
     cfg_AuthSigScheme = [], cfg_AlternativeServers = [], cfg_FetchRows = 0, cfg_TrackIOBytes = False, cfg_PrivateKey = None\<rparr>"

definition demo_conn :: "reply list \<Rightarrow> NativeConn" where
  "demo_conn rs = new_conn demo_cfg \<lparr>dl_out = \<lparr>so_sent = [], so_room = None, so_err = EOF\<rparr>, dl_in = stream_of rs EOF,
     dl_later = [], dl_ip = None, dl_closeErr = None\<rparr>"

lemma demo_conn_simps [simp]:
  "\<not> nc_closed (demo_conn rs)" "healthy (nc_bw (demo_conn rs))" "bw_buf (nc_bw (demo_conn rs)) = []"
  "nc_br (demo_conn rs) = stream_of rs EOF" "nc_readDeadline (demo_conn rs) = None" "nc_writeDeadline (demo_conn rs) = None"
  by (simp_all add: demo_conn_def new_conn_def healthy_def)

lemma demo_conn_rel:
  "list_all reply_wf rs \<Longrightarrow>
    session_rel (demo_conn rs) \<lparr>ch_open = True, ch_sent = [], ch_replies = map reply_body rs, ch_end = EOF\<rparr>"
  unfolding session_rel_def
  by (intro conjI exI [of _ rs]) (simp_all add: demo_conn_def new_conn_def healthy_def)

section \<open>Properties\<close>

text \<open>
  C1. A connection over a healthy socket refines an abstract channel: in every session, that is
  for every sequence of calls of \<^verbatim>\<open>sendPackets\<close> with arbitrary packets, contexts and expected
  protocols, against a peer that answers with well-formed packet sequences, the results are those of
  the channel. The requests reach the peer in order and nothing else does, the \<open>k\<close>-th request that is
  sent gets the \<open>k\<close>-th reply, and after a reply of another protocol or a timeout every further
  call is refused and sends nothing.
\<close>

theorem session_refinement:
  assumes "session_rel c ch"
  shows "fst (run_steps conn_call calls c) = fst (run_steps channel_call calls ch)
    \<and> session_rel (snd (run_steps conn_call calls c)) (snd (run_steps channel_call calls ch))"
  using assms by (rule chan.run_sim)

theorem session_refinement_witness:
  "fst (run_steps conn_call [(Background 0, [[1]], 9, 0), (Background 0, [[2]], 9, 0), (Background 0, [[3]], 9, 0)]
      (demo_conn [(9, 0, 0, [(0, [5])]), (7, 0, 0, [(0, [6])])])) = [Ok [5], Err unexpected_protocol, closed_error]"
proof -
  have "list_all reply_wf [(9, 0, 0, [(0, [5])]), (7, 0, 0, [(0, [6])])]" by (simp add: last_flag_def)
  from session_refinement [OF demo_conn_rel [OF this],
      of "[(Background 0, [[1]], 9, 0), (Background 0, [[2]], 9, 0), (Background 0, [[3]], 9, 0)]"]
  show ?thesis by (simp add: Background_def)
qed

text \<open>
  C2. Invariant of a connection: whatever sequence of operations runs on a connection that was
  dialled successfully, the closed flag is set exactly when the socket was closed, the table of
  statement ids is consistent, and the number of rows per fetch is positive; once the flag
  is set, no further operation clears it, sends a byte or reads one.
\<close>

theorem connection_invariant:
  assumes "dialNative cl dial now cfg = Ok c0" and "(conn_step lib spr)\<^sup>*\<^sup>* c0 c" and "(conn_step lib spr)\<^sup>*\<^sup>* c c'"
  shows "nc_closed c = nc_netClosed c \<and> table_inv (nc_ids c) \<and> 0 < nc_fetchRows c
    \<and> (nc_closed c \<longrightarrow> nc_closed c' \<and> nc_bw c' = nc_bw c \<and> nc_br c' = nc_br c)"
proof -
  have "nc_closed c' \<and> nc_bw c' = nc_bw c \<and> nc_br c' = nc_br c" if "nc_closed c"
    using assms(3) that by (induction rule: rtranclp_induct) (auto dest!: step_closed)
  with steps_invariant [OF assms(2) dialNative_start [OF assms(1)]] show ?thesis by blast
qed

theorem connection_invariant_witness:
  "\<forall>lib spr. \<exists>c0 c. dialNative echo_lib (\<lambda>_. Ok (accepting [] EOF)) 0 demo_cfg = Ok c0 \<and> (conn_step lib spr)\<^sup>*\<^sup>* c0 c
    \<and> nc_closed c \<and> nc_netClosed c \<and> table_inv (nc_ids c) \<and> 0 < nc_fetchRows c"
proof (intro allI)
  fix lib spr
  from dial_accepted [of "[]" "demo_cfg\<lparr>cfg_FetchRows := defaultFetchRows\<rparr>" echo_lib EOF 0 "''db:'' @ itoa 5656"]
  obtain c0 where "dialNative echo_lib (\<lambda>_. Ok (accepting [] EOF)) 0 demo_cfg = Ok c0"
    by (auto simp: dialNative_def demo_cfg_def Let_def)
  moreover have "(conn_step lib spr)\<^sup>*\<^sup>* c0 (snd (conn_close c0))"
    by (rule r_into_rtranclp, rule step_close) (rule prod.collapse [symmetric])
  moreover have "nc_closed (snd (conn_close c0))" by (simp add: conn_close_def)
  ultimately show "\<exists>c0 c. dialNative echo_lib (\<lambda>_. Ok (accepting [] EOF)) 0 demo_cfg = Ok c0 \<and> (conn_step lib spr)\<^sup>*\<^sup>* c0 c
    \<and> nc_closed c \<and> nc_netClosed c \<and> table_inv (nc_ids c) \<and> 0 < nc_fetchRows c"
    using connection_invariant [of echo_lib "\<lambda>_. Ok (accepting [] EOF)" 0 demo_cfg c0 lib spr "snd (conn_close c0)"
        "snd (conn_close c0)"] by blast
qed

text \<open>
  C11. Failures retire the connection: when an exchange on an open connection fails and the
  connection stays open, the context was not done, the error is not a timeout, and it is the error
  of the write or of reading the response. So a cancelled or timed-out exchange, and a whole
  response of the wrong protocol, always close it. An exchange never panics.
\<close>

theorem send_failure_retires:
  assumes "\<not> nc_closed c"
  shows "case sendPackets cx ps expected t c of
      (Ok bdy, c') \<Rightarrow> \<not> nc_closed c'
    | (Err e, c') \<Rightarrow> nc_closed c' \<or> cx_err cx = None \<and> e \<noteq> TimeoutErr
        \<and> (fst (send_all ps (nc_bw c)) = Some e \<or> fst (Packet_Read (nc_packet c) (nc_br c)) = Some e)
    | (Panic m, c') \<Rightarrow> False"
proof -
  obtain rd wd rd' wd' where eq: "sendPackets cx ps expected t c =
      (case exchange cx ps expected (set_deadlines rd wd c) of
        (res, c2) \<Rightarrow> (res, set_deadlines rd' wd' (watcher_stopped cx [DuringIO, AtReturn] c2)))"
    using sendPackets_exchange [OF assms] by blast
  let ?c = "set_deadlines rd wd c"
  obtain e b where s: "send_all ps (nc_bw c) = (e, b)" by fastforce
  obtain e2 c2 where r: "conn_Read (?c\<lparr>nc_bw := b\<rparr>) = (e2, c2)" by fastforce
  have e2: "e2 = fst (Packet_Read (nc_packet c) (nc_br c))" "\<not> nc_closed c2"
    using r assms by (auto simp: conn_Read_def split: prod.splits option.splits list.splits if_splits)
  have mark: "nc_closed (markBrokenLocked x)" for x by (simp add: markBrokenLocked_def)
  show ?thesis
  proof (cases e)
    case (Some x)
    with s assms show ?thesis
      by (auto simp: eq exchange_def abort_with_def ctxAbortErr_def retireOnTimeout_def mark split: option.splits)
  next
    case None
    with s r e2 assms show ?thesis
      by (cases e2) (auto simp: eq exchange_def abort_with_def ctxAbortErr_def retireOnTimeout_def mark expect_protocol_def
          split: option.splits)
  qed
qed

theorem send_failure_retires_witness:
  "case sendPackets (Background 0) [[1]] 9 0 (demo_conn []) of
      (Ok bdy, c') \<Rightarrow> \<not> nc_closed c'
    | (Err e, c') \<Rightarrow> nc_closed c' \<or> cx_err (Background 0) = None \<and> e \<noteq> TimeoutErr
        \<and> (fst (send_all [[1]] (nc_bw (demo_conn []))) = Some e
          \<or> fst (Packet_Read (nc_packet (demo_conn [])) (nc_br (demo_conn []))) = Some e)
    | (Panic m, c') \<Rightarrow> False"
  by (rule send_failure_retires) simp

text \<open>
  C34. In challenge mode the password has no influence: whatever password the connection holds,
  the bytes it sends, the result of \<^verbatim>\<open>connectProtocol\<close> and the rest of its state are the same.
\<close>

theorem challenge_hides_password:
  assumes "finalizeAuthConnectOptions (nc_authMode c) (nc_authKey c) (nc_authSigScheme c) = Ok (authModeChallenge, sch)"
  shows "connectProtocol cl now (c\<lparr>nc_password := p\<rparr>)
    = (fst (connectProtocol cl now c), (snd (connectProtocol cl now c))\<lparr>nc_password := p\<rparr>)"
proof -
  let ?rq = "\<lambda>c. request (Background now) (connect_request c authModeChallenge sch) cmiConnectProtocol
      defaultConnectTimeout connect_response c"
  obtain res c1 where r: "?rq c = (res, c1)" by fastforce
  have "connect_request (with_password p c) authModeChallenge sch = connect_request c authModeChallenge sch"
    by (simp add: connect_request_def local_ip_def)
  then have r': "?rq (with_password p c) = (res, with_password p c1)" using r by (simp add: password_request)
  show ?thesis
  proof (cases res)
    case (Ok us)
    obtain r2 c2 where a: "answer_challenge cl now authModeChallenge sch us (set_version us c1) = (r2, c2)" by fastforce
    with assms r r' Ok show ?thesis
      by (cases r2) (simp_all add: connectProtocol_def password_primitives password_answer)
  qed (use assms r r' in \<open>simp_all add: connectProtocol_def\<close>)
qed

theorem challenge_hides_password_witness:
  "\<forall>cl p. so_sent (snd (bw_wr (nc_bw (snd (connectProtocol cl 0 (demo_conn []
        \<lparr>nc_authMode := authModeChallenge, nc_authKey := Some (RSAKey (Some 2048) 1), nc_authSigScheme := authSigSchemeRSAPSS,
         nc_password := p\<rparr>))))))
    = so_sent (snd (bw_wr (nc_bw (snd (connectProtocol cl 0 (demo_conn []
        \<lparr>nc_authMode := authModeChallenge, nc_authKey := Some (RSAKey (Some 2048) 1), nc_authSigScheme := authSigSchemeRSAPSS\<rparr>))))))"
proof (intro allI)
  fix cl p
  let ?c = "demo_conn [] \<lparr>nc_authMode := authModeChallenge, nc_authKey := Some (RSAKey (Some 2048) 1), nc_authSigScheme := authSigSchemeRSAPSS\<rparr>"
  have "finalizeAuthConnectOptions (nc_authMode ?c) (nc_authKey ?c) (nc_authSigScheme ?c) = Ok (authModeChallenge, authSigSchemeRSAPSS)"
    by (simp add: finalizeAuthConnectOptions_def canonical_mode_fixed canonical_scheme_fixed auth_schemes_def)
  from challenge_hides_password [OF this, of cl 0 p] show "so_sent (snd (bw_wr (nc_bw (snd (connectProtocol cl 0 (?c\<lparr>nc_password := p\<rparr>))))))
      = so_sent (snd (bw_wr (nc_bw (snd (connectProtocol cl 0 ?c)))))"
    by simp
qed

text \<open>
  The deadlines that an exchange leaves on the socket, when there were none before: none,
  except that a context which is done before the watcher is stopped leaves the read deadline in
  the past if the context has no deadline of its own, and the write deadline if the exchange has no
  timeout. The exchange may have succeeded; the next read on the connection then fails.
\<close>

theorem exchange_deadlines:
  assumes "\<not> nc_closed c" and "nc_readDeadline c = None" and "nc_writeDeadline c = None"
  shows "nc_readDeadline (snd (sendPackets cx ps expected t c))
      = (if cx_cancelable cx \<and> cx_fire cx \<noteq> None \<and> cx_deadline cx = None then Some (cx_now cx) else None)
    \<and> nc_writeDeadline (snd (sendPackets cx ps expected t c))
      = (if cx_cancelable cx \<and> cx_fire cx \<noteq> None \<and> t \<le> 0 then Some (cx_now cx) else None)"
  using assms by (rule sendPackets_deadlines)

text \<open>A context that is cancelled while a successful exchange returns leaves an expired read deadline.\<close>

theorem exchange_deadlines_witness:
  "nc_readDeadline (snd (sendPackets \<lparr>cx_now = 5, cx_deadline = None, cx_cancelable = True, cx_fire = Some AtReturn, cx_err = None\<rparr>
      [[1]] 9 1 (demo_conn [(9, 0, 0, [(0, [5])])]))) = Some 5"
  using exchange_deadlines [of "demo_conn [(9, 0, 0, [(0, [5])])]"
      "\<lparr>cx_now = 5, cx_deadline = None, cx_cancelable = True, cx_fire = Some AtReturn, cx_err = None\<rparr>" "[[1]]" 9 1]
  by simp

text \<open>
  Closing an append drains the stream: when the responses to the data sent before, all
  successful and any number of them, are followed by the close response, \<^verbatim>\<open>appendClose\<close> returns the
  counters of the close response and the stream is left exactly after it, on an open connection.
\<close>

theorem append_close_drains:
  assumes "\<not> nc_closed c" and "healthy (nc_bw c)" and "bw_buf (nc_bw c) = []"
    and "list_all (\<lambda>r. reply_wf r \<and> fst (reply_body r) = cmiAppendDataProtocol
      \<and> parseAppendDataResponse (snd (reply_body r)) = Ok ()) acks"
    and "reply_wf fin" and "fst (reply_body fin) = cmiAppendCloseProtocol"
    and "nc_br c = stream_of (acks @ fin # rest) e"
  shows "fst (appendClose now sid c) = parseAppendCloseResponse (snd (reply_body fin))
    \<and> nc_br (snd (appendClose now sid c)) = stream_of rest e \<and> \<not> nc_closed (snd (appendClose now sid c))"
proof -
  let ?w = "fst (finalize (addUInt64 cmiPIDID (ucast sid) (newMarshalWriter cmiAppendCloseProtocol sid 0)))"
  let ?c1 = "set_deadlines None (if nc_queryTimeout c > 0 then Some (Some (now + nc_queryTimeout c)) else None) c"
  from send_all_healthy [OF assms(2,3), of ?w] obtain b where b: "send_all ?w (nc_bw c) = (None, b)" by blast
  have br: "nc_br (?c1\<lparr>nc_bw := b\<rparr>) = stream_of (acks @ fin # rest) e" using assms(7) by simp
  from append_close_loop_drains [OF assms(4-6) br, of now] assms(1) b show ?thesis
    by (simp add: appendClose_def Let_def case_prod_beta)
qed

theorem append_close_drains_witness:
  "fst (appendClose 0 7 (demo_conn [(12, 7, 7, [(0, [])]), (13, 7, 0, [(0, op_bytes (AddUInt64 cmiXAppendSuccessID 3))])])) = Ok (3, 0)"
proof -
  let ?b = "op_bytes (AddUInt64 cmiXAppendSuccessID 3)"
  have ack: "parseAppendDataResponse [] = Ok ()"
    using units_of_ops [of "[]"] by (simp add: parseAppendDataResponse_def firstUnit_def)
  have fin: "parseAppendCloseResponse ?b = Ok (3, 0)"
    using units_of_ops [of "[AddUInt64 cmiXAppendSuccessID 3]"]
    by (simp add: parseAppendCloseResponse_def check_first_result_def append_count_def firstUnit_def codec_simps del: op_bytes.simps)
      (simp add: codec_simps)
  from append_close_drains [of "demo_conn [(12, 7, 7, [(0, [])]), (13, 7, 0, [(0, ?b)])]" "[(12, 7, 7, [(0, [])])]"
      "(13, 7, 0, [(0, ?b)])" "[]" EOF 0 7] ack fin
  show ?thesis by (simp add: last_flag_def del: op_bytes.simps) (simp add: var_unit_bytes_def)
qed

text \<open>
  A protocol mismatch between the fragments of one response: \<^verbatim>\<open>free\<close> reports success as for a whole
  response of another protocol, but the connection is still open and the body of the second
  fragment is still in the stream.
\<close>

lemma Packet_Read_mismatch:
  assumes "p \<noteq> q" and "b \<noteq> []" and "length b < 2 ^ 30" and "length b2 < 2 ^ 30"
  shows "\<exists>pkt'. Packet_Read pkt \<lparr>rd_data = buildPacket p sid ads 1 b @ buildPacket q sid ads f b2 @ rest, rd_end = e\<rparr>
    = (Some unexpected_protocol, pkt', \<lparr>rd_data = b2 @ rest, rd_end = e\<rparr>)"
proof -
  note h1 = readPacketHeader_buildPacket [OF assms(3), of p sid ads 1 "buildPacket q sid ads f b2 @ rest" e]
  note h2 = readPacketHeader_buildPacket [OF assms(4), of q sid ads f rest e]
  have "read_fragments p out \<lparr>rd_data = buildPacket q sid ads f b2 @ rest, rd_end = e\<rparr>
      = (Some unexpected_protocol, out, \<lparr>rd_data = b2 @ rest, rd_end = e\<rparr>)" for out
    using assms(1) by (subst read_fragments.simps) (simp add: h2 unexpected_protocol_def)
  then show ?thesis
    using assms(2) by (simp add: Packet_Read_def h1 io_ReadFull_def last_flag_def Let_def)
qed

theorem free_hides_desync:
  "\<exists>c'. conn_free 0 7 ((demo_conn [])\<lparr>nc_br :=
        \<lparr>rd_data = buildPacket cmiFreeProtocol 7 0 1 [1] @ buildPacket cmiAppendOpenProtocol 7 0 3 [2] @ [], rd_end = EOF\<rparr>\<rparr>)
      = (Ok (), c') \<and> \<not> nc_closed c' \<and> rd_data (nc_br c') = [2]"
proof -
  define c where "c = (demo_conn [])\<lparr>nc_br :=
        \<lparr>rd_data = buildPacket cmiFreeProtocol 7 0 1 [1] @ buildPacket cmiAppendOpenProtocol 7 0 3 [2] @ [], rd_end = EOF\<rparr>\<rparr>"
  let ?ps = "fst (finalize (addUInt64 cmiXIDID (ucast (7 :: u32)) (newMarshalWriter cmiFreeProtocol 7 0)))"
  let ?t = "nc_queryTimeout c"
  have op: "\<not> nc_closed c" and h: "healthy (nc_bw c)" "bw_buf (nc_bw c) = []" and later: "nc_later c = []"
    by (simp_all add: c_def demo_conn_def new_conn_def healthy_def)
  obtain rd wd rd' wd' where eq: "sendPackets (Background 0) ?ps cmiFreeProtocol ?t c =
      (case exchange (Background 0) ?ps cmiFreeProtocol (set_deadlines rd wd c) of
        (res, c2) \<Rightarrow> (res, set_deadlines rd' wd' (watcher_stopped (Background 0) [DuringIO, AtReturn] c2)))"
    using sendPackets_exchange [OF op] by blast
  from send_all_healthy [OF h, of ?ps] obtain b where b: "send_all ?ps (nc_bw c) = (None, b)" by blast
  from Packet_Read_mismatch [of cmiFreeProtocol cmiAppendOpenProtocol "[1]" "[2]" "nc_packet c" 7 0 3 "[]" EOF] obtain pkt where
    pk: "Packet_Read (nc_packet c) (nc_br c) = (Some unexpected_protocol, pkt, \<lparr>rd_data = [2], rd_end = EOF\<rparr>)"
    by (auto simp: c_def)
  have "Contains (error_text unexpected_protocol) ''unexpected protocol''"
    by (simp add: unexpected_protocol_def Contains_def Index.simps HasPrefix_def)
  then show ?thesis
    unfolding c_def [symmetric] conn_free_def Let_def eq
    using b pk later op
    by (simp add: exchange_def conn_Read_def abort_with_def ctxAbortErr_def retireOnTimeout_def Background_def)
      (simp add: unexpected_protocol_def)
qed

end
