(* ===== verification/Cli.thy ===== *)
theory Cli
  imports Session "HOL-Library.AList"
begin

text \<open>
  \<^verbatim>\<open>machnet/cli.go\<close>: the handles of the client. An environment owns connections, a connection gives
  out statements, and a statement prepares, executes, fetches and appends. A handle's mutex is held
  for the whole of each method, so a method is one step on the handle and on the connection it
  belongs to. A nil receiver is \<open>None\<close>.
\<close>

section \<open>Handles\<close>

record ConnHandle =
  hc_native :: "NativeConn option"
  hc_closed :: bool
  hc_lastErr :: status

record AppendState =
  as_table :: string
  as_errCheckCnt :: int
  as_columns :: "ColumnMeta list"
  as_bindings :: AppendBindings
  as_bindingNames :: "string list"
  as_bindingsReady :: bool
  as_addCount :: int
  as_sentCount :: int
  as_successCnt :: int
  as_failCnt :: int
  as_pendingRows :: "bytes list"
  as_pendingBytes :: int
  as_firstQueuedAt :: "int option"
  as_maxRows :: int
  as_maxBytes :: int
  as_maxDelay :: int

record StmtHandle =
  sh_id :: nat
  sh_closed :: bool
  sh_prepared :: bool
  sh_sql :: string
  sh_stmtType :: StmtType
  sh_rowCount :: u64
  sh_rowID :: u64
  sh_hasRowID :: bool
  sh_columns :: "ColumnMeta list"
  sh_paramDesc :: "ParamDesc list"
  sh_rows :: "goval list list"
  sh_rowPos :: nat
  sh_fetchLast :: bool
  sh_fetchSize :: int
  sh_bound :: "(nat \<times> BoundParam) list"
  sh_app :: "AppendState option"
  sh_lastErr :: status

text \<open>A statement with the connection it points to.\<close>

type_synonym stmt_state = "StmtHandle \<times> ConnHandle option"

definition ok_status :: status where
  "ok_status = StatusError_setErr None"

definition sh_wid :: "StmtHandle \<Rightarrow> u32" where
  "sh_wid st = of_nat (sh_id st)"

definition sameAppendBindingNames :: "string list \<Rightarrow> string list \<Rightarrow> bool" where
  "sameAppendBindingNames left right \<longleftrightarrow>
     length left = length right \<and> list_all2 (\<lambda>a b. normalizeIdentifier a = normalizeIdentifier b) left right"

text \<open>A method that fails on its own, and one that records the error of the connection in both handles.\<close>

definition stmt_fail :: "gerr \<Rightarrow> StmtHandle \<Rightarrow> 'a outcome \<times> StmtHandle" where
  "stmt_fail e st = (Err e, st\<lparr>sh_lastErr := StatusError_setErr (Some e)\<rparr>)"

definition record_err :: "gerr option \<Rightarrow> StmtHandle \<Rightarrow> ConnHandle \<Rightarrow> NativeConn \<Rightarrow> stmt_state" where
  "record_err e st ch nc =
     (st\<lparr>sh_lastErr := StatusError_setErr e\<rparr>, Some (ch\<lparr>hc_native := Some nc, hc_lastErr := StatusError_setErr e\<rparr>))"

text \<open>The native connection of a statement that is open.\<close>

fun open_native :: "stmt_state \<Rightarrow> (ConnHandle \<times> NativeConn) option" where
  "open_native (st, Some ch) = (if sh_closed st then None else map_option (\<lambda>nc. (ch, nc)) (hc_native ch))"
| "open_native (st, None) = None"

definition nil_stmt :: "(stmt_state \<Rightarrow> 'a outcome \<times> stmt_state) \<Rightarrow> stmt_state option \<Rightarrow> 'a outcome \<times> stmt_state option" where
  "nil_stmt f s =
     (case s of
        None \<Rightarrow> (Err (makeClientErr ''invalid statement''), None)
      | Some x \<Rightarrow> (case f x of (r, x') \<Rightarrow> (r, Some x')))"

section \<open>Connections\<close>

definition ConnHandle_IsOpen :: "ConnHandle option \<Rightarrow> bool" where
  "ConnHandle_IsOpen c =
     (case c of None \<Rightarrow> False
      | Some conn \<Rightarrow> \<not> hc_closed conn \<and> hc_native conn \<noteq> None \<and> \<not> isClosed (hc_native conn))"

definition SupportsDatabaseMetadata :: "ConnHandle option \<Rightarrow> bool" where
  "SupportsDatabaseMetadata c =
     (case c of None \<Rightarrow> False
      | Some conn \<Rightarrow> (case hc_native conn of None \<Rightarrow> False | Some nc \<Rightarrow> supportsV403 nc))"

text \<open>The environment: the connections it owns, by the address of their handle.\<close>

record EnvHandle =
  ev_closed :: bool
  ev_lastErr :: status
  ev_conns :: "nat list"

record world =
  w_env :: EnvHandle
  w_heap :: "nat \<rightharpoonup> ConnHandle"
  w_next :: nat

definition Initialize :: EnvHandle where
  "Initialize = \<lparr>ev_closed = False, ev_lastErr = ok_status, ev_conns = []\<rparr>"

definition connect_defaults :: "ConnConfig \<Rightarrow> ConnConfig" where
  "connect_defaults cfg =
     (let cfg = (if cfg_Host cfg = [] then cfg\<lparr>cfg_Host := ''127.0.0.1''\<rparr> else cfg);
          cfg = (if cfg_Port cfg \<le> 0 then cfg\<lparr>cfg_Port := 5656\<rparr> else cfg)
      in if cfg_FetchRows cfg \<le> 0 then cfg\<lparr>cfg_FetchRows := defaultFetchRows\<rparr> else cfg)"

definition Env_Connect ::
  "crypto_lib \<Rightarrow> (string \<Rightarrow> dialed outcome) \<Rightarrow> int \<Rightarrow> ConnConfig \<Rightarrow> world \<Rightarrow> nat outcome \<times> world" where
  "Env_Connect cl dial now cfg w =
     (let env = w_env w
      in case dialNative cl dial now (connect_defaults cfg) of
           Err e \<Rightarrow> (Err e, w\<lparr>w_env := env\<lparr>ev_lastErr := StatusError_setErr (Some e)\<rparr>\<rparr>)
         | Panic m \<Rightarrow> (Panic m, w)
         | Ok nc \<Rightarrow>
             if ev_closed env
             then (let e = makeClientErr ''environment closed''
                   in (Err e, w\<lparr>w_env := env\<lparr>ev_lastErr := StatusError_setErr (Some e)\<rparr>\<rparr>))
             else
               (Ok (w_next w),
                \<lparr>w_env = env\<lparr>ev_conns := w_next w # ev_conns env, ev_lastErr := ok_status\<rparr>,
                 w_heap = (w_heap w)(w_next w \<mapsto> \<lparr>hc_native = Some nc, hc_closed = False, hc_lastErr = ok_status\<rparr>),
                 w_next = w_next w + 1\<rparr>))"

text \<open>\<^verbatim>\<open>nc.close()\<close> dereferences the connection, so a handle without one panics.\<close>

definition Conn_Disconnect :: "nat option \<Rightarrow> world \<Rightarrow> unit outcome \<times> world" where
  "Conn_Disconnect a w =
     (case a of
        None \<Rightarrow> (Ok (), w)
      | Some i \<Rightarrow>
          (case w_heap w i of
             None \<Rightarrow> (Ok (), w)
           | Some conn \<Rightarrow>
               if hc_closed conn then (Ok (), w)
               else
                 (case hc_native conn of
                    None \<Rightarrow> (Panic ''nil pointer dereference'', w\<lparr>w_heap := (w_heap w)(i \<mapsto> conn\<lparr>hc_closed := True\<rparr>)\<rparr>)
                  | Some nc \<Rightarrow>
                      (case conn_close nc of
                         (e, nc') \<Rightarrow>
                           (case e of Some x \<Rightarrow> Err x | None \<Rightarrow> Ok (),
                            w\<lparr>w_env := (w_env w)\<lparr>ev_conns := removeAll i (ev_conns (w_env w))\<rparr>,
                              w_heap := (w_heap w)(i \<mapsto>
                                conn\<lparr>hc_closed := True, hc_native := Some nc', hc_lastErr := StatusError_setErr e\<rparr>)\<rparr>)))))"

definition Env_Finalize :: "world \<Rightarrow> world" where
  "Env_Finalize w =
     (let env = w_env w
      in if ev_closed env then w
         else fold (\<lambda>i w. snd (Conn_Disconnect (Some i) w)) (ev_conns env) (w\<lparr>w_env := env\<lparr>ev_closed := True\<rparr>\<rparr>))"

section \<open>Statements\<close>

definition new_stmt :: "nat \<Rightarrow> int \<Rightarrow> StmtHandle" where
  "new_stmt i fetchRows =
     \<lparr>sh_id = i, sh_closed = False, sh_prepared = False, sh_sql = [], sh_stmtType = 0, sh_rowCount = 0, sh_rowID = 0,
      sh_hasRowID = False, sh_columns = [], sh_paramDesc = [], sh_rows = [], sh_rowPos = 0, sh_fetchLast = True,
      sh_fetchSize = (if fetchRows \<le> 0 then defaultFetchRows else fetchRows), sh_bound = [], sh_app = None,
      sh_lastErr = ok_status\<rparr>"

definition AllocStmt :: "ConnHandle option \<Rightarrow> StmtHandle outcome \<times> ConnHandle option" where
  "AllocStmt c =
     (case c of
        None \<Rightarrow> (Err (makeClientErr ''invalid connection''), None)
      | Some conn \<Rightarrow>
          (case (if hc_closed conn then None else hc_native conn) of
             None \<Rightarrow>
               (let e = makeClientErr ''connection closed''
                in (Err e, Some (conn\<lparr>hc_lastErr := StatusError_setErr (Some e)\<rparr>)))
           | Some nc \<Rightarrow>
               (case nextStmtID (nc_ids nc) of
                  (Err e, t) \<Rightarrow>
                    (Err e, Some (conn\<lparr>hc_native := Some (nc\<lparr>nc_ids := t\<rparr>), hc_lastErr := StatusError_setErr (Some e)\<rparr>))
                | (Panic m, t) \<Rightarrow> (Panic m, Some (conn\<lparr>hc_native := Some (nc\<lparr>nc_ids := t\<rparr>)\<rparr>))
                | (Ok i, t) \<Rightarrow>
                    (Ok (new_stmt i (nc_fetchRows nc)),
                     Some (conn\<lparr>hc_native := Some (nc\<lparr>nc_ids := t\<rparr>), hc_lastErr := ok_status\<rparr>)))))"

definition Stmt_Free :: "int \<Rightarrow> stmt_state option \<Rightarrow> unit outcome \<times> stmt_state option" where
  "Stmt_Free now s =
     (case s of
        None \<Rightarrow> (Ok (), None)
      | Some (st, conn) \<Rightarrow>
          if sh_closed st then (Ok (), s)
          else
            let st = st\<lparr>sh_closed := True\<rparr>
            in case conn of
                 None \<Rightarrow> (Ok (), Some (st\<lparr>sh_lastErr := ok_status\<rparr>, None))
               | Some ch \<Rightarrow>
                   (case hc_native ch of
                      None \<Rightarrow> (Ok (), Some (st\<lparr>sh_lastErr := ok_status\<rparr>, Some (ch\<lparr>hc_lastErr := ok_status\<rparr>)))
                    | Some nc \<Rightarrow>
                        (case conn_free now (sh_wid st) nc of
                           (Ok u, nc') \<Rightarrow>
                             (Ok (), Some (record_err None st ch (nc'\<lparr>nc_ids := releaseStmtID (sh_id st) (nc_ids nc')\<rparr>)))
                         | (Err e, nc') \<Rightarrow> (Err e, Some (record_err (Some e) st ch nc'))
                         | (Panic m, nc') \<Rightarrow> (Panic m, Some (st, Some (ch\<lparr>hc_native := Some nc'\<rparr>))))))"

definition clear_rowid :: "StmtHandle \<Rightarrow> StmtHandle" where
  "clear_rowid st = st\<lparr>sh_rowID := 0, sh_hasRowID := False\<rparr>"

definition statement_closed :: gerr where
  "statement_closed = makeClientErr ''statement closed''"

text \<open>
  A call on the native connection of an open statement: the error goes into both handles, and
  \<open>upd\<close> stores a result in the statement.
\<close>

definition native_call ::
  "(NativeConn \<Rightarrow> 'a outcome \<times> NativeConn) \<Rightarrow> ('a \<Rightarrow> StmtHandle \<Rightarrow> StmtHandle) \<Rightarrow> stmt_state \<Rightarrow> unit outcome \<times> stmt_state" where
  "native_call op upd s =
     (case open_native s of
        None \<Rightarrow> (case stmt_fail statement_closed (fst s) of (r, st) \<Rightarrow> (r, (st, snd s)))
      | Some (ch, nc) \<Rightarrow>
          (case op nc of
             (Ok res, nc') \<Rightarrow> (Ok (), (upd res (fst (record_err None (fst s) ch nc')), snd (record_err None (fst s) ch nc')))
           | (Err e, nc') \<Rightarrow> (Err e, record_err (Some e) (fst s) ch nc')
           | (Panic m, nc') \<Rightarrow> (Panic m, (fst s, Some (ch\<lparr>hc_native := Some nc'\<rparr>)))))"

definition Stmt_Prepare ::
  "golib \<Rightarrow> call_ctx \<Rightarrow> string \<Rightarrow> stmt_state option \<Rightarrow> unit outcome \<times> stmt_state option" where
  "Stmt_Prepare lib cx query =
     nil_stmt (\<lambda>(st, conn).
       native_call (conn_prepare lib cx (sh_wid st) query)
         (\<lambda>res st. st\<lparr>sh_prepared := True, sh_sql := query, sh_columns := er_columns res, sh_paramDesc := er_paramDesc res,
            sh_stmtType := er_stmtType res, sh_rowCount := er_rowCount res, sh_rows := [], sh_rowPos := 0,
            sh_fetchLast := True\<rparr>)
         (clear_rowid st, conn))"

definition SupportsReprepare :: "stmt_state option \<Rightarrow> bool" where
  "SupportsReprepare s =
     (case s of Some (st, Some ch) \<Rightarrow> (case hc_native ch of Some nc \<Rightarrow> supportsV403 nc | None \<Rightarrow> False) | _ \<Rightarrow> False)"

text \<open>The parameters of an execution: as many as described, or up to the highest bound one; the
  unbound ones are NULL strings.\<close>

definition null_bound :: BoundParam where
  "null_bound = \<lparr>bp_sqlType = SqlTypeString, bp_value = GNil, bp_isNull = True, bp_cardinality = 0,
     bp_elementPrecision = 0, bp_scale = 0\<rparr>"

definition param_total :: "StmtHandle \<Rightarrow> nat" where
  "param_total st =
     (if sh_paramDesc st = [] then fold (\<lambda>(i, _) n. max n (i + 1)) (sh_bound st) 0 else length (sh_paramDesc st))"

definition execute_bound :: "StmtHandle \<Rightarrow> BoundParam list" where
  "execute_bound st =
     map (\<lambda>i. case map_of (sh_bound st) i of Some b \<Rightarrow> b | None \<Rightarrow> null_bound) [0..<param_total st]"

definition fetch_size :: "int \<Rightarrow> int" where
  "fetch_size n = (if n \<le> 0 then defaultFetchRows else n)"

definition Stmt_Execute ::
  "golib \<Rightarrow> (goval \<Rightarrow> string) \<Rightarrow> call_ctx \<Rightarrow> stmt_state option \<Rightarrow> unit outcome \<times> stmt_state option" where
  "Stmt_Execute lib spr cx =
     nil_stmt (\<lambda>(st, conn).
       let st = clear_rowid st
       in if open_native (st, conn) \<noteq> None \<and> \<not> sh_prepared st
          then (case stmt_fail (makeClientErr ''statement is not prepared'') st of (r, st) \<Rightarrow> (r, (st, conn)))
          else
            native_call (executePrepared lib spr cx (sh_wid st) (sh_sql st) (execute_bound st) (sh_columns st))
              (\<lambda>res st.
                 let cols = (if er_columns res \<noteq> [] then er_columns res else sh_columns st)
                 in st\<lparr>sh_stmtType := (if er_stmtType res \<noteq> 0 then er_stmtType res else sh_stmtType st),
                      sh_rowCount := er_rowCount res, sh_rowID := er_rowID res, sh_hasRowID := er_hasRowID res,
                      sh_columns := cols,
                      sh_paramDesc := (if er_paramDesc res \<noteq> [] then er_paramDesc res else sh_paramDesc st),
                      sh_rows := er_rows res, sh_rowPos := 0, sh_fetchLast := er_lastResult res \<or> cols = [],
                      sh_fetchSize := fetch_size (sh_fetchSize st)\<rparr>)
              (st, conn))"

definition Stmt_ExecDirect ::
  "golib \<Rightarrow> call_ctx \<Rightarrow> string \<Rightarrow> stmt_state option \<Rightarrow> unit outcome \<times> stmt_state option" where
  "Stmt_ExecDirect lib cx query =
     nil_stmt (\<lambda>(st, conn).
       native_call (execDirect lib cx (sh_wid st) query)
         (\<lambda>res st. st\<lparr>sh_prepared := False, sh_sql := query, sh_stmtType := er_stmtType res, sh_rowCount := er_rowCount res,
            sh_rowID := er_rowID res, sh_hasRowID := er_hasRowID res, sh_columns := er_columns res,
            sh_paramDesc := er_paramDesc res, sh_rows := er_rows res, sh_rowPos := 0,
            sh_fetchLast := er_lastResult res \<or> er_columns res = [], sh_fetchSize := fetch_size (sh_fetchSize st)\<rparr>)
         (clear_rowid st, conn))"

definition Stmt_ExecuteClean :: "StmtHandle option \<Rightarrow> StmtHandle option" where
  "Stmt_ExecuteClean s = map_option (\<lambda>st. (clear_rowid st)\<lparr>sh_rows := [], sh_rowPos := 0, sh_fetchLast := True\<rparr>) s"

definition FetchCompleted :: "StmtHandle option \<Rightarrow> bool" where
  "FetchCompleted s = (case s of None \<Rightarrow> True | Some st \<Rightarrow> sh_fetchLast st)"

section \<open>Describing and binding\<close>

definition invalid_statement :: "'a outcome" where
  "invalid_statement = Err (makeClientErr ''invalid statement'')"

definition NumParam :: "StmtHandle option \<Rightarrow> nat outcome" where
  "NumParam s = (case s of None \<Rightarrow> invalid_statement | Some st \<Rightarrow> Ok (length (sh_paramDesc st)))"

definition DescribeParam :: "int \<Rightarrow> StmtHandle option \<Rightarrow> ParamDesc outcome" where
  "DescribeParam paramNo s =
     (case s of None \<Rightarrow> invalid_statement
      | Some st \<Rightarrow>
          if paramNo < 0 \<or> paramNo \<ge> int (length (sh_paramDesc st)) then Err (makeClientErr ''invalid parameter index'')
          else Ok (sh_paramDesc st ! nat paramNo))"

definition Stmt_RowCount :: "StmtHandle option \<Rightarrow> u64 outcome" where
  "Stmt_RowCount s = (case s of None \<Rightarrow> invalid_statement | Some st \<Rightarrow> Ok (sh_rowCount st))"

definition GeneratedRowID :: "StmtHandle option \<Rightarrow> u64 \<times> bool" where
  "GeneratedRowID s = (case s of None \<Rightarrow> (0, False) | Some st \<Rightarrow> (sh_rowID st, sh_hasRowID st))"

definition GetStmtType :: "StmtHandle option \<Rightarrow> StmtType outcome" where
  "GetStmtType s =
     (case s of None \<Rightarrow> invalid_statement
      | Some st \<Rightarrow> Ok (if sh_stmtType st = 0 then inferStmtType (sh_sql st) else sh_stmtType st))"

definition NumResultCol :: "StmtHandle option \<Rightarrow> nat outcome" where
  "NumResultCol s = (case s of None \<Rightarrow> invalid_statement | Some st \<Rightarrow> Ok (length (sh_columns st)))"

text \<open>What the out parameters of a column description receive.\<close>

record col_desc =
  cd_name :: string
  cd_type :: SqlType
  cd_size :: int
  cd_scale :: int
  cd_nullable :: bool
  cd_nullability :: Nullability
  cd_primaryKey :: bool

definition described_size :: "ColumnMeta \<Rightarrow> int" where
  "described_size col =
     (if isArraySpinerType (cm_spinerType col) then cm_precision col
      else if cm_spinerType col = cmdDecimalType then cm_precision col
      else if cm_isVariable col
      then (let sz = (if cm_length col \<le> 0 then cm_precision col else cm_length col)
            in if sz > 65536 then 65536 else sz)
      else cm_length col)"

definition DescribeColEx :: "int \<Rightarrow> StmtHandle option \<Rightarrow> col_desc outcome \<times> StmtHandle option" where
  "DescribeColEx columnNo s =
     (case s of
        None \<Rightarrow> (invalid_statement, None)
      | Some st \<Rightarrow>
          if columnNo < 0 \<or> columnNo \<ge> int (length (sh_columns st))
          then (case stmt_fail (makeClientErr ''invalid column index'') st of (r, st) \<Rightarrow> (r, Some st))
          else
            let col = sh_columns st ! nat columnNo
            in (Ok \<lparr>cd_name = cm_name col, cd_type = cm_sqlType col, cd_size = described_size col, cd_scale = cm_scale col,
                    cd_nullable = cm_nullable col, cd_nullability = cm_nullability col, cd_primaryKey = cm_primaryKey col\<rparr>, s))"

definition DescribeArrayCol :: "int \<Rightarrow> StmtHandle option \<Rightarrow> (SqlType \<times> int) outcome" where
  "DescribeArrayCol columnNo s =
     (case s of
        None \<Rightarrow> invalid_statement
      | Some st \<Rightarrow>
          if columnNo < 0 \<or> columnNo \<ge> int (length (sh_columns st)) then Err (makeClientErr ''invalid column index'')
          else
            let col = sh_columns st ! nat columnNo
            in if \<not> isArraySpinerType (cm_spinerType col) then Err (makeClientErr ''column is not ARRAY'')
               else Ok (spinerTypeToSqlType (arrayBaseSpinerType (cm_spinerType col)), cm_elementPrecision col))"

fun text_value :: "goval \<Rightarrow> string option" where
  "text_value (GPrim (VString t)) = Some t"
| "text_value (GPrim (VBytes b)) = Some (string_of_bytes b)"
| "text_value v = None"

definition bound_param :: "StmtHandle \<Rightarrow> nat \<Rightarrow> SqlType \<Rightarrow> goval \<Rightarrow> BoundParam" where
  "bound_param st paramNo sqlType val =
     (let bp = \<lparr>bp_sqlType = sqlType, bp_value = val, bp_isNull = (val = GNil), bp_cardinality = 0,
                bp_elementPrecision = 0, bp_scale = 0\<rparr>
      in if paramNo < length (sh_paramDesc st) \<and> SqlType_IsArray (pd_Type (sh_paramDesc st ! paramNo))
         then bp\<lparr>bp_cardinality := pd_Precision (sh_paramDesc st ! paramNo),
                 bp_elementPrecision := pd_ElementPrecision (sh_paramDesc st ! paramNo),
                 bp_scale := pd_Scale (sh_paramDesc st ! paramNo)\<rparr>
         else bp)"

text \<open>An ARRAY literal becomes an array when the description of the parameter says how large it is.\<close>

definition array_literal :: "golib \<Rightarrow> nat \<Rightarrow> BoundParam \<Rightarrow> BoundParam outcome" where
  "array_literal lib paramNo bp =
     (if SqlType_IsArray (bp_sqlType bp) \<and> \<not> bp_isNull bp \<and> bp_cardinality bp > 0
      then (case text_value (bp_value bp) of
              None \<Rightarrow> Ok bp
            | Some txt \<Rightarrow>
                (case ParseArray lib txt (SqlType_ElementType (bp_sqlType bp)) (bp_cardinality bp)
                        (bp_elementPrecision bp) (bp_scale bp) of
                   Ok a \<Rightarrow> Ok (bp\<lparr>bp_value := GArrayPtr (Some a)\<rparr>)
                 | Err e \<Rightarrow> Err (makeClientErr (''bind parameter '' @ itoa (int paramNo + 1) @ '': '' @ error_text e))
                 | Panic m \<Rightarrow> Panic m))
      else Ok bp)"

definition BindParam ::
  "golib \<Rightarrow> int \<Rightarrow> SqlType \<Rightarrow> goval \<Rightarrow> stmt_state option \<Rightarrow> unit outcome \<times> stmt_state option" where
  "BindParam lib paramNo sqlType val =
     nil_stmt (\<lambda>(st, conn).
       let fail = (\<lambda>e. case stmt_fail e st of (r, st) \<Rightarrow> (r, (st, conn)))
       in if paramNo < 0 then fail (makeClientErr ''invalid parameter index'')
          else
            (case (if SqlType_IsArray sqlType
                   then (case Option.bind conn hc_native of
                           None \<Rightarrow> Panic ''nil pointer dereference''
                         | Some nc \<Rightarrow> Ok (supportsArray nc))
                   else Ok True) of
               Panic m \<Rightarrow> (Panic m, (st, conn))
             | Err e \<Rightarrow> (Err e, (st, conn))
             | Ok False \<Rightarrow> fail (makeClientErr ''ARRAY requires CMI 4.0.4 or later'')
             | Ok True \<Rightarrow>
                 (case array_literal lib (nat paramNo) (bound_param st (nat paramNo) sqlType val) of
                    Ok bp \<Rightarrow> (Ok (), (st\<lparr>sh_bound := AList.update (nat paramNo) bp (sh_bound st), sh_lastErr := ok_status\<rparr>, conn))
                  | Err e \<Rightarrow> fail e
                  | Panic m \<Rightarrow> (Panic m, (st, conn)))))"

section \<open>Fetching\<close>

lemma fetchRowsChunk_consumes:
  assumes "fetchRowsChunk lib cx sid cols n c = (Ok x, c')"
  shows "length (rd_data (nc_br c')) < length (rd_data (nc_br c))"
proof -
  from assms obtain w t bdy where s: "sendPackets cx w cmiFetchProtocol t c = (Ok bdy, c')"
    by (auto simp: fetchRowsChunk_def request_def Let_def bind_outcome_Ok_iff split: prod.splits)
  then have op: "\<not> nc_closed c" by (auto simp: sendPackets_def closed_error_def)
  from sendPackets_exchange [OF this] obtain rd wd rd' wd' where
    "sendPackets cx w cmiFetchProtocol t c = (case exchange cx w cmiFetchProtocol (set_deadlines rd wd c) of
       (res, c2) \<Rightarrow> (res, set_deadlines rd' wd' (watcher_stopped cx [DuringIO, AtReturn] c2)))" by blast
  with s obtain c2 where ex: "exchange cx w cmiFetchProtocol (set_deadlines rd wd c) = (Ok bdy, c2)" and c': "nc_br c' = nc_br c2"
    by (auto split: prod.splits)
  then obtain b c3 where "conn_Read ((set_deadlines rd wd c)\<lparr>nc_bw := b\<rparr>) = (None, c3)" "expect_protocol cmiFetchProtocol c3 = (Ok bdy, c2)"
    by (auto simp: exchange_def abort_with_def split: prod.splits option.splits)
  with conn_Read_consumes c' show ?thesis by (fastforce simp: expect_protocol_def split: if_splits)
qed

definition stream_left :: "stmt_state \<Rightarrow> nat" where
  "stream_left s = (case Option.bind (snd s) hc_native of None \<Rightarrow> 0 | Some nc \<Rightarrow> length (rd_data (nc_br nc)))"

text \<open>
  The loop of \<^verbatim>\<open>Fetch\<close>: a row of the current chunk, nothing after the last chunk, or the next chunk from
  the server. Every turn that asks the server takes a response off the stream.
\<close>

function fetch_loop :: "golib \<Rightarrow> call_ctx \<Rightarrow> stmt_state \<Rightarrow> goval list option outcome \<times> stmt_state" where
  "fetch_loop lib cx (st, conn) =
     (if sh_rowPos st < length (sh_rows st)
      then
        let ret = sh_rows st ! sh_rowPos st;
            pos = sh_rowPos st + 1
        in (Ok (Some ret),
            (if pos \<ge> length (sh_rows st) then st\<lparr>sh_rows := [], sh_rowPos := 0\<rparr> else st\<lparr>sh_rowPos := pos\<rparr>, conn))
      else if sh_fetchLast st \<or> sh_columns st = [] then (Ok None, (st, conn))
      else
        (case conn of
           None \<Rightarrow> (Ok None, (st, conn))
         | Some ch \<Rightarrow>
             (case hc_native ch of
                None \<Rightarrow> (Ok None, (st, conn))
              | Some nc \<Rightarrow>
                  (case fetchRowsChunk lib cx (sh_wid st) (sh_columns st) (sh_fetchSize st) nc of
                     (Ok (rows, lst), nc') \<Rightarrow>
                       (let st1 = st\<lparr>sh_fetchLast := lst, sh_lastErr := ok_status, sh_rows := rows, sh_rowPos := 0\<rparr>;
                            conn1 = Some (ch\<lparr>hc_native := Some nc', hc_lastErr := ok_status\<rparr>)
                        in if rows = [] \<and> lst then (Ok None, (st1, conn1)) else fetch_loop lib cx (st1, conn1))
                   | (Err e, nc') \<Rightarrow>
                       (Err e, (st\<lparr>sh_fetchLast := False, sh_lastErr := StatusError_setErr (Some e)\<rparr>,
                                Some (ch\<lparr>hc_native := Some nc', hc_lastErr := StatusError_setErr (Some e)\<rparr>)))
                   | (Panic m, nc') \<Rightarrow> (Panic m, (st, Some (ch\<lparr>hc_native := Some nc'\<rparr>)))))))"
  by pat_completeness auto

termination
  by (relation "measure (\<lambda>(lib, cx, s). stream_left s)") (auto simp: stream_left_def dest!: fetchRowsChunk_consumes [OF sym])

declare fetch_loop.simps [simp del]

definition Stmt_Fetch :: "golib \<Rightarrow> call_ctx \<Rightarrow> stmt_state option \<Rightarrow> goval list option outcome \<times> stmt_state option" where
  "Stmt_Fetch lib cx = nil_stmt (fetch_loop lib cx)"

section \<open>Appending\<close>

definition new_append :: "string \<Rightarrow> int \<Rightarrow> ColumnMeta list \<Rightarrow> AppendState" where
  "new_append table errCheckCount columns =
     \<lparr>as_table = table, as_errCheckCnt = errCheckCount, as_columns = columns,
      as_bindings = \<lparr>byColumn = [], arrivalArg = -1\<rparr>, as_bindingNames = [], as_bindingsReady = False,
      as_addCount = 0, as_sentCount = 0, as_successCnt = 0, as_failCnt = 0, as_pendingRows = [], as_pendingBytes = 0,
      as_firstQueuedAt = None, as_maxRows = 512, as_maxBytes = 512 * 1024, as_maxDelay = 5 * 10 ^ 6\<rparr>"

definition AppendOpenColumns ::
  "golib \<Rightarrow> int \<Rightarrow> string \<Rightarrow> string list \<Rightarrow> int \<Rightarrow> stmt_state option \<Rightarrow> unit outcome \<times> stmt_state option" where
  "AppendOpenColumns lib now table columns errCheckCount =
     nil_stmt (\<lambda>(st, conn).
       native_call (appendOpen lib now (sh_wid st) table columns)
         (\<lambda>res st. st\<lparr>sh_app := Some (new_append table errCheckCount (er_columns res))\<rparr>) (st, conn))"

definition AppendOpen :: "golib \<Rightarrow> int \<Rightarrow> string \<Rightarrow> int \<Rightarrow> stmt_state option \<Rightarrow> unit outcome \<times> stmt_state option" where
  "AppendOpen lib now table errCheckCount = AppendOpenColumns lib now table [] errCheckCount"

definition set_app :: "(AppendState \<Rightarrow> AppendState) \<Rightarrow> StmtHandle option \<Rightarrow> StmtHandle option" where
  "set_app f s = map_option (\<lambda>st. st\<lparr>sh_app := map_option f (sh_app st)\<rparr>) s"

definition SetAppendBatchMaxRows :: "int \<Rightarrow> StmtHandle option \<Rightarrow> StmtHandle option" where
  "SetAppendBatchMaxRows n = set_app (\<lambda>a. a\<lparr>as_maxRows := n\<rparr>)"

definition SetAppendBatchMaxBytes :: "int \<Rightarrow> StmtHandle option \<Rightarrow> StmtHandle option" where
  "SetAppendBatchMaxBytes n = set_app (\<lambda>a. a\<lparr>as_maxBytes := n\<rparr>)"

definition SetAppendBatchMaxDelay :: "int \<Rightarrow> StmtHandle option \<Rightarrow> StmtHandle option" where
  "SetAppendBatchMaxDelay n = set_app (\<lambda>a. a\<lparr>as_maxDelay := n\<rparr>)"

definition flushAppendBufferedLocked :: "int \<Rightarrow> bool \<Rightarrow> stmt_state \<Rightarrow> unit outcome \<times> stmt_state" where
  "flushAppendBufferedLocked now checkResponse s =
     (case s of (st, conn) \<Rightarrow>
        (case sh_app st of
           None \<Rightarrow> (Ok (), s)
         | Some app \<Rightarrow>
             if as_pendingRows app = [] then (Ok (), s)
             else
               let pending = as_pendingRows app;
                   pendingCount = int (length pending);
                   app = app\<lparr>as_pendingRows := [], as_pendingBytes := 0, as_firstQueuedAt := None\<rparr>
               in (case conn of
                     None \<Rightarrow> (Panic ''nil pointer dereference'', (st\<lparr>sh_app := Some app\<rparr>, conn))
                   | Some ch \<Rightarrow>
                       (case hc_native ch of
                          None \<Rightarrow> (Panic ''nil pointer dereference'', (st\<lparr>sh_app := Some app\<rparr>, conn))
                        | Some nc \<Rightarrow>
                            (case appendData now (sh_wid st) pending checkResponse nc of
                               (Ok u, nc') \<Rightarrow>
                                 (Ok (), record_err None
                                    (st\<lparr>sh_app := Some (app\<lparr>as_sentCount := as_sentCount app + pendingCount\<rparr>)\<rparr>) ch nc')
                             | (Err e, nc') \<Rightarrow>
                                 (Err e, record_err (Some e)
                                    (st\<lparr>sh_app := Some (app\<lparr>as_failCnt := as_failCnt app + pendingCount\<rparr>)\<rparr>) ch nc')
                             | (Panic m, nc') \<Rightarrow> (Panic m, (st\<lparr>sh_app := Some app\<rparr>, Some (ch\<lparr>hc_native := Some nc'\<rparr>))))))))"

text \<open>The bindings of a row: the last ones when the names are the same, new ones otherwise.\<close>

definition row_bindings :: "string list \<Rightarrow> AppendState \<Rightarrow> AppendState outcome" where
  "row_bindings names app =
     (if \<not> as_bindingsReady app \<or> \<not> sameAppendBindingNames (as_bindingNames app) names
      then bind_outcome (buildAppendBindings (as_columns app) names) (\<lambda>b.
             Ok (app\<lparr>as_bindings := b, as_bindingNames := names, as_bindingsReady := True\<rparr>))
      else Ok app)"

definition queue_row :: "int \<Rightarrow> bytes \<Rightarrow> AppendState \<Rightarrow> AppendState" where
  "queue_row now row app =
     app\<lparr>as_addCount := as_addCount app + 1,
         as_firstQueuedAt := (if as_pendingRows app = [] then Some now else as_firstQueuedAt app),
         as_pendingRows := as_pendingRows app @ [row],
         as_pendingBytes := as_pendingBytes app + int (length row)\<rparr>"

definition check_response :: "AppendState \<Rightarrow> bool" where
  "check_response app \<longleftrightarrow> as_errCheckCnt app > 0 \<and> as_addCount app mod as_errCheckCnt app = 0"

definition flush_now :: "int \<Rightarrow> AppendState \<Rightarrow> bool" where
  "flush_now now app \<longleftrightarrow>
     check_response app \<or> int (length (as_pendingRows app)) \<ge> as_maxRows app \<or> as_pendingBytes app \<ge> as_maxBytes app
     \<or> as_maxDelay app > 0 \<and> as_firstQueuedAt app \<noteq> None \<and> now - the (as_firstQueuedAt app) \<ge> as_maxDelay app"

text \<open>A row that could not be bound or encoded: both handles get the error and the row counts as failed.\<close>

definition row_failed :: "gerr \<Rightarrow> AppendState \<Rightarrow> StmtHandle \<Rightarrow> ConnHandle \<Rightarrow> unit outcome \<times> stmt_state" where
  "row_failed e app st ch =
     (Err e, (st\<lparr>sh_app := Some (app\<lparr>as_failCnt := as_failCnt app + 1\<rparr>), sh_lastErr := StatusError_setErr (Some e)\<rparr>,
              Some (ch\<lparr>hc_lastErr := StatusError_setErr (Some e)\<rparr>)))"

text \<open>\<open>now\<close> is the time when the row is queued, \<open>later\<close> the time when the delay is checked.\<close>

definition append_row ::
  "golib \<Rightarrow> (goval \<Rightarrow> string) \<Rightarrow> int \<Rightarrow> int \<Rightarrow> string list \<Rightarrow> goval list \<Rightarrow> stmt_state \<Rightarrow> unit outcome \<times> stmt_state" where
  "append_row lib spr now later names args s =
     (case s of (st, conn) \<Rightarrow>
        let fail = (\<lambda>e. case stmt_fail e st of (r, st) \<Rightarrow> (r, (st, conn)))
        in case open_native s of
             None \<Rightarrow> fail statement_closed
           | Some (ch, nc) \<Rightarrow>
               (case sh_app st of
                  None \<Rightarrow> fail (makeClientErr ''append not opened'')
                | Some app \<Rightarrow>
                    if length names \<noteq> length args then fail (makeClientErr ''append argument mismatch'')
                    else
                      (case row_bindings names app of
                         Err e \<Rightarrow> row_failed e app st ch
                       | Panic m \<Rightarrow> (Panic m, s)
                       | Ok app1 \<Rightarrow>
                           (case encodeAppendRow lib spr (as_columns app1) (as_bindings app1) args (nc_serverEndian nc) of
                              Err e \<Rightarrow> row_failed e app1 st ch
                            | Panic m \<Rightarrow> (Panic m, (st\<lparr>sh_app := Some app1\<rparr>, conn))
                            | Ok row \<Rightarrow>
                                (let app2 = queue_row now row app1; s2 = (st\<lparr>sh_app := Some app2\<rparr>, conn)
                                 in if flush_now later app2
                                    then flushAppendBufferedLocked later (check_response app2) s2
                                    else (Ok (), s2))))))"

definition AppendData ::
  "golib \<Rightarrow> (goval \<Rightarrow> string) \<Rightarrow> int \<Rightarrow> int \<Rightarrow> string list \<Rightarrow> goval list \<Rightarrow> stmt_state option
    \<Rightarrow> unit outcome \<times> stmt_state option" where
  "AppendData lib spr now later names args = nil_stmt (append_row lib spr now later names args)"

text \<open>The counters that a failed close reports.\<close>

definition local_counts :: "AppendState \<Rightarrow> int \<times> int" where
  "local_counts app =
     (let localSuccess = as_sentCount app - as_failCnt app
      in (if localSuccess < 0 then 0 else localSuccess, as_failCnt app))"

text \<open>\<^verbatim>\<open>AppendClose\<close> returns its two counters beside the error.\<close>

definition AppendClose :: "int \<Rightarrow> stmt_state option \<Rightarrow> (int \<times> int) \<times> unit outcome \<times> stmt_state option" where
  "AppendClose now s =
     (case s of
        None \<Rightarrow> ((0, 0), invalid_statement, None)
      | Some (st, conn) \<Rightarrow>
          if sh_app st = None then ((0, 0), Ok (), s)
          else
            (case flushAppendBufferedLocked now False (st, conn) of
               (Err e, (st1, conn1)) \<Rightarrow> (local_counts (the (sh_app st1)), Err e, Some (st1, conn1))
             | (Panic m, s1) \<Rightarrow> ((0, 0), Panic m, Some s1)
             | (Ok u, (st1, conn1)) \<Rightarrow>
                 (case Option.bind conn1 hc_native of
                    None \<Rightarrow> ((0, 0), Panic ''nil pointer dereference'', Some (st1, conn1))
                  | Some nc \<Rightarrow>
                      (case appendClose now (sh_wid st1) nc of
                         (Err e, nc') \<Rightarrow>
                           (local_counts (the (sh_app st1)), Err e, Some (record_err (Some e) st1 (the conn1) nc'))
                       | (Panic m, nc') \<Rightarrow> ((0, 0), Panic m, Some (st1, Some ((the conn1)\<lparr>hc_native := Some nc'\<rparr>)))
                       | (Ok (success, fl), nc') \<Rightarrow>
                           ((sint success, sint fl), Ok (),
                            Some (record_err None (st1\<lparr>sh_app := None\<rparr>) (the conn1) nc'))))))"

definition AppendFlush :: "int \<Rightarrow> stmt_state option \<Rightarrow> unit outcome \<times> stmt_state option" where
  "AppendFlush now s =
     (case s of
        None \<Rightarrow> (Ok (), None)
      | Some (st, conn) \<Rightarrow>
          if sh_app st = None \<or> Option.bind conn hc_native = None then (Ok (), s)
          else (case flushAppendBufferedLocked now False (st, conn) of (r, s') \<Rightarrow> (r, Some s')))"

end
