(* ===== verification/Cursors.thy ===== *)
theory Cursors
  imports Cli
begin

text \<open>
  What a user of the statement handles sees: a cursor that yields the rows of all chunks in order
  and then ends, an append that puts every row on the wire once and in order, and counters that
  account for every row. The statements rest on the refinement of the connection.
\<close>

section \<open>Cursors\<close>

text \<open>A chunk as the server sends it: its status, the images of its rows, and the rows they decode to.\<close>

type_synonym chunk = "u64 \<times> bytes list \<times> goval list list"

fun chunk_good :: "golib \<Rightarrow> ColumnMeta list \<Rightarrow> chunk \<Rightarrow> bool" where
  "chunk_good lib cols (s, imgs, rows) \<longleftrightarrow>
     \<not> failed_status s \<and> all_ok (map (\<lambda>d. decode_columns lib cols d 0) imgs) = Ok rows
     \<and> length (concat (map op_bytes (chunk_ops s imgs))) < 2 ^ 62"

fun chunk_body :: "chunk \<Rightarrow> byte \<times> bytes" where
  "chunk_body (s, imgs, rows) = (cmiFetchProtocol, concat (map op_bytes (chunk_ops s imgs)))"

fun chunk_rows :: "chunk \<Rightarrow> goval list list" where
  "chunk_rows (s, imgs, rows) = rows"

fun chunk_last :: "chunk \<Rightarrow> bool" where
  "chunk_last (s, imgs, rows) \<longleftrightarrow> statusCode s = cmiLastResult"

text \<open>The last chunk, and no other, carries the LAST status.\<close>

fun ends_last :: "chunk list \<Rightarrow> bool" where
  "ends_last [] = True"
| "ends_last [k] = chunk_last k"
| "ends_last (k # k' # ks) = (\<not> chunk_last k \<and> ends_last (k' # ks))"

text \<open>A statement in the middle of a result set: the chunks are those the server still holds.\<close>

definition cursor_at :: "golib \<Rightarrow> chunk list \<Rightarrow> stmt_state \<Rightarrow> bool" where
  "cursor_at lib ks s \<longleftrightarrow>
     (\<exists>ch nc cn. snd s = Some ch \<and> hc_native ch = Some nc \<and> session_rel nc cn \<and> ch_open cn
        \<and> ch_replies cn = map chunk_body ks)
     \<and> sh_columns (fst s) \<noteq> [] \<and> list_all (chunk_good lib (sh_columns (fst s))) ks \<and> ends_last ks
     \<and> (sh_fetchLast (fst s) \<longleftrightarrow> ks = [])"

text \<open>The rows that are left: those of the current chunk and those of the chunks to come.\<close>

definition rows_left :: "chunk list \<Rightarrow> stmt_state \<Rightarrow> goval list list" where
  "rows_left ks s = drop (sh_rowPos (fst s)) (sh_rows (fst s)) @ concat (map chunk_rows ks)"

lemma fetchRowsChunk_good:
  assumes "session_rel nc cn" and "ch_open cn" and "ch_replies cn = map chunk_body (k # ks)"
    and "chunk_good lib cols k" and "cols \<noteq> []"
  shows "\<exists>nc' cn'. fetchRowsChunk lib cx sid cols n nc = (Ok (chunk_rows k, chunk_last k), nc')
    \<and> session_rel nc' cn' \<and> ch_open cn' \<and> ch_replies cn' = map chunk_body ks"
proof -
  obtain s imgs rows where k: "k = (s, imgs, rows)" by (cases k) auto
  let ?n = "if n \<le> 0 then if nc_fetchRows nc \<le> 0 then defaultFetchRows else nc_fetchRows nc else n"
  let ?call = "(cx, fst (finalize (fetch_request sid ?n)), cmiFetchProtocol, nc_queryTimeout nc)"
  obtain res nc' where s: "conn_call ?call nc = (res, nc')" by fastforce
  let ?cn = "snd (channel_call ?call cn)"
  have "fst (channel_call ?call cn) = Ok (snd (chunk_body k))" and cn: "ch_open ?cn" "ch_replies ?cn = map chunk_body ks"
    using assms(2,3) by (simp_all add: k)
  with conn_call_refines [OF assms(1), of ?call] s have "res = Ok (snd (chunk_body k))" "session_rel nc' ?cn" by simp_all
  moreover have "parse_chunk lib (snd (chunk_body k)) cols = Ok (chunk_rows k, chunk_last k)"
    using parse_chunk_image [of s imgs cols lib] assms(4,5) by (simp add: k)
  ultimately show ?thesis using s cn by (auto simp: fetchRowsChunk_def request_def Let_def)
qed

text \<open>One call: the next row, wherever its chunk is, or the end.\<close>

lemma fetch_step:
  "cursor_at lib ks s \<Longrightarrow>
    (case rows_left ks s of
       [] \<Rightarrow> \<exists>s'. fetch_loop lib cx s = (Ok None, s') \<and> cursor_at lib [] s' \<and> rows_left [] s' = []
     | r # rest \<Rightarrow> \<exists>s' ks'. fetch_loop lib cx s = (Ok (Some r), s') \<and> cursor_at lib ks' s' \<and> rows_left ks' s' = rest)"
proof (induction ks arbitrary: s)
  case Nil
  obtain st conn where s: "s = (st, conn)" by fastforce
  show ?case
  proof (cases "sh_rowPos st < length (sh_rows st)")
    case True
    then have "drop (sh_rowPos st) (sh_rows st) = sh_rows st ! sh_rowPos st # drop (Suc (sh_rowPos st)) (sh_rows st)"
      by (simp add: Cons_nth_drop_Suc)
    with True Nil show ?thesis
      by (auto simp: s rows_left_def cursor_at_def fetch_loop.simps [of lib cx st conn] Let_def intro!: exI [of _ "[]"])
  next
    case False
    with Nil show ?thesis by (simp add: s rows_left_def cursor_at_def fetch_loop.simps [of lib cx st conn])
  qed
next
  case (Cons k ks)
  obtain st conn where s: "s = (st, conn)" by fastforce
  show ?case
  proof (cases "sh_rowPos st < length (sh_rows st)")
    case True
    then have "drop (sh_rowPos st) (sh_rows st) = sh_rows st ! sh_rowPos st # drop (Suc (sh_rowPos st)) (sh_rows st)"
      by (simp add: Cons_nth_drop_Suc)
    with True Cons.prems show ?thesis
      by (auto simp: s rows_left_def cursor_at_def fetch_loop.simps [of lib cx st conn] Let_def intro!: exI [of _ "k # ks"])
  next
    case False
    from Cons.prems obtain ch nc cn where
      c: "conn = Some ch" "hc_native ch = Some nc" "session_rel nc cn" "ch_open cn" "ch_replies cn = map chunk_body (k # ks)"
      and st: "sh_columns st \<noteq> []" "list_all (chunk_good lib (sh_columns st)) (k # ks)" "ends_last (k # ks)" "\<not> sh_fetchLast st"
      unfolding s cursor_at_def by auto
    from fetchRowsChunk_good [OF c(3-5) _ st(1), of lib cx "sh_wid st" "sh_fetchSize st"] st(2) obtain nc' cn' where
      f: "fetchRowsChunk lib cx (sh_wid st) (sh_columns st) (sh_fetchSize st) nc = (Ok (chunk_rows k, chunk_last k), nc')"
      "session_rel nc' cn'" "ch_open cn'" "ch_replies cn' = map chunk_body ks" by auto
    have lst: "chunk_last k \<longleftrightarrow> ks = []" "ends_last ks" using st(3) by (cases ks; simp)+
    define s1 where "s1 = (st\<lparr>sh_fetchLast := chunk_last k, sh_lastErr := ok_status, sh_rows := chunk_rows k, sh_rowPos := 0\<rparr>,
        Some (ch\<lparr>hc_native := Some nc', hc_lastErr := ok_status\<rparr>))"
    have at: "cursor_at lib ks s1" using f st lst by (auto simp: s1_def cursor_at_def)
    have left: "rows_left (k # ks) s = rows_left ks s1" using False by (simp add: s rows_left_def s1_def)
    have loop: "fetch_loop lib cx s = (if chunk_rows k = [] \<and> chunk_last k then (Ok None, s1) else fetch_loop lib cx s1)"
      using False st(1,4) c(1,2) f(1) by (simp add: s fetch_loop.simps [of lib cx st "Some ch"] s1_def Let_def)
    show ?thesis
    proof (cases "chunk_rows k = [] \<and> chunk_last k")
      case True
      with lst at loop have "ks = []" "rows_left ks s1 = []" by (simp_all add: rows_left_def s1_def)
      with True loop at left show ?thesis by simp
    next
      case False
      then have "fetch_loop lib cx s = fetch_loop lib cx s1" using loop by auto
      then show ?thesis unfolding left by (simp only: Cons.IH [OF at])
    qed
  qed
qed

lemma fetch_run:
  "cursor_at lib ks s \<Longrightarrow> fst (run_steps (\<lambda>cx. fetch_loop lib cx) cxs s)
    = map (\<lambda>i. Ok (if i < length (rows_left ks s) then Some (rows_left ks s ! i) else None)) [0..<length cxs]"
proof (induction cxs arbitrary: ks s)
  case (Cons cx cxs)
  have up: "[0..<Suc n] = 0 # map Suc [0..<n]" for n by (simp add: upt_conv_Cons map_Suc_upt del: upt_Suc)
  note step = fetch_step [OF Cons.prems, of cx]
  show ?case
  proof (cases "rows_left ks s")
    case Nil
    with step obtain s' where f: "fetch_loop lib cx s = (Ok None, s')" "cursor_at lib [] s'" "rows_left [] s' = []" by auto
    from Cons.IH [OF f(2)] f show ?thesis by (simp add: Nil up case_prod_beta comp_def del: upt_Suc)
  next
    case row: (Cons r rest)
    with step obtain s' ks' where f: "fetch_loop lib cx s = (Ok (Some r), s')" "cursor_at lib ks' s'" "rows_left ks' s' = rest" by auto
    from Cons.IH [OF f(2)] f show ?thesis by (simp add: row up case_prod_beta comp_def del: upt_Suc)
  qed
qed simp

section \<open>Appending rows\<close>

text \<open>
  The abstract append: a log of rows. A call adds the image of its row, or nothing when the row
  cannot be encoded.
\<close>

record append_spec =
  sp_columns :: "ColumnMeta list"
  sp_names :: "string list"
  sp_bindings :: AppendBindings
  sp_endian :: u32
  sp_log :: "bytes list"

type_synonym append_call = "int \<times> int \<times> goval list"

fun spec_append :: "golib \<Rightarrow> (goval \<Rightarrow> string) \<Rightarrow> append_call \<Rightarrow> append_spec \<Rightarrow> unit outcome \<times> append_spec" where
  "spec_append lib spr (now, later, args) sp =
     (if length (sp_names sp) \<noteq> length args then (Err (makeClientErr ''append argument mismatch''), sp)
      else case encodeAppendRow lib spr (sp_columns sp) (sp_bindings sp) args (sp_endian sp) of
             Ok row \<Rightarrow> (Ok (), sp\<lparr>sp_log := sp_log sp @ [row]\<rparr>)
           | Err e \<Rightarrow> (Err e, sp)
           | Panic m \<Rightarrow> (Panic m, sp))"

fun append_call :: "golib \<Rightarrow> (goval \<Rightarrow> string) \<Rightarrow> string list \<Rightarrow> append_call \<Rightarrow> stmt_state \<Rightarrow> unit outcome \<times> stmt_state" where
  "append_call lib spr names (now, later, args) s = append_row lib spr now later names args s"

text \<open>The bytes of one data message.\<close>

definition batch_wire :: "u32 \<Rightarrow> bytes list \<Rightarrow> bytes" where
  "batch_wire sid rows = concat (fst (finalize (append_data_writer sid rows)))"

definition ready_conn :: "NativeConn \<Rightarrow> bool" where
  "ready_conn nc \<longleftrightarrow> \<not> nc_closed nc \<and> healthy (nc_bw nc) \<and> bw_buf (nc_bw nc) = []"

abbreviation sent_bytes :: "NativeConn \<Rightarrow> bytes" where
  "sent_bytes nc \<equiv> so_sent (snd (bw_wr (nc_bw nc)))"

text \<open>
  The statement against the log: what was sent since the start are whole batches, and the batches
  with the pending rows are the log.
\<close>

definition append_rel :: "bytes \<Rightarrow> string list \<Rightarrow> stmt_state \<Rightarrow> append_spec \<Rightarrow> bool" where
  "append_rel start names s sp \<longleftrightarrow>
     (\<exists>st ch nc app batches. s = (st, Some ch) \<and> hc_native ch = Some nc \<and> sh_app st = Some app \<and> \<not> sh_closed st
        \<and> ready_conn nc \<and> sp_endian sp = nc_serverEndian nc \<and> sp_columns sp = as_columns app \<and> sp_names sp = names
        \<and> buildAppendBindings (as_columns app) names = Ok (sp_bindings sp)
        \<and> (as_bindingsReady app \<longrightarrow> as_bindings app = sp_bindings sp \<and> as_bindingNames app = names)
        \<and> as_errCheckCnt app \<le> 0
        \<and> concat batches @ as_pendingRows app = sp_log sp
        \<and> sent_bytes nc = start @ concat (map (batch_wire (sh_wid st)) batches))"

lemma NoResponse_ready:
  assumes "ready_conn c"
  shows "\<exists>c'. sendPacketsNoResponse cx ps t c = (Ok (), c') \<and> ready_conn c' \<and> sent_bytes c' = sent_bytes c @ concat ps
    \<and> nc_serverEndian c' = nc_serverEndian c"
proof -
  from assms send_all_healthy [of "nc_bw c" ps] obtain b where
    b: "send_all ps (nc_bw c) = (None, b)" "healthy b" "bw_buf b = []" "so_sent (snd (bw_wr b)) = sent_bytes c @ concat ps"
    by (auto simp: ready_conn_def)
  have e: "nc_serverEndian (set_deadlines rd wd x) = nc_serverEndian x" "nc_serverEndian (watcher_stopped cx pts x) = nc_serverEndian x" for rd wd x pts
    by (simp_all add: set_deadlines_def watcher_stopped_def)
  from assms b show ?thesis by (simp add: sendPacketsNoResponse_def ready_conn_def Let_def e)
qed

lemma appendData_ready:
  assumes "ready_conn c" and "rows \<noteq> []"
  shows "\<exists>c'. appendData now sid rows False c = (Ok (), c') \<and> ready_conn c' \<and> sent_bytes c' = sent_bytes c @ batch_wire sid rows
    \<and> nc_serverEndian c' = nc_serverEndian c"
  using NoResponse_ready [OF assms(1)] assms(2) by (simp add: appendData_def batch_wire_def Let_def)

lemma flush_rel:
  assumes "append_rel start names s sp"
  shows "\<exists>s'. flushAppendBufferedLocked now False s = (Ok (), s') \<and> append_rel start names s' sp
    \<and> as_pendingRows (the (sh_app (fst s'))) = []"
proof -
  from assms obtain st ch nc app batches where
    s: "s = (st, Some ch)" "hc_native ch = Some nc" "sh_app st = Some app" "\<not> sh_closed st" "ready_conn nc"
      "sp_endian sp = nc_serverEndian nc" "sp_columns sp = as_columns app" "sp_names sp = names"
      "buildAppendBindings (as_columns app) names = Ok (sp_bindings sp)"
      "as_bindingsReady app \<longrightarrow> as_bindings app = sp_bindings sp \<and> as_bindingNames app = names" "as_errCheckCnt app \<le> 0"
      "concat batches @ as_pendingRows app = sp_log sp" "sent_bytes nc = start @ concat (map (batch_wire (sh_wid st)) batches)"
    unfolding append_rel_def by blast
  show ?thesis
  proof (cases "as_pendingRows app = []")
    case True
    with s assms show ?thesis by (simp add: flushAppendBufferedLocked_def)
  next
    case False
    from appendData_ready [OF s(5) False, of now "sh_wid st"] obtain nc' where
      d: "appendData now (sh_wid st) (as_pendingRows app) False nc = (Ok (), nc')" "ready_conn nc'"
      "sent_bytes nc' = sent_bytes nc @ batch_wire (sh_wid st) (as_pendingRows app)" "nc_serverEndian nc' = nc_serverEndian nc" by blast
    define app' where "app' = app\<lparr>as_pendingRows := [], as_pendingBytes := 0, as_firstQueuedAt := None,
        as_sentCount := as_sentCount app + int (length (as_pendingRows app))\<rparr>"
    let ?s' = "record_err None (st\<lparr>sh_app := Some app'\<rparr>) ch nc'"
    have "flushAppendBufferedLocked now False s = (Ok (), ?s')"
      using s False d(1) by (simp add: flushAppendBufferedLocked_def Let_def app'_def)
    moreover have "append_rel start names ?s' sp"
      unfolding append_rel_def using s d
      by (intro exI [of _ "fst ?s'"] exI [of _ "ch\<lparr>hc_native := Some nc', hc_lastErr := StatusError_setErr None\<rparr>"] exI [of _ nc']
          exI [of _ app'] exI [of _ "batches @ [as_pendingRows app]"])
        (simp add: record_err_def app'_def sh_wid_def)
    ultimately show ?thesis by (auto simp: record_err_def app'_def)
  qed
qed

lemma append_call_refines:
  assumes "append_rel start names s sp"
  shows "fst (append_call lib spr names i s) = fst (spec_append lib spr i sp)
    \<and> append_rel start names (snd (append_call lib spr names i s)) (snd (spec_append lib spr i sp))"
proof -
  obtain now later args where i: "i = (now, later, args)" by (cases i) auto
  from assms obtain st ch nc app batches where
    s: "s = (st, Some ch)" "hc_native ch = Some nc" "sh_app st = Some app" "\<not> sh_closed st" "ready_conn nc"
      "sp_endian sp = nc_serverEndian nc" "sp_columns sp = as_columns app" "sp_names sp = names"
      "buildAppendBindings (as_columns app) names = Ok (sp_bindings sp)"
      "as_bindingsReady app \<longrightarrow> as_bindings app = sp_bindings sp \<and> as_bindingNames app = names" "as_errCheckCnt app \<le> 0"
      "concat batches @ as_pendingRows app = sp_log sp" "sent_bytes nc = start @ concat (map (batch_wire (sh_wid st)) batches)"
    unfolding append_rel_def by blast
  have op: "open_native s = Some (ch, nc)" using s by simp
  show ?thesis
  proof (cases "length names = length args")
    case False
    moreover have "append_rel start names (st\<lparr>sh_lastErr := x\<rparr>, Some ch) sp" for x
      unfolding append_rel_def using s
      by (intro exI [of _ "st\<lparr>sh_lastErr := x\<rparr>"] exI [of _ ch] exI [of _ nc] exI [of _ app] exI [of _ batches]) (simp add: sh_wid_def)
    ultimately show ?thesis using s op by (simp add: i append_row_def stmt_fail_def)
  next
    case len: True
    obtain app1 where a1: "row_bindings names app = Ok app1" "as_bindings app1 = sp_bindings sp" "as_bindingNames app1 = names"
      "as_columns app1 = as_columns app" "as_errCheckCnt app1 = as_errCheckCnt app" "as_pendingRows app1 = as_pendingRows app"
      using s(9,10) by (cases "\<not> as_bindingsReady app \<or> \<not> sameAppendBindingNames (as_bindingNames app) names")
        (auto simp: row_bindings_def)
    let ?enc = "encodeAppendRow lib spr (as_columns app) (sp_bindings sp) args (nc_serverEndian nc)"
    have rel1: "append_rel start names (st\<lparr>sh_app := Some app2, sh_lastErr := x\<rparr>, Some (ch\<lparr>hc_lastErr := y\<rparr>)) (sp\<lparr>sp_log := l\<rparr>)"
      if "as_columns app2 = as_columns app1" "as_bindings app2 = as_bindings app1" "as_bindingNames app2 = as_bindingNames app1"
        "as_errCheckCnt app2 = as_errCheckCnt app1" "concat batches @ as_pendingRows app2 = l" for app2 x y l
      unfolding append_rel_def using s a1 that
      by (intro exI [of _ "st\<lparr>sh_app := Some app2, sh_lastErr := x\<rparr>"] exI [of _ "ch\<lparr>hc_lastErr := y\<rparr>"] exI [of _ nc]
          exI [of _ app2] exI [of _ batches]) (simp add: sh_wid_def)
    show ?thesis
    proof (cases ?enc)
      case (Ok row)
      let ?app2 = "queue_row now row app1"
      have chk: "\<not> check_response ?app2" using s(11) a1(5) by (simp add: check_response_def queue_row_def)
      have rel2: "append_rel start names (st\<lparr>sh_app := Some ?app2\<rparr>, Some ch) (sp\<lparr>sp_log := sp_log sp @ [row]\<rparr>)"
        using rel1 [of ?app2 "sp_log sp @ [row]" "sh_lastErr st" "hc_lastErr ch"] a1(6) s(12)
        by (simp add: queue_row_def)
      from flush_rel [OF rel2, of later] rel2 Ok s op a1 len chk show ?thesis
        by (auto simp: i append_row_def Let_def)
    next
      case (Err e)
      with s op a1 len rel1 [of "app1\<lparr>as_failCnt := as_failCnt app1 + 1\<rparr>" "sp_log sp"] show ?thesis
        by (simp add: i append_row_def row_failed_def Let_def)
    next
      case (Panic m)
      with s op a1 len rel1 [of app1 "sp_log sp" "sh_lastErr st" "hc_lastErr ch"] show ?thesis
        by (simp add: i append_row_def Let_def)
    qed
  qed
qed

interpretation app: simulation "append_call lib spr names" "spec_append lib spr" "append_rel start names" for lib spr names start
  by unfold_locales (rule append_call_refines)

section \<open>Accounting\<close>

text \<open>The rows an append has taken: sent, waiting or failed.\<close>

definition rows_taken :: "AppendState \<Rightarrow> int" where
  "rows_taken app = as_sentCount app + int (length (as_pendingRows app)) + as_failCnt app"

definition bytes_waiting :: "AppendState \<Rightarrow> int" where
  "bytes_waiting app = int (sum_list (map length (as_pendingRows app)))"

lemma flush_taken:
  assumes "sh_app st = Some app" and "flushAppendBufferedLocked now chk (st, conn) = (r, (st', conn'))" and "\<not> is_panic r"
  shows "\<exists>app'. sh_app st' = Some app' \<and> rows_taken app' = rows_taken app \<and> as_pendingRows app' = []
    \<and> (as_pendingBytes app = bytes_waiting app \<longrightarrow> as_pendingBytes app' = bytes_waiting app')"
proof (cases "as_pendingRows app = []")
  case True
  with assms show ?thesis by (auto simp: flushAppendBufferedLocked_def)
next
  case False
  with assms obtain ch nc where c: "conn = Some ch" "hc_native ch = Some nc"
    by (auto simp: flushAppendBufferedLocked_def Let_def split: option.splits)
  obtain d nc' where d: "appendData now (sh_wid st) (as_pendingRows app) chk nc = (d, nc')" by fastforce
  with assms False c show ?thesis
    by (cases d) (auto simp: flushAppendBufferedLocked_def Let_def record_err_def rows_taken_def bytes_waiting_def)
qed

lemma row_bindings_taken:
  "row_bindings names app = Ok app1 \<Longrightarrow> rows_taken app1 = rows_taken app \<and> bytes_waiting app1 = bytes_waiting app
    \<and> as_pendingBytes app1 = as_pendingBytes app"
  by (auto simp: row_bindings_def rows_taken_def bytes_waiting_def bind_outcome_Ok_iff split: if_splits)

section \<open>Sample statements\<close>

definition demo_handle :: "reply list \<Rightarrow> ConnHandle" where
  "demo_handle rs = \<lparr>hc_native = Some (demo_conn rs), hc_closed = False, hc_lastErr = ok_status\<rparr>"

definition demo_chunk :: chunk where
  "demo_chunk = (cmiLastResult, [[0, 7]], [[GPrim (VInt16 7)]])"

definition demo_cursor :: stmt_state where
  "demo_cursor = ((new_stmt 7 10)\<lparr>sh_columns := [demo_column], sh_fetchLast := False\<rparr>,
     Some (demo_handle [(cmiFetchProtocol, 7, 0, [(0, snd (chunk_body demo_chunk))])]))"

definition demo_append :: stmt_state where
  "demo_append = ((new_stmt 7 10)\<lparr>sh_app := Some (new_append ''t'' 0 [demo_column])\<rparr>, Some (demo_handle []))"

lemma demo_cursor_at: "cursor_at lib [demo_chunk] demo_cursor"
proof -
  let ?r = "(cmiFetchProtocol, 7, 0, [(0, snd (chunk_body demo_chunk))]) :: reply"
  have len: "length (snd (chunk_body demo_chunk)) = 40"
    by (simp add: demo_chunk_def chunk_ops_def length_var_unit_bytes)
  then have "list_all reply_wf [?r]" by (simp add: last_flag_def)
  from demo_conn_rel [OF this] have rel: "\<exists>cn. session_rel (demo_conn [?r]) cn \<and> ch_open cn \<and> ch_replies cn = map chunk_body [demo_chunk]"
    by (intro exI conjI) (assumption, simp_all add: demo_chunk_def)
  have "decode_columns lib [demo_column] [0, 7] 0 = Ok [GPrim (VInt16 7)]"
    by (simp add: decode_column_def demo_column_def chk_slice_def decodeFixedField_def fixed_value_def be_word_def subslice_def)
  then have "chunk_good lib [demo_column] demo_chunk"
    using len by (simp add: demo_chunk_def failed_status_def statusCode_def)
  then show ?thesis
    using rel by (auto simp: cursor_at_def demo_cursor_def demo_handle_def) (simp_all add: demo_chunk_def statusCode_def)
qed

lemma demo_bindings: "buildAppendBindings [demo_column] [''c''] = Ok \<lparr>byColumn = [0], arrivalArg = -1\<rparr>"
proof -
  have "TrimSpace ''c'' = ''c''" by (rule TrimSpace_graphic; simp add: graphic_def code_def)
  moreover have "ToUpper ''c'' = ''C''" by code_simp
  ultimately have "appendInputBindingKey ''c'' = Ok ''C''" "normalizeIdentifier ''c'' = ''C''"
    by (simp_all add: appendInputBindingKey_def parseAppendTarget_def normalizeIdentifier_def HasSuffix_def)
  then show ?thesis
    by (simp add: buildAppendBindings_def bind_column_def isAppendArrivalColumn_def arrival_key_def demo_column_def)
qed

lemma demo_append_rel:
  "append_rel [] [''c''] demo_append \<lparr>sp_columns = [demo_column], sp_names = [''c''],
     sp_bindings = \<lparr>byColumn = [0], arrivalArg = -1\<rparr>, sp_endian = 0, sp_log = []\<rparr>"
proof -
  have "nc_serverEndian (demo_conn []) = 0" "sent_bytes (demo_conn []) = []" "ready_conn (demo_conn [])"
    by (simp_all add: ready_conn_def) (simp_all add: demo_conn_def new_conn_def)
  then show ?thesis
    unfolding append_rel_def demo_append_def using demo_bindings
    by (intro exI [of _ "(new_stmt 7 10)\<lparr>sh_app := Some (new_append ''t'' 0 [demo_column])\<rparr>"] exI [of _ "demo_handle []"]
        exI [of _ "demo_conn []"] exI [of _ "new_append ''t'' 0 [demo_column]"] exI [of _ "[]"])
      (simp add: demo_handle_def new_append_def new_stmt_def)
qed

lemma demo_row: "\<exists>row. encodeAppendRow lib spr [demo_column] \<lparr>byColumn = [0], arrivalArg = -1\<rparr> [GPrim (VInt16 5)] 0 = Ok row"
  by (simp add: encodeAppendRow_def Let_def append_column_def encodeAppendColumnValue_def array_types_def demo_column_def)

section \<open>Properties\<close>

text \<open>
  C4. A cursor delivers: when the server still holds a sequence of chunks of which the last says LAST,
  repeated calls of \<^verbatim>\<open>Fetch\<close> return every remaining row exactly once and in order, whatever the
  sizes of the chunks (empty ones included) and wherever the calls stand in them, and from then on
  report the end of the result.
\<close>

theorem fetch_delivers:
  assumes "cursor_at lib ks s" and "length (rows_left ks s) \<le> length cxs"
  shows "fst (run_steps (\<lambda>cx. fetch_loop lib cx) cxs s)
    = map (\<lambda>r. Ok (Some r)) (rows_left ks s) @ replicate (length cxs - length (rows_left ks s)) (Ok None)"
  unfolding fetch_run [OF assms(1)] using assms(2)
  by (intro nth_equalityI) (auto simp: nth_append)

theorem fetch_delivers_witness:
  "\<forall>lib cx. fst (run_steps (\<lambda>cx. fetch_loop lib cx) [cx, cx] demo_cursor) = [Ok (Some [GPrim (VInt16 7)]), Ok None]"
proof (intro allI)
  fix lib cx
  have rows: "rows_left [demo_chunk] demo_cursor = [[GPrim (VInt16 7)]]"
    by (simp add: rows_left_def demo_cursor_def demo_chunk_def new_stmt_def)
  from fetch_delivers [of lib "[demo_chunk]" demo_cursor "[cx, cx]", OF demo_cursor_at]
  show "fst (run_steps (\<lambda>cx. fetch_loop lib cx) [cx, cx] demo_cursor) = [Ok (Some [GPrim (VInt16 7)]), Ok None]"
    unfolding rows by simp
qed

text \<open>
  C16. An append puts every row on the wire once and in order: on a healthy connection, with response
  checks off and one list of column names, the results of any sequence of \<^verbatim>\<open>AppendData\<close> calls are
  those of a log to which every call adds the image of its row or, when the row cannot be encoded,
  nothing; after a final flush the peer was sent exactly data messages whose rows, one message
  after the other, are the log, however the batches were cut by size, number or time.
\<close>

theorem append_refines_log:
  assumes "append_rel start names s sp"
  shows "fst (run_steps (append_call lib spr names) calls s) = fst (run_steps (spec_append lib spr) calls sp)
    \<and> (\<exists>st ch nc batches. flushAppendBufferedLocked now False (snd (run_steps (append_call lib spr names) calls s))
          = (Ok (), (st, Some ch)) \<and> hc_native ch = Some nc
        \<and> concat batches = sp_log (snd (run_steps (spec_append lib spr) calls sp))
        \<and> sent_bytes nc = start @ concat (map (batch_wire (sh_wid st)) batches))"
proof -
  let ?s = "snd (run_steps (append_call lib spr names) calls s)" and ?sp = "snd (run_steps (spec_append lib spr) calls sp)"
  note sim = app.run_sim [OF assms, of lib spr calls]
  from flush_rel [OF conjunct2 [OF sim], of now] obtain s' where
    f: "flushAppendBufferedLocked now False ?s = (Ok (), s')" "append_rel start names s' ?sp"
    "as_pendingRows (the (sh_app (fst s'))) = []" by blast
  from f(2,3) obtain st ch nc batches where "s' = (st, Some ch)" "hc_native ch = Some nc" "concat batches = sp_log ?sp"
    "sent_bytes nc = start @ concat (map (batch_wire (sh_wid st)) batches)"
    unfolding append_rel_def by fastforce
  with f(1) sim show ?thesis by blast
qed

theorem append_refines_log_witness:
  "\<forall>lib spr. fst (run_steps (append_call lib spr [''c'']) [(0, 0, [GPrim (VInt16 5)]), (1, 1, [])] demo_append)
    = [Ok (), Err (makeClientErr ''append argument mismatch'')]"
proof (intro allI)
  fix lib spr
  from demo_row [of lib spr] append_refines_log [OF demo_append_rel, of lib spr "[(0, 0, [GPrim (VInt16 5)]), (1, 1, [])]"]
  show "fst (run_steps (append_call lib spr [''c'']) [(0, 0, [GPrim (VInt16 5)]), (1, 1, [])] demo_append)
    = [Ok (), Err (makeClientErr ''append argument mismatch'')]" by auto
qed

text \<open>
  C17. Every row is accounted for: a call of \<^verbatim>\<open>AppendData\<close> on an open append that does not panic adds
  exactly one to the rows that were sent, wait or failed, whether the row is queued, flushed, lost
  with a failed flush or cannot be encoded; the count of waiting bytes stays exact; and after
  success the batch is flushed or within both of its limits.
\<close>

theorem append_accounting:
  assumes "open_native (st, conn) = Some (ch, nc)" and "sh_app st = Some app" and "length names = length args"
    and "append_row lib spr now later names args (st, conn) = (r, (st', conn'))" and "\<not> is_panic r"
  shows "\<exists>app'. sh_app st' = Some app' \<and> rows_taken app' = rows_taken app + 1
    \<and> (as_pendingBytes app = bytes_waiting app \<longrightarrow> as_pendingBytes app' = bytes_waiting app')
    \<and> (r = Ok () \<longrightarrow> as_pendingRows app' = []
        \<or> int (length (as_pendingRows app')) < as_maxRows app' \<and> as_pendingBytes app' < as_maxBytes app')"
proof (cases "row_bindings names app")
  case (Err e)
  with assms show ?thesis by (auto simp: append_row_def row_failed_def rows_taken_def bytes_waiting_def Let_def)
next
  case (Panic m)
  with assms show ?thesis by (auto simp: append_row_def Let_def)
next
  case (Ok app1)
  note taken = row_bindings_taken [OF Ok]
  show ?thesis
  proof (cases "encodeAppendRow lib spr (as_columns app1) (as_bindings app1) args (nc_serverEndian nc)")
    case (Err e)
    with Ok assms taken show ?thesis by (auto simp: append_row_def row_failed_def rows_taken_def bytes_waiting_def Let_def)
  next
    case (Panic m)
    with Ok assms show ?thesis by (auto simp: append_row_def Let_def)
  next
    case row: (Ok row)
    let ?app2 = "queue_row now row app1"
    have q: "rows_taken ?app2 = rows_taken app + 1"
      "as_pendingBytes app = bytes_waiting app \<longrightarrow> as_pendingBytes ?app2 = bytes_waiting ?app2"
      using taken by (auto simp: queue_row_def rows_taken_def bytes_waiting_def)
    show ?thesis
    proof (cases "flush_now later ?app2")
      case True
      then have "flushAppendBufferedLocked later (check_response ?app2) (st\<lparr>sh_app := Some ?app2\<rparr>, conn) = (r, (st', conn'))"
        using assms(1-4) Ok row by (simp add: append_row_def Let_def)
      from flush_taken [OF _ this assms(5), of ?app2] q show ?thesis by auto
    next
      case False
      then have "r = Ok () \<and> st' = st\<lparr>sh_app := Some ?app2\<rparr>"
        using assms(1-4) Ok row by (simp add: append_row_def Let_def)
      with False q show ?thesis by (auto simp: flush_now_def)
    qed
  qed
qed

theorem append_accounting_witness:
  "\<forall>lib spr. \<exists>st' conn' app'. append_row lib spr 0 0 [''c''] [GPrim (VInt16 5)] demo_append = (Ok (), (st', conn'))
    \<and> sh_app st' = Some app' \<and> rows_taken app' = 1"
proof (intro allI)
  fix lib spr
  have "fst (append_call lib spr [''c''] (0, 0, [GPrim (VInt16 5)]) demo_append) = Ok ()"
    using append_call_refines [OF demo_append_rel, of lib spr "(0, 0, [GPrim (VInt16 5)])"] demo_row [of lib spr] by auto
  then obtain st' conn' where a: "append_row lib spr 0 0 [''c''] [GPrim (VInt16 5)] demo_append = (Ok (), (st', conn'))"
    by (cases "append_row lib spr 0 0 [''c''] [GPrim (VInt16 5)] demo_append") auto
  let ?st = "(new_stmt 7 10)\<lparr>sh_app := Some (new_append ''t'' 0 [demo_column])\<rparr>"
  have "open_native (?st, Some (demo_handle [])) = Some (demo_handle [], demo_conn [])"
    by (simp add: demo_handle_def new_stmt_def)
  from append_accounting [OF this _ _ a [unfolded demo_append_def]] a
  show "\<exists>st' conn' app'. append_row lib spr 0 0 [''c''] [GPrim (VInt16 5)] demo_append = (Ok (), (st', conn'))
    \<and> sh_app st' = Some app' \<and> rows_taken app' = 1"
    by (auto simp: rows_taken_def new_append_def)
qed

end
