(* ===== verification/Keys.thy ===== *)
theory Keys
  imports Auth
begin

text \<open>
  \<^verbatim>\<open>api/keypair.go\<close>: generating, writing and loading authentication keys. The key generators, the DER
  codecs of \<^verbatim>\<open>crypto/x509\<close>, PEM and the file system are parameters: the record \<open>key_lib\<close> extends the one
  of the authentication theory with the encoders and with the errors the parsers report.
\<close>

section \<open>Key pairs\<close>

datatype PublicKey = PublicOf PrivateKey

record key_lib = crypto_lib +
  kl_ParseErr :: "string \<Rightarrow> bytes \<Rightarrow> gerr"
  kl_ReadErr :: "string \<Rightarrow> gerr"
  kl_GenerateEC :: "PrivateKey outcome"
  kl_GenerateRSA :: "nat \<Rightarrow> PrivateKey outcome"
  kl_MarshalEC :: "PrivateKey \<Rightarrow> bytes outcome"
  kl_MarshalPKCS1 :: "PrivateKey \<Rightarrow> bytes"
  kl_MarshalPKCS8 :: "PrivateKey \<Rightarrow> bytes outcome"
  kl_MarshalPKIX :: "PublicKey \<Rightarrow> bytes outcome"
  kl_ParsePKIX :: "bytes \<Rightarrow> PublicKey option"
  kl_pemEncode :: "string \<Rightarrow> bytes \<Rightarrow> bytes"

record AuthKeyPair =
  PrivateKeyPEM :: bytes
  PublicKeyPEM :: bytes

definition pem_pair :: "('a key_lib_scheme) \<Rightarrow> string \<Rightarrow> bytes \<Rightarrow> bytes \<Rightarrow> AuthKeyPair" where
  "pem_pair kl typ privDER pubDER =
     \<lparr>PrivateKeyPEM = kl_pemEncode kl typ privDER, PublicKeyPEM = kl_pemEncode kl ''PUBLIC KEY'' pubDER\<rparr>"

definition GenerateAuthKeyPairECDSA :: "key_lib \<Rightarrow> AuthKeyPair outcome" where
  "GenerateAuthKeyPairECDSA kl =
     bind_outcome (kl_GenerateEC kl) (\<lambda>priv.
     bind_outcome (kl_MarshalEC kl priv) (\<lambda>privDER.
     bind_outcome (kl_MarshalPKIX kl (PublicOf priv)) (\<lambda>pubDER.
     Ok (pem_pair kl ''EC PRIVATE KEY'' privDER pubDER))))"

definition GenerateAuthKeyPair :: "key_lib \<Rightarrow> AuthKeyPair outcome" where
  "GenerateAuthKeyPair kl = GenerateAuthKeyPairECDSA kl"

definition GenerateAuthKeyPairRSA :: "key_lib \<Rightarrow> AuthKeyPair outcome" where
  "GenerateAuthKeyPairRSA kl =
     bind_outcome (kl_GenerateRSA kl 2048) (\<lambda>priv.
     bind_outcome (kl_MarshalPKIX kl (PublicOf priv)) (\<lambda>pubDER.
     Ok (pem_pair kl ''RSA PRIVATE KEY'' (kl_MarshalPKCS1 kl priv) pubDER)))"

text \<open>The type assertion \<^verbatim>\<open>priv.(crypto.Signer)\<close> panics for a value that is no signer; a nil interface
  is refused by the PKCS#8 encoder before.\<close>

definition AuthKeyPairFromPrivateKey :: "key_lib \<Rightarrow> PrivateKey \<Rightarrow> AuthKeyPair outcome" where
  "AuthKeyPairFromPrivateKey kl priv =
     bind_outcome (kl_MarshalPKCS8 kl priv) (\<lambda>privDER.
     bind_outcome (kl_MarshalPKIX kl (PublicOf priv)) (\<lambda>pubDER.
     Ok (pem_pair kl ''PRIVATE KEY'' privDER pubDER)))"

definition AuthKeyPair_PublicKey :: "key_lib \<Rightarrow> AuthKeyPair \<Rightarrow> PublicKey outcome" where
  "AuthKeyPair_PublicKey kl pair =
     (case cl_pemDecode kl (PublicKeyPEM pair) of
        None \<Rightarrow> Err (PlainErr ''invalid public key block'')
      | Some (typ, blk) \<Rightarrow>
          if typ \<noteq> ''PUBLIC KEY'' then Err (PlainErr ''invalid public key type'')
          else (case kl_ParsePKIX kl blk of
                  None \<Rightarrow> Err (PlainErr ''invalid public key'')
                | Some key \<Rightarrow> Ok key))"

definition parsed_or :: "gerr \<Rightarrow> PrivateKey option \<Rightarrow> PrivateKey outcome" where
  "parsed_or e k = (case k of Some key \<Rightarrow> Ok key | None \<Rightarrow> Err e)"

definition AuthKeyPair_PrivateKey :: "key_lib \<Rightarrow> AuthKeyPair \<Rightarrow> PrivateKey outcome" where
  "AuthKeyPair_PrivateKey kl pair =
     (case cl_pemDecode kl (PrivateKeyPEM pair) of
        None \<Rightarrow> Err (PlainErr ''invalid private key block'')
      | Some (typ, blk) \<Rightarrow>
          if typ = ''PRIVATE KEY'' then parsed_or (PlainErr ''invalid private key'') (cl_ParsePKCS8 kl blk)
          else if typ = ''RSA PRIVATE KEY'' then parsed_or (PlainErr ''invalid rsa private key'') (cl_ParsePKCS1 kl blk)
          else if typ = ''EC PRIVATE KEY'' then parsed_or (PlainErr ''invalid ec private key'') (cl_ParseEC kl blk)
          else Err (PlainErr ''invalid private key''))"

section \<open>Loading\<close>

definition LoadPrivateKeyFromPEM :: "key_lib \<Rightarrow> bytes \<Rightarrow> PrivateKey outcome" where
  "LoadPrivateKeyFromPEM kl privateKeyPEM =
     (case cl_pemDecode kl privateKeyPEM of
        None \<Rightarrow> Err (PlainErr ''invalid AUTH_KEY'')
      | Some (typ, blk) \<Rightarrow>
          if typ = ''PRIVATE KEY'' then parsed_or (kl_ParseErr kl typ blk) (cl_ParsePKCS8 kl blk)
          else if typ = ''RSA PRIVATE KEY'' then parsed_or (kl_ParseErr kl typ blk) (cl_ParsePKCS1 kl blk)
          else if typ = ''EC PRIVATE KEY'' then parsed_or (kl_ParseErr kl typ blk) (cl_ParseEC kl blk)
          else Err (PlainErr (''invalid auth key type '' @ typ)))"

definition LoadPrivateKeyFromFile :: "key_lib \<Rightarrow> string \<Rightarrow> PrivateKey outcome" where
  "LoadPrivateKeyFromFile kl keyFile =
     (case cl_ReadFile kl keyFile of
        None \<Rightarrow> Err (kl_ReadErr kl keyFile)
      | Some privateKeyPEM \<Rightarrow> LoadPrivateKeyFromPEM kl privateKeyPEM)"

section \<open>Writing\<close>

text \<open>
  The file system: files with their permission bits. Creating a directory and opening a file may
  fail, which the parameters decide; \<^verbatim>\<open>filepath.Join\<close> of a directory and a file name is a
  parameter as well. \<^verbatim>\<open>os.WriteFile\<close> gives the permission bits to a file it creates only; the failure of
  a write after the file was opened is not represented.
\<close>

type_synonym files = "string \<Rightarrow> (nat \<times> bytes) option"

record file_lib =
  fl_MkdirAll :: "string \<Rightarrow> gerr option"
  fl_WriteErr :: "string \<Rightarrow> gerr option"
  fl_Join :: "string \<Rightarrow> string \<Rightarrow> string"

abbreviation (input) DefaultAuthKeyPrefix :: string where "DefaultAuthKeyPrefix \<equiv> ''machbase_authkey_p256''"

definition os_WriteFile :: "file_lib \<Rightarrow> string \<Rightarrow> bytes \<Rightarrow> nat \<Rightarrow> files \<Rightarrow> gerr option \<times> files" where
  "os_WriteFile fl path data perm fs =
     (case fl_WriteErr fl path of
        Some e \<Rightarrow> (Some e, fs)
      | None \<Rightarrow> (None, fs(path \<mapsto> (case fs path of Some (m, _) \<Rightarrow> m | None \<Rightarrow> perm, data))))"

definition AuthKeyPair_WriteFiles ::
  "file_lib \<Rightarrow> AuthKeyPair option \<Rightarrow> string \<Rightarrow> string \<Rightarrow> files \<Rightarrow> (string \<times> string) outcome \<times> files" where
  "AuthKeyPair_WriteFiles fl pair outDir prefix fs =
     (case pair of
        None \<Rightarrow> (Err (PlainErr ''auth key pair is nil''), fs)
      | Some pair \<Rightarrow>
          let outDir = (if outDir = [] then ''.'' else outDir);
              prefix = (if prefix = [] then DefaultAuthKeyPrefix else prefix);
              privatePath = fl_Join fl outDir (prefix @ ''_private.pem'');
              publicPath = fl_Join fl outDir (prefix @ ''_public.pem'')
          in (case fl_MkdirAll fl outDir of
                Some e \<Rightarrow> (Err e, fs)
              | None \<Rightarrow>
                  (case os_WriteFile fl privatePath (PrivateKeyPEM pair) 384 fs of
                     (Some e, fs) \<Rightarrow> (Err e, fs)
                   | (None, fs) \<Rightarrow>
                       (case os_WriteFile fl publicPath (PublicKeyPEM pair) 420 fs of
                          (Some e, fs) \<Rightarrow> (Err e, fs)
                        | (None, fs) \<Rightarrow> (Ok (privatePath, publicPath), fs)))))"

section \<open>Properties\<close>

text \<open>What is documented of the codecs: each decoder inverts its encoder.\<close>

definition key_laws :: "key_lib \<Rightarrow> bool" where
  "key_laws kl \<longleftrightarrow>
     (\<forall>t b. cl_pemDecode kl (kl_pemEncode kl t b) = Some (t, b))
     \<and> (\<forall>k b. kl_MarshalEC kl k = Ok b \<longrightarrow> cl_ParseEC kl b = Some k)
     \<and> (\<forall>k b. kl_MarshalPKCS8 kl k = Ok b \<longrightarrow> cl_ParsePKCS8 kl b = Some k)
     \<and> (\<forall>n k. kl_GenerateRSA kl n = Ok k \<longrightarrow> cl_ParsePKCS1 kl (kl_MarshalPKCS1 kl k) = Some k)
     \<and> (\<forall>p b. kl_MarshalPKIX kl p = Ok b \<longrightarrow> kl_ParsePKIX kl b = Some p)"

text \<open>A pair that gives a key back: by its own accessors, by the loader of this package and by the
  loader of the connection.\<close>

definition holds_key :: "key_lib \<Rightarrow> AuthKeyPair \<Rightarrow> PrivateKey \<Rightarrow> bool" where
  "holds_key kl pair k \<longleftrightarrow>
     AuthKeyPair_PrivateKey kl pair = Ok k \<and> AuthKeyPair_PublicKey kl pair = Ok (PublicOf k)
     \<and> LoadPrivateKeyFromPEM kl (PrivateKeyPEM pair) = Ok k
     \<and> loadPrivateKeyPEM (crypto_lib.truncate kl) (PrivateKeyPEM pair) ''AUTH_KEY_PEM'' = Ok k"

lemmas key_accessors =
  holds_key_def AuthKeyPair_PrivateKey_def AuthKeyPair_PublicKey_def LoadPrivateKeyFromPEM_def
  loadPrivateKeyPEM_def pem_pair_def parsed_or_def invalid_key_def crypto_lib.truncate_def

lemma pem_pair_holds:
  assumes "key_laws kl" and "kl_MarshalPKIX kl (PublicOf k) = Ok pub"
    and "typ = ''EC PRIVATE KEY'' \<and> cl_ParseEC kl priv = Some k \<or> typ = ''RSA PRIVATE KEY'' \<and> cl_ParsePKCS1 kl priv = Some k
      \<or> typ = ''PRIVATE KEY'' \<and> cl_ParsePKCS8 kl priv = Some k"
  shows "holds_key kl (pem_pair kl typ priv pub) k"
proof -
  have "cl_pemDecode kl (kl_pemEncode kl t b) = Some (t, b)" for t b using assms(1) by (simp add: key_laws_def)
  moreover have "kl_ParsePKIX kl pub = Some (PublicOf k)" using assms(1,2) by (simp add: key_laws_def)
  ultimately show ?thesis using assms(3) by (elim disjE conjE) (simp_all add: key_accessors)
qed

lemma write_files_private:
  assumes "AuthKeyPair_WriteFiles fl (Some pair) outDir prefix fs = (Ok (priv, pub), fs')" and "priv \<noteq> pub"
  shows "map_option snd (fs' priv) = Some (PrivateKeyPEM pair) \<and> map_option snd (fs' pub) = Some (PublicKeyPEM pair)
    \<and> (fs priv = None \<longrightarrow> map_option fst (fs' priv) = Some 384)"
  using assms
  by (auto simp: AuthKeyPair_WriteFiles_def os_WriteFile_def Let_def split: option.splits prod.splits)

text \<open>
  The key pairs the client makes are usable: under the documented laws of the codecs, the pair
  generated with ECDSA or RSA, and the pair made from any private key, give the generated key back by their
  accessors, by \<^verbatim>\<open>LoadPrivateKeyFromPEM\<close> and by the loader the connection uses, and the
  public key of that key.
\<close>

theorem key_pair_roundtrip:
  assumes "key_laws kl"
  shows "(GenerateAuthKeyPair kl = Ok pair \<longrightarrow> (\<exists>k. kl_GenerateEC kl = Ok k \<and> holds_key kl pair k))
    \<and> (GenerateAuthKeyPairRSA kl = Ok pair \<longrightarrow> (\<exists>k. kl_GenerateRSA kl 2048 = Ok k \<and> holds_key kl pair k))
    \<and> (AuthKeyPairFromPrivateKey kl key = Ok pair \<longrightarrow> holds_key kl pair key)"
proof (intro conjI impI)
  assume "GenerateAuthKeyPair kl = Ok pair"
  then obtain k priv pub where "kl_GenerateEC kl = Ok k" "kl_MarshalEC kl k = Ok priv"
      "kl_MarshalPKIX kl (PublicOf k) = Ok pub" "pair = pem_pair kl ''EC PRIVATE KEY'' priv pub"
    by (auto simp: GenerateAuthKeyPair_def GenerateAuthKeyPairECDSA_def bind_outcome_Ok_iff)
  moreover from this have "cl_ParseEC kl priv = Some k" using assms unfolding key_laws_def by blast
  ultimately show "\<exists>k. kl_GenerateEC kl = Ok k \<and> holds_key kl pair k"
    using pem_pair_holds [OF assms] by blast
next
  assume "GenerateAuthKeyPairRSA kl = Ok pair"
  then obtain k pub where "kl_GenerateRSA kl 2048 = Ok k" "kl_MarshalPKIX kl (PublicOf k) = Ok pub"
      "pair = pem_pair kl ''RSA PRIVATE KEY'' (kl_MarshalPKCS1 kl k) pub"
    by (auto simp: GenerateAuthKeyPairRSA_def bind_outcome_Ok_iff)
  moreover from this have "cl_ParsePKCS1 kl (kl_MarshalPKCS1 kl k) = Some k" using assms unfolding key_laws_def by blast
  ultimately show "\<exists>k. kl_GenerateRSA kl 2048 = Ok k \<and> holds_key kl pair k"
    using pem_pair_holds [OF assms] by blast
next
  assume "AuthKeyPairFromPrivateKey kl key = Ok pair"
  then obtain priv pub where "kl_MarshalPKCS8 kl key = Ok priv"
      "kl_MarshalPKIX kl (PublicOf key) = Ok pub" "pair = pem_pair kl ''PRIVATE KEY'' priv pub"
    by (auto simp: AuthKeyPairFromPrivateKey_def bind_outcome_Ok_iff)
  moreover from this have "cl_ParsePKCS8 kl priv = Some key" using assms unfolding key_laws_def by blast
  ultimately show "holds_key kl pair key" using pem_pair_holds [OF assms] by blast
qed

text \<open>A sample library: keys are numbers below 256, their image is one byte, and a PEM block is the
  length of its type in unary, its type and its contents.\<close>

definition demo_parse :: "(nat \<Rightarrow> PrivateKey) \<Rightarrow> bytes \<Rightarrow> PrivateKey option" where
  "demo_parse mk b = (case b of [x] \<Rightarrow> Some (mk (unat x)) | _ \<Rightarrow> None)"

definition demo_pem_decode :: "bytes \<Rightarrow> (string \<times> bytes) option" where
  "demo_pem_decode bs =
     (let n = length (takeWhile (\<lambda>x. x = 1) bs); r = drop (n + 1) bs
      in Some (string_of_bytes (take n r), drop n r))"

definition demo_keys :: key_lib where
  "demo_keys =
     \<lparr>cl_sha256 = id, cl_SignASN1 = (\<lambda>k b. Ok b), cl_SignPKCS1v15 = (\<lambda>k b. Ok b), cl_SignPSS = (\<lambda>k b. Ok b),
      cl_pemDecode = demo_pem_decode,
      cl_ParsePKCS8 = demo_parse (ECDSAKey (Some 256)), cl_ParsePKCS1 = demo_parse (RSAKey (Some 2048)),
      cl_ParseEC = demo_parse (ECDSAKey (Some 256)), cl_ReadFile = (\<lambda>f. None),
      kl_ParseErr = (\<lambda>t b. PlainErr ''parse''), kl_ReadErr = (\<lambda>f. PlainErr ''read''),
      kl_GenerateEC = Ok (ECDSAKey (Some 256) 7), kl_GenerateRSA = (\<lambda>n. Ok (RSAKey (Some 2048) 9)),
      kl_MarshalEC = (\<lambda>k. if k = ECDSAKey (Some 256) 7 then Ok [7] else Err (PlainErr ''unknown key'')),
      kl_MarshalPKCS1 = (\<lambda>k. [9]),
      kl_MarshalPKCS8 = (\<lambda>k. if k = ECDSAKey (Some 256) 7 then Ok [7] else Err (PlainErr ''unknown key'')),
      kl_MarshalPKIX = (\<lambda>p. if p = PublicOf (ECDSAKey (Some 256) 7) then Ok [7] else Err (PlainErr ''unknown key'')),
      kl_ParsePKIX = (\<lambda>b. Some (PublicOf (ECDSAKey (Some 256) 7))),
      kl_pemEncode = (\<lambda>t b. replicate (length t) 1 @ 0 # bytes_of_string t @ b)\<rparr>"

lemma demo_keys_laws: "key_laws demo_keys"
proof -
  have "takeWhile (\<lambda>x. x = (1 :: byte)) (replicate n 1 @ 0 # r) = replicate n 1" for n and r :: bytes
    by (induction n) simp_all
  then show ?thesis by (simp add: key_laws_def demo_keys_def demo_pem_decode_def demo_parse_def Let_def)
qed

theorem key_pair_roundtrip_witness:
  "case GenerateAuthKeyPair demo_keys of Ok pair \<Rightarrow> holds_key demo_keys pair (ECDSAKey (Some 256) 7) | _ \<Rightarrow> False"
proof -
  have "GenerateAuthKeyPair demo_keys = Ok (pem_pair demo_keys ''EC PRIVATE KEY'' [7] [7])"
    by (simp add: GenerateAuthKeyPair_def GenerateAuthKeyPairECDSA_def demo_keys_def)
  then show ?thesis
    using key_pair_roundtrip [OF demo_keys_laws, of "pem_pair demo_keys ''EC PRIVATE KEY'' [7] [7]" undefined]
    by (auto simp: demo_keys_def)
qed

end
