(* ===== verification/Go_Url.thy ===== *)
theory Go_Url
  imports Go_Encoding Decimal
begin

text \<open>
  The part of Go's \<^verbatim>\<open>net/url\<close> and \<^verbatim>\<open>net\<close> that the client uses for server addresses:
  \<^verbatim>\<open>url.Parse\<close>, the accessors of a parsed URL, and \<^verbatim>\<open>net.SplitHostPort\<close>. A query value is
  shorter than the URL it comes from, on which the recursion over nested server values rests.
\<close>

section \<open>Percent encoding\<close>

datatype url_mode = EncodePath | EncodeUserPassword | EncodeHost | EncodeZone | EncodeQueryComponent | EncodeFragment

definition url_alnum :: "char \<Rightarrow> bool" where
  "url_alnum c \<longleftrightarrow> is_digit c \<or> 65 \<le> code c \<and> code c \<le> 90 \<or> 97 \<le> code c \<and> code c \<le> 122"

text \<open>\<^verbatim>\<open>shouldEscape\<close> in the modes for hosts and zones; 34 is the double quote, 39 the single one.\<close>

definition host_escape :: "char \<Rightarrow> bool" where
  "host_escape c \<longleftrightarrow> \<not> url_alnum c \<and> code c \<notin> {34, 39} \<and> c \<notin> set ''!$&()*+,;=:[]<>-_.~''"

fun unescape :: "url_mode \<Rightarrow> string \<Rightarrow> string outcome" where
  "unescape m [] = Ok []"
| "unescape m (c # cs) =
     (if c = CHR ''%'' then
        (case cs of
           a # b # ds \<Rightarrow>
             (case (hex_val a, hex_val b) of
                (Some x, Some y) \<Rightarrow>
                  if m = EncodeHost \<and> x < 8 \<and> [a, b] \<noteq> ''25'' then Err (PlainErr ''invalid URL escape'')
                  else if m = EncodeZone \<and> [a, b] \<noteq> ''25'' \<and> 16 * x + y \<noteq> 32 \<and> host_escape (char_of (16 * x + y))
                  then Err (PlainErr ''invalid URL escape'')
                  else bind_outcome (unescape m ds) (\<lambda>r. Ok (char_of (16 * x + y) # r))
              | _ \<Rightarrow> Err (PlainErr ''invalid URL escape''))
         | _ \<Rightarrow> Err (PlainErr ''invalid URL escape''))
      else if c = CHR ''+'' \<and> m = EncodeQueryComponent then bind_outcome (unescape m cs) (\<lambda>r. Ok (CHR '' '' # r))
      else if (m = EncodeHost \<or> m = EncodeZone) \<and> code c < 128 \<and> host_escape c
      then Err (PlainErr ''invalid character in host name'')
      else bind_outcome (unescape m cs) (\<lambda>r. Ok (c # r)))"

declare unescape.simps(2) [simp del]

section \<open>Parsing\<close>

text \<open>\<^verbatim>\<open>strings.Cut\<close>.\<close>

definition Cut :: "string \<Rightarrow> string \<Rightarrow> string \<times> string \<times> bool" where
  "Cut s sep =
     (case Index s sep of
        Some i \<Rightarrow> (take i s, drop (i + length sep) s, True)
      | None \<Rightarrow> (s, [], False))"

record URL =
  url_Scheme :: string
  url_User :: "(string \<times> string option) option"
  url_Host :: string
  url_Path :: string
  url_RawQuery :: string

definition empty_url :: URL where
  "empty_url = \<lparr>url_Scheme = [], url_User = None, url_Host = [], url_Path = [], url_RawQuery = []\<rparr>"

text \<open>\<^verbatim>\<open>getScheme\<close>: the scheme read so far in front of the rest; \<open>Ok None\<close> when there is no scheme.\<close>

fun scan_scheme :: "string \<Rightarrow> string \<Rightarrow> (string \<times> string) option outcome" where
  "scan_scheme acc [] = Ok None"
| "scan_scheme acc (c # cs) =
     (if url_alnum c \<and> \<not> is_digit c then scan_scheme (acc @ [c]) cs
      else if is_digit c \<or> c \<in> set ''+-.'' then (if acc = [] then Ok None else scan_scheme (acc @ [c]) cs)
      else if c = CHR '':'' then
        (if acc = [] then Err (PlainErr ''missing protocol scheme'') else Ok (Some (acc, cs)))
      else Ok None)"

definition getScheme :: "string \<Rightarrow> (string \<times> string) outcome" where
  "getScheme raw = bind_outcome (scan_scheme [] raw) (\<lambda>r. case r of Some sr \<Rightarrow> Ok sr | None \<Rightarrow> Ok ([], raw))"

definition validOptionalPort :: "string \<Rightarrow> bool" where
  "validOptionalPort p \<longleftrightarrow> p = [] \<or> hd p = CHR '':'' \<and> list_all is_digit (tl p)"

definition validUserinfo :: "string \<Rightarrow> bool" where
  "validUserinfo s \<longleftrightarrow> list_all (\<lambda>c. url_alnum c \<or> code c = 39 \<or> c \<in> set ''-._:~!$&()*+,;=%@'') s"

definition parseHost :: "string \<Rightarrow> string outcome" where
  "parseHost host =
     (if HasPrefix host ''['' then
        (case LastIndexByte host CHR '']'' of
           None \<Rightarrow> Err (PlainErr ''missing ']' in host'')
         | Some i \<Rightarrow>
             if \<not> validOptionalPort (drop (i + 1) host) then Err (PlainErr ''invalid port after host'')
             else
               (case Index (take i host) ''%25'' of
                  None \<Rightarrow> unescape EncodeHost host
                | Some zone \<Rightarrow>
                    bind_outcome (unescape EncodeHost (take zone host)) (\<lambda>host1.
                    bind_outcome (unescape EncodeZone (subslice host zone i)) (\<lambda>host2.
                    bind_outcome (unescape EncodeHost (drop i host)) (\<lambda>host3.
                    Ok (host1 @ host2 @ host3))))))
      else
        (case LastIndexByte host CHR '':'' of
           Some i \<Rightarrow>
             if \<not> validOptionalPort (drop i host) then Err (PlainErr ''invalid port after host'')
             else unescape EncodeHost host
         | None \<Rightarrow> unescape EncodeHost host))"

definition parseAuthority :: "string \<Rightarrow> ((string \<times> string option) option \<times> string) outcome" where
  "parseAuthority authority =
     (case LastIndexByte authority CHR ''@'' of
        None \<Rightarrow> bind_outcome (parseHost authority) (\<lambda>host. Ok (None, host))
      | Some i \<Rightarrow>
          bind_outcome (parseHost (drop (i + 1) authority)) (\<lambda>host.
          let userinfo = take i authority
          in if \<not> validUserinfo userinfo then Err (PlainErr ''net/url: invalid userinfo'')
             else if \<not> Contains userinfo '':''
             then bind_outcome (unescape EncodeUserPassword userinfo) (\<lambda>user. Ok (Some (user, None), host))
             else
               (case Cut userinfo '':'' of (u, p, _) \<Rightarrow>
                  bind_outcome (unescape EncodeUserPassword u) (\<lambda>user.
                  bind_outcome (unescape EncodeUserPassword p) (\<lambda>pass.
                  Ok (Some (user, Some pass), host))))))"

definition split_query :: "string \<Rightarrow> string \<times> string" where
  "split_query rest =
     (if HasSuffix rest ''?'' \<and> length (filter (\<lambda>c. c = CHR ''?'') rest) = 1 then (butlast rest, [])
      else (case Cut rest ''?'' of (r, q, _) \<Rightarrow> (r, q)))"

definition url_parse_rest :: "string \<Rightarrow> string \<Rightarrow> URL outcome" where
  "url_parse_rest scheme r0 =
     (case split_query r0 of (rest, query) \<Rightarrow>
        (let u = empty_url\<lparr>url_Scheme := scheme, url_RawQuery := query\<rparr>
         in if \<not> HasPrefix rest ''/'' \<and> scheme \<noteq> [] then Ok u
            else if \<not> HasPrefix rest ''/'' \<and> Contains (fst (Cut rest ''/'')) '':''
            then Err (PlainErr ''first path segment in URL cannot contain colon'')
            else if (scheme \<noteq> [] \<or> \<not> HasPrefix rest ''///'') \<and> HasPrefix rest ''//''
            then
              (let a = drop 2 rest;
                   i = (case Index a ''/'' of Some i \<Rightarrow> i | None \<Rightarrow> length a)
               in bind_outcome (parseAuthority (take i a)) (\<lambda>(user, host).
                  bind_outcome (unescape EncodePath (drop i a)) (\<lambda>path.
                  Ok (u\<lparr>url_User := user, url_Host := host, url_Path := path\<rparr>))))
            else bind_outcome (unescape EncodePath rest) (\<lambda>path. Ok (u\<lparr>url_Path := path\<rparr>))))"

definition url_Parse :: "string \<Rightarrow> URL outcome" where
  "url_Parse rawURL =
     (case Cut rawURL ''#'' of (u, frag, _) \<Rightarrow>
        bind_outcome
          (if list_ex (\<lambda>c. code c < 32 \<or> code c = 127) u
           then Err (PlainErr ''net/url: invalid control character in URL'')
           else if u = ''*'' then Ok (empty_url\<lparr>url_Path := ''*''\<rparr>)
           else bind_outcome (getScheme u) (\<lambda>(scheme, rest). url_parse_rest (ToLower scheme) rest))
          (\<lambda>url. bind_outcome (unescape EncodeFragment frag) (\<lambda>_. Ok url)))"

section \<open>Accessors\<close>

definition split_host_port :: "string \<Rightarrow> string \<times> string" where
  "split_host_port hostPort =
     (let hp = (case LastIndexByte hostPort CHR '':'' of
                  Some colon \<Rightarrow>
                    if validOptionalPort (drop colon hostPort) then (take colon hostPort, drop (colon + 1) hostPort)
                    else (hostPort, [])
                | None \<Rightarrow> (hostPort, []))
      in (if HasPrefix (fst hp) ''['' \<and> HasSuffix (fst hp) '']'' then butlast (tl (fst hp)) else fst hp, snd hp))"

definition url_Hostname :: "URL \<Rightarrow> string" where
  "url_Hostname u = fst (split_host_port (url_Host u))"

definition url_Port :: "URL \<Rightarrow> string" where
  "url_Port u = snd (split_host_port (url_Host u))"

text \<open>\<^verbatim>\<open>Query\<close>: the parts that cannot be decoded are left out; the values of a key in order.\<close>

definition query_part :: "string \<Rightarrow> (string \<times> string) option" where
  "query_part p =
     (if Contains p '';'' \<or> p = [] then None
      else
        (case Cut p ''='' of (k, v, _) \<Rightarrow>
           (case (unescape EncodeQueryComponent k, unescape EncodeQueryComponent v) of
              (Ok k', Ok v') \<Rightarrow> Some (k', v')
            | _ \<Rightarrow> None)))"

definition url_Query :: "URL \<Rightarrow> (string \<times> string list) list" where
  "url_Query u =
     (let kvs = List.map_filter query_part (Split CHR ''&'' (url_RawQuery u))
      in map (\<lambda>k. (k, map snd (filter (\<lambda>kv. fst kv = k) kvs))) (remdups (map fst kvs)))"

section \<open>net.SplitHostPort\<close>

definition addr_error :: "string \<Rightarrow> string \<Rightarrow> 'a outcome" where
  "addr_error a e = Err (PlainErr (if a = [] then e else ''address '' @ a @ '': '' @ e))"

definition host_port_rest :: "string \<Rightarrow> nat \<Rightarrow> string \<Rightarrow> nat \<Rightarrow> nat \<Rightarrow> (string \<times> string) outcome" where
  "host_port_rest hostport i host j k =
     (if Contains (drop j hostport) ''['' then addr_error hostport ''unexpected '[' in address''
      else if Contains (drop k hostport) '']'' then addr_error hostport ''unexpected ']' in address''
      else Ok (host, drop (i + 1) hostport))"

definition SplitHostPort :: "string \<Rightarrow> (string \<times> string) outcome" where
  "SplitHostPort hostport =
     (case LastIndexByte hostport CHR '':'' of
        None \<Rightarrow> addr_error hostport ''missing port in address''
      | Some i \<Rightarrow>
          if hd hostport = CHR ''['' then
            (case IndexByte hostport CHR '']'' of
               None \<Rightarrow> addr_error hostport ''missing ']' in address''
             | Some en \<Rightarrow>
                 if en + 1 = length hostport then addr_error hostport ''missing port in address''
                 else if en + 1 = i then host_port_rest hostport i (subslice hostport 1 en) 1 (en + 1)
                 else if hostport ! (en + 1) = CHR '':'' then addr_error hostport ''too many colons in address''
                 else addr_error hostport ''missing port in address'')
          else if Contains (take i hostport) '':'' then addr_error hostport ''too many colons in address''
          else host_port_rest hostport i (take i hostport) 0 0)"

section \<open>A query value is shorter than its URL\<close>

lemma Index_Some: "Index s p = Some i \<Longrightarrow> i + length p \<le> length s \<and> HasPrefix (drop i s) p"
proof (induction s arbitrary: i)
  case Nil
  then show ?case by (subst (asm) Index.simps) (auto simp: HasPrefix_def split: if_splits)
next
  case (Cons c cs)
  from Cons.prems show ?case
    by (subst (asm) Index.simps) (auto simp: HasPrefix_def split: if_splits dest!: Cons.IH arg_cong [of _ p length])
qed

lemma Cut_length: "Cut s sep = (a, b, ok) \<Longrightarrow> sep \<noteq> [] \<Longrightarrow> length a \<le> length s \<and> (b = [] \<or> length b < length s)"
  using Index_Some [of s sep] by (cases sep) (auto simp: Cut_def split: option.splits)

lemma unescape_step:
  assumes "unescape m (c # cs) = Ok r"
  shows "\<exists>t x r'. length t \<le> length cs \<and> unescape m t = Ok r' \<and> r = x # r'"
proof (cases "c = CHR ''%''")
  case True
  then obtain a b ds x y where "cs = a # b # ds" "hex_val a = Some x" "hex_val b = Some y"
    using assms by (auto simp: unescape.simps(2) split: list.splits option.splits prod.splits)
  with True assms obtain r' where "unescape m ds = Ok r'" "r = char_of (16 * x + y) # r'"
    by (auto simp: unescape.simps(2) bind_outcome_Ok_iff split: if_splits)
  moreover have "length ds \<le> length cs" using \<open>cs = a # b # ds\<close> by simp
  ultimately show ?thesis by blast
next
  case False
  with assms obtain r' x where "unescape m cs = Ok r'" "r = x # r'"
    by (auto simp: unescape.simps(2) bind_outcome_Ok_iff split: if_splits)
  then show ?thesis by blast
qed

lemma unescape_length: "unescape m s = Ok r \<Longrightarrow> length r \<le> length s"
proof (induction s arbitrary: r rule: length_induct)
  case (1 s)
  show ?case
  proof (cases s)
    case (Cons c cs)
    with 1 unescape_step [of m c cs r] show ?thesis by (auto simp: less_Suc_eq_le dest: le_trans)
  qed (use 1 in simp)
qed

lemma Split_length: "p \<in> set (Split c s) \<Longrightarrow> length p \<le> length s"
  by (induction c s arbitrary: p rule: Split.induct) (auto split: if_splits list.splits intro: le_SucI)

lemma scan_scheme_length: "scan_scheme acc s = Ok (Some (a, r)) \<Longrightarrow> length r < length s"
  by (induction acc s rule: scan_scheme.induct) (auto split: if_splits)

lemma url_parse_rest_query:
  "url_parse_rest scheme r0 = Ok u \<Longrightarrow> url_RawQuery u = [] \<or> length (url_RawQuery u) < length r0"
  using Cut_length [of r0 "''?''"]
  by (auto simp: url_parse_rest_def split_query_def Let_def bind_outcome_Ok_iff split: prod.splits if_splits)

lemma url_Parse_query:
  assumes "url_Parse s = Ok u"
  shows "url_RawQuery u = [] \<or> length (url_RawQuery u) < length s"
proof -
  obtain a fr b where cut: "Cut s ''#'' = (a, fr, b)" by (cases "Cut s ''#''")
  consider "url_RawQuery u = []" | scheme r0 where "getScheme a = Ok (scheme, r0)" "url_parse_rest (ToLower scheme) r0 = Ok u"
    using assms cut by (auto simp: url_Parse_def bind_outcome_Ok_iff empty_url_def split: if_splits)
  then show ?thesis
  proof cases
    case 2
    then have "length r0 \<le> length a"
      by (auto simp: getScheme_def bind_outcome_Ok_iff split: option.splits dest!: scan_scheme_length)
    with url_parse_rest_query [OF 2(2)] Cut_length [OF cut] show ?thesis by fastforce
  qed simp
qed

lemma query_part_length: "query_part p = Some (k, v) \<Longrightarrow> p \<noteq> [] \<and> length v \<le> length p"
  by (auto simp: query_part_def split: if_splits prod.splits outcome.splits dest!: unescape_length Cut_length)

lemma url_Query_shorter:
  assumes "url_Parse s = Ok u" and "(k, vs) \<in> set (url_Query u)" and "v \<in> set vs"
  shows "length v < length s"
proof -
  from assms(2,3) obtain p where "p \<in> set (Split CHR ''&'' (url_RawQuery u))" "query_part p = Some (k, v)"
    by (auto simp: url_Query_def Let_def List.map_filter_def)
  then have "length v \<le> length (url_RawQuery u)" "url_RawQuery u \<noteq> []"
    using query_part_length [of p k v] Split_length [of p] le_trans by (fastforce, force)
  with url_Parse_query [OF assms(1)] show ?thesis by auto
qed

end
