(* ===== verification/Config.thy ===== *)
theory Config
  imports Keys Go_Url
begin

text \<open>
  \<^verbatim>\<open>config.go\<close>: the data source name in its three forms (key-value pairs, a URL, a server address), the
  configuration it describes, its defaults and its validation, and the parsing of user and table
  names. Go's iteration order over the query of a URL is a parameter, \<open>dl_rank\<close>: every order of
  the distinct keys is the order of some ranking. Whether a time zone is known is a parameter too.
\<close>

section \<open>Runes\<close>

text \<open>
  A \<^verbatim>\<open>range\<close> loop over a string takes its UTF-8 sequences one by one; a byte that starts no valid
  sequence is taken as U+FFFD, which \<^verbatim>\<open>WriteRune\<close> writes with three bytes. A rune is represented by
  its UTF-8 sequence.
\<close>

definition code_in :: "char \<Rightarrow> nat \<Rightarrow> nat \<Rightarrow> bool" where
  "code_in c lo hi \<longleftrightarrow> lo \<le> code c \<and> code c \<le> hi"

definition rune_len :: "string \<Rightarrow> nat" where
  "rune_len s =
     (case s of
        [] \<Rightarrow> 0
      | a # bs \<Rightarrow>
          if code_in a 0 0x7f then 1
          else if code_in a 0xc2 0xdf then (case bs of b # _ \<Rightarrow> if code_in b 0x80 0xbf then 2 else 0 | _ \<Rightarrow> 0)
          else if code_in a 0xe0 0xef then
            (case bs of
               b # c # _ \<Rightarrow>
                 if code_in b (if code a = 0xe0 then 0xa0 else 0x80) (if code a = 0xed then 0x9f else 0xbf)
                    \<and> code_in c 0x80 0xbf then 3 else 0
             | _ \<Rightarrow> 0)
          else if code_in a 0xf0 0xf4 then
            (case bs of
               b # c # d # _ \<Rightarrow>
                 if code_in b (if code a = 0xf0 then 0x90 else 0x80) (if code a = 0xf4 then 0x8f else 0xbf)
                    \<and> code_in c 0x80 0xbf \<and> code_in d 0x80 0xbf then 4 else 0
             | _ \<Rightarrow> 0)
          else 0)"

definition RuneError :: string where
  "RuneError = map char_of [0xEF, 0xBF, 0xBD :: nat]"

function runes :: "string \<Rightarrow> string list" where
  "runes s =
     (if s = [] then []
      else if rune_len s = 0 then RuneError # runes (tl s)
      else take (rune_len s) s # runes (drop (rune_len s) s))"
  by pat_completeness auto
termination by (relation "measure length") auto

declare runes.simps [simp del]

section \<open>Configuration\<close>

datatype StatementCacheMode = StatementCacheOff | StatementCacheOn | StatementCacheAuto

datatype location = UTC | Local | FixedZone int | NamedZone string

abbreviation (input) defaultPort :: int where "defaultPort \<equiv> 5656"
abbreviation (input) defaultConfigFetchRows :: int where "defaultConfigFetchRows \<equiv> 1000"
abbreviation (input) defaultDatabase :: string where "defaultDatabase \<equiv> ''MACHBASEDB''"

record Config =
  cf_Host :: string
  cf_Port :: int
  cf_User :: string
  cf_Password :: string
  cf_Database :: string
  cf_ProxyUser :: string
  cf_AuthMode :: string
  cf_AuthKeyFile :: string
  cf_AuthKeyPEM :: string
  cf_AuthSigScheme :: string
  cf_AlternativeServers :: "string list"
  cf_FetchRows :: int
  cf_StatementCache :: StatementCacheMode
  cf_IOMetrics :: bool
  cf_TimeLocation :: "location option"
  cf_loginName :: string
  cf_key :: "PrivateKey option"

definition new_config :: Config where
  "new_config =
     \<lparr>cf_Host = [], cf_Port = 0, cf_User = [], cf_Password = [], cf_Database = [], cf_ProxyUser = [],
      cf_AuthMode = [], cf_AuthKeyFile = [], cf_AuthKeyPEM = [], cf_AuthSigScheme = [],
      cf_AlternativeServers = [], cf_FetchRows = 0, cf_StatementCache = StatementCacheAuto,
      cf_IOMetrics = False, cf_TimeLocation = None, cf_loginName = [], cf_key = None\<rparr>"

definition login_name :: "Config \<Rightarrow> string" where
  "login_name cfg =
     (if EqualFold (cf_User cfg) ''sys'' \<and> cf_ProxyUser cfg \<noteq> [] \<and> \<not> EqualFold (cf_ProxyUser cfg) ''sys''
      then ''SYS AS '' @ ToUpper (cf_ProxyUser cfg)
      else ToUpper (cf_User cfg))"

definition Config_normalize :: "Config \<Rightarrow> Config" where
  "Config_normalize cfg =
     (let cfg = (if cf_Port cfg = 0 then cfg\<lparr>cf_Port := defaultPort\<rparr> else cfg);
          cfg = (if cf_FetchRows cfg \<le> 0 then cfg\<lparr>cf_FetchRows := defaultConfigFetchRows\<rparr> else cfg);
          cfg = (if cf_AuthMode cfg = [] then cfg\<lparr>cf_AuthMode := ''PASSWORD''\<rparr> else cfg);
          cfg = (if cf_AuthKeyFile cfg \<noteq> [] \<or> cf_AuthKeyPEM cfg \<noteq> [] then cfg\<lparr>cf_AuthMode := ''CHALLENGE''\<rparr> else cfg);
          cfg = (if cf_TimeLocation cfg = None then cfg\<lparr>cf_TimeLocation := Some UTC\<rparr> else cfg);
          cfg = (if cf_Database cfg = [] then cfg\<lparr>cf_Database := defaultDatabase\<rparr> else cfg)
      in cfg\<lparr>cf_loginName := login_name cfg\<rparr>)"

definition load_config_key :: "key_lib \<Rightarrow> Config \<Rightarrow> PrivateKey outcome" where
  "load_config_key kl cfg =
     (if TrimSpace (cf_AuthKeyPEM cfg) \<noteq> [] then LoadPrivateKeyFromPEM kl (bytes_of_string (cf_AuthKeyPEM cfg))
      else LoadPrivateKeyFromFile kl (cf_AuthKeyFile cfg))"

definition Config_validate :: "key_lib \<Rightarrow> Config \<Rightarrow> Config outcome" where
  "Config_validate kl cfg =
     (if cf_Host cfg = [] then Err (PlainErr ''machbase dsn requires host or server'')
      else if cf_Port cfg \<le> 0 then Err (PlainErr ''machbase dsn has invalid port'')
      else if cf_User cfg = [] then Err (PlainErr ''machbase dsn requires user'')
      else
        let authMode = ToUpper (TrimSpace (cf_AuthMode cfg));
            noKey = (TrimSpace (cf_AuthKeyFile cfg) = [] \<and> TrimSpace (cf_AuthKeyPEM cfg) = [])
        in if cf_Password cfg = [] \<and> authMode = ''PASSWORD'' then Err (PlainErr ''machbase dsn requires password'')
           else if cf_Password cfg = [] \<and> authMode = [] \<and> noKey then Err (PlainErr ''machbase dsn requires password'')
           else if authMode = ''CHALLENGE'' \<and> noKey
           then Err (PlainErr ''machbase dsn requires auth_key_file or auth_key_pem for auth_mode=CHALLENGE'')
           else if EqualFold (cf_AuthMode cfg) ''CHALLENGE''
           then bind_outcome (load_config_key kl cfg) (\<lambda>key. Ok (cfg\<lparr>cf_key := Some key\<rparr>))
           else Ok cfg)"

section \<open>Quoting\<close>

abbreviation (input) backslash :: string where "backslash \<equiv> [CHR 0x5C]"
abbreviation (input) dquote :: string where "dquote \<equiv> [CHR 0x22]"
abbreviation (input) squote :: string where "squote \<equiv> [CHR 0x27]"

text \<open>The loop of \<^verbatim>\<open>splitDSNSegments\<close>; no quote is the empty string.\<close>

fun split_segments :: "string list \<Rightarrow> string list \<Rightarrow> string \<Rightarrow> string \<Rightarrow> bool \<Rightarrow> string list outcome" where
  "split_segments [] parts current quote escaped =
     (if quote \<noteq> [] then Err (PlainErr ''unterminated quoted value'')
      else if escaped then Err (PlainErr ''unterminated escape in quoted value'')
      else Ok (parts @ [current]))"
| "split_segments (ch # chs) parts current quote escaped =
     (if escaped then split_segments chs parts (current @ ch) quote False
      else if ch = backslash then split_segments chs parts (current @ ch) quote (quote \<noteq> [])
      else if ch = squote \<or> ch = dquote
      then split_segments chs parts (current @ ch)
             (if quote = [] then ch else if quote = ch then [] else quote) False
      else if ch = '';'' \<and> quote = [] then split_segments chs (parts @ [current]) [] quote False
      else split_segments chs parts (current @ ch) quote False)"

definition splitDSNSegments :: "string \<Rightarrow> string list outcome" where
  "splitDSNSegments dsn = split_segments (runes dsn) [] [] [] False"

fun unquote_runes :: "string \<Rightarrow> string list \<Rightarrow> string \<Rightarrow> bool \<Rightarrow> string outcome" where
  "unquote_runes quote [] out escaped =
     (if escaped then Err (PlainErr ''unterminated escape sequence'') else Ok out)"
| "unquote_runes quote (ch # chs) out escaped =
     (if escaped
      then unquote_runes quote chs (if ch = quote \<or> ch = backslash then out @ ch else out @ backslash @ ch) False
      else if ch = backslash then unquote_runes quote chs out True
      else unquote_runes quote chs (out @ ch) False)"

definition unquoteDSNValue :: "string \<Rightarrow> string outcome" where
  "unquoteDSNValue value =
     (if length value < 2 then Ok value
      else if [hd value] = dquote \<and> [last value] = dquote \<or> [hd value] = squote \<and> [last value] = squote
      then unquote_runes [hd value] (runes (butlast (tl value))) [] False
      else if [hd value] = dquote \<or> [hd value] = squote \<or> [last value] = dquote \<or> [last value] = squote
      then Err (PlainErr ''mismatched quotes'')
      else Ok value)"

section \<open>Options\<close>

definition parseStatementCacheMode :: "string \<Rightarrow> StatementCacheMode outcome" where
  "parseStatementCacheMode value =
     switch (ToLower (TrimSpace value))
       [([[], ''auto''], Ok StatementCacheAuto),
        ([''on'', ''true'', ''1''], Ok StatementCacheOn),
        ([''off'', ''false'', ''0''], Ok StatementCacheOff)]
       (Err (PlainErr ''invalid statement_cache''))"

text \<open>\<^verbatim>\<open>strconv.ParseBool\<close>.\<close>

definition ParseBool :: "string \<Rightarrow> bool outcome" where
  "ParseBool s =
     switch s
       [([''1'', ''t'', ''T'', ''true'', ''TRUE'', ''True''], Ok True),
        ([''0'', ''f'', ''F'', ''false'', ''FALSE'', ''False''], Ok False)]
       syntax_error"

definition or_error :: "string \<Rightarrow> 'a outcome \<Rightarrow> 'a outcome" where
  "or_error msg r = (case r of Ok x \<Rightarrow> Ok x | Err e \<Rightarrow> Err (PlainErr msg) | Panic p \<Rightarrow> Panic p)"

definition offsetToSeconds :: "string \<Rightarrow> int outcome" where
  "offsetToSeconds offset =
     or_error ''invalid offset''
       (if length offset < 3 then syntax_error
        else if hd offset \<noteq> CHR ''+'' \<and> hd offset \<noteq> CHR ''-'' then syntax_error
        else
          let sign = (if hd offset = CHR ''-'' then -1 else 1)
          in bind_outcome (ParseInt (subslice offset 1 3)) (\<lambda>hours.
             bind_outcome
               (if length offset \<ge> 6 \<and> offset ! 3 = CHR '':'' then ParseInt (subslice offset 4 6)
                else if length offset \<ge> 5 \<and> offset ! 2 \<noteq> CHR '':'' then ParseInt (subslice offset 3 5)
                else Ok 0) (\<lambda>minutes.
             Ok (sign * (hours * 3600 + minutes * 60)))))"

text \<open>
  \<^verbatim>\<open>usernameProxyPattern\<close>: two words around the word "as". White space of a regular expression is
  ASCII, and the letter s folds to U+017F as well.
\<close>

definition re_space :: "char \<Rightarrow> bool" where
  "re_space c \<longleftrightarrow> code c \<in> {9, 10, 12, 13, 32}"

fun re_words :: "string \<Rightarrow> string list" where
  "re_words [] = []"
| "re_words (c # cs) =
     (if re_space c then re_words cs
      else if cs = [] \<or> re_space (hd cs) then [c] # re_words cs
      else (case re_words cs of [] \<Rightarrow> [[c]] | w # ws \<Rightarrow> (c # w) # ws))"

definition as_word :: "string \<Rightarrow> bool" where
  "as_word w \<longleftrightarrow> w \<noteq> [] \<and> hd w \<in> set ''aA'' \<and> tl w \<in> set [''s'', ''S'', map char_of [0xC5, 0xBF :: nat]]"

definition parseUserName :: "string \<Rightarrow> string \<times> string \<times> bool" where
  "parseUserName loginName =
     (case re_words loginName of
        [login, a, proxy] \<Rightarrow>
          if as_word a then
            if EqualFold login ''sys'' then
              if EqualFold proxy ''sys'' then (login, [], False) else (login, proxy, True)
            else (login, proxy, False)
          else (loginName, [], False)
      | _ \<Rightarrow> (loginName, [], False))"

fun add_servers :: "string list \<Rightarrow> Config \<Rightarrow> Config outcome" where
  "add_servers [] cfg = Ok cfg"
| "add_servers (e # es) cfg =
     (let entry = TrimSpace e
      in if entry = [] then add_servers es cfg
         else
           bind_outcome (or_error ''invalid alternative server'' (SplitHostPort entry)) (\<lambda>(_, port).
           bind_outcome (or_error ''invalid alternative server port'' (ParseInt port)) (\<lambda>parsedPort.
           if parsedPort \<le> 0 then Err (PlainErr ''invalid alternative server port'')
           else add_servers es (cfg\<lparr>cf_AlternativeServers := cf_AlternativeServers cfg @ [entry]\<rparr>))))"

definition applyAlternativeServers :: "Config \<Rightarrow> string \<Rightarrow> Config outcome" where
  "applyAlternativeServers cfg value = add_servers (Split CHR '','' value) cfg"

record dsn_lib =
  dl_zone :: "string \<Rightarrow> bool"
  dl_rank :: "string \<Rightarrow> nat"

text \<open>\<^verbatim>\<open>time.LoadLocation\<close>; which other names are known is a parameter.\<close>

definition LoadLocation :: "dsn_lib \<Rightarrow> string \<Rightarrow> location outcome" where
  "LoadLocation lib name =
     (if name = [] \<or> name = ''UTC'' then Ok UTC
      else if name = ''Local'' then Ok Local
      else if dl_zone lib name then Ok (NamedZone name)
      else Err (PlainErr ''unknown time zone''))"

definition parse_zone :: "dsn_lib \<Rightarrow> string \<Rightarrow> location outcome" where
  "parse_zone lib value =
     (if HasPrefix value ''+'' \<or> HasPrefix value ''-''
      then bind_outcome (or_error ''invalid timezone offset'' (offsetToSeconds value)) (\<lambda>n. Ok (FixedZone n))
      else if EqualFold value ''local'' then Ok Local
      else or_error ''invalid timezone'' (LoadLocation lib value))"

definition set_user :: "string \<Rightarrow> Config \<Rightarrow> Config" where
  "set_user value cfg =
     (case parseUserName value of (username, proxyname, proxied) \<Rightarrow>
        let cfg = cfg\<lparr>cf_User := username\<rparr>
        in if proxied \<and> proxyname \<noteq> [] then cfg\<lparr>cf_ProxyUser := proxyname\<rparr> else cfg)"

text \<open>
  \<^verbatim>\<open>applyDSNOption\<close>, with the handler of server values as an argument: the two functions call each
  other. \<open>None\<close> stands for a key that is not known.
\<close>

definition dsn_option :: "(Config \<Rightarrow> string \<Rightarrow> Config outcome) \<Rightarrow> dsn_lib \<Rightarrow> Config \<Rightarrow> string \<Rightarrow> string \<Rightarrow> Config option outcome" where
  "dsn_option srv lib cfg key value =
     (let fin = (\<lambda>r. bind_outcome r (\<lambda>c. Ok (Some c)))
      in if key = ''server'' then fin (srv cfg value)
         else if key = ''host'' then Ok (Some (cfg\<lparr>cf_Host := value\<rparr>))
         else if key = ''port''
         then fin (bind_outcome (or_error ''invalid port'' (ParseInt value)) (\<lambda>port. Ok (cfg\<lparr>cf_Port := port\<rparr>)))
         else if key \<in> set [''user'', ''uid''] then Ok (Some (set_user value cfg))
         else if key \<in> set [''password'', ''pwd''] then Ok (Some (cfg\<lparr>cf_Password := value\<rparr>))
         else if key \<in> set [''database'', ''db''] then Ok (Some (cfg\<lparr>cf_Database := value\<rparr>))
         else if key \<in> set [''timezone'', ''tz'']
         then fin (bind_outcome (parse_zone lib value) (\<lambda>z. Ok (cfg\<lparr>cf_TimeLocation := Some z\<rparr>)))
         else if key = ''auth_mode'' then Ok (Some (cfg\<lparr>cf_AuthMode := value\<rparr>))
         else if key = ''auth_key_file'' then Ok (Some (cfg\<lparr>cf_AuthKeyFile := value\<rparr>))
         else if key = ''auth_key_pem'' then Ok (Some (cfg\<lparr>cf_AuthKeyPEM := value\<rparr>))
         else if key = ''auth_sig_scheme'' then Ok (Some (cfg\<lparr>cf_AuthSigScheme := value\<rparr>))
         else if key \<in> set [''fetch_rows'', ''fetchrows'']
         then fin (bind_outcome (or_error ''invalid fetch_rows'' (ParseInt value)) (\<lambda>n. Ok (cfg\<lparr>cf_FetchRows := n\<rparr>)))
         else if key \<in> set [''statement_cache'', ''statementcache'']
         then fin (bind_outcome (parseStatementCacheMode value) (\<lambda>m. Ok (cfg\<lparr>cf_StatementCache := m\<rparr>)))
         else if key \<in> set [''io_metrics'', ''iometrics'']
         then fin (bind_outcome (or_error ''invalid io_metrics'' (ParseBool value)) (\<lambda>b. Ok (cfg\<lparr>cf_IOMetrics := b\<rparr>)))
         else if key = ''alternative_servers'' then fin (applyAlternativeServers cfg value)
         else Ok None)"

text \<open>The loop over the query of a URL: unknown keys are passed over.\<close>

fun query_options :: "(Config \<Rightarrow> string \<Rightarrow> Config outcome) \<Rightarrow> dsn_lib \<Rightarrow> (string \<times> string list) list \<Rightarrow> Config \<Rightarrow> Config outcome" where
  "query_options srv lib [] cfg = Ok cfg"
| "query_options srv lib ((k, values) # qs) cfg =
     (let key = ToLower k
      in case values of
           [] \<Rightarrow> query_options srv lib qs cfg
         | v # _ \<Rightarrow>
             if key = ''as'' then query_options srv lib qs (cfg\<lparr>cf_ProxyUser := v\<rparr>)
             else
               bind_outcome (dsn_option srv lib cfg key v) (\<lambda>r.
               query_options srv lib qs (case r of Some c \<Rightarrow> c | None \<Rightarrow> cfg)))"

lemma dsn_option_cong [fundef_cong]:
  assumes "lib = lib'" "cfg = cfg'" "key = key'" "v = v'" "srv cfg' v' = srv' cfg' v'"
  shows "dsn_option srv lib cfg key v = dsn_option srv' lib' cfg' key' v'"
  using assms by (simp add: dsn_option_def)

lemma query_options_cong [fundef_cong]:
  assumes "lib = lib'" "qs = qs'" "cfg = cfg'"
    and "\<And>c k v vs. (k, v # vs) \<in> set qs' \<Longrightarrow> srv c v = srv' c v"
  shows "query_options srv lib qs cfg = query_options srv' lib' qs' cfg'"
proof -
  have "query_options srv lib qs' c = query_options srv' lib qs' c" for c
    using assms(4)
  proof (induction qs' arbitrary: c)
    case (Cons q qs)
    have IH: "query_options srv lib qs c = query_options srv' lib qs c" for c
      using Cons.IH Cons.prems by (meson list.set_intros(2))
    have "srv c v = srv' c v" if "snd q = v # vs" for c v vs
      using Cons.prems [of "fst q" v vs c] that by (metis list.set_intros(1) prod.collapse)
    then have "dsn_option srv lib c k v = dsn_option srv' lib c k v" if "snd q = v # vs" for c k v vs
      using that by (intro dsn_option_cong) auto
    then show ?case by (cases q; cases "snd q") (simp_all add: IH Let_def)
  qed simp
  with assms show ?thesis by simp
qed

section \<open>Servers\<close>

definition url_host_options :: "URL \<Rightarrow> Config \<Rightarrow> Config outcome" where
  "url_host_options u cfg =
     (let cfg = cfg\<lparr>cf_Host := url_Hostname u\<rparr>
      in bind_outcome
           (if url_Port u \<noteq> []
            then bind_outcome (or_error ''invalid server port'' (ParseInt (url_Port u))) (\<lambda>p. Ok (cfg\<lparr>cf_Port := p\<rparr>))
            else Ok cfg) (\<lambda>cfg.
         let cfg = (case url_User u of
                      None \<Rightarrow> cfg
                    | Some (user, pass) \<Rightarrow>
                        let cfg = (if user \<noteq> [] then cfg\<lparr>cf_User := user\<rparr> else cfg)
                        in (case pass of Some p \<Rightarrow> cfg\<lparr>cf_Password := p\<rparr> | None \<Rightarrow> cfg))
         in Ok (if url_Path u \<noteq> [] \<and> url_Path u \<noteq> ''/''
                then cfg\<lparr>cf_Database := (if HasPrefix (url_Path u) ''/'' then tl (url_Path u) else url_Path u)\<rparr>
                else cfg)))"

definition host_port_server :: "Config \<Rightarrow> string \<Rightarrow> Config outcome" where
  "host_port_server cfg value =
     (case SplitHostPort value of
        Ok (host, port) \<Rightarrow>
          bind_outcome (or_error ''invalid server port'' (ParseInt port)) (\<lambda>parsedPort.
          Ok (cfg\<lparr>cf_Host := host, cf_Port := parsedPort\<rparr>))
      | Err (PlainErr m) \<Rightarrow>
          if Contains m ''missing port in address'' then Ok (cfg\<lparr>cf_Host := value\<rparr>)
          else Err (PlainErr ''invalid server'')
      | _ \<Rightarrow> Err (PlainErr ''invalid server''))"

function applyServerValue :: "dsn_lib \<Rightarrow> Config \<Rightarrow> string \<Rightarrow> Config outcome" where
  "applyServerValue lib cfg v0 =
     (let value = TrimSpace v0
      in if value = [] then Err (PlainErr ''server value is empty'')
         else if Contains value ''://'' then
           (case url_Parse value of
              Ok u \<Rightarrow>
                if url_Host u = [] then Err (PlainErr ''invalid server'')
                else
                  bind_outcome (url_host_options u cfg) (\<lambda>cfg.
                  query_options (applyServerValue lib) lib (sort_key (dl_rank lib \<circ> fst) (url_Query u)) cfg)
            | _ \<Rightarrow> Err (PlainErr ''invalid server''))
         else host_port_server cfg value)"
  by pat_completeness auto
termination
proof (relation "measure (\<lambda>(lib, cfg, v). length v)", goal_cases)
  case (2 lib cfg v0 t u x c k v vs)
  then have "length v < length t" using url_Query_shorter [of t u k "v # vs" v] by simp
  with 2(1) length_TrimSpace [of v0] show ?case by simp
qed simp

declare applyServerValue.simps [simp del]

definition applyDSNOption :: "dsn_lib \<Rightarrow> Config \<Rightarrow> string \<Rightarrow> string \<Rightarrow> Config option outcome" where
  "applyDSNOption lib = dsn_option (applyServerValue lib) lib"

section \<open>Data source names\<close>

fun apply_parts :: "dsn_lib \<Rightarrow> string list \<Rightarrow> Config \<Rightarrow> Config outcome" where
  "apply_parts lib [] cfg = Ok cfg"
| "apply_parts lib (p # ps) cfg =
     (let part = TrimSpace p
      in if part = [] then apply_parts lib ps cfg
         else
           (case Cut part ''='' of (k, v, ok) \<Rightarrow>
              if \<not> ok then Err (PlainErr ''invalid dsn segment'')
              else
                let key = ToLower (TrimSpace k)
                in bind_outcome (or_error ''invalid value'' (unquoteDSNValue (TrimSpace v))) (\<lambda>value.
                   bind_outcome (applyDSNOption lib cfg key value) (\<lambda>r.
                   case r of
                     None \<Rightarrow> Err (PlainErr ''unsupported dsn key'')
                   | Some cfg \<Rightarrow> apply_parts lib ps cfg))))"

definition parseKeyValueDSN :: "dsn_lib \<Rightarrow> string \<Rightarrow> Config outcome" where
  "parseKeyValueDSN lib dsn =
     bind_outcome (splitDSNSegments dsn) (\<lambda>parts.
     bind_outcome (apply_parts lib parts new_config) (\<lambda>cfg. Ok (Config_normalize cfg)))"

definition url_form :: "string \<Rightarrow> bool" where
  "url_form dsn \<longleftrightarrow>
     (case (Index dsn ''://'', IndexByte dsn CHR ''='') of
        (Some scheme, Some separator) \<Rightarrow> separator > scheme
      | (Some scheme, None) \<Rightarrow> True
      | (None, _) \<Rightarrow> False)"

definition ParseDSN :: "dsn_lib \<Rightarrow> string \<Rightarrow> Config outcome" where
  "ParseDSN lib d =
     (let dsn = TrimSpace d
      in if dsn = [] then Ok new_config
         else if \<not> url_form dsn \<and> Contains dsn ''='' then parseKeyValueDSN lib dsn
         else bind_outcome (applyServerValue lib new_config dsn) (\<lambda>cfg. Ok (Config_normalize cfg)))"

section \<open>Table names\<close>

definition parseTableName :: "string \<Rightarrow> string \<Rightarrow> string \<Rightarrow> string \<times> string \<times> string" where
  "parseTableName rawTableName dbName userName =
     (let tableName = ToUpper rawTableName;
          parts = Split CHR ''.'' tableName
      in case parts of
           [u, t] \<Rightarrow> (dbName, u, t)
         | d # u # t # ts \<Rightarrow> (d, u, Join (t # ts) ''.'')
         | _ \<Rightarrow> (dbName, userName, tableName))"

end
