(* ===== verification/Dsn.thy ===== *)
theory Dsn
  imports Config
begin

text \<open>
  Properties of the data source name: quoting is inverted by the parser for every value, a parsed
  configuration is complete, and a validated one has what its authentication mode needs.
\<close>

section \<open>Runes\<close>

definition rune :: "string \<Rightarrow> bool" where
  "rune r \<longleftrightarrow> r \<noteq> [] \<and> rune_len r = length r"

lemma rune_len_append: "rune r \<Longrightarrow> rune_len (r @ t) = length r"
  by (cases r; cases "tl r"; cases "tl (tl r)"; cases "tl (tl (tl r))")
    (auto simp: rune_def rune_len_def split: if_splits)

lemma runes_concat: "list_all rune rs \<Longrightarrow> runes (concat rs) = rs"
proof (induction rs)
  case (Cons r rs)
  then have "rune r" "rune_len (r @ concat rs) = length r" by (simp_all add: rune_len_append)
  with Cons show ?case by (subst runes.simps) (auto simp: rune_def)
qed (simp add: runes.simps)

lemma rune_len_take: "0 < rune_len s \<Longrightarrow> rune (take (rune_len s) s)"
  by (cases s; cases "tl s"; cases "tl (tl s)"; cases "tl (tl (tl s))")
    (auto simp: rune_def rune_len_def split: if_splits)

lemma rune_ascii: "code c < 128 \<Longrightarrow> rune [c]"
  by (simp add: rune_def rune_len_def code_in_def)

lemma runes_rune: "list_all rune (runes s)"
proof (induction s rule: runes.induct)
  case (1 s)
  have "rune RuneError" by (simp add: rune_def RuneError_def rune_len_def code_in_def)
  with 1 show ?case by (subst runes.simps) (auto intro: rune_len_take)
qed

section \<open>Rendering options\<close>

text \<open>A text whose \<^verbatim>\<open>range\<close> loop gives it back, that is a valid UTF-8 text.\<close>

definition utf8_text :: "string \<Rightarrow> bool" where
  "utf8_text s \<longleftrightarrow> concat (runes s) = s"

definition special :: "string \<Rightarrow> bool" where
  "special r \<longleftrightarrow> r = dquote \<or> r = backslash"

definition escape_runes :: "string list \<Rightarrow> string list" where
  "escape_runes rs = concat (map (\<lambda>r. if special r then [backslash, r] else [r]) rs)"

definition dsn_quote :: "string \<Rightarrow> string" where
  "dsn_quote v = dquote @ concat (escape_runes (runes v)) @ dquote"

definition dsn_segment :: "string \<times> string \<Rightarrow> string" where
  "dsn_segment kv = fst kv @ ''='' @ dsn_quote (snd kv)"

definition dsn_render :: "(string \<times> string) list \<Rightarrow> string" where
  "dsn_render kvs = Join (map dsn_segment kvs) '';''"

definition dsn_key :: "string \<Rightarrow> bool" where
  "dsn_key k \<longleftrightarrow> k \<noteq> [] \<and> list_all (\<lambda>c. 97 \<le> code c \<and> code c \<le> 122 \<or> c = CHR ''_'') k"

fun set_options :: "dsn_lib \<Rightarrow> (string \<times> string) list \<Rightarrow> Config \<Rightarrow> Config outcome" where
  "set_options lib [] cfg = Ok cfg"
| "set_options lib ((k, v) # kvs) cfg =
     bind_outcome (applyDSNOption lib cfg k v) (\<lambda>r.
     case r of None \<Rightarrow> Err (PlainErr ''unsupported dsn key'') | Some cfg \<Rightarrow> set_options lib kvs cfg)"

section \<open>Splitting and unquoting\<close>

lemma code_eq: "code c = code d \<longleftrightarrow> c = d"
  by (simp add: code_def)

lemma dsn_key_char:
  assumes "dsn_key k" and "c \<in> set k"
  shows "graphic c \<and> code c < 128 \<and> c \<notin> set '';=:'' \<and> lower_char c = c \<and> code c \<noteq> 0x5C \<and> code c \<noteq> 0x22 \<and> code c \<noteq> 0x27"
proof -
  have "code CHR ''_'' = 95" by (simp add: code_def)
  moreover from assms have "97 \<le> code c \<and> code c \<le> 122 \<or> c = CHR ''_''" by (simp add: dsn_key_def list_all_iff)
  ultimately have c: "97 \<le> code c \<and> code c \<le> 122 \<or> code c = 95" by metis
  have "code CHR '';'' = 59" "code CHR ''='' = 61" "code CHR '':'' = 58" by (simp_all add: code_def)
  with c have "c \<noteq> CHR '';''" "c \<noteq> CHR ''=''" "c \<noteq> CHR '':''" by auto
  then have "c \<notin> set '';=:''" by simp
  moreover from c have "lower_char c = c" by auto
  ultimately show ?thesis using c by (simp add: graphic_def) linarith
qed

lemma escape_rune: "list_all rune (escape_runes (runes v))"
proof -
  have "rune backslash" by (simp add: rune_def rune_len_def code_in_def code_def)
  moreover have "rune r" if "r \<in> set (runes v)" for r using runes_rune [of v] that by (simp add: list_all_iff)
  ultimately show ?thesis by (auto simp: escape_runes_def list_all_iff)
qed

definition segment_runes :: "string \<times> string \<Rightarrow> string list" where
  "segment_runes kv = map (\<lambda>c. [c]) (fst kv @ ''='') @ [dquote] @ escape_runes (runes (snd kv)) @ [dquote]"

lemma concat_segment_runes [simp]: "concat (segment_runes kv) = dsn_segment kv"
  by (simp add: segment_runes_def dsn_segment_def dsn_quote_def)

lemma segment_runes_rune: "dsn_key (fst kv) \<Longrightarrow> list_all rune (segment_runes kv)"
proof -
  assume k: "dsn_key (fst kv)"
  have "rune dquote" "rune ''=''" by (simp_all add: rune_def rune_len_def code_in_def code_def)
  moreover have "rune [c]" if "c \<in> set (fst kv)" for c using dsn_key_char [OF k that] by (simp add: rune_ascii)
  ultimately show ?thesis by (auto simp: segment_runes_def list_all_iff escape_rune [unfolded list_all_iff])
qed

lemma split_plain:
  "list_all (\<lambda>c. code c \<noteq> 0x5C \<and> code c \<noteq> 0x22 \<and> code c \<noteq> 0x27 \<and> c \<noteq> CHR '';'') k
   \<Longrightarrow> split_segments (map (\<lambda>c. [c]) k @ chs) parts current [] False = split_segments chs parts (current @ k) [] False"
  by (induction k arbitrary: current) (auto simp: code_def)

lemma split_quoted:
  "split_segments (escape_runes rs @ dquote # chs) parts current dquote False
   = split_segments chs parts (current @ concat (escape_runes rs) @ dquote) [] False"
  by (induction rs arbitrary: current) (auto simp: escape_runes_def special_def)

lemma split_segment:
  assumes "dsn_key (fst kv)"
  shows "split_segments (segment_runes kv @ chs) parts [] [] False = split_segments chs parts (dsn_segment kv) [] False"
proof -
  have "list_all (\<lambda>c. code c \<noteq> 0x5C \<and> code c \<noteq> 0x22 \<and> code c \<noteq> 0x27 \<and> c \<noteq> CHR '';'') (fst kv @ ''='')"
    using dsn_key_char [OF assms] by (auto simp: list_all_iff code_def)
  from split_plain [OF this, of "dquote # escape_runes (runes (snd kv)) @ dquote # chs" parts "[]"]
  show ?thesis by (simp add: segment_runes_def split_quoted [simplified] dsn_segment_def dsn_quote_def)
qed

fun join_runes :: "(string \<times> string) list \<Rightarrow> string list" where
  "join_runes [] = []"
| "join_runes [kv] = segment_runes kv"
| "join_runes (kv # kv' # kvs) = segment_runes kv @ ['';''] @ join_runes (kv' # kvs)"

lemma concat_join_runes [simp]: "concat (join_runes kvs) = dsn_render kvs"
  by (induction kvs rule: join_runes.induct) (simp_all add: dsn_render_def)

lemma join_runes_rune: "list_all (\<lambda>kv. dsn_key (fst kv)) kvs \<Longrightarrow> list_all rune (join_runes kvs)"
  by (induction kvs rule: join_runes.induct) (auto simp: segment_runes_rune rune_def rune_len_def code_in_def code_def)

lemma split_join:
  "list_all (\<lambda>kv. dsn_key (fst kv)) kvs \<Longrightarrow> kvs \<noteq> []
   \<Longrightarrow> split_segments (join_runes kvs) parts [] [] False = Ok (parts @ map dsn_segment kvs)"
  by (induction kvs arbitrary: parts rule: join_runes.induct)
    (simp_all add: split_segment split_segment [where chs = "[]", simplified])

lemma split_render:
  assumes "list_all (\<lambda>kv. dsn_key (fst kv)) kvs" and "kvs \<noteq> []"
  shows "splitDSNSegments (dsn_render kvs) = Ok (map dsn_segment kvs)"
  using runes_concat [OF join_runes_rune [OF assms(1)]] split_join [OF assms] by (simp add: splitDSNSegments_def)

lemma unquote_escaped:
  "unquote_runes dquote (escape_runes rs) out False = Ok (out @ concat rs)"
  by (induction rs arbitrary: out) (auto simp: escape_runes_def special_def)

lemma unquote_quote: "utf8_text v \<Longrightarrow> unquoteDSNValue (dsn_quote v) = Ok v"
  using unquote_escaped [of "runes v" "[]"] runes_concat [OF escape_rune [of v]]
  by (simp add: unquoteDSNValue_def dsn_quote_def utf8_text_def butlast_append)

section \<open>Options of a rendered name\<close>

lemma Index_byte: "c \<notin> set k \<Longrightarrow> Index (k @ c # r) [c] = Some (length k)"
  by (induction k) (auto simp: Index.simps HasPrefix_def)

lemma Cut_key: "dsn_key k \<Longrightarrow> Cut (k @ ''='' @ r) ''='' = (k, r, True)"
proof -
  assume "dsn_key k"
  then have "Index (k @ CHR ''='' # r) ''='' = Some (length k)"
    using dsn_key_char [of k "CHR ''=''"] by (intro Index_byte) auto
  then show ?thesis by (simp add: Cut_def)
qed

lemma dsn_key_ends: "dsn_key k \<Longrightarrow> graphic (hd k) \<and> graphic (last k)"
  using dsn_key_char [of k] by (simp add: dsn_key_def)

lemma key_fixed: "dsn_key k \<Longrightarrow> ToLower (TrimSpace k) = k"
  using dsn_key_char [of k] dsn_key_ends [of k] TrimSpace_graphic [of k]
  by (simp add: ToLower_def dsn_key_def map_idI)

lemma dquote_graphic: "graphic CHR 0x22"
  by (simp add: graphic_def code_def)

lemma quote_fixed: "TrimSpace (dsn_quote v) = dsn_quote v"
  by (rule TrimSpace_graphic) (simp_all add: dsn_quote_def dquote_graphic)

lemma segment_fixed: "dsn_key (fst kv) \<Longrightarrow> TrimSpace (dsn_segment kv) = dsn_segment kv"
  using dsn_key_ends [of "fst kv"]
  by (intro TrimSpace_graphic) (simp_all add: dsn_segment_def dsn_quote_def dquote_graphic dsn_key_def)

lemma apply_segments:
  "list_all (\<lambda>kv. dsn_key (fst kv) \<and> utf8_text (snd kv)) kvs
   \<Longrightarrow> apply_parts lib (map dsn_segment kvs) cfg = set_options lib kvs cfg"
proof (induction kvs arbitrary: cfg)
  case (Cons kv kvs)
  obtain k v where kv: "kv = (k, v)" by (cases kv)
  with Cons.prems have "dsn_key k" "utf8_text v" by simp_all
  then have "TrimSpace (dsn_segment kv) = dsn_segment kv" "dsn_segment kv \<noteq> []"
    "Cut (dsn_segment kv) ''='' = (k, dsn_quote v, True)"
    using segment_fixed [of kv] Cut_key [of k] by (simp_all add: kv dsn_segment_def)
  moreover have "apply_parts lib (map dsn_segment kvs) = set_options lib kvs" using Cons by (intro ext) simp
  ultimately show ?case
    using key_fixed [OF \<open>dsn_key k\<close>] unquote_quote [OF \<open>utf8_text v\<close>]
    by (simp add: kv quote_fixed or_error_def)
qed simp

lemma render_ends:
  "kvs \<noteq> [] \<Longrightarrow> (\<exists>r. dsn_render kvs = fst (hd kvs) @ ''='' @ r) \<and> last (dsn_render kvs) = CHR 0x22 \<and> dsn_render kvs \<noteq> []"
  by (induction kvs rule: join_runes.induct) (auto simp: dsn_render_def dsn_segment_def dsn_quote_def)

lemma render_not_url:
  assumes "dsn_key k"
  shows "\<not> url_form (k @ ''='' @ r)" "Contains (k @ ''='' @ r) ''=''"
proof -
  have sep: "Index (k @ ''='' @ r) ''='' = Some (length k)"
    using dsn_key_char [OF assms, of "CHR ''=''"] Index_byte [of "CHR ''=''" k r] by auto
  then show "Contains (k @ ''='' @ r) ''=''" by (simp add: Contains_def)
  have "i > length k" if "Index (k @ ''='' @ r) ''://'' = Some i" for i
  proof (rule ccontr)
    assume i: "\<not> i > length k"
    from Index_Some [OF that] have "take (length ''://'') (drop i (k @ ''='' @ r)) = ''://''"
      unfolding HasPrefix_def by blast
    then have "hd (drop i (k @ ''='' @ r)) = CHR '':''" by (metis hd_take length_greater_0_conv list.discI list.sel(1))
    with i have "(k @ ''='') ! i = CHR '':''" by (auto simp: hd_drop_conv_nth nth_append split: if_splits)
    with i have "CHR '':'' \<in> set k" by (cases "i = length k") (auto simp: nth_append dest: nth_mem [of i k, OF le_neq_implies_less] simp: not_less)
    with dsn_key_char [OF assms, of "CHR '':''"] show False by simp
  qed
  with sep show "\<not> url_form (k @ ''='' @ r)" by (fastforce simp: url_form_def IndexByte_def split: option.splits)
qed

section \<open>Defaults\<close>

lemma set_default:
  "(if b then c\<lparr>cf_Port := p\<rparr> else c) = c\<lparr>cf_Port := if b then p else cf_Port c\<rparr>"
  "(if b then c\<lparr>cf_FetchRows := p\<rparr> else c) = c\<lparr>cf_FetchRows := if b then p else cf_FetchRows c\<rparr>"
  "(if b then c\<lparr>cf_AuthMode := s\<rparr> else c) = c\<lparr>cf_AuthMode := if b then s else cf_AuthMode c\<rparr>"
  "(if b then c\<lparr>cf_TimeLocation := z\<rparr> else c) = c\<lparr>cf_TimeLocation := if b then z else cf_TimeLocation c\<rparr>"
  "(if b then c\<lparr>cf_Database := s\<rparr> else c) = c\<lparr>cf_Database := if b then s else cf_Database c\<rparr>"
  by simp_all

lemma login_name_update [simp]:
  "login_name (c\<lparr>cf_Port := p\<rparr>) = login_name c" "login_name (c\<lparr>cf_FetchRows := p\<rparr>) = login_name c"
  "login_name (c\<lparr>cf_AuthMode := s\<rparr>) = login_name c" "login_name (c\<lparr>cf_TimeLocation := z\<rparr>) = login_name c"
  "login_name (c\<lparr>cf_Database := s\<rparr>) = login_name c" "login_name (c\<lparr>cf_loginName := s\<rparr>) = login_name c"
  by (simp_all add: login_name_def)

lemma normalize_eq:
  "Config_normalize c =
     c\<lparr>cf_Port := if cf_Port c = 0 then 5656 else cf_Port c,
       cf_FetchRows := if cf_FetchRows c \<le> 0 then 1000 else cf_FetchRows c,
       cf_AuthMode := if cf_AuthKeyFile c \<noteq> [] \<or> cf_AuthKeyPEM c \<noteq> [] then ''CHALLENGE''
         else if cf_AuthMode c = [] then ''PASSWORD'' else cf_AuthMode c,
       cf_TimeLocation := if cf_TimeLocation c = None then Some UTC else cf_TimeLocation c,
       cf_Database := if cf_Database c = [] then ''MACHBASEDB'' else cf_Database c,
       cf_loginName := login_name c\<rparr>"
  by (simp only: Config_normalize_def Let_def set_default login_name_update) simp

lemma normalize_idem: "Config_normalize (Config_normalize c) = Config_normalize c"
  by (simp add: normalize_eq)

lemma upper_lower: "upper_char (lower_char c) = upper_char c"
  by (auto simp: code_def)

lemma EqualFold_upper: "EqualFold s t \<Longrightarrow> ToUpper s = ToUpper t"
proof -
  have "ToUpper x = ToUpper (ToLower x)" for x
    by (simp add: ToUpper_def ToLower_def upper_lower del: upper_char.simps lower_char.simps)
  then show "EqualFold s t \<Longrightarrow> ToUpper s = ToUpper t" by (metis EqualFold_def)
qed

section \<open>Theorems\<close>

text \<open>
  C18. A data source name that is written as quoted key-value pairs is read back: for all keys of letters
  and underscores and all values that are valid UTF-8 texts, with any quotes, backslashes, semicolons
  and spaces in them, \<^verbatim>\<open>ParseDSN\<close> applies exactly those options in order, with those values, and then the defaults.
\<close>

theorem dsn_roundtrip:
  assumes "list_all (\<lambda>kv. dsn_key (fst kv) \<and> utf8_text (snd kv)) kvs" and "kvs \<noteq> []"
  shows "ParseDSN lib (dsn_render kvs) =
    bind_outcome (set_options lib kvs new_config) (\<lambda>cfg. Ok (Config_normalize cfg))"
proof -
  have keys: "list_all (\<lambda>kv. dsn_key (fst kv)) kvs" and k: "dsn_key (fst (hd kvs))"
    using assms by (auto simp: list_all_iff)
  obtain r where r: "dsn_render kvs = fst (hd kvs) @ ''='' @ r" and l: "last (dsn_render kvs) = CHR 0x22" "dsn_render kvs \<noteq> []"
    using render_ends [OF assms(2)] by blast
  have "hd (dsn_render kvs) = hd (fst (hd kvs))" using k by (simp add: r dsn_key_def)
  then have "TrimSpace (dsn_render kvs) = dsn_render kvs"
    using dsn_key_ends [OF k] l by (intro TrimSpace_graphic) (simp_all add: dquote_graphic)
  moreover have "\<not> url_form (dsn_render kvs)" "Contains (dsn_render kvs) ''=''"
    using render_not_url [OF k] by (simp_all add: r)
  ultimately show ?thesis
    using split_render [OF keys assms(2)] apply_segments [OF assms(1)] l
    by (simp add: ParseDSN_def Let_def parseKeyValueDSN_def)
qed

definition demo_zone :: dsn_lib where
  "demo_zone = \<lparr>dl_zone = (\<lambda>_. False), dl_rank = (\<lambda>_. 0)\<rparr>"

theorem dsn_roundtrip_witness:
  "ParseDSN demo_zone (dsn_render [(''host'', ''h''), (''password'', [CHR 0x22, CHR '';'', CHR 0x5C])])
   = Ok (Config_normalize (new_config\<lparr>cf_Host := ''h'', cf_Password := [CHR 0x22, CHR '';'', CHR 0x5C]\<rparr>))"
proof -
  have "utf8_text ''h''" "utf8_text [CHR 0x22, CHR '';'', CHR 0x5C]" by (code_simp, code_simp)
  moreover have "dsn_key ''host''" "dsn_key ''password''" by (code_simp, code_simp)
  ultimately show ?thesis
    using dsn_roundtrip [of "[(''host'', ''h''), (''password'', [CHR 0x22, CHR '';'', CHR 0x5C])]" demo_zone]
    by (simp add: applyDSNOption_def dsn_option_def)
qed

text \<open>
  C35. Defaults and validation: filling in the defaults is idempotent, and a configuration that passes
  validation afterwards has a host, a user, a port above 0, a positive number of rows per fetch, a database, a
  time zone and the login name of its user; in challenge mode its key has been loaded, and in
  password mode it has a password.
\<close>

theorem config_complete:
  assumes "Config_validate kl (Config_normalize cfg) = Ok cfg'"
  shows "Config_normalize (Config_normalize cfg) = Config_normalize cfg
    \<and> cf_Host cfg' \<noteq> [] \<and> 0 < cf_Port cfg' \<and> cf_User cfg' \<noteq> [] \<and> 0 < cf_FetchRows cfg'
    \<and> cf_Database cfg' \<noteq> [] \<and> cf_TimeLocation cfg' \<noteq> None \<and> cf_loginName cfg' = login_name cfg
    \<and> (canonicalizeAuthMode (cf_AuthMode cfg') = Ok authModeChallenge \<longrightarrow> cf_key cfg' \<noteq> None)
    \<and> (canonicalizeAuthMode (cf_AuthMode cfg') = Ok authModePassword \<longrightarrow> cf_Password cfg' \<noteq> [])"
proof -
  let ?n = "Config_normalize cfg"
  let ?mode = "ToUpper (TrimSpace (cf_AuthMode ?n))"
  from assms have ok: "cf_Host ?n \<noteq> []" "0 < cf_Port ?n" "cf_User ?n \<noteq> []"
      "\<not> (cf_Password ?n = [] \<and> ?mode = ''PASSWORD'')"
      "\<not> (?mode = ''CHALLENGE'' \<and> TrimSpace (cf_AuthKeyFile ?n) = [] \<and> TrimSpace (cf_AuthKeyPEM ?n) = [])"
    unfolding Config_validate_def Let_def by (auto split: if_splits)
  from assms have c': "cfg' = ?n \<and> \<not> EqualFold (cf_AuthMode ?n) ''CHALLENGE'' \<or> (\<exists>key. cfg' = ?n\<lparr>cf_key := Some key\<rparr>)"
    unfolding Config_validate_def Let_def by (auto split: if_splits simp: bind_outcome_Ok_iff)
  then have same: "cf_Host cfg' = cf_Host ?n" "cf_Port cfg' = cf_Port ?n" "cf_User cfg' = cf_User ?n"
      "cf_FetchRows cfg' = cf_FetchRows ?n" "cf_Database cfg' = cf_Database ?n" "cf_TimeLocation cfg' = cf_TimeLocation ?n"
      "cf_loginName cfg' = login_name cfg" "cf_AuthMode cfg' = cf_AuthMode ?n" "cf_Password cfg' = cf_Password ?n"
    by (auto simp: normalize_eq)
  have fold: "?mode = m" if "canonicalizeAuthMode (cf_AuthMode ?n) = Ok m" "m \<noteq> []" "ToUpper m = m" for m
    using that by (auto simp: canonicalizeAuthMode_def Let_def dest!: EqualFold_upper split: if_splits)
  have up: "ToUpper ''CHALLENGE'' = ''CHALLENGE''" "ToUpper ''PASSWORD'' = ''PASSWORD''" by (code_simp, code_simp)
  have "cf_key cfg' \<noteq> None" if "canonicalizeAuthMode (cf_AuthMode ?n) = Ok ''CHALLENGE''"
  proof -
    from fold [OF that] up have "?mode = ''CHALLENGE''" by simp
    with ok(5) have "cf_AuthKeyFile ?n \<noteq> [] \<or> cf_AuthKeyPEM ?n \<noteq> []" by auto
    then have "cf_AuthMode ?n = ''CHALLENGE''" by (simp add: normalize_eq)
    then have "EqualFold (cf_AuthMode ?n) ''CHALLENGE''" by (simp add: EqualFold_def)
    with c' show ?thesis by auto
  qed
  moreover have "cf_Password cfg' \<noteq> []" if "canonicalizeAuthMode (cf_AuthMode ?n) = Ok ''PASSWORD''"
    using fold [OF that] up ok(4) same by simp
  ultimately show ?thesis
    using ok(1-3) same normalize_idem [of cfg] by (simp add: normalize_eq [of cfg])
qed

theorem config_complete_witness:
  "\<exists>cfg. Config_validate demo_keys (Config_normalize (new_config\<lparr>cf_Host := ''h'', cf_User := ''sys'', cf_Password := ''manager''\<rparr>)) = Ok cfg
     \<and> 0 < cf_Port cfg \<and> cf_loginName cfg = ''SYS''"
proof -
  let ?c = "new_config\<lparr>cf_Host := ''h'', cf_User := ''sys'', cf_Password := ''manager''\<rparr>"
  have "Config_validate demo_keys (Config_normalize ?c) = Ok (Config_normalize ?c)"
    by (simp add: Config_validate_def normalize_eq new_config_def Let_def) (simp add: EqualFold_def ToLower_def ToUpper_def code_def)
  moreover have "login_name ?c = ''SYS''" by code_simp
  ultimately show ?thesis using config_complete [of demo_keys ?c "Config_normalize ?c"] by auto
qed

end
