(* ===== verification/Driver_Values.thy ===== *)
theory Driver_Values
  imports Config Cursors
begin

text \<open>
  \<^verbatim>\<open>util.go\<close>: the values that cross the \<^verbatim>\<open>database/sql\<close> interface, error normalisation, the leading keyword of
  a statement, quoted identifiers and result messages; with the numbers of the statement types from
  \<^verbatim>\<open>machnet/types.go\<close> that the messages use.
\<close>

section \<open>Statement types\<close>

abbreviation (input) QPP_STMT_TYPE_CREATE_TABLESPACE :: StmtType where "QPP_STMT_TYPE_CREATE_TABLESPACE \<equiv> 1"
abbreviation (input) QPP_STMT_TYPE_DROP_TABLESPACE :: StmtType where "QPP_STMT_TYPE_DROP_TABLESPACE \<equiv> 2"
abbreviation (input) QPP_STMT_TYPE_ALTER_TABLESPACE_MODIFY_DATADISK :: StmtType where "QPP_STMT_TYPE_ALTER_TABLESPACE_MODIFY_DATADISK \<equiv> 3"
abbreviation (input) QPP_STMT_TYPE_CREATE_TABLE :: StmtType where "QPP_STMT_TYPE_CREATE_TABLE \<equiv> 4"
abbreviation (input) QPP_STMT_TYPE_DROP_TABLE :: StmtType where "QPP_STMT_TYPE_DROP_TABLE \<equiv> 5"
abbreviation (input) QPC_STMT_TYPE_CREATE_ROLLUP :: StmtType where "QPC_STMT_TYPE_CREATE_ROLLUP \<equiv> 6"
abbreviation (input) QPC_STMT_TYPE_DROP_ROLLUP :: StmtType where "QPC_STMT_TYPE_DROP_ROLLUP \<equiv> 7"
abbreviation (input) QPC_STMT_TYPE_CREATE_RETENTION :: StmtType where "QPC_STMT_TYPE_CREATE_RETENTION \<equiv> 8"
abbreviation (input) QPC_STMT_TYPE_DROP_RETENTION :: StmtType where "QPC_STMT_TYPE_DROP_RETENTION \<equiv> 9"
abbreviation (input) QPP_STMT_TYPE_CREATE_INDEX :: StmtType where "QPP_STMT_TYPE_CREATE_INDEX \<equiv> 10"
abbreviation (input) QPP_STMT_TYPE_DROP_INDEX :: StmtType where "QPP_STMT_TYPE_DROP_INDEX \<equiv> 11"
abbreviation (input) QPP_STMT_TYPE_CREATE_USER :: StmtType where "QPP_STMT_TYPE_CREATE_USER \<equiv> 12"
abbreviation (input) QPP_STMT_TYPE_DROP_USER :: StmtType where "QPP_STMT_TYPE_DROP_USER \<equiv> 13"
abbreviation (input) QPP_STMT_TYPE_ALTER_USER :: StmtType where "QPP_STMT_TYPE_ALTER_USER \<equiv> 14"
abbreviation (input) QPP_STMT_TYPE_GRANT_USER :: StmtType where "QPP_STMT_TYPE_GRANT_USER \<equiv> 15"
abbreviation (input) QPP_STMT_TYPE_REVOKE_USER :: StmtType where "QPP_STMT_TYPE_REVOKE_USER \<equiv> 16"
abbreviation (input) QPP_STMT_TYPE_ALTER_TABLE_ADD_COL :: StmtType where "QPP_STMT_TYPE_ALTER_TABLE_ADD_COL \<equiv> 17"
abbreviation (input) QPP_STMT_TYPE_ALTER_TABLE_DROP_COL :: StmtType where "QPP_STMT_TYPE_ALTER_TABLE_DROP_COL \<equiv> 18"
abbreviation (input) QPP_STMT_TYPE_ALTER_TABLE_RENAME_COL :: StmtType where "QPP_STMT_TYPE_ALTER_TABLE_RENAME_COL \<equiv> 19"
abbreviation (input) QPP_STMT_TYPE_ALTER_TABLE_MODIFY_COL :: StmtType where "QPP_STMT_TYPE_ALTER_TABLE_MODIFY_COL \<equiv> 20"
abbreviation (input) QPC_STMT_TYPE_ALTER_TABLE_AUTO_DEL_UNUSED :: StmtType where "QPC_STMT_TYPE_ALTER_TABLE_AUTO_DEL_UNUSED \<equiv> 21"
abbreviation (input) QPP_STMT_TYPE_ALTER_TABLE_RENAME :: StmtType where "QPP_STMT_TYPE_ALTER_TABLE_RENAME \<equiv> 22"
abbreviation (input) QPC_STMT_TYPE_ALTER_TABLE_ADD_RETENTION :: StmtType where "QPC_STMT_TYPE_ALTER_TABLE_ADD_RETENTION \<equiv> 23"
abbreviation (input) QPC_STMT_TYPE_ALTER_TABLE_DROP_RETENTION :: StmtType where "QPC_STMT_TYPE_ALTER_TABLE_DROP_RETENTION \<equiv> 24"
abbreviation (input) QPP_STMT_TYPE_TRUNCATE_TABLE :: StmtType where "QPP_STMT_TYPE_TRUNCATE_TABLE \<equiv> 25"
abbreviation (input) QPP_STMT_TYPE_ALTER_TABLE_SET_PROP :: StmtType where "QPP_STMT_TYPE_ALTER_TABLE_SET_PROP \<equiv> 26"
abbreviation (input) QPP_STMT_TYPE_ALTER_INDEX :: StmtType where "QPP_STMT_TYPE_ALTER_INDEX \<equiv> 27"
abbreviation (input) QPP_STMT_TYPE_CREATE_VIEW :: StmtType where "QPP_STMT_TYPE_CREATE_VIEW \<equiv> 28"
abbreviation (input) QPP_STMT_TYPE_DROP_VIEW :: StmtType where "QPP_STMT_TYPE_DROP_VIEW \<equiv> 29"
abbreviation (input) QPP_STMT_TYPE_BACKUP_DATABASE :: StmtType where "QPP_STMT_TYPE_BACKUP_DATABASE \<equiv> 100"
abbreviation (input) QPP_STMT_TYPE_RESTORE_DATABASE :: StmtType where "QPP_STMT_TYPE_RESTORE_DATABASE \<equiv> 101"
abbreviation (input) QPP_STMT_TYPE_MOUNT_DATABASE :: StmtType where "QPP_STMT_TYPE_MOUNT_DATABASE \<equiv> 102"
abbreviation (input) QPP_STMT_TYPE_UMOUNT_DATABASE :: StmtType where "QPP_STMT_TYPE_UMOUNT_DATABASE \<equiv> 103"
abbreviation (input) QPP_STMT_TYPE_MOUNT_TABLE :: StmtType where "QPP_STMT_TYPE_MOUNT_TABLE \<equiv> 104"
abbreviation (input) QPP_STMT_TYPE_UMOUNT_TABLE :: StmtType where "QPP_STMT_TYPE_UMOUNT_TABLE \<equiv> 105"
abbreviation (input) QPP_STMT_TYPE_BACKUP_TABLE :: StmtType where "QPP_STMT_TYPE_BACKUP_TABLE \<equiv> 106"
abbreviation (input) QPP_STMT_TYPE_INC_BACKUP_DATABASE :: StmtType where "QPP_STMT_TYPE_INC_BACKUP_DATABASE \<equiv> 107"
abbreviation (input) QPP_STMT_TYPE_INC_BACKUP_TABLE :: StmtType where "QPP_STMT_TYPE_INC_BACKUP_TABLE \<equiv> 108"
abbreviation (input) QPP_STMT_TYPE_CONNECT_USER :: StmtType where "QPP_STMT_TYPE_CONNECT_USER \<equiv> 256"
abbreviation (input) QPP_STMT_TYPE_ALTER_SYSTEM_KILL_SESSION :: StmtType where "QPP_STMT_TYPE_ALTER_SYSTEM_KILL_SESSION \<equiv> 257"
abbreviation (input) QPP_STMT_TYPE_ALTER_SYSTEM_CANCEL_SESSION :: StmtType where "QPP_STMT_TYPE_ALTER_SYSTEM_CANCEL_SESSION \<equiv> 258"
abbreviation (input) QPP_STMT_TYPE_ALTER_SYSTEM_FLUSH_AGER :: StmtType where "QPP_STMT_TYPE_ALTER_SYSTEM_FLUSH_AGER \<equiv> 259"
abbreviation (input) QPP_STMT_TYPE_ALTER_SYSTEM_FLUSH_RESULT_CACHE :: StmtType where "QPP_STMT_TYPE_ALTER_SYSTEM_FLUSH_RESULT_CACHE \<equiv> 260"
abbreviation (input) QPP_STMT_TYPE_ALTER_SYSTEM_FLUSH_PVO_CACHE :: StmtType where "QPP_STMT_TYPE_ALTER_SYSTEM_FLUSH_PVO_CACHE \<equiv> 261"
abbreviation (input) QPP_STMT_TYPE_ALTER_SYSTEM_FLUSH_SYS_STAT :: StmtType where "QPP_STMT_TYPE_ALTER_SYSTEM_FLUSH_SYS_STAT \<equiv> 262"
abbreviation (input) QPP_STMT_TYPE_ALTER_SYSTEM_FLUSH_PAGE_CACHE :: StmtType where "QPP_STMT_TYPE_ALTER_SYSTEM_FLUSH_PAGE_CACHE \<equiv> 263"
abbreviation (input) QPP_STMT_TYPE_ALTER_SYSTEM_FLUSH_KV_CACHE :: StmtType where "QPP_STMT_TYPE_ALTER_SYSTEM_FLUSH_KV_CACHE \<equiv> 264"
abbreviation (input) QPP_STMT_TYPE_ALTER_SYSTEM_CHECK_DISK_USAGE :: StmtType where "QPP_STMT_TYPE_ALTER_SYSTEM_CHECK_DISK_USAGE \<equiv> 265"
abbreviation (input) QPP_STMT_TYPE_ALTER_SYSTEM_SWIPE :: StmtType where "QPP_STMT_TYPE_ALTER_SYSTEM_SWIPE \<equiv> 266"
abbreviation (input) QPP_STMT_TYPE_ALTER_SYSTEM_INSTALL :: StmtType where "QPP_STMT_TYPE_ALTER_SYSTEM_INSTALL \<equiv> 267"
abbreviation (input) QPP_STMT_TYPE_ALTER_SYSTEM_CHECKPOINT :: StmtType where "QPP_STMT_TYPE_ALTER_SYSTEM_CHECKPOINT \<equiv> 268"
abbreviation (input) QPP_STMT_TYPE_ALTER_SYSTEM_SET :: StmtType where "QPP_STMT_TYPE_ALTER_SYSTEM_SET \<equiv> 269"
abbreviation (input) QPP_STMT_TYPE_ALTER_SYSTEM_UNSET :: StmtType where "QPP_STMT_TYPE_ALTER_SYSTEM_UNSET \<equiv> 270"
abbreviation (input) QPP_STMT_TYPE_ALTER_SESSION_SET :: StmtType where "QPP_STMT_TYPE_ALTER_SESSION_SET \<equiv> 271"
abbreviation (input) QPP_STMT_TYPE_COMMIT :: StmtType where "QPP_STMT_TYPE_COMMIT \<equiv> 272"
abbreviation (input) QPP_STMT_TYPE_ROLLBACK :: StmtType where "QPP_STMT_TYPE_ROLLBACK \<equiv> 273"
abbreviation (input) QPP_STMT_TYPE_TABLE_FLUSH :: StmtType where "QPP_STMT_TYPE_TABLE_FLUSH \<equiv> 274"
abbreviation (input) QPP_STMT_TYPE_INDEX_FLUSH :: StmtType where "QPP_STMT_TYPE_INDEX_FLUSH \<equiv> 275"
abbreviation (input) QPP_STMT_TYPE_TABLE_REFRESH :: StmtType where "QPP_STMT_TYPE_TABLE_REFRESH \<equiv> 276"
abbreviation (input) QPP_STMT_TYPE_TABLE_FREEZE_TAG_INDEX :: StmtType where "QPP_STMT_TYPE_TABLE_FREEZE_TAG_INDEX \<equiv> 277"
abbreviation (input) QPP_STMT_TYPE_TABLE_UNFREEZE_TAG_INDEX :: StmtType where "QPP_STMT_TYPE_TABLE_UNFREEZE_TAG_INDEX \<equiv> 278"
abbreviation (input) QPP_STMT_TYPE_CREATE_DATABASE :: StmtType where "QPP_STMT_TYPE_CREATE_DATABASE \<equiv> 279"
abbreviation (input) QPP_STMT_TYPE_DROP_DATABASE :: StmtType where "QPP_STMT_TYPE_DROP_DATABASE \<equiv> 280"
abbreviation (input) QPP_STMT_TYPE_ALTER_DATABASE :: StmtType where "QPP_STMT_TYPE_ALTER_DATABASE \<equiv> 281"
abbreviation (input) QPP_STMT_TYPE_CREATE_CQL :: StmtType where "QPP_STMT_TYPE_CREATE_CQL \<equiv> 490"
abbreviation (input) QPP_STMT_TYPE_DROP_CQL :: StmtType where "QPP_STMT_TYPE_DROP_CQL \<equiv> 491"
abbreviation (input) QPP_STMT_TYPE_START_CQL :: StmtType where "QPP_STMT_TYPE_START_CQL \<equiv> 492"
abbreviation (input) QPP_STMT_TYPE_STOP_CQL :: StmtType where "QPP_STMT_TYPE_STOP_CQL \<equiv> 493"
abbreviation (input) QPP_STMT_TYPE_SEEK_CQL :: StmtType where "QPP_STMT_TYPE_SEEK_CQL \<equiv> 494"
abbreviation (input) QPP_STMT_TYPE_SUBSCRIBE_CQL :: StmtType where "QPP_STMT_TYPE_SUBSCRIBE_CQL \<equiv> 495"
abbreviation (input) QPP_STMT_TYPE_RUN_CQL :: StmtType where "QPP_STMT_TYPE_RUN_CQL \<equiv> 496"
abbreviation (input) QPP_STMT_TYPE_SELECT :: StmtType where "QPP_STMT_TYPE_SELECT \<equiv> 512"
abbreviation (input) QPP_STMT_TYPE_INSERT :: StmtType where "QPP_STMT_TYPE_INSERT \<equiv> 513"
abbreviation (input) QPP_STMT_TYPE_DELETE :: StmtType where "QPP_STMT_TYPE_DELETE \<equiv> 514"
abbreviation (input) QPP_STMT_TYPE_DELETE_WHERE :: StmtType where "QPP_STMT_TYPE_DELETE_WHERE \<equiv> 515"
abbreviation (input) QPP_STMT_TYPE_DELETE_ROLLUP :: StmtType where "QPP_STMT_TYPE_DELETE_ROLLUP \<equiv> 516"
abbreviation (input) QPP_STMT_TYPE_DELETE_WHERE_ROLLUP :: StmtType where "QPP_STMT_TYPE_DELETE_WHERE_ROLLUP \<equiv> 517"
abbreviation (input) QPP_STMT_TYPE_PARTIAL_DELETE_ROLLUP :: StmtType where "QPP_STMT_TYPE_PARTIAL_DELETE_ROLLUP \<equiv> 518"
abbreviation (input) QPP_STMT_TYPE_INSERT_SELECT :: StmtType where "QPP_STMT_TYPE_INSERT_SELECT \<equiv> 519"
abbreviation (input) QPP_STMT_TYPE_UPDATE :: StmtType where "QPP_STMT_TYPE_UPDATE \<equiv> 520"
abbreviation (input) QPP_STMT_TYPE_DESC :: StmtType where "QPP_STMT_TYPE_DESC \<equiv> 521"
abbreviation (input) QPP_STMT_TYPE_LOAD_INFILE :: StmtType where "QPP_STMT_TYPE_LOAD_INFILE \<equiv> 600"
abbreviation (input) QPP_STMT_TYPE_START_ALL_ROLLUP :: StmtType where "QPP_STMT_TYPE_START_ALL_ROLLUP \<equiv> 1000"
abbreviation (input) QPP_STMT_TYPE_STOP_ALL_ROLLUP :: StmtType where "QPP_STMT_TYPE_STOP_ALL_ROLLUP \<equiv> 1001"
abbreviation (input) QPP_STMT_TYPE_COLLECT_ALL_ROLLUP :: StmtType where "QPP_STMT_TYPE_COLLECT_ALL_ROLLUP \<equiv> 1002"
abbreviation (input) QPP_STMT_TYPE_SET_ROLLUP_WAKEUP :: StmtType where "QPP_STMT_TYPE_SET_ROLLUP_WAKEUP \<equiv> 1003"
abbreviation (input) QPP_STMT_TYPE_WAKEUP_ROLLUP :: StmtType where "QPP_STMT_TYPE_WAKEUP_ROLLUP \<equiv> 1004"
abbreviation (input) QPP_STMT_TYPE_ALTER_SYSTEM_SNAPSHOT :: StmtType where "QPP_STMT_TYPE_ALTER_SYSTEM_SNAPSHOT \<equiv> 1100"
abbreviation (input) QPP_STMT_TYPE_ALTER_SYSTEM_RECOVER :: StmtType where "QPP_STMT_TYPE_ALTER_SYSTEM_RECOVER \<equiv> 1101"
abbreviation (input) QPP_STMT_TYPE_ALTER_SYSTEM_ID :: StmtType where "QPP_STMT_TYPE_ALTER_SYSTEM_ID \<equiv> 1102"
abbreviation (input) QPP_STMT_TYPE_EXECUTE_PROCEDURE :: StmtType where "QPP_STMT_TYPE_EXECUTE_PROCEDURE \<equiv> 1200"
abbreviation (input) QPP_STMT_TYPE_ROLLUP_REBUILD :: StmtType where "QPP_STMT_TYPE_ROLLUP_REBUILD \<equiv> 1201"
abbreviation (input) QPC_STMT_TYPE_APPEND :: StmtType where "QPC_STMT_TYPE_APPEND \<equiv> 2000"

section \<open>Values of the interface\<close>

text \<open>
  A dynamic value at the \<^verbatim>\<open>database/sql\<close> interface: a plain value, a pointer to a scalar that is not nil, a
  \<^verbatim>\<open>JSONString\<close>, another \<^verbatim>\<open>driver.Valuer\<close> with what its \<^verbatim>\<open>Value\<close> method returns, or a \<^verbatim>\<open>driver.NamedValue\<close>. A nil
  pointer is the scalar \<open>VNilPtr\<close> with the name of its type.
\<close>

datatype anyval =
    AVal goval
  | APtr prim
  | AJSON string
  | AValuer "anyval outcome"
  | ANamed string anyval

abbreviation APrim :: "prim \<Rightarrow> anyval" where "APrim p \<equiv> AVal (GPrim p)"
abbreviation ANil :: anyval where "ANil \<equiv> APrim VNil"

definition fits_int32 :: "goint \<Rightarrow> bool" where
  "fits_int32 v \<longleftrightarrow> - (2 ^ 31) \<le> sint v \<and> sint v \<le> 2 ^ 31 - 1"

definition int_param :: "goint \<Rightarrow> anyval" where
  "int_param v = (if fits_int32 v then APrim (VInt v) else APrim (VInt64 v))"

definition uint_param :: "u64 \<Rightarrow> anyval outcome" where
  "uint_param v = (if uint v > 2 ^ 63 - 1 then Err (PlainErr ''uint value overflows int64'') else Ok (APrim (VInt64 v)))"

definition unsupported_param :: "anyval outcome" where
  "unsupported_param = Err (PlainErr ''machbase does not support parameter type'')"

definition dropped_pointers :: "string list" where
  "dropped_pointers = [''*int'', ''*uint'', ''*uint8'', ''*uint16'', ''*uint32'', ''*uint64'']"

definition kept_pointers :: "string list" where
  "kept_pointers = [''*int16'', ''*int32'', ''*int64'', ''*float32'', ''*float64'', ''*string'', ''*time.Time'']"

fun normalize_prim :: "prim \<Rightarrow> anyval outcome" where
  "normalize_prim VNil = Ok ANil"
| "normalize_prim (VInt v) = Ok (int_param v)"
| "normalize_prim (VBool b) = Err (PlainErr ''machbase does not support bool parameter type'')"
| "normalize_prim (VUint v) = uint_param v"
| "normalize_prim (VUint8 v) = Ok (APrim (VInt64 (ucast v)))"
| "normalize_prim (VUint16 v) = Ok (APrim (VInt64 (ucast v)))"
| "normalize_prim (VUint32 v) = Ok (APrim (VInt64 (ucast v)))"
| "normalize_prim (VUint64 v) = uint_param v"
| "normalize_prim (VInt8 v) = unsupported_param"
| "normalize_prim (VOther t) = unsupported_param"
| "normalize_prim (VNilPtr t) =
     (if t \<in> set dropped_pointers then Ok ANil
      else if t \<in> set kept_pointers then Ok (APrim (VNilPtr t))
      else unsupported_param)"
| "normalize_prim p = Ok (APrim p)"

fun normalize_ptr :: "prim \<Rightarrow> anyval outcome" where
  "normalize_ptr (VInt v) = Ok (int_param v)"
| "normalize_ptr (VUint v) = uint_param v"
| "normalize_ptr (VUint8 v) = Ok (APrim (VInt64 (ucast v)))"
| "normalize_ptr (VUint16 v) = Ok (APrim (VInt64 (ucast v)))"
| "normalize_ptr (VUint32 v) = Ok (APrim (VInt64 (ucast v)))"
| "normalize_ptr (VUint64 v) = uint_param v"
| "normalize_ptr (VInt16 v) = Ok (APtr (VInt16 v))"
| "normalize_ptr (VInt32 v) = Ok (APtr (VInt32 v))"
| "normalize_ptr (VInt64 v) = Ok (APtr (VInt64 v))"
| "normalize_ptr (VFloat32 v) = Ok (APtr (VFloat32 v))"
| "normalize_ptr (VFloat64 v) = Ok (APtr (VFloat64 v))"
| "normalize_ptr (VString v) = Ok (APtr (VString v))"
| "normalize_ptr (VTime v) = Ok (APtr (VTime v))"
| "normalize_ptr p = unsupported_param"

fun normalizeNamedValue :: "anyval \<Rightarrow> anyval outcome" where
  "normalizeNamedValue (AVal (GPrim p)) = normalize_prim p"
| "normalizeNamedValue (AVal (GSlice xs)) = unsupported_param"
| "normalizeNamedValue (AVal v) = Ok (AVal v)"
| "normalizeNamedValue (APtr p) = normalize_ptr p"
| "normalizeNamedValue (AJSON j) = Ok (APrim (VString j))"
| "normalizeNamedValue (AValuer (Ok v)) = normalizeNamedValue v"
| "normalizeNamedValue (AValuer (Err e)) = Err e"
| "normalizeNamedValue (AValuer (Panic m)) = Panic m"
| "normalizeNamedValue (ANamed n v) = unsupported_param"

definition checkNamedValue :: "(string \<times> anyval) option \<Rightarrow> (string \<times> anyval) option outcome" where
  "checkNamedValue nv =
     (case nv of
        None \<Rightarrow> Ok None
      | Some (name, v) \<Rightarrow> bind_outcome (normalizeNamedValue v) (\<lambda>v'. Ok (Some (name, v'))))"

fun namedValuesToAny :: "(string \<times> anyval) list \<Rightarrow> anyval list outcome" where
  "namedValuesToAny [] = Ok []"
| "namedValuesToAny (arg # args) =
     bind_outcome (checkNamedValue (Some arg)) (\<lambda>r.
     bind_outcome (namedValuesToAny args) (\<lambda>vs.
     case r of
       Some (name, v) \<Rightarrow> Ok ((if name \<noteq> [] then ANamed name v else v) # vs)
     | None \<Rightarrow> Ok (ANil # vs)))"

definition valuesToAny :: "anyval list \<Rightarrow> anyval list" where
  "valuesToAny args = map id args"

text \<open>
  The conversion of a row value: the \<^verbatim>\<open>case\<close>s for pointers and values differ in the types they know. The
  text of an address is a parameter, as for the other conversions.
\<close>

fun driver_ptr :: "golib \<Rightarrow> prim \<Rightarrow> anyval option" where
  "driver_ptr lib (VBool b) = Some (APrim (VBool b))"
| "driver_ptr lib (VInt16 v) = Some (APrim (VInt64 (scast v)))"
| "driver_ptr lib (VUint16 v) = Some (APrim (VInt64 (ucast v)))"
| "driver_ptr lib (VInt32 v) = Some (APrim (VInt64 (scast v)))"
| "driver_ptr lib (VUint32 v) = Some (APrim (VInt64 (ucast v)))"
| "driver_ptr lib (VInt64 v) = Some (APrim (VInt64 v))"
| "driver_ptr lib (VUint64 v) = Some (APrim (VInt64 v))"
| "driver_ptr lib (VFloat32 v) = Some (APrim (VFloat64 (f32_widen v)))"
| "driver_ptr lib (VFloat64 v) = Some (APrim (VFloat64 v))"
| "driver_ptr lib (VString v) = Some (APrim (VString v))"
| "driver_ptr lib (VBytes v) = Some (APrim (VBytes v))"
| "driver_ptr lib (VTime v) = Some (APrim (VTime v))"
| "driver_ptr lib (VIP v) = Some (APrim (VString (lib_Sprint lib (VIP v))))"
| "driver_ptr lib p = None"

fun driver_prim :: "golib \<Rightarrow> prim \<Rightarrow> anyval option" where
  "driver_prim lib VNil = Some ANil"
| "driver_prim lib (VTime v) = Some (APrim (VTime v))"
| "driver_prim lib (VIP v) = Some (APrim (VIP v))"
| "driver_prim lib (VDecimal d) = Some (APrim (VString (Decimal_String d)))"
| "driver_prim lib (VDecimalPtr None) = Some ANil"
| "driver_prim lib (VDecimalPtr (Some d)) = Some (APrim (VString (Decimal_String d)))"
| "driver_prim lib (VInt v) = Some (APrim (VInt64 v))"
| "driver_prim lib (VInt16 v) = Some (APrim (VInt64 (scast v)))"
| "driver_prim lib (VInt32 v) = Some (APrim (VInt64 (scast v)))"
| "driver_prim lib (VInt64 v) = Some (APrim (VInt64 v))"
| "driver_prim lib (VFloat32 v) = Some (APrim (VFloat64 (f32_widen v)))"
| "driver_prim lib (VFloat64 v) = Some (APrim (VFloat64 v))"
| "driver_prim lib (VString v) = Some (APrim (VString v))"
| "driver_prim lib (VBytes v) = Some (APrim (VBytes v))"
| "driver_prim lib (VNilPtr t) =
     (if t \<in> set [''*bool'', ''*int16'', ''*uint16'', ''*int32'', ''*uint32'', ''*int64'', ''*uint64'', ''*float32'', ''*float64'',
        ''*string'', ''*[]uint8'', ''*time.Time'', ''*net.IP''] then Some ANil else None)"
| "driver_prim lib p = None"

fun toDriverValue :: "golib \<Rightarrow> anyval \<Rightarrow> anyval outcome" where
  "toDriverValue lib v =
     (case (case v of
              AVal (GPrim p) \<Rightarrow> driver_prim lib p
            | AVal (GArrayVal a) \<Rightarrow> Some (APrim (VString (Array_String lib a)))
            | AVal (GArrayPtr None) \<Rightarrow> Some ANil
            | AVal (GArrayPtr (Some a)) \<Rightarrow> Some (APrim (VString (Array_String lib a)))
            | APtr p \<Rightarrow> driver_ptr lib p
            | _ \<Rightarrow> None) of
        Some d \<Rightarrow> Ok d
      | None \<Rightarrow> Err (PlainErr ''machbase cannot convert row value to driver.Value''))"

section \<open>Errors\<close>

abbreviation (input) ErrBadConn :: gerr where "ErrBadConn \<equiv> PlainErr ''driver: bad connection''"
abbreviation (input) ErrTxDone :: gerr where "ErrTxDone \<equiv> PlainErr ''sql: transaction has already been committed or rolled back''"
abbreviation (input) ErrNoRows :: gerr where "ErrNoRows \<equiv> PlainErr ''sql: no rows in result set''"

definition bad_conn_text :: "string \<Rightarrow> bool" where
  "bad_conn_text msg \<longleftrightarrow>
     Contains msg ''connection closed'' \<or> Contains msg ''invalid connection'' \<or> Contains msg ''broken pipe''
     \<or> Contains msg ''connection reset'' \<or> Contains msg ''unexpected eof'' \<or> Contains ('' '' @ msg @ '' '') '' eof ''"

definition normalizeError :: "gerr option \<Rightarrow> gerr option" where
  "normalizeError err =
     (case err of
        None \<Rightarrow> None
      | Some e \<Rightarrow> if bad_conn_text (ToLower (error_text e)) then Some ErrBadConn else Some e)"

definition formatMachcliError :: "int \<Rightarrow> string \<Rightarrow> gerr option \<Rightarrow> gerr option" where
  "formatMachcliError c msg cause =
     (if c = 0 \<and> msg = [] \<and> cause = None then None
      else if c = 0 then
        (case cause of
           None \<Rightarrow> Some (PlainErr (''MACHCLI '' @ msg))
         | Some e \<Rightarrow> Some (PlainErr (''MACHCLI '' @ msg @ '', '' @ error_text e)))
      else Some (PlainErr (''MACHCLI-ERR-'' @ itoa c @ '', '' @ msg)))"

section \<open>Statements\<close>

definition queryHead :: "string \<Rightarrow> string" where
  "queryHead query = (case Fields query of [] \<Rightarrow> [] | p # _ \<Rightarrow> ToUpper p)"

definition QuoteIdentifier :: "string \<Rightarrow> string" where
  "QuoteIdentifier name = dquote @ concat (map (\<lambda>c. if [c] = dquote then dquote @ dquote else [c]) name) @ dquote"

definition keyword_char :: "char \<Rightarrow> bool" where
  "keyword_char c \<longleftrightarrow>
     97 \<le> code c \<and> code c \<le> 122 \<or> 65 \<le> code c \<and> code c \<le> 90 \<or> 48 \<le> code c \<and> code c \<le> 57 \<or> c = CHR ''_'' \<or> c = CHR ''$''"

function skip_comments :: "string \<Rightarrow> string" where
  "skip_comments remaining =
     (if remaining = [] then []
      else if HasPrefix remaining ''--'' then
        (case IndexByte remaining (CHR 0x0A) of
           None \<Rightarrow> []
         | Some newline \<Rightarrow> skip_comments (TrimSpace (drop (newline + 1) remaining)))
      else if HasPrefix remaining ''/*'' then
        (case Index (drop 2 remaining) ''*/'' of
           None \<Rightarrow> []
         | Some en \<Rightarrow> skip_comments (TrimSpace (drop (en + 4) remaining)))
      else remaining)"
  by pat_completeness auto
termination
proof (relation "measure length", goal_cases)
  case (2 r n)
  have "length (TrimSpace (drop (n + 1) r)) \<le> length (drop (n + 1) r)" by (rule length_TrimSpace)
  also have "\<dots> < length r" using 2(1) by (cases r) auto
  finally show ?case by simp
next
  case (3 r n)
  have "length (TrimSpace (drop (n + 4) r)) \<le> length (drop (n + 4) r)" by (rule length_TrimSpace)
  also have "\<dots> < length r" using 3(1) by (cases r) auto
  finally show ?case by simp
qed simp

declare skip_comments.simps [simp del]

definition leadingSQLKeyword :: "string \<Rightarrow> string" where
  "leadingSQLKeyword query = ToUpper (takeWhile keyword_char (skip_comments (TrimSpace query)))"

section \<open>Messages\<close>

fun comma_groups :: "string \<Rightarrow> string" where
  "comma_groups (a # b # c # ds) = CHR '','' # a # b # c # comma_groups ds"
| "comma_groups ds = ds"

definition formatIntWithCommas :: "int \<Rightarrow> string" where
  "formatIntWithCommas v =
     (let digits = itoa v;
          start = (if hd digits = CHR ''-'' then 1 else 0);
          n = length digits - start
      in if n \<le> 3 then digits
         else
           let head = (if n mod 3 = 0 then 3 else n mod 3)
           in take start digits @ take head (drop start digits) @ comma_groups (drop (start + head) digits))"

definition stmt_message :: "StmtType \<Rightarrow> string" where
  "stmt_message typ =
     switch typ
     [([QPP_STMT_TYPE_CREATE_TABLE], ''table created.''),
      ([QPP_STMT_TYPE_DROP_TABLE], ''table dropped.''),
      ([QPC_STMT_TYPE_CREATE_ROLLUP], ''rollup created.''),
      ([QPC_STMT_TYPE_DROP_ROLLUP], ''rollup dropped.''),
      ([QPC_STMT_TYPE_CREATE_RETENTION], ''retention created.''),
      ([QPC_STMT_TYPE_DROP_RETENTION], ''retention dropped.''),
      ([QPP_STMT_TYPE_CREATE_INDEX], ''index created.''),
      ([QPP_STMT_TYPE_DROP_INDEX], ''index dropped.''),
      ([QPP_STMT_TYPE_ALTER_INDEX], ''index altered.''),
      ([QPP_STMT_TYPE_CREATE_USER], ''user created.''),
      ([QPP_STMT_TYPE_DROP_USER], ''user dropped.''),
      ([QPP_STMT_TYPE_ALTER_USER], ''user altered.''),
      ([QPP_STMT_TYPE_GRANT_USER], ''user granted.''),
      ([QPP_STMT_TYPE_REVOKE_USER], ''user revoked.''),
      ([QPP_STMT_TYPE_CREATE_VIEW], ''view created.''),
      ([QPP_STMT_TYPE_DROP_VIEW], ''view dropped.''),
      ([QPP_STMT_TYPE_CREATE_DATABASE], ''database created.''),
      ([QPP_STMT_TYPE_DROP_DATABASE], ''database dropped.''),
      ([QPP_STMT_TYPE_ALTER_DATABASE], ''database altered.''),
      ([QPP_STMT_TYPE_BACKUP_DATABASE], ''database backup completed.''),
      ([QPP_STMT_TYPE_RESTORE_DATABASE], ''database restore completed.''),
      ([QPP_STMT_TYPE_MOUNT_DATABASE], ''database mounted.''),
      ([QPP_STMT_TYPE_UMOUNT_DATABASE], ''database unmounted.''),
      ([QPP_STMT_TYPE_MOUNT_TABLE], ''table mounted.''),
      ([QPP_STMT_TYPE_UMOUNT_TABLE], ''table unmounted.''),
      ([QPP_STMT_TYPE_BACKUP_TABLE], ''table backup completed.''),
      ([QPP_STMT_TYPE_INC_BACKUP_DATABASE], ''incremental database backup completed.''),
      ([QPP_STMT_TYPE_INC_BACKUP_TABLE], ''incremental table backup completed.''),
      ([QPP_STMT_TYPE_ALTER_SYSTEM_KILL_SESSION], ''session killed.''),
      ([QPP_STMT_TYPE_ALTER_SYSTEM_CANCEL_SESSION], ''session canceled.''),
      ([QPP_STMT_TYPE_ALTER_SYSTEM_FLUSH_AGER], ''ager flushed.''),
      ([QPP_STMT_TYPE_ALTER_SYSTEM_FLUSH_RESULT_CACHE], ''result cache flushed.''),
      ([QPP_STMT_TYPE_ALTER_SYSTEM_FLUSH_PVO_CACHE], ''pvo cache flushed.''),
      ([QPP_STMT_TYPE_ALTER_SYSTEM_FLUSH_SYS_STAT], ''system statistics flushed.''),
      ([QPP_STMT_TYPE_ALTER_SYSTEM_FLUSH_PAGE_CACHE], ''page cache flushed.''),
      ([QPP_STMT_TYPE_ALTER_SYSTEM_FLUSH_KV_CACHE], ''kv cache flushed.''),
      ([QPP_STMT_TYPE_ALTER_SYSTEM_CHECK_DISK_USAGE], ''disk usage checked.''),
      ([QPP_STMT_TYPE_ALTER_SYSTEM_SWIPE], ''system swiped.''),
      ([QPP_STMT_TYPE_ALTER_SYSTEM_INSTALL], ''system installed.''),
      ([QPP_STMT_TYPE_ALTER_SYSTEM_CHECKPOINT], ''system checkpointed.''),
      ([QPP_STMT_TYPE_ALTER_SYSTEM_SET], ''system set.''),
      ([QPP_STMT_TYPE_ALTER_SYSTEM_UNSET], ''system unset.''),
      ([QPP_STMT_TYPE_ALTER_SESSION_SET], ''session set.''),
      ([QPP_STMT_TYPE_COMMIT], ''transaction committed.''),
      ([QPP_STMT_TYPE_ROLLBACK], ''transaction rolled back.''),
      ([QPP_STMT_TYPE_TABLE_FLUSH], ''table flushed.''),
      ([QPP_STMT_TYPE_INDEX_FLUSH], ''index flushed.''),
      ([QPP_STMT_TYPE_TABLE_REFRESH], ''table refreshed.''),
      ([QPP_STMT_TYPE_TABLE_FREEZE_TAG_INDEX], ''table tag index frozen.''),
      ([QPP_STMT_TYPE_TABLE_UNFREEZE_TAG_INDEX], ''table tag index unfrozen.'')]
     []"

definition result_verb :: "StmtType \<Rightarrow> string" where
  "result_verb typ =
     (if StmtType_IsSelect typ then ''selected.''
      else if StmtType_IsInsert typ then ''inserted.''
      else if StmtType_IsDelete typ then ''deleted.''
      else if StmtType_IsInsertSelect typ then ''inserted from select.''
      else if StmtType_IsUpdate typ then ''updated.''
      else if StmtType_IsExecRollup typ then ''rollup executed.''
      else [])"

definition formatResultMessage :: "gerr option \<Rightarrow> StmtType \<Rightarrow> int \<Rightarrow> string" where
  "formatResultMessage err typ rowCount =
     (case err of
        Some e \<Rightarrow> error_text e
      | None \<Rightarrow>
          if stmt_message typ \<noteq> [] then stmt_message typ
          else if result_verb typ = [] then ''executed ('' @ itoa typ @ '').''
          else if rowCount = 0 then ''no rows '' @ result_verb typ
          else if rowCount = 1 then ''a row '' @ result_verb typ
          else formatIntWithCommas rowCount @ '' rows '' @ result_verb typ)"


section \<open>Properties\<close>

lemma comma_groups_shape:
  "3 dvd length ds \<Longrightarrow> \<exists>gs. comma_groups ds = concat (map (\<lambda>g. CHR '','' # g) gs) \<and> concat gs = ds
     \<and> list_all (\<lambda>g. length g = 3) gs"
proof (induction ds rule: comma_groups.induct)
  case (1 a b c ds)
  have "3 dvd length ds" using "1.prems" by simp presburger
  with "1.IH" obtain gs where "comma_groups ds = concat (map (\<lambda>g. CHR '','' # g) gs) \<and> concat gs = ds \<and> list_all (\<lambda>g. length g = 3) gs"
    by blast
  then show ?case by (intro exI [of _ "[a, b, c] # gs"]) simp
qed (auto simp: numeral_3_eq_3 dest: dvd_imp_le)

lemma itoa_shape: "\<exists>sign ds. itoa v = sign @ ds \<and> ds = nat_digits (nat (abs v)) \<and> sign = (if v < 0 then ''-'' else [])
   \<and> ds \<noteq> [] \<and> hd ds \<noteq> CHR ''-''"
proof -
  have ds: "nat_digits n \<noteq> []" "list_all is_digit (nat_digits n)" for n
    by (simp_all add: nat_digits_not_Nil nat_digits_all)
  then have "is_digit (hd (nat_digits n))" for n by (metis hd_in_set list_all_iff)
  moreover have "\<not> is_digit CHR ''-''" by (simp add: is_digit_def code_def)
  ultimately have "hd (nat_digits n) \<noteq> CHR ''-''" for n by metis
  with ds show ?thesis by (simp add: itoa_def)
qed

lemma join_groups: "concat (map (\<lambda>g. CHR '','' # g) gs) = (if gs = [] then [] else '','' @ Join gs '','')"
proof (induction gs)
  case (Cons g gs)
  then show ?case by (cases gs) auto
qed simp

lemma Join_cons: "Join (g # gs) sep = g @ (if gs = [] then [] else sep @ Join gs sep)"
  by (cases gs) simp_all

text \<open>
  Thousands separators: the text of a row count is its sign and its decimal digits, cut into groups that are
  joined by commas; every group but the first has three digits and the first has one to
  three.
\<close>

theorem commas_correct:
  "\<exists>g gs. formatIntWithCommas v = (if v < 0 then ''-'' else []) @ Join (g # gs) '',''
     \<and> concat (g # gs) = nat_digits (nat (abs v)) \<and> 1 \<le> length g \<and> length g \<le> 3 \<and> list_all (\<lambda>g. length g = 3) gs"
proof -
  obtain sign ds where it: "itoa v = sign @ ds" "ds = nat_digits (nat (abs v))" "sign = (if v < 0 then ''-'' else [])"
      "ds \<noteq> []" "hd ds \<noteq> CHR ''-''"
    using itoa_shape by blast
  then have st: "(if hd (itoa v) = CHR ''-'' then 1 else 0) = length sign" by auto
  show ?thesis
  proof (cases "length ds \<le> 3")
    case True
    then have "formatIntWithCommas v = sign @ Join [ds] '',''" unfolding formatIntWithCommas_def Let_def st by (simp add: it(1))
    with True it show ?thesis by (intro exI [of _ ds] exI [of _ "[]"]) (auto simp: Suc_le_eq)
  next
    case False
    define h where "h = (if length ds mod 3 = 0 then 3 else length ds mod 3)"
    have h: "1 \<le> h" "h \<le> 3" "h < length ds" using False by (auto simp: h_def)
    have "3 dvd length (drop h ds)"
      by (cases "length ds mod 3 = 0") (simp_all add: h_def mod_eq_0_iff_dvd dvd_minus_mod)
    then obtain gs where gs: "comma_groups (drop h ds) = concat (map (\<lambda>g. CHR '','' # g) gs)" "concat gs = drop h ds"
        "list_all (\<lambda>g. length g = 3) gs"
      using comma_groups_shape by blast
    have "formatIntWithCommas v = sign @ take h ds @ comma_groups (drop h ds)"
      unfolding formatIntWithCommas_def Let_def st using False
      by (cases "length ds mod 3 = 0") (simp_all add: it(1) h_def)
    also have "take h ds @ comma_groups (drop h ds) = Join (take h ds # gs) '',''"
      by (simp add: gs(1) join_groups Join_cons)
    finally show ?thesis using h gs(2,3) it by (intro exI [of _ "take h ds"] exI [of _ gs]) auto
  qed
qed

text \<open>
  Normalising a parameter value is stable, as the value is checked by \<^verbatim>\<open>database/sql\<close> and once more by the
  driver: a value that was accepted is accepted again and unchanged.
\<close>

theorem named_value_stable:
  "normalizeNamedValue v = Ok w \<Longrightarrow> normalizeNamedValue w = Ok w"
proof (induction v rule: normalizeNamedValue.induct)
  case (1 p)
  then show ?case by (cases p) (auto simp: int_param_def uint_param_def unsupported_param_def split: if_splits)
next
  case (4 p)
  then show ?case by (cases p) (auto simp: int_param_def uint_param_def unsupported_param_def split: if_splits)
qed (auto simp: unsupported_param_def)

theorem named_value_stable_witness: "normalizeNamedValue (int_param 5) = Ok (int_param 5)"
  using named_value_stable [of "APrim (VInt 5)" "int_param 5"] by simp

lemma fixed_value_converts: "(\<And>v. driver_prim lib (mk v) \<noteq> None) \<Longrightarrow> driver_prim lib (fixed_value n field nul mk) \<noteq> None"
  by (simp add: fixed_value_def Let_def)

lemma fixed_field_converts: "driver_prim lib (decodeFixedField col field) \<noteq> None"
  unfolding decodeFixedField_def
  by (rule switch_all [where P = "\<lambda>p. driver_prim lib p \<noteq> None"]) (simp_all add: fixed_value_converts [simplified])

lemma column_converts:
  assumes "decode_column lib col data off = Ok (v, off')"
  shows "is_ok (toDriverValue lib (AVal v))"
  using assms fixed_field_converts [of lib col]
  by (auto simp: decode_column_def Let_def bind_outcome_Ok_iff decodeVariableField_def split: if_splits option.splits)

lemma columns_convert:
  "decode_columns lib cols data off = Ok vs \<Longrightarrow> list_all (\<lambda>v. is_ok (toDriverValue lib (AVal v))) vs"
  by (induction lib cols data off arbitrary: vs rule: decode_columns.induct)
    (auto simp: bind_outcome_Ok_iff dest: column_converts simp del: toDriverValue.simps)

text \<open>
  Every row that was decoded from the wire can be handed out: no value of a decoded row makes the conversion
  to a \<^verbatim>\<open>driver.Value\<close> fail.
\<close>

theorem rows_convert:
  "case decodeRowsFromUnits lib units cols of
     Ok rows \<Rightarrow> list_all (list_all (\<lambda>v. is_ok (toDriverValue lib (AVal v)))) rows
   | _ \<Rightarrow> True"
proof -
  have "decode_units lib units cols = Ok rows \<Longrightarrow> list_all (list_all (\<lambda>v. is_ok (toDriverValue lib (AVal v)))) rows" for rows
    by (induction units arbitrary: rows)
      (auto simp: bind_outcome_Ok_iff decodeRowInto_def dest: columns_convert simp del: toDriverValue.simps)
  then show ?thesis by (auto simp: decodeRowsFromUnits_def list_all_iff split: outcome.splits simp del: toDriverValue.simps)
qed

end
