(* ===== verification/Column_Types.thy ===== *)
theory Column_Types
  imports Driver_Values
begin

text \<open>
  \<^verbatim>\<open>types.go\<close>: the columns of results and tables with their scan buffers, and the vocabulary of
  table and index types. JSON output and the reflected name of a scan type are left to the
  callers: \<^verbatim>\<open>NewColumnWithType\<close> takes the two names it switches on.
\<close>

section \<open>Columns\<close>

record Column =
  col_Id :: u64
  col_Name :: string
  col_Type :: ColumnType
  col_Length :: int
  col_DataType :: DataType
  col_Flag :: ColumnFlag
  col_Nullable :: bool
  col_Nullability :: Nullability
  col_PrimaryKey :: bool
  col_ElementType :: SqlType
  col_ElementPrecision :: int
  col_Scale :: int

record ColumnDesc = col_desc +
  cd_elementType :: SqlType
  cd_elementPrecision :: int

definition plain_column :: "string \<Rightarrow> ColumnType \<Rightarrow> DataType \<Rightarrow> Column" where
  "plain_column name t d =
     \<lparr>col_Id = 0, col_Name = name, col_Type = t, col_Length = 0, col_DataType = d, col_Flag = 0, col_Nullable = False,
      col_Nullability = NullabilityUnknown, col_PrimaryKey = False, col_ElementType = 0, col_ElementPrecision = 0, col_Scale = 0\<rparr>"

definition Column_String :: "Column \<Rightarrow> string" where
  "Column_String col =
     (if col_Type col \<noteq> ColumnTypeUnknown then col_Name col @ ''('' @ ColumnType_String (col_Type col) @ '')''
      else if col_DataType col \<noteq> DataTypeUnknown then col_Name col @ ''('' @ col_DataType col @ '')''
      else col_Name col @ ''(unknown)'')"

definition has_flag :: "ColumnFlag \<Rightarrow> ColumnFlag \<Rightarrow> bool" where
  "has_flag f g \<longleftrightarrow> f AND g = g"

definition IsBaseTime :: "Column \<Rightarrow> bool" where
  "IsBaseTime col \<longleftrightarrow> has_flag (col_Flag col) ColumnFlagBasetime"

definition IsBaseDistance :: "Column \<Rightarrow> bool" where
  "IsBaseDistance col \<longleftrightarrow>
     has_flag (col_Flag col) ColumnFlagBaseDistance
     \<or> has_flag (col_Flag col) ColumnFlagBasetime \<and> col_Type col \<noteq> ColumnTypeDatetime"

definition IsTagName :: "Column \<Rightarrow> bool" where
  "IsTagName col \<longleftrightarrow> has_flag (col_Flag col) ColumnFlagTagName"

definition IsSummarized :: "Column \<Rightarrow> bool" where
  "IsSummarized col \<longleftrightarrow> has_flag (col_Flag col) ColumnFlagSummarized"

definition IsMetaColumn :: "Column \<Rightarrow> bool" where
  "IsMetaColumn col \<longleftrightarrow> has_flag (col_Flag col) ColumnFlagMetaColumn"

definition Column_makeBuffer :: "Column \<Rightarrow> scan_buffer outcome" where
  "Column_makeBuffer col =
     (if col_Type col \<noteq> ColumnTypeUnknown then ColumnType_MakeBuffer (col_Type col)
      else if col_DataType col \<noteq> DataTypeUnknown then DataType_MakeBuffer (col_DataType col) (col_Nullable col)
      else Err (PlainErr ''Column type is not defined''))"

definition Column_Width :: "Column \<Rightarrow> int" where
  "Column_Width col =
     switch (col_Type col)
     [([ColumnTypeShort], 6), ([ColumnTypeUShort], 5), ([ColumnTypeInteger], 11), ([ColumnTypeUInteger], 10),
      ([ColumnTypeLong], 20), ([ColumnTypeULong], 20), ([ColumnTypeFloat], 17), ([ColumnTypeDouble], 17),
      ([ColumnTypeIPv4], 15), ([ColumnTypeIPv6], 45), ([ColumnTypeDatetime], 31)]
     (col_Length col)"

definition scan_type_data :: "string \<Rightarrow> DataType" where
  "scan_type_data scanType =
     switch scanType
     [([''bool'', ''sql.NullBool''], DataTypeBoolean),
      ([''int8'', ''sql.NullByte''], DataTypeInt16),
      ([''int16'', ''sql.NullInt16''], DataTypeInt16),
      ([''uint16''], DataTypeUInt16),
      ([''int32'', ''sql.NullInt32''], DataTypeInt32),
      ([''uint32''], DataTypeUInt32),
      ([''int64'', ''sql.NullInt64''], DataTypeInt64),
      ([''uint64''], DataTypeUInt64),
      ([''float32''], DataTypeFloat32),
      ([''float64'', ''sql.NullFloat64''], DataTypeFloat64),
      ([''string'', ''sql.NullString''], DataTypeString),
      ([''time.Time'', ''sql.NullTime''], DataTypeDatetime),
      ([''[]byte'', ''[]uint8'', ''sql.RawBytes''], DataTypeBinary),
      ([''*interface {}''], DataTypeString)]
     DataTypeAny"

definition NewColumnWithType :: "string \<Rightarrow> string \<Rightarrow> string \<Rightarrow> Column" where
  "NewColumnWithType name databaseTypeName scanType =
     plain_column name ColumnTypeUnknown
       (switch databaseTypeName
        [([''VARCHAR'', ''TEXT'', ''NCHAR'', ''NVARCHAR''], DataTypeString),
         ([''JSON''], DataTypeJSON), ([''IPV4''], DataTypeIPv4), ([''IPV6''], DataTypeIPv6), ([''DECIMAL''], DataTypeDecimal),
         ([''INT16_ARRAY''], DataTypeInt16Array), ([''UINT16_ARRAY''], DataTypeUInt16Array),
         ([''INT32_ARRAY''], DataTypeInt32Array), ([''UINT32_ARRAY''], DataTypeUInt32Array),
         ([''INT64_ARRAY''], DataTypeInt64Array), ([''UINT64_ARRAY''], DataTypeUInt64Array),
         ([''FLOAT_ARRAY''], DataTypeFloatArray), ([''DOUBLE_ARRAY''], DataTypeDoubleArray),
         ([''DECIMAL_ARRAY''], DataTypeDecimalArray)]
        (scan_type_data scanType))"

type_synonym Columns = "Column list"

definition Columns_String :: "Columns \<Rightarrow> string" where
  "Columns_String cols = (if cols = [] then ''[]'' else ''['' @ Join (map Column_String cols) '', '' @ '']'')"

definition Columns_Names :: "Columns \<Rightarrow> string list" where
  "Columns_Names cols = map col_Name cols"

definition NamesWithTimeLocation :: "string \<Rightarrow> Columns \<Rightarrow> string list" where
  "NamesWithTimeLocation tz cols =
     map (\<lambda>c. if col_DataType c = DataTypeDatetime then col_Name c @ ''('' @ tz @ '')'' else col_Name c) cols"

definition Columns_DataTypes :: "Columns \<Rightarrow> DataType list" where
  "Columns_DataTypes cols =
     map (\<lambda>c. if col_DataType c = [] then ColumnType_DataType (col_Type c) else col_DataType c) cols"

fun Columns_MakeBuffer :: "Columns \<Rightarrow> scan_buffer list outcome" where
  "Columns_MakeBuffer [] = Ok []"
| "Columns_MakeBuffer (c # cs) =
     bind_outcome (Column_makeBuffer c) (\<lambda>b. bind_outcome (Columns_MakeBuffer cs) (\<lambda>bs. Ok (b # bs)))"

definition MakeColumnRownum :: Column where
  "MakeColumnRownum = plain_column ''ROWNUM'' ColumnTypeInteger DataTypeInt64"
definition MakeColumnInt64 :: "string \<Rightarrow> Column" where
  "MakeColumnInt64 name = plain_column name ColumnTypeLong DataTypeInt64"
definition MakeColumnInt32 :: "string \<Rightarrow> Column" where
  "MakeColumnInt32 name = plain_column name ColumnTypeLong DataTypeInt32"
definition MakeColumnDouble :: "string \<Rightarrow> Column" where
  "MakeColumnDouble name = plain_column name ColumnTypeDouble DataTypeFloat64"
definition MakeColumnDatetime :: "string \<Rightarrow> Column" where
  "MakeColumnDatetime name = plain_column name ColumnTypeDatetime DataTypeDatetime"
definition MakeColumnString :: "string \<Rightarrow> Column" where
  "MakeColumnString name = plain_column name ColumnTypeVarchar DataTypeString"
definition MakeColumnBoolean :: "string \<Rightarrow> Column" where
  "MakeColumnBoolean name = plain_column name ColumnTypeBool DataTypeBoolean"
definition MakeColumnAny :: "string \<Rightarrow> Column" where
  "MakeColumnAny name = plain_column name ColumnTypeUnknown DataTypeAny"
definition MakeColumnList :: "string \<Rightarrow> Column" where
  "MakeColumnList name = plain_column name ColumnTypeUnknown DataTypeList"
definition MakeColumnDict :: "string \<Rightarrow> Column" where
  "MakeColumnDict name = plain_column name ColumnTypeUnknown DataTypeDict"

fun value_types :: "prim \<Rightarrow> bool \<Rightarrow> ColumnType \<times> DataType" where
  "value_types (VString s) ptr = (ColumnTypeVarchar, DataTypeString)"
| "value_types (VBool b) ptr = (ColumnTypeUnknown, DataTypeBoolean)"
| "value_types (VInt v) ptr = (ColumnTypeInteger, DataTypeInt32)"
| "value_types (VInt32 v) ptr = (ColumnTypeInteger, DataTypeInt32)"
| "value_types (VInt8 v) ptr = (ColumnTypeShort, DataTypeByte)"
| "value_types (VInt16 v) ptr = (ColumnTypeShort, DataTypeInt16)"
| "value_types (VInt64 v) ptr = (ColumnTypeLong, DataTypeInt64)"
| "value_types (VTime v) ptr = (ColumnTypeDatetime, DataTypeDatetime)"
| "value_types (VFloat32 v) ptr = (ColumnTypeFloat, DataTypeFloat32)"
| "value_types (VFloat64 v) ptr = (ColumnTypeDouble, DataTypeFloat64)"
| "value_types (VIP v) ptr =
     (if ptr then (ColumnTypeUnknown, DataTypeAny)
      else if length v = 16 then (ColumnTypeIPv6, DataTypeIPv6) else (ColumnTypeIPv4, DataTypeIPv4))"
| "value_types (VBytes v) ptr = (if ptr then (ColumnTypeUnknown, DataTypeAny) else (ColumnTypeBinary, DataTypeBinary))"
| "value_types (VDecimal v) ptr = (ColumnTypeDecimal, DataTypeDecimal)"
| "value_types (VDecimalPtr v) ptr = (ColumnTypeDecimal, DataTypeDecimal)"
| "value_types (VNilPtr t) ptr =
     switch t
     [([''*string''], (ColumnTypeVarchar, DataTypeString)), ([''*bool''], (ColumnTypeUnknown, DataTypeBoolean)),
      ([''*int'', ''*int32''], (ColumnTypeInteger, DataTypeInt32)), ([''*int8''], (ColumnTypeShort, DataTypeByte)),
      ([''*int16''], (ColumnTypeShort, DataTypeInt16)), ([''*int64''], (ColumnTypeLong, DataTypeInt64)),
      ([''*time.Time''], (ColumnTypeDatetime, DataTypeDatetime)), ([''*float32''], (ColumnTypeFloat, DataTypeFloat32)),
      ([''*float64''], (ColumnTypeDouble, DataTypeFloat64))]
     (ColumnTypeUnknown, DataTypeAny)"
| "value_types p ptr = (ColumnTypeUnknown, DataTypeAny)"

definition MakeColumnOf :: "string \<Rightarrow> anyval \<Rightarrow> Column" where
  "MakeColumnOf name v =
     (case (case v of APrim p \<Rightarrow> value_types p False | APtr p \<Rightarrow> value_types p True | _ \<Rightarrow> (ColumnTypeUnknown, DataTypeAny)) of
        (t, d) \<Rightarrow> plain_column name t d)"

section \<open>Tables and indexes\<close>

type_synonym TableType = int
type_synonym TableFlag = int
type_synonym IndexType = int

abbreviation (input) TableTypeLog :: TableType where "TableTypeLog \<equiv> 0"
abbreviation (input) TableTypeFixed :: TableType where "TableTypeFixed \<equiv> 1"
abbreviation (input) TableTypeVolatile :: TableType where "TableTypeVolatile \<equiv> 3"
abbreviation (input) TableTypeLookup :: TableType where "TableTypeLookup \<equiv> 4"
abbreviation (input) TableTypeKeyValue :: TableType where "TableTypeKeyValue \<equiv> 5"
abbreviation (input) TableTypeTag :: TableType where "TableTypeTag \<equiv> 6"
abbreviation (input) TableTypeView :: TableType where "TableTypeView \<equiv> 7"
abbreviation (input) TableTypeTransaction :: TableType where "TableTypeTransaction \<equiv> 8"

definition TableType_String :: "TableType \<Rightarrow> string" where
  "TableType_String typ =
     switch typ
     [([TableTypeLog], ''LogTable''), ([TableTypeFixed], ''FixedTable''), ([TableTypeVolatile], ''VolatileTable''),
      ([TableTypeLookup], ''LookupTable''), ([TableTypeKeyValue], ''KeyValueTable''), ([TableTypeTag], ''TagTable''),
      ([TableTypeView], ''View''), ([TableTypeTransaction], ''TransactionTable'')]
     (''UndefinedTable-'' @ itoa typ)"

definition TableType_ShortString :: "TableType \<Rightarrow> string" where
  "TableType_ShortString typ =
     switch typ
     [([TableTypeLog], ''Log''), ([TableTypeFixed], ''Fixed''), ([TableTypeVolatile], ''Volatile''),
      ([TableTypeLookup], ''Lookup''), ([TableTypeKeyValue], ''KeyValue''), ([TableTypeTag], ''Tag''),
      ([TableTypeView], ''View''), ([TableTypeTransaction], ''Transaction'')]
     (''UndefinedTable-'' @ itoa typ)"

definition TableFlag_String :: "TableFlag \<Rightarrow> string" where
  "TableFlag_String fl =
     switch fl
     [([0], []), ([1], ''Data''), ([2], ''Rollup''), ([4], ''Meta''), ([8], ''Stat'')]
     (''UndefinedTableFlag-'' @ itoa fl)"

definition IndexType_String :: "IndexType \<Rightarrow> string" where
  "IndexType_String typ =
     switch typ
     [([6], ''BITMAP (LSM)''), ([8], ''REDBLACK''), ([9], ''KEYWORD (LSM)''), ([11], ''TAG'')]
     (''UndefinedIndex-'' @ itoa typ)"

definition json_quoted :: "string \<Rightarrow> bytes" where
  "json_quoted s = bytes_of_string (dquote @ s @ dquote)"

definition TableType_MarshalJSON :: "TableType \<Rightarrow> bytes" where
  "TableType_MarshalJSON typ = json_quoted (TableType_String typ)"

definition TableFlag_MarshalJSON :: "TableFlag \<Rightarrow> bytes" where
  "TableFlag_MarshalJSON fl = json_quoted (TableFlag_String fl)"

end
