(* ===== verification/Driver_Stmt.thy ===== *)
theory Driver_Stmt
  imports Column_Types
begin

text \<open>
  Statements of \<^verbatim>\<open>driver.go\<close>. A driver statement wraps a statement handle and points to its connection; the
  state of an operation is the statement with the connection it belongs to. A statement is held by one owner at
  a time: a caller, an open result set or the pool of the connection.
\<close>

section \<open>State\<close>

record Stmt =
  ds_handle :: "StmtHandle option"
  ds_sqlText :: string
  ds_columnDesc :: "ColumnDesc list"
  ds_reachEOF :: bool
  ds_rowCount :: u64
  ds_execCount :: nat
  ds_generation :: nat

record Conn =
  dc_handle :: "ConnHandle option"
  dc_user :: string
  dc_usedCount :: int
  dc_closeDone :: bool
  dc_inTx :: bool
  dc_database :: string
  dc_dbDirty :: bool
  dc_reuseMode :: StatementCacheMode
  dc_fast :: "(string \<times> Stmt) option"
  dc_pool :: "(string \<times> Stmt list) list"
  dc_poolCount :: nat
  dc_poolCap :: nat
  dc_poolPerKeyCap :: nat
  dc_generation :: nat

type_synonym dstate = "Stmt \<times> Conn"

text \<open>What the driver takes from its surroundings: the formatting library and the time of a call that has no
  context.\<close>

record drv_env =
  de_lib :: golib
  de_spr :: "goval \<Rightarrow> string"
  de_now :: int

definition new_driver_stmt :: "StmtHandle \<Rightarrow> Stmt" where
  "new_driver_stmt h =
     \<lparr>ds_handle = Some h, ds_sqlText = [], ds_columnDesc = [], ds_reachEOF = False, ds_rowCount = 0, ds_execCount = 0,
      ds_generation = 0\<rparr>"

section \<open>Sequencing\<close>

definition and_then :: "'a outcome \<times> 's \<Rightarrow> ('a \<Rightarrow> 's \<Rightarrow> 'b outcome \<times> 's) \<Rightarrow> 'b outcome \<times> 's" where
  "and_then r f = (case r of (Ok x, s) \<Rightarrow> f x s | (Err e, s) \<Rightarrow> (Err e, s) | (Panic m, s) \<Rightarrow> (Panic m, s))"

definition nil_deref :: "'a outcome" where
  "nil_deref = Panic ''nil pointer dereference''"

text \<open>A call on the handle of a statement, and a question to the handle that changes nothing.\<close>

definition with_handle :: "(stmt_state option \<Rightarrow> 'a outcome \<times> stmt_state option) \<Rightarrow> dstate \<Rightarrow> 'a outcome \<times> dstate" where
  "with_handle f sc =
     (case sc of (s, c) \<Rightarrow>
        (case ds_handle s of
           None \<Rightarrow> (fst (f None), sc)
         | Some h \<Rightarrow>
             (case f (Some (h, dc_handle c)) of
                (r, Some (h', ch)) \<Rightarrow> (r, (s\<lparr>ds_handle := Some h'\<rparr>, c\<lparr>dc_handle := ch\<rparr>))
              | (r, None) \<Rightarrow> (r, sc))))"

definition ask_handle :: "(StmtHandle option \<Rightarrow> 'a outcome) \<Rightarrow> dstate \<Rightarrow> 'a outcome \<times> dstate" where
  "ask_handle f sc = (f (ds_handle (fst sc)), sc)"

definition machcli_error :: "status \<Rightarrow> gerr \<Rightarrow> gerr" where
  "machcli_error st cause =
     (case formatMachcliError (st_code st) (st_msg st) (Some cause) of Some e \<Rightarrow> e | None \<Rightarrow> cause)"

text \<open>\<^verbatim>\<open>ErrorOf\<close> of a statement on the error of a call: the last error of the handle with the cause.\<close>

definition Stmt_ErrorOf :: "gerr \<Rightarrow> Stmt \<Rightarrow> gerr outcome" where
  "Stmt_ErrorOf cause s =
     (case ds_handle s of None \<Rightarrow> nil_deref | Some h \<Rightarrow> Ok (machcli_error (sh_lastErr h) cause))"

definition stmt_wrapped :: "'a outcome \<times> dstate \<Rightarrow> 'a outcome \<times> dstate" where
  "stmt_wrapped r =
     (case r of
        (Err e, sc) \<Rightarrow> (bind_outcome (Stmt_ErrorOf e (fst sc)) Err, sc)
      | _ \<Rightarrow> r)"

definition normalized :: "'a outcome \<Rightarrow> 'a outcome" where
  "normalized r = (case r of Err e \<Rightarrow> (case normalizeError (Some e) of Some e' \<Rightarrow> Err e' | None \<Rightarrow> Err e) | _ \<Rightarrow> r)"

section \<open>Closing and preparing\<close>

definition Stmt_Close :: "drv_env \<Rightarrow> dstate \<Rightarrow> unit outcome \<times> dstate" where
  "Stmt_Close E sc =
     (case ds_handle (fst sc) of
        None \<Rightarrow> (Ok (), sc)
      | Some h \<Rightarrow>
          (case stmt_wrapped (with_handle (Stmt_Free (de_now E)) sc) of
             (Ok u, (s, c)) \<Rightarrow> (Ok (), (s\<lparr>ds_handle := None\<rparr>, c))
           | (r, sc') \<Rightarrow> (normalized r, sc')))"

definition Stmt_prepare :: "drv_env \<Rightarrow> call_ctx \<Rightarrow> string \<Rightarrow> dstate \<Rightarrow> unit outcome \<times> dstate" where
  "Stmt_prepare E cx query sc =
     and_then (stmt_wrapped (with_handle (Stmt_Prepare (de_lib E) cx query) sc)) (\<lambda>_ (s, c).
     (Ok (), (s\<lparr>ds_sqlText := query, ds_columnDesc := [], ds_rowCount := 0, ds_execCount := 0, ds_reachEOF := False\<rparr>, c)))"

definition handle_supports_reprepare :: "dstate \<Rightarrow> bool" where
  "handle_supports_reprepare sc = SupportsReprepare (map_option (\<lambda>h. (h, dc_handle (snd sc))) (ds_handle (fst sc)))"

text \<open>\<^verbatim>\<open>context.WithoutCancel\<close>.\<close>

definition without_cancel :: "call_ctx \<Rightarrow> call_ctx" where
  "without_cancel cx = Background (cx_now cx)"

definition Conn_ErrorOf :: "gerr \<Rightarrow> Conn \<Rightarrow> gerr outcome" where
  "Conn_ErrorOf cause c =
     (case dc_handle c of None \<Rightarrow> nil_deref | Some h \<Rightarrow> Ok (machcli_error (hc_lastErr h) cause))"

definition alloc_handle :: "Conn \<Rightarrow> StmtHandle outcome \<times> Conn" where
  "alloc_handle c =
     (case AllocStmt (dc_handle c) of
        (Err e, h) \<Rightarrow> (let c' = c\<lparr>dc_handle := h\<rparr> in (normalized (bind_outcome (Conn_ErrorOf e c') Err), c'))
      | (r, h) \<Rightarrow> (r, c\<lparr>dc_handle := h\<rparr>))"

definition renewHandle :: "drv_env \<Rightarrow> call_ctx \<Rightarrow> dstate \<Rightarrow> unit outcome \<times> dstate" where
  "renewHandle E cx sc =
     (if dc_handle (snd sc) = None then (Ok (), sc)
      else
        let sqlText = ds_sqlText (fst sc)
        in and_then (Stmt_Close E sc) (\<lambda>_ (s, c).
           (case alloc_handle c of
              (Ok h, c) \<Rightarrow>
                (let s = s\<lparr>ds_handle := Some h, ds_reachEOF := False\<rparr>
                 in if sqlText = [] then (Ok (), (s, c))
                    else (case Stmt_prepare E (without_cancel cx) sqlText (s, c) of (r, sc) \<Rightarrow> (normalized r, sc)))
            | (Err e, c) \<Rightarrow> (Err e, (s, c))
            | (Panic m, c) \<Rightarrow> (Panic m, (s, c)))))"

definition discardOpenCursor :: "drv_env \<Rightarrow> call_ctx \<Rightarrow> dstate \<Rightarrow> unit outcome \<times> dstate" where
  "discardOpenCursor E cx sc =
     (if ds_handle (fst sc) = None \<or> FetchCompleted (ds_handle (fst sc)) then (Ok (), sc) else renewHandle E cx sc)"

definition reprepareIfSupported :: "drv_env \<Rightarrow> call_ctx \<Rightarrow> dstate \<Rightarrow> unit outcome \<times> dstate" where
  "reprepareIfSupported E cx sc =
     (if ds_handle (fst sc) = None \<or> \<not> handle_supports_reprepare sc then (Ok (), sc)
      else Stmt_prepare E cx (ds_sqlText (fst sc)) sc)"

section \<open>Executing\<close>

fun describe_columns :: "nat \<Rightarrow> nat \<Rightarrow> StmtHandle option \<Rightarrow> ColumnDesc list outcome" where
  "describe_columns i 0 h = Ok []"
| "describe_columns i (Suc n) h =
     bind_outcome (fst (DescribeColEx (int i) h)) (\<lambda>d.
     bind_outcome (if SqlType_IsArray (cd_type d) then DescribeArrayCol (int i) h else Ok (0, 0)) (\<lambda>(et, ep).
     bind_outcome (describe_columns (i + 1) n h) (\<lambda>ds.
     Ok (col_desc.extend d \<lparr>cd_elementType = et, cd_elementPrecision = ep\<rparr> # ds))))"

definition count_execution :: "dstate \<Rightarrow> dstate" where
  "count_execution sc = (case sc of (s, c) \<Rightarrow> (s\<lparr>ds_execCount := ds_execCount s + 1\<rparr>, c))"

definition is_select :: "StmtHandle option \<Rightarrow> bool" where
  "is_select h = (case GetStmtType h of Ok t \<Rightarrow> StmtType_IsSelect t | _ \<Rightarrow> False)"

text \<open>The column descriptions are read on the first execution of a prepared query only.\<close>

definition execute_described :: "dstate \<Rightarrow> unit outcome \<times> dstate" where
  "execute_described sc =
     and_then (stmt_wrapped (ask_handle Stmt_RowCount sc)) (\<lambda>n (s, c).
     let s = s\<lparr>ds_rowCount := n\<rparr>
     in if ds_execCount s > 0 \<or> \<not> is_select (ds_handle s) then (Ok (), (s, c))
        else
          and_then (stmt_wrapped (ask_handle NumResultCol (s, c))) (\<lambda>num sc.
          and_then (stmt_wrapped (ask_handle (describe_columns 0 num) sc)) (\<lambda>ds (s, c).
          (Ok (), (s\<lparr>ds_columnDesc := ds\<rparr>, c)))))"

definition Stmt_execute :: "drv_env \<Rightarrow> call_ctx \<Rightarrow> dstate \<Rightarrow> unit outcome \<times> dstate" where
  "Stmt_execute E cx sc =
     (case sc of (s, c) \<Rightarrow>
        and_then (stmt_wrapped (with_handle (Stmt_Execute (de_lib E) (de_spr E) cx) (s\<lparr>ds_reachEOF := False\<rparr>, c))) (\<lambda>_ sc.
        (case execute_described sc of (r, sc) \<Rightarrow> (r, count_execution sc))))"

definition Stmt_fetch :: "drv_env \<Rightarrow> call_ctx \<Rightarrow> dstate \<Rightarrow> goval list outcome \<times> dstate" where
  "Stmt_fetch E cx sc =
     (if ds_reachEOF (fst sc) then (Err (PlainErr ''fetch reached end of the result set''), sc)
      else
        and_then (with_handle (Stmt_Fetch (de_lib E) cx) sc) (\<lambda>row (s, c).
        (case row of
           None \<Rightarrow> (Err EOF, (s\<lparr>ds_reachEOF := True\<rparr>, c))
         | Some r \<Rightarrow> (Ok r, (s\<lparr>ds_reachEOF := False\<rparr>, c)))))"

section \<open>Parameters\<close>

text \<open>\<^verbatim>\<open>mapNamedParams\<close>: named arguments by lower-case name, then the value of each parameter by its name.\<close>

fun collect_named :: "anyval list \<Rightarrow> (string \<times> anyval) list \<Rightarrow> (string \<times> anyval) list outcome" where
  "collect_named [] provided = Ok provided"
| "collect_named (ANamed name v # args) provided =
     (if name = [] then Err (PlainErr ''named parameter name is empty'')
      else if map_of provided (ToLower name) \<noteq> None then Err (PlainErr ''duplicate named parameter'')
      else collect_named args (provided @ [(ToLower name, v)]))"
| "collect_named (a # args) provided = Err (PlainErr ''named and positional parameters cannot be mixed'')"

abbreviation (input) ErrNamedParamsUnsupported :: gerr where
  "ErrNamedParamsUnsupported \<equiv> PlainErr ''machbase: named parameters require server protocol 4.0.3 or later''"

fun named_args :: "ParamDesc list \<Rightarrow> (string \<times> anyval) list \<Rightarrow> anyval list outcome" where
  "named_args [] provided = Ok []"
| "named_args (d # ds) provided =
     (if pd_Name d = [] then Err ErrNamedParamsUnsupported
      else
        (case map_of provided (ToLower (pd_Name d)) of
           None \<Rightarrow> Err (PlainErr ''missing named parameter'')
         | Some v \<Rightarrow> bind_outcome (named_args ds provided) (\<lambda>vs. Ok (v # vs))))"

definition is_named :: "anyval \<Rightarrow> bool" where
  "is_named a = (case a of ANamed n v \<Rightarrow> True | _ \<Rightarrow> False)"

definition mapNamedParams :: "anyval list \<Rightarrow> StmtHandle option \<Rightarrow> anyval list outcome" where
  "mapNamedParams args h =
     (if \<not> list_ex is_named args then Ok args
      else
        bind_outcome (collect_named args []) (\<lambda>provided.
        let descs = (case h of None \<Rightarrow> [] | Some st \<Rightarrow> sh_paramDesc st)
        in bind_outcome (named_args descs provided) (\<lambda>ret.
           if list_all (\<lambda>(name, _). name \<in> set (map (ToLower \<circ> pd_Name) descs)) provided then Ok ret
           else Err (PlainErr ''unexpected named parameter''))))"

definition described_type :: "nat \<Rightarrow> StmtHandle option \<Rightarrow> SqlType outcome" where
  "described_type idx h = bind_outcome (DescribeParam (int idx) h) (\<lambda>pd. Ok (pd_Type pd))"

definition text_param :: "nat \<Rightarrow> StmtHandle option \<Rightarrow> goval \<Rightarrow> (SqlType \<times> goval) outcome" where
  "text_param idx h v =
     bind_outcome (described_type idx h) (\<lambda>t. Ok (if t \<noteq> SqlTypeDatetime then t else SqlTypeString, v))"

fun scalar_type :: "prim \<Rightarrow> SqlType option" where
  "scalar_type (VInt16 v) = Some SqlTypeInt16"
| "scalar_type (VUint16 v) = Some SqlTypeUInt16"
| "scalar_type (VInt32 v) = Some SqlTypeInt32"
| "scalar_type (VUint32 v) = Some SqlTypeUInt32"
| "scalar_type (VInt v) = Some SqlTypeInt32"
| "scalar_type (VInt64 v) = Some SqlTypeInt64"
| "scalar_type (VUint64 v) = Some SqlTypeUInt64"
| "scalar_type (VFloat32 v) = Some SqlTypeFloat"
| "scalar_type (VFloat64 v) = Some SqlTypeDouble"
| "scalar_type v = None"

definition ip_param :: "golib \<Rightarrow> bytes \<Rightarrow> SqlType \<times> goval" where
  "ip_param lib v =
     (case To4 v of
        Some ipv4 \<Rightarrow> (SqlTypeIPv4, GPrim (VBytes (bytes_of_string (lib_Sprint lib (VIP ipv4)))))
      | None \<Rightarrow> (SqlTypeIPv6, GPrim (VBytes (bytes_of_string (lib_Sprint lib (VIP (case To16 v of Some b \<Rightarrow> b | None \<Rightarrow> [])))))))"

definition unknown_param :: "nat \<Rightarrow> StmtHandle option \<Rightarrow> (SqlType \<times> goval) outcome" where
  "unknown_param idx h = bind_outcome (described_type idx h) (\<lambda>_. Err (PlainErr ''bind unknown type at column''))"

text \<open>The nil pointers that the type switch dereferences.\<close>

definition derefed_pointers :: "string list" where
  "derefed_pointers = [''*int16'', ''*uint16'', ''*int32'', ''*uint32'', ''*int'', ''*int64'', ''*uint64'', ''*time.Time'', ''*float32'', ''*float64'']"

fun prim_param :: "golib \<Rightarrow> nat \<Rightarrow> StmtHandle option \<Rightarrow> prim \<Rightarrow> (SqlType \<times> goval) outcome" where
  "prim_param lib idx h VNil = bind_outcome (described_type idx h) (\<lambda>t. Ok (t, GNil))"
| "prim_param lib idx h (VTime t) = Ok (SqlTypeDatetime, GPrim (VInt64 t))"
| "prim_param lib idx h (VIP v) = Ok (ip_param lib v)"
| "prim_param lib idx h (VString t) = text_param idx h (GPrim (VString t))"
| "prim_param lib idx h (VBytes v) = Ok (SqlTypeBinary, GPrim (VBytes v))"
| "prim_param lib idx h (VDecimal d) = Ok (SqlTypeDecimal, GPrim (VDecimal d))"
| "prim_param lib idx h (VDecimalPtr d) =
     Ok (SqlTypeDecimal, GPrim (case d of Some x \<Rightarrow> VDecimal x | None \<Rightarrow> VNil))"
| "prim_param lib idx h (VNilPtr t) =
     (if t \<in> set derefed_pointers then nil_deref
      else if t = ''*string'' then text_param idx h GNil
      else unknown_param idx h)"
| "prim_param lib idx h p =
     (case scalar_type p of Some t \<Rightarrow> Ok (t, GPrim p) | None \<Rightarrow> unknown_param idx h)"

fun ptr_param :: "golib \<Rightarrow> nat \<Rightarrow> StmtHandle option \<Rightarrow> prim \<Rightarrow> (SqlType \<times> goval) outcome" where
  "ptr_param lib idx h (VTime t) = Ok (SqlTypeDatetime, GPrim (VInt64 t))"
| "ptr_param lib idx h (VString t) = text_param idx h (GPrim (VString t))"
| "ptr_param lib idx h p =
     (case scalar_type p of Some t \<Rightarrow> Ok (t, GPrim p) | None \<Rightarrow> unknown_param idx h)"

text \<open>The type and the value under which an argument is bound.\<close>

fun param_value :: "golib \<Rightarrow> nat \<Rightarrow> StmtHandle option \<Rightarrow> anyval \<Rightarrow> (SqlType \<times> goval) outcome" where
  "param_value lib idx h (AVal (GPrim p)) = prim_param lib idx h p"
| "param_value lib idx h (AVal (GArrayVal a)) = Ok (Array_SqlType a, GArrayVal a)"
| "param_value lib idx h (AVal (GArrayPtr None)) = bind_outcome (described_type idx h) (\<lambda>t. Ok (t, GNil))"
| "param_value lib idx h (AVal (GArrayPtr (Some a))) = Ok (Array_SqlType a, GArrayPtr (Some a))"
| "param_value lib idx h (APtr p) = ptr_param lib idx h p"
| "param_value lib idx h (AJSON j) = Ok (SqlTypeJSON, GPrim (VString j))"
| "param_value lib idx h v = unknown_param idx h"

text \<open>Only an error of the handle is passed through \<^verbatim>\<open>ErrorOf\<close>; the one for an unknown type is the driver's own.\<close>

definition bind_arg :: "drv_env \<Rightarrow> nat \<Rightarrow> anyval \<Rightarrow> dstate \<Rightarrow> unit outcome \<times> dstate" where
  "bind_arg E idx arg sc =
     (case param_value (de_lib E) idx (ds_handle (fst sc)) arg of
        Ok (t, v) \<Rightarrow> stmt_wrapped (with_handle (BindParam (de_lib E) (int idx) t v) sc)
      | Err e \<Rightarrow>
          if e = PlainErr ''bind unknown type at column'' then (Err e, sc)
          else stmt_wrapped (Err e, sc)
      | Panic m \<Rightarrow> (Panic m, sc))"

fun bind_args :: "drv_env \<Rightarrow> nat \<Rightarrow> anyval list \<Rightarrow> dstate \<Rightarrow> unit outcome \<times> dstate" where
  "bind_args E idx [] sc = (Ok (), sc)"
| "bind_args E idx (a # as) sc = and_then (bind_arg E idx a sc) (\<lambda>_ sc. bind_args E (idx + 1) as sc)"

definition bindParams :: "drv_env \<Rightarrow> anyval list \<Rightarrow> dstate \<Rightarrow> unit outcome \<times> dstate" where
  "bindParams E args sc =
     and_then (stmt_wrapped (ask_handle NumParam sc)) (\<lambda>numParam sc.
     and_then (ask_handle (mapNamedParams args) sc) (\<lambda>args sc.
     if length args \<noteq> numParam then (Err (PlainErr ''params required''), sc)
     else bind_args E 0 args sc))"

end
