(* ===== verification/Driver_Conn.thy ===== *)
theory Driver_Conn
  imports Driver_Stmt
begin

text \<open>
  Connections of \<^verbatim>\<open>driver.go\<close>: the pool of prepared statements, executing and querying, transactions and the
  reset of a session. The mutexes of a connection are held for the whole of each operation modelled here, so an
  operation is one step. The test seam \<^verbatim>\<open>testResetConn\<close> and the \<^verbatim>\<open>Meta\<close> callbacks of a context are not part of the state.
\<close>

section \<open>The statement pool\<close>

definition shouldReuseStmtForQuery :: "Conn \<Rightarrow> string \<Rightarrow> bool" where
  "shouldReuseStmtForQuery c query =
     (case dc_reuseMode c of
        StatementCacheOn \<Rightarrow> True
      | StatementCacheOff \<Rightarrow> False
      | StatementCacheAuto \<Rightarrow>
          queryHead query \<in> set [''SELECT'', ''WITH'', ''INSERT'', ''UPDATE'', ''DELETE'', ''MERGE'', ''UPSERT'', ''REPLACE''])"

definition NewStmt :: "Conn \<Rightarrow> Stmt outcome \<times> Conn" where
  "NewStmt c = (case alloc_handle c of (r, c') \<Rightarrow> (bind_outcome r (\<lambda>h. Ok (new_driver_stmt h)), c'))"

text \<open>An operation whose statement is closed when it fails, the failure of closing being dropped.\<close>

definition or_close :: "drv_env \<Rightarrow> 'a outcome \<times> dstate \<Rightarrow> ('a \<Rightarrow> dstate \<Rightarrow> 'b outcome \<times> Conn) \<Rightarrow> 'b outcome \<times> Conn" where
  "or_close E r f =
     (case r of
        (Ok x, sc) \<Rightarrow> f x sc
      | (Err e, sc) \<Rightarrow> (Err e, snd (snd (Stmt_Close E sc)))
      | (Panic m, sc) \<Rightarrow> (Panic m, snd sc))"

definition fresh_stmt :: "drv_env \<Rightarrow> call_ctx \<Rightarrow> string \<Rightarrow> Conn \<Rightarrow> Stmt outcome \<times> Conn" where
  "fresh_stmt E cx query c =
     (case NewStmt c of
        (Ok s, c') \<Rightarrow>
          or_close E (Stmt_prepare E cx query (s\<lparr>ds_generation := dc_generation c\<rparr>, c')) (\<lambda>_ (s, c). (Ok s, c))
      | (Err e, c') \<Rightarrow> (Err e, c')
      | (Panic m, c') \<Rightarrow> (Panic m, c'))"

text \<open>Taking a statement for a query out of the pool: the fast slot, or the last one of the list for its text.\<close>

definition take_pooled :: "string \<Rightarrow> Conn \<Rightarrow> (Stmt \<times> Conn) option" where
  "take_pooled query c =
     (case dc_fast c of
        Some (key, s) \<Rightarrow> if key = query then Some (s, c\<lparr>dc_fast := None\<rparr>) else None
      | None \<Rightarrow> None)"

definition take_listed :: "string \<Rightarrow> Conn \<Rightarrow> (Stmt \<times> Conn) option" where
  "take_listed query c =
     (case map_of (dc_pool c) query of
        None \<Rightarrow> None
      | Some ss \<Rightarrow>
          if ss = [] then None
          else
            Some (last ss,
              c\<lparr>dc_pool := (if length ss = 1 then AList.delete query (dc_pool c)
                            else AList.update query (butlast ss) (dc_pool c)),
                dc_poolCount := dc_poolCount c - 1\<rparr>))"

definition take_stmt :: "string \<Rightarrow> Conn \<Rightarrow> (Stmt \<times> Conn) option" where
  "take_stmt query c = (case take_pooled query c of Some r \<Rightarrow> Some r | None \<Rightarrow> take_listed query c)"

definition pooled_stmts :: "Conn \<Rightarrow> (string \<times> Stmt) list" where
  "pooled_stmts c =
     (case dc_fast c of Some ks \<Rightarrow> [ks] | None \<Rightarrow> []) @ concat (map (\<lambda>(k, ss). map (Pair k) ss) (dc_pool c))"

definition reuse_stmt :: "drv_env \<Rightarrow> call_ctx \<Rightarrow> string \<Rightarrow> Stmt \<Rightarrow> Conn \<Rightarrow> Stmt outcome \<times> Conn" where
  "reuse_stmt E cx query s c =
     (let sc = (s\<lparr>ds_reachEOF := False\<rparr>, c)
      in if handle_supports_reprepare sc then or_close E (Stmt_prepare E cx query sc) (\<lambda>_ (s, c). (Ok s, c))
         else (Ok (fst sc), c))"

lemma same_conn: "\<exists>h. c = c\<lparr>dc_handle := h\<rparr>"
  by (rule exI [of _ "dc_handle c"]) simp

lemma with_handle_conn: "\<exists>h. snd (snd (with_handle f sc)) = (snd sc)\<lparr>dc_handle := h\<rparr>"
  using same_conn by (auto simp: with_handle_def split: prod.splits option.splits)

lemma stmt_wrapped_state [simp]: "snd (stmt_wrapped r) = snd r"
  by (auto simp: stmt_wrapped_def split: prod.splits outcome.splits)

lemma Stmt_Close_conn: "\<exists>h. snd (snd (Stmt_Close E sc)) = (snd sc)\<lparr>dc_handle := h\<rparr>"
proof (cases "ds_handle (fst sc)")
  case (Some h)
  obtain r s c where w: "stmt_wrapped (with_handle (Stmt_Free (de_now E)) sc) = (r, s, c)" by (metis prod_cases3)
  with Some have "snd (snd (Stmt_Close E sc)) = c" by (cases r) (simp_all add: Stmt_Close_def)
  also have "c = snd (snd (with_handle (Stmt_Free (de_now E)) sc))"
    using arg_cong [OF w, of snd] by simp
  finally show ?thesis using with_handle_conn [of "Stmt_Free (de_now E)" sc] by simp
qed (use same_conn in \<open>simp add: Stmt_Close_def\<close>)

definition pool_size :: "(string \<times> Stmt list) list \<Rightarrow> nat" where
  "pool_size p = sum_list (map (length \<circ> snd) p)"

lemma pool_size_delete: "map_of p k = Some ss \<Longrightarrow> pool_size (AList.delete k p) + length ss \<le> pool_size p"
proof (induction p)
  case (Cons x p)
  have "pool_size (AList.delete k p) \<le> pool_size p" for p
    by (induction p) (auto simp: pool_size_def AList.delete_eq)
  with Cons show ?case by (auto simp: pool_size_def AList.delete_eq split: if_splits)
qed simp

lemma pool_size_update: "map_of p k = Some ss \<Longrightarrow> pool_size (AList.update k v p) + length ss = pool_size p + length v"
  by (induction p) (auto simp: pool_size_def split: if_splits)

definition stored :: "Conn \<Rightarrow> nat" where
  "stored c = (case dc_fast c of Some _ \<Rightarrow> 1 | None \<Rightarrow> 0) + pool_size (dc_pool c)"

lemma stored_handle [simp]: "stored (c\<lparr>dc_handle := h\<rparr>) = stored c"
  by (simp add: stored_def)

lemma take_stmt_stored: "take_stmt query c = Some (s, c') \<Longrightarrow> stored c' < stored c"
proof -
  assume t: "take_stmt query c = Some (s, c')"
  show ?thesis
  proof (cases "take_pooled query c")
    case None
    with t obtain ss where "map_of (dc_pool c) query = Some ss" "ss \<noteq> []" "take_listed query c = Some (s, c')"
      by (auto simp: take_stmt_def take_listed_def split: option.splits if_splits)
    with pool_size_delete [of "dc_pool c" query ss] pool_size_update [of "dc_pool c" query ss "butlast ss"]
    show ?thesis by (cases "length ss = 1"; cases ss) (auto simp: take_listed_def stored_def)
  next
    case (Some r)
    with t show ?thesis by (auto simp: take_stmt_def take_pooled_def stored_def split: option.splits if_splits)
  qed
qed

function acquireQueryStmt :: "drv_env \<Rightarrow> call_ctx \<Rightarrow> string \<Rightarrow> Conn \<Rightarrow> Stmt outcome \<times> Conn" where
  "acquireQueryStmt E cx query c =
     (if \<not> shouldReuseStmtForQuery c query then fresh_stmt E cx query c
      else
        (case take_stmt query c of
           None \<Rightarrow> fresh_stmt E cx query c
         | Some (s, c') \<Rightarrow>
             if ds_generation s \<noteq> dc_generation c
             then acquireQueryStmt E cx query (snd (snd (Stmt_Close E (s, c'))))
             else reuse_stmt E cx query s c'))"
  by pat_completeness auto
termination
proof (relation "measure (\<lambda>(E, cx, q, c). stored c)", goal_cases)
  case (2 E cx query c r s c')
  obtain h where "snd (snd (Stmt_Close E (s, c'))) = c'\<lparr>dc_handle := h\<rparr>" using Stmt_Close_conn [of E "(s, c')"] by auto
  with take_stmt_stored [of query c s c'] 2 show ?case by simp
qed simp

declare acquireQueryStmt.simps [simp del]

definition keep_stmt :: "string \<Rightarrow> Stmt \<Rightarrow> Conn \<Rightarrow> Conn option" where
  "keep_stmt query s c =
     (if ds_generation s \<noteq> dc_generation c then None
      else if dc_fast c = None then Some (c\<lparr>dc_fast := Some (query, s)\<rparr>)
      else
        let ss = (case map_of (dc_pool c) query of Some ss \<Rightarrow> ss | None \<Rightarrow> [])
        in if dc_poolCount c < dc_poolCap c \<and> length ss < dc_poolPerKeyCap c
           then Some (c\<lparr>dc_pool := AList.update query (ss @ [s]) (dc_pool c), dc_poolCount := dc_poolCount c + 1\<rparr>)
           else None)"

definition releaseQueryStmt :: "drv_env \<Rightarrow> string \<Rightarrow> Stmt \<Rightarrow> bool \<Rightarrow> Conn \<Rightarrow> unit outcome \<times> Conn" where
  "releaseQueryStmt E query s reusable c =
     (let close = (\<lambda>s. case Stmt_Close E (s, c) of (r, _, c') \<Rightarrow> (r, c'))
      in if \<not> shouldReuseStmtForQuery c query \<or> \<not> reusable \<or> \<not> FetchCompleted (ds_handle s) then close s
         else
           let s = s\<lparr>ds_reachEOF := False, ds_handle := Stmt_ExecuteClean (ds_handle s)\<rparr>
           in (case keep_stmt query s c of Some c' \<Rightarrow> (Ok (), c') | None \<Rightarrow> close s))"

fun close_stmts :: "drv_env \<Rightarrow> Stmt list \<Rightarrow> Conn \<Rightarrow> gerr option outcome \<times> Conn" where
  "close_stmts E [] c = (Ok None, c)"
| "close_stmts E (s # ss) c =
     (case Stmt_Close E (s, c) of
        (Panic m, _, c) \<Rightarrow> (Panic m, c)
      | (r, _, c) \<Rightarrow>
          (case close_stmts E ss c of
             (Ok later, c) \<Rightarrow> (Ok (case r of Err e \<Rightarrow> Some e | _ \<Rightarrow> later), c)
           | other \<Rightarrow> other))"

text \<open>
  Go visits the keys of the pool in any order; the order of the list that stands for the map is as good as another,
  since it is arbitrary in every statement about the pool.
\<close>

definition closeQueryStmtPool :: "drv_env \<Rightarrow> Conn \<Rightarrow> gerr option outcome \<times> Conn" where
  "closeQueryStmtPool E c =
     (if dc_reuseMode c = StatementCacheOff \<or> dc_pool c = [] \<and> dc_fast c = None then (Ok None, c)
      else
        close_stmts E ((case dc_fast c of Some (_, s) \<Rightarrow> [s] | None \<Rightarrow> []) @ concat (map snd (dc_pool c)))
          (c\<lparr>dc_fast := None, dc_pool := [], dc_poolCount := 0\<rparr>))"

section \<open>Closing\<close>

text \<open>\<^verbatim>\<open>Disconnect\<close> of the handle of this connection; the list of its environment is in the theory of the handles.\<close>

definition handle_Disconnect :: "ConnHandle \<Rightarrow> unit outcome \<times> ConnHandle" where
  "handle_Disconnect h =
     (if hc_closed h then (Ok (), h)
      else
        (case hc_native h of
           None \<Rightarrow> (nil_deref, h\<lparr>hc_closed := True\<rparr>)
         | Some nc \<Rightarrow>
             (case conn_close nc of
                (e, nc') \<Rightarrow>
                  (case e of Some x \<Rightarrow> Err x | None \<Rightarrow> Ok (),
                   h\<lparr>hc_closed := True, hc_native := Some nc', hc_lastErr := StatusError_setErr e\<rparr>))))"

definition Conn_disconnect :: "Conn \<Rightarrow> unit outcome \<times> Conn" where
  "Conn_disconnect c =
     (case dc_handle c of
        None \<Rightarrow> (Ok (), c)
      | Some h \<Rightarrow>
          (case handle_Disconnect h of
             (Err e, h') \<Rightarrow> (let c' = c\<lparr>dc_handle := Some h'\<rparr> in (bind_outcome (Conn_ErrorOf e c') Err, c'))
           | (r, h') \<Rightarrow> (r, c\<lparr>dc_handle := Some h'\<rparr>)))"

definition Conn_close_once :: "drv_env \<Rightarrow> Conn \<Rightarrow> unit outcome \<times> Conn" where
  "Conn_close_once E c =
     (if dc_closeDone c then (Ok (), c)
      else
        (case closeQueryStmtPool E (c\<lparr>dc_closeDone := True, dc_generation := dc_generation c + 1\<rparr>) of
           (Ok poolErr, c) \<Rightarrow>
             (case Conn_disconnect c of
                (r, c) \<Rightarrow>
                  (case (poolErr, r) of (Some e, Ok u) \<Rightarrow> Err e | (Some e, Err e') \<Rightarrow> Err e | _ \<Rightarrow> r,
                   c\<lparr>dc_usedCount := dc_usedCount c + 1\<rparr>))
         | (Err e, c) \<Rightarrow> (Err e, c)
         | (Panic m, c) \<Rightarrow> (Panic m, c\<lparr>dc_usedCount := dc_usedCount c + 1\<rparr>)))"

definition Conn_Close :: "drv_env \<Rightarrow> Conn \<Rightarrow> unit outcome \<times> Conn" where
  "Conn_Close E c =
     (if dc_handle c = None then (Ok (), c)
      else (case Conn_close_once E c of (r, c) \<Rightarrow> (normalized r, c)))"

section \<open>Executing\<close>

record Result =
  rs_err :: "gerr option"
  rs_rowCount :: u64
  rs_stmtType :: StmtType
  rs_rowID :: u64
  rs_hasRowID :: bool

definition empty_result :: Result where
  "empty_result = \<lparr>rs_err = None, rs_rowCount = 0, rs_stmtType = 0, rs_rowID = 0, rs_hasRowID = False\<rparr>"

definition failed_result :: "gerr \<Rightarrow> Result" where
  "failed_result e = empty_result\<lparr>rs_err := Some e\<rparr>"

definition stmtTypeInvalidatesCatalog :: "StmtType \<Rightarrow> bool" where
  "stmtTypeInvalidatesCatalog typ \<longleftrightarrow>
     typ \<in> set [QPP_STMT_TYPE_ALTER_SESSION_SET, QPP_STMT_TYPE_CONNECT_USER, QPP_STMT_TYPE_CREATE_DATABASE,
       QPP_STMT_TYPE_DROP_DATABASE, QPP_STMT_TYPE_ALTER_DATABASE]"

text \<open>What a handle reports after an execution; the questions cannot fail on a handle that exists.\<close>

definition handle_result :: "StmtHandle option \<Rightarrow> Result \<Rightarrow> Result" where
  "handle_result h ret =
     (case GeneratedRowID h of (rid, has) \<Rightarrow>
        (let ret = ret\<lparr>rs_rowID := rid, rs_hasRowID := has\<rparr>
         in case GetStmtType h of
              Ok t \<Rightarrow> ret\<lparr>rs_stmtType := t\<rparr>
            | Err e \<Rightarrow> ret\<lparr>rs_err := Some e\<rparr>
            | Panic m \<Rightarrow> ret))"

definition direct_result :: "StmtHandle option \<Rightarrow> Result" where
  "direct_result h =
     handle_result h
       (case Stmt_RowCount h of
          Ok n \<Rightarrow> empty_result\<lparr>rs_rowCount := n\<rparr> | Err e \<Rightarrow> failed_result e | Panic m \<Rightarrow> empty_result)"

text \<open>A statement without arguments is sent as it is, on a statement of its own that is closed at the end.\<close>

definition exec_direct :: "drv_env \<Rightarrow> call_ctx \<Rightarrow> string \<Rightarrow> Conn \<Rightarrow> Result outcome \<times> Conn" where
  "exec_direct E cx query c =
     (case NewStmt c of
        (Err e, c) \<Rightarrow> (Ok (failed_result e), c)
      | (Panic m, c) \<Rightarrow> (Panic m, c)
      | (Ok s, c) \<Rightarrow>
          (let finish = (\<lambda>r s c. case Stmt_Close E (s, c) of (Panic m, _, c) \<Rightarrow> (Panic m, c) | (_, _, c) \<Rightarrow> (r, c))
           in case with_handle (Stmt_ExecDirect (de_lib E) cx query) (s, c) of
                (Panic m, s, c) \<Rightarrow> (Panic m, c)
              | (Err e, s, c) \<Rightarrow> finish (bind_outcome (Conn_ErrorOf e c) (\<lambda>e. Ok (failed_result e))) s c
              | (Ok u, s, c) \<Rightarrow>
                  (let ret = direct_result (ds_handle s)
                   in if stmtTypeInvalidatesCatalog (rs_stmtType ret)
                      then (case closeQueryStmtPool E (c\<lparr>dc_generation := dc_generation c + 1\<rparr>) of
                              (r, c) \<Rightarrow>
                                finish (bind_outcome r (\<lambda>e. Ok (case e of Some e \<Rightarrow> ret\<lparr>rs_err := Some e\<rparr> | None \<Rightarrow> ret))) s c)
                      else finish (Ok ret) s c)))"

text \<open>The deferred release: its error counts only when there is no other.\<close>

definition release_after :: "drv_env \<Rightarrow> string \<Rightarrow> Stmt \<Rightarrow> Result \<Rightarrow> Conn \<Rightarrow> Result outcome \<times> Conn" where
  "release_after E query s ret c =
     (case releaseQueryStmt E query s (rs_err ret = None) c of
        (Ok u, c) \<Rightarrow> (Ok ret, c)
      | (Err e, c) \<Rightarrow> (Ok (if rs_err ret = None then ret\<lparr>rs_err := Some e\<rparr> else ret), c)
      | (Panic m, c) \<Rightarrow> (Panic m, c))"

definition exec_prepared :: "drv_env \<Rightarrow> call_ctx \<Rightarrow> string \<Rightarrow> anyval list \<Rightarrow> Conn \<Rightarrow> Result outcome \<times> Conn" where
  "exec_prepared E cx query args c =
     (case acquireQueryStmt E cx query c of
        (Err e, c) \<Rightarrow> (Ok (failed_result e), c)
      | (Panic m, c) \<Rightarrow> (Panic m, c)
      | (Ok s, c) \<Rightarrow>
          (case bindParams E args (s, c) of
             (Panic m, _, c) \<Rightarrow> (Panic m, c)
           | (Err e, s, c) \<Rightarrow> release_after E query s (failed_result e) c
           | (Ok u, sc) \<Rightarrow>
               (case Stmt_execute E cx sc of
                  (Panic m, _, c) \<Rightarrow> (Panic m, c)
                | (r, s, c) \<Rightarrow>
                    (let ret = (case r of Err e \<Rightarrow> failed_result e | _ \<Rightarrow> empty_result);
                         ret = handle_result (ds_handle s) (ret\<lparr>rs_rowCount := ds_rowCount s\<rparr>)
                     in release_after E query s ret c))))"

definition Conn_exec :: "drv_env \<Rightarrow> call_ctx \<Rightarrow> string \<Rightarrow> anyval list \<Rightarrow> Conn \<Rightarrow> Result outcome \<times> Conn" where
  "Conn_exec E cx query args c =
     (if args = [] then exec_direct E cx query c else exec_prepared E cx query args c)"

definition setTransactionState :: "string \<Rightarrow> Conn \<Rightarrow> Conn" where
  "setTransactionState query c =
     (let verb = leadingSQLKeyword query
      in if verb = ''USE'' then c\<lparr>dc_dbDirty := TrimSpace (dc_database c) \<noteq> []\<rparr>
         else if verb \<in> set [''BEGIN'', ''COMMIT'', ''ROLLBACK''] then c\<lparr>dc_inTx := (verb = ''BEGIN'')\<rparr>
         else c)"

definition Conn_ExecContext ::
  "drv_env \<Rightarrow> call_ctx \<Rightarrow> string \<Rightarrow> (string \<times> anyval) list \<Rightarrow> Conn \<Rightarrow> Result outcome \<times> Conn" where
  "Conn_ExecContext E cx query args c =
     (if dc_handle c = None then (Err ErrBadConn, c)
      else
        (case namedValuesToAny args of
           Err e \<Rightarrow> (Err e, c)
         | Panic m \<Rightarrow> (Panic m, c)
         | Ok vals \<Rightarrow>
             (case Conn_exec E cx query vals c of
                (Ok result, c) \<Rightarrow>
                  (case normalizeError (rs_err result) of
                     Some e \<Rightarrow> (Err e, c)
                   | None \<Rightarrow> (Ok result, setTransactionState query c))
              | (r, c) \<Rightarrow> (r, c))))"

section \<open>Transactions\<close>

definition BeginTx :: "drv_env \<Rightarrow> call_ctx \<Rightarrow> int \<Rightarrow> bool \<Rightarrow> Conn \<Rightarrow> unit outcome \<times> Conn" where
  "BeginTx E cx isolation readOnly c =
     (if isolation \<noteq> 0 then (Err (PlainErr ''machbase transaction isolation level is not supported''), c)
      else if readOnly then (Err (PlainErr ''machbase read-only transactions are not supported''), c)
      else if dc_handle c = None then (Err ErrBadConn, c)
      else (case Conn_ExecContext E cx ''BEGIN'' [] c of (r, c) \<Rightarrow> (bind_outcome r (\<lambda>_. Ok ()), c)))"

definition Conn_Begin :: "drv_env \<Rightarrow> Conn \<Rightarrow> unit outcome \<times> Conn" where
  "Conn_Begin E = BeginTx E (Background (de_now E)) 0 False"

text \<open>A transaction is its flag \<open>done\<close> and the connection.\<close>

definition tx_finish :: "drv_env \<Rightarrow> string \<Rightarrow> bool \<times> Conn \<Rightarrow> unit outcome \<times> bool \<times> Conn" where
  "tx_finish E sqlText tx =
     (case tx of (finished, c) \<Rightarrow>
        if finished then (Err ErrTxDone, tx)
        else
          (case Conn_ExecContext E (Background (de_now E)) sqlText [] c of
             (Ok r, c) \<Rightarrow> (Ok (), True, c)
           | (Err e, c) \<Rightarrow> (Err e, finished, c)
           | (Panic m, c) \<Rightarrow> (Panic m, finished, c)))"

definition tx_Commit :: "drv_env \<Rightarrow> bool \<times> Conn \<Rightarrow> unit outcome \<times> bool \<times> Conn" where
  "tx_Commit E = tx_finish E ''COMMIT''"

definition tx_Rollback :: "drv_env \<Rightarrow> bool \<times> Conn \<Rightarrow> unit outcome \<times> bool \<times> Conn" where
  "tx_Rollback E = tx_finish E ''ROLLBACK''"

text \<open>A statement of the reset: when it fails, the connection is closed and reported as bad.\<close>

definition reset_exec :: "drv_env \<Rightarrow> call_ctx \<Rightarrow> string \<Rightarrow> Conn \<Rightarrow> unit outcome \<times> Conn" where
  "reset_exec E cx query c =
     (case Conn_exec E cx query [] c of
        (Ok r, c) \<Rightarrow>
          if normalizeError (rs_err r) \<noteq> None
          then (case Conn_Close E c of (Panic m, c) \<Rightarrow> (Panic m, c) | (_, c) \<Rightarrow> (Err ErrBadConn, c))
          else (Ok (), c)
      | (Err e, c) \<Rightarrow> (Err e, c)
      | (Panic m, c) \<Rightarrow> (Panic m, c))"

definition ResetSession :: "drv_env \<Rightarrow> call_ctx \<Rightarrow> Conn \<Rightarrow> unit outcome \<times> Conn" where
  "ResetSession E cx c =
     (if dc_handle c = None then (Err ErrBadConn, c)
      else
        and_then
          (if dc_inTx c
           then and_then (reset_exec E cx ''ROLLBACK'' c) (\<lambda>_ c. (Ok (), setTransactionState ''ROLLBACK'' c))
           else (Ok (), c)) (\<lambda>_ c.
        if dc_dbDirty c \<and> TrimSpace (dc_database c) \<noteq> []
        then and_then (reset_exec E cx (''USE '' @ QuoteIdentifier (dc_database c)) c) (\<lambda>_ c. (Ok (), c\<lparr>dc_dbDirty := False\<rparr>))
        else (Ok (), c)))"

definition Conn_IsValid :: "Conn \<Rightarrow> bool" where
  "Conn_IsValid c = ConnHandle_IsOpen (dc_handle c)"

definition PrepareContext :: "drv_env \<Rightarrow> call_ctx \<Rightarrow> string \<Rightarrow> Conn \<Rightarrow> Stmt outcome \<times> Conn" where
  "PrepareContext E cx query c =
     (if dc_handle c = None then (Err ErrBadConn, c)
      else
        (case NewStmt c of
           (Ok s, c) \<Rightarrow>
             (case or_close E (Stmt_prepare E cx query (s, c)) (\<lambda>_ (s, c). (Ok s, c)) of (r, c) \<Rightarrow> (normalized r, c))
         | (r, c) \<Rightarrow> (r, c)))"

definition Conn_Prepare :: "drv_env \<Rightarrow> string \<Rightarrow> Conn \<Rightarrow> Stmt outcome \<times> Conn" where
  "Conn_Prepare E = PrepareContext E (Background (de_now E))"

end
