(* ===== verification/Driver_Rows.thy ===== *)
theory Driver_Rows
  imports Driver_Conn
begin

text \<open>
  Queries, result sets and single rows of \<^verbatim>\<open>driver.go\<close>, prepared statements of the \<^verbatim>\<open>database/sql\<close> interface, and
  the connector. A result set works on the statement it was opened on: the state of its operations is the result
  set with that statement and the connection; \<open>dr_open\<close> says that it still points to the statement.
\<close>

section \<open>Result sets\<close>

record Rows =
  dr_open :: bool
  dr_err :: "gerr option"
  dr_row :: "goval list"
  dr_rowsCount :: u64
  dr_stmtType :: StmtType
  dr_isPrepared :: bool
  dr_pooled :: bool
  dr_key :: string
  dr_cx :: call_ctx

definition new_rows :: "call_ctx \<Rightarrow> bool \<Rightarrow> bool \<Rightarrow> string \<Rightarrow> Rows" where
  "new_rows cx prepared pooled key =
     \<lparr>dr_open = True, dr_err = None, dr_row = [], dr_rowsCount = 0, dr_stmtType = 0, dr_isPrepared = prepared,
      dr_pooled = pooled, dr_key = key, dr_cx = cx\<rparr>"

text \<open>A failure after the statement was acquired: the statement is given up, and the error of that comes first.\<close>

definition give_up :: "drv_env \<Rightarrow> string \<Rightarrow> gerr \<Rightarrow> dstate \<Rightarrow> 'a outcome \<times> Conn" where
  "give_up E query e sc =
     (case releaseQueryStmt E query (fst sc) False (snd sc) of
        (Ok u, c) \<Rightarrow> (Err e, c)
      | (Err e', c) \<Rightarrow> (Err e', c)
      | (Panic m, c) \<Rightarrow> (Panic m, c))"

definition Conn_query :: "drv_env \<Rightarrow> call_ctx \<Rightarrow> string \<Rightarrow> anyval list \<Rightarrow> Conn \<Rightarrow> (Rows \<times> Stmt) outcome \<times> Conn" where
  "Conn_query E cx query args c =
     (case acquireQueryStmt E cx query c of
        (Err e, c) \<Rightarrow> (Err e, c)
      | (Panic m, c) \<Rightarrow> (Panic m, c)
      | (Ok s, c) \<Rightarrow>
          (case and_then (bindParams E args (s, c)) (\<lambda>_ sc. Stmt_execute E cx sc) of
             (Err e, sc) \<Rightarrow> give_up E query e sc
           | (Panic m, sc) \<Rightarrow> (Panic m, snd sc)
           | (Ok u, s, c) \<Rightarrow>
               (case GetStmtType (ds_handle s) of
                  Err e \<Rightarrow> give_up E query e (s, c)
                | Panic m \<Rightarrow> (Panic m, c)
                | Ok typ \<Rightarrow>
                    (Ok ((new_rows cx False True query)
                           \<lparr>dr_stmtType := typ, dr_rowsCount := (if StmtType_IsSelect typ then 0 else ds_rowCount s)\<rparr>, s), c))))"

definition Conn_QueryContext ::
  "drv_env \<Rightarrow> call_ctx \<Rightarrow> string \<Rightarrow> (string \<times> anyval) list \<Rightarrow> Conn \<Rightarrow> (Rows \<times> Stmt) outcome \<times> Conn" where
  "Conn_QueryContext E cx query args c =
     (if dc_handle c = None then (Err ErrBadConn, c)
      else
        (case namedValuesToAny args of
           Err e \<Rightarrow> (Err e, c)
         | Panic m \<Rightarrow> (Panic m, c)
         | Ok vals \<Rightarrow>
             (case Conn_query E cx query vals c of
                (Ok r, c) \<Rightarrow> (Ok r, setTransactionState query c)
              | (r, c) \<Rightarrow> (normalized r, c))))"

type_synonym rows_state = "Rows \<times> Stmt \<times> Conn"

definition Rows_advance :: "drv_env \<Rightarrow> rows_state \<Rightarrow> bool outcome \<times> rows_state" where
  "Rows_advance E st =
     (case st of (r, s, c) \<Rightarrow>
        if \<not> dr_open r \<or> ds_reachEOF s then (Ok False, st)
        else
          (case Stmt_fetch E (dr_cx r) (s, c) of
             (Ok row, s, c) \<Rightarrow> (Ok True, (r\<lparr>dr_row := row, dr_rowsCount := dr_rowsCount r + 1\<rparr>, s, c))
           | (Err e, s, c) \<Rightarrow> (Ok False, (if e \<noteq> EOF then r\<lparr>dr_err := Some e\<rparr> else r, s, c))
           | (Panic m, s, c) \<Rightarrow> (Panic m, (r, s, c))))"

text \<open>The destination has a slot for each column of the result.\<close>

fun fill_dest :: "golib \<Rightarrow> nat \<Rightarrow> goval list \<Rightarrow> anyval list outcome" where
  "fill_dest lib 0 row = Ok []"
| "fill_dest lib (Suc n) [] = bind_outcome (fill_dest lib n []) (\<lambda>ds. Ok (ANil # ds))"
| "fill_dest lib (Suc n) (v # vs) =
     bind_outcome (toDriverValue lib (AVal v)) (\<lambda>d. bind_outcome (fill_dest lib n vs) (\<lambda>ds. Ok (d # ds)))"

definition Rows_Next :: "drv_env \<Rightarrow> nat \<Rightarrow> rows_state \<Rightarrow> anyval list outcome \<times> rows_state" where
  "Rows_Next E n st =
     (case Rows_advance E st of
        (Ok False, st) \<Rightarrow>
          (case normalizeError (dr_err (fst st)) of Some e \<Rightarrow> (Err e, st) | None \<Rightarrow> (Err EOF, st))
      | (Ok True, st) \<Rightarrow> (fill_dest (de_lib E) n (dr_row (fst st)), st)
      | (Err e, st) \<Rightarrow> (Err e, st)
      | (Panic m, st) \<Rightarrow> (Panic m, st))"

definition Rows_Close :: "drv_env \<Rightarrow> rows_state \<Rightarrow> unit outcome \<times> rows_state" where
  "Rows_Close E st =
     (case st of (r, s, c) \<Rightarrow>
        if \<not> dr_open r then (Ok (), st)
        else
          let r = r\<lparr>dr_open := False\<rparr>
          in if dr_isPrepared r then
               (let s = s\<lparr>ds_reachEOF := False\<rparr>
                in if \<not> FetchCompleted (ds_handle s)
                   then (case renewHandle E (dr_cx r) (s, c) of (res, s, c) \<Rightarrow> (res, (r, s, c)))
                   else (Ok (), (r, s\<lparr>ds_handle := Stmt_ExecuteClean (ds_handle s)\<rparr>, c)))
             else if dr_pooled r
             then (case releaseQueryStmt E (dr_key r) s True c of (res, c) \<Rightarrow> (res, (r, s, c)))
             else (case Stmt_Close E (s, c) of (res, s, c) \<Rightarrow> (normalized res, (r, s, c))))"

definition Rows_IsFetchable :: "rows_state \<Rightarrow> bool" where
  "Rows_IsFetchable st = (case st of (r, s, c) \<Rightarrow> dr_open r \<and> ds_handle s \<noteq> None \<and> is_select (ds_handle s))"

definition Rows_Message :: "Rows \<Rightarrow> string" where
  "Rows_Message r = formatResultMessage (dr_err r) (dr_stmtType r) (sint (dr_rowsCount r))"

definition Result_Message :: "Result \<Rightarrow> string" where
  "Result_Message rs = formatResultMessage (rs_err rs) (rs_stmtType rs) (sint (rs_rowCount rs))"

definition LastInsertId :: "Result option \<Rightarrow> int outcome" where
  "LastInsertId rs =
     (case rs of
        Some r \<Rightarrow> if rs_hasRowID r then Ok (sint (rs_rowID r)) else Err (PlainErr ''not implemented LastInsertId'')
      | None \<Rightarrow> Err (PlainErr ''not implemented LastInsertId''))"

section \<open>Column information\<close>

definition desc_column :: "ColumnDesc \<Rightarrow> Column" where
  "desc_column d =
     \<lparr>col_Id = 0, col_Name = cd_name d, col_Type = SqlType_ColumnType (cd_type d), col_Length = cd_size d,
      col_DataType = SqlType_DataType (cd_type d), col_Flag = 0, col_Nullable = cd_nullable d,
      col_Nullability = cd_nullability d, col_PrimaryKey = cd_primaryKey d, col_ElementType = cd_elementType d,
      col_ElementPrecision = cd_elementPrecision d, col_Scale = cd_scale d\<rparr>"

definition Rows_columns :: "Rows \<Rightarrow> Stmt \<Rightarrow> Columns" where
  "Rows_columns r s = (if dr_open r then map desc_column (ds_columnDesc s) else [])"

definition Rows_Columns :: "Rows \<Rightarrow> Stmt \<Rightarrow> string list" where
  "Rows_Columns r s = Columns_Names (Rows_columns r s)"

definition Rows_column :: "Rows \<Rightarrow> Stmt \<Rightarrow> int \<Rightarrow> Column option" where
  "Rows_column r s i =
     (let cols = Rows_columns r s in if i < 0 \<or> i \<ge> int (length cols) then None else Some (cols ! nat i))"

definition ColumnTypeDatabaseTypeName :: "Rows \<Rightarrow> Stmt \<Rightarrow> int \<Rightarrow> string" where
  "ColumnTypeDatabaseTypeName r s i =
     (case Rows_column r s i of
        None \<Rightarrow> []
      | Some col \<Rightarrow>
          if col_Type col \<noteq> ColumnTypeUnknown then ToUpper (ColumnType_String (col_Type col)) else ToUpper (col_DataType col))"

definition ColumnTypeLength :: "Rows \<Rightarrow> Stmt \<Rightarrow> int \<Rightarrow> int \<times> bool" where
  "ColumnTypeLength r s i =
     (case Rows_column r s i of
        None \<Rightarrow> (0, False)
      | Some col \<Rightarrow> if col_Length col > 0 then (col_Length col, True) else (0, False))"

definition ColumnTypeNullable :: "Rows \<Rightarrow> Stmt \<Rightarrow> int \<Rightarrow> bool \<times> bool" where
  "ColumnTypeNullable r s i =
     (case Rows_column r s i of
        None \<Rightarrow> (True, False)
      | Some col \<Rightarrow>
          if col_Nullability col = NullabilityUnknown then (True, True)
          else (col_Nullability col = NullabilityNullable, True))"

text \<open>This one reads the descriptions of the statement without asking whether the result set is still open, which
  dereferences nil after \<^verbatim>\<open>Close\<close>.\<close>

definition ColumnTypePrecisionScale :: "Rows \<Rightarrow> Stmt \<Rightarrow> int \<Rightarrow> (int \<times> int \<times> bool) outcome" where
  "ColumnTypePrecisionScale r s i =
     (if i < 0 then Ok (0, 0, False)
      else if \<not> dr_open r then nil_deref
      else if i \<ge> int (length (ds_columnDesc s)) then Ok (0, 0, False)
      else
        let d = ds_columnDesc s ! nat i
        in if cd_type d \<in> set [SqlTypeFloat, SqlTypeDouble, SqlTypeDecimal]
           then Ok (if cd_size d \<le> 0 then (0, cd_scale d, False) else (cd_size d, cd_scale d, True))
           else if SqlType_IsArray (cd_type d) then Ok (cd_elementPrecision d, cd_scale d, True)
           else Ok (0, 0, False))"

definition data_scan_type :: "DataType \<Rightarrow> string" where
  "data_scan_type d =
     switch d
     [([DataTypeInt16], ''int16''), ([DataTypeUInt16], ''uint16''), ([DataTypeInt32], ''int32''), ([DataTypeUInt32], ''uint32''),
      ([DataTypeInt64], ''int64''), ([DataTypeUInt64], ''uint64''), ([DataTypeFloat32], ''float32''), ([DataTypeFloat64], ''float64''),
      ([DataTypeDatetime], ''time.Time''), ([DataTypeBinary], ''[]uint8''), ([DataTypeIPv4, DataTypeIPv6], ''net.IP''),
      ([DataTypeString], ''string''), ([DataTypeJSON], ''api.JSONString'')]
     ''interface {}''"

definition ColumnTypeScanType :: "Rows \<Rightarrow> Stmt \<Rightarrow> int \<Rightarrow> string" where
  "ColumnTypeScanType r s i =
     (case Rows_column r s i of
        None \<Rightarrow> ''interface {}''
      | Some col \<Rightarrow>
          switch (col_Type col)
          [([ColumnTypeShort], ''int16''), ([ColumnTypeUShort], ''uint16''), ([ColumnTypeInteger], ''int32''),
           ([ColumnTypeUInteger], ''uint32''), ([ColumnTypeLong], ''int64''), ([ColumnTypeULong], ''uint64''),
           ([ColumnTypeFloat], ''float32''), ([ColumnTypeDouble], ''float64''), ([ColumnTypeDatetime], ''time.Time''),
           ([ColumnTypeDecimal], ''string''),
           ([ColumnTypeInt16Array, ColumnTypeUInt16Array, ColumnTypeInt32Array, ColumnTypeUInt32Array, ColumnTypeInt64Array,
             ColumnTypeUInt64Array, ColumnTypeFloatArray, ColumnTypeDoubleArray, ColumnTypeDecimalArray], ''api.Array''),
           ([ColumnTypeBinary, ColumnTypeBlob, ColumnTypeClob], ''[]uint8''), ([ColumnTypeIPv4, ColumnTypeIPv6], ''net.IP''),
           ([ColumnTypeVarchar, ColumnTypeText], ''string''), ([ColumnTypeJSON], ''api.JSONString'')]
          (data_scan_type (col_DataType col)))"

section \<open>Single rows\<close>

record Row =
  ro_err :: "gerr option"
  ro_values :: "goval list"
  ro_columns :: Columns
  ro_rowCount :: u64
  ro_stmtType :: StmtType

definition empty_row :: Row where
  "empty_row = \<lparr>ro_err = None, ro_values = [], ro_columns = [], ro_rowCount = 0, ro_stmtType = 0\<rparr>"

definition failed_row :: "gerr \<Rightarrow> Row" where
  "failed_row e = empty_row\<lparr>ro_err := Some e\<rparr>"

text \<open>The row that a fetch leaves in \<^verbatim>\<open>ret\<close>; the end of the result means that there is no row.\<close>

definition fetched_row :: "goval list outcome \<Rightarrow> Row \<Rightarrow> Row outcome" where
  "fetched_row f ret =
     (case f of
        Ok values \<Rightarrow> Ok (ret\<lparr>ro_values := values\<rparr>)
      | Err e \<Rightarrow> Ok (ret\<lparr>ro_err := Some (if e = EOF then ErrNoRows else e)\<rparr>)
      | Panic m \<Rightarrow> Panic m)"

definition row_of_query :: "drv_env \<Rightarrow> call_ctx \<Rightarrow> string \<Rightarrow> anyval list \<Rightarrow> dstate \<Rightarrow> Row outcome \<times> dstate" where
  "row_of_query E cx query args sc =
     (case and_then (bindParams E args sc) (\<lambda>_ sc. Stmt_execute E cx sc) of
        (Err e, sc) \<Rightarrow> (Ok (failed_row e), sc)
      | (Panic m, sc) \<Rightarrow> (Panic m, sc)
      | (Ok u, s, c) \<Rightarrow>
          (let c = setTransactionState query c
           in case GetStmtType (ds_handle s) of
                Err e \<Rightarrow> (Ok (failed_row e), (s, c))
              | Panic m \<Rightarrow> (Panic m, (s, c))
              | Ok typ \<Rightarrow>
                  (let ret = empty_row\<lparr>ro_stmtType := typ, ro_rowCount := ds_rowCount s, ro_columns := map desc_column (ds_columnDesc s)\<rparr>
                   in case Stmt_fetch E cx (s, c) of (f, sc) \<Rightarrow> (fetched_row f ret, sc))))"

definition Conn_queryRow :: "drv_env \<Rightarrow> call_ctx \<Rightarrow> string \<Rightarrow> anyval list \<Rightarrow> Conn \<Rightarrow> Row outcome \<times> Conn" where
  "Conn_queryRow E cx query args c =
     (case acquireQueryStmt E cx query c of
        (Err e, c) \<Rightarrow> (Ok (failed_row e), c)
      | (Panic m, c) \<Rightarrow> (Panic m, c)
      | (Ok s, c) \<Rightarrow>
          (case row_of_query E cx query args (s, c) of
             (Ok ret, s, c) \<Rightarrow>
               (case releaseQueryStmt E query s (ro_err ret = None \<or> ro_err ret = Some ErrNoRows) c of
                  (Ok u, c) \<Rightarrow> (Ok ret, c)
                | (Err e, c) \<Rightarrow> (Ok (if ro_err ret = None then ret\<lparr>ro_err := Some e\<rparr> else ret), c)
                | (Panic m, c) \<Rightarrow> (Panic m, c))
           | (Err e, sc) \<Rightarrow> (Err e, snd sc)
           | (Panic m, sc) \<Rightarrow> (Panic m, snd sc)))"

definition Row_Message :: "Row \<Rightarrow> string" where
  "Row_Message r = formatResultMessage (ro_err r) (ro_stmtType r) (sint (ro_rowCount r))"

section \<open>Prepared statements\<close>

definition renewed :: "drv_env \<Rightarrow> call_ctx \<Rightarrow> dstate \<Rightarrow> unit outcome \<times> dstate" where
  "renewed E cx sc = and_then (discardOpenCursor E cx sc) (\<lambda>_ sc. reprepareIfSupported E cx sc)"

definition bound_execution :: "drv_env \<Rightarrow> call_ctx \<Rightarrow> anyval list \<Rightarrow> dstate \<Rightarrow> unit outcome \<times> dstate" where
  "bound_execution E cx vals sc = and_then (bindParams E vals sc) (\<lambda>_ sc. Stmt_execute E cx sc)"

text \<open>\<^verbatim>\<open>exec\<close>: the deferred cleaning of the handle is set up once the statement has been renewed; the statement type
  is read before it.\<close>

definition Stmt_exec :: "drv_env \<Rightarrow> call_ctx \<Rightarrow> anyval list \<Rightarrow> dstate \<Rightarrow> Result outcome \<times> dstate" where
  "Stmt_exec E cx vals sc =
     (if ds_handle (fst sc) = None then (Err ErrBadConn, sc)
      else
        (case renewed E cx sc of
           (Ok u, sc) \<Rightarrow>
             (case bound_execution E cx vals sc of
                (Panic m, sc) \<Rightarrow> (Panic m, sc)
              | (r, s, c) \<Rightarrow>
                  (let ret = (case r of
                                Err e \<Rightarrow> failed_result e
                              | _ \<Rightarrow> handle_result (ds_handle s) (empty_result\<lparr>rs_rowCount := ds_rowCount s\<rparr>));
                       s' = s\<lparr>ds_handle := Stmt_ExecuteClean (ds_handle s)\<rparr>
                   in case normalizeError (rs_err ret) of
                        Some e \<Rightarrow> (Err e, (s', c))
                      | None \<Rightarrow> (Ok ret, (s', setTransactionState (ds_sqlText s) c))))
         | (Err e, sc) \<Rightarrow> (normalized (Err e), sc)
         | (Panic m, sc) \<Rightarrow> (Panic m, sc)))"

definition Stmt_ExecContext :: "drv_env \<Rightarrow> call_ctx \<Rightarrow> (string \<times> anyval) list \<Rightarrow> dstate \<Rightarrow> Result outcome \<times> dstate" where
  "Stmt_ExecContext E cx args sc =
     (case namedValuesToAny args of Ok vals \<Rightarrow> Stmt_exec E cx vals sc | Err e \<Rightarrow> (Err e, sc) | Panic m \<Rightarrow> (Panic m, sc))"

definition Stmt_Exec :: "drv_env \<Rightarrow> anyval list \<Rightarrow> dstate \<Rightarrow> Result outcome \<times> dstate" where
  "Stmt_Exec E args sc = Stmt_exec E (Background (de_now E)) (valuesToAny args) sc"

text \<open>A non-query counts no rows here and a query the rows of its statement, the other way round than in \<^verbatim>\<open>Conn.query\<close>.\<close>

definition Stmt_queryRows :: "drv_env \<Rightarrow> call_ctx \<Rightarrow> anyval list \<Rightarrow> dstate \<Rightarrow> Rows outcome \<times> dstate" where
  "Stmt_queryRows E cx vals sc =
     (if ds_handle (fst sc) = None then (Err ErrBadConn, sc)
      else
        (case and_then (renewed E cx sc) (\<lambda>_ sc. bound_execution E cx vals sc) of
           (Ok u, s, c) \<Rightarrow>
             (case GetStmtType (ds_handle s) of
                Err e \<Rightarrow> (normalized (Err e), (s, c))
              | Panic m \<Rightarrow> (Panic m, (s, c))
              | Ok typ \<Rightarrow>
                  (Ok ((new_rows cx True False [])
                         \<lparr>dr_stmtType := typ, dr_rowsCount := (if \<not> StmtType_IsSelect typ then 0 else ds_rowCount s)\<rparr>),
                   (s, setTransactionState (ds_sqlText s) c)))
         | (Err e, sc) \<Rightarrow> (normalized (Err e), sc)
         | (Panic m, sc) \<Rightarrow> (Panic m, sc)))"

definition Stmt_QueryContext :: "drv_env \<Rightarrow> call_ctx \<Rightarrow> (string \<times> anyval) list \<Rightarrow> dstate \<Rightarrow> Rows outcome \<times> dstate" where
  "Stmt_QueryContext E cx args sc =
     (case namedValuesToAny args of Ok vals \<Rightarrow> Stmt_queryRows E cx vals sc | Err e \<Rightarrow> (Err e, sc) | Panic m \<Rightarrow> (Panic m, sc))"

definition Stmt_Query :: "drv_env \<Rightarrow> anyval list \<Rightarrow> dstate \<Rightarrow> Rows outcome \<times> dstate" where
  "Stmt_Query E args sc = Stmt_queryRows E (Background (de_now E)) (valuesToAny args) sc"

definition Stmt_QueryRow :: "drv_env \<Rightarrow> call_ctx \<Rightarrow> anyval list \<Rightarrow> dstate \<Rightarrow> Row outcome \<times> dstate" where
  "Stmt_QueryRow E cx params sc =
     (case and_then (renewed E cx sc) (\<lambda>_ sc. bound_execution E cx params sc) of
        (Err e, sc) \<Rightarrow> (Ok (failed_row e), sc)
      | (Panic m, sc) \<Rightarrow> (Panic m, sc)
      | (Ok u, s, c) \<Rightarrow>
          (case Stmt_fetch E cx (s, c) of
             (f, s', c) \<Rightarrow>
               (bind_outcome (fetched_row f (empty_row\<lparr>ro_rowCount := ds_rowCount s\<rparr>)) (\<lambda>ret.
                Ok (if ro_err ret = None then ret\<lparr>ro_columns := map desc_column (ds_columnDesc s')\<rparr> else ret)), (s', c))))"

definition Conn_Ping :: "drv_env \<Rightarrow> call_ctx \<Rightarrow> Conn \<Rightarrow> unit outcome \<times> Conn" where
  "Conn_Ping E cx c =
     (if dc_handle c = None then (Err ErrBadConn, c)
      else
        (case Conn_QueryContext E cx ''SELECT 1'' [] c of
           (Ok (r, s), c) \<Rightarrow>
             (case Rows_Close E (r, s, c) of (Panic m, _, _, c) \<Rightarrow> (Panic m, c) | (_, _, _, c) \<Rightarrow> (Ok (), c))
         | (Err e, c) \<Rightarrow> (Err e, c)
         | (Panic m, c) \<Rightarrow> (Panic m, c)))"

section \<open>Connectors\<close>

record Connector =
  cn_cfg :: Config
  cn_open :: bool
  cn_world :: world

definition empty_world :: world where
  "empty_world = \<lparr>w_env = Initialize, w_heap = Map.empty, w_next = 0\<rparr>"

definition OpenConnector :: "dsn_lib \<Rightarrow> key_lib \<Rightarrow> string \<Rightarrow> Connector outcome" where
  "OpenConnector dl kl dsn =
     bind_outcome (ParseDSN dl dsn) (\<lambda>cfg.
     bind_outcome (Config_validate kl (Config_normalize cfg)) (\<lambda>cfg.
     Ok \<lparr>cn_cfg = cfg, cn_open = True, cn_world = empty_world\<rparr>))"

definition conn_config :: "Config \<Rightarrow> ConnConfig" where
  "conn_config cfg =
     \<lparr>cfg_Host = cf_Host cfg, cfg_Port = cf_Port cfg, cfg_User = ToUpper (cf_loginName cfg), cfg_Password = cf_Password cfg,
      cfg_AuthMode = cf_AuthMode cfg, cfg_AuthSigScheme = cf_AuthSigScheme cfg,
      cfg_AlternativeServers = cf_AlternativeServers cfg, cfg_FetchRows = cf_FetchRows cfg, cfg_TrackIOBytes = cf_IOMetrics cfg,
      cfg_PrivateKey = cf_key cfg\<rparr>"

definition new_driver_conn :: "Config \<Rightarrow> ConnHandle \<Rightarrow> Conn" where
  "new_driver_conn cfg h =
     \<lparr>dc_handle = Some h, dc_user = ToUpper (cf_loginName cfg), dc_usedCount = 0, dc_closeDone = False, dc_inTx = False,
      dc_database = cf_Database cfg, dc_dbDirty = False, dc_reuseMode = cf_StatementCache cfg, dc_fast = None, dc_pool = [],
      dc_poolCount = 0, dc_poolCap = 128, dc_poolPerKeyCap = 8, dc_generation = 0\<rparr>"

text \<open>
  A connection takes its handle over from the environment: from then on the driver connection carries it. The
  error of closing after a failed \<^verbatim>\<open>USE\<close> is joined to the first one, which is the one kept here.
\<close>

definition Connector_Connect ::
  "drv_env \<Rightarrow> crypto_lib \<Rightarrow> (string \<Rightarrow> dialed outcome) \<Rightarrow> call_ctx \<Rightarrow> Connector \<Rightarrow> Conn outcome \<times> Connector" where
  "Connector_Connect E cl dial cx cn =
     (if \<not> cn_open cn then (Err ErrBadConn, cn)
      else
        (case Env_Connect cl dial (cx_now cx) (conn_config (cn_cfg cn)) (cn_world cn) of
           (Err e, w) \<Rightarrow> (normalized (Err (machcli_error (ev_lastErr (w_env w)) e)), cn\<lparr>cn_world := w\<rparr>)
         | (Panic m, w) \<Rightarrow> (Panic m, cn\<lparr>cn_world := w\<rparr>)
         | (Ok a, w) \<Rightarrow>
             (case w_heap w a of
                None \<Rightarrow> (nil_deref, cn\<lparr>cn_world := w\<rparr>)
              | Some h \<Rightarrow>
                  (let c = new_driver_conn (cn_cfg cn) h; db = cf_Database (cn_cfg cn)
                   in if TrimSpace db \<noteq> [] \<and> \<not> EqualFold db defaultDatabase
                      then (case Conn_exec E cx (''USE '' @ QuoteIdentifier db) [] c of
                              (Ok r, c) \<Rightarrow>
                                (case rs_err r of
                                   None \<Rightarrow> (Ok c, cn\<lparr>cn_world := w\<rparr>)
                                 | Some e \<Rightarrow>
                                     (case Conn_Close E c of
                                        (Panic m, _) \<Rightarrow> (Panic m, cn\<lparr>cn_world := w\<rparr>)
                                      | _ \<Rightarrow> (Err e, cn\<lparr>cn_world := w\<rparr>)))
                            | (Err e, c) \<Rightarrow> (Err e, cn\<lparr>cn_world := w\<rparr>)
                            | (Panic m, c) \<Rightarrow> (Panic m, cn\<lparr>cn_world := w\<rparr>))
                      else (Ok c, cn\<lparr>cn_world := w\<rparr>)))))"

definition Driver_Open ::
  "drv_env \<Rightarrow> dsn_lib \<Rightarrow> key_lib \<Rightarrow> crypto_lib \<Rightarrow> (string \<Rightarrow> dialed outcome) \<Rightarrow> string \<Rightarrow> Conn outcome" where
  "Driver_Open E dl kl cl dial dsn =
     bind_outcome (OpenConnector dl kl dsn) (\<lambda>cn. fst (Connector_Connect E cl dial (Background (de_now E)) cn))"

definition Connector_Close :: "Connector \<Rightarrow> Connector" where
  "Connector_Close cn = (if cn_open cn then cn\<lparr>cn_open := False, cn_world := Env_Finalize (cn_world cn)\<rparr> else cn)"

definition connectionString :: "Connector \<Rightarrow> string" where
  "connectionString cn =
     (let cfg = cn_cfg cn
      in Join
           ([''SERVER='' @ cf_Host cfg, ''PORT_NO='' @ itoa (cf_Port cfg), ''UID='' @ ToUpper (cf_loginName cfg),
             ''PWD='' @ cf_Password cfg, ''CONNTYPE=1'', ''FETCH_ROWS='' @ itoa (cf_FetchRows cfg)]
            @ (if cf_IOMetrics cfg then [''IO_METRICS=1''] else [])
            @ (if TrimSpace (cf_AuthMode cfg) \<noteq> [] then [''AUTH_MODE='' @ cf_AuthMode cfg] else [])
            @ (if cf_AlternativeServers cfg \<noteq> [] then [''ALTERNATIVE_SERVERS='' @ Join (cf_AlternativeServers cfg) '',''] else []))
           '';'')"

section \<open>Plans\<close>

definition plan_line :: "drv_env \<Rightarrow> goval list \<Rightarrow> string" where
  "plan_line E row = Join (map (\<lambda>v. if v = GNil then ''NULL'' else sprint_any (de_lib E) (de_spr E) v) row) '' ''"

definition rows_buffered :: "stmt_state \<Rightarrow> nat" where
  "rows_buffered s = length (sh_rows (fst s)) - sh_rowPos (fst s)"

text \<open>A fetched row was taken off the current chunk or off the stream.\<close>

lemma fetch_loop_row_consumes:
  "fetch_loop lib cx s = (Ok (Some r), s') \<Longrightarrow>
     stream_left s' < stream_left s \<or> stream_left s' = stream_left s \<and> rows_buffered s' < rows_buffered s"
proof (induction lib cx s rule: fetch_loop.induct)
  case (1 lib cx st conn)
  show ?case
  proof (cases "sh_rowPos st < length (sh_rows st)")
    case True
    with "1.prems" show ?thesis
      by (auto simp: fetch_loop.simps [of lib cx st conn] rows_buffered_def stream_left_def Let_def)
  next
    case False
    with "1.prems" obtain ch nc where
      c: "\<not> sh_fetchLast st" "sh_columns st \<noteq> []" "conn = Some ch" "hc_native ch = Some nc"
      by (auto simp: fetch_loop.simps [of lib cx st conn] split: if_splits option.splits)
    with False "1.prems" obtain rows lst nc' where
      k: "fetchRowsChunk lib cx (sh_wid st) (sh_columns st) (sh_fetchSize st) nc = (Ok (rows, lst), nc')" "\<not> (rows = [] \<and> lst)"
      by (auto simp: fetch_loop.simps [of lib cx st "Some ch"] Let_def split: outcome.splits prod.splits if_splits)
    let ?s1 = "(st\<lparr>sh_fetchLast := lst, sh_lastErr := ok_status, sh_rows := rows, sh_rowPos := 0\<rparr>,
      Some (ch\<lparr>hc_native := Some nc', hc_lastErr := ok_status\<rparr>))"
    from False c k "1.prems" have "fetch_loop lib cx ?s1 = (Ok (Some r), s')"
      by (auto simp: fetch_loop.simps [of lib cx st "Some ch"] Let_def)
    with "1.IH" False c k have "stream_left s' \<le> stream_left ?s1" by fastforce
    moreover have "stream_left ?s1 < stream_left (st, conn)"
      using fetchRowsChunk_consumes [OF k(1)] c by (simp add: stream_left_def)
    ultimately show ?thesis by simp
  qed
qed

text \<open>\<^verbatim>\<open>Explain\<close>: every row of the answer becomes a line.\<close>

function explain_loop :: "drv_env \<Rightarrow> call_ctx \<Rightarrow> string list \<Rightarrow> stmt_state \<Rightarrow> string list outcome \<times> stmt_state" where
  "explain_loop E cx ret s =
     (case fetch_loop (de_lib E) cx s of
        (Ok (Some row), s') \<Rightarrow> explain_loop E cx (ret @ [plan_line E row]) s'
      | (Ok None, s') \<Rightarrow> (Ok ret, s')
      | (Err e, s') \<Rightarrow> (Err e, s')
      | (Panic m, s') \<Rightarrow> (Panic m, s'))"
  by pat_completeness auto
termination
  by (relation "measures [\<lambda>(E, cx, ret, s). stream_left s, \<lambda>(E, cx, ret, s). rows_buffered s]")
    (auto dest!: fetch_loop_row_consumes [OF sym])

declare explain_loop.simps [simp del]

definition explain_lines :: "drv_env \<Rightarrow> call_ctx \<Rightarrow> stmt_state option \<Rightarrow> string outcome \<times> stmt_state option" where
  "explain_lines E cx = nil_stmt (\<lambda>s. case explain_loop E cx [] s of (r, s') \<Rightarrow> (bind_outcome r (\<lambda>ls. Ok (Join ls [CHR 0x0A])), s'))"

definition Conn_Explain :: "drv_env \<Rightarrow> call_ctx \<Rightarrow> string \<Rightarrow> bool \<Rightarrow> Conn \<Rightarrow> string outcome \<times> Conn" where
  "Conn_Explain E cx query full c =
     (if dc_handle c = None then (Err ErrBadConn, c)
      else
        (case AllocStmt (dc_handle c) of
           (Err e, h) \<Rightarrow> (let c' = c\<lparr>dc_handle := h\<rparr> in (bind_outcome (Conn_ErrorOf e c') Err, c'))
         | (Panic m, h) \<Rightarrow> (Panic m, c\<lparr>dc_handle := h\<rparr>)
         | (Ok st, h) \<Rightarrow>
             (let sc = (new_driver_stmt st, c\<lparr>dc_handle := h\<rparr>);
                  query = (if full then ''explain full '' else ''explain '') @ query
              in case (case with_handle (Stmt_ExecDirect (de_lib E) cx query) sc of
                         (Ok u, sc) \<Rightarrow> with_handle (explain_lines E cx) sc
                       | (Err e, sc) \<Rightarrow> (bind_outcome (Conn_ErrorOf e (snd sc)) Err, sc)
                       | (Panic m, sc) \<Rightarrow> (Panic m, sc)) of
                   (r, sc) \<Rightarrow> (r, snd (snd (with_handle (Stmt_Free (de_now E)) sc))))))"

definition Conn_SupportsDatabaseMetadata :: "Conn \<Rightarrow> bool" where
  "Conn_SupportsDatabaseMetadata c = (dc_handle c \<noteq> None \<and> SupportsDatabaseMetadata (dc_handle c))"

end
