(* ===== verification/Driver_Pool.thy ===== *)
theory Driver_Pool
  imports Driver_Rows "HOL-Library.Multiset"
begin

text \<open>
  The pool of prepared statements of a connection of \<^verbatim>\<open>driver.go\<close>: its invariant, that every operation of the
  driver stmt_frame it, and what a caller may rely on when it acquires a statement.
\<close>

section \<open>What the operations on a statement keep\<close>

text \<open>An operation on a statement changes the handle of the connection, but neither the pool nor the text and the
  generation of the statement, and it does not lose the handle of the statement.\<close>

definition stmt_frame :: "dstate \<Rightarrow> dstate \<Rightarrow> bool" where
  "stmt_frame sc sc' \<longleftrightarrow>
     (\<exists>h. snd sc' = (snd sc)\<lparr>dc_handle := h\<rparr>) \<and> ds_sqlText (fst sc') = ds_sqlText (fst sc)
     \<and> ds_generation (fst sc') = ds_generation (fst sc) \<and> (ds_handle (fst sc) \<noteq> None \<longrightarrow> ds_handle (fst sc') \<noteq> None)"

lemma frame_refl [simp, intro]: "stmt_frame sc sc"
  using same_conn [of "snd sc"] by (simp add: stmt_frame_def)

lemma frame_trans: "stmt_frame a b \<Longrightarrow> stmt_frame b c \<Longrightarrow> stmt_frame a c"
  by (auto simp: stmt_frame_def)

lemma frame_stmt [simp]:
  "stmt_frame (s, c) (s', c) \<longleftrightarrow>
     ds_sqlText s' = ds_sqlText s \<and> ds_generation s' = ds_generation s \<and> (ds_handle s \<noteq> None \<longrightarrow> ds_handle s' \<noteq> None)"
  using same_conn [of c] by (auto simp: stmt_frame_def)

lemma with_handle_frame [simp]: "stmt_frame sc (snd (with_handle f sc))"
  using same_conn [of "snd sc"] by (auto simp: stmt_frame_def with_handle_def split: prod.splits option.splits)

lemma ask_handle_state [simp]: "snd (ask_handle f sc) = sc"
  by (simp add: ask_handle_def)

lemma and_then_frame:
  assumes "stmt_frame sc (snd r)" and "\<And>x sc'. fst r = Ok x \<Longrightarrow> stmt_frame sc sc' \<Longrightarrow> stmt_frame sc (snd (f x sc'))"
  shows "stmt_frame sc (snd (and_then r f))"
  using assms by (cases r; cases "fst r") (auto simp: and_then_def)

lemma and_then_frame_from:
  assumes "stmt_frame sc (snd r)" and "\<And>x sc'. stmt_frame sc' (snd (f x sc'))"
  shows "stmt_frame sc (snd (and_then r f))"
  by (rule and_then_frame [OF assms(1)]) (blast intro: frame_trans assms(2))

lemma Stmt_prepare_frame:
  assumes "ds_sqlText (fst sc) = query"
  shows "stmt_frame sc (snd (Stmt_prepare E cx query sc))"
  unfolding Stmt_prepare_def
proof (rule and_then_frame)
  fix x :: unit and sc' assume "stmt_frame sc sc'"
  then show "stmt_frame sc (snd (case sc' of (s, c) \<Rightarrow> (Ok (), (s\<lparr>ds_sqlText := query, ds_columnDesc := [], ds_rowCount := 0,
      ds_execCount := 0, ds_reachEOF := False\<rparr>, c))))"
    using assms by (cases sc') (auto simp: stmt_frame_def)
qed simp

lemma Stmt_prepare_wrapped:
  obtains r s c where "with_handle (Stmt_Prepare (de_lib E) cx query) sc = (r, s, c)" and "stmt_frame sc (s, c)"
    and "Stmt_prepare E cx query sc = and_then (stmt_wrapped (r, s, c)) (\<lambda>_ (s, c).
      (Ok (), (s\<lparr>ds_sqlText := query, ds_columnDesc := [], ds_rowCount := 0, ds_execCount := 0, ds_reachEOF := False\<rparr>, c)))"
  using with_handle_frame [of sc "Stmt_Prepare (de_lib E) cx query"]
  by (cases "with_handle (Stmt_Prepare (de_lib E) cx query) sc") (fastforce simp: Stmt_prepare_def)

lemma Stmt_prepare_text:
  "Stmt_prepare E cx query sc = (Ok u, s, c) \<Longrightarrow>
     ds_sqlText s = query \<and> ds_generation s = ds_generation (fst sc) \<and> \<not> ds_reachEOF s
     \<and> (ds_handle (fst sc) \<noteq> None \<longrightarrow> ds_handle s \<noteq> None)"
  by (rule Stmt_prepare_wrapped [of E cx query sc])
     (auto simp: and_then_def stmt_wrapped_def stmt_frame_def split: outcome.splits)

lemma Stmt_prepare_conn: "\<exists>h. snd (snd (Stmt_prepare E cx query sc)) = (snd sc)\<lparr>dc_handle := h\<rparr>"
  by (rule Stmt_prepare_wrapped [of E cx query sc])
     (auto simp: and_then_def stmt_wrapped_def stmt_frame_def split: outcome.splits)

lemma execute_described_frame [simp]: "stmt_frame sc (snd (execute_described sc))"
  unfolding execute_described_def Let_def
proof (rule and_then_frame_from)
  fix n :: u64 and sc' :: dstate
  let ?s = "(fst sc')\<lparr>ds_rowCount := n\<rparr>"
  let ?sc = "(?s, snd sc')"
  have s: "stmt_frame sc' ?sc" by (cases sc') simp
  have "stmt_frame ?sc (snd (and_then (stmt_wrapped (ask_handle NumResultCol ?sc)) (\<lambda>num sc.
          and_then (stmt_wrapped (ask_handle (describe_columns 0 num) sc)) (\<lambda>ds (s, c).
          (Ok (), (s\<lparr>ds_columnDesc := ds\<rparr>, c))))))"
    by (intro and_then_frame_from) auto
  with frame_trans [OF s] s
  show "stmt_frame sc' (snd (case sc' of (s, c) \<Rightarrow>
     if ds_execCount (s\<lparr>ds_rowCount := n\<rparr>) > 0 \<or> \<not> is_select (ds_handle (s\<lparr>ds_rowCount := n\<rparr>)) then (Ok (), (s\<lparr>ds_rowCount := n\<rparr>, c))
        else
          and_then (stmt_wrapped (ask_handle NumResultCol (s\<lparr>ds_rowCount := n\<rparr>, c))) (\<lambda>num sc.
          and_then (stmt_wrapped (ask_handle (describe_columns 0 num) sc)) (\<lambda>ds (s, c).
          (Ok (), (s\<lparr>ds_columnDesc := ds\<rparr>, c))))))"
    by (cases sc') auto
qed simp

lemma Stmt_execute_frame [simp]: "stmt_frame sc (snd (Stmt_execute E cx sc))"
proof (cases sc)
  case (Pair s c)
  have s: "stmt_frame (s, c) (s\<lparr>ds_reachEOF := False\<rparr>, c)" by simp
  have count: "stmt_frame sc (count_execution sc)" for sc by (cases sc) (simp add: count_execution_def)
  have "stmt_frame (s\<lparr>ds_reachEOF := False\<rparr>, c) (snd (Stmt_execute E cx (s, c)))"
    unfolding Stmt_execute_def prod.case
  proof (rule and_then_frame_from)
    fix x :: unit and sc'
    from execute_described_frame [of sc'] count [of "snd (execute_described sc')"]
    show "stmt_frame sc' (snd (case execute_described sc' of (r, sc) \<Rightarrow> (r, count_execution sc)))"
      by (cases "execute_described sc'") (auto intro: frame_trans)
  qed simp
  from frame_trans [OF s this] Pair show ?thesis by simp
qed

lemma Stmt_fetch_frame [simp]: "stmt_frame sc (snd (Stmt_fetch E cx sc))"
proof -
  have "stmt_frame (s, c)
      (snd (case row of None \<Rightarrow> (Err EOF, (s\<lparr>ds_reachEOF := True\<rparr>, c)) | Some r \<Rightarrow> (Ok r, (s\<lparr>ds_reachEOF := False\<rparr>, c))))"
    for s c and row :: "goval list option"
    by (cases row) auto
  then show ?thesis unfolding Stmt_fetch_def by (auto intro!: and_then_frame_from)
qed

lemma bind_arg_frame [simp]: "stmt_frame sc (snd (bind_arg E idx a sc))"
  by (auto simp: bind_arg_def split: outcome.splits prod.splits)

lemma bind_args_frame [simp]: "stmt_frame sc (snd (bind_args E idx as sc))"
  by (induction E idx as sc rule: bind_args.induct) (auto intro!: and_then_frame intro: frame_trans)

lemma bindParams_frame [simp]: "stmt_frame sc (snd (bindParams E args sc))"
  unfolding bindParams_def by (auto intro!: and_then_frame_from)

lemma alloc_handle_conn: "\<exists>h. snd (alloc_handle c) = c\<lparr>dc_handle := h\<rparr>"
  by (auto simp: alloc_handle_def Let_def split: prod.splits outcome.splits)

lemma NewStmt_conn: "\<exists>h. snd (NewStmt c) = c\<lparr>dc_handle := h\<rparr>"
  using alloc_handle_conn [of c] by (auto simp: NewStmt_def split: prod.splits)

lemma NewStmt_Ok: "NewStmt c = (Ok s, c') \<Longrightarrow> \<exists>h. s = new_driver_stmt h"
  by (auto simp: NewStmt_def bind_outcome_Ok_iff split: prod.splits)

section \<open>The invariant of the pool\<close>

text \<open>
  The keys are distinct and none has an empty list, the count is the number of pooled statements, the
  capacities are observed, and every pooled statement, the one in the fast slot included, has a handle, is
  prepared for the text it is filed under, has no open cursor and is not from a future generation.
\<close>

definition poolable :: "Conn \<Rightarrow> string \<Rightarrow> Stmt \<Rightarrow> bool" where
  "poolable c query s \<longleftrightarrow>
     ds_handle s \<noteq> None \<and> ds_sqlText s = query \<and> FetchCompleted (ds_handle s) \<and> ds_generation s \<le> dc_generation c"

definition pool_ok :: "Conn \<Rightarrow> bool" where
  "pool_ok c \<longleftrightarrow>
     distinct (map fst (dc_pool c)) \<and> list_all (\<lambda>(k, ss). ss \<noteq> [] \<and> length ss \<le> dc_poolPerKeyCap c) (dc_pool c)
     \<and> dc_poolCount c = pool_size (dc_pool c) \<and> dc_poolCount c \<le> dc_poolCap c \<and> dc_poolCap c = 128 \<and> dc_poolPerKeyCap c = 8
     \<and> list_all (\<lambda>(k, s). poolable c k s) (pooled_stmts c)"

lemma pool_ok_handle [simp]: "pool_ok (c\<lparr>dc_handle := h\<rparr>) = pool_ok c"
  by (simp add: pool_ok_def pooled_stmts_def poolable_def)

lemma pool_ok_tx [simp]: "pool_ok (c\<lparr>dc_inTx := b\<rparr>) = pool_ok c" "pool_ok (c\<lparr>dc_dbDirty := b\<rparr>) = pool_ok c"
  "pool_ok (c\<lparr>dc_usedCount := n\<rparr>) = pool_ok c" "pool_ok (c\<lparr>dc_closeDone := b\<rparr>) = pool_ok c"
  by (simp_all add: pool_ok_def pooled_stmts_def poolable_def)

lemma pool_ok_frame: "stmt_frame sc sc' \<Longrightarrow> pool_ok (snd sc') = pool_ok (snd sc)"
  by (auto simp: stmt_frame_def)

lemma pool_ok_generation: "pool_ok c \<Longrightarrow> pool_ok (c\<lparr>dc_generation := dc_generation c + 1\<rparr>)"
proof -
  let ?c = "c\<lparr>dc_generation := dc_generation c + 1\<rparr>"
  assume ok: "pool_ok c"
  have "list_all (\<lambda>(k, s). poolable ?c k s) (pooled_stmts c)"
    using ok [unfolded pool_ok_def] by (auto simp: poolable_def elim!: list.pred_mono_strong)
  moreover have "pooled_stmts ?c = pooled_stmts c" by (simp add: pooled_stmts_def)
  ultimately show ?thesis using ok by (auto simp: pool_ok_def elim!: list.pred_mono_strong)
qed

lemma pool_ok_clear: "pool_ok c \<Longrightarrow> pool_ok (c\<lparr>dc_fast := None, dc_pool := [], dc_poolCount := 0\<rparr>)"
  by (simp add: pool_ok_def pooled_stmts_def pool_size_def)

text \<open>The pool as a map: what deleting a key and filing under a key do to it.\<close>

lemma pool_size_delete_eq:
  "distinct (map fst p) \<Longrightarrow> map_of p k = Some ss \<Longrightarrow> pool_size (AList.delete k p) + length ss = pool_size p"
proof (induction p)
  case (Cons x p)
  have "k \<notin> fst ` set p \<Longrightarrow> AList.delete k p = p" by (induction p) auto
  with Cons show ?case by (cases x) (auto simp: pool_size_def split: if_splits)
qed simp

lemma pool_size_file: "distinct (map fst p) \<Longrightarrow>
    pool_size (AList.update k v p) + length (case map_of p k of Some ss \<Rightarrow> ss | None \<Rightarrow> []) = pool_size p + length v"
  by (induction p) (auto simp: pool_size_def split: option.splits)

lemma set_update_pool: "(k', ss) \<in> set (AList.update k v p) \<Longrightarrow> (k', ss) = (k, v) \<or> (k', ss) \<in> set p"
  by (induction p) (auto split: if_splits)

lemma set_pooled: "(k, s) \<in> set (pooled_stmts c) \<longleftrightarrow> dc_fast c = Some (k, s) \<or> (\<exists>ss. (k, ss) \<in> set (dc_pool c) \<and> s \<in> set ss)"
  by (auto simp: pooled_stmts_def split: option.splits)

lemma poolable_conn: "dc_generation c' = dc_generation c \<Longrightarrow> poolable c' = poolable c"
  by (auto simp: poolable_def fun_eq_iff)

lemma take_pooled_ok:
  assumes "pool_ok c" and "take_pooled query c = Some (s, c')"
  shows "pool_ok c' \<and> poolable c query s \<and> dc_generation c' = dc_generation c"
  using assms by (auto simp: take_pooled_def pool_ok_def pooled_stmts_def poolable_def split: option.splits if_splits)

lemma take_listed_ok:
  assumes ok: "pool_ok c" and t: "take_listed query c = Some (s, c')"
  shows "pool_ok c' \<and> poolable c query s \<and> dc_generation c' = dc_generation c"
proof -
  from t obtain ss where ss: "map_of (dc_pool c) query = Some ss" "ss \<noteq> []" "s = last ss"
    and c': "c' = c\<lparr>dc_pool := (if length ss = 1 then AList.delete query (dc_pool c)
                            else AList.update query (butlast ss) (dc_pool c)), dc_poolCount := dc_poolCount c - 1\<rparr>"
    by (auto simp: take_listed_def split: option.splits if_splits)
  let ?p = "dc_pool c'"
  note d = ok [unfolded pool_ok_def]
  from ss d have lss: "length ss \<le> dc_poolPerKeyCap c" by (auto dest!: map_of_SomeD simp: list_all_iff)
  have sub: "k = query \<and> xs = butlast ss \<and> length ss \<noteq> 1 \<or> (k, xs) \<in> set (dc_pool c)" if "(k, xs) \<in> set ?p" for k xs
    using that c' by (auto split: if_splits dest: set_update_pool simp: AList.delete_eq)
  have "distinct (map fst ?p)" using d c' by (auto simp: distinct_update distinct_delete)
  moreover have "dc_poolCount c' = pool_size ?p"
    using pool_size_delete_eq [of "dc_pool c" query ss] pool_size_update [of "dc_pool c" query ss "butlast ss"] d ss c'
    by (cases ss) auto
  moreover have "list_all (\<lambda>(k, ss). ss \<noteq> [] \<and> length ss \<le> dc_poolPerKeyCap c') ?p"
  proof (clarsimp simp: list_all_iff)
    fix k xs assume "(k, xs) \<in> set ?p"
    from sub [OF this] show "xs \<noteq> [] \<and> length xs \<le> dc_poolPerKeyCap c'"
      using d lss c' ss(2) by (cases ss) (auto simp: list_all_iff)
  qed
  moreover have "list_all (\<lambda>(k, s). poolable c' k s) (pooled_stmts c')"
  proof -
    have "poolable c k x" if "(k, x) \<in> set (pooled_stmts c')" for k x
    proof -
      from that consider "dc_fast c = Some (k, x)" | xs where "(k, xs) \<in> set ?p" "x \<in> set xs"
        by (auto simp: set_pooled c')
      then have "(k, x) \<in> set (pooled_stmts c)"
      proof cases
        case 2
        from sub [OF 2(1)] 2(2) map_of_SomeD [OF ss(1)] show ?thesis by (auto simp: set_pooled dest: in_set_butlastD)
      qed (simp add: set_pooled)
      with d show ?thesis by (auto simp: list_all_iff)
    qed
    then show ?thesis by (auto simp: list_all_iff c' poolable_def)
  qed
  moreover have "poolable c query s"
    using d ss map_of_SomeD [OF ss(1)] by (fastforce simp: list_all_iff set_pooled)
  ultimately show ?thesis using d c' by (auto simp: pool_ok_def)
qed

lemma take_stmt_ok:
  "pool_ok c \<Longrightarrow> take_stmt query c = Some (s, c') \<Longrightarrow> pool_ok c' \<and> poolable c query s \<and> dc_generation c' = dc_generation c"
  by (auto simp: take_stmt_def dest: take_pooled_ok take_listed_ok split: option.splits)

section \<open>Acquiring\<close>

text \<open>A statement that is handed out: prepared for the query, of the current generation, at the start of its rows.\<close>

definition handed_out :: "Conn \<Rightarrow> string \<Rightarrow> Stmt \<Rightarrow> bool" where
  "handed_out c query s \<longleftrightarrow>
     ds_handle s \<noteq> None \<and> ds_sqlText s = query \<and> ds_generation s = dc_generation c \<and> \<not> ds_reachEOF s"

lemma or_close_ok:
  assumes "\<exists>h. snd (snd r) = c\<lparr>dc_handle := h\<rparr>"
  shows "\<exists>h. snd (or_close E r (\<lambda>_ (s, c). (Ok s, c))) = c\<lparr>dc_handle := h\<rparr>"
  using assms Stmt_Close_conn [of E "snd r"] by (cases r; cases "fst r") (auto simp: or_close_def split: prod.splits)

lemma or_close_Ok_iff: "or_close E r (\<lambda>_ (s, c). (Ok s, c)) = (Ok s, c) \<longleftrightarrow> (\<exists>x. r = (Ok x, s, c))"
  by (cases r; cases "fst r") (auto simp: or_close_def split: prod.splits)

lemma fresh_stmt_conn: "\<exists>h. snd (fresh_stmt E cx query c) = c\<lparr>dc_handle := h\<rparr>"
proof -
  obtain r c1 h1 where n: "NewStmt c = (r, c1)" "c1 = c\<lparr>dc_handle := h1\<rparr>" using NewStmt_conn [of c] by (cases "NewStmt c") auto
  have "\<exists>h. snd (or_close E (Stmt_prepare E cx query (s, c1)) (\<lambda>_ (s, c). (Ok s, c))) = c1\<lparr>dc_handle := h\<rparr>" for s
    using or_close_ok [where c = c1, of "Stmt_prepare E cx query (s, c1)" E] Stmt_prepare_conn [of E cx query "(s, c1)"] by simp
  with n show ?thesis by (cases r) (auto simp: fresh_stmt_def)
qed

lemma fresh_stmt_out: "fresh_stmt E cx query c = (Ok s, c') \<Longrightarrow> handed_out c query s"
  by (auto simp: fresh_stmt_def or_close_Ok_iff handed_out_def new_driver_stmt_def
      dest!: NewStmt_Ok Stmt_prepare_text split: prod.splits outcome.splits)

lemma reuse_stmt_conn: "\<exists>h. snd (reuse_stmt E cx query s c) = c\<lparr>dc_handle := h\<rparr>"
  using or_close_ok [of "Stmt_prepare E cx query (s\<lparr>ds_reachEOF := False\<rparr>, c)" c E] Stmt_prepare_conn same_conn
  by (auto simp: reuse_stmt_def Let_def)

lemma reuse_stmt_out:
  "reuse_stmt E cx query s c = (Ok s', c') \<Longrightarrow> poolable c query s \<Longrightarrow> ds_generation s = dc_generation c \<Longrightarrow> handed_out c query s'"
  by (auto simp: reuse_stmt_def Let_def or_close_Ok_iff handed_out_def poolable_def
      dest!: Stmt_prepare_text split: if_splits)

lemma conn_update_ok: "\<exists>h. c' = c\<lparr>dc_handle := h\<rparr> \<Longrightarrow> pool_ok c \<Longrightarrow> pool_ok c'"
  by auto

lemma acquire_ok:
  "pool_ok c \<Longrightarrow> acquireQueryStmt E cx query c = (r, c') \<Longrightarrow>
     pool_ok c' \<and> dc_generation c' = dc_generation c \<and> (\<forall>s. r = Ok s \<longrightarrow> handed_out c query s)"
proof (induction E cx query c arbitrary: c' rule: acquireQueryStmt.induct)
  case (1 E cx query c)
  show ?case
  proof (cases "shouldReuseStmtForQuery c query \<and> take_stmt query c \<noteq> None")
    case False
    then have a: "acquireQueryStmt E cx query c = fresh_stmt E cx query c" by (cases "take_stmt query c") (auto simp: acquireQueryStmt.simps [of E cx query c])
    with "1.prems" fresh_stmt_conn [of E cx query c] show ?thesis by (auto dest: fresh_stmt_out)
  next
    case True
    then obtain s c1 where t: "shouldReuseStmtForQuery c query" "take_stmt query c = Some (s, c1)" by auto
    from take_stmt_ok [OF "1.prems"(1) t(2)]
    have ok: "pool_ok c1" "poolable c1 query s" "dc_generation c1 = dc_generation c" by (auto simp: poolable_def)
    obtain h where cl: "snd (snd (Stmt_Close E (s, c1))) = c1\<lparr>dc_handle := h\<rparr>" using Stmt_Close_conn [of E "(s, c1)"] by auto
    show ?thesis
    proof (cases "ds_generation s = dc_generation c")
      case False
      with t "1.prems" have "acquireQueryStmt E cx query (snd (snd (Stmt_Close E (s, c1)))) = (r, c')"
        by (simp add: acquireQueryStmt.simps [of E cx query c])
      with "1.IH" t False ok cl show ?thesis by (fastforce simp: handed_out_def)
    next
      case True
      with t "1.prems" have "reuse_stmt E cx query s c1 = (r, c')" by (simp add: acquireQueryStmt.simps [of E cx query c])
      with reuse_stmt_conn [of E cx query s c1] reuse_stmt_out [of E cx query s c1] ok True show ?thesis
        by (auto simp: handed_out_def)
    qed
  qed
qed

section \<open>Releasing and closing\<close>

lemma keep_stmt_ok:
  assumes ok: "pool_ok c" and s: "poolable c query s" and k: "keep_stmt query s c = Some c'"
  shows "pool_ok c' \<and> dc_generation c' = dc_generation c"
proof (cases "dc_fast c")
  case None
  with assms show ?thesis by (auto simp: keep_stmt_def pool_ok_def pooled_stmts_def poolable_def split: if_splits)
next
  case (Some f)
  define ss where "ss = (case map_of (dc_pool c) query of Some ss \<Rightarrow> ss | None \<Rightarrow> [])"
  from k Some have c': "c' = c\<lparr>dc_pool := AList.update query (ss @ [s]) (dc_pool c), dc_poolCount := dc_poolCount c + 1\<rparr>"
    and cap: "dc_poolCount c < dc_poolCap c" "length ss < dc_poolPerKeyCap c"
    by (auto simp: keep_stmt_def ss_def Let_def split: if_splits)
  note d = ok [unfolded pool_ok_def]
  have old: "x \<in> set ss \<Longrightarrow> (query, x) \<in> set (pooled_stmts c)" for x
    by (cases "map_of (dc_pool c) query") (auto simp: ss_def set_pooled dest: map_of_SomeD)
  have "list_all (\<lambda>(k, ss). ss \<noteq> [] \<and> length ss \<le> dc_poolPerKeyCap c') (dc_pool c')"
    using d cap by (auto simp: c' list_all_iff dest!: set_update_pool)
  moreover have "list_all (\<lambda>(k, s). poolable c' k s) (pooled_stmts c')"
  proof -
    have "(k, x) = (query, s) \<or> (k, x) \<in> set (pooled_stmts c)" if "(k, x) \<in> set (pooled_stmts c')" for k x
      using that old [of x] by (auto simp: set_pooled c' dest!: set_update_pool)
    with d s show ?thesis by (fastforce simp: list_all_iff c' poolable_def)
  qed
  ultimately show ?thesis using d cap pool_size_file [of "dc_pool c" query "ss @ [s]"]
    by (auto simp: pool_ok_def c' distinct_update ss_def)
qed

lemma close_result: "\<exists>h. snd (case Stmt_Close E (s, c) of (r, _, c') \<Rightarrow> (r, c')) = c\<lparr>dc_handle := h\<rparr>"
  using Stmt_Close_conn [of E "(s, c)"] by (auto split: prod.splits)

text \<open>A statement that a caller holds, to be released later.\<close>

definition on_loan :: "Conn \<Rightarrow> string \<Rightarrow> Stmt \<Rightarrow> bool" where
  "on_loan c query s \<longleftrightarrow> ds_handle s \<noteq> None \<and> ds_sqlText s = query \<and> ds_generation s \<le> dc_generation c"

lemma handed_out_loan: "handed_out c query s \<Longrightarrow> dc_generation c' = dc_generation c \<Longrightarrow> on_loan c' query s"
  by (simp add: handed_out_def on_loan_def)

lemma on_loan_frame: "stmt_frame (s, c) (s', c') \<Longrightarrow> on_loan c query s \<Longrightarrow> on_loan c' query s'"
  by (auto simp: stmt_frame_def on_loan_def)

lemma on_loan_mono: "on_loan c query s \<Longrightarrow> dc_generation c \<le> dc_generation c' \<Longrightarrow> on_loan c' query s"
  by (simp add: on_loan_def)

lemma release_ok:
  assumes "pool_ok c" and "on_loan c query s"
  shows "pool_ok (snd (releaseQueryStmt E query s reusable c))
    \<and> dc_generation (snd (releaseQueryStmt E query s reusable c)) = dc_generation c"
proof -
  let ?s = "s\<lparr>ds_reachEOF := False, ds_handle := Stmt_ExecuteClean (ds_handle s)\<rparr>"
  have cl: "pool_ok (snd (case Stmt_Close E (x, c) of (r, _, c') \<Rightarrow> (r, c')))
      \<and> dc_generation (snd (case Stmt_Close E (x, c) of (r, _, c') \<Rightarrow> (r, c'))) = dc_generation c" for x
    using close_result [of E x c] assms(1) by auto
  have "poolable c query ?s"
    using assms by (auto simp: poolable_def on_loan_def Stmt_ExecuteClean_def FetchCompleted_def)
  with cl assms(1) show ?thesis by (auto simp: releaseQueryStmt_def Let_def split: option.splits dest: keep_stmt_ok)
qed

lemma close_stmts_conn: "\<exists>h. snd (close_stmts E ss c) = c\<lparr>dc_handle := h\<rparr>"
proof (induction ss arbitrary: c)
  case Nil
  show ?case using same_conn by simp
next
  case (Cons s ss)
  obtain r s' h where cl: "Stmt_Close E (s, c) = (r, s', c\<lparr>dc_handle := h\<rparr>)"
    using Stmt_Close_conn [of E "(s, c)"] by (cases "Stmt_Close E (s, c)") auto
  from Cons [of "c\<lparr>dc_handle := h\<rparr>"] cl show ?case
    by (cases r; cases "close_stmts E ss (c\<lparr>dc_handle := h\<rparr>)"; cases "fst (close_stmts E ss (c\<lparr>dc_handle := h\<rparr>))") auto
qed

lemma closePool_ok:
  assumes "pool_ok c"
  shows "pool_ok (snd (closeQueryStmtPool E c)) \<and> dc_generation (snd (closeQueryStmtPool E c)) = dc_generation c"
proof -
  let ?c = "c\<lparr>dc_fast := None, dc_pool := [], dc_poolCount := 0\<rparr>"
  have "pool_ok (snd (close_stmts E ss ?c)) \<and> dc_generation (snd (close_stmts E ss ?c)) = dc_generation c" for ss
    using conn_update_ok [OF close_stmts_conn pool_ok_clear [OF assms], of E ss] close_stmts_conn [of E ss ?c] by auto
  with assms show ?thesis by (simp add: closeQueryStmtPool_def)
qed

section \<open>Every operation keeps the pool\<close>

definition drv_step :: "Conn \<Rightarrow> Conn \<Rightarrow> bool" where
  "drv_step c c' \<longleftrightarrow> (pool_ok c \<longrightarrow> pool_ok c' \<and> dc_generation c \<le> dc_generation c')"

lemma drv_step_refl [simp, intro]: "drv_step c c"
  by (simp add: drv_step_def)

lemma drv_step_trans [trans]: "drv_step a b \<Longrightarrow> drv_step b c \<Longrightarrow> drv_step a c"
  by (auto simp: drv_step_def)

lemma drv_step_handle: "\<exists>h. c' = c\<lparr>dc_handle := h\<rparr> \<Longrightarrow> drv_step c c'"
  by (auto simp: drv_step_def)

lemma drv_step_frame: "stmt_frame (s, c) (s', c') \<Longrightarrow> drv_step c c'"
  by (auto simp: stmt_frame_def intro: drv_step_handle)

lemma drv_step_tx [simp]:
  "drv_step c (c\<lparr>dc_inTx := b\<rparr>)" "drv_step c (c\<lparr>dc_dbDirty := b\<rparr>)" "drv_step c (c\<lparr>dc_usedCount := n\<rparr>)"
  "drv_step c (c\<lparr>dc_closeDone := b\<rparr>)" "drv_step c (c\<lparr>dc_generation := dc_generation c + 1\<rparr>)"
  using pool_ok_generation [of c] by (simp_all add: drv_step_def)

lemma closePool_step: "drv_step c (snd (closeQueryStmtPool E c))"
  using closePool_ok [of c E] by (simp add: drv_step_def)

lemma setTransactionState_step [simp]: "drv_step c (setTransactionState query c)"
  by (simp add: setTransactionState_def Let_def)

lemma Stmt_Close_step: "drv_step c (snd (snd (Stmt_Close E (s, c))))"
  using Stmt_Close_conn [of E "(s, c)"] by (intro drv_step_handle) simp

lemma acquire_step: "acquireQueryStmt E cx query c = (r, c') \<Longrightarrow> drv_step c c'"
  by (auto simp: drv_step_def dest: acquire_ok)

lemma acquire_loan: "acquireQueryStmt E cx query c = (Ok s, c') \<Longrightarrow> pool_ok c \<Longrightarrow> on_loan c' query s"
  using acquire_ok [of c E cx query "Ok s" c'] by (auto intro: handed_out_loan)

lemma release_step: "on_loan c query s \<Longrightarrow> drv_step c (snd (releaseQueryStmt E query s b c))"
  using release_ok [of c query s E b] by (simp add: drv_step_def)

lemma Conn_disconnect_step: "drv_step c (snd (Conn_disconnect c))"
  using same_conn [of c]
  by (intro drv_step_handle) (auto simp: Conn_disconnect_def Let_def split: option.splits prod.splits outcome.splits)

lemma Conn_Close_step: "drv_step c (snd (Conn_Close E c))"
proof -
  let ?c = "c\<lparr>dc_closeDone := True, dc_generation := dc_generation c + 1\<rparr>"
  obtain r c1 where p: "closeQueryStmtPool E ?c = (r, c1)" by fastforce
  have "drv_step (c\<lparr>dc_closeDone := True\<rparr>) ?c" using drv_step_tx(5) [of "c\<lparr>dc_closeDone := True\<rparr>"] by simp
  from drv_step_trans [OF drv_step_tx(4) this] have "drv_step c ?c" .
  also from closePool_step [of ?c E] p have "drv_step ?c c1" by simp
  finally have c1: "drv_step c c1" .
  moreover have "drv_step c (c1\<lparr>dc_usedCount := n\<rparr>)" for n using drv_step_trans [OF c1 drv_step_tx(3)] .
  moreover obtain r2 c2 where d: "Conn_disconnect c1 = (r2, c2)" by fastforce
  moreover have "drv_step c (c2\<lparr>dc_usedCount := n\<rparr>)" for n
    using drv_step_trans [OF drv_step_trans [OF c1 Conn_disconnect_step] drv_step_tx(3)] d by simp
  ultimately show ?thesis by (cases r) (simp_all add: Conn_Close_def Conn_close_once_def p [simplified])
qed

text \<open>The end of an operation that had a statement of its own.\<close>

lemma finish_step:
  "drv_step c (snd (case Stmt_Close E (s, c) of (Panic m, _, c) \<Rightarrow> (Panic m, c) | (_, _, c) \<Rightarrow> (r, c)))"
  using Stmt_Close_step [of c E s] by (auto split: prod.splits outcome.splits)

lemma with_handle_step: "with_handle f (s, c) = (r, s', c') \<Longrightarrow> drv_step c c'"
  using with_handle_frame [of "(s, c)" f] by (auto intro: drv_step_frame)

lemma NewStmt_step: "NewStmt c = (r, c') \<Longrightarrow> drv_step c c'"
  using NewStmt_conn [of c] by (intro drv_step_handle) simp

lemma exec_direct_step: "drv_step c (snd (exec_direct E cx query c))"
proof (cases "NewStmt c")
  case n: (Pair r c1)
  note c1 = NewStmt_step [OF n]
  show ?thesis
  proof (cases r)
    case (Ok s)
    obtain r2 s2 c2 where w: "with_handle (Stmt_ExecDirect (de_lib E) cx query) (s, c1) = (r2, s2, c2)" by (metis prod_cases3)
    have c2: "drv_step c c2" using drv_step_trans [OF c1 with_handle_step [OF w]] .
    let ?g = "c2\<lparr>dc_generation := dc_generation c2 + 1\<rparr>"
    have g: "drv_step c (snd (closeQueryStmtPool E ?g))"
      using drv_step_trans [OF drv_step_trans [OF c2 drv_step_tx(5)] closePool_step] .
    have "drv_step c (snd (case Stmt_Close E (s2, c3) of (Panic m, _, c) \<Rightarrow> (Panic m, c) | (_, _, c) \<Rightarrow> (x, c)))"
      if "drv_step c c3" for c3 and x :: "Result outcome" using drv_step_trans [OF that finish_step] .
    from this [OF c2] this [OF g] c2 show ?thesis
      by (cases r2; cases "closeQueryStmtPool E ?g") (simp_all add: exec_direct_def n Ok w Let_def)
  qed (use c1 n in \<open>simp_all add: exec_direct_def\<close>)
qed

lemma bindParams_loan: "bindParams E args (s, c) = (r, s', c') \<Longrightarrow> on_loan c query s \<Longrightarrow> on_loan c' query s' \<and> drv_step c c'"
  using bindParams_frame [of "(s, c)" E args] by (auto intro: on_loan_frame drv_step_frame)

lemma Stmt_execute_loan: "Stmt_execute E cx (s, c) = (r, s', c') \<Longrightarrow> on_loan c query s \<Longrightarrow> on_loan c' query s' \<and> drv_step c c'"
  using Stmt_execute_frame [of "(s, c)" E cx] by (auto intro: on_loan_frame drv_step_frame)

lemma Stmt_fetch_loan: "Stmt_fetch E cx (s, c) = (r, s', c') \<Longrightarrow> on_loan c query s \<Longrightarrow> on_loan c' query s' \<and> drv_step c c'"
  using Stmt_fetch_frame [of "(s, c)" E cx] by (auto intro: on_loan_frame drv_step_frame)

lemma release_after_step: "on_loan c query s \<Longrightarrow> drv_step c (snd (release_after E query s ret c))"
  using release_step [of c query s E "rs_err ret = None"] by (auto simp: release_after_def split: prod.splits outcome.splits)

lemma drv_step_pool: "drv_step c c' \<Longrightarrow> pool_ok c \<Longrightarrow> pool_ok c'"
  by (simp add: drv_step_def)

lemma drv_stepI: "(pool_ok c \<Longrightarrow> drv_step c c') \<Longrightarrow> drv_step c c'"
  by (auto simp: drv_step_def)

lemma exec_prepared_step: "drv_step c (snd (exec_prepared E cx query args c))"
proof (rule drv_stepI)
  assume ok: "pool_ok c"
  obtain r c1 where a: "acquireQueryStmt E cx query c = (r, c1)" by fastforce
  note c1 = acquire_step [OF a]
  show ?thesis
  proof (cases r)
    case (Ok s)
    from acquire_loan [OF a [unfolded Ok] ok] have l1: "on_loan c1 query s" .
    obtain r2 s2 c2 where b: "bindParams E args (s, c1) = (r2, s2, c2)" by (metis prod_cases3)
    obtain r3 s3 c3 where x: "Stmt_execute E cx (s2, c2) = (r3, s3, c3)" by (metis prod_cases3)
    from bindParams_loan [OF b l1] have l2: "on_loan c2 query s2" and "drv_step c1 c2" by auto
    with c1 have c2: "drv_step c c2" by (blast intro: drv_step_trans)
    from Stmt_execute_loan [OF x l2] have l3: "on_loan c3 query s3" and "drv_step c2 c3" by auto
    with c2 have c3: "drv_step c c3" by (blast intro: drv_step_trans)
    note steps = drv_step_trans [OF c2 release_after_step [OF l2]] drv_step_trans [OF c3 release_after_step [OF l3]]
    from c2 c3 steps show ?thesis by (cases r2; cases r3) (simp_all add: exec_prepared_def a Ok b x Let_def)
  qed (use c1 a in \<open>simp_all add: exec_prepared_def\<close>)
qed

lemma Conn_exec_step: "drv_step c (snd (Conn_exec E cx query args c))"
  by (simp add: Conn_exec_def exec_direct_step exec_prepared_step)

lemma ExecContext_step: "drv_step c (snd (Conn_ExecContext E cx query args c))"
proof -
  have "drv_step c (snd (case Conn_exec E cx query vals c of
          (Ok result, c) \<Rightarrow> (case normalizeError (rs_err result) of Some e \<Rightarrow> (Err e, c) | None \<Rightarrow> (Ok result, setTransactionState query c))
        | (r, c) \<Rightarrow> (r, c)))" for vals
    using Conn_exec_step [of c E cx query vals]
    by (auto split: prod.splits outcome.splits option.splits intro: drv_step_trans [OF _ setTransactionState_step])
  then show ?thesis by (simp add: Conn_ExecContext_def split: outcome.splits)
qed

lemma BeginTx_step: "drv_step c (snd (BeginTx E cx level ro c))"
  using ExecContext_step [of c E cx "''BEGIN''" "[]"] by (auto simp: BeginTx_def split: prod.splits)

lemma tx_finish_step: "drv_step (snd tx) (snd (snd (tx_finish E sqlText tx)))"
  using ExecContext_step [of "snd tx" E "Background (de_now E)" sqlText "[]"]
  by (cases tx) (auto simp: tx_finish_def split: prod.splits outcome.splits)

lemma reset_exec_step: "drv_step c (snd (reset_exec E cx query c))"
proof (cases "Conn_exec E cx query [] c")
  case (Pair r c1)
  with Conn_exec_step [of c E cx query "[]"] have c1: "drv_step c c1" by simp
  from drv_step_trans [OF c1 Conn_Close_step [of c1 E]] c1 Pair show ?thesis
    by (cases r) (auto simp: reset_exec_def split: prod.splits outcome.splits)
qed

lemma and_then_step:
  assumes "drv_step c (snd r)" and "\<And>x c'. drv_step c' (snd (f x c'))"
  shows "drv_step c (snd (and_then r f))"
  using assms by (cases r; cases "fst r") (auto simp: and_then_def intro: drv_step_trans)

lemma ResetSession_step: "drv_step c (snd (ResetSession E cx c))"
  unfolding ResetSession_def by (auto intro!: and_then_step reset_exec_step)

lemma PrepareContext_step: "drv_step c (snd (PrepareContext E cx query c))"
proof (cases "NewStmt c")
  case n: (Pair r c1)
  note c1 = NewStmt_step [OF n]
  have "drv_step c1 (snd (or_close E (Stmt_prepare E cx query (s, c1)) (\<lambda>_ (s, c). (Ok s, c))))" for s
    using or_close_ok [where c = c1, of "Stmt_prepare E cx query (s, c1)" E] Stmt_prepare_conn [of E cx query "(s, c1)"]
    by (intro drv_step_handle) simp
  note o = drv_step_trans [OF c1 this]
  show ?thesis
  proof (cases r)
    case (Ok s)
    with o [of s] show ?thesis
      by (cases "or_close E (Stmt_prepare E cx query (s, c1)) (\<lambda>_ (s, c). (Ok s, c))") (simp add: PrepareContext_def n)
  qed (use c1 n in \<open>simp_all add: PrepareContext_def\<close>)
qed

section \<open>Result sets\<close>

text \<open>An open result set of a direct query holds a statement of the pool's.\<close>

definition rows_loan :: "Conn \<Rightarrow> Rows \<times> Stmt \<Rightarrow> bool" where
  "rows_loan c rs = (case rs of (r, s) \<Rightarrow> dr_pooled r \<and> \<not> dr_isPrepared r \<and> (dr_open r \<longrightarrow> on_loan c (dr_key r) s))"

lemma give_up_step: "on_loan c query s \<Longrightarrow> drv_step c (snd (give_up E query e (s, c)))"
  using release_step [of c query s E False] by (auto simp: give_up_def split: prod.splits outcome.splits)

lemma bound_execution_loan:
  assumes "and_then (bindParams E args (s, c)) (\<lambda>_ sc. Stmt_execute E cx sc) = (r, s', c')" and "on_loan c query s"
  shows "on_loan c' query s' \<and> drv_step c c'"
proof -
  have "stmt_frame (s, c) (snd (and_then (bindParams E args (s, c)) (\<lambda>_ sc. Stmt_execute E cx sc)))"
    by (rule and_then_frame_from) simp_all
  with assms show ?thesis by (auto intro: on_loan_frame drv_step_frame)
qed

lemma Conn_query_ok:
  assumes ok: "pool_ok c" and q: "Conn_query E cx query args c = (r, c')"
  shows "drv_step c c' \<and> (\<forall>rs. r = Ok rs \<longrightarrow> rows_loan c' rs)"
proof -
  obtain r1 c1 where a: "acquireQueryStmt E cx query c = (r1, c1)" by fastforce
  note c1 = acquire_step [OF a]
  show ?thesis
  proof (cases r1)
    case (Ok s)
    from acquire_loan [OF a [unfolded Ok] ok] have l1: "on_loan c1 query s" .
    obtain r2 s2 c2 where b: "and_then (bindParams E args (s, c1)) (\<lambda>_ sc. Stmt_execute E cx sc) = (r2, s2, c2)"
      by (metis prod_cases3)
    from bound_execution_loan [OF b l1] have l2: "on_loan c2 query s2" and "drv_step c1 c2" by auto
    with c1 have c2: "drv_step c c2" by (blast intro: drv_step_trans)
    have g: "drv_step c d \<and> (\<forall>rs. x \<noteq> Ok rs)"
      if gu: "give_up E query e (s2, c2) = (x, d)" for e d and x :: "(Rows \<times> Stmt) outcome"
    proof
      show "drv_step c d" using drv_step_trans [OF c2 give_up_step [OF l2]] gu by (metis snd_conv)
      show "\<forall>rs. x \<noteq> Ok rs" using gu by (auto simp: give_up_def split: prod.splits outcome.splits)
    qed
    show ?thesis
    proof (cases r2)
      case (Err e)
      with q show ?thesis by (auto simp: Conn_query_def a Ok b dest!: g)
    next
      case (Panic m)
      with q c2 show ?thesis by (auto simp: Conn_query_def a Ok b)
    next
      case r2: (Ok u)
      with q c2 l2 show ?thesis
        by (cases "GetStmtType (ds_handle s2)") (auto simp: Conn_query_def a Ok b rows_loan_def new_rows_def dest!: g)
    qed
  qed (use c1 a q in \<open>auto simp: Conn_query_def\<close>)
qed

lemma on_loan_tx [simp]: "on_loan (setTransactionState q c) query s = on_loan c query s"
  by (simp add: setTransactionState_def Let_def on_loan_def)

lemma QueryContext_ok:
  assumes ok: "pool_ok c" and q: "Conn_QueryContext E cx query args c = (r, c')"
  shows "drv_step c c' \<and> (\<forall>rs. r = Ok rs \<longrightarrow> rows_loan c' rs)"
proof (cases "namedValuesToAny args")
  case (Ok vals)
  obtain r1 c1 where b: "Conn_query E cx query vals c = (r1, c1)" by fastforce
  from Conn_query_ok [OF ok b] q Ok show ?thesis
    by (cases r1)
      (auto simp: Conn_QueryContext_def b rows_loan_def normalized_def split: if_splits option.splits
        intro: drv_step_trans [OF _ setTransactionState_step])
qed (use q in \<open>auto simp: Conn_QueryContext_def split: if_splits\<close>)

lemma Rows_advance_ok:
  assumes "rows_loan c (r, s)" and "Rows_advance E (r, s, c) = (res, r', s', c')"
  shows "drv_step c c' \<and> rows_loan c' (r', s')"
proof (cases "\<not> dr_open r \<or> ds_reachEOF s")
  case False
  obtain f s1 c1 where f: "Stmt_fetch E (dr_cx r) (s, c) = (f, s1, c1)" by (metis prod_cases3)
  from assms False have "on_loan c (dr_key r) s" by (simp add: rows_loan_def)
  from Stmt_fetch_loan [OF f this] assms False show ?thesis
    by (cases f) (auto simp: Rows_advance_def f rows_loan_def split: if_splits)
qed (use assms in \<open>auto simp: Rows_advance_def\<close>)

lemma Rows_Next_ok:
  assumes "rows_loan c (r, s)" and "Rows_Next E n (r, s, c) = (res, r', s', c')"
  shows "drv_step c c' \<and> rows_loan c' (r', s')"
proof -
  obtain b r1 s1 c1 where a: "Rows_advance E (r, s, c) = (b, r1, s1, c1)" by (metis prod_cases4)
  with assms(2) have "r' = r1" "s' = s1" "c' = c1"
    by (auto simp: Rows_Next_def split: outcome.splits bool.splits option.splits)
  with Rows_advance_ok [OF assms(1) a] show ?thesis by simp
qed

lemma Rows_Close_ok:
  assumes "rows_loan c (r, s)" and "Rows_Close E (r, s, c) = (res, r', s', c')"
  shows "drv_step c c' \<and> rows_loan c' (r', s')"
  using assms release_step [of c "dr_key r" s E True]
  by (auto simp: Rows_Close_def rows_loan_def Let_def split: if_splits prod.splits)

lemma row_of_query_loan:
  assumes q: "row_of_query E cx query args (s, c) = (r, s', c')" and l: "on_loan c query s"
  shows "on_loan c' query s' \<and> drv_step c c'"
proof -
  obtain r2 s2 c2 where b: "and_then (bindParams E args (s, c)) (\<lambda>_ sc. Stmt_execute E cx sc) = (r2, s2, c2)"
    by (metis prod_cases3)
  from bound_execution_loan [OF b l] have l2: "on_loan c2 query s2" and c2: "drv_step c c2" by auto
  note t = drv_step_trans [OF c2 setTransactionState_step]
  obtain f s3 c3 where f: "Stmt_fetch E cx (s2, setTransactionState query c2) = (f, s3, c3)" by (metis prod_cases3)
  from Stmt_fetch_loan [OF f, of query] l2 have "on_loan c3 query s3 \<and> drv_step (setTransactionState query c2) c3" by simp
  with t l2 c2 q f show ?thesis
    by (cases r2; cases "GetStmtType (ds_handle s2)") (auto simp: row_of_query_def b Let_def intro: drv_step_trans)
qed

lemma Conn_queryRow_step: "drv_step c (snd (Conn_queryRow E cx query args c))"
proof (rule drv_stepI)
  assume ok: "pool_ok c"
  obtain r1 c1 where a: "acquireQueryStmt E cx query c = (r1, c1)" by fastforce
  note c1 = acquire_step [OF a]
  show ?thesis
  proof (cases r1)
    case (Ok s)
    obtain r2 s2 c2 where b: "row_of_query E cx query args (s, c1) = (r2, s2, c2)" by (metis prod_cases3)
    from row_of_query_loan [OF b acquire_loan [OF a [unfolded Ok] ok]] c1
    have l2: "on_loan c2 query s2" and c2: "drv_step c c2" by (auto intro: drv_step_trans)
    have "drv_step c c3" if "releaseQueryStmt E query s2 b c2 = (x, c3)" for b x c3
      using drv_step_trans [OF c2 release_step [OF l2, of E b]] that by simp
    with c2 show ?thesis
      by (cases r2) (auto simp: Conn_queryRow_def a Ok b split: prod.splits outcome.splits)
  qed (use c1 a in \<open>simp_all add: Conn_queryRow_def\<close>)
qed

lemma Ping_step: "drv_step c (snd (Conn_Ping E cx c))"
proof (rule drv_stepI)
  assume ok: "pool_ok c"
  obtain r c1 where q: "Conn_QueryContext E cx ''SELECT 1'' [] c = (r, c1)" by fastforce
  note q1 = QueryContext_ok [OF ok q]
  show ?thesis
  proof (cases r)
    case (Ok rs)
    obtain r1 s1 where rs: "rs = (r1, s1)" by fastforce
    obtain res r2 s2 c2 where cl: "Rows_Close E (r1, s1, c1) = (res, r2, s2, c2)" by (metis prod_cases4)
    from Rows_Close_ok [of c1 r1 s1, OF _ cl] q1 Ok rs have "drv_step c c2" by (auto intro: drv_step_trans)
    then show ?thesis by (cases res) (simp_all add: Conn_Ping_def q Ok rs cl)
  qed (use q q1 in \<open>simp_all add: Conn_Ping_def\<close>)
qed

lemma Explain_step: "drv_step c (snd (Conn_Explain E cx query full c))"
proof (cases "AllocStmt (dc_handle c)")
  case a: (Pair r h)
  let ?c = "c\<lparr>dc_handle := h\<rparr>"
  have h: "drv_step c ?c" by (rule drv_step_handle) blast
  show ?thesis
  proof (cases r)
    case (Ok st)
    define body where "body = (case with_handle (Stmt_ExecDirect (de_lib E) cx ((if full then ''explain full '' else ''explain '') @ query))
            (new_driver_stmt st, ?c) of
          (Ok u, sc) \<Rightarrow> with_handle (explain_lines E cx) sc
        | (Err e, sc) \<Rightarrow> (bind_outcome (Conn_ErrorOf e (snd sc)) Err, sc)
        | (Panic m, sc) \<Rightarrow> (Panic m, sc))"
    have "stmt_frame (new_driver_stmt st, ?c) (snd body)"
    proof -
      let ?x = "Stmt_ExecDirect (de_lib E) cx ((if full then ''explain full '' else ''explain '') @ query)"
      obtain r1 sc1 where w: "with_handle ?x (new_driver_stmt st, ?c) = (r1, sc1)" by (metis surj_pair)
      with with_handle_frame [of "(new_driver_stmt st, ?c)" ?x] have f: "stmt_frame (new_driver_stmt st, ?c) sc1" by simp
      from frame_trans [OF f with_handle_frame] f show ?thesis unfolding body_def w by (cases r1) simp_all
    qed
    from frame_trans [OF this with_handle_frame [of "snd body" "Stmt_Free (de_now E)"]]
    have "drv_step ?c (snd (snd (with_handle (Stmt_Free (de_now E)) (snd body))))"
      by (cases "snd (with_handle (Stmt_Free (de_now E)) (snd body))") (auto intro: drv_step_frame)
    from drv_step_trans [OF h this] show ?thesis
      by (cases body) (simp add: Conn_Explain_def a Ok Let_def body_def [symmetric])
  qed (use a h in \<open>simp_all add: Conn_Explain_def Let_def\<close>)
qed

section \<open>A connection in use\<close>

text \<open>
  What a program does with a connection, one operation after the other: the state is the connection with the
  result sets that were opened on it, open ones and closed ones.
\<close>

datatype conn_op =
  OpExec call_ctx string "(string \<times> anyval) list"
| OpQuery call_ctx string "(string \<times> anyval) list"
| OpQueryRow call_ctx string "anyval list"
| OpNext nat nat
| OpCloseRows nat
| OpPrepare call_ctx string
| OpBegin call_ctx
| OpFinish string
| OpReset call_ctx
| OpPing call_ctx
| OpExplain call_ctx string bool
| OpClose

type_synonym session = "Conn \<times> (Rows \<times> Stmt) list"

definition on_rows :: "nat \<Rightarrow> (rows_state \<Rightarrow> 'a \<times> rows_state) \<Rightarrow> session \<Rightarrow> session" where
  "on_rows i f st =
     (case st of (c, rs) \<Rightarrow>
        if i < length rs
        then (case rs ! i of (r, s) \<Rightarrow> (case f (r, s, c) of (_, r', s', c') \<Rightarrow> (c', rs[i := (r', s')])))
        else st)"

fun run_op :: "drv_env \<Rightarrow> conn_op \<Rightarrow> session \<Rightarrow> session" where
  "run_op E (OpExec cx q args) (c, rs) = (snd (Conn_ExecContext E cx q args c), rs)"
| "run_op E (OpQuery cx q args) (c, rs) =
     (case Conn_QueryContext E cx q args c of (Ok r, c') \<Rightarrow> (c', rs @ [r]) | (_, c') \<Rightarrow> (c', rs))"
| "run_op E (OpQueryRow cx q args) (c, rs) = (snd (Conn_queryRow E cx q args c), rs)"
| "run_op E (OpNext i n) st = on_rows i (Rows_Next E n) st"
| "run_op E (OpCloseRows i) st = on_rows i (Rows_Close E) st"
| "run_op E (OpPrepare cx q) (c, rs) = (snd (PrepareContext E cx q c), rs)"
| "run_op E (OpBegin cx) (c, rs) = (snd (BeginTx E cx 0 False c), rs)"
| "run_op E (OpFinish q) (c, rs) = (snd (snd (tx_finish E q (False, c))), rs)"
| "run_op E (OpReset cx) (c, rs) = (snd (ResetSession E cx c), rs)"
| "run_op E (OpPing cx) (c, rs) = (snd (Conn_Ping E cx c), rs)"
| "run_op E (OpExplain cx q full) (c, rs) = (snd (Conn_Explain E cx q full c), rs)"
| "run_op E OpClose (c, rs) = (snd (Conn_Close E c), rs)"

definition session_ok :: "session \<Rightarrow> bool" where
  "session_ok st = (case st of (c, rs) \<Rightarrow> pool_ok c \<and> list_all (rows_loan c) rs)"

lemma rows_loan_mono: "rows_loan c r \<Longrightarrow> dc_generation c \<le> dc_generation c' \<Longrightarrow> rows_loan c' r"
  by (auto simp: rows_loan_def on_loan_def split: prod.splits)

lemma session_step: "session_ok (c, rs) \<Longrightarrow> drv_step c c' \<Longrightarrow> session_ok (c', rs)"
  by (auto simp: session_ok_def drv_step_def intro: rows_loan_mono elim!: list.pred_mono_strong)

lemma on_rows_ok:
  assumes "session_ok (c, rs)"
    and "\<And>r s res r' s' c'. rows_loan c (r, s) \<Longrightarrow> f (r, s, c) = (res, r', s', c') \<Longrightarrow> drv_step c c' \<and> rows_loan c' (r', s')"
  shows "session_ok (on_rows i f (c, rs))"
proof (cases "i < length rs")
  case True
  obtain r s where rs: "rs ! i = (r, s)" by fastforce
  obtain res r' s' c' where f: "f (r, s, c) = (res, r', s', c')" by (metis prod_cases4)
  from assms(1) True rs have "rows_loan c (r, s)" by (auto simp: session_ok_def list_all_iff dest: nth_mem)
  from assms(2) [OF this f] session_step [OF assms(1), of c']
  have "session_ok (c', rs)" "rows_loan c' (r', s')" by auto
  with True rs f show ?thesis
    by (auto simp: on_rows_def session_ok_def list_all_iff dest!: set_update_subset_insert [THEN subsetD])
qed (use assms in \<open>simp add: on_rows_def\<close>)

lemma run_op_ok:
  assumes "session_ok st"
  shows "session_ok (run_op E op st)"
proof -
  obtain c rs where st: "st = (c, rs)" by fastforce
  have ok: "session_ok (c, rs)" "pool_ok c" using assms st by (auto simp: session_ok_def)
  note steps = session_step [OF ok(1)]
  show ?thesis
  proof (cases op)
    case (OpQuery cx q args)
    obtain r c' where q: "Conn_QueryContext E cx q args c = (r, c')" by fastforce
    from QueryContext_ok [OF ok(2) q] steps [of c'] q show ?thesis
      by (cases r) (auto simp: st OpQuery session_ok_def)
  qed (auto simp: st intro!: steps on_rows_ok [OF ok(1)] ExecContext_step Conn_queryRow_step PrepareContext_step BeginTx_step
        tx_finish_step [of "(False, c)", simplified] ResetSession_step Ping_step Explain_step Conn_Close_step
        dest: Rows_Next_ok Rows_Close_ok)
qed

lemma run_ops_ok: "session_ok st \<Longrightarrow> session_ok (fold (run_op E) ops st)"
proof (induction ops arbitrary: st)
  case (Cons op ops)
  from Cons.IH [OF run_op_ok [OF Cons.prems]] show ?case by simp
qed simp

lemma new_driver_conn_ok: "session_ok (new_driver_conn cfg h, [])"
  by (simp add: session_ok_def pool_ok_def new_driver_conn_def pooled_stmts_def pool_size_def)

section \<open>What leaves and what enters the pool\<close>

definition listed :: "(string \<times> Stmt list) list \<Rightarrow> (string \<times> Stmt) multiset" where
  "listed p = mset (concat (map (\<lambda>(k, ss). map (Pair k) ss) p))"

lemma listed_simps [simp]: "listed [] = {#}" "listed ((k, ss) # p) = mset (map (Pair k) ss) + listed p"
  by (simp_all add: listed_def)

lemma mset_pooled: "mset (pooled_stmts c) = (case dc_fast c of Some ks \<Rightarrow> {#ks#} | None \<Rightarrow> {#}) + listed (dc_pool c)"
  by (auto simp: pooled_stmts_def listed_def split: option.splits)

lemma listed_update:
  "distinct (map fst p) \<Longrightarrow>
     listed (AList.update k v p) + mset (map (Pair k) (case map_of p k of Some ss \<Rightarrow> ss | None \<Rightarrow> [])) = listed p + mset (map (Pair k) v)"
  by (induction p) (auto split: option.splits simp: ac_simps simp del: map_of_eq_Some_iff Some_eq_map_of_iff)

lemma listed_delete: "distinct (map fst p) \<Longrightarrow> map_of p k = Some ss \<Longrightarrow> listed p = mset (map (Pair k) ss) + listed (AList.delete k p)"
proof (induction p)
  case (Cons x p)
  have "k \<notin> fst ` set p \<Longrightarrow> AList.delete k p = p" by (induction p) auto
  with Cons show ?case by (cases x) (auto simp: ac_simps split: if_splits)
qed simp

lemma take_stmt_mset:
  assumes "distinct (map fst (dc_pool c))" and "take_stmt query c = Some (s, c')"
  shows "mset (pooled_stmts c) = add_mset (query, s) (mset (pooled_stmts c')) \<and> dc_generation c' = dc_generation c"
proof (cases "take_pooled query c")
  case None
  with assms(2) obtain ss where ss: "map_of (dc_pool c) query = Some ss" "ss \<noteq> []" "s = last ss"
    and c': "c' = c\<lparr>dc_pool := (if length ss = 1 then AList.delete query (dc_pool c)
                            else AList.update query (butlast ss) (dc_pool c)), dc_poolCount := dc_poolCount c - 1\<rparr>"
    by (auto simp: take_stmt_def take_listed_def split: option.splits if_splits)
  have split: "mset (map (Pair query) ss) = add_mset (query, s) (mset (map (Pair query) (butlast ss)))"
    using ss(2,3) by (cases ss rule: rev_cases) simp_all
  have one: "butlast ss = []" if "length ss = 1" using that by (cases ss) auto
  from listed_delete [OF assms(1) ss(1)] listed_update [OF assms(1), of query "butlast ss"] ss(1) one
  have "listed (dc_pool c) = add_mset (query, s) (listed (dc_pool c'))"
    unfolding c' by (auto simp: split [simplified])
  then show ?thesis by (simp add: mset_pooled c' split: option.splits)
next
  case (Some r)
  with assms(2) show ?thesis
    by (auto simp: take_stmt_def take_pooled_def mset_pooled split: option.splits if_splits)
qed

lemma pooled_handle [simp]: "pooled_stmts (c\<lparr>dc_handle := h\<rparr>) = pooled_stmts c"
  by (simp add: pooled_stmts_def)

lemma acquire_takes:
  "pool_ok c \<Longrightarrow> acquireQueryStmt E cx query c = (r, c') \<Longrightarrow>
     \<exists>M. mset (pooled_stmts c) = mset (pooled_stmts c') + M \<and> (\<forall>x \<in># M. fst x = query)"
proof (induction E cx query c arbitrary: c' rule: acquireQueryStmt.induct)
  case (1 E cx query c)
  have none: "\<exists>M. mset (pooled_stmts c) = mset (pooled_stmts c) + M \<and> (\<forall>x \<in># M. fst x = query)"
    by (rule exI [of _ "{#}"]) simp
  show ?case
  proof (cases "shouldReuseStmtForQuery c query \<and> take_stmt query c \<noteq> None")
    case False
    then have "acquireQueryStmt E cx query c = fresh_stmt E cx query c"
      by (cases "take_stmt query c") (auto simp: acquireQueryStmt.simps [of E cx query c])
    with "1.prems" fresh_stmt_conn [of E cx query c] none show ?thesis by auto
  next
    case True
    then obtain s c1 where t: "shouldReuseStmtForQuery c query" "take_stmt query c = Some (s, c1)" by auto
    from "1.prems"(1) have "distinct (map fst (dc_pool c))" by (simp add: pool_ok_def)
    note m = take_stmt_mset [OF this t(2)] and ok = take_stmt_ok [OF "1.prems"(1) t(2)]
    obtain h where cl: "snd (snd (Stmt_Close E (s, c1))) = c1\<lparr>dc_handle := h\<rparr>" using Stmt_Close_conn [of E "(s, c1)"] by auto
    have "\<exists>M. mset (pooled_stmts c1) = mset (pooled_stmts c') + M \<and> (\<forall>x \<in># M. fst x = query)"
    proof (cases "ds_generation s = dc_generation c")
      case False
      with t "1.prems" have "acquireQueryStmt E cx query (c1\<lparr>dc_handle := h\<rparr>) = (r, c')"
        by (simp add: acquireQueryStmt.simps [of E cx query c] cl)
      with "1.IH" [OF _ t(2)] t False ok cl show ?thesis by fastforce
    next
      case same: True
      with t "1.prems" have "reuse_stmt E cx query s c1 = (r, c')" by (simp add: acquireQueryStmt.simps [of E cx query c])
      with reuse_stmt_conn [of E cx query s c1] show ?thesis by (auto intro: exI [of _ "{#}"])
    qed
    then obtain M where "mset (pooled_stmts c1) = mset (pooled_stmts c') + M" "\<forall>x \<in># M. fst x = query" by blast
    with m show ?thesis by (intro exI [of _ "add_mset (query, s) M"]) auto
  qed
qed

lemma keep_stmt_mset:
  assumes "distinct (map fst (dc_pool c))" and "keep_stmt query s c = Some c'"
  shows "mset (pooled_stmts c') = add_mset (query, s) (mset (pooled_stmts c)) \<and> dc_handle c' = dc_handle c
    \<and> ds_generation s = dc_generation c"
proof (cases "dc_fast c")
  case (Some f)
  define ss where "ss = (case map_of (dc_pool c) query of Some ss \<Rightarrow> ss | None \<Rightarrow> [])"
  from assms(2) Some have c': "c' = c\<lparr>dc_pool := AList.update query (ss @ [s]) (dc_pool c), dc_poolCount := dc_poolCount c + 1\<rparr>"
    and "ds_generation s = dc_generation c"
    by (auto simp: keep_stmt_def ss_def Let_def split: if_splits)
  moreover from listed_update [OF assms(1), of query "ss @ [s]"]
  have "listed (dc_pool c') = add_mset (query, s) (listed (dc_pool c))" by (simp add: c' ss_def [symmetric])
  ultimately show ?thesis by (simp add: mset_pooled Some)
qed (use assms in \<open>auto simp: keep_stmt_def mset_pooled split: if_splits\<close>)

lemma pooled_length: "pool_ok c \<Longrightarrow> length (pooled_stmts c) \<le> 129"
proof -
  assume "pool_ok c"
  moreover have "length (concat (map (\<lambda>(k, ss). map (Pair k) ss) p)) = pool_size p" for p :: "(string \<times> Stmt list) list"
    by (induction p) (auto simp: pool_size_def)
  ultimately show ?thesis by (auto simp: pool_ok_def pooled_stmts_def split: option.splits)
qed

definition cleaned :: "Stmt \<Rightarrow> Stmt" where
  "cleaned s = s\<lparr>ds_reachEOF := False, ds_handle := Stmt_ExecuteClean (ds_handle s)\<rparr>"

lemma releaseQueryStmt_cleaned:
  "releaseQueryStmt E query s reusable c =
     (let close = (\<lambda>s. case Stmt_Close E (s, c) of (r, _, c') \<Rightarrow> (r, c'))
      in if \<not> shouldReuseStmtForQuery c query \<or> \<not> reusable \<or> \<not> FetchCompleted (ds_handle s) then close s
         else (case keep_stmt query (cleaned s) c of Some c' \<Rightarrow> (Ok (), c') | None \<Rightarrow> close (cleaned s)))"
  by (simp only: releaseQueryStmt_def cleaned_def Let_def)

section \<open>Properties\<close>


definition demo_pooled :: Stmt where
  "demo_pooled = (new_driver_stmt (the (Stmt_ExecuteClean (Some (new_stmt 1 100)))))\<lparr>ds_sqlText := ''SELECT 1''\<rparr>"

definition demo_pool_conn :: Conn where
  "demo_pool_conn =
     \<lparr>dc_handle = None, dc_user = ''SYS'', dc_usedCount = 0, dc_closeDone = False, dc_inTx = False, dc_database = [],
      dc_dbDirty = False, dc_reuseMode = StatementCacheOn, dc_fast = Some (''SELECT 1'', demo_pooled), dc_pool = [],
      dc_poolCount = 0, dc_poolCap = 128, dc_poolPerKeyCap = 8, dc_generation = 0\<rparr>"

lemma demo_pool_ok: "pool_ok demo_pool_conn" "on_loan demo_pool_conn ''SELECT 1'' demo_pooled"
  by (simp_all add: pool_ok_def demo_pool_conn_def pool_size_def pooled_stmts_def poolable_def on_loan_def demo_pooled_def
      new_driver_stmt_def Stmt_ExecuteClean_def FetchCompleted_def)

lemma demo_acquire: "acquireQueryStmt E cx ''SELECT 1'' demo_pool_conn = (Ok demo_pooled, demo_pool_conn\<lparr>dc_fast := None\<rparr>)"
  by (simp add: acquireQueryStmt.simps shouldReuseStmtForQuery_def take_stmt_def take_pooled_def reuse_stmt_def
      handle_supports_reprepare_def SupportsReprepare_def demo_pool_conn_def demo_pooled_def new_driver_stmt_def)

text \<open>
  C10. A statement that is acquired for a query is prepared for exactly that text and under the current catalog
  generation, whatever was pooled under whichever generation; the statements the call takes out of the
  pool, the one it returns and the outdated ones it closes, are all filed under that text, and the pool stays
  sound.
\<close>

theorem acquire_sound:
  assumes "pool_ok c" and "acquireQueryStmt E cx query c = (Ok s, c')"
  shows "ds_handle s \<noteq> None \<and> ds_sqlText s = query \<and> ds_generation s = dc_generation c \<and> \<not> ds_reachEOF s
    \<and> pool_ok c' \<and> (\<exists>M. mset (pooled_stmts c) = mset (pooled_stmts c') + M \<and> (\<forall>x \<in># M. fst x = query))"
  using acquire_ok [OF assms] acquire_takes [OF assms] by (auto simp: handed_out_def)

theorem acquire_sound_witness:
  "\<forall>E cx. \<exists>M. mset (pooled_stmts demo_pool_conn) = mset (pooled_stmts (demo_pool_conn\<lparr>dc_fast := None\<rparr>)) + M
     \<and> (\<forall>x \<in># M. fst x = ''SELECT 1'')"
  using acquire_sound [OF demo_pool_ok(1) demo_acquire] by blast

text \<open>
  C9. A released statement is either filed or closed, never both and never neither: it enters the pool, under the
  text it was acquired for and with its result set cleaned, only when the caller found it reusable, the server
  holds no open cursor for it, the cache is on for that text and the catalog has not changed since it was
  prepared; otherwise it is closed and the pool is as it was.
\<close>

theorem release_exact:
  assumes "pool_ok c" and "on_loan c query s" and "releaseQueryStmt E query s reusable c = (r, c')"
  shows "pool_ok c' \<and>
    (r = Ok () \<and> mset (pooled_stmts c') = add_mset (query, cleaned s) (mset (pooled_stmts c)) \<and> dc_handle c' = dc_handle c
       \<and> reusable \<and> FetchCompleted (ds_handle s) \<and> shouldReuseStmtForQuery c query \<and> ds_generation s = dc_generation c
     \<or> pooled_stmts c' = pooled_stmts c \<and> (\<exists>s' \<in> {s, cleaned s}. (r, c') = (case Stmt_Close E (s', c) of (r, _, c') \<Rightarrow> (r, c'))))"
proof -
  from assms(1) have d: "distinct (map fst (dc_pool c))" by (simp add: pool_ok_def)
  have closed: "pooled_stmts c' = pooled_stmts c" if "(r, c') = (case Stmt_Close E (x, c) of (r, _, c') \<Rightarrow> (r, c'))" for x
    using close_result [of E x c] that by (metis pooled_handle snd_conv)
  have "pool_ok c'" using release_ok [OF assms(1,2), of E reusable] assms(3) by simp
  let ?kept = "shouldReuseStmtForQuery c query \<and> reusable \<and> FetchCompleted (ds_handle s)"
  let ?close = "\<lambda>x. case Stmt_Close E (x, c) of (r, _, c') \<Rightarrow> (r, c')"
  show ?thesis
  proof (cases "?kept \<and> keep_stmt query (cleaned s) c \<noteq> None")
    case True
    with assms(3) have "r = Ok ()" "keep_stmt query (cleaned s) c = Some c'" by (auto simp: releaseQueryStmt_cleaned Let_def)
    with keep_stmt_mset [OF d this(2)] True \<open>pool_ok c'\<close> show ?thesis by (simp add: cleaned_def)
  next
    case False
    with assms(3) have "(r, c') = ?close s \<or> (r, c') = ?close (cleaned s)"
      unfolding releaseQueryStmt_cleaned Let_def by (simp split: if_splits option.splits)
    with closed \<open>pool_ok c'\<close> show ?thesis by blast
  qed
qed

theorem release_exact_witness: "\<forall>E. pool_ok (snd (releaseQueryStmt E ''SELECT 1'' demo_pooled True demo_pool_conn))"
  using release_exact [OF demo_pool_ok] by (metis prod.collapse)

end
