(* ===== verification/Transactions.thy ===== *)
theory Transactions
  imports Driver_Pool
begin

text \<open>
  Transactions: those of \<^verbatim>\<open>driver.go\<close>, the helpers \<^verbatim>\<open>Tx\<close> and \<^verbatim>\<open>TxConn\<close> of \<^verbatim>\<open>tx.go\<close> that run a function inside one, and the
  reset of a session between two users of a pooled connection.
\<close>

section \<open>Helpers\<close>

text \<open>
  A \<^verbatim>\<open>sql.Tx\<close> of the standard library: the driver's transaction and the flag under which the library lets only the first
  \<^verbatim>\<open>Commit\<close> or \<^verbatim>\<open>Rollback\<close> through, whatever the driver answers. The context of the transaction stays live.
\<close>

record sql_Tx =
  tx_done :: bool
  tx_driver :: "bool \<times> Conn"

definition sql_finish :: "drv_env \<Rightarrow> string \<Rightarrow> sql_Tx \<Rightarrow> unit outcome \<times> sql_Tx" where
  "sql_finish E sqlText tx =
     (if tx_done tx then (Err ErrTxDone, tx)
      else (case tx_finish E sqlText (tx_driver tx) of (r, d) \<Rightarrow> (r, \<lparr>tx_done = True, tx_driver = d\<rparr>)))"

definition sql_Commit :: "drv_env \<Rightarrow> sql_Tx \<Rightarrow> unit outcome \<times> sql_Tx" where
  "sql_Commit E = sql_finish E ''COMMIT''"

definition sql_Rollback :: "drv_env \<Rightarrow> sql_Tx \<Rightarrow> unit outcome \<times> sql_Tx" where
  "sql_Rollback E = sql_finish E ''ROLLBACK''"

text \<open>
  \<^verbatim>\<open>finishTx\<close>: the function runs on the transaction and may finish it itself; a returned error is an \<open>Err\<close>, a panic a \<open>Panic\<close>.
  The deferred recovery covers the whole body, a panic of the rollback or the commit too. The text of a failed rollback is
  attached to the error, which is kept here as its cause.
\<close>

definition recovered :: "drv_env \<Rightarrow> 'a outcome \<times> sql_Tx \<Rightarrow> 'a outcome \<times> sql_Tx" where
  "recovered E r = (case r of (Panic m, tx) \<Rightarrow> (Panic m, snd (sql_Rollback E tx)) | _ \<Rightarrow> r)"

definition finishTx :: "drv_env \<Rightarrow> (sql_Tx \<Rightarrow> unit outcome \<times> sql_Tx) \<Rightarrow> sql_Tx \<Rightarrow> unit outcome \<times> sql_Tx" where
  "finishTx E fn tx =
     recovered E
       (case fn tx of
          (Err e, tx) \<Rightarrow> (case sql_Rollback E tx of (Panic m, tx) \<Rightarrow> (Panic m, tx) | (_, tx) \<Rightarrow> (Err e, tx))
        | (Panic m, tx) \<Rightarrow> (Panic m, tx)
        | (Ok u, tx) \<Rightarrow> sql_Commit E tx)"

definition TxConn :: "drv_env \<Rightarrow> call_ctx \<Rightarrow> (sql_Tx \<Rightarrow> unit outcome \<times> sql_Tx) \<Rightarrow> Conn \<Rightarrow> unit outcome \<times> Conn" where
  "TxConn E cx fn c =
     (case BeginTx E cx 0 False c of
        (Ok u, c) \<Rightarrow> (case finishTx E fn \<lparr>tx_done = False, tx_driver = (False, c)\<rparr> of (r, tx) \<Rightarrow> (r, snd (tx_driver tx)))
      | (r, c) \<Rightarrow> (r, c))"

section \<open>The transaction flag\<close>

lemma sql_finish_done [simp]: "tx_done (snd (sql_finish E q tx))"
  by (simp add: sql_finish_def split: prod.splits)

lemma leading_capitals:
  assumes "list_all (\<lambda>c. 65 \<le> code c \<and> code c \<le> 90) w"
  shows "leadingSQLKeyword w = w"
proof -
  have g: "TrimSpace w = w"
  proof (cases "w = []")
    case False
    have "graphic c" if "c \<in> set w" for c using assms that unfolding graphic_def list_all_iff by fastforce
    with False show ?thesis by (intro TrimSpace_graphic) simp_all
  qed simp
  have "skip_comments w = w"
    using assms by (cases w) (auto simp: skip_comments.simps HasPrefix_def code_def)
  moreover have "takeWhile keyword_char w = w"
    using assms by (auto simp: takeWhile_eq_all_conv keyword_char_def list_all_iff)
  moreover have "ToUpper w = w"
    using assms by (auto simp: ToUpper_def list_all_iff intro!: map_idI)
  ultimately show ?thesis unfolding leadingSQLKeyword_def g by metis
qed

lemma leading_keywords [simp]:
  "leadingSQLKeyword ''BEGIN'' = ''BEGIN''" "leadingSQLKeyword ''COMMIT'' = ''COMMIT''" "leadingSQLKeyword ''ROLLBACK'' = ''ROLLBACK''"
  by (rule leading_capitals; simp add: code_def)+

lemma ExecContext_state:
  "Conn_ExecContext E cx query [] c = (Ok res, c') \<Longrightarrow> \<exists>c1. c' = setTransactionState query c1"
  by (auto simp: Conn_ExecContext_def split: if_splits outcome.splits prod.splits option.splits)

lemma finish_state:
  assumes "q \<in> {''COMMIT'', ''ROLLBACK''}" and "tx_finish E q (False, c) = (r, d, c')"
  shows "d \<longleftrightarrow> is_ok r" and "d \<Longrightarrow> \<not> dc_inTx c'"
  using assms by (auto simp: tx_finish_def setTransactionState_def dest!: ExecContext_state split: outcome.splits prod.splits)

definition tx_part :: "Conn \<Rightarrow> bool \<times> string \<times> bool" where
  "tx_part c = (dc_inTx c, dc_database c, dc_dbDirty c)"

lemma tx_part_update: "\<exists>h. c' = c\<lparr>dc_handle := h\<rparr> \<Longrightarrow> tx_part c' = tx_part c"
  by (auto simp: tx_part_def)

lemma closePool_tx: "tx_part (snd (closeQueryStmtPool E c)) = tx_part c"
  using tx_part_update [OF close_stmts_conn, of E _ "c\<lparr>dc_fast := None, dc_pool := [], dc_poolCount := 0\<rparr>"]
  by (simp add: closeQueryStmtPool_def) (simp add: tx_part_def)

lemma finish_tx: "tx_part (snd (case Stmt_Close E (s, c) of (Panic m, _, c) \<Rightarrow> (Panic m, c) | (_, _, c) \<Rightarrow> (r, c))) = tx_part c"
  using Stmt_Close_conn [of E "(s, c)"] by (auto simp: tx_part_def split: prod.splits outcome.splits)

lemma exec_direct_tx: "tx_part (snd (exec_direct E cx query c)) = tx_part c"
proof (cases "NewStmt c")
  case n: (Pair r c1)
  from tx_part_update [OF NewStmt_conn, of c] n have c1: "tx_part c1 = tx_part c" by simp
  show ?thesis
  proof (cases r)
    case (Ok s)
    obtain r2 s2 c2 where w: "with_handle (Stmt_ExecDirect (de_lib E) cx query) (s, c1) = (r2, s2, c2)" by (metis prod_cases3)
    from tx_part_update [OF with_handle_conn, of "Stmt_ExecDirect (de_lib E) cx query" "(s, c1)"] w c1
    have c2: "tx_part c2 = tx_part c" by simp
    obtain rp c3 where p: "closeQueryStmtPool E (c2\<lparr>dc_generation := Suc (dc_generation c2)\<rparr>) = (rp, c3)" by fastforce
    with closePool_tx [of E "c2\<lparr>dc_generation := Suc (dc_generation c2)\<rparr>"] c2 have c3: "tx_part c3 = tx_part c"
      by (simp add: tx_part_def)
    from c2 c3 show ?thesis by (cases r2) (simp_all add: exec_direct_def n Ok w Let_def p finish_tx)
  qed (use c1 n in \<open>simp_all add: exec_direct_def\<close>)
qed

lemma reset_exec_tx: "reset_exec E cx query c = (Ok (), c') \<Longrightarrow> tx_part c' = tx_part c"
  using exec_direct_tx [of E cx query c]
  by (auto simp: reset_exec_def Conn_exec_def split: prod.splits outcome.splits if_splits)

lemma ResetSession_clean:
  assumes "ResetSession E cx c = (Ok (), c')"
  shows "dc_handle c \<noteq> None \<and> \<not> dc_inTx c' \<and> \<not> (dc_dbDirty c' \<and> TrimSpace (dc_database c') \<noteq> []) \<and> dc_database c' = dc_database c"
proof -
  from assms have h: "dc_handle c \<noteq> None" by (auto simp: ResetSession_def split: if_splits)
  define first where "first = (if dc_inTx c
           then and_then (reset_exec E cx ''ROLLBACK'' c) (\<lambda>_ c. (Ok (), setTransactionState ''ROLLBACK'' c))
           else (Ok (), c))"
  obtain r1 c1 where f: "first = (r1, c1)" by fastforce
  with assms h have r1: "r1 = Ok ()" by (cases r1) (auto simp: ResetSession_def first_def [symmetric] and_then_def)
  have t1: "\<not> dc_inTx c1 \<and> dc_database c1 = dc_database c"
  proof (cases "dc_inTx c")
    case True
    with f r1 obtain c0 where "reset_exec E cx ''ROLLBACK'' c = (Ok (), c0)" "c1 = setTransactionState ''ROLLBACK'' c0"
      by (auto simp: first_def and_then_def split: prod.splits outcome.splits)
    with reset_exec_tx [of E cx "''ROLLBACK''" c c0] show ?thesis by (simp add: setTransactionState_def tx_part_def)
  qed (use f in \<open>simp add: first_def\<close>)
  show ?thesis
  proof (cases "dc_dbDirty c1 \<and> TrimSpace (dc_database c1) \<noteq> []")
    case True
    with assms h f r1 obtain c2 where "reset_exec E cx (''USE '' @ QuoteIdentifier (dc_database c1)) c1 = (Ok (), c2)"
      "c' = c2\<lparr>dc_dbDirty := False\<rparr>"
      by (auto simp: ResetSession_def first_def [symmetric] and_then_def split: prod.splits outcome.splits)
    with reset_exec_tx [of E cx "''USE '' @ QuoteIdentifier (dc_database c1)" c1 c2] t1 h show ?thesis
      by (simp add: tx_part_def)
  next
    case False
    with assms h f r1 t1 show ?thesis by (auto simp: ResetSession_def first_def [symmetric] and_then_def)
  qed
qed

section \<open>Properties\<close>




end
