(* ===== verification/Result_Sets.thy ===== *)
theory Result_Sets
  imports Driver_Pool
begin

text \<open>
  What a program sees of a query through \<^verbatim>\<open>database/sql\<close>: the rows of an open result set of \<^verbatim>\<open>driver.go\<close> and the
  values that named parameters are bound to.
\<close>

section \<open>Reading a result set\<close>

text \<open>A result set whose cursor stands before the rows that are left, and one that has been read to its end.\<close>

definition rows_at :: "golib \<Rightarrow> chunk list \<Rightarrow> rows_state \<Rightarrow> bool" where
  "rows_at lib ks st =
     (case st of (r, s, c) \<Rightarrow>
        dr_open r \<and> dr_err r = None \<and> \<not> ds_reachEOF s
        \<and> (case ds_handle s of Some h \<Rightarrow> cursor_at lib ks (h, dc_handle c) | None \<Rightarrow> False))"

definition unread :: "chunk list \<Rightarrow> rows_state \<Rightarrow> goval list list" where
  "unread ks st = (case st of (r, s, c) \<Rightarrow> rows_left ks (the (ds_handle s), dc_handle c))"

definition rows_ended :: "rows_state \<Rightarrow> bool" where
  "rows_ended st = (case st of (r, s, c) \<Rightarrow> dr_open r \<and> dr_err r = None \<and> ds_reachEOF s \<and> FetchCompleted (ds_handle s))"

lemma Rows_Next_ended: "rows_ended st \<Longrightarrow> Rows_Next E n st = (Err EOF, st)"
  by (auto simp: rows_ended_def Rows_Next_def Rows_advance_def normalizeError_def split: prod.splits)

lemma Stmt_Fetch_handle:
  "ds_handle s = Some h \<Longrightarrow> fetch_loop (de_lib E) cx (h, dc_handle c) = (r, h', ch) \<Longrightarrow>
     with_handle (Stmt_Fetch (de_lib E) cx) (s, c) = (r, (s\<lparr>ds_handle := Some h'\<rparr>, c\<lparr>dc_handle := ch\<rparr>))"
  by (simp add: with_handle_def Stmt_Fetch_def nil_stmt_def)

lemma Rows_Next_step:
  assumes "rows_at (de_lib E) ks st"
  shows "case unread ks st of
      [] \<Rightarrow> \<exists>st'. Rows_Next E n st = (Err EOF, st') \<and> rows_ended st'
    | row # rest \<Rightarrow> \<exists>st' ks'. Rows_Next E n st = (fill_dest (de_lib E) n row, st') \<and> rows_at (de_lib E) ks' st' \<and> unread ks' st' = rest"
proof -
  obtain r s c where st: "st = (r, s, c)" by (cases st)
  with assms obtain h where h: "ds_handle s = Some h" "cursor_at (de_lib E) ks (h, dc_handle c)" "dr_open r" "dr_err r = None"
    "\<not> ds_reachEOF s" by (auto simp: rows_at_def split: option.splits)
  have u: "unread ks st = rows_left ks (h, dc_handle c)" by (simp add: unread_def st h)
  note step = fetch_step [OF h(2), of "dr_cx r"]
  show ?thesis
  proof (cases "rows_left ks (h, dc_handle c)")
    case Nil
    with step obtain h' ch where f: "fetch_loop (de_lib E) (dr_cx r) (h, dc_handle c) = (Ok None, h', ch)" "cursor_at (de_lib E) [] (h', ch)"
      by fastforce
    let ?st = "(r, s\<lparr>ds_handle := Some h', ds_reachEOF := True\<rparr>, c\<lparr>dc_handle := ch\<rparr>)"
    from Stmt_Fetch_handle [OF h(1) f(1)] h have "Rows_Next E n st = (Err EOF, ?st)"
      by (simp add: Rows_Next_def Rows_advance_def st Stmt_fetch_def and_then_def normalizeError_def)
    moreover have "rows_ended ?st" using f(2) h by (simp add: rows_ended_def FetchCompleted_def cursor_at_def)
    ultimately show ?thesis using Nil u by auto
  next
    case (Cons row rest)
    with step obtain h' ch ks' where f: "fetch_loop (de_lib E) (dr_cx r) (h, dc_handle c) = (Ok (Some row), h', ch)"
      "cursor_at (de_lib E) ks' (h', ch)" "rows_left ks' (h', ch) = rest" by fastforce
    let ?st = "(r\<lparr>dr_row := row, dr_rowsCount := dr_rowsCount r + 1\<rparr>, s\<lparr>ds_handle := Some h', ds_reachEOF := False\<rparr>, c\<lparr>dc_handle := ch\<rparr>)"
    from Stmt_Fetch_handle [OF h(1) f(1)] h have "Rows_Next E n st = (fill_dest (de_lib E) n row, ?st)"
      by (simp add: Rows_Next_def Rows_advance_def st Stmt_fetch_def and_then_def)
    moreover have "rows_at (de_lib E) ks' ?st" "unread ks' ?st = rest" using f h by (simp_all add: rows_at_def unread_def)
    ultimately show ?thesis using Cons u by auto
  qed
qed

lemma ended_run: "rows_ended st \<Longrightarrow> run_steps (\<lambda>_. Rows_Next E n) us st = (replicate (length us) (Err EOF), st)"
  by (induction us) (simp_all add: Rows_Next_ended)

lemma rows_run:
  "rows_at (de_lib E) ks st \<Longrightarrow> length (unread ks st) < length us \<Longrightarrow>
     (case run_steps (\<lambda>_. Rows_Next E n) us st of (rs, st') \<Rightarrow>
        rs = map (fill_dest (de_lib E) n) (unread ks st) @ replicate (length us - length (unread ks st)) (Err EOF) \<and> rows_ended st')"
proof (induction us arbitrary: ks st)
  case (Cons u us)
  note step = Rows_Next_step [OF Cons.prems(1), of n]
  show ?case
  proof (cases "unread ks st")
    case Nil
    with step obtain st' where "Rows_Next E n st = (Err EOF, st')" "rows_ended st'" by auto
    with ended_run [of st' E n us] Nil show ?thesis by simp
  next
    case row: (Cons r rest)
    with step obtain st' ks' where s: "Rows_Next E n st = (fill_dest (de_lib E) n r, st')" "rows_at (de_lib E) ks' st'" "unread ks' st' = rest"
      by auto
    with Cons.IH [OF s(2)] Cons.prems(2) row show ?thesis by (auto split: prod.splits)
  qed
qed simp

section \<open>Named parameters\<close>

definition lower_named :: "(string \<times> anyval) list \<Rightarrow> (string \<times> anyval) list" where
  "lower_named ps = map (\<lambda>(name, v). (ToLower name, v)) ps"

lemma lower_named_simps [simp]: "lower_named [] = []" "lower_named ((name, v) # ps) = (ToLower name, v) # lower_named ps"
  by (simp_all add: lower_named_def)

lemma collect_named_Ok:
  "collect_named (map (\<lambda>(name, v). ANamed name v) ps) acc = Ok out \<longleftrightarrow>
     out = acc @ lower_named ps \<and> list_all (\<lambda>(name, v). name \<noteq> []) ps \<and> distinct (map fst (lower_named ps))
     \<and> set (map fst acc) \<inter> set (map fst (lower_named ps)) = {}"
proof (induction ps arbitrary: acc)
  case (Cons p ps)
  obtain name v where p: "p = (name, v)" by fastforce
  show ?case
  proof (cases "name = [] \<or> map_of acc (ToLower name) \<noteq> None")
    case True
    then show ?thesis by (auto simp: p map_of_eq_None_iff)
  next
    case False
    with Cons.IH [of "acc @ [(ToLower name, v)]"] show ?thesis by (auto simp: p map_of_eq_None_iff)
  qed
qed auto

lemma named_args_Ok:
  "named_args ds provided = Ok vs \<longleftrightarrow>
     list_all (\<lambda>d. pd_Name d \<noteq> [] \<and> ToLower (pd_Name d) \<in> fst ` set provided) ds
     \<and> vs = map (\<lambda>d. the (map_of provided (ToLower (pd_Name d)))) ds"
  by (induction ds arbitrary: vs)
     (auto simp: bind_outcome_Ok_iff map_of_eq_None_iff split: option.splits dest: map_of_SomeD intro: rev_image_eqI)

lemma named_list: "ps \<noteq> [] \<Longrightarrow> list_ex is_named (map (\<lambda>(name, v). ANamed name v) ps)"
  by (cases ps) (auto simp: is_named_def)

section \<open>Properties\<close>

text \<open>
  C5. A program that reads a result set sees every row once and in order, then the end: when the server holds a
  sequence of chunks of which the last says LAST, repeated calls of \<^verbatim>\<open>Rows.Next\<close> fill the destination with the remaining
  rows, one after the other, and from then on answer \<^verbatim>\<open>io.EOF\<close>; the server then holds no open cursor, so that closing
  the result set can keep its statement.
\<close>

theorem rows_delivered:
  assumes "rows_at (de_lib E) ks st" and "length (unread ks st) < length us"
  shows "case run_steps (\<lambda>_. Rows_Next E n) us st of (rs, st') \<Rightarrow>
    rs = map (fill_dest (de_lib E) n) (unread ks st) @ replicate (length us - length (unread ks st)) (Err EOF)
    \<and> FetchCompleted (ds_handle (fst (snd st')))"
  using rows_run [OF assms, of n] by (auto simp: rows_ended_def split: prod.splits)

definition demo_rows :: rows_state where
  "demo_rows =
     (new_rows (Background 0) False True [], new_driver_stmt (fst demo_cursor), demo_pool_conn\<lparr>dc_handle := snd demo_cursor\<rparr>)"

lemma demo_rows_at: "rows_at lib [demo_chunk] demo_rows" "unread [demo_chunk] demo_rows = [[GPrim (VInt16 7)]]"
proof -
  have "rows_left [demo_chunk] demo_cursor = [[GPrim (VInt16 7)]]"
    by (simp add: rows_left_def demo_cursor_def demo_chunk_def new_stmt_def)
  with demo_cursor_at [of lib] show "rows_at lib [demo_chunk] demo_rows" "unread [demo_chunk] demo_rows = [[GPrim (VInt16 7)]]"
    by (simp_all add: rows_at_def unread_def demo_rows_def new_rows_def new_driver_stmt_def demo_pool_conn_def)
qed

theorem rows_delivered_witness:
  "\<forall>E. fst (run_steps (\<lambda>_. Rows_Next E 1) [(), ()] demo_rows) = [fill_dest (de_lib E) 1 [GPrim (VInt16 7)], Err EOF]"
proof
  fix E
  from rows_delivered [where E = E and us = "[(), ()]" and n = 1, OF demo_rows_at(1)]
  show "fst (run_steps (\<lambda>_. Rows_Next E 1) [(), ()] demo_rows) = [fill_dest (de_lib E) 1 [GPrim (VInt16 7)], Err EOF]"
    unfolding demo_rows_at(2) by (auto split: prod.splits)
qed

text \<open>
  C32. Named arguments are bound by name: for a list of named arguments in any order, \<^verbatim>\<open>mapNamedParams\<close> succeeds exactly when no
  name is empty, no two arguments have the same name up to case, every parameter of the statement has a name and the
  names of the arguments are those of the parameters up to case; it then gives each parameter, in the order of the
  statement and as often as it occurs there, the value of the argument of its name.
\<close>

theorem named_params_exact:
  assumes "ps \<noteq> []"
  shows "mapNamedParams (map (\<lambda>(name, v). ANamed name v) ps) (Some st) = Ok vs \<longleftrightarrow>
    list_all (\<lambda>(name, v). name \<noteq> []) ps \<and> distinct (map fst (lower_named ps))
    \<and> list_all (\<lambda>d. pd_Name d \<noteq> []) (sh_paramDesc st)
    \<and> fst ` set (lower_named ps) = (ToLower \<circ> pd_Name) ` set (sh_paramDesc st)
    \<and> vs = map (\<lambda>d. the (map_of (lower_named ps) (ToLower (pd_Name d)))) (sh_paramDesc st)"
proof -
  have names: "list_all (\<lambda>(name, _). name \<in> set (map (ToLower \<circ> pd_Name) (sh_paramDesc st))) (lower_named ps)
      \<longleftrightarrow> fst ` set (lower_named ps) \<subseteq> (ToLower \<circ> pd_Name) ` set (sh_paramDesc st)"
    "list_all (\<lambda>d. pd_Name d \<noteq> [] \<and> ToLower (pd_Name d) \<in> fst ` set (lower_named ps)) (sh_paramDesc st)
      \<longleftrightarrow> list_all (\<lambda>d. pd_Name d \<noteq> []) (sh_paramDesc st)
        \<and> (ToLower \<circ> pd_Name) ` set (sh_paramDesc st) \<subseteq> fst ` set (lower_named ps)"
    by (auto simp: list_all_iff image_subset_iff)
  have "mapNamedParams (map (\<lambda>(name, v). ANamed name v) ps) (Some st) = Ok vs \<longleftrightarrow>
      list_all (\<lambda>(name, v). name \<noteq> []) ps \<and> distinct (map fst (lower_named ps))
      \<and> named_args (sh_paramDesc st) (lower_named ps) = Ok vs
      \<and> list_all (\<lambda>(name, _). name \<in> set (map (ToLower \<circ> pd_Name) (sh_paramDesc st))) (lower_named ps)"
    using named_list [OF assms] by (auto simp: mapNamedParams_def collect_named_Ok bind_outcome_Ok_iff Let_def split: if_splits)
  also have "\<dots> \<longleftrightarrow> list_all (\<lambda>(name, v). name \<noteq> []) ps \<and> distinct (map fst (lower_named ps))
    \<and> list_all (\<lambda>d. pd_Name d \<noteq> []) (sh_paramDesc st)
    \<and> fst ` set (lower_named ps) = (ToLower \<circ> pd_Name) ` set (sh_paramDesc st)
    \<and> vs = map (\<lambda>d. the (map_of (lower_named ps) (ToLower (pd_Name d)))) (sh_paramDesc st)"
    unfolding named_args_Ok names by auto
  finally show ?thesis .
qed

definition demo_param :: "string \<Rightarrow> ParamDesc" where
  "demo_param name =
     \<lparr>pd_Type = SqlTypeInt64, pd_Precision = 0, pd_ElementPrecision = 0, pd_Scale = 0, pd_Nullable = True,
      pd_Nullability = NullabilityUnknown, pd_Ordinal = 0, pd_Name = name\<rparr>"

theorem named_params_exact_witness:
  "mapNamedParams [ANamed ''b'' (AVal (GPrim (VInt64 2))), ANamed ''A'' (AVal (GPrim (VInt64 1)))]
     (Some ((new_stmt 1 0)\<lparr>sh_paramDesc := [demo_param ''A'', demo_param ''B'', demo_param ''a'']\<rparr>))
   = Ok [AVal (GPrim (VInt64 1)), AVal (GPrim (VInt64 2)), AVal (GPrim (VInt64 1))]"
proof -
  have l: "ToLower ''A'' = ''a''" "ToLower ''B'' = ''b''" "ToLower ''a'' = ''a''" "ToLower ''b'' = ''b''" by code_simp+
  show ?thesis
    using named_params_exact [of "[(''b'', AVal (GPrim (VInt64 2))), (''A'', AVal (GPrim (VInt64 1)))]"
        "(new_stmt 1 0)\<lparr>sh_paramDesc := [demo_param ''A'', demo_param ''B'', demo_param ''a'']\<rparr>"]
    by (auto simp: l demo_param_def)
qed

end
