(* ===== verification/Scan.thy ===== *)
theory Scan
  imports Driver_Rows
begin

text \<open>
  Conversions between rows and the variables of a program: \<^verbatim>\<open>scan.go\<close>, and \<^verbatim>\<open>Scan\<close> of \<^verbatim>\<open>Rows\<close> and \<^verbatim>\<open>Row\<close> in
  \<^verbatim>\<open>driver.go\<close>. A destination is a pointer that is not nil; it is given by the type of the variable, and a
  conversion returns what the variable holds afterwards (an error leaves it as it was).
\<close>

section \<open>Types and values\<close>

text \<open>The types a destination may point to; \<open>TNull\<close> is \<^verbatim>\<open>sql.Null[T]\<close>, the other wrappers have their own name.\<close>

datatype gotype =
    TBool | TInt | TUint | TInt8 | TUint8 | TInt16 | TUint16 | TInt32 | TUint32 | TInt64 | TUint64 | TFloat32 | TFloat64
  | TString | TJSON | TBytes | TRawBytes | TTime | TIP | TDecimal | TArray | TValue | TAny
  | TTableType | TTableFlag | TColumnType | TColumnFlag
  | TNullBool | TNullByte | TNullInt16 | TNullInt32 | TNullInt64 | TNullFloat64 | TNullString | TNullTime
  | TNull gotype | TPtr gotype | TNamed string

text \<open>Values: \<open>GvEnum\<close> of a named integer type, \<open>GvNull\<close> of a wrapper with its field \<^verbatim>\<open>Valid\<close>.\<close>

datatype gv =
    GvPrim prim
  | GvJSON string
  | GvRaw bytes
  | GvArray Array
  | GvEnum gotype int
  | GvNull gotype bool gv
  | GvPtr gv
  | GvNilPtr gotype
  | GvSlice "prim list"

abbreviation GvNil :: gv where "GvNil \<equiv> GvPrim VNil"

text \<open>The value in a column of a row.\<close>

fun of_goval :: "goval \<Rightarrow> gv" where
  "of_goval (GPrim (VDecimalPtr None)) = GvNilPtr TDecimal"
| "of_goval (GPrim (VDecimalPtr (Some d))) = GvPtr (GvPrim (VDecimal d))"
| "of_goval (GPrim (VNilPtr t)) = GvNilPtr (TNamed t)"
| "of_goval (GPrim p) = GvPrim p"
| "of_goval (GArrayPtr None) = GvNilPtr TArray"
| "of_goval (GArrayPtr (Some a)) = GvPtr (GvArray a)"
| "of_goval (GArrayVal a) = GvArray a"
| "of_goval (GSlice ps) = GvSlice ps"

text \<open>
  What the conversions take from the libraries: \<^verbatim>\<open>strconv.FormatFloat(x, 'f', -1, n)\<close> and a time in the location of the
  result set as RFC 3339 text.
\<close>

record scan_lib =
  sl_lib :: golib
  sl_FormatFloat :: "prim \<Rightarrow> string"
  sl_FormatTime :: "goint \<Rightarrow> string"

definition valid :: "gotype \<Rightarrow> prim \<Rightarrow> gv outcome" where
  "valid t p = Ok (GvNull t True (GvPrim p))"

definition stored_in :: "prim \<Rightarrow> gv outcome" where
  "stored_in p = Ok (GvPrim p)"

definition unsupported :: "string \<Rightarrow> gv outcome" where
  "unsupported src = Err (PlainErr (''scan convert from '' @ src @ '' not supported''))"

text \<open>\<^verbatim>\<open>scanIndirect\<close>: a new variable is filled, and its address stored.\<close>

definition scanIndirect :: "gv outcome \<Rightarrow> gv outcome" where
  "scanIndirect r = bind_outcome r (\<lambda>v. Ok (GvPtr v))"

section \<open>Integers\<close>

text \<open>Conversion of a signed integer to another width, and of an integer to a named integer type of 64 bits.\<close>

definition resize :: "'a :: len word \<Rightarrow> 'b :: len word" where
  "resize w = of_int (sint w)"

fun scanInt16 :: "u16 \<Rightarrow> gotype \<Rightarrow> gv outcome" where
  "scanInt16 src dst =
     (if src = 0x8000 then Err (PlainErr ''scan NULL INT16'')
      else
        (case dst of
           TInt \<Rightarrow> stored_in (VInt (resize src))
         | TUint \<Rightarrow> stored_in (VUint (resize src))
         | TInt16 \<Rightarrow> stored_in (VInt16 src)
         | TUint16 \<Rightarrow> stored_in (VUint16 src)
         | TInt32 \<Rightarrow> stored_in (VInt32 (resize src))
         | TUint32 \<Rightarrow> stored_in (VUint32 (resize src))
         | TInt64 \<Rightarrow> stored_in (VInt64 (resize src))
         | TUint64 \<Rightarrow> stored_in (VUint64 (resize src))
         | TString \<Rightarrow> stored_in (VString (itoa (sint src)))
         | TNullInt16 \<Rightarrow> valid TNullInt16 (VInt16 src)
         | TNullInt32 \<Rightarrow> valid TNullInt32 (VInt32 (resize src))
         | TNullInt64 \<Rightarrow> valid TNullInt64 (VInt64 (resize src))
         | TNull t \<Rightarrow>
             (case t of
                TInt \<Rightarrow> valid dst (VInt (resize src))
              | TInt16 \<Rightarrow> valid dst (VInt16 src)
              | TInt32 \<Rightarrow> valid dst (VInt32 (resize src))
              | TInt64 \<Rightarrow> valid dst (VInt64 (resize src))
              | TUint16 \<Rightarrow> valid dst (VUint16 src)
              | TUint32 \<Rightarrow> valid dst (VUint32 (resize src))
              | TUint64 \<Rightarrow> valid dst (VUint64 (resize src))
              | _ \<Rightarrow> unsupported ''INT16'')
         | TValue \<Rightarrow> stored_in (VInt16 src)
         | TPtr t \<Rightarrow> scanIndirect (scanInt16 src t)
         | _ \<Rightarrow> unsupported ''INT16''))"

fun scanInt32 :: "u32 \<Rightarrow> gotype \<Rightarrow> gv outcome" where
  "scanInt32 src dst =
     (if src = 0x80000000 then Err (PlainErr ''scan NULL INT32'')
      else
        (case dst of
           TInt \<Rightarrow> stored_in (VInt (resize src))
         | TUint \<Rightarrow> stored_in (VUint (resize src))
         | TInt16 \<Rightarrow> stored_in (VInt16 (resize src))
         | TUint16 \<Rightarrow> stored_in (VUint16 (resize src))
         | TInt32 \<Rightarrow> stored_in (VInt32 src)
         | TUint32 \<Rightarrow> stored_in (VUint32 src)
         | TInt64 \<Rightarrow> stored_in (VInt64 (resize src))
         | TUint64 \<Rightarrow> stored_in (VUint64 (resize src))
         | TString \<Rightarrow> stored_in (VString (itoa (sint src)))
         | TTableType \<Rightarrow> Ok (GvEnum dst (sint src))
         | TTableFlag \<Rightarrow> Ok (GvEnum dst (sint src))
         | TColumnType \<Rightarrow> Ok (GvEnum dst (sint src))
         | TColumnFlag \<Rightarrow> Ok (GvEnum dst (sint src))
         | TNullInt32 \<Rightarrow> valid TNullInt32 (VInt32 src)
         | TNullInt64 \<Rightarrow> valid TNullInt64 (VInt64 (resize src))
         | TNull t \<Rightarrow>
             (case t of
                TInt \<Rightarrow> valid dst (VInt (resize src))
              | TInt32 \<Rightarrow> valid dst (VInt32 src)
              | TInt64 \<Rightarrow> valid dst (VInt64 (resize src))
              | TUint32 \<Rightarrow> valid dst (VUint32 src)
              | TUint64 \<Rightarrow> valid dst (VUint64 (resize src))
              | _ \<Rightarrow> unsupported ''INT32'')
         | TValue \<Rightarrow> stored_in (VInt32 src)
         | TPtr t \<Rightarrow> scanIndirect (scanInt32 src t)
         | _ \<Rightarrow> unsupported ''INT32''))"

fun scanInt64 :: "u64 \<Rightarrow> gotype \<Rightarrow> gv outcome" where
  "scanInt64 src dst =
     (if src = 0x8000000000000000 then Err (PlainErr ''scan NULL INT64'')
      else
        (case dst of
           TInt \<Rightarrow> stored_in (VInt src)
         | TUint \<Rightarrow> stored_in (VUint src)
         | TInt16 \<Rightarrow> stored_in (VInt16 (resize src))
         | TUint16 \<Rightarrow> stored_in (VUint16 (resize src))
         | TInt32 \<Rightarrow> stored_in (VInt32 (resize src))
         | TUint32 \<Rightarrow> stored_in (VUint32 (resize src))
         | TInt64 \<Rightarrow> stored_in (VInt64 src)
         | TUint64 \<Rightarrow> stored_in (VUint64 src)
         | TString \<Rightarrow> stored_in (VString (itoa (sint src)))
         | TTime \<Rightarrow> stored_in (VTime src)
         | TTableType \<Rightarrow> Ok (GvEnum dst (sint src))
         | TTableFlag \<Rightarrow> Ok (GvEnum dst (sint src))
         | TColumnType \<Rightarrow> Ok (GvEnum dst (sint src))
         | TColumnFlag \<Rightarrow> Ok (GvEnum dst (sint src))
         | TNullInt64 \<Rightarrow> valid TNullInt64 (VInt64 src)
         | TNull t \<Rightarrow>
             (case t of
                TInt \<Rightarrow> valid dst (VInt src)
              | TInt64 \<Rightarrow> valid dst (VInt64 src)
              | TUint64 \<Rightarrow> valid dst (VUint64 src)
              | _ \<Rightarrow> unsupported ''INT64'')
         | TValue \<Rightarrow> stored_in (VInt64 src)
         | TPtr t \<Rightarrow> scanIndirect (scanInt64 src t)
         | _ \<Rightarrow> unsupported ''INT64''))"

section \<open>Times, floats, texts and bytes\<close>

fun scanDatetime :: "scan_lib \<Rightarrow> goint \<Rightarrow> gotype \<Rightarrow> gv outcome" where
  "scanDatetime sl src dst =
     (case dst of
        TInt64 \<Rightarrow> stored_in (VInt64 src)
      | TTime \<Rightarrow> stored_in (VTime src)
      | TString \<Rightarrow> stored_in (VString (sl_FormatTime sl src))
      | TNullTime \<Rightarrow> valid TNullTime (VTime src)
      | TNull t \<Rightarrow> if t = TTime then valid dst (VTime src) else unsupported ''DATETIME''
      | TValue \<Rightarrow> stored_in (VTime src)
      | TPtr t \<Rightarrow> scanIndirect (scanDatetime sl src t)
      | _ \<Rightarrow> unsupported ''DATETIME'')"

text \<open>A float to a 32-bit integer: the integral part, or the smallest integer when it does not fit.\<close>

definition f64_to_int32 :: "u64 \<Rightarrow> u32" where
  "f64_to_int32 b =
     (if f64_exp b = 2047 \<or> f64_int_part b < - (2 ^ 31) \<or> f64_int_part b \<ge> 2 ^ 31 then 2 ^ 31 else of_int (f64_int_part b))"

fun scanFloat32 :: "scan_lib \<Rightarrow> u32 \<Rightarrow> gotype \<Rightarrow> gv outcome" where
  "scanFloat32 sl src dst =
     (case dst of
        TFloat32 \<Rightarrow> stored_in (VFloat32 src)
      | TFloat64 \<Rightarrow> stored_in (VFloat64 (f32_widen src))
      | TString \<Rightarrow> stored_in (VString (sl_FormatFloat sl (VFloat32 src)))
      | TNullFloat64 \<Rightarrow> valid TNullFloat64 (VFloat64 (f32_widen src))
      | TNull t \<Rightarrow>
          (case t of
             TFloat32 \<Rightarrow> valid dst (VFloat32 src)
           | TFloat64 \<Rightarrow> valid dst (VFloat64 (f32_widen src))
           | _ \<Rightarrow> unsupported ''FLOAT32'')
      | TValue \<Rightarrow> stored_in (VFloat32 src)
      | TInt \<Rightarrow> stored_in (VInt (f64_to_int64 (f32_widen src)))
      | TInt32 \<Rightarrow> stored_in (VInt32 (f64_to_int32 (f32_widen src)))
      | TInt64 \<Rightarrow> stored_in (VInt64 (f64_to_int64 (f32_widen src)))
      | TPtr t \<Rightarrow> scanIndirect (scanFloat32 sl src t)
      | _ \<Rightarrow> unsupported ''FLOAT32'')"

fun scanFloat64 :: "scan_lib \<Rightarrow> u64 \<Rightarrow> gotype \<Rightarrow> gv outcome" where
  "scanFloat64 sl src dst =
     (case dst of
        TFloat32 \<Rightarrow> stored_in (VFloat32 (f64_narrow src))
      | TFloat64 \<Rightarrow> stored_in (VFloat64 src)
      | TString \<Rightarrow> stored_in (VString (sl_FormatFloat sl (VFloat64 src)))
      | TNullFloat64 \<Rightarrow> valid TNullFloat64 (VFloat64 src)
      | TNull t \<Rightarrow>
          (case t of
             TFloat32 \<Rightarrow> valid dst (VFloat32 (f64_narrow src))
           | TFloat64 \<Rightarrow> valid dst (VFloat64 src)
           | _ \<Rightarrow> unsupported ''FLOAT64'')
      | TValue \<Rightarrow> stored_in (VFloat64 src)
      | TInt \<Rightarrow> stored_in (VInt (f64_to_int64 src))
      | TInt32 \<Rightarrow> stored_in (VInt32 (f64_to_int32 src))
      | TInt64 \<Rightarrow> stored_in (VInt64 (f64_to_int64 src))
      | TPtr t \<Rightarrow> scanIndirect (scanFloat64 sl src t)
      | _ \<Rightarrow> unsupported ''FLOAT64'')"

text \<open>\<^verbatim>\<open>strconv.ParseInt(s, 10, 32)\<close>.\<close>

definition ParseInt32 :: "string \<Rightarrow> int outcome" where
  "ParseInt32 s = bind_outcome (ParseInt s) (\<lambda>i. if i < - (2 ^ 31) \<or> i \<ge> 2 ^ 31 then range_error else Ok i)"

fun scanString :: "scan_lib \<Rightarrow> string \<Rightarrow> gotype \<Rightarrow> gv outcome" where
  "scanString sl src dst =
     (case dst of
        TString \<Rightarrow> stored_in (VString src)
      | TBytes \<Rightarrow> stored_in (VBytes (bytes_of_string src))
      | TInt \<Rightarrow> bind_outcome (ParseInt32 src) (\<lambda>i. stored_in (VInt (of_int i)))
      | TInt32 \<Rightarrow> bind_outcome (ParseInt32 src) (\<lambda>i. stored_in (VInt32 (of_int i)))
      | TInt64 \<Rightarrow> bind_outcome (ParseInt src) (\<lambda>i. stored_in (VInt64 (of_int i)))
      | TIP \<Rightarrow>
          if src = [] then Err (PlainErr ''scan NULL STRING'')
          else stored_in (VIP (case lib_ParseIP (sl_lib sl) src of Some ip \<Rightarrow> ip | None \<Rightarrow> []))
      | TNullString \<Rightarrow> valid TNullString (VString src)
      | TNull t \<Rightarrow>
          (case t of
             TString \<Rightarrow> valid dst (VString src)
           | TJSON \<Rightarrow> Ok (GvNull dst True (GvJSON src))
           | _ \<Rightarrow> unsupported ''STRING'')
      | TValue \<Rightarrow> stored_in (VString src)
      | TJSON \<Rightarrow> Ok (GvJSON src)
      | TPtr t \<Rightarrow> scanIndirect (scanString sl src t)
      | _ \<Rightarrow> unsupported ''STRING'')"

fun scanBytes :: "bytes \<Rightarrow> gotype \<Rightarrow> gv outcome" where
  "scanBytes src dst =
     (case dst of
        TBytes \<Rightarrow> stored_in (VBytes src)
      | TString \<Rightarrow> stored_in (VString (string_of_bytes src))
      | TValue \<Rightarrow> stored_in (VBytes src)
      | TNull t \<Rightarrow> if t = TBytes then valid dst (VBytes src) else unsupported ''BYTES''
      | TPtr t \<Rightarrow> scanIndirect (scanBytes src t)
      | _ \<Rightarrow> unsupported ''BYTES'')"

fun scanIP :: "scan_lib \<Rightarrow> bytes \<Rightarrow> gotype \<Rightarrow> gv outcome" where
  "scanIP sl src dst =
     (case dst of
        TIP \<Rightarrow> stored_in (VIP src)
      | TString \<Rightarrow> stored_in (VString (lib_Sprint (sl_lib sl) (VIP src)))
      | TValue \<Rightarrow> stored_in (VIP src)
      | TNull t \<Rightarrow> if t = TIP then valid dst (VIP src) else unsupported ''IPv4''
      | TPtr t \<Rightarrow> scanIndirect (scanIP sl src t)
      | _ \<Rightarrow> unsupported ''IPv4'')"

fun scanBool :: "bool \<Rightarrow> gotype \<Rightarrow> gv outcome" where
  "scanBool src dst =
     (case dst of
        TBool \<Rightarrow> stored_in (VBool src)
      | TString \<Rightarrow> stored_in (VString (if src then ''true'' else ''false''))
      | TNullBool \<Rightarrow> valid TNullBool (VBool src)
      | TNull t \<Rightarrow> if t = TBool then valid dst (VBool src) else unsupported ''BOOL''
      | TValue \<Rightarrow> stored_in (VBool src)
      | TPtr t \<Rightarrow> scanIndirect (scanBool src t)
      | _ \<Rightarrow> unsupported ''BOOL'')"

section \<open>Dispatch on the source\<close>

definition cannot_convert :: "gv outcome" where
  "cannot_convert = Err (PlainErr ''cannot convert value'')"

fun scan_decimal :: "Decimal \<Rightarrow> gotype \<Rightarrow> gv outcome" where
  "scan_decimal d dst =
     (case dst of
        TDecimal \<Rightarrow> stored_in (VDecimal d)
      | TString \<Rightarrow> stored_in (VString (Decimal_String d))
      | TValue \<Rightarrow> stored_in (VString (Decimal_String d))
      | TNull t \<Rightarrow> if t = TDecimal then valid dst (VDecimal d) else cannot_convert
      | TPtr t \<Rightarrow> scanIndirect (scan_decimal d t)
      | _ \<Rightarrow> cannot_convert)"

definition scan_array :: "scan_lib \<Rightarrow> Array \<Rightarrow> gotype \<Rightarrow> gv outcome" where
  "scan_array sl a dst =
     (case dst of
        TArray \<Rightarrow> Ok (GvArray (Array_Clone a))
      | TString \<Rightarrow> stored_in (VString (Array_String (sl_lib sl) a))
      | TValue \<Rightarrow> stored_in (VString (Array_String (sl_lib sl) a))
      | TPtr t \<Rightarrow> if t = TArray then Ok (GvPtr (GvArray (Array_Clone a))) else cannot_convert
      | _ \<Rightarrow> cannot_convert)"

text \<open>A value, and a pointer to one: the same conversions. Of the integers, \<^verbatim>\<open>int8\<close> and \<^verbatim>\<open>uint8\<close> are not converted.\<close>

fun scan_prim :: "scan_lib \<Rightarrow> prim \<Rightarrow> gotype \<Rightarrow> gv outcome" where
  "scan_prim sl (VInt v) dst = scanInt32 (ucast v) dst"
| "scan_prim sl (VUint v) dst = scanInt32 (ucast v) dst"
| "scan_prim sl (VBool b) dst = scanBool b dst"
| "scan_prim sl (VInt16 v) dst = scanInt16 v dst"
| "scan_prim sl (VUint16 v) dst = scanInt16 v dst"
| "scan_prim sl (VInt32 v) dst = scanInt32 v dst"
| "scan_prim sl (VUint32 v) dst = scanInt32 v dst"
| "scan_prim sl (VInt64 v) dst = scanInt64 v dst"
| "scan_prim sl (VUint64 v) dst = scanInt64 v dst"
| "scan_prim sl (VFloat64 v) dst = scanFloat64 sl v dst"
| "scan_prim sl (VFloat32 v) dst = scanFloat32 sl v dst"
| "scan_prim sl (VString t) dst = scanString sl t dst"
| "scan_prim sl (VTime t) dst = scanDatetime sl t dst"
| "scan_prim sl (VBytes b) dst = scanBytes b dst"
| "scan_prim sl (VIP b) dst = scanIP sl b dst"
| "scan_prim sl (VDecimal d) dst = scan_decimal d dst"
| "scan_prim sl p dst = cannot_convert"

text \<open>The value of a valid wrapper; those that hold a byte or an \<^verbatim>\<open>int\<close> go to another width than the bare types.\<close>

fun scan_wrapped :: "scan_lib \<Rightarrow> gotype \<Rightarrow> gv \<Rightarrow> gotype \<Rightarrow> gv outcome" where
  "scan_wrapped sl w (GvPrim (VUint8 b)) dst = (if w \<in> {TNullByte, TNull TUint8} then scanInt16 (ucast b) dst else cannot_convert)"
| "scan_wrapped sl w (GvPrim (VInt v)) dst = (if w = TNull TInt then scanInt64 v dst else cannot_convert)"
| "scan_wrapped sl w (GvJSON t) dst = scanString sl t dst"
| "scan_wrapped sl w (GvPrim p) dst = scan_prim sl p dst"
| "scan_wrapped sl w v dst = cannot_convert"

text \<open>The wrappers with a case of their own, and the types of the nil pointers whose case dereferences them.\<close>

definition null_wrappers :: "gotype list" where
  "null_wrappers =
     [TNullBool, TNull TBool, TNullByte, TNull TUint8, TNull TInt, TNullInt16, TNull TInt16, TNull TUint16, TNullInt32,
      TNull TInt32, TNull TUint32, TNullInt64, TNull TInt64, TNull TUint64, TNull TFloat32, TNullFloat64, TNull TFloat64,
      TNullString, TNull TString, TNullTime, TNull TTime, TNull TIP, TNull TBytes, TNull TJSON, TNull TDecimal]"

definition scan_derefs :: "gotype list" where
  "scan_derefs =
     [TInt, TUint, TBool, TInt16, TUint16, TInt32, TUint32, TInt64, TUint64, TFloat64, TFloat32, TString, TJSON, TTime, TBytes, TIP]
     @ null_wrappers"

fun Scan :: "scan_lib \<Rightarrow> gv \<Rightarrow> gotype \<Rightarrow> gv outcome" where
  "Scan sl (GvPrim p) dst = scan_prim sl p dst"
| "Scan sl (GvJSON t) dst = scanString sl t dst"
| "Scan sl (GvRaw b) dst = scanBytes b dst"
| "Scan sl (GvArray a) dst = scan_array sl a dst"
| "Scan sl (GvPtr (GvPrim p)) dst = scan_prim sl p dst"
| "Scan sl (GvPtr (GvJSON t)) dst = scanString sl t dst"
| "Scan sl (GvPtr (GvRaw b)) dst = scanBytes b dst"
| "Scan sl (GvPtr (GvArray a)) dst = scan_array sl a dst"
| "Scan sl (GvPtr (GvNull w ok v)) dst = (if w \<in> set null_wrappers \<and> ok then scan_wrapped sl w v dst else cannot_convert)"
| "Scan sl (GvNilPtr t) dst = (if t \<in> set scan_derefs then nil_deref else cannot_convert)"
| "Scan sl v dst = cannot_convert"

section \<open>NULL\<close>

text \<open>The zero time, as the \<^verbatim>\<open>UnixNano\<close> by which times are represented.\<close>

definition zero_time :: goint where
  "zero_time = of_int (- 6795364578871345152)"

fun zero_value :: "gotype \<Rightarrow> gv" where
  "zero_value TBool = GvPrim (VBool False)"
| "zero_value TInt = GvPrim (VInt 0)"
| "zero_value TUint8 = GvPrim (VUint8 0)"
| "zero_value TInt16 = GvPrim (VInt16 0)"
| "zero_value TUint16 = GvPrim (VUint16 0)"
| "zero_value TInt32 = GvPrim (VInt32 0)"
| "zero_value TUint32 = GvPrim (VUint32 0)"
| "zero_value TInt64 = GvPrim (VInt64 0)"
| "zero_value TUint64 = GvPrim (VUint64 0)"
| "zero_value TFloat32 = GvPrim (VFloat32 0)"
| "zero_value TFloat64 = GvPrim (VFloat64 0)"
| "zero_value TString = GvPrim (VString [])"
| "zero_value TTime = GvPrim (VTime zero_time)"
| "zero_value TIP = GvPrim (VIP [])"
| "zero_value TBytes = GvPrim (VBytes [])"
| "zero_value TJSON = GvJSON []"
| "zero_value TDecimal = GvPrim (VDecimal \<lparr>unscaled = 0, precision = 0, scale = 0\<rparr>)"
| "zero_value t = GvNil"

text \<open>The type of the value in a wrapper.\<close>

fun wrapped_type :: "gotype \<Rightarrow> gotype" where
  "wrapped_type TNullBool = TBool"
| "wrapped_type TNullByte = TUint8"
| "wrapped_type TNullInt16 = TInt16"
| "wrapped_type TNullInt32 = TInt32"
| "wrapped_type TNullInt64 = TInt64"
| "wrapped_type TNullFloat64 = TFloat64"
| "wrapped_type TNullString = TString"
| "wrapped_type TNullTime = TTime"
| "wrapped_type (TNull t) = t"
| "wrapped_type t = t"

definition empty_array :: Array where
  "empty_array = \<lparr>ar_elementType = 0, ar_cardinality = 0, ar_precision = 0, ar_scale = 0, ar_entries = Map.empty\<rparr>"

text \<open>\<^verbatim>\<open>ScanNull\<close>: what the variable holds afterwards, \<open>None\<close> when NULL cannot be stored in it.\<close>

definition ScanNull :: "gotype \<Rightarrow> gv option" where
  "ScanNull dst =
     (if dst \<in> set null_wrappers \<or> dst = TNull TAny then Some (GvNull dst False (zero_value (wrapped_type dst)))
      else
        (case dst of
           TArray \<Rightarrow> Some (GvArray empty_array)
         | TBytes \<Rightarrow> Some (GvPrim (VBytes []))
         | TValue \<Rightarrow> Some GvNil
         | TPtr t \<Rightarrow> Some (GvNilPtr t)
         | _ \<Rightarrow> None))"

section \<open>Unboxing\<close>

text \<open>The pointers that are dereferenced; a nil one panics.\<close>

definition unbox_derefs :: "gotype list" where
  "unbox_derefs =
     [TInt, TUint, TInt8, TUint8, TInt16, TUint16, TInt32, TUint32, TInt64, TUint64, TFloat32, TFloat64, TString, TJSON, TTime,
      TBool, TBytes, TIP, TValue] @ null_wrappers @ [TNull TAny]"

fun unboxed_prim :: "prim \<Rightarrow> bool" where
  "unboxed_prim (VDecimal d) = False"
| "unboxed_prim p = True"

definition decimal_text_of :: "prim \<Rightarrow> prim" where
  "decimal_text_of p = (case p of VDecimal d \<Rightarrow> VString (Decimal_String d) | _ \<Rightarrow> p)"

fun Unbox :: "gv \<Rightarrow> gv outcome" where
  "Unbox (GvPtr (GvPrim p)) = Ok (if unboxed_prim p then GvPrim p else GvPtr (GvPrim p))"
| "Unbox (GvPtr (GvJSON t)) = Ok (GvJSON t)"
| "Unbox (GvPtr (GvNull w ok v)) =
     Ok (if w \<in> set null_wrappers \<or> w = TNull TAny then (if ok then v else GvNil) else GvPtr (GvNull w ok v))"
| "Unbox (GvPtr (GvArray a)) =
     Ok (if ar_cardinality a = 0 then GvNil else GvSlice (map decimal_text_of (Array_Values a)))"
| "Unbox (GvNilPtr t) = (if t = TArray then Ok GvNil else if t \<in> set unbox_derefs then nil_deref else Ok (GvNilPtr t))"
| "Unbox v = Ok v"

definition NormalizeType :: "scan_lib \<Rightarrow> gv \<Rightarrow> gv outcome" where
  "NormalizeType sl val =
     bind_outcome (Unbox val) (\<lambda>raw.
     if raw = GvNil then Ok GvNil
     else
       (case Scan sl raw TValue of
          Ok v \<Rightarrow> Ok v
        | Err e \<Rightarrow> Ok raw
        | Panic m \<Rightarrow> Panic m))"

definition NormalizeTypes :: "scan_lib \<Rightarrow> gv list \<Rightarrow> gv list outcome" where
  "NormalizeTypes sl vals = all_ok (map (NormalizeType sl) vals)"

section \<open>Rows\<close>

text \<open>
  The destinations are filled from the left; the list is what has been written when the call returns. A nil
  destination of \<^verbatim>\<open>Rows.Scan\<close> is \<open>None\<close>.
\<close>

definition scan_column :: "scan_lib \<Rightarrow> goval \<Rightarrow> gotype \<Rightarrow> gv outcome" where
  "scan_column sl v dst =
     (if v = GNil
      then (case ScanNull dst of Some w \<Rightarrow> Ok w | None \<Rightarrow> Err (PlainErr ''scan NULL''))
      else Scan sl (of_goval v) dst)"

fun scan_columns :: "scan_lib \<Rightarrow> goval list \<Rightarrow> gotype option list \<Rightarrow> unit outcome \<times> gv option list" where
  "scan_columns sl (v # vs) (None # ds) = (case scan_columns sl vs ds of (r, ws) \<Rightarrow> (r, None # ws))"
| "scan_columns sl (v # vs) (Some t # ds) =
     (case scan_column sl v t of
        Ok w \<Rightarrow> (case scan_columns sl vs ds of (r, ws) \<Rightarrow> (r, Some w # ws))
      | Err e \<Rightarrow> (Err e, [])
      | Panic m \<Rightarrow> (Panic m, []))"
| "scan_columns sl vs ds = (Ok (), [])"

definition scan_dest :: "scan_lib \<Rightarrow> goval list \<Rightarrow> gotype option list \<Rightarrow> unit outcome \<times> gv option list" where
  "scan_dest sl row dest =
     (if length dest > length row then (Err (PlainErr ''params required''), []) else scan_columns sl row dest)"

definition Rows_Scan :: "scan_lib \<Rightarrow> Rows \<Rightarrow> gotype option list \<Rightarrow> unit outcome \<times> gv option list" where
  "Rows_Scan sl r dest = (case dr_err r of Some e \<Rightarrow> (Err e, []) | None \<Rightarrow> scan_dest sl (dr_row r) dest)"

definition Row_Scan :: "scan_lib \<Rightarrow> Row \<Rightarrow> gotype list \<Rightarrow> unit outcome \<times> gv option list" where
  "Row_Scan sl r dest =
     (if ro_err r = Some ErrNoRows then (Err ErrNoRows, []) else scan_dest sl (ro_values r) (map Some dest))"

section \<open>Integers keep their value\<close>

fun prim_int :: "prim \<Rightarrow> int option" where
  "prim_int (VInt v) = Some (sint v)"
| "prim_int (VUint v) = Some (uint v)"
| "prim_int (VInt16 v) = Some (sint v)"
| "prim_int (VUint16 v) = Some (uint v)"
| "prim_int (VInt32 v) = Some (sint v)"
| "prim_int (VUint32 v) = Some (uint v)"
| "prim_int (VInt64 v) = Some (sint v)"
| "prim_int (VUint64 v) = Some (uint v)"
| "prim_int p = None"

text \<open>The bits of the signed integer that a source is turned into first.\<close>

fun route_bits :: "prim \<Rightarrow> nat" where
  "route_bits (VInt16 v) = 16"
| "route_bits (VUint16 v) = 16"
| "route_bits (VInt64 v) = 64"
| "route_bits (VUint64 v) = 64"
| "route_bits p = 32"

fun fits :: "gotype \<Rightarrow> int \<Rightarrow> bool" where
  "fits TInt i \<longleftrightarrow> - (2 ^ 63) \<le> i \<and> i < 2 ^ 63"
| "fits TUint i \<longleftrightarrow> 0 \<le> i \<and> i < 2 ^ 64"
| "fits TInt16 i \<longleftrightarrow> - (2 ^ 15) \<le> i \<and> i < 2 ^ 15"
| "fits TUint16 i \<longleftrightarrow> 0 \<le> i \<and> i < 2 ^ 16"
| "fits TInt32 i \<longleftrightarrow> - (2 ^ 31) \<le> i \<and> i < 2 ^ 31"
| "fits TUint32 i \<longleftrightarrow> 0 \<le> i \<and> i < 2 ^ 32"
| "fits TInt64 i \<longleftrightarrow> - (2 ^ 63) \<le> i \<and> i < 2 ^ 63"
| "fits TUint64 i \<longleftrightarrow> 0 \<le> i \<and> i < 2 ^ 64"
| "fits t i \<longleftrightarrow> False"

lemma uint_of_int: "0 \<le> i \<Longrightarrow> i < 2 ^ LENGTH('a :: len) \<Longrightarrow> uint (of_int i :: 'a word) = i"
  by (simp add: uint_word_of_int take_bit_int_eq_self)

lemma sint_of_int_fit: "- (2 ^ (LENGTH('a :: len) - 1)) \<le> i \<Longrightarrow> i < 2 ^ (LENGTH('a) - 1) \<Longrightarrow> sint (of_int i :: 'a word) = i"
  by (simp add: signed_of_int signed_take_bit_int_eq_self)

lemma uint_nonneg: "0 \<le> sint w \<Longrightarrow> uint w = sint (w :: 'a :: len word)"
proof -
  have "(2 :: int) ^ (LENGTH('a) - 1) \<le> 2 ^ LENGTH('a)" by (rule power_increasing) simp_all
  with sint_lt [of w] have "sint w < 2 ^ LENGTH('a)" by linarith
  then show "0 \<le> sint w \<Longrightarrow> ?thesis" by (simp add: uint_sint take_bit_int_eq_self)
qed

lemma sint_small: "uint w < 2 ^ (LENGTH('a) - 1) \<Longrightarrow> sint w = uint (w :: 'a :: len word)"
  using sint_of_int_fit [of "uint w", where 'a = 'a] by (simp add: order_trans [of _ 0])

lemma sint_ucast32: "- (2 ^ 31) \<le> sint v \<Longrightarrow> sint v < 2 ^ 31 \<Longrightarrow> sint (ucast (v :: u64) :: u32) = sint v"
proof -
  have "(ucast v :: u32) = of_int (sint v)"
    by (rule bit_word_eqI) (simp add: bit_simps)
  then show "- (2 ^ 31) \<le> sint v \<Longrightarrow> sint v < 2 ^ 31 \<Longrightarrow> ?thesis" using sint_of_int_fit [of "sint v", where 'a = 32] by simp
qed

lemmas sint_resize = sint_of_int_fit [of "sint w" for w, folded resize_def]
  and uint_resize = uint_of_int [of "sint w" for w, folded resize_def]

lemmas scan_cells = stored_in_def valid_def unsupported_def cannot_convert_def

lemma scanInt16_exact:
  "fits t (sint w) \<Longrightarrow> sint w \<noteq> - (2 ^ 15) \<Longrightarrow> \<exists>q. scanInt16 w t = Ok (GvPrim q) \<and> prim_int q = Some (sint w)"
  using sint_lt [of w] sint_greater_eq [of w]
  by (cases t) (auto simp: scan_cells sint_resize uint_resize uint_nonneg)

lemma scanInt32_exact:
  "fits t (sint w) \<Longrightarrow> sint w \<noteq> - (2 ^ 31) \<Longrightarrow> \<exists>q. scanInt32 w t = Ok (GvPrim q) \<and> prim_int q = Some (sint w)"
  using sint_lt [of w] sint_greater_eq [of w]
  by (cases t) (auto simp: scan_cells sint_resize uint_resize uint_nonneg)

lemma scanInt64_exact:
  "fits t (sint w) \<Longrightarrow> sint w \<noteq> - (2 ^ 63) \<Longrightarrow> \<exists>q. scanInt64 w t = Ok (GvPrim q) \<and> prim_int q = Some (sint w)"
  using sint_lt [of w] sint_greater_eq [of w]
  by (cases t) (auto simp: scan_cells sint_resize uint_resize uint_nonneg)

lemma prim_route:
  assumes "prim_int p = Some i" and "- (2 ^ (route_bits p - 1)) < i" and "i < 2 ^ (route_bits p - 1)" and "fits t i"
  shows "\<exists>q. scan_prim sl p t = Ok (GvPrim q) \<and> prim_int q = Some i"
proof -
  have route16: "\<exists>q. scanInt16 w t = Ok (GvPrim q) \<and> prim_int q = Some i" if "sint w = i" "- (2 ^ 15) < i" for w
    using scanInt16_exact [of t w] that assms(4) by auto
  have route32: "\<exists>q. scanInt32 w t = Ok (GvPrim q) \<and> prim_int q = Some i" if "sint w = i" "- (2 ^ 31) < i" for w
    using scanInt32_exact [of t w] that assms(4) by auto
  have route64: "\<exists>q. scanInt64 w t = Ok (GvPrim q) \<and> prim_int q = Some i" if "sint w = i" "- (2 ^ 63) < i" for w
    using scanInt64_exact [of t w] that assms(4) by auto
  have unsigned: "sint (ucast v :: u32) = uint v" if "uint v < 2 ^ 31" for v :: u64
    using sint_ucast32 [of v] sint_small [of v] that by (simp add: order_trans [of _ 0])
  show ?thesis
  proof (cases p)
    case (VInt v)
    with assms sint_ucast32 [of v] show ?thesis using route32 [of "ucast v"] by (simp del: scanInt32.simps)
  next
    case (VUint v)
    with assms unsigned [of v] show ?thesis using route32 [of "ucast v"] by (simp del: scanInt32.simps)
  next
    case (VUint16 v)
    with assms sint_small [of v] show ?thesis using route16 [of v] by (simp del: scanInt16.simps)
  next
    case (VUint32 v)
    with assms sint_small [of v] show ?thesis using route32 [of v] by (simp del: scanInt32.simps)
  next
    case (VUint64 v)
    with assms sint_small [of v] show ?thesis using route64 [of v] by (simp del: scanInt64.simps)
  qed (use assms route16 route32 route64 in \<open>simp_all del: scanInt16.simps scanInt32.simps scanInt64.simps\<close>)
qed

declare scanInt16.simps [simp del] scanInt32.simps [simp del] scanInt64.simps [simp del] scanDatetime.simps [simp del]
  scanFloat32.simps [simp del] scanFloat64.simps [simp del] scanString.simps [simp del] scanBytes.simps [simp del]
  scanIP.simps [simp del] scanBool.simps [simp del] scan_decimal.simps [simp del]

section \<open>Indirect and nullable destinations\<close>

lemma scanIndirect_simps [simp]: "scanIndirect (Ok v) = Ok (GvPtr v)" "scanIndirect (Err e) = Err e" "scanIndirect (Panic m) = Panic m"
  by (simp_all add: scanIndirect_def)

lemma scan_indirect_leaf [simp]:
  "scanInt16 a (TPtr t) = scanIndirect (scanInt16 a t)" "scanInt32 b (TPtr t) = scanIndirect (scanInt32 b t)"
  "scanInt64 c (TPtr t) = scanIndirect (scanInt64 c t)" "scanDatetime sl d (TPtr t) = scanIndirect (scanDatetime sl d t)"
  "scanFloat32 sl f (TPtr t) = scanIndirect (scanFloat32 sl f t)" "scanFloat64 sl g (TPtr t) = scanIndirect (scanFloat64 sl g t)"
  "scanString sl s (TPtr t) = scanIndirect (scanString sl s t)" "scanBytes bs (TPtr t) = scanIndirect (scanBytes bs t)"
  "scanIP sl bs (TPtr t) = scanIndirect (scanIP sl bs t)" "scanBool e (TPtr t) = scanIndirect (scanBool e t)"
  "scan_decimal x (TPtr t) = scanIndirect (scan_decimal x t)"
  by (simp_all add: scanInt16.simps scanInt32.simps scanInt64.simps scanDatetime.simps scanFloat32.simps scanFloat64.simps
      scanString.simps scanBytes.simps scanIP.simps scanBool.simps scan_decimal.simps)

lemma cannot_convert_indirect [simp]: "scanIndirect cannot_convert = cannot_convert" "scanIndirect nil_deref = nil_deref"
  by (simp_all add: cannot_convert_def nil_deref_def)

lemma scan_prim_indirect: "scan_prim sl p (TPtr t) = scanIndirect (scan_prim sl p t)"
  by (cases p) simp_all

lemma scan_wrapped_indirect: "scan_wrapped sl w v (TPtr t) = scanIndirect (scan_wrapped sl w v t)"
proof (cases v)
  case (GvPrim p)
  then show ?thesis by (cases p) (simp_all add: scan_prim_indirect)
qed simp_all

text \<open>A value scanned into a wrapper is the value scanned into a variable of the wrapped type, marked as valid.\<close>

definition wraps :: "gotype \<Rightarrow> gv outcome \<Rightarrow> gv outcome \<Rightarrow> bool" where
  "wraps w r plain \<longleftrightarrow> (\<forall>v. r = Ok v \<longrightarrow> (\<exists>x. v = GvNull w True x \<and> plain = Ok x))"

definition all_wrap :: "(gotype \<Rightarrow> gv outcome) \<Rightarrow> bool" where
  "all_wrap scan = list_all (\<lambda>w. wraps w (scan w) (scan (wrapped_type w))) null_wrappers"

lemma all_wrap_iff: "all_wrap scan \<longleftrightarrow> (\<forall>w \<in> set null_wrappers. wraps w (scan w) (scan (wrapped_type w)))"
  by (simp add: all_wrap_def list_all_iff)

lemma wraps_scanInt16: "all_wrap (scanInt16 a)"
  by (simp add: all_wrap_def wraps_def null_wrappers_def scanInt16.simps scan_cells)

lemma wraps_scanInt32: "all_wrap (scanInt32 a)"
  by (simp add: all_wrap_def wraps_def null_wrappers_def scanInt32.simps scan_cells)

lemma wraps_scanInt64: "all_wrap (scanInt64 a)"
  by (simp add: all_wrap_def wraps_def null_wrappers_def scanInt64.simps scan_cells)

lemma wraps_scanDatetime: "all_wrap (scanDatetime sl a)"
  by (simp add: all_wrap_def wraps_def null_wrappers_def scanDatetime.simps scan_cells)

lemma wraps_scanFloat32: "all_wrap (scanFloat32 sl a)"
  by (simp add: all_wrap_def wraps_def null_wrappers_def scanFloat32.simps scan_cells)

lemma wraps_scanFloat64: "all_wrap (scanFloat64 sl a)"
  by (simp add: all_wrap_def wraps_def null_wrappers_def scanFloat64.simps scan_cells)

lemma wraps_scanString: "all_wrap (scanString sl a)"
  by (simp add: all_wrap_def wraps_def null_wrappers_def scanString.simps scan_cells)

lemma wraps_scanBytes: "all_wrap (scanBytes a)"
  by (simp add: all_wrap_def wraps_def null_wrappers_def scanBytes.simps scan_cells)

lemma wraps_scanIP: "all_wrap (scanIP sl a)"
  by (simp add: all_wrap_def wraps_def null_wrappers_def scanIP.simps scan_cells)

lemma wraps_scanBool: "all_wrap (scanBool a)"
  by (simp add: all_wrap_def wraps_def null_wrappers_def scanBool.simps scan_cells)

lemma wraps_scan_decimal: "all_wrap (scan_decimal a)"
  by (simp add: all_wrap_def wraps_def null_wrappers_def scan_decimal.simps scan_cells)

lemma wraps_scan_array: "all_wrap (scan_array sl a)"
  by (simp add: all_wrap_def wraps_def null_wrappers_def scan_array_def scan_cells)

lemma wraps_failed [simp]: "wraps w cannot_convert r" "wraps w nil_deref r"
  by (simp_all add: wraps_def cannot_convert_def nil_deref_def)

lemmas wraps_leaf = wraps_scanInt16 wraps_scanInt32 wraps_scanInt64 wraps_scanDatetime wraps_scanFloat32 wraps_scanFloat64
  wraps_scanString wraps_scanBytes wraps_scanIP wraps_scanBool wraps_scan_decimal wraps_scan_array

lemmas wraps_leaf_at = wraps_leaf [unfolded all_wrap_iff, THEN bspec]

lemma wraps_prim: "w \<in> set null_wrappers \<Longrightarrow> wraps w (scan_prim sl p w) (scan_prim sl p (wrapped_type w))"
  by (cases p) (simp_all add: wraps_leaf_at)

lemma wraps_wrapped: "w \<in> set null_wrappers \<Longrightarrow> wraps w (scan_wrapped sl u v w) (scan_wrapped sl u v (wrapped_type w))"
proof (cases v)
  case (GvPrim p)
  then show "w \<in> set null_wrappers \<Longrightarrow> ?thesis" by (cases p) (simp_all add: wraps_leaf_at wraps_prim)
qed (simp_all add: wraps_leaf_at)

lemma wraps_Scan: "w \<in> set null_wrappers \<Longrightarrow> wraps w (Scan sl src w) (Scan sl src (wrapped_type w))"
proof (cases src)
  case (GvPtr v)
  then show "w \<in> set null_wrappers \<Longrightarrow> ?thesis" by (cases v) (simp_all add: wraps_leaf_at wraps_prim wraps_wrapped)
qed (simp_all add: wraps_leaf_at wraps_prim)

section \<open>Where a value is lost\<close>

text \<open>
  An unsigned 16-bit value goes through \<^verbatim>\<open>int16\<close>: from 32768 on it comes out negative in a wider variable, and 32768 itself
  is taken for NULL, even by a variable of its own type.
\<close>

lemma scan_unsigned_wraps:
  "Scan sl (GvPrim (VUint16 40000)) TInt64 = Ok (GvPrim (VInt64 (- 25536)))"
  "Scan sl (GvPrim (VUint16 32768)) TUint16 = Err (PlainErr ''scan NULL INT16'')"
  by (simp_all add: scanInt16.simps stored_in_def resize_def)

text \<open>\<^verbatim>\<open>Row.Scan\<close> of a row that carries an error other than \<^verbatim>\<open>sql.ErrNoRows\<close> complains about the number of its values.\<close>

lemma Row_Scan_hides_error:
  "e \<noteq> ErrNoRows \<Longrightarrow> dest \<noteq> [] \<Longrightarrow> Row_Scan sl (failed_row e) dest = (Err (PlainErr ''params required''), [])"
  by (simp add: Row_Scan_def failed_row_def empty_row_def scan_dest_def)

section \<open>Properties\<close>

text \<open>
  C33. An integer keeps its value when it is scanned: for a source and a variable of any of the integer types of 16, 32 and
  64 bits and \<^verbatim>\<open>int\<close> and \<^verbatim>\<open>uint\<close>, signed or not, if the value fits the variable and the signed width that the source is routed
  through (and is not the least value of it, which stands for NULL), the variable holds that value afterwards.
\<close>

theorem scan_integer_exact:
  assumes "prim_int p = Some i" and "- (2 ^ (route_bits p - 1)) < i" and "i < 2 ^ (route_bits p - 1)" and "fits t i"
  shows "\<exists>q. Scan sl (GvPrim p) t = Ok (GvPrim q) \<and> prim_int q = Some i"
  using prim_route [OF assms] by simp

theorem scan_integer_exact_witness:
  "\<forall>sl. \<exists>q. Scan sl (GvPrim (VUint32 70000)) TInt64 = Ok (GvPrim q) \<and> prim_int q = Some 70000"
  using scan_integer_exact [of "VUint32 70000" 70000 TInt64] by simp

text \<open>
  A pointer variable receives what a plain one would: scanning into a variable of type pointer to \<open>t\<close>, of any depth,
  succeeds exactly when scanning into a \<open>t\<close> does, and then holds the address of a new variable with the same content;
  this is so for every source but arrays, which have cases of their own.
\<close>

theorem scan_pointers:
  "case src of
     GvArray a \<Rightarrow> True
   | GvPtr (GvArray a) \<Rightarrow> True
   | _ \<Rightarrow> Scan sl src (TPtr t) = scanIndirect (Scan sl src t)"
proof (cases src)
  case (GvPtr v)
  then show ?thesis by (cases v) (simp_all add: scan_prim_indirect scan_wrapped_indirect)
qed (simp_all add: scan_prim_indirect)

text \<open>
  Nullable variables: a value scanned into a \<^verbatim>\<open>sql.Null\<close> wrapper unboxes to exactly what scanning the value into a plain
  variable of the wrapped type would give, and NULL scanned into a wrapper, an array or a \<^verbatim>\<open>driver.Value\<close> unboxes to nil.
\<close>

theorem scan_wrappers:
  "list_all (\<lambda>w. case Scan sl src w of Ok v \<Rightarrow> Unbox (GvPtr v) = Scan sl src (wrapped_type w) | _ \<Rightarrow> True) null_wrappers
   \<and> list_all (\<lambda>w. case ScanNull w of Some v \<Rightarrow> Unbox (GvPtr v) = Ok GvNil | None \<Rightarrow> False)
       (null_wrappers @ [TNull TAny, TArray, TValue])"
proof
  have "case Scan sl src w of Ok v \<Rightarrow> Unbox (GvPtr v) = Scan sl src (wrapped_type w) | _ \<Rightarrow> True"
    if "w \<in> set null_wrappers" for w
    using wraps_Scan [OF that, of sl src] that by (auto simp: wraps_def split: outcome.splits)
  then show "list_all (\<lambda>w. case Scan sl src w of Ok v \<Rightarrow> Unbox (GvPtr v) = Scan sl src (wrapped_type w) | _ \<Rightarrow> True) null_wrappers"
    by (simp add: list_all_iff)
  have "case ScanNull w of Some v \<Rightarrow> Unbox (GvPtr v) = Ok GvNil | None \<Rightarrow> False" if "w \<in> set null_wrappers \<or> w = TNull TAny" for w
    using that by (auto simp: ScanNull_def)
  moreover have "TArray \<notin> set null_wrappers" "TValue \<notin> set null_wrappers" by (simp_all add: null_wrappers_def)
  ultimately show "list_all (\<lambda>w. case ScanNull w of Some v \<Rightarrow> Unbox (GvPtr v) = Ok GvNil | None \<Rightarrow> False)
      (null_wrappers @ [TNull TAny, TArray, TValue])"
    by (auto simp: list_all_iff ScanNull_def empty_array_def)
qed

end
