(* ===== verification/Appender.thy ===== *)
theory Appender
  imports Scan
begin

text \<open>
  \<^verbatim>\<open>appender.go\<close>: the bulk loader for one table. It owns a connector, a connection and a statement; rows go through the
  append of the statement handle, which batches them. The values are those of the wire codecs; the formats of an input
  are passed on and ignored there, as are the column types.
\<close>

section \<open>State\<close>

record Appender =
  ap_cn :: "Connector option"
  ap_conn :: "Conn option"
  ap_stmt :: "Stmt option"
  ap_tableName :: string
  ap_tableType :: TableType
  ap_errCheckCount :: int
  ap_columns :: Columns
  ap_columnNames :: "string list"
  ap_columnTypes :: "SqlType list"
  ap_inputColumns :: "(string \<times> int) list"
  ap_inputAtOpen :: bool
  ap_inputFormats :: "string list"
  ap_opened :: bool
  ap_closed :: bool
  ap_closeErr :: "gerr option"
  ap_successCount :: int
  ap_failCount :: int

definition new_appender :: Appender where
  "new_appender =
     \<lparr>ap_cn = None, ap_conn = None, ap_stmt = None, ap_tableName = [], ap_tableType = 0, ap_errCheckCount = 0, ap_columns = [],
      ap_columnNames = [], ap_columnTypes = [], ap_inputColumns = [], ap_inputAtOpen = False, ap_inputFormats = [],
      ap_opened = False, ap_closed = False, ap_closeErr = None, ap_successCount = 0, ap_failCount = 0\<rparr>"

definition resetForConnect :: "Appender \<Rightarrow> Appender" where
  "resetForConnect ap =
     new_appender\<lparr>ap_tableType := -1, ap_inputColumns := map (\<lambda>(name, _). (name, -1)) (ap_inputColumns ap),
       ap_inputFormats := ap_inputFormats ap\<rparr>"

section \<open>Input columns\<close>

definition isAppenderArrivalColumn :: "string \<Rightarrow> bool" where
  "isAppenderArrivalColumn name \<longleftrightarrow>
     (let normalized = ToUpper (filter (\<lambda>c. [c] \<noteq> dquote) (TrimSpace name))
      in normalized = ''_ARRIVAL_TIME'' \<or> normalized = ''ARRIVAL_TIME'')"

definition appenderProjectionColumns :: "TableType \<Rightarrow> string list \<Rightarrow> string list" where
  "appenderProjectionColumns tableType names =
     (if tableType \<noteq> TableTypeLog then names else filter (\<lambda>name. \<not> isAppenderArrivalColumn name) names)"

fun arrival_index :: "nat \<Rightarrow> string list \<Rightarrow> nat option" where
  "arrival_index i [] = None"
| "arrival_index i (name # names) = (if isAppenderArrivalColumn name then Some i else arrival_index (i + 1) names)"

definition appenderArrivalIndex :: "string list \<Rightarrow> nat option" where
  "appenderArrivalIndex names = arrival_index 0 names"

definition insertAppenderValue :: "goval list \<Rightarrow> nat \<Rightarrow> goval \<Rightarrow> goval list" where
  "insertAppenderValue vals idx v = (if idx > length vals then vals else take idx vals @ v # drop idx vals)"

definition withAppenderArrival :: "string list \<Rightarrow> goval list \<Rightarrow> goval \<Rightarrow> string list \<times> goval list" where
  "withAppenderArrival names vals v =
     (case appenderArrivalIndex names of
        Some idx \<Rightarrow> (names, insertAppenderValue vals idx v)
      | None \<Rightarrow> (''_ARRIVAL_TIME'' # names, v # vals))"

text \<open>The index of the last column with the name.\<close>

definition column_index :: "Columns \<Rightarrow> string \<Rightarrow> int" where
  "column_index cols name = fold (\<lambda>(i, col) idx. if col_Name col = name then int i else idx) (enumerate 0 cols) (-1)"

definition WithInputColumns :: "string list \<Rightarrow> Appender \<Rightarrow> Appender" where
  "WithInputColumns columns ap =
     ap\<lparr>ap_inputColumns := map (\<lambda>col. (ToUpper col, column_index (ap_columns ap) (ToUpper col))) columns\<rparr>"

definition WithInputFormats :: "string list \<Rightarrow> Appender \<Rightarrow> Appender" where
  "WithInputFormats formats ap = ap\<lparr>ap_inputFormats := formats\<rparr>"

definition appendColumnNames :: "Appender \<Rightarrow> string list" where
  "appendColumnNames ap = (if ap_inputColumns ap = [] then ap_columnNames ap else map fst (ap_inputColumns ap))"

definition requiresExplicitArrival :: "string list \<Rightarrow> Appender \<Rightarrow> bool" where
  "requiresExplicitArrival names ap \<longleftrightarrow>
     ap_inputColumns ap \<noteq> [] \<and> \<not> ap_inputAtOpen ap \<and> appenderArrivalIndex names = None"

text \<open>What an appender reports of its table. \<^verbatim>\<open>ColumnNames\<close> keeps its answer until the next \<^verbatim>\<open>Connect\<close>, which is when the
  columns change.\<close>

definition Appender_TableType :: "Appender \<Rightarrow> TableType" where
  "Appender_TableType ap = (if ap_opened ap then ap_tableType ap else -1)"

definition Appender_ColumnNames :: "Appender \<Rightarrow> string list" where
  "Appender_ColumnNames ap = map col_Name (ap_columns ap)"

definition Appender_ColumnTypes :: "Appender \<Rightarrow> string list" where
  "Appender_ColumnTypes ap = map (\<lambda>col. ColumnType_String (col_Type col)) (ap_columns ap)"

section \<open>Batches\<close>

text \<open>An operation on the handle of the statement, when the appender has both.\<close>

definition on_app_handle :: "(StmtHandle option \<Rightarrow> StmtHandle option) \<Rightarrow> Appender \<Rightarrow> Appender" where
  "on_app_handle f ap =
     (case ap_stmt ap of
        Some s \<Rightarrow> if ds_handle s = None then ap else ap\<lparr>ap_stmt := Some (s\<lparr>ds_handle := f (ds_handle s)\<rparr>)\<rparr>
      | None \<Rightarrow> ap)"

definition WithBatchMaxRows :: "int \<Rightarrow> Appender \<Rightarrow> Appender" where
  "WithBatchMaxRows rows = on_app_handle (SetAppendBatchMaxRows (if rows < 1 then 1 else rows))"

definition WithBatchMaxBytes :: "int \<Rightarrow> Appender \<Rightarrow> Appender" where
  "WithBatchMaxBytes n = on_app_handle (SetAppendBatchMaxBytes (if n < 4 * 1024 then 4 * 1024 else n))"

definition WithBatchMaxDelay :: "int \<Rightarrow> Appender \<Rightarrow> Appender" where
  "WithBatchMaxDelay duration =
     on_app_handle (SetAppendBatchMaxDelay (if duration \<le> 0 then 0 else if duration < 10 ^ 6 then 10 ^ 6 else duration))"

section \<open>Appending\<close>

text \<open>\<open>now\<close> is the time at which a row is queued, \<open>later\<close> the time at which the delay of its batch is checked.\<close>

definition with_app_handle ::
  "(stmt_state option \<Rightarrow> 'a outcome \<times> stmt_state option) \<Rightarrow> Stmt \<Rightarrow> Appender \<Rightarrow> 'a outcome \<times> Appender" where
  "with_app_handle f s ap =
     (case ap_conn ap of
        None \<Rightarrow> (nil_deref, ap)
      | Some c \<Rightarrow>
          (case stmt_wrapped (with_handle f (s, c)) of (r, s', c') \<Rightarrow> (r, ap\<lparr>ap_stmt := Some s', ap_conn := Some c'\<rparr>)))"

definition appendNamed :: "drv_env \<Rightarrow> int \<Rightarrow> int \<Rightarrow> string list \<Rightarrow> goval list \<Rightarrow> Appender \<Rightarrow> unit outcome \<times> Appender" where
  "appendNamed E now later names vals ap =
     (if ap_columns ap = [] then (Err (PlainErr ''table has no columns''), ap)
      else if ap_inputColumns ap \<noteq> [] \<and> length names \<noteq> length vals
      then (Err (PlainErr ''value count, table requires projected columns to append''), ap)
      else if ap_inputColumns ap = [] \<and> length (ap_columns ap) \<noteq> length vals
      then (Err (PlainErr ''value count, table requires columns to append''), ap)
      else if ap_closed ap then (Err (PlainErr ''closed appender''), ap)
      else
        (case ap_stmt ap of
           None \<Rightarrow> (Err (PlainErr ''invalid connection''), ap)
         | Some s \<Rightarrow> with_app_handle (AppendData (de_lib E) (de_spr E) now later names vals) s ap))"

definition explicit_arrival_error :: gerr where
  "explicit_arrival_error = PlainErr ''log input columns configured after Connect must include _ARRIVAL_TIME''"

definition AppendLogTime :: "drv_env \<Rightarrow> int \<Rightarrow> int \<Rightarrow> goint \<Rightarrow> goval list \<Rightarrow> Appender \<Rightarrow> unit outcome \<times> Appender" where
  "AppendLogTime E now later ts vals ap =
     (if ap_tableType ap \<noteq> TableTypeLog then (Err (PlainErr ''is not a log table, use Append() instead''), ap)
      else if requiresExplicitArrival (appendColumnNames ap) ap then (Err explicit_arrival_error, ap)
      else
        (case withAppenderArrival (appendColumnNames ap) vals (GPrim (VTime ts)) of
           (names, vals) \<Rightarrow> appendNamed E now later names vals ap))"

text \<open>The row that is sent to a log table: the arrival time is added where it is missing, as the zero time.\<close>

definition log_row :: "string list \<Rightarrow> goval list \<Rightarrow> string list \<times> goval list" where
  "log_row names vals =
     (case appenderArrivalIndex names of
        Some idx \<Rightarrow>
          (names, if int (length vals) = int (length names) - 1 then insertAppenderValue vals idx (GPrim (VTime zero_time)) else vals)
      | None \<Rightarrow> withAppenderArrival names vals (GPrim (VTime zero_time)))"

definition Append :: "drv_env \<Rightarrow> int \<Rightarrow> int \<Rightarrow> goval list \<Rightarrow> Appender \<Rightarrow> unit outcome \<times> Appender" where
  "Append E now later vals ap =
     (let names = appendColumnNames ap
      in if ap_tableType ap = TableTypeTag \<or> ap_tableType ap = TableTypeTransaction then appendNamed E now later names vals ap
         else if ap_tableType ap = TableTypeLog then
           if requiresExplicitArrival names ap then (Err explicit_arrival_error, ap)
           else (case log_row names vals of (names, vals) \<Rightarrow> appendNamed E now later names vals ap)
         else (Err (PlainErr ''can not be appended''), ap))"

definition Flush :: "int \<Rightarrow> Appender \<Rightarrow> unit outcome \<times> Appender" where
  "Flush now ap =
     (if \<not> ap_opened ap then (Err (PlainErr ''appender is not opened''), ap)
      else
        (case ap_stmt ap of
           None \<Rightarrow> (Err (PlainErr ''closed appender''), ap)
         | Some s \<Rightarrow>
             if ap_closed ap \<or> ds_handle s = None then (Err (PlainErr ''closed appender''), ap)
             else with_app_handle (AppendFlush now) s ap))"

section \<open>Opening\<close>

text \<open>What a scanned variable holds.\<close>

definition scanned :: "unit outcome \<times> gv option list \<Rightarrow> gv list outcome" where
  "scanned r = bind_outcome (fst r) (\<lambda>_. Ok (map (\<lambda>v. case v of Some x \<Rightarrow> x | None \<Rightarrow> GvNil) (snd r)))"

fun gv_int :: "gv \<Rightarrow> int" where
  "gv_int (GvPrim (VInt64 v)) = sint v"
| "gv_int (GvPrim (VInt v)) = sint v"
| "gv_int (GvPrim (VUint64 v)) = uint v"
| "gv_int (GvEnum t i) = i"
| "gv_int v = 0"

fun gv_string :: "gv \<Rightarrow> string" where
  "gv_string (GvPrim (VString t)) = t"
| "gv_string v = []"

definition database_query :: "bool \<Rightarrow> string \<Rightarrow> (string \<times> anyval list) option" where
  "database_query supportsMetadata db =
     (if supportsMetadata
      then Some (if db = [] then (''select DATABASE_ID from V$DATABASES where NAME = CURRENT_DATABASE()'', [])
                 else (''select DATABASE_ID from V$DATABASES where NAME = ?'', [AVal (GPrim (VString db))]))
      else if db \<noteq> [] \<and> db \<noteq> ''MACHBASEDB''
      then Some (''select BACKUP_TBSID from V$STORAGE_MOUNT_DATABASES where MOUNTDB = ?'', [AVal (GPrim (VString db))])
      else None)"

definition database_id :: "drv_env \<Rightarrow> scan_lib \<Rightarrow> call_ctx \<Rightarrow> string \<Rightarrow> Conn \<Rightarrow> u64 outcome \<times> Conn" where
  "database_id E sl cx db c =
     (case database_query (SupportsDatabaseMetadata (dc_handle c)) db of
        None \<Rightarrow> (Ok (- 1), c)
      | Some (query, args) \<Rightarrow>
          (case Conn_queryRow E cx query args c of
             (Ok row, c) \<Rightarrow> (bind_outcome (scanned (Row_Scan sl row [TInt64])) (\<lambda>vs. Ok (of_int (gv_int (vs ! 0)))), c)
           | (Err e, c) \<Rightarrow> (Err e, c)
           | (Panic m, c) \<Rightarrow> (Panic m, c)))"

definition sql_lines :: "string \<Rightarrow> (nat \<times> string) list \<Rightarrow> string" where
  "sql_lines first rest = first @ concat (map (\<lambda>(n, t). CHR 0x0A # replicate n (CHR 0x09) @ t) rest)"

definition describeSqlText :: string where
  "describeSqlText = sql_lines ''SELECT''
     [(3, ''j.ID as TABLE_ID,''), (3, ''j.TYPE as TABLE_TYPE,''), (3, ''j.FLAG as TABLE_FLAG,''), (3, ''j.COLCOUNT as TABLE_COLCOUNT''),
      (2, ''from''), (3, ''M$SYS_USERS u,''), (3, ''M$SYS_TABLES j''), (2, ''where''), (3, ''u.NAME = ?''),
      (2, ''and j.USER_ID = u.USER_ID''), (2, ''and j.DATABASE_ID = ?''), (2, ''and j.NAME = ?'')]"

definition table_info :: "drv_env \<Rightarrow> scan_lib \<Rightarrow> call_ctx \<Rightarrow> string \<Rightarrow> u64 \<Rightarrow> string \<Rightarrow> Conn \<Rightarrow> (u64 \<times> TableType) outcome \<times> Conn" where
  "table_info E sl cx user dbId table c =
     (case Conn_queryRow E cx describeSqlText
             [AVal (GPrim (VString user)), AVal (GPrim (VInt64 dbId)), AVal (GPrim (VString table))] c of
        (Ok row, c) \<Rightarrow>
          (case ro_err row of
             Some e \<Rightarrow> (Err (if e = ErrNoRows then PlainErr ''table does not exist'' else e), c)
           | None \<Rightarrow>
               (bind_outcome (scanned (Row_Scan sl row [TInt64, TTableType, TTableFlag, TInt])) (\<lambda>vs.
                let tableType = gv_int (vs ! 1)
                in if tableType \<noteq> TableTypeLog \<and> tableType \<noteq> TableTypeTag \<and> tableType \<noteq> TableTypeTransaction
                   then Err (PlainErr (TableType_String tableType @ '' doesn't support append''))
                   else Ok (of_int (gv_int (vs ! 0)), tableType)), c))
      | (Err e, c) \<Rightarrow> (Err e, c)
      | (Panic m, c) \<Rightarrow> (Panic m, c))"

text \<open>A column of the table; hidden ones are left out, but for the arrival time of a log table.\<close>

definition table_column :: "gv list \<Rightarrow> Column" where
  "table_column vs =
     (let t = gv_int (vs ! 1)
      in (plain_column (gv_string (vs ! 0)) t (ColumnType_DataType t))
           \<lparr>col_Length := gv_int (vs ! 2), col_Id := of_int (gv_int (vs ! 3)), col_Flag := of_int (gv_int (vs ! 4))\<rparr>)"

definition hidden_column :: "TableType \<Rightarrow> Column \<Rightarrow> bool" where
  "hidden_column tableType col \<longleftrightarrow>
     HasPrefix (col_Name col) ''_'' \<and> (tableType \<noteq> TableTypeLog \<or> col_Name col \<noteq> ''_ARRIVAL_TIME'')"

definition add_column :: "Column \<Rightarrow> Appender \<Rightarrow> Appender" where
  "add_column col ap =
     ap\<lparr>ap_columns := ap_columns ap @ [col], ap_columnNames := ap_columnNames ap @ [col_Name col],
        ap_columnTypes := ap_columnTypes ap @ [ColumnType_ToSqlType (col_Type col)]\<rparr>"

definition rows_stream :: "rows_state \<Rightarrow> nat" where
  "rows_stream st = (case st of (r, s, c) \<Rightarrow> case ds_handle s of Some h \<Rightarrow> stream_left (h, dc_handle c) | None \<Rightarrow> 0)"

definition rows_pending :: "rows_state \<Rightarrow> nat" where
  "rows_pending st = (case st of (r, s, c) \<Rightarrow> case ds_handle s of Some h \<Rightarrow> rows_buffered (h, dc_handle c) | None \<Rightarrow> 0)"

lemma Rows_advance_consumes:
  assumes "Rows_advance E st = (Ok True, st')"
  shows "rows_stream st' < rows_stream st \<or> rows_stream st' = rows_stream st \<and> rows_pending st' < rows_pending st"
proof -
  obtain r s c where st: "st = (r, s, c)" by (cases st)
  from assms obtain row s' c' where f: "Stmt_fetch E (dr_cx r) (s, c) = (Ok row, s', c')"
    and st': "st' = (r\<lparr>dr_row := row, dr_rowsCount := dr_rowsCount r + 1\<rparr>, s', c')"
    by (auto simp: Rows_advance_def st split: if_splits outcome.splits prod.splits)
  show ?thesis
  proof (cases "ds_handle s")
    case None
    with f show ?thesis
      by (auto simp: Stmt_fetch_def with_handle_def Stmt_Fetch_def nil_stmt_def and_then_def split: if_splits)
  next
    case (Some h)
    obtain x h' ch where l: "fetch_loop (de_lib E) (dr_cx r) (h, dc_handle c) = (x, h', ch)" by (metis prod_cases3)
    with f Some have "x = Ok (Some row)" "ds_handle s' = Some h'" "dc_handle c' = ch"
      by (auto simp: Stmt_fetch_def with_handle_def Stmt_Fetch_def nil_stmt_def and_then_def split: if_splits outcome.splits option.splits)
    with fetch_loop_row_consumes [of "de_lib E" "dr_cx r" "(h, dc_handle c)" row "(h', ch)"] l Some st st'
    show ?thesis by (auto simp: rows_stream_def rows_pending_def)
  qed
qed

text \<open>The loop over the columns; the appender has those that were read when it ends.\<close>

function read_columns :: "drv_env \<Rightarrow> scan_lib \<Rightarrow> TableType \<Rightarrow> Appender \<Rightarrow> rows_state \<Rightarrow> unit outcome \<times> Appender \<times> rows_state" where
  "read_columns E sl tableType ap st =
     (case Rows_advance E st of
        (Ok True, st') \<Rightarrow>
          (case scanned (Rows_Scan sl (fst st') (map Some [TString, TColumnType, TInt, TUint64, TColumnFlag])) of
             Ok vs \<Rightarrow>
               (let col = table_column vs
                in read_columns E sl tableType (if hidden_column tableType col then ap else add_column col ap) st')
           | Err e \<Rightarrow> (Err e, ap, st')
           | Panic m \<Rightarrow> (Panic m, ap, st'))
      | (Ok False, st') \<Rightarrow> (case dr_err (fst st') of Some e \<Rightarrow> Err e | None \<Rightarrow> Ok (), ap, st')
      | (Err e, st') \<Rightarrow> (Err e, ap, st')
      | (Panic m, st') \<Rightarrow> (Panic m, ap, st'))"
  by pat_completeness auto
termination
  by (relation "measures [\<lambda>(E, sl, t, ap, st). rows_stream st, \<lambda>(E, sl, t, ap, st). rows_pending st]")
    (auto dest!: Rows_advance_consumes [OF sym])

declare read_columns.simps [simp del]

definition columnsSqlText :: string where
  "columnsSqlText = ''select name, type, length, id, flag from M$SYS_COLUMNS where table_id = ? and database_id = ? order by id''"

text \<open>The columns of the table; the result set is closed at the end, whether they could be read or not.\<close>

definition table_columns ::
  "drv_env \<Rightarrow> scan_lib \<Rightarrow> call_ctx \<Rightarrow> string \<Rightarrow> u64 \<Rightarrow> u64 \<Rightarrow> TableType \<Rightarrow> Appender \<Rightarrow> Conn \<Rightarrow> unit outcome \<times> Appender \<times> Conn" where
  "table_columns E sl cx tableName dbId tableId tableType ap c =
     (case Conn_query E cx columnsSqlText [AVal (GPrim (VInt64 tableId)), AVal (GPrim (VInt64 dbId))] c of
        (Err e, c) \<Rightarrow> (Err e, ap, c)
      | (Panic m, c) \<Rightarrow> (Panic m, ap, c)
      | (Ok (r, s), c) \<Rightarrow>
          (let ap = ap\<lparr>ap_tableName := ToUpper tableName, ap_tableType := tableType, ap_errCheckCount := 0\<rparr>
           in case read_columns E sl tableType ap (r, s, c) of
                (res, ap, st) \<Rightarrow>
                  (case Rows_Close E st of
                     (Panic m, _, _, c) \<Rightarrow> (Panic m, ap, c)
                   | (cl, _, _, c) \<Rightarrow> (bind_outcome res (\<lambda>_. cl), ap, c))))"

definition append_open :: "drv_env \<Rightarrow> string list \<Rightarrow> Appender \<Rightarrow> Conn \<Rightarrow> unit outcome \<times> Appender \<times> Conn" where
  "append_open E inputColumns ap c =
     (case NewStmt c of
        (Err e, c) \<Rightarrow> (Err e, ap, c)
      | (Panic m, c) \<Rightarrow> (Panic m, ap, c)
      | (Ok s, c) \<Rightarrow>
          (let projection = appenderProjectionColumns (ap_tableType ap) inputColumns;
               ap = ap\<lparr>ap_stmt := Some s, ap_inputAtOpen := inputColumns \<noteq> []\<rparr>;
               ap = (if inputColumns \<noteq> [] then WithInputColumns inputColumns ap else ap);
               open_it = (if projection \<noteq> []
                          then AppendOpenColumns (de_lib E) (de_now E) (ap_tableName ap) projection (ap_errCheckCount ap)
                          else AppendOpen (de_lib E) (de_now E) (ap_tableName ap) (ap_errCheckCount ap))
           in case stmt_wrapped (with_handle open_it (s, c)) of
                (Ok u, s, c) \<Rightarrow> (Ok (), ap\<lparr>ap_stmt := Some s, ap_opened := True\<rparr>, c)
              | (Err e, s, c) \<Rightarrow>
                  (case Stmt_Close E (s, c) of
                     (Panic m, _, c) \<Rightarrow> (Panic m, ap\<lparr>ap_stmt := Some s\<rparr>, c)
                   | (_, _, c) \<Rightarrow> (Err e, ap\<lparr>ap_stmt := None\<rparr>, c))
              | (Panic m, s, c) \<Rightarrow> (Panic m, ap\<lparr>ap_stmt := Some s\<rparr>, c)))"

definition appender ::
  "drv_env \<Rightarrow> scan_lib \<Rightarrow> call_ctx \<Rightarrow> string \<Rightarrow> string list \<Rightarrow> Appender \<Rightarrow> Conn \<Rightarrow> unit outcome \<times> Appender \<times> Conn" where
  "appender E sl cx tableName inputColumns ap c =
     (case parseTableName tableName [] (dc_user c) of
        (db, user, table) \<Rightarrow>
          (case database_id E sl cx db c of
             (Err e, c) \<Rightarrow> (Err e, ap, c)
           | (Panic m, c) \<Rightarrow> (Panic m, ap, c)
           | (Ok dbId, c) \<Rightarrow>
               (case table_info E sl cx (if user = [] then dc_user c else user) dbId table c of
                  (Err e, c) \<Rightarrow> (Err e, ap, c)
                | (Panic m, c) \<Rightarrow> (Panic m, ap, c)
                | (Ok (tableId, tableType), c) \<Rightarrow>
                    (case table_columns E sl cx tableName dbId tableId tableType ap c of
                       (Ok u, ap, c) \<Rightarrow> append_open E inputColumns ap c
                     | r \<Rightarrow> r))))"

section \<open>Connecting and closing\<close>

text \<open>The errors of the resources are joined; the first is the one kept.\<close>

definition first_error :: "gerr option \<Rightarrow> gerr option \<Rightarrow> gerr option" where
  "first_error a b = (case a of Some e \<Rightarrow> Some e | None \<Rightarrow> b)"

definition error_of :: "'a outcome \<Rightarrow> gerr option" where
  "error_of r = (case r of Err e \<Rightarrow> Some e | _ \<Rightarrow> None)"

definition Appender_Connect ::
  "drv_env \<Rightarrow> scan_lib \<Rightarrow> dsn_lib \<Rightarrow> key_lib \<Rightarrow> crypto_lib \<Rightarrow> (string \<Rightarrow> dialed outcome) \<Rightarrow> call_ctx \<Rightarrow> string \<Rightarrow> string
    \<Rightarrow> string list \<Rightarrow> Appender \<Rightarrow> unit outcome \<times> Appender" where
  "Appender_Connect E sl dl kl cl dial cx dsn table columns ap =
     (if ap_opened ap \<and> \<not> ap_closed ap then (Err (PlainErr ''appender is already opened''), ap)
      else
        let ap = resetForConnect ap
        in case OpenConnector dl kl dsn of
             Err e \<Rightarrow> (Err e, ap)
           | Panic m \<Rightarrow> (Panic m, ap)
           | Ok cn \<Rightarrow>
               (case Connector_Connect E cl dial cx cn of
                  (Err e, cn) \<Rightarrow> (Err e, ap)
                | (Panic m, cn) \<Rightarrow> (Panic m, ap\<lparr>ap_cn := Some cn\<rparr>)
                | (Ok c, cn) \<Rightarrow>
                    (let requested = (if columns = [] then map fst (ap_inputColumns ap) else columns)
                     in case appender E sl cx table requested (ap\<lparr>ap_cn := Some cn\<rparr>) c of
                          (Ok u, ap, c) \<Rightarrow> (Ok (), ap\<lparr>ap_conn := Some c\<rparr>)
                        | (Panic m, ap, c) \<Rightarrow> (Panic m, ap\<lparr>ap_conn := Some c\<rparr>)
                        | (Err e, ap, c) \<Rightarrow>
                            (case Conn_Close E c of
                               (Panic m, c) \<Rightarrow> (Panic m, ap\<lparr>ap_conn := Some c\<rparr>)
                             | _ \<Rightarrow> (Err e, ap\<lparr>ap_conn := None, ap_cn := None\<rparr>)))))"

text \<open>The end of the append: the counters, the error, and the statement and connection afterwards.\<close>

definition append_end :: "drv_env \<Rightarrow> Appender \<Rightarrow> (int \<times> int) \<times> unit outcome \<times> Stmt option \<times> Conn option" where
  "append_end E ap =
     (case (ap_stmt ap, ap_conn ap) of
        (Some s, Some c) \<Rightarrow>
          (case ds_handle s of
             None \<Rightarrow> ((ap_successCount ap, ap_failCount ap), Ok (), Some s, Some c)
           | Some h \<Rightarrow>
               (case AppendClose (de_now E) (Some (h, dc_handle c)) of
                  (counts, r, Some (h', ch)) \<Rightarrow>
                    (case stmt_wrapped (r, (s\<lparr>ds_handle := Some h'\<rparr>, c\<lparr>dc_handle := ch\<rparr>)) of
                       (r, s, c) \<Rightarrow> (counts, r, Some s, Some c))
                | (counts, r, None) \<Rightarrow> (counts, r, Some s, Some c)))
      | (s, c) \<Rightarrow> ((ap_successCount ap, ap_failCount ap), Ok (), s, c))"

definition close_resources :: "drv_env \<Rightarrow> Stmt option \<Rightarrow> Conn option \<Rightarrow> gerr option outcome" where
  "close_resources E s c =
     (case c of
        None \<Rightarrow> Ok None
      | Some c \<Rightarrow>
          (case (case s of Some s \<Rightarrow> (case Stmt_Close E (s, c) of (r, _, c) \<Rightarrow> (r, c)) | None \<Rightarrow> (Ok (), c)) of
             (Panic m, c) \<Rightarrow> Panic m
           | (r, c) \<Rightarrow>
               (case Conn_Close E c of
                  (Panic m, _) \<Rightarrow> Panic m
                | (r', _) \<Rightarrow> Ok (first_error (error_of r) (error_of r')))))"

definition Appender_Close :: "drv_env \<Rightarrow> Appender \<Rightarrow> (int \<times> int) \<times> gerr option outcome \<times> Appender" where
  "Appender_Close E ap =
     (if \<not> ap_opened ap then ((0, 0), Ok (Some (PlainErr ''appender is not opened'')), ap)
      else if ap_closed ap then ((ap_successCount ap, ap_failCount ap), Ok (ap_closeErr ap), ap)
      else
        (case append_end E (ap\<lparr>ap_closed := True\<rparr>) of
           (counts, Panic m, s, c) \<Rightarrow> (counts, Panic m, ap\<lparr>ap_closed := True, ap_stmt := s, ap_conn := c\<rparr>)
         | (counts, r, s, c) \<Rightarrow>
             (case close_resources E s c of
                Panic m \<Rightarrow> (counts, Panic m, ap\<lparr>ap_closed := True, ap_successCount := fst counts, ap_failCount := snd counts\<rparr>)
              | Err e \<Rightarrow> (counts, Err e, ap)
              | Ok cleanup \<Rightarrow>
                  (let e = first_error (error_of r) cleanup
                   in (counts, Ok e,
                       ap\<lparr>ap_closed := True, ap_successCount := fst counts, ap_failCount := snd counts, ap_stmt := None,
                          ap_conn := None, ap_cn := None, ap_closeErr := e\<rparr>)))))"

end
