(* ===== verification/Loader.thy ===== *)
theory Loader
  imports Appender Driver_Pool
begin

text \<open>
  What a program may rely on when it loads rows with an appender: every value goes to its own column, the rows reach
  the server once and in order, and a closed appender stays closed.
\<close>

section \<open>Values and columns\<close>

lemma arrival_index_Some:
  "arrival_index k names = Some i \<Longrightarrow>
     k \<le> i \<and> i - k < length names \<and> isAppenderArrivalColumn (names ! (i - k)) \<and> list_all (\<lambda>n. \<not> isAppenderArrivalColumn n) (take (i - k) names)"
proof (induction k names rule: arrival_index.induct)
  case (2 k name names)
  show ?case
  proof (cases "isAppenderArrivalColumn name")
    case False
    with 2 have "k + 1 \<le> i \<and> i - (k + 1) < length names \<and> isAppenderArrivalColumn (names ! (i - (k + 1)))
        \<and> list_all (\<lambda>n. \<not> isAppenderArrivalColumn n) (take (i - (k + 1)) names)" by simp
    moreover from this have "i - k = Suc (i - (k + 1))" by linarith
    ultimately show ?thesis using False by simp
  qed (use 2 in auto)
qed simp

lemma arrival_index_None: "arrival_index k names = None \<longleftrightarrow> list_all (\<lambda>n. \<not> isAppenderArrivalColumn n) names"
  by (induction k names rule: arrival_index.induct) auto

lemma appenderArrivalIndex_Some:
  "appenderArrivalIndex names = Some i \<Longrightarrow> i < length names \<and> isAppenderArrivalColumn (names ! i)"
  using arrival_index_Some [of 0 names i] by (simp add: appenderArrivalIndex_def)

section \<open>Rows on the wire\<close>

text \<open>The values of a row as they are sent: an arrival time is added to those of a log table.\<close>

definition row_sent :: "TableType \<Rightarrow> string list \<Rightarrow> goval list \<Rightarrow> goval list" where
  "row_sent t names vals = (if t = TableTypeLog then snd (log_row names vals) else vals)"

definition load_step :: "drv_env \<Rightarrow> append_call \<Rightarrow> Appender \<Rightarrow> bool \<times> Appender" where
  "load_step E i ap = (case i of (now, later, vals) \<Rightarrow> case Append E now later vals ap of (r, ap') \<Rightarrow> (is_ok r, ap'))"

definition spec_load :: "drv_env \<Rightarrow> TableType \<Rightarrow> append_call \<Rightarrow> append_spec \<Rightarrow> bool \<times> append_spec" where
  "spec_load E t i sp =
     (case i of (now, later, vals) \<Rightarrow>
        case spec_append (de_lib E) (de_spr E) (now, later, row_sent t (sp_names sp) vals) sp of (r, sp') \<Rightarrow> (is_ok r, sp'))"

text \<open>An open appender against the log of its rows.\<close>

definition loader_rel :: "bytes \<Rightarrow> TableType \<Rightarrow> string list \<Rightarrow> Appender \<Rightarrow> append_spec \<Rightarrow> bool" where
  "loader_rel start t names ap sp \<longleftrightarrow>
     ap_opened ap \<and> \<not> ap_closed ap \<and> ap_tableType ap = t \<and> ap_columns ap \<noteq> [] \<and> ap_inputColumns ap = [] \<and> ap_columnNames ap = names
     \<and> length (ap_columns ap) = length names
     \<and> (t = TableTypeTag \<or> t = TableTypeTransaction \<or> t = TableTypeLog \<and> appenderArrivalIndex names \<noteq> None)
     \<and> (case (ap_stmt ap, ap_conn ap) of
          (Some s, Some c) \<Rightarrow> (case ds_handle s of Some h \<Rightarrow> append_rel start names (h, dc_handle c) sp | None \<Rightarrow> False)
        | _ \<Rightarrow> False)"

lemma with_app_handle_some:
  assumes "ap_conn ap = Some c" and "ds_handle s = Some h" and "f (Some (h, dc_handle c)) = (r, Some (h', ch))"
  shows "with_app_handle f s ap = (case r of Err e \<Rightarrow> Err (machcli_error (sh_lastErr h') e) | _ \<Rightarrow> r,
      ap\<lparr>ap_stmt := Some (s\<lparr>ds_handle := Some h'\<rparr>), ap_conn := Some (c\<lparr>dc_handle := ch\<rparr>)\<rparr>)"
  using assms by (cases r) (simp_all add: with_app_handle_def with_handle_def stmt_wrapped_def Stmt_ErrorOf_def)

lemma Append_named:
  assumes "loader_rel start t names ap sp"
  shows "Append E now later vals ap = appendNamed E now later names (row_sent t names vals) ap"
  using assms
  by (auto simp: loader_rel_def Append_def Let_def appendColumnNames_def requiresExplicitArrival_def row_sent_def log_row_def
      split: option.splits)

lemma load_step_refines:
  assumes "loader_rel start t names ap sp"
  shows "fst (load_step E i ap) = fst (spec_load E t i sp) \<and> loader_rel start t names (snd (load_step E i ap)) (snd (spec_load E t i sp))"
proof -
  obtain now later vals where i: "i = (now, later, vals)" by (cases i)
  let ?v = "row_sent t names vals"
  from assms obtain s c h where a: "ap_stmt ap = Some s" "ap_conn ap = Some c" "ds_handle s = Some h"
    "append_rel start names (h, dc_handle c) sp"
    by (auto simp: loader_rel_def split: option.splits)
  then have n: "sp_names sp = names" by (auto simp: append_rel_def)
  show ?thesis
  proof (cases "length names = length ?v")
    case False
    with assms show ?thesis
      by (auto simp: i load_step_def spec_load_def Append_named [OF assms] appendNamed_def loader_rel_def n split: prod.splits)
  next
    case True
    obtain r h' ch where x: "append_row (de_lib E) (de_spr E) now later names ?v (h, dc_handle c) = (r, h', ch)" by (metis prod_cases3)
    have "AppendData (de_lib E) (de_spr E) now later names ?v (Some (h, dc_handle c)) = (r, Some (h', ch))"
      by (simp add: AppendData_def nil_stmt_def x)
    from with_app_handle_some [where f = "AppendData (de_lib E) (de_spr E) now later names ?v", OF a(2,3) this] assms True a(1)
    have step: "Append E now later vals ap = (case r of Err e \<Rightarrow> Err (machcli_error (sh_lastErr h') e) | _ \<Rightarrow> r,
        ap\<lparr>ap_stmt := Some (s\<lparr>ds_handle := Some h'\<rparr>), ap_conn := Some (c\<lparr>dc_handle := ch\<rparr>)\<rparr>)"
      by (simp add: Append_named [OF assms] appendNamed_def) (auto simp: loader_rel_def)
    from append_call_refines [OF a(4), of "de_lib E" "de_spr E" "(now, later, ?v)"] x
    have "r = fst (spec_append (de_lib E) (de_spr E) (now, later, ?v) sp)"
      "append_rel start names (h', ch) (snd (spec_append (de_lib E) (de_spr E) (now, later, ?v) sp))" by simp_all
    with assms step show ?thesis
      by (auto simp: i load_step_def spec_load_def n loader_rel_def split: prod.splits outcome.splits)
  qed
qed

interpretation load: simulation "load_step E" "spec_load E t" "loader_rel start t names" for E t start names
  by unfold_locales (rule load_step_refines)

lemma loader_flush:
  assumes "loader_rel start t names ap sp"
  shows "\<exists>ap' st ch nc batches. Flush now ap = (Ok (), ap')
    \<and> Option.bind (ap_stmt ap') ds_handle = Some st \<and> Option.bind (ap_conn ap') dc_handle = Some ch \<and> hc_native ch = Some nc
    \<and> concat batches = sp_log sp \<and> sent_bytes nc = start @ concat (map (batch_wire (sh_wid st)) batches)"
proof -
  from assms obtain s c h where a: "ap_stmt ap = Some s" "ap_conn ap = Some c" "ds_handle s = Some h"
    "append_rel start names (h, dc_handle c) sp" "ap_opened ap" "\<not> ap_closed ap"
    by (auto simp: loader_rel_def split: option.splits)
  from flush_rel [OF a(4), of now] obtain h' ch' where
    f: "flushAppendBufferedLocked now False (h, dc_handle c) = (Ok (), h', ch')" "append_rel start names (h', ch') sp"
    "as_pendingRows (the (sh_app h')) = []" by auto
  from a(4) have "sh_app h \<noteq> None" "Option.bind (dc_handle c) hc_native \<noteq> None" by (auto simp: append_rel_def)
  with f have "AppendFlush now (Some (h, dc_handle c)) = (Ok (), Some (h', ch'))" by (auto simp: AppendFlush_def)
  from with_app_handle_some [where f = "AppendFlush now", OF a(2,3) this] a
  have "Flush now ap = (Ok (), ap\<lparr>ap_stmt := Some (s\<lparr>ds_handle := Some h'\<rparr>), ap_conn := Some (c\<lparr>dc_handle := ch'\<rparr>)\<rparr>)"
    by (simp add: Flush_def)
  moreover from f(2,3) obtain ch nc batches where "ch' = Some ch" "hc_native ch = Some nc" "concat batches = sp_log sp"
    "sent_bytes nc = start @ concat (map (batch_wire (sh_wid h')) batches)"
    unfolding append_rel_def by fastforce
  ultimately show ?thesis by (intro exI [of _ "ap\<lparr>ap_stmt := Some (s\<lparr>ds_handle := Some h'\<rparr>), ap_conn := Some (c\<lparr>dc_handle := ch'\<rparr>)\<rparr>"]) auto
qed

definition refused :: "unit outcome \<times> Appender \<Rightarrow> Appender \<Rightarrow> bool" where
  "refused r ap \<longleftrightarrow> snd r = ap \<and> (case fst r of Err e \<Rightarrow> True | _ \<Rightarrow> False)"

section \<open>Properties\<close>

text \<open>
  C6. Rows loaded through an appender reach the server once and in order: for an open appender of a tag, transaction or log
  table without input columns, over a healthy connection, any sequence of \<^verbatim>\<open>Append\<close> calls succeeds call by call exactly
  when a log accepts the row, and after a final \<^verbatim>\<open>Flush\<close> the server was sent data messages whose rows, one message after the
  other, are that log; for a log table the row has the arrival time in its place when the caller left it out.
\<close>

theorem appender_refines_log:
  assumes "loader_rel start t names ap sp"
  shows "fst (run_steps (load_step E) calls ap) = fst (run_steps (spec_load E t) calls sp)
    \<and> (\<exists>ap' st ch nc batches. Flush now (snd (run_steps (load_step E) calls ap)) = (Ok (), ap')
        \<and> Option.bind (ap_stmt ap') ds_handle = Some st \<and> Option.bind (ap_conn ap') dc_handle = Some ch \<and> hc_native ch = Some nc
        \<and> concat batches = sp_log (snd (run_steps (spec_load E t) calls sp))
        \<and> sent_bytes nc = start @ concat (map (batch_wire (sh_wid st)) batches))"
  using load.run_sim [OF assms, of E calls] loader_flush by blast

definition demo_appender :: Appender where
  "demo_appender = new_appender
     \<lparr>ap_stmt := Some (new_driver_stmt (fst demo_append)), ap_conn := Some (demo_pool_conn\<lparr>dc_handle := snd demo_append\<rparr>),
      ap_tableType := TableTypeTag, ap_columns := [plain_column ''c'' 0 DataTypeInt16], ap_columnNames := [''c''], ap_opened := True\<rparr>"

definition demo_log :: append_spec where
  "demo_log = \<lparr>sp_columns = [demo_column], sp_names = [''c''], sp_bindings = \<lparr>byColumn = [0], arrivalArg = -1\<rparr>, sp_endian = 0, sp_log = []\<rparr>"

lemma demo_loader_rel: "loader_rel [] TableTypeTag [''c''] demo_appender demo_log"
  using demo_append_rel
  by (simp add: loader_rel_def demo_appender_def new_appender_def new_driver_stmt_def demo_pool_conn_def demo_log_def)

theorem appender_refines_log_witness:
  "\<forall>E. fst (run_steps (load_step E) [(0, 0, [GPrim (VInt16 5)]), (1, 1, [])] demo_appender) = [True, False]"
proof
  fix E :: drv_env
  let ?calls = "[(0, 0, [GPrim (VInt16 5)]), (1, 1, [])]"
  obtain row where "encodeAppendRow (de_lib E) (de_spr E) [demo_column] \<lparr>byColumn = [0], arrivalArg = -1\<rparr> [GPrim (VInt16 5)] 0 = Ok row"
    using demo_row by blast
  then have "spec_load E TableTypeTag (0, 0, [GPrim (VInt16 5)]) demo_log = (True, demo_log\<lparr>sp_log := [row]\<rparr>)"
    by (simp add: spec_load_def row_sent_def demo_log_def)
  moreover have "spec_load E TableTypeTag (1, 1, []) (demo_log\<lparr>sp_log := [row]\<rparr>) = (False, demo_log\<lparr>sp_log := [row]\<rparr>)"
    by (simp add: spec_load_def row_sent_def demo_log_def)
  ultimately have "fst (run_steps (spec_load E TableTypeTag) ?calls demo_log) = [True, False]" by simp
  with conjunct1 [OF appender_refines_log [OF demo_loader_rel, of E ?calls]]
  show "fst (run_steps (load_step E) ?calls demo_appender) = [True, False]" by (rule trans)
qed

text \<open>
  The arrival time goes to its own column and moves no other value: with the columns of a log table, or input columns, that
  name the arrival time, \<^verbatim>\<open>AppendLogTime\<close> and \<^verbatim>\<open>Append\<close> with one value less than there are names pair every name but that one with
  the value the caller gave at its place among the others, and the arrival time with its value; without such a name they put
  both in front.
\<close>

theorem arrival_in_place:
  assumes "length vals + 1 = length names"
  shows "case appenderArrivalIndex names of
    Some i \<Rightarrow> isAppenderArrivalColumn (names ! i)
      \<and> fst (withAppenderArrival names vals v) = names
      \<and> zip names (snd (withAppenderArrival names vals v))
          = zip (take i names) (take i vals) @ (names ! i, v) # zip (drop (Suc i) names) (drop i vals)
      \<and> log_row names vals = withAppenderArrival names vals (GPrim (VTime zero_time))
  | None \<Rightarrow> withAppenderArrival names vals v = (''_ARRIVAL_TIME'' # names, v # vals)"
proof (cases "appenderArrivalIndex names")
  case (Some i)
  with appenderArrivalIndex_Some [OF Some] assms have i: "i < length names" "isAppenderArrivalColumn (names ! i)" "i \<le> length vals" by auto
  have "zip names (take i vals @ v # drop i vals)
      = zip (take i names @ names ! i # drop (Suc i) names) (take i vals @ v # drop i vals)"
    using i(1) by (simp add: id_take_nth_drop [symmetric])
  also have "\<dots> = zip (take i names) (take i vals) @ (names ! i, v) # zip (drop (Suc i) names) (drop i vals)"
    using i by (subst zip_append) simp_all
  finally show ?thesis using i Some assms by (simp add: withAppenderArrival_def insertAppenderValue_def log_row_def)
qed (simp add: withAppenderArrival_def)

theorem arrival_in_place_witness:
  "log_row [''A'', ''_ARRIVAL_TIME'', ''B''] [GPrim (VInt16 1), GPrim (VInt16 2)]
     = ([''A'', ''_ARRIVAL_TIME'', ''B''], [GPrim (VInt16 1), GPrim (VTime zero_time), GPrim (VInt16 2)])"
proof -
  have t: "TrimSpace n = n" if "n \<in> {''A'', ''_ARRIVAL_TIME''}" for n
    using that by (auto intro!: TrimSpace_graphic simp: graphic_def code_def)
  have "ToUpper ''A'' = ''A''" "ToUpper ''_ARRIVAL_TIME'' = ''_ARRIVAL_TIME''" by code_simp+
  then have "\<not> isAppenderArrivalColumn ''A''" "isAppenderArrivalColumn ''_ARRIVAL_TIME''"
    by (simp_all add: isAppenderArrivalColumn_def t)
  then have "appenderArrivalIndex [''A'', ''_ARRIVAL_TIME'', ''B''] = Some 1" by (simp add: appenderArrivalIndex_def)
  with arrival_in_place [of "[GPrim (VInt16 1), GPrim (VInt16 2)]" "[''A'', ''_ARRIVAL_TIME'', ''B'']" "GPrim (VTime zero_time)"]
  show ?thesis by (simp add: withAppenderArrival_def insertAppenderValue_def)
qed

text \<open>
  A closed appender stays closed: once \<^verbatim>\<open>Close\<close> has released the statement, the connection and the connector, a second
  \<^verbatim>\<open>Close\<close> reports the same counts and the same error again, and \<^verbatim>\<open>Append\<close>, \<^verbatim>\<open>AppendLogTime\<close> and \<^verbatim>\<open>Flush\<close> fail and change nothing.
\<close>

theorem closed_appender:
  "case Appender_Close E ap of
     (counts, Ok e, ap') \<Rightarrow>
       if ap_opened ap then
         Appender_Close E ap' = (counts, Ok e, ap')
         \<and> (if ap_closed ap then True else ap_stmt ap' = None \<and> ap_conn ap' = None \<and> ap_cn ap' = None)
         \<and> (\<forall>now later vals. refused (Append E now later vals ap') ap')
         \<and> (\<forall>now later ts vals. refused (AppendLogTime E now later ts vals ap') ap')
         \<and> (\<forall>now. refused (Flush now ap') ap')
       else ap' = ap
   | _ \<Rightarrow> True"
proof -
  have named: "refused (appendNamed E now later names vals ap) ap"
    if "ap_closed ap" for now later names vals ap
    using that by (simp add: appendNamed_def refused_def)
  have app: "refused (Append E now later vals ap) ap" if "ap_closed ap" for now later vals ap
    using named [OF that] by (simp add: Append_def Let_def refused_def split: prod.splits)
  have log: "refused (AppendLogTime E now later ts vals ap) ap" if "ap_closed ap" for now later ts vals ap
    using named [OF that] by (simp add: AppendLogTime_def refused_def split: prod.splits)
  have fl: "refused (Flush now ap) ap" if "ap_closed ap" for now ap
    using that by (simp add: Flush_def refused_def split: option.splits)
  have again: "Appender_Close E ap = ((ap_successCount ap, ap_failCount ap), Ok (ap_closeErr ap), ap)" if "ap_opened ap" "ap_closed ap" for ap
    using that by (simp add: Appender_Close_def)
  show ?thesis
  proof (cases "ap_opened ap \<and> \<not> ap_closed ap")
    case False
    then show ?thesis using again [of ap] app log fl by (cases "ap_opened ap") (simp_all add: Appender_Close_def [of E ap])
  next
    case True
    obtain counts r s c where e: "append_end E (ap\<lparr>ap_closed := True\<rparr>) = (counts, r, s, c)" by (metis prod_cases4)
    show ?thesis
    proof (cases "\<exists>m. r = Panic m")
      case True
      with e \<open>ap_opened ap \<and> \<not> ap_closed ap\<close> show ?thesis by (auto simp: Appender_Close_def [of E ap])
    next
      case False
      then show ?thesis using e \<open>ap_opened ap \<and> \<not> ap_closed ap\<close> app log fl again
        by (cases r; cases "close_resources E s c") (simp_all add: Appender_Close_def [of E ap] Let_def)
    qed
  qed
qed

end
