(* ===== verification/Api_Conv.thy ===== *)
theory Api_Conv
  imports Driver_Stmt
begin

text \<open>
  Conversions of dynamic values to the types of a column: \<^verbatim>\<open>api/types.go\<close>, and \<^verbatim>\<open>DataTypeOf\<close> and \<^verbatim>\<open>DataType.Apply\<close> of
  \<^verbatim>\<open>api/datatypes.go\<close>. Parsing of 32-bit floats, durations and times by a layout is a parameter, and so is the current
  time. A duration is its nanoseconds.
\<close>

section \<open>Values\<close>

text \<open>A value, a pointer to one, a \<^verbatim>\<open>json.Number\<close> and a \<^verbatim>\<open>time.Duration\<close>.\<close>

datatype conv =
    CVal prim
  | CPtr prim
  | CNumber string
  | CDuration goint

record conv_lib =
  cv_lib :: golib
  cv_ParseFloat32 :: "string \<Rightarrow> u32 outcome"
  cv_ParseDuration :: "string \<Rightarrow> goint outcome"
  cv_ParseInLocation :: "string \<Rightarrow> string \<Rightarrow> location \<Rightarrow> goint outcome"
  cv_now :: goint

definition ErrIncompatible :: "string \<Rightarrow> 'a outcome" where
  "ErrIncompatible dst = Err (PlainErr (''incompatible conv to '' @ dst))"

text \<open>The value a pointer points to; a pointer to a pointer has no case anywhere.\<close>

definition deref :: "string \<Rightarrow> (prim \<Rightarrow> 'a outcome) \<Rightarrow> prim \<Rightarrow> 'a outcome" where
  "deref dst f p =
     (case p of VNilPtr t \<Rightarrow> ErrIncompatible dst | VDecimalPtr d \<Rightarrow> ErrIncompatible dst | _ \<Rightarrow> f p)"

definition deref_nil :: "string list \<Rightarrow> string \<Rightarrow> string \<Rightarrow> 'a outcome" where
  "deref_nil types dst t = (if t \<in> set types then nil_deref else ErrIncompatible dst)"

definition float_pointers :: "string list" where
  "float_pointers = [''*string'', ''*float32'', ''*float64'', ''*int'']"

definition int_pointers :: "string list" where
  "int_pointers = float_pointers @ [''*int64'', ''*int32'', ''*int16'', ''*int8'']"

section \<open>Floats\<close>

definition ParseFloat32 :: "conv_lib \<Rightarrow> string \<Rightarrow> u32 outcome" where
  "ParseFloat32 cl s = or_error ''incompatible conv to float32'' (cv_ParseFloat32 cl s)"

definition ParseFloat64 :: "conv_lib \<Rightarrow> string \<Rightarrow> u64 outcome" where
  "ParseFloat64 cl s = or_error ''incompatible conv to float64'' (lib_ParseFloat (cv_lib cl) s)"

text \<open>\<^verbatim>\<open>float32(i)\<close> of an integer.\<close>

definition f32_of_int :: "int \<Rightarrow> u32" where
  "f32_of_int i = f32_make (i < 0) (fp_round 23 (-149) f32_inf (nat (abs i)) 0)"

fun float32_of :: "conv_lib \<Rightarrow> prim \<Rightarrow> u32 outcome" where
  "float32_of cl (VString s) = ParseFloat32 cl s"
| "float32_of cl (VFloat32 v) = Ok v"
| "float32_of cl (VFloat64 v) = Ok (f64_narrow v)"
| "float32_of cl (VInt v) = Ok (f32_of_int (sint v))"
| "float32_of cl (VNilPtr t) = deref_nil float_pointers ''float32'' t"
| "float32_of cl p = ErrIncompatible ''float32''"

fun ToFloat32 :: "conv_lib \<Rightarrow> conv \<Rightarrow> u32 outcome" where
  "ToFloat32 cl (CVal p) = float32_of cl p"
| "ToFloat32 cl (CPtr p) = deref ''float32'' (float32_of cl) p"
| "ToFloat32 cl (CNumber s) =
     bind_outcome (or_error ''incompatible conv to float32'' (lib_ParseFloat (cv_lib cl) s)) (\<lambda>v. Ok (f64_narrow v))"
| "ToFloat32 cl v = ErrIncompatible ''float32''"

fun float64_of :: "conv_lib \<Rightarrow> prim \<Rightarrow> u64 outcome" where
  "float64_of cl (VString s) = ParseFloat64 cl s"
| "float64_of cl (VFloat32 v) = Ok (f32_widen v)"
| "float64_of cl (VFloat64 v) = Ok v"
| "float64_of cl (VInt v) = Ok (f64_of_int (sint v))"
| "float64_of cl (VNilPtr t) = deref_nil float_pointers ''float64'' t"
| "float64_of cl p = ErrIncompatible ''float64''"

fun ToFloat64 :: "conv_lib \<Rightarrow> conv \<Rightarrow> u64 outcome" where
  "ToFloat64 cl (CVal p) = float64_of cl p"
| "ToFloat64 cl (CPtr p) = deref ''float64'' (float64_of cl) p"
| "ToFloat64 cl (CNumber s) = or_error ''incompatible conv to float64'' (lib_ParseFloat (cv_lib cl) s)"
| "ToFloat64 cl v = ErrIncompatible ''float64''"

section \<open>Integers\<close>

text \<open>A text that is no integer is read as a float and cut.\<close>

definition text_int64 :: "conv_lib \<Rightarrow> string \<Rightarrow> u64 outcome" where
  "text_int64 cl s =
     (case ParseInt s of
        Ok i \<Rightarrow> Ok (of_int i)
      | _ \<Rightarrow> (case ParseFloat64 cl s of Ok f \<Rightarrow> Ok (f64_to_int64 f) | Err e \<Rightarrow> ErrIncompatible ''int64'' | Panic m \<Rightarrow> Panic m))"

definition text_uint64 :: "conv_lib \<Rightarrow> string \<Rightarrow> u64 outcome" where
  "text_uint64 cl s =
     (case ParseUint s of
        Ok n \<Rightarrow> Ok (of_nat n)
      | _ \<Rightarrow> (case ParseFloat64 cl s of Ok f \<Rightarrow> Ok (f64_to_uint64 f) | Err e \<Rightarrow> ErrIncompatible ''int64'' | Panic m \<Rightarrow> Panic m))"

definition number_int64 :: "string \<Rightarrow> u64 outcome" where
  "number_int64 s = bind_outcome (or_error ''incompatible conv to int64'' (ParseInt s)) (\<lambda>i. Ok (of_int i))"

fun int64_of :: "conv_lib \<Rightarrow> prim \<Rightarrow> u64 outcome" where
  "int64_of cl (VString s) = text_int64 cl s"
| "int64_of cl (VFloat32 v) = Ok (f64_to_int64 (f32_widen v))"
| "int64_of cl (VFloat64 v) = Ok (f64_to_int64 v)"
| "int64_of cl (VInt64 v) = Ok v"
| "int64_of cl (VInt v) = Ok v"
| "int64_of cl (VInt32 v) = Ok (of_int (sint v))"
| "int64_of cl (VInt16 v) = Ok (of_int (sint v))"
| "int64_of cl (VInt8 v) = Ok (of_int (sint v))"
| "int64_of cl (VNilPtr t) = deref_nil int_pointers ''int64'' t"
| "int64_of cl p = ErrIncompatible ''int64''"

fun ToInt64 :: "conv_lib \<Rightarrow> conv \<Rightarrow> u64 outcome" where
  "ToInt64 cl (CVal p) = int64_of cl p"
| "ToInt64 cl (CPtr p) = deref ''int64'' (int64_of cl) p"
| "ToInt64 cl (CNumber s) = number_int64 s"
| "ToInt64 cl v = ErrIncompatible ''int64''"

fun uint64_of :: "conv_lib \<Rightarrow> prim \<Rightarrow> u64 outcome" where
  "uint64_of cl (VString s) = text_uint64 cl s"
| "uint64_of cl (VFloat32 v) = Ok (f64_to_uint64 (f32_widen v))"
| "uint64_of cl (VFloat64 v) = Ok (f64_to_uint64 v)"
| "uint64_of cl p = int64_of cl p"

fun ToUint64 :: "conv_lib \<Rightarrow> conv \<Rightarrow> u64 outcome" where
  "ToUint64 cl (CVal p) = uint64_of cl p"
| "ToUint64 cl (CPtr p) = deref ''int64'' (uint64_of cl) p"
| "ToUint64 cl (CNumber s) = number_int64 s"
| "ToUint64 cl v = ErrIncompatible ''int64''"

text \<open>The narrow integers are cut from the 64 bits.\<close>

definition ToInt8 :: "conv_lib \<Rightarrow> conv \<Rightarrow> byte outcome" where
  "ToInt8 cl v = bind_outcome (ToInt64 cl v) (\<lambda>i. Ok (ucast i))"

definition ToInt16 :: "conv_lib \<Rightarrow> conv \<Rightarrow> u16 outcome" where
  "ToInt16 cl v = bind_outcome (ToInt64 cl v) (\<lambda>i. Ok (ucast i))"

definition ToUint16 :: "conv_lib \<Rightarrow> conv \<Rightarrow> u16 outcome" where
  "ToUint16 cl v = bind_outcome (ToInt64 cl v) (\<lambda>i. Ok (ucast i))"

definition ToInt32 :: "conv_lib \<Rightarrow> conv \<Rightarrow> u32 outcome" where
  "ToInt32 cl v = bind_outcome (ToInt64 cl v) (\<lambda>i. Ok (ucast i))"

definition ToUint32 :: "conv_lib \<Rightarrow> conv \<Rightarrow> u32 outcome" where
  "ToUint32 cl v = bind_outcome (ToInt64 cl v) (\<lambda>i. Ok (ucast i))"

section \<open>Durations and times\<close>

abbreviation (input) day_ns :: goint where "day_ns \<equiv> 24 * 3600 * 1000000000"

definition ParseDuration :: "conv_lib \<Rightarrow> string \<Rightarrow> goint outcome" where
  "ParseDuration cl v =
     (case IndexByte v CHR ''d'' of
        Some i \<Rightarrow>
          if i = 0 then cv_ParseDuration cl v
          else
            bind_outcome (or_error ''incompatible conv to time.Duration'' (ParseInt (take i v))) (\<lambda>d.
            let day = of_int d * day_ns; str = drop (i + 1) v
            in if str = [] then Ok day
               else
                 bind_outcome (or_error ''incompatible conv to time.Duration'' (cv_ParseDuration cl str)) (\<lambda>dur.
                 Ok (if sint day \<ge> 0 then day + dur else day - dur)))
      | None \<Rightarrow> cv_ParseDuration cl v)"

fun duration_of :: "conv_lib \<Rightarrow> prim \<Rightarrow> goint outcome" where
  "duration_of cl (VString s) = ParseDuration cl s"
| "duration_of cl (VNilPtr t) = deref_nil int_pointers ''time.Duration'' t"
| "duration_of cl p = or_error ''incompatible conv to time.Duration'' (int64_of cl p)"

fun ToDuration :: "conv_lib \<Rightarrow> conv \<Rightarrow> goint outcome" where
  "ToDuration cl (CDuration d) = Ok d"
| "ToDuration cl (CVal p) = duration_of cl p"
| "ToDuration cl (CPtr p) = deref ''time.Duration'' (duration_of cl) p"
| "ToDuration cl (CNumber s) = ErrIncompatible ''time.Duration''"

definition Api_ParseIP :: "conv_lib \<Rightarrow> string \<Rightarrow> bytes outcome" where
  "Api_ParseIP cl s = (case lib_ParseIP (cv_lib cl) s of Some ip \<Rightarrow> Ok ip | None \<Rightarrow> Err (PlainErr ''incompatible conv to IP''))"

definition predefinedFormats :: "(string \<times> string) list" where
  "predefinedFormats =
     [(''-'', ''2006-01-02 15:04:05.999''),
      (''DEFAULT'', ''2006-01-02 15:04:05.999''),
      (''DEFAULT_MS'', ''2006-01-02 15:04:05.999''),
      (''DEFAULT_US'', ''2006-01-02 15:04:05.999999''),
      (''DEFAULT_NS'', ''2006-01-02 15:04:05.999999999''),
      (''DEFAULT.MS'', ''2006-01-02 15:04:05.000''),
      (''DEFAULT.US'', ''2006-01-02 15:04:05.000000''),
      (''DEFAULT.NS'', ''2006-01-02 15:04:05.000000000''),
      (''NUMERIC'', ''01/02 03:04:05PM '' @ squote @ ''06 -0700''),
      (''ANSIC'', ''Mon Jan _2 15:04:05 2006''),
      (''UNIX'', ''Mon Jan _2 15:04:05 MST 2006''),
      (''RUBY'', ''Mon Jan 02 15:04:05 -0700 2006''),
      (''RFC822'', ''02 Jan 06 15:04 MST''),
      (''RFC822Z'', ''02 Jan 06 15:04 -0700''),
      (''RFC850'', ''Monday, 02-Jan-06 15:04:05 MST''),
      (''RFC1123'', ''Mon, 02 Jan 2006 15:04:05 MST''),
      (''RFC1123Z'', ''Mon, 02 Jan 2006 15:04:05 -0700''),
      (''RFC3339'', ''2006-01-02T15:04:05Z07:00''),
      (''RFC3339NANO'', ''2006-01-02T15:04:05.999999999Z07:00''),
      (''KITCHEN'', ''3:04:05PM''),
      (''STAMP'', ''Jan _2 15:04:05''),
      (''STAMPMILLI'', ''Jan _2 15:04:05.000''),
      (''STAMPMICRO'', ''Jan _2 15:04:05.000000''),
      (''STAMPNANO'', ''Jan _2 15:04:05.000000000''),
      (''S_NS'', ''05.999999999''),
      (''S_US'', ''05.999999''),
      (''S_MS'', ''05.999''),
      (''S.NS'', ''05.000000000''),
      (''S.US'', ''05.000000''),
      (''S.MS'', ''05.000'')]"

definition GetTimeformat :: "string \<Rightarrow> string" where
  "GetTimeformat f = (case map_of predefinedFormats (ToUpper f) of Some m \<Rightarrow> m | None \<Rightarrow> f)"

text \<open>
  The nanoseconds of an epoch unit. A time is the product at 64 bits; an instant outside them, which only \<^verbatim>\<open>time.Unix\<close> of
  seconds reaches, has no representation here.
\<close>

definition epoch_factor :: "string \<Rightarrow> goint option" where
  "epoch_factor u =
     switch u [([''s''], Some 1000000000), ([''ms''], Some 1000000), ([''us''], Some 1000), ([''ns''], Some 1)] None"

definition relative_time :: "conv_lib \<Rightarrow> string \<Rightarrow> goint outcome" where
  "relative_time cl remain =
     (if remain = [] then Ok (cv_now cl)
      else if HasPrefix remain ''+''
      then bind_outcome (or_error ''incompatible conv'' (ToDuration cl (CVal (VString (TrimSpace (tl remain)))))) (\<lambda>d. Ok (cv_now cl + d))
      else if HasPrefix remain ''-''
      then bind_outcome (or_error ''incompatible conv'' (ToDuration cl (CVal (VString (TrimSpace (tl remain)))))) (\<lambda>d. Ok (cv_now cl + d * (- 1)))
      else ErrIncompatible ''time.Time'')"

definition ParseTime :: "conv_lib \<Rightarrow> string \<Rightarrow> string \<Rightarrow> location \<Rightarrow> goint outcome" where
  "ParseTime cl s format loc =
     (let str = TrimSpace s
      in if HasPrefix str ''now'' then relative_time cl (TrimSpace (drop 3 str))
         else if format = [] then ErrIncompatible ''time.Time''
         else
           let timeLayout = GetTimeformat format
           in (case epoch_factor timeLayout of
                 Some k \<Rightarrow>
                   bind_outcome (or_error ''unable parse time in timeformat'' (ToInt64 cl (CVal (VString str)))) (\<lambda>ts. Ok (ts * k))
               | None \<Rightarrow> or_error ''incompatible conv to time.Time'' (cv_ParseInLocation cl timeLayout str loc)))"

section \<open>Data types\<close>

fun prim_data_type :: "prim \<Rightarrow> DataType" where
  "prim_data_type (VBool b) = DataTypeBoolean"
| "prim_data_type (VString s) = DataTypeString"
| "prim_data_type (VTime t) = DataTypeDatetime"
| "prim_data_type (VInt16 v) = DataTypeInt16"
| "prim_data_type (VUint16 v) = DataTypeUInt16"
| "prim_data_type (VInt32 v) = DataTypeInt32"
| "prim_data_type (VUint32 v) = DataTypeUInt32"
| "prim_data_type (VInt64 v) = DataTypeInt64"
| "prim_data_type (VUint64 v) = DataTypeUInt64"
| "prim_data_type (VFloat32 v) = DataTypeFloat32"
| "prim_data_type (VFloat64 v) = DataTypeFloat64"
| "prim_data_type (VDecimal d) = DataTypeDecimal"
| "prim_data_type (VDecimalPtr d) = DataTypeDecimal"
| "prim_data_type (VNilPtr t) =
     switch t
       [([''*bool''], DataTypeBoolean), ([''*string''], DataTypeString), ([''*time.Time''], DataTypeDatetime),
        ([''*int16''], DataTypeInt16), ([''*uint16''], DataTypeUInt16), ([''*int32''], DataTypeInt32), ([''*uint32''], DataTypeUInt32),
        ([''*int64''], DataTypeInt64), ([''*uint64''], DataTypeUInt64), ([''*float32''], DataTypeFloat32), ([''*float64''], DataTypeFloat64)]
       DataTypeAny"
| "prim_data_type p = DataTypeAny"

fun DataTypeOf :: "anyval \<Rightarrow> DataType" where
  "DataTypeOf (AVal (GPrim p)) = prim_data_type p"
| "DataTypeOf (AVal (GArrayVal a)) = DataTypeArray"
| "DataTypeOf (AVal (GArrayPtr a)) = DataTypeArray"
| "DataTypeOf (APtr p) = (case p of VNilPtr t \<Rightarrow> DataTypeAny | _ \<Rightarrow> prim_data_type p)"
| "DataTypeOf v = DataTypeAny"

text \<open>An empty text stands for NULL in the columns that hold no text.\<close>

definition or_null :: "conv \<Rightarrow> conv outcome \<Rightarrow> conv outcome" where
  "or_null v r = (if v = CVal (VString []) then Ok (CVal VNil) else r)"

definition as :: "('a \<Rightarrow> prim) \<Rightarrow> 'a outcome \<Rightarrow> conv outcome" where
  "as c r = bind_outcome r (\<lambda>x. Ok (CVal (c x)))"

definition not_convertible :: "conv outcome" where
  "not_convertible = Err (PlainErr ''is not convertible'')"

definition datetime_factor :: "string \<Rightarrow> goint" where
  "datetime_factor u = switch u [([''s''], 1000000000), ([''ms''], 1000000), ([''us''], 1000)] 1"

fun apply_datetime :: "conv_lib \<Rightarrow> string \<Rightarrow> location \<Rightarrow> conv \<Rightarrow> conv outcome" where
  "apply_datetime cl timeformat tz (CVal (VString s)) = as VTime (ParseTime cl s timeformat tz)"
| "apply_datetime cl timeformat tz (CVal (VTime t)) = Ok (CVal (VTime t))"
| "apply_datetime cl timeformat tz (CPtr (VTime t)) = Ok (CVal (VTime t))"
| "apply_datetime cl timeformat tz v =
     (if v = CVal (VNilPtr ''*time.Time'') then nil_deref
      else as VTime (bind_outcome (or_error ''is not datetime convertible'' (ToInt64 cl v)) (\<lambda>ts. Ok (ts * datetime_factor timeformat))))"

fun apply_binary :: "conv \<Rightarrow> conv outcome" where
  "apply_binary (CVal (VString s)) = as VBytes (parseBinary_string s)"
| "apply_binary (CVal (VBytes b)) = Ok (CVal (VBytes b))"
| "apply_binary v = not_convertible"

fun apply_decimal :: "conv \<Rightarrow> conv outcome" where
  "apply_decimal (CVal (VDecimal d)) = Ok (CVal (VDecimal d))"
| "apply_decimal (CVal (VDecimalPtr (Some d))) = Ok (CVal (VDecimal d))"
| "apply_decimal (CVal (VDecimalPtr None)) = nil_deref"
| "apply_decimal (CVal (VString s)) = as VDecimal (ParseDecimal s DecimalMaxPrecision DecimalMaxScale)"
| "apply_decimal v = not_convertible"

definition of_text :: "(string \<Rightarrow> conv outcome) \<Rightarrow> conv \<Rightarrow> conv outcome" where
  "of_text f v = (case v of CVal (VString s) \<Rightarrow> f s | _ \<Rightarrow> not_convertible)"

definition DataType_Apply :: "conv_lib \<Rightarrow> DataType \<Rightarrow> conv \<Rightarrow> string \<Rightarrow> location option \<Rightarrow> conv outcome" where
  "DataType_Apply cl typ v tf zone =
     (let timeformat = (if tf = [] then ''ns'' else tf); tz = (case zone of None \<Rightarrow> UTC | Some z \<Rightarrow> z)
      in switch typ
           [([DataTypeString, COLUMN_TYPE_VARCHAR, COLUMN_TYPE_TEXT, COLUMN_TYPE_JSON], of_text (\<lambda>s. Ok (CVal (VString s))) v),
            ([DataTypeDatetime], apply_datetime cl timeformat tz v),
            ([DataTypeInt16, COLUMN_TYPE_SHORT], or_null v (as VInt16 (ToInt16 cl v))),
            ([COLUMN_TYPE_USHORT, ''unsigned short''], or_null v (as VUint16 (ToUint16 cl v))),
            ([DataTypeInt32, COLUMN_TYPE_INTEGER, ''int''], or_null v (as VInt32 (ToInt32 cl v))),
            ([COLUMN_TYPE_UINTEGER, ''unsigned integer''], or_null v (as VUint32 (ToUint32 cl v))),
            ([DataTypeInt64, COLUMN_TYPE_LONG], or_null v (as VInt64 (ToInt64 cl v))),
            ([COLUMN_TYPE_ULONG, ''unsigned long''], or_null v (as VUint64 (ToUint64 cl v))),
            ([DataTypeFloat32], or_null v (as VFloat32 (ToFloat32 cl v))),
            ([DataTypeFloat64], or_null v (as VFloat64 (ToFloat64 cl v))),
            ([DataTypeIPv4, DataTypeIPv6], or_null v (of_text (\<lambda>s. as VIP (Api_ParseIP cl s)) v)),
            ([DataTypeBoolean], or_null v (of_text (\<lambda>s. as VBool (ParseBool s)) v)),
            ([DataTypeByte], as VInt8 (ToInt8 cl v)),
            ([DataTypeBinary], apply_binary v),
            ([DataTypeDecimal], apply_decimal v)]
           (Err (PlainErr ''unsupported column type'')))"

end
