(* ===== verification/Struct_Map.thy ===== *)
theory Struct_Map
  imports Api_Conv Scan
begin

text \<open>
  \<^verbatim>\<open>structmap.go\<close>: how the fields of a struct are mapped to columns. A struct type is given by its fields, with the struct
  tag of each as the list of its keys; \<^verbatim>\<open>time.Time\<close> and struct types that scan themselves are leaves, like the scalar types. The
  zone of a \<^verbatim>\<open>time.Time\<close> is not represented, since a time is its instant: only the formatting of a time depends on a zone.
\<close>

section \<open>Struct types\<close>

datatype stype =
    SLeaf gotype
  | SMapAny
  | SStruct "sfield list"
and sfield =
  SField (sf_name: string) (sf_exported: bool) (sf_anonymous: bool) (sf_tags: "(string \<times> string) list") (sf_type: stype)

definition isNestedStruct :: "stype \<Rightarrow> bool" where
  "isNestedStruct t = (case t of SStruct fs \<Rightarrow> True | _ \<Rightarrow> False)"

record struct_lib =
  st_scan :: scan_lib
  st_dsn :: dsn_lib
  st_Format :: "goint \<Rightarrow> location \<Rightarrow> string \<Rightarrow> string"
  st_assign :: "gv \<Rightarrow> gotype \<Rightarrow> gv outcome"

abbreviation (input) ErrScanDestNotPointer :: gerr where "ErrScanDestNotPointer \<equiv> PlainErr ''machbase: scan destination must be a non-nil pointer''"
abbreviation (input) ErrScanNoMatchedField :: gerr where "ErrScanNoMatchedField \<equiv> PlainErr ''machbase: column has no matching struct field''"
abbreviation (input) ErrScanNoMatchedColumn :: gerr where "ErrScanNoMatchedColumn \<equiv> PlainErr ''machbase: struct field has no matching column''"
abbreviation (input) ErrScanDuplicateColumn :: gerr where "ErrScanDuplicateColumn \<equiv> PlainErr ''machbase: duplicated column name''"
abbreviation (input) ErrScanNoMappedField :: gerr where "ErrScanNoMappedField \<equiv> PlainErr ''machbase: struct has no db-tagged field''"
abbreviation (input) ErrScanTooManyRows :: gerr where "ErrScanTooManyRows \<equiv> PlainErr ''machbase: result set exceeds the configured row limit''"
abbreviation (input) ErrScanInvalidTagOption :: gerr where "ErrScanInvalidTagOption \<equiv> PlainErr ''machbase: invalid db tag option''"
abbreviation (input) ErrScanNullNotSupported :: gerr where "ErrScanNullNotSupported \<equiv> PlainErr ''machbase: NULL DATETIME column requires a pointer field''"

section \<open>Configuration\<close>

abbreviation (input) defaultTagKey :: string where "defaultTagKey \<equiv> ''db''"
abbreviation (input) defaultFallbackTagKey :: string where "defaultFallbackTagKey \<equiv> ''json''"
abbreviation (input) defaultMaxRows :: int where "defaultMaxRows \<equiv> defaultConfigFetchRows"
abbreviation (input) defaultDateTimeFormat :: string where "defaultDateTimeFormat \<equiv> ''2006-01-02 15:04:05.999''"

record scanConfig =
  sc_tagKey :: string
  sc_fallbackTagKey :: string
  sc_nameMapper :: "(string \<Rightarrow> string) option"
  sc_laxColumns :: bool
  sc_laxFields :: bool
  sc_maxRows :: int
  sc_capacity :: int
  sc_dateTimeFormat :: string
  sc_dateTimeZone :: location
  sc_optErr :: "gerr option"

type_synonym ScanOption = "scanConfig \<Rightarrow> scanConfig"

definition newScanConfig :: "ScanOption list \<Rightarrow> scanConfig" where
  "newScanConfig opts =
     fold (\<lambda>opt. opt) opts
       \<lparr>sc_tagKey = defaultTagKey, sc_fallbackTagKey = defaultFallbackTagKey, sc_nameMapper = None, sc_laxColumns = False,
        sc_laxFields = False, sc_maxRows = defaultMaxRows, sc_capacity = 0, sc_dateTimeFormat = defaultDateTimeFormat,
        sc_dateTimeZone = Local, sc_optErr = None\<rparr>"

definition WithTagKey :: "string \<Rightarrow> ScanOption" where
  "WithTagKey key cfg = cfg\<lparr>sc_tagKey := key\<rparr>"

definition WithFallbackTagKey :: "string \<Rightarrow> ScanOption" where
  "WithFallbackTagKey key cfg = cfg\<lparr>sc_fallbackTagKey := key\<rparr>"

definition WithNameMapper :: "(string \<Rightarrow> string) \<Rightarrow> ScanOption" where
  "WithNameMapper fn cfg = cfg\<lparr>sc_nameMapper := Some fn\<rparr>"

definition WithLaxColumns :: ScanOption where
  "WithLaxColumns cfg = cfg\<lparr>sc_laxColumns := True\<rparr>"

definition WithLaxFields :: ScanOption where
  "WithLaxFields cfg = cfg\<lparr>sc_laxFields := True\<rparr>"

definition WithMaxRows :: "int \<Rightarrow> ScanOption" where
  "WithMaxRows n cfg = cfg\<lparr>sc_maxRows := n\<rparr>"

definition WithCapacity :: "int \<Rightarrow> ScanOption" where
  "WithCapacity n cfg = cfg\<lparr>sc_capacity := n\<rparr>"

definition parseTimeLocation :: "dsn_lib \<Rightarrow> string \<Rightarrow> location outcome" where
  "parseTimeLocation dl name =
     (if name = ''UTC'' then Ok UTC else if name = ''Local'' then Ok Local else LoadLocation dl name)"

definition WithDateTime :: "dsn_lib \<Rightarrow> string \<Rightarrow> string \<Rightarrow> ScanOption" where
  "WithDateTime dl timeformat tz cfg =
     (let cfg = (if timeformat \<noteq> [] then cfg\<lparr>sc_dateTimeFormat := timeformat\<rparr> else cfg)
      in if tz = [] then cfg
         else
           (case parseTimeLocation dl tz of
              Ok loc \<Rightarrow> cfg\<lparr>sc_dateTimeZone := loc\<rparr>
            | _ \<Rightarrow> cfg\<lparr>sc_optErr := Some ErrScanInvalidTagOption\<rparr>))"

definition NameMapperIdentity :: "string \<Rightarrow> string" where
  "NameMapperIdentity name = name"

definition is_upper :: "char \<Rightarrow> bool" where
  "is_upper c \<longleftrightarrow> 65 \<le> code c \<and> code c \<le> 90"

text \<open>An underscore goes before a capital that ends a run of small letters or starts a word.\<close>

fun snake_from :: "char option \<Rightarrow> string \<Rightarrow> string" where
  "snake_from prev [] = []"
| "snake_from prev (r # rs) =
     (if is_upper r then
        let prevIsLower = (case prev of Some p \<Rightarrow> \<not> is_upper p | None \<Rightarrow> False);
            nextIsLower = (rs \<noteq> [] \<and> \<not> is_upper (hd rs))
        in (if prev \<noteq> None \<and> (prevIsLower \<or> nextIsLower) then ''_'' else []) @ lower_char r # snake_from (Some r) rs
      else r # snake_from (Some r) rs)"

definition NameMapperSnake :: "string \<Rightarrow> string" where
  "NameMapperSnake name = snake_from None name"

definition initialCapacity :: "scanConfig \<Rightarrow> int" where
  "initialCapacity cfg =
     (if sc_capacity cfg > 0 then sc_capacity cfg
      else if 0 < sc_maxRows cfg \<and> sc_maxRows cfg < 64 then sc_maxRows cfg
      else 64)"

section \<open>Options of a time field\<close>

record timeFieldOpts =
  tf_timeformat :: string
  tf_tz :: "location option"
  tf_postProcessOnly :: bool

definition normalizeEpochUnit :: "string \<Rightarrow> string option" where
  "normalizeEpochUnit s = (if ToLower s \<in> set [''ns'', ''us'', ''ms'', ''s''] then Some (ToLower s) else None)"

text \<open>\<^verbatim>\<open>UnixMilli\<close>, \<^verbatim>\<open>UnixMicro\<close> and \<^verbatim>\<open>Unix\<close> round toward the past.\<close>

definition epochValue :: "goint \<Rightarrow> string \<Rightarrow> goint" where
  "epochValue t unit =
     switch unit
       [([''ms''], of_int (sint t div 1000000)), ([''us''], of_int (sint t div 1000)), ([''s''], of_int (sint t div 1000000000))] t"

definition elem_type :: "gotype \<Rightarrow> gotype" where
  "elem_type t = (case t of TPtr u \<Rightarrow> u | _ \<Rightarrow> t)"

definition string_types :: "gotype list" where
  "string_types = [TString, TJSON]"

definition null_time_types :: "gotype list" where
  "null_time_types = [TNullTime, TNull TTime]"

definition null_string_types :: "gotype list" where
  "null_string_types = [TNullString, TNull TString]"

definition eligible :: "gotype \<Rightarrow> bool" where
  "eligible t \<longleftrightarrow> t \<in> set (string_types @ [TInt64, TTime] @ null_time_types @ [TNull TInt64] @ null_string_types)"

definition time_option :: "dsn_lib \<Rightarrow> gotype \<Rightarrow> string \<Rightarrow> timeFieldOpts \<Rightarrow> timeFieldOpts outcome" where
  "time_option dl t part opts =
     (case Cut part ''='' of (key, value, ok) \<Rightarrow>
        if \<not> ok then Err ErrScanInvalidTagOption
        else if key = ''timeformat'' then
          if t \<in> set (TTime # null_time_types) then Err ErrScanInvalidTagOption
          else if t \<in> {TInt64, TNull TInt64}
          then (case normalizeEpochUnit value of
                  Some unit \<Rightarrow> Ok (opts\<lparr>tf_timeformat := unit\<rparr>)
                | None \<Rightarrow> Err ErrScanInvalidTagOption)
          else Ok (opts\<lparr>tf_timeformat := value\<rparr>)
        else if key = ''tz'' then
          if t \<notin> set (string_types @ [TTime] @ null_time_types @ null_string_types) then Err ErrScanInvalidTagOption
          else
            (case parseTimeLocation dl value of
               Ok loc \<Rightarrow> Ok (opts\<lparr>tf_tz := Some loc\<rparr>)
             | _ \<Rightarrow> Err ErrScanInvalidTagOption)
        else Err ErrScanInvalidTagOption)"

fun time_options :: "dsn_lib \<Rightarrow> gotype \<Rightarrow> string list \<Rightarrow> timeFieldOpts \<Rightarrow> timeFieldOpts outcome" where
  "time_options dl t [] opts = Ok opts"
| "time_options dl t (part # parts) opts =
     (if part = ''omitempty'' then time_options dl t parts opts
      else bind_outcome (time_option dl t part opts) (time_options dl t parts))"

definition option_parts :: "string \<Rightarrow> string list" where
  "option_parts options = filter (\<lambda>part. part \<noteq> []) (map TrimSpace (Split CHR '','' options))"

definition parseTimeFieldOpts :: "dsn_lib \<Rightarrow> string \<Rightarrow> gotype \<Rightarrow> timeFieldOpts option outcome" where
  "parseTimeFieldOpts dl options fieldType =
     (let t = elem_type fieldType;
          parts = option_parts options;
          opts = \<lparr>tf_timeformat = [], tf_tz = None, tf_postProcessOnly = t \<in> set null_time_types\<rparr>
      in if list_all (\<lambda>part. part = ''omitempty'') parts then Ok (if eligible t then Some opts else None)
         else if \<not> eligible t then Err ErrScanInvalidTagOption
         else bind_outcome (time_options dl t parts opts) (\<lambda>opt. Ok (Some opt)))"

section \<open>Conversion of a time field\<close>

definition isNullWrapperType :: "gotype \<Rightarrow> bool" where
  "isNullWrapperType t \<longleftrightarrow> t \<in> set (TNull TInt64 # null_string_types)"

definition epoch_unit :: "timeFieldOpts \<Rightarrow> scanConfig \<Rightarrow> string" where
  "epoch_unit opt cfg =
     (if tf_timeformat opt \<noteq> [] then tf_timeformat opt
      else (case normalizeEpochUnit (sc_dateTimeFormat cfg) of Some u \<Rightarrow> u | None \<Rightarrow> ''ns''))"

definition time_text :: "struct_lib \<Rightarrow> timeFieldOpts \<Rightarrow> scanConfig \<Rightarrow> goint \<Rightarrow> string" where
  "time_text L opt cfg t =
     (let tz = (case tf_tz opt of Some z \<Rightarrow> z | None \<Rightarrow> sc_dateTimeZone cfg);
          format = (if tf_timeformat opt \<noteq> [] then tf_timeformat opt else sc_dateTimeFormat cfg)
      in case normalizeEpochUnit format of
           Some unit \<Rightarrow> itoa (sint (epochValue t unit))
         | None \<Rightarrow> st_Format L t tz format)"

definition time_value :: "struct_lib \<Rightarrow> timeFieldOpts \<Rightarrow> scanConfig \<Rightarrow> gotype \<Rightarrow> goint \<Rightarrow> gv" where
  "time_value L opt cfg target t =
     (if target = TNull TInt64 then GvNull target True (GvPrim (VInt64 (epochValue t (epoch_unit opt cfg))))
      else if target \<in> set null_string_types then GvNull target True (GvPrim (VString (time_text L opt cfg t)))
      else if target = TString then GvPrim (VString (time_text L opt cfg t))
      else if target = TJSON then GvJSON (time_text L opt cfg t)
      else if target = TInt64 then GvPrim (VInt64 (epochValue t (epoch_unit opt cfg)))
      else GvPrim (VTime t))"

text \<open>\<^verbatim>\<open>apply\<close>: what the field holds afterwards. A column that is no time goes through \<^verbatim>\<open>Scan\<close>.\<close>

definition time_apply :: "struct_lib \<Rightarrow> timeFieldOpts \<Rightarrow> scanConfig \<Rightarrow> gotype \<Rightarrow> gv \<Rightarrow> gv outcome" where
  "time_apply L opt cfg ft v =
     (if v = GvNil then
        (case ft of
           TPtr t \<Rightarrow> Ok (GvNilPtr t)
         | _ \<Rightarrow>
             if isNullWrapperType ft then Ok (GvNull ft False (zero_value (wrapped_type ft)))
             else Err ErrScanNullNotSupported)
      else
        let target = elem_type ft;
            r = (case v of
                   GvPrim (VTime t) \<Rightarrow> Ok (time_value L opt cfg target t)
                 | _ \<Rightarrow> Scan (st_scan L) v target)
        in if ft = target then r else bind_outcome r (\<lambda>w. Ok (GvPtr w)))"

section \<open>Maps from columns to fields\<close>

record fieldInfo =
  fi_name :: string
  fi_index :: "nat list"
  fi_time :: "timeFieldOpts option"

record structMap =
  sm_fields :: "fieldInfo list"
  sm_byName :: "string \<rightharpoonup> nat"

definition empty_structMap :: structMap where
  "empty_structMap = \<lparr>sm_fields = [], sm_byName = Map.empty\<rparr>"

definition structMap_lookup :: "structMap \<Rightarrow> string \<Rightarrow> fieldInfo option" where
  "structMap_lookup sm column = map_option ((!) (sm_fields sm)) (sm_byName sm (ToLower column))"

definition structMap_add :: "string \<Rightarrow> nat list \<Rightarrow> timeFieldOpts option \<Rightarrow> structMap \<Rightarrow> structMap outcome" where
  "structMap_add name index timeOpts sm =
     (if sm_byName sm (ToLower name) \<noteq> None then Err ErrScanDuplicateColumn
      else
        Ok (sm\<lparr>sm_byName := (sm_byName sm)(ToLower name \<mapsto> length (sm_fields sm)),
               sm_fields := sm_fields sm @ [\<lparr>fi_name = name, fi_index = index, fi_time = timeOpts\<rparr>]\<rparr>))"

definition tagName :: "string \<Rightarrow> string" where
  "tagName tag = (case IndexByte tag CHR '','' of Some idx \<Rightarrow> take idx tag | None \<Rightarrow> tag)"

definition tagOptions :: "string \<Rightarrow> string" where
  "tagOptions tag = (case IndexByte tag CHR '','' of Some idx \<Rightarrow> drop (idx + 1) tag | None \<Rightarrow> [])"

definition tagOrFieldName :: "string \<Rightarrow> string \<Rightarrow> string" where
  "tagOrFieldName tag fieldName = (if tagName tag \<noteq> [] then tagName tag else fieldName)"

text \<open>The name, whether it comes from a tag, and the options of the primary tag.\<close>

definition fieldName :: "scanConfig \<Rightarrow> sfield \<Rightarrow> string \<times> bool \<times> string" where
  "fieldName cfg f =
     (case (if sc_tagKey cfg \<noteq> [] then map_of (sf_tags f) (sc_tagKey cfg) else None) of
        Some tag \<Rightarrow> (tagOrFieldName tag (sf_name f), True, tagOptions tag)
      | None \<Rightarrow>
          (case (if sc_fallbackTagKey cfg \<noteq> [] then map_of (sf_tags f) (sc_fallbackTagKey cfg) else None) of
             Some tag \<Rightarrow> (tagOrFieldName tag (sf_name f), True, [])
           | None \<Rightarrow>
               (case sc_nameMapper cfg of
                  Some fn \<Rightarrow> (fn (sf_name f), False, [])
                | None \<Rightarrow> ([], False, []))))"

text \<open>What happens to a field: it is left out, its fields are walked with a prefix, or it is added under a name.\<close>

datatype field_role = Skip | Descend string "sfield list" | AddField string gotype string

definition role_of :: "scanConfig \<Rightarrow> string \<Rightarrow> sfield \<Rightarrow> field_role" where
  "role_of cfg prefix f =
     (if \<not> sf_exported f \<and> \<not> sf_anonymous f then Skip
      else
        (case fieldName cfg f of (name, explicit, options) \<Rightarrow>
           if explicit \<and> name = ''-'' then Skip
           else
             (case sf_type f of
                SStruct fs \<Rightarrow>
                  if sf_anonymous f \<and> \<not> explicit then Descend prefix fs
                  else if \<not> sf_exported f \<or> name = [] then Skip
                  else Descend (prefix @ name @ ''.'') fs
              | SLeaf t \<Rightarrow> if \<not> sf_exported f \<or> name = [] then Skip else AddField (prefix @ name) t options
              | SMapAny \<Rightarrow> if \<not> sf_exported f \<or> name = [] then Skip else AddField (prefix @ name) (TNamed ''map[string]any'') options)))"

lemma Descend_type: "role_of cfg prefix f = Descend p fs \<Longrightarrow> sf_type f = SStruct fs"
  by (auto simp: role_of_def split: if_splits prod.splits stype.splits)

lemma sfield_size: "sf_type f = SStruct fs \<Longrightarrow> size_list size fs < size f"
  by (cases f) simp

function walkStruct ::
  "scanConfig \<Rightarrow> dsn_lib \<Rightarrow> sfield list \<Rightarrow> string \<Rightarrow> nat list \<Rightarrow> nat \<Rightarrow> structMap \<Rightarrow> structMap outcome" where
  "walkStruct cfg dl [] prefix index i sm = Ok sm"
| "walkStruct cfg dl (f # fs) prefix index i sm =
     (case role_of cfg prefix f of
        Skip \<Rightarrow> walkStruct cfg dl fs prefix index (i + 1) sm
      | Descend p gs \<Rightarrow>
          (case walkStruct cfg dl gs p (index @ [i]) 0 sm of
             Ok sm' \<Rightarrow> walkStruct cfg dl fs prefix index (i + 1) sm'
           | r \<Rightarrow> r)
      | AddField name t options \<Rightarrow>
          (case bind_outcome (parseTimeFieldOpts dl options t) (\<lambda>opts. structMap_add name (index @ [i]) opts sm) of
             Ok sm' \<Rightarrow> walkStruct cfg dl fs prefix index (i + 1) sm'
           | r \<Rightarrow> r))"
  by pat_completeness auto
termination
  by (relation "measure (\<lambda>(cfg, dl, fs, p, ix, i, sm). size_list size fs)")
    (auto dest!: Descend_type sfield_size)

text \<open>The map of a struct type, and the same through the cache of the package.\<close>

definition fresh_structMap :: "scanConfig \<Rightarrow> dsn_lib \<Rightarrow> sfield list \<Rightarrow> structMap outcome" where
  "fresh_structMap cfg dl fs =
     bind_outcome (walkStruct cfg dl fs [] [] 0 empty_structMap) (\<lambda>sm.
     if sm_fields sm = [] then Err ErrScanNoMappedField else Ok sm)"

type_synonym structMapCache = "(sfield list \<times> string \<times> string) \<rightharpoonup> structMap"

definition structMapOf :: "scanConfig \<Rightarrow> dsn_lib \<Rightarrow> sfield list \<Rightarrow> structMapCache \<Rightarrow> structMap outcome \<times> structMapCache" where
  "structMapOf cfg dl fs cache =
     (let key = (fs, sc_tagKey cfg, sc_fallbackTagKey cfg);
          cached = (if sc_nameMapper cfg = None then cache key else None)
      in case cached of
           Some sm \<Rightarrow> (Ok sm, cache)
         | None \<Rightarrow>
             (case fresh_structMap cfg dl fs of
                Ok sm \<Rightarrow> if sc_nameMapper cfg \<noteq> None then (Ok sm, cache) else (Ok sm, cache(key \<mapsto> sm))
              | r \<Rightarrow> (r, cache)))"

end
