(* ===== verification/Struct_Fields.thy ===== *)
theory Struct_Fields
  imports Struct_Map Session
begin

text \<open>
  Properties of the maps from columns to fields: the invariant of a map, the fields a walk over a struct type finds, the cache
  of maps, names of columns and epoch times.
\<close>

section \<open>Every column has its own field\<close>

text \<open>The field that a sequence of field numbers leads to.\<close>

fun field_at :: "sfield list \<Rightarrow> nat list \<Rightarrow> sfield option" where
  "field_at fs [] = None"
| "field_at fs [i] = (if i < length fs then Some (fs ! i) else None)"
| "field_at fs (i # j # p) =
     (if i < length fs then (case sf_type (fs ! i) of SStruct gs \<Rightarrow> field_at gs (j # p) | _ \<Rightarrow> None) else None)"

lemma field_at_snoc:
  "field_at fs p = Some f \<Longrightarrow> sf_type f = SStruct gs \<Longrightarrow> k < length gs \<Longrightarrow> field_at fs (p @ [k]) = Some (gs ! k)"
  by (induction fs p rule: field_at.induct) (auto split: if_splits stype.splits)

definition mapped_field :: "sfield list \<Rightarrow> fieldInfo \<Rightarrow> bool" where
  "mapped_field whole g \<longleftrightarrow>
     (case field_at whole (fi_index g) of
        Some f \<Rightarrow> sf_exported f \<and> \<not> isNestedStruct (sf_type f)
      | None \<Rightarrow> False)"

definition lower_names :: "structMap \<Rightarrow> string list" where
  "lower_names sm = map (ToLower \<circ> fi_name) (sm_fields sm)"

definition names_ok :: "structMap \<Rightarrow> bool" where
  "names_ok sm \<longleftrightarrow>
     distinct (lower_names sm) \<and> (\<forall>k i. sm_byName sm k = Some i \<longleftrightarrow> i < length (sm_fields sm) \<and> lower_names sm ! i = k)"

lemma names_ok_empty [simp]: "names_ok empty_structMap"
  by (simp add: names_ok_def empty_structMap_def lower_names_def)

lemma no_fields [simp]: "sm_fields empty_structMap = []"
  by (simp add: empty_structMap_def)

lemma structMap_add_ok:
  assumes "names_ok sm" and "structMap_add name index opts sm = Ok sm'"
  shows "names_ok sm'"
proof -
  let ?g = "\<lparr>fi_name = name, fi_index = index, fi_time = opts\<rparr>"
  from assms(2) have sm': "sm' = sm\<lparr>sm_byName := (sm_byName sm)(ToLower name \<mapsto> length (sm_fields sm)), sm_fields := sm_fields sm @ [?g]\<rparr>"
    and new: "sm_byName sm (ToLower name) = None"
    by (auto simp: structMap_add_def split: if_splits)
  have names: "lower_names sm' = lower_names sm @ [ToLower name]" by (simp add: lower_names_def sm')
  have len: "length (lower_names sm) = length (sm_fields sm)" by (simp add: lower_names_def)
  have fresh: "ToLower name \<notin> set (lower_names sm)"
    using assms(1) new by (auto simp: names_ok_def in_set_conv_nth len) (metis option.distinct(1))
  have "sm_byName sm' k = Some i \<longleftrightarrow> i < length (sm_fields sm') \<and> lower_names sm' ! i = k" for k i
    using assms(1) fresh len unfolding names
    by (cases "k = ToLower name"; cases "i = length (sm_fields sm)")
      (auto simp: names_ok_def sm' nth_append less_Suc_eq in_set_conv_nth)
  with assms(1) fresh show ?thesis by (simp add: names_ok_def names)
qed

lemma AddField_role:
  "role_of cfg prefix f = AddField name t opts \<Longrightarrow> sf_exported f \<and> \<not> isNestedStruct (sf_type f)"
  by (auto simp: role_of_def isNestedStruct_def split: if_splits prod.splits stype.splits)

text \<open>The fields a walk adds lie below the struct it walks, each at a place of its own.\<close>

lemma walkStruct_sound:
  assumes "walkStruct cfg dl fs prefix index i sm = Ok sm'" and "names_ok sm"
    and "\<And>k. k < length fs \<Longrightarrow> field_at whole (index @ [i + k]) = Some (fs ! k)"
  shows "names_ok sm' \<and>
    (\<exists>new. sm_fields sm' = sm_fields sm @ new \<and> distinct (map fi_index new)
       \<and> (\<forall>g \<in> set new. mapped_field whole g \<and> (\<exists>j p. i \<le> j \<and> fi_index g = index @ j # p)))"
  using assms
proof (induction cfg dl fs prefix index i sm arbitrary: sm' rule: walkStruct.induct)
  case (2 cfg dl f fs prefix index i sm)
  note walk = "2.prems"(1) and ok = "2.prems"(2) and at = "2.prems"(3)
  have f: "field_at whole (index @ [i]) = Some f" using at [of 0] by simp
  have later: "field_at whole (index @ [i + 1 + k]) = Some (fs ! k)" if "k < length fs" for k
    using at [of "Suc k"] that by simp
  show ?case
  proof (cases "role_of cfg prefix f")
    case Skip
    from "2.IH"(1) [OF Skip _ ok later] walk Skip show ?thesis by (fastforce dest: Suc_leD)
  next
    case (Descend p gs)
    with walk obtain sm1 where w1: "walkStruct cfg dl gs p (index @ [i]) 0 sm = Ok sm1"
      and w2: "walkStruct cfg dl fs prefix index (i + 1) sm1 = Ok sm'"
      by (auto split: outcome.splits)
    have below: "field_at whole ((index @ [i]) @ [0 + k]) = Some (gs ! k)" if "k < length gs" for k
      using field_at_snoc [OF f Descend_type [OF Descend] that] by simp
    from "2.IH"(2) [OF Descend w1 ok below] obtain new1 where ok1: "names_ok sm1"
      and n1: "sm_fields sm1 = sm_fields sm @ new1" "distinct (map fi_index new1)"
        "\<forall>g \<in> set new1. mapped_field whole g \<and> (\<exists>j q. 0 \<le> j \<and> fi_index g = (index @ [i]) @ j # q)" by blast
    from "2.IH"(3) [OF Descend w1 w2 ok1 later] obtain new2 where
      n2: "names_ok sm'" "sm_fields sm' = sm_fields sm1 @ new2" "distinct (map fi_index new2)"
        "\<forall>g \<in> set new2. mapped_field whole g \<and> (\<exists>j q. i + 1 \<le> j \<and> fi_index g = index @ j # q)" by blast
    have "distinct (map fi_index (new1 @ new2))"
      using n1(2,3) n2(3,4) by (fastforce simp: distinct_append)
    moreover have "\<forall>g \<in> set (new1 @ new2). mapped_field whole g \<and> (\<exists>j q. i \<le> j \<and> fi_index g = index @ j # q)"
      using n1(3) n2(4) by (fastforce dest: Suc_leD)
    ultimately show ?thesis using n1(1) n2(1,2) by (metis append_assoc)
  next
    case (AddField name t options)
    with walk obtain opts sm1 where add: "structMap_add name (index @ [i]) opts sm = Ok sm1"
      and b: "bind_outcome (parseTimeFieldOpts dl options t) (\<lambda>opts. structMap_add name (index @ [i]) opts sm) = Ok sm1"
      and w2: "walkStruct cfg dl fs prefix index (i + 1) sm1 = Ok sm'"
      by (auto split: outcome.splits simp: outcome_simps)
    let ?g = "\<lparr>fi_name = name, fi_index = index @ [i], fi_time = opts\<rparr>"
    from add have s1: "sm_fields sm1 = sm_fields sm @ [?g]" by (auto simp: structMap_add_def split: if_splits)
    from "2.IH"(4) [OF AddField b w2 structMap_add_ok [OF ok add] later] obtain new2 where
      n2: "names_ok sm'" "sm_fields sm' = sm_fields sm1 @ new2" "distinct (map fi_index new2)"
        "\<forall>g \<in> set new2. mapped_field whole g \<and> (\<exists>j q. i + 1 \<le> j \<and> fi_index g = index @ j # q)" by blast
    have "mapped_field whole ?g" using f AddField_role [OF AddField] by (simp add: mapped_field_def)
    moreover have "distinct (map fi_index (?g # new2))" using n2(3,4) by fastforce
    moreover have "\<forall>g \<in> set new2. mapped_field whole g \<and> (\<exists>j q. i \<le> j \<and> fi_index g = index @ j # q)"
      using n2(4) by (fastforce dest: Suc_leD)
    ultimately show ?thesis using n2(1,2) s1
      by (intro conjI exI [of _ "?g # new2"]) (auto intro!: exI [of _ i])
  qed
qed auto

lemma fresh_sound:
  assumes "fresh_structMap cfg dl fs = Ok sm"
  shows "names_ok sm" and "sm_fields sm \<noteq> []" and "distinct (map fi_index (sm_fields sm))" and "list_all (mapped_field fs) (sm_fields sm)"
proof -
  from assms have w: "walkStruct cfg dl fs [] [] 0 empty_structMap = Ok sm" and ne: "sm_fields sm \<noteq> []"
    by (auto simp: fresh_structMap_def outcome_simps split: if_splits)
  from walkStruct_sound [OF w, of fs] ne show "names_ok sm" and "sm_fields sm \<noteq> []"
    and "distinct (map fi_index (sm_fields sm))" and "list_all (mapped_field fs) (sm_fields sm)"
    by (auto simp: list_all_iff)
qed

lemma lookup_exact:
  assumes "names_ok sm"
  shows "structMap_lookup sm col = Some g \<longleftrightarrow> g \<in> set (sm_fields sm) \<and> ToLower (fi_name g) = ToLower col"
proof
  assume "structMap_lookup sm col = Some g"
  then obtain i where "sm_byName sm (ToLower col) = Some i" "g = sm_fields sm ! i"
    by (auto simp: structMap_lookup_def)
  with assms show "g \<in> set (sm_fields sm) \<and> ToLower (fi_name g) = ToLower col"
    by (auto simp: names_ok_def lower_names_def)
next
  assume g: "g \<in> set (sm_fields sm) \<and> ToLower (fi_name g) = ToLower col"
  then obtain i where "i < length (sm_fields sm)" "sm_fields sm ! i = g" by (auto simp: in_set_conv_nth)
  with assms g have "sm_byName sm (ToLower col) = Some i" by (auto simp: names_ok_def lower_names_def)
  with \<open>sm_fields sm ! i = g\<close> show "structMap_lookup sm col = Some g" by (simp add: structMap_lookup_def)
qed


section \<open>The cache\<close>

lemma fieldName_key:
  assumes "sc_tagKey cfg = sc_tagKey cfg'" "sc_fallbackTagKey cfg = sc_fallbackTagKey cfg'" "sc_nameMapper cfg = sc_nameMapper cfg'"
  shows "role_of cfg prefix f = role_of cfg' prefix f"
  unfolding role_of_def fieldName_def assms ..

lemma walkStruct_key:
  assumes "\<And>prefix f. role_of cfg prefix f = role_of cfg' prefix f"
  shows "walkStruct cfg dl fs prefix index i sm = walkStruct cfg' dl fs prefix index i sm"
  using assms
proof (induction cfg dl fs prefix index i sm rule: walkStruct.induct)
  case (2 cfg dl f fs prefix index i sm)
  note role = "2.prems"
  show ?case
  proof (cases "role_of cfg' prefix f")
    case Skip
    with "2.IH"(1) role show ?thesis by simp
  next
    case (Descend p gs)
    with "2.IH"(2) "2.IH"(3) role show ?thesis by (auto split: outcome.splits)
  next
    case (AddField name t options)
    with "2.IH"(4) role show ?thesis by (auto split: outcome.splits)
  qed
qed simp

lemma fresh_key:
  assumes "sc_tagKey cfg = sc_tagKey cfg'" "sc_fallbackTagKey cfg = sc_fallbackTagKey cfg'" "sc_nameMapper cfg = sc_nameMapper cfg'"
  shows "fresh_structMap cfg dl fs = fresh_structMap cfg' dl fs"
  using walkStruct_key [OF fieldName_key [OF assms]] by (simp add: fresh_structMap_def)

definition cache_ok :: "dsn_lib \<Rightarrow> structMapCache \<Rightarrow> bool" where
  "cache_ok dl cache \<longleftrightarrow>
     (\<forall>cfg fs sm. sc_nameMapper cfg = None \<longrightarrow> cache (fs, sc_tagKey cfg, sc_fallbackTagKey cfg) = Some sm
        \<longrightarrow> fresh_structMap cfg dl fs = Ok sm)"

lemma structMapOf_cached:
  assumes "cache_ok dl cache" and "structMapOf cfg dl fs cache = (r, cache')"
  shows "r = fresh_structMap cfg dl fs \<and> cache_ok dl cache'"
proof (cases "sc_nameMapper cfg = None \<and> cache (fs, sc_tagKey cfg, sc_fallbackTagKey cfg) \<noteq> None")
  case True
  with assms show ?thesis by (auto simp: structMapOf_def Let_def cache_ok_def)
next
  case False
  show ?thesis
  proof (cases "fresh_structMap cfg dl fs")
    case (Ok sm)
    have "cache_ok dl (cache((fs, sc_tagKey cfg, sc_fallbackTagKey cfg) \<mapsto> sm))" if m: "sc_nameMapper cfg = None"
      unfolding cache_ok_def
    proof (intro allI impI)
      fix cfg' :: scanConfig and fs' sm'
      assume m': "sc_nameMapper cfg' = None"
        and c: "(cache((fs, sc_tagKey cfg, sc_fallbackTagKey cfg) \<mapsto> sm)) (fs', sc_tagKey cfg', sc_fallbackTagKey cfg') = Some sm'"
      show "fresh_structMap cfg' dl fs' = Ok sm'"
      proof (cases "(fs', sc_tagKey cfg', sc_fallbackTagKey cfg') = (fs, sc_tagKey cfg, sc_fallbackTagKey cfg)")
        case True
        with fresh_key [of cfg' cfg dl fs] m m' Ok c show ?thesis by simp
      next
        case False
        with assms(1) c m' show ?thesis by (auto simp: cache_ok_def split: if_splits)
      qed
    qed
    with False Ok assms show ?thesis by (auto simp: structMapOf_def Let_def split: if_splits)
  qed (use False assms in \<open>auto simp: structMapOf_def Let_def split: if_splits\<close>)
qed

lemma cached_runs:
  "cache_ok dl cache \<Longrightarrow>
     fst (run_steps (\<lambda>(cfg, fs). structMapOf cfg dl fs) calls cache) = map (\<lambda>(cfg, fs). fresh_structMap cfg dl fs) calls"
proof (induction calls arbitrary: cache)
  case (Cons call calls)
  obtain r cache' where s: "structMapOf (fst call) dl (snd call) cache = (r, cache')" by fastforce
  with structMapOf_cached [OF Cons.prems s] Cons.IH [of cache'] show ?case
    by (cases call) (auto split: prod.splits)
qed simp

text \<open>
  C25. The cache of struct maps is transparent: over any sequence of requests, for any struct types, tag keys and name mappers in
  any order, every request gets the map that a walk over its own type with its own configuration would give.
\<close>

theorem struct_cache_transparent:
  "fst (run_steps (\<lambda>(cfg, fs). structMapOf cfg dl fs) calls Map.empty) = map (\<lambda>(cfg, fs). fresh_structMap cfg dl fs) calls"
  by (rule cached_runs) (simp add: cache_ok_def)

section \<open>Names\<close>

lemma lower_char_fixed: "\<not> is_upper c \<Longrightarrow> lower_char c = c"
  by (auto simp: is_upper_def)

lemma lower_char_code: "is_upper c \<Longrightarrow> code (lower_char c) = code c + 32"
  by (simp add: is_upper_def)

lemma lower_char_small: "\<not> is_upper (lower_char c)"
proof (cases "is_upper c")
  case True
  then have "65 \<le> code c" by (simp add: is_upper_def)
  with lower_char_code [OF True] show ?thesis by (simp add: is_upper_def del: lower_char.simps)
qed (simp add: lower_char_fixed del: lower_char.simps)

lemma underscore_small: "\<not> is_upper CHR ''_''"
  by (simp add: is_upper_def code_def)

lemma lower_underscore: "is_upper c \<Longrightarrow> c \<noteq> CHR ''_'' \<and> lower_char c \<noteq> CHR ''_''"
proof
  assume c: "is_upper c"
  then show "c \<noteq> CHR ''_''" using underscore_small by blast
  from c have "code (lower_char c) \<noteq> code CHR ''_''"
    unfolding lower_char_code [OF c] by (simp add: is_upper_def) (simp add: code_def)
  then show "lower_char c \<noteq> CHR ''_''" by metis
qed

lemma snake_letters: "filter (\<lambda>c. c \<noteq> CHR ''_'') (snake_from prev s) = map lower_char (filter (\<lambda>c. c \<noteq> CHR ''_'') s)"
proof (induction prev s rule: snake_from.induct)
  case (2 prev r rs)
  then show ?case
    by (cases "is_upper r"; cases "r = CHR ''_''") (simp_all add: Let_def lower_underscore underscore_small lower_char_fixed del: lower_char.simps)
qed simp

lemma snake_small: "list_all (\<lambda>c. \<not> is_upper c) (snake_from prev s)"
proof (induction prev s rule: snake_from.induct)
  case (2 prev r rs)
  then show ?case
    by (cases "is_upper r") (simp_all add: Let_def lower_char_small underscore_small del: lower_char.simps)
qed simp

lemma snake_fixed: "list_all (\<lambda>c. \<not> is_upper c) s \<Longrightarrow> snake_from prev s = s"
  by (induction prev s rule: snake_from.induct) simp_all

text \<open>
  The snake-case mapper only inserts underscores and lowers letters: without underscores, the column name is the lowered field
  name; it has no capitals, and mapping it again changes nothing.
\<close>

lemma snake_case:
  "filter (\<lambda>c. c \<noteq> CHR ''_'') (NameMapperSnake s) = ToLower (filter (\<lambda>c. c \<noteq> CHR ''_'') s)
   \<and> list_all (\<lambda>c. \<not> is_upper c) (NameMapperSnake s)
   \<and> NameMapperSnake (NameMapperSnake s) = NameMapperSnake s"
  unfolding NameMapperSnake_def ToLower_def using snake_letters snake_fixed snake_small by blast

section \<open>Texts and times\<close>

lemma itoa_trimmed [simp]: "TrimSpace (itoa i) = itoa i"
  using itoa_text [of i] token_text_ends [of "itoa i"] by (intro TrimSpace_graphic) simp_all

lemma itoa_not_now [simp]: "\<not> HasPrefix (itoa i) ''now''"
proof -
  let ?ds = "nat_digits (nat (abs i))"
  have d: "is_digit (hd ?ds)" using nat_digits_digits [of "nat (abs i)"] by simp
  have "hd (itoa i) \<noteq> CHR ''n''"
    using d by (auto simp: itoa_def is_digit_def code_def)
  then show ?thesis by (cases "itoa i") (simp_all add: HasPrefix_def)
qed

lemma epoch_cases:
  assumes "epoch_factor u = Some k"
  obtains "u = ''s''" "k = 1000000000" | "u = ''ms''" "k = 1000000" | "u = ''us''" "k = 1000" | "u = ''ns''" "k = 1"
  using assms by (auto simp: epoch_factor_def split: if_splits)

lemma epoch_layouts: "epoch_factor u = Some k \<Longrightarrow> GetTimeformat u = u"
  by (erule epoch_cases; simp only: GetTimeformat_def; code_simp)

lemma text_int64_itoa:
  "- (2 ^ 63) \<le> i \<Longrightarrow> i < 2 ^ 63 \<Longrightarrow> ToInt64 cl (CVal (VString (itoa i))) = Ok (of_int i)"
  by (simp add: text_int64_def ParseInt_itoa)

lemma text_uint64_itoa: "ToUint64 cl (CVal (VString (itoa (uint w)))) = Ok w" for w :: u64
  using nat_digits_ParseUint [of "unat w"] unat_goint_less [of w] by (simp add: text_uint64_def itoa_def)

lemma ucast_of_int: "LENGTH('b) \<le> 64 \<Longrightarrow> ucast (of_int i :: u64) = (of_int i :: 'b::len word)"
  by transfer (simp add: min_def)

lemma itoa_not_null [simp]: "or_null (CVal (VString (itoa i))) r = r"
  by (simp add: or_null_def)

lemma sint_of_int64: "- (2 ^ 63) \<le> i \<Longrightarrow> i < 2 ^ 63 \<Longrightarrow> sint (of_int i :: u64) = i"
  by (simp add: signed_take_bit_int_eq_self sint_sbintrunc')

lemma epoch_range:
  assumes "epoch_factor u = Some k" and "- (2 ^ 63) \<le> i * sint k" and "i * sint k < 2 ^ 63"
  shows "- (2 ^ 63) \<le> i \<and> i < 2 ^ 63"
  using assms(1)
  by (rule epoch_cases) (use assms(2,3) in simp_all)

lemma epochValue_factor:
  assumes "epoch_factor u = Some k" and "sint t = i * sint k"
  shows "epochValue t u = of_int i"
  using assms(1)
proof (rule epoch_cases)
  assume "u = ''ns''" "k = 1"
  with assms(2) have "sint t = i" by simp
  then have "t = of_int i" using of_int_sint [of t] by (metis scast_id)
  with \<open>u = ''ns''\<close> show ?thesis by (simp add: epochValue_def)
qed (use assms(2) in \<open>simp_all add: epochValue_def\<close>)

lemma epoch_units:
  assumes "epoch_factor u = Some k"
  shows "normalizeEpochUnit u = Some u \<and> u \<noteq> []"
  using assms by (rule epoch_cases; simp add: normalizeEpochUnit_def ToLower_def code_def)

lemma ParseTime_epoch:
  assumes "epoch_factor u = Some k" and "- (2 ^ 63) \<le> i * sint k" and "i * sint k < 2 ^ 63"
  shows "ParseTime cl (itoa i) u loc = Ok (of_int (i * sint k)) \<and> sint (of_int (i * sint k) :: u64) = i * sint k"
proof
  have "of_int i * k = of_int (i * sint k)" by simp
  with assms(1) epoch_range [OF assms] epoch_layouts [OF assms(1)] epoch_units [OF assms(1)] text_int64_itoa [of i cl]
  show "ParseTime cl (itoa i) u loc = Ok (of_int (i * sint k))"
    by (simp add: ParseTime_def or_error_def del: ToInt64.simps)
  from assms(2,3) show "sint (of_int (i * sint k) :: u64) = i * sint k" by (rule sint_of_int64)
qed

text \<open>
  C28. Epoch times survive the texts of a DATETIME column: in each of the units s, ms, us and ns, the text of a number whose
  nanoseconds fit the 64 bits is read as the instant of that many units, and a field of that unit gets the number and the text back.
\<close>

theorem epoch_roundtrip:
  assumes "epoch_factor u = Some k" and "- (2 ^ 63) \<le> i * sint k" and "i * sint k < 2 ^ 63"
  shows "\<exists>t. sint t = i * sint k
    \<and> DataType_Apply cl DataTypeDatetime (CVal (VString (itoa i))) u zone = Ok (CVal (VTime t))
    \<and> time_apply L \<lparr>tf_timeformat = u, tf_tz = tz, tf_postProcessOnly = p\<rparr> cfg TInt64 (GvPrim (VTime t)) = Ok (GvPrim (VInt64 (of_int i)))
    \<and> time_apply L \<lparr>tf_timeformat = u, tf_tz = tz, tf_postProcessOnly = p\<rparr> cfg TString (GvPrim (VTime t)) = Ok (GvPrim (VString (itoa i)))"
proof -
  let ?t = "of_int (i * sint k) :: u64"
  have t: "sint ?t = i * sint k" using ParseTime_epoch [OF assms] by blast
  have v: "epochValue ?t u = of_int i" by (rule epochValue_factor [OF assms(1) t])
  have i: "sint (of_int i :: u64) = i" using epoch_range [OF assms] sint_of_int64 by blast
  note u = epoch_units [OF assms(1)]
  have "DataType_Apply cl DataTypeDatetime (CVal (VString (itoa i))) u zone = Ok (CVal (VTime ?t))"
    using ParseTime_epoch [OF assms] u by (simp add: DataType_Apply_def as_def del: of_int_mult)
  moreover have "time_text L \<lparr>tf_timeformat = u, tf_tz = tz, tf_postProcessOnly = p\<rparr> cfg ?t = itoa i"
    using u v i by (simp add: time_text_def del: of_int_mult)
  ultimately show ?thesis
    using t u v by (intro exI [of _ ?t])
      (simp add: time_apply_def time_value_def elem_type_def epoch_unit_def null_string_types_def del: of_int_mult)
qed

theorem epoch_roundtrip_witness:
  "\<forall>cl zone L cfg. \<exists>t. sint t = - 1500 * sint (1000000 :: goint)
    \<and> DataType_Apply cl DataTypeDatetime (CVal (VString (itoa (- 1500)))) ''ms'' zone = Ok (CVal (VTime t))
    \<and> time_apply L \<lparr>tf_timeformat = ''ms'', tf_tz = None, tf_postProcessOnly = False\<rparr> cfg TString (GvPrim (VTime t)) = Ok (GvPrim (VString (itoa (- 1500))))"
proof (intro allI)
  fix cl zone L and cfg :: scanConfig
  have "epoch_factor ''ms'' = Some 1000000" "- (2 ^ 63) \<le> - 1500 * sint (1000000 :: goint)" "- 1500 * sint (1000000 :: goint) < 2 ^ 63"
    by (simp_all add: epoch_factor_def)
  from epoch_roundtrip [OF this, of cl zone L None False cfg] show "\<exists>t. sint t = - 1500 * sint (1000000 :: goint)
    \<and> DataType_Apply cl DataTypeDatetime (CVal (VString (itoa (- 1500)))) ''ms'' zone = Ok (CVal (VTime t))
    \<and> time_apply L \<lparr>tf_timeformat = ''ms'', tf_tz = None, tf_postProcessOnly = False\<rparr> cfg TString (GvPrim (VTime t)) = Ok (GvPrim (VString (itoa (- 1500))))"
    by blast
qed


text \<open>
  The types \<^verbatim>\<open>DataTypeOf\<close> gives to unsigned values are none of those \<^verbatim>\<open>Apply\<close> knows, whose unsigned cases are column types
  only: it refuses every value for them.
\<close>

lemma apply_unsigned:
  "DataTypeOf (AVal (GPrim (VUint16 w2))) = DataTypeUInt16 \<and> DataTypeOf (AVal (GPrim (VUint32 w4))) = DataTypeUInt32
   \<and> DataTypeOf (AVal (GPrim (VUint64 w8))) = DataTypeUInt64
   \<and> map (\<lambda>typ. DataType_Apply cl typ v tf z) [DataTypeUInt16, DataTypeUInt32, DataTypeUInt64]
      = replicate 3 (Err (PlainErr ''unsupported column type''))"
  by (simp add: DataType_Apply_def numeral_eq_Suc)

text \<open>A negative duration of no whole day loses its sign, since its days are zero and not negative.\<close>

lemma duration_sign: "ParseDuration cl (''-0d'' @ s) = ParseDuration cl (''0d'' @ s)"
proof -
  have "nat_digits 0 = ''0''" by code_simp
  then have "ParseUint ''0'' = Ok 0" using nat_digits_ParseUint [of 0] by simp
  then have "ParseInt ''-0'' = Ok 0" "ParseInt ''0'' = Ok 0" by (simp_all add: ParseInt_def)
  moreover have "IndexByte (''-0d'' @ s) CHR ''d'' = Some 2" "IndexByte (''0d'' @ s) CHR ''d'' = Some 1"
    by (simp_all add: IndexByte_def Index.simps HasPrefix_def)
  ultimately show ?thesis by (simp add: ParseDuration_def)
qed

end
