(* ===== verification/Struct_Scan.thy ===== *)
theory Struct_Scan
  imports Struct_Fields Driver_Rows "HOL-Library.AList" "HOL-Library.Char_ord" "HOL-Library.List_Lexorder"
begin

text \<open>
  \<^verbatim>\<open>scanstruct.go\<close> and \<^verbatim>\<open>named.go\<close>: rows scanned into structs, maps and scalars, one by one or all of them, and named
  arguments taken from structs and maps. The rows are an implementation of \<^verbatim>\<open>RowsScanner\<close>, whose conversion into a typed
  variable is the parameter \<open>st_assign\<close>; the cache of struct maps is passed along.
\<close>

section \<open>Values and rows\<close>

text \<open>The value of a variable: a scalar, a map with string keys, a struct by its fields, or a pointer to one of them.\<close>

datatype sval =
    SvLeaf gv
  | SvMap "(string \<times> gv) list"
  | SvStruct "sval list"
  | SvPtr sval

definition zero_leaf :: "gotype \<Rightarrow> gv" where
  "zero_leaf t =
     (case t of
        TPtr u \<Rightarrow> GvNilPtr u
      | TNull u \<Rightarrow> GvNull t False (zero_value u)
      | _ \<Rightarrow> if t \<in> set null_wrappers then GvNull t False (zero_value (wrapped_type t)) else zero_value t)"

lemma sf_type_smaller [termination_simp]: "f \<in> set fs \<Longrightarrow> size (sf_type f) < Suc (size_list size fs)"
proof -
  assume "f \<in> set fs"
  then have "size f \<le> size_list size fs" by (simp add: size_list_estimation')
  moreover have "size (sf_type f) < size f" by (cases f) simp
  ultimately show ?thesis by linarith
qed

fun zero_sval :: "stype \<Rightarrow> sval" where
  "zero_sval (SLeaf t) = SvLeaf (zero_leaf t)"
| "zero_sval SMapAny = SvMap []"
| "zero_sval (SStruct fs) = SvStruct (map (\<lambda>f. zero_sval (sf_type f)) fs)"

text \<open>\<^verbatim>\<open>FieldByIndex\<close>, to read and to write.\<close>

fun get_path :: "nat list \<Rightarrow> sval \<Rightarrow> sval option" where
  "get_path [] v = Some v"
| "get_path (i # p) (SvStruct vs) = (if i < length vs then get_path p (vs ! i) else None)"
| "get_path (i # p) v = None"

fun set_path :: "nat list \<Rightarrow> gv \<Rightarrow> sval \<Rightarrow> sval" where
  "set_path [] w v = SvLeaf w"
| "set_path (i # p) w (SvStruct vs) = (if i < length vs then SvStruct (vs[i := set_path p w (vs ! i)]) else SvStruct vs)"
| "set_path (i # p) w v = v"

definition leaf_type :: "stype \<Rightarrow> gotype" where
  "leaf_type s = (case s of SLeaf t \<Rightarrow> t | _ \<Rightarrow> TNamed ''map[string]any'')"

definition path_type :: "stype \<Rightarrow> nat list \<Rightarrow> gotype" where
  "path_type s p =
     (case s of
        SStruct fs \<Rightarrow> (case field_at fs p of Some f \<Rightarrow> leaf_type (sf_type f) | None \<Rightarrow> TAny)
      | _ \<Rightarrow> leaf_type s)"

text \<open>
  \<^verbatim>\<open>RowsScanner\<close>: the columns, the scan types of the columns as far as they are known, the rows to come, the current row, the
  error that ends the iteration and the one reported so far.
\<close>

record RowsScanner =
  sn_columns :: "string list outcome"
  sn_columnTypes :: "gotype option list outcome"
  sn_rest :: "gv list list"
  sn_row :: "gv list option"
  sn_end :: "gerr option"
  sn_err :: "gerr option"
  sn_closed :: bool

definition Scanner_Next :: "RowsScanner \<Rightarrow> bool \<times> RowsScanner" where
  "Scanner_Next r =
     (case sn_rest r of
        [] \<Rightarrow> (False, r\<lparr>sn_row := None, sn_err := sn_end r\<rparr>)
      | v # vs \<Rightarrow> (True, r\<lparr>sn_row := Some v, sn_rest := vs\<rparr>))"

definition Scanner_Close :: "RowsScanner \<Rightarrow> RowsScanner" where
  "Scanner_Close r = r\<lparr>sn_closed := True, sn_rest := [], sn_row := None\<rparr>"

text \<open>
  \<^verbatim>\<open>Scan\<close> of a row into variables of the given types, in order: what was stored before an error, and the error. A variable of
  type \<^verbatim>\<open>any\<close> takes the value as it is.
\<close>

definition assign_any :: "struct_lib \<Rightarrow> gotype \<Rightarrow> gv \<Rightarrow> gv outcome" where
  "assign_any L t v = (if t = TAny then Ok v else st_assign L v t)"

fun scan_dests :: "struct_lib \<Rightarrow> gotype list \<Rightarrow> gv list \<Rightarrow> gv list \<times> unit outcome" where
  "scan_dests L (t # ts) (v # vs) =
     (case assign_any L t v of
        Ok w \<Rightarrow> (case scan_dests L ts vs of (ws, r) \<Rightarrow> (w # ws, r))
      | Err e \<Rightarrow> ([], Err e)
      | Panic m \<Rightarrow> ([], Panic m))"
| "scan_dests L ts vs = ([], Ok ())"

definition Scanner_Scan :: "struct_lib \<Rightarrow> RowsScanner \<Rightarrow> gotype list \<Rightarrow> gv list \<times> unit outcome" where
  "Scanner_Scan L r dests =
     (case sn_row r of
        None \<Rightarrow> ([], Err (PlainErr ''sql: Scan called without calling Next''))
      | Some vs \<Rightarrow>
          if length dests \<noteq> length vs then ([], Err (PlainErr ''sql: expected destination arguments in Scan''))
          else scan_dests L dests vs)"

section \<open>Plans\<close>

datatype planMode = planStruct | planScalar | planMap

record scanPlan =
  pl_cfg :: scanConfig
  pl_cols :: "string list"
  pl_mode :: planMode
  pl_fields :: "fieldInfo option list"
  pl_timeOpts :: "timeFieldOpts option list"
  pl_hasTimeOpts :: bool

definition columnTypesOf :: "RowsScanner \<Rightarrow> gotype option list" where
  "columnTypesOf r = (case sn_columnTypes r of Ok cts \<Rightarrow> cts | _ \<Rightarrow> [])"

definition isConfirmedNonDateTime :: "gotype option \<Rightarrow> bool" where
  "isConfirmedNonDateTime ct = (case ct of None \<Rightarrow> False | Some st \<Rightarrow> st \<noteq> TAny \<and> st \<noteq> TTime)"

definition column_type :: "gotype option list \<Rightarrow> nat \<Rightarrow> gotype option" where
  "column_type cts i = (if i < length cts then cts ! i else None)"

text \<open>The field and the time options of one column.\<close>

definition bind_one_column ::
  "scanConfig \<Rightarrow> structMap \<Rightarrow> gotype option \<Rightarrow> string \<Rightarrow> (fieldInfo option \<times> timeFieldOpts option) outcome" where
  "bind_one_column cfg sm ct col =
     (case structMap_lookup sm col of
        None \<Rightarrow> if \<not> sc_laxColumns cfg then Err ErrScanNoMatchedField else Ok (None, None)
      | Some field \<Rightarrow>
          (case fi_time field of
             None \<Rightarrow> Ok (Some field, None)
           | Some opts \<Rightarrow>
               if isConfirmedNonDateTime ct then
                 if tf_timeformat opts \<noteq> [] \<or> tf_tz opts \<noteq> None then Err ErrScanInvalidTagOption else Ok (Some field, None)
               else Ok (Some field, Some opts)))"

fun bind_all_columns ::
  "scanConfig \<Rightarrow> structMap \<Rightarrow> gotype option list \<Rightarrow> string list \<Rightarrow> nat \<Rightarrow> string list
     \<Rightarrow> (fieldInfo option \<times> timeFieldOpts option) list outcome" where
  "bind_all_columns cfg sm cts seen i [] = Ok []"
| "bind_all_columns cfg sm cts seen i (col # cols) =
     (if ToLower col \<in> set seen then Err ErrScanDuplicateColumn
      else
        bind_outcome (bind_one_column cfg sm (column_type cts i) col) (\<lambda>b.
        bind_outcome (bind_all_columns cfg sm cts (ToLower col # seen) (i + 1) cols) (\<lambda>bs. Ok (b # bs))))"

definition matched :: "fieldInfo option list \<Rightarrow> fieldInfo \<Rightarrow> bool" where
  "matched bound f \<longleftrightarrow> list_ex (\<lambda>b. case b of Some g \<Rightarrow> ToLower (fi_name g) = ToLower (fi_name f) | None \<Rightarrow> False) bound"

definition bindStruct ::
  "scanPlan \<Rightarrow> dsn_lib \<Rightarrow> sfield list \<Rightarrow> gotype option list \<Rightarrow> structMapCache \<Rightarrow> scanPlan outcome \<times> structMapCache" where
  "bindStruct plan dl fs cts cache =
     (case structMapOf (pl_cfg plan) dl fs cache of (r, cache') \<Rightarrow>
        (bind_outcome r (\<lambda>sm.
         bind_outcome (bind_all_columns (pl_cfg plan) sm cts [] 0 (pl_cols plan)) (\<lambda>bs.
         if \<not> sc_laxFields (pl_cfg plan) \<and> \<not> list_all (matched (map fst bs)) (sm_fields sm) then Err ErrScanNoMatchedColumn
         else
           Ok (plan\<lparr>pl_fields := map fst bs, pl_timeOpts := map snd bs,
                    pl_hasTimeOpts := list_ex (\<lambda>b. snd b \<noteq> None) bs\<rparr>))), cache'))"

fun seen_twice :: "string list \<Rightarrow> string list \<Rightarrow> bool" where
  "seen_twice seen [] = False"
| "seen_twice seen (col # cols) = (ToLower col \<in> set seen \<or> seen_twice (ToLower col # seen) cols)"

definition newScanPlan ::
  "dsn_lib \<Rightarrow> RowsScanner \<Rightarrow> scanConfig \<Rightarrow> string list \<Rightarrow> stype \<Rightarrow> structMapCache \<Rightarrow> scanPlan outcome \<times> structMapCache" where
  "newScanPlan dl r cfg cols t cache =
     (case sc_optErr cfg of
        Some e \<Rightarrow> (Err e, cache)
      | None \<Rightarrow>
          let plan = \<lparr>pl_cfg = cfg, pl_cols = cols, pl_mode = planStruct, pl_fields = [], pl_timeOpts = [], pl_hasTimeOpts = False\<rparr>
          in (case t of
                SMapAny \<Rightarrow>
                  (if seen_twice [] cols then Err ErrScanDuplicateColumn else Ok (plan\<lparr>pl_mode := planMap\<rparr>), cache)
              | SStruct fs \<Rightarrow> bindStruct (plan\<lparr>pl_mode := planStruct\<rparr>) dl fs (columnTypesOf r) cache
              | SLeaf ft \<Rightarrow>
                  (if length cols \<noteq> 1 then Err (PlainErr ''machbase: cannot scan columns'')
                   else
                     bind_outcome (parseTimeFieldOpts dl [] ft) (\<lambda>opts.
                     let opts = (if opts \<noteq> None \<and> isConfirmedNonDateTime (column_type (columnTypesOf r) 0) then None else opts)
                     in Ok (plan\<lparr>pl_mode := planScalar, pl_timeOpts := [opts], pl_hasTimeOpts := opts \<noteq> None\<rparr>)), cache)))"

definition newRowReader :: "dsn_lib \<Rightarrow> RowsScanner \<Rightarrow> scanConfig \<Rightarrow> stype \<Rightarrow> structMapCache \<Rightarrow> scanPlan outcome \<times> structMapCache" where
  "newRowReader dl r cfg t cache =
     (case sn_columns r of
        Ok cols \<Rightarrow> newScanPlan dl r cfg cols t cache
      | Err e \<Rightarrow> (Err e, cache)
      | Panic m \<Rightarrow> (Panic m, cache))"

section \<open>Rows into values\<close>

text \<open>A column bound to a field, with the options it has when its value goes through \<^verbatim>\<open>apply\<close>.\<close>

type_synonym binding = "fieldInfo option \<times> timeFieldOpts option"

definition via_any :: "timeFieldOpts option \<Rightarrow> bool" where
  "via_any opts = (case opts of Some opt \<Rightarrow> \<not> tf_postProcessOnly opt | None \<Rightarrow> False)"

definition column_dest :: "stype \<Rightarrow> binding \<Rightarrow> gotype" where
  "column_dest t b =
     (case b of
        (None, _) \<Rightarrow> TAny
      | (Some field, opts) \<Rightarrow> if via_any opts then TAny else path_type t (fi_index field))"

definition store_column :: "binding \<times> gv \<Rightarrow> sval \<Rightarrow> sval" where
  "store_column bw v =
     (case bw of
        ((Some field, opts), w) \<Rightarrow> if via_any opts then v else set_path (fi_index field) w v
      | _ \<Rightarrow> v)"

fun apply_times :: "struct_lib \<Rightarrow> scanConfig \<Rightarrow> stype \<Rightarrow> (binding \<times> gv) list \<Rightarrow> sval \<Rightarrow> sval \<times> unit outcome" where
  "apply_times L cfg t [] v = (v, Ok ())"
| "apply_times L cfg t (((field, opts), w) # bws) v =
     (case opts of
        None \<Rightarrow> apply_times L cfg t bws v
      | Some opt \<Rightarrow>
          (case field of
             None \<Rightarrow> (v, nil_deref)
           | Some f \<Rightarrow>
               if tf_postProcessOnly opt then apply_times L cfg t bws v
               else
                 (case time_apply L opt cfg (path_type t (fi_index f)) w of
                    Ok x \<Rightarrow> apply_times L cfg t bws (set_path (fi_index f) x v)
                  | Err e \<Rightarrow> (v, Err e)
                  | Panic m \<Rightarrow> (v, Panic m))))"

definition scan_map :: "struct_lib \<Rightarrow> scanPlan \<Rightarrow> RowsScanner \<Rightarrow> sval \<Rightarrow> sval \<times> unit outcome" where
  "scan_map L plan r v =
     (case Scanner_Scan L r (replicate (length (pl_cols plan)) TAny) of
        (values, Ok _) \<Rightarrow> (SvMap (fold (\<lambda>(col, x) m. AList.update col x m) (zip (pl_cols plan) values) []), Ok ())
      | (_, r) \<Rightarrow> (v, r))"

definition scan_scalar :: "struct_lib \<Rightarrow> scanPlan \<Rightarrow> stype \<Rightarrow> RowsScanner \<Rightarrow> sval \<Rightarrow> sval \<times> unit outcome" where
  "scan_scalar L plan t r v =
     (let opts = hd (pl_timeOpts plan)
      in case Scanner_Scan L r [if via_any opts then TAny else leaf_type t] of
           (ws, Ok _) \<Rightarrow>
             (case opts of
                Some opt \<Rightarrow>
                  if tf_postProcessOnly opt then (SvLeaf (hd ws), Ok ())
                  else
                    (case time_apply L opt (pl_cfg plan) (leaf_type t) (hd ws) of
                       Ok x \<Rightarrow> (SvLeaf x, Ok ())
                     | Err e \<Rightarrow> (v, Err e)
                     | Panic m \<Rightarrow> (v, Panic m))
              | None \<Rightarrow> (SvLeaf (hd ws), Ok ()))
         | (_, r) \<Rightarrow> (v, r))"

definition scan_struct :: "struct_lib \<Rightarrow> scanPlan \<Rightarrow> stype \<Rightarrow> RowsScanner \<Rightarrow> sval \<Rightarrow> sval \<times> unit outcome" where
  "scan_struct L plan t r v =
     (let bs = zip (pl_fields plan) (pl_timeOpts plan)
      in case Scanner_Scan L r (map (column_dest t) bs) of
           (ws, res) \<Rightarrow>
             let v1 = fold store_column (zip bs ws) v
             in (case res of
                   Ok _ \<Rightarrow> if pl_hasTimeOpts plan then apply_times L (pl_cfg plan) t (zip bs ws) v1 else (v1, Ok ())
                 | _ \<Rightarrow> (v1, res)))"

definition scanValue :: "struct_lib \<Rightarrow> scanPlan \<Rightarrow> stype \<Rightarrow> RowsScanner \<Rightarrow> sval \<Rightarrow> sval \<times> unit outcome" where
  "scanValue L plan t r v =
     (case pl_mode plan of
        planMap \<Rightarrow> scan_map L plan r v
      | planScalar \<Rightarrow> scan_scalar L plan t r v
      | planStruct \<Rightarrow> scan_struct L plan t r v)"

section \<open>Destinations\<close>

datatype 'a dest = DNil | DValue | DNilPtr | DPtr 'a

fun derefDest :: "'a dest \<Rightarrow> 'a outcome" where
  "derefDest (DPtr v) = Ok v"
| "derefDest d = Err ErrScanDestNotPointer"

text \<open>The variable of the caller afterwards, the error, and the rows.\<close>

definition ScanStruct ::
  "struct_lib \<Rightarrow> ScanOption list \<Rightarrow> (stype \<times> sval) dest \<Rightarrow> RowsScanner \<Rightarrow> structMapCache
     \<Rightarrow> (stype \<times> sval) dest \<times> unit outcome \<times> structMapCache" where
  "ScanStruct L opts dest r cache =
     (case derefDest dest of
        Ok (t, v) \<Rightarrow>
          (case newRowReader (st_dsn L) r (newScanConfig opts) t cache of
             (Ok plan, cache) \<Rightarrow> (case scanValue L plan t r v of (v', res) \<Rightarrow> (DPtr (t, v'), res, cache))
           | (Err e, cache) \<Rightarrow> (dest, Err e, cache)
           | (Panic m, cache) \<Rightarrow> (dest, Panic m, cache))
      | Err e \<Rightarrow> (dest, Err e, cache)
      | Panic m \<Rightarrow> (dest, Panic m, cache))"

definition err_outcome :: "gerr option \<Rightarrow> unit outcome" where
  "err_outcome e = (case e of None \<Rightarrow> Ok () | Some e \<Rightarrow> Err e)"

definition ScanRow ::
  "struct_lib \<Rightarrow> ScanOption list \<Rightarrow> (stype \<times> sval) dest \<Rightarrow> RowsScanner \<Rightarrow> structMapCache
     \<Rightarrow> (stype \<times> sval) dest \<times> unit outcome \<times> RowsScanner \<times> structMapCache" where
  "ScanRow L opts dest r cache =
     (case derefDest dest of
        Ok (t, v) \<Rightarrow>
          (case newRowReader (st_dsn L) r (newScanConfig opts) t cache of
             (Ok plan, cache) \<Rightarrow>
               (case Scanner_Next r of
                  (False, r) \<Rightarrow> (dest, (case sn_err r of Some e \<Rightarrow> Err e | None \<Rightarrow> Err ErrNoRows), r, cache)
                | (True, r) \<Rightarrow>
                    (case scanValue L plan t r v of
                       (v', Ok _) \<Rightarrow> (DPtr (t, v'), err_outcome (sn_err r), r, cache)
                     | (v', res) \<Rightarrow> (DPtr (t, v'), res, r, cache)))
           | (Err e, cache) \<Rightarrow> (dest, Err e, r, cache)
           | (Panic m, cache) \<Rightarrow> (dest, Panic m, r, cache))
      | Err e \<Rightarrow> (dest, Err e, r, cache)
      | Panic m \<Rightarrow> (dest, Panic m, r, cache))"

section \<open>Readers of a type\<close>

text \<open>The type of an element: itself, or a pointer to it.\<close>

datatype ttype = TyVal stype | TyPtr stype

fun elem_base :: "ttype \<Rightarrow> bool \<times> stype" where
  "elem_base (TyPtr s) = (True, s)"
| "elem_base (TyVal (SLeaf (TPtr u))) = (True, SLeaf u)"
| "elem_base (TyVal s) = (False, s)"

record typedReader =
  tr_plan :: scanPlan
  tr_base :: stype
  tr_isPtr :: bool

definition newTypedReader :: "dsn_lib \<Rightarrow> RowsScanner \<Rightarrow> scanConfig \<Rightarrow> ttype \<Rightarrow> structMapCache \<Rightarrow> typedReader outcome \<times> structMapCache" where
  "newTypedReader dl r cfg T cache =
     (case elem_base T of (isPtr, base) \<Rightarrow>
        (case newRowReader dl r cfg base cache of (res, cache) \<Rightarrow>
           (bind_outcome res (\<lambda>plan. Ok \<lparr>tr_plan = plan, tr_base = base, tr_isPtr = isPtr\<rparr>), cache)))"

text \<open>A new element filled from the current row.\<close>

definition new_item :: "struct_lib \<Rightarrow> typedReader \<Rightarrow> RowsScanner \<Rightarrow> sval outcome" where
  "new_item L tr r =
     (case scanValue L (tr_plan tr) (tr_base tr) r (zero_sval (tr_base tr)) of
        (item, Ok _) \<Rightarrow> Ok (if tr_isPtr tr then SvPtr item else item)
      | (item, Err e) \<Rightarrow> Err e
      | (item, Panic m) \<Rightarrow> Panic m)"

definition typedReader_next :: "struct_lib \<Rightarrow> typedReader \<Rightarrow> RowsScanner \<Rightarrow> sval option outcome \<times> RowsScanner" where
  "typedReader_next L tr r =
     (case Scanner_Next r of
        (False, r) \<Rightarrow> ((case sn_err r of Some e \<Rightarrow> Err e | None \<Rightarrow> Ok None), r)
      | (True, r) \<Rightarrow> (bind_outcome (new_item L tr r) (\<lambda>item. Ok (Some item)), r))"

lemma Scanner_Next_smaller: "Scanner_Next r = (True, r') \<Longrightarrow> length (sn_rest r') < length (sn_rest r)"
  by (auto simp: Scanner_Next_def split: list.splits)

definition tooManyRowsError :: "int \<Rightarrow> gerr" where
  "tooManyRowsError limit = ErrScanTooManyRows"

section \<open>All rows\<close>

text \<open>\<^verbatim>\<open>ScanRows\<close> counts before it scans; \<^verbatim>\<open>ScanAll\<close> checks the length after it has appended.\<close>

function scan_rows_loop :: "struct_lib \<Rightarrow> scanConfig \<Rightarrow> typedReader \<Rightarrow> int \<Rightarrow> sval list \<Rightarrow> RowsScanner \<Rightarrow> sval list outcome \<times> RowsScanner" where
  "scan_rows_loop L cfg tr count out r =
     (case Scanner_Next r of
        (False, r') \<Rightarrow> ((case sn_err r' of Some e \<Rightarrow> Err e | None \<Rightarrow> Ok out), r')
      | (True, r') \<Rightarrow>
          if sc_maxRows cfg > 0 \<and> count + 1 > sc_maxRows cfg then (Err (tooManyRowsError (sc_maxRows cfg)), r')
          else
            (case new_item L tr r' of
               Ok item \<Rightarrow> scan_rows_loop L cfg tr (count + 1) (out @ [item]) r'
             | Err e \<Rightarrow> (Err e, r')
             | Panic m \<Rightarrow> (Panic m, r')))"
  by pat_completeness auto
termination
  by (relation "measure (\<lambda>(L, cfg, tr, count, out, r). length (sn_rest r))") (auto simp: Scanner_Next_smaller)

datatype slice_dest = NotSlice | SliceOf ttype "sval list"

definition ScanRows ::
  "struct_lib \<Rightarrow> ScanOption list \<Rightarrow> slice_dest dest \<Rightarrow> RowsScanner \<Rightarrow> structMapCache
     \<Rightarrow> slice_dest dest \<times> unit outcome \<times> RowsScanner \<times> structMapCache" where
  "ScanRows L opts dest r cache =
     (case derefDest dest of
        Ok NotSlice \<Rightarrow> (dest, Err (PlainErr ''machbase: scan destination must be a pointer to a slice''), r, cache)
      | Ok (SliceOf T old) \<Rightarrow>
          let cfg = newScanConfig opts
          in (case newTypedReader (st_dsn L) r cfg T cache of
                (Ok tr, cache) \<Rightarrow>
                  (case scan_rows_loop L cfg tr 0 [] r of
                     (Ok out, r) \<Rightarrow> (DPtr (SliceOf T out), Ok (), r, cache)
                   | (Err e, r) \<Rightarrow> (dest, Err e, r, cache)
                   | (Panic m, r) \<Rightarrow> (dest, Panic m, r, cache))
              | (Err e, cache) \<Rightarrow> (dest, Err e, r, cache)
              | (Panic m, cache) \<Rightarrow> (dest, Panic m, r, cache))
      | Err e \<Rightarrow> (dest, Err e, r, cache)
      | Panic m \<Rightarrow> (dest, Panic m, r, cache))"

definition ScanOne :: "struct_lib \<Rightarrow> ScanOption list \<Rightarrow> ttype \<Rightarrow> RowsScanner \<Rightarrow> structMapCache \<Rightarrow> sval outcome \<times> RowsScanner \<times> structMapCache" where
  "ScanOne L opts T r cache =
     (case newTypedReader (st_dsn L) r (newScanConfig opts) T cache of
        (Ok tr, cache) \<Rightarrow>
          (case typedReader_next L tr r of (res, r) \<Rightarrow>
             (bind_outcome res (\<lambda>item. case item of Some x \<Rightarrow> Ok x | None \<Rightarrow> Err ErrNoRows), r, cache))
      | (Err e, cache) \<Rightarrow> (Err e, r, cache)
      | (Panic m, cache) \<Rightarrow> (Panic m, r, cache))"

lemma typedReader_next_smaller:
  "typedReader_next L tr r = (Ok (Some item), r') \<Longrightarrow> length (sn_rest r') < length (sn_rest r)"
  by (auto simp: typedReader_next_def Scanner_Next_def outcome_simps split: list.splits option.splits)

function scan_all_loop :: "struct_lib \<Rightarrow> scanConfig \<Rightarrow> typedReader \<Rightarrow> sval list \<Rightarrow> RowsScanner \<Rightarrow> sval list outcome \<times> RowsScanner" where
  "scan_all_loop L cfg tr out r =
     (case typedReader_next L tr r of
        (Ok None, r') \<Rightarrow> (Ok out, r')
      | (Ok (Some item), r') \<Rightarrow>
          if sc_maxRows cfg > 0 \<and> int (length (out @ [item])) > sc_maxRows cfg then (Err (tooManyRowsError (sc_maxRows cfg)), r')
          else scan_all_loop L cfg tr (out @ [item]) r'
      | (Err e, r') \<Rightarrow> (Err e, r')
      | (Panic m, r') \<Rightarrow> (Panic m, r'))"
  by pat_completeness auto
termination
  by (relation "measure (\<lambda>(L, cfg, tr, out, r). length (sn_rest r))") (auto dest: typedReader_next_smaller [OF sym])

definition ScanAll ::
  "struct_lib \<Rightarrow> ScanOption list \<Rightarrow> ttype \<Rightarrow> RowsScanner \<Rightarrow> structMapCache \<Rightarrow> sval list outcome \<times> RowsScanner \<times> structMapCache" where
  "ScanAll L opts T r cache =
     (let cfg = newScanConfig opts
      in case newTypedReader (st_dsn L) r cfg T cache of
           (Ok tr, cache) \<Rightarrow> (case scan_all_loop L cfg tr [] r of (res, r) \<Rightarrow> (res, r, cache))
         | (Err e, cache) \<Rightarrow> (Err e, r, cache)
         | (Panic m, cache) \<Rightarrow> (Panic m, r, cache))"

text \<open>The function called for each row keeps a state of its own.\<close>

function scan_each_loop ::
  "struct_lib \<Rightarrow> (sval \<Rightarrow> 's \<Rightarrow> gerr option \<times> 's) \<Rightarrow> typedReader \<Rightarrow> 's \<Rightarrow> RowsScanner \<Rightarrow> unit outcome \<times> 's \<times> RowsScanner" where
  "scan_each_loop L fn tr st r =
     (case typedReader_next L tr r of
        (Ok None, r') \<Rightarrow> (Ok (), st, r')
      | (Ok (Some item), r') \<Rightarrow>
          (case fn item st of
             (Some e, st') \<Rightarrow> (Err e, st', r')
           | (None, st') \<Rightarrow> scan_each_loop L fn tr st' r')
      | (Err e, r') \<Rightarrow> (Err e, st, r')
      | (Panic m, r') \<Rightarrow> (Panic m, st, r'))"
  by pat_completeness auto
termination
  by (relation "measure (\<lambda>(L, fn, tr, st, r). length (sn_rest r))") (auto dest: typedReader_next_smaller [OF sym])

declare scan_rows_loop.simps [simp del] scan_all_loop.simps [simp del] scan_each_loop.simps [simp del]

definition ScanEach ::
  "struct_lib \<Rightarrow> ScanOption list \<Rightarrow> ttype \<Rightarrow> (sval \<Rightarrow> 's \<Rightarrow> gerr option \<times> 's) \<Rightarrow> 's \<Rightarrow> RowsScanner \<Rightarrow> structMapCache
     \<Rightarrow> unit outcome \<times> 's \<times> RowsScanner \<times> structMapCache" where
  "ScanEach L opts T fn st r cache =
     (case newTypedReader (st_dsn L) r (newScanConfig opts) T cache of
        (Ok tr, cache) \<Rightarrow> (case scan_each_loop L fn tr st r of (res, st, r) \<Rightarrow> (res, st, r, cache))
      | (Err e, cache) \<Rightarrow> (Err e, st, r, cache)
      | (Panic m, cache) \<Rightarrow> (Panic m, st, r, cache))"

section \<open>Cursors\<close>

record Cursor =
  cu_reader :: typedReader
  cu_rows :: RowsScanner
  cu_value :: "sval option"
  cu_err :: "gerr option"

definition NewCursor :: "struct_lib \<Rightarrow> ScanOption list \<Rightarrow> ttype \<Rightarrow> RowsScanner \<Rightarrow> structMapCache \<Rightarrow> Cursor outcome \<times> structMapCache" where
  "NewCursor L opts T r cache =
     (case newTypedReader (st_dsn L) r (newScanConfig opts) T cache of (res, cache) \<Rightarrow>
        (bind_outcome res (\<lambda>tr. Ok \<lparr>cu_reader = tr, cu_rows = r, cu_value = None, cu_err = None\<rparr>), cache))"

definition Cursor_Next :: "struct_lib \<Rightarrow> Cursor \<Rightarrow> bool outcome \<times> Cursor" where
  "Cursor_Next L c =
     (if cu_err c \<noteq> None then (Ok False, c)
      else
        (case typedReader_next L (cu_reader c) (cu_rows c) of
           (Err e, r) \<Rightarrow> (Ok False, c\<lparr>cu_err := Some e, cu_rows := r\<rparr>)
         | (Panic m, r) \<Rightarrow> (Panic m, c\<lparr>cu_rows := r\<rparr>)
         | (Ok None, r) \<Rightarrow> (Ok False, c\<lparr>cu_rows := r\<rparr>)
         | (Ok (Some item), r) \<Rightarrow> (Ok True, c\<lparr>cu_value := Some item, cu_rows := r\<rparr>)))"

definition Cursor_Value :: "Cursor \<Rightarrow> sval option" where
  "Cursor_Value c = cu_value c"

definition Cursor_Err :: "Cursor \<Rightarrow> gerr option" where
  "Cursor_Err c = cu_err c"

section \<open>Queries\<close>

datatype query_arg = ArgOption ScanOption | ArgValue anyval

definition splitScanOptions :: "query_arg list \<Rightarrow> anyval list \<times> ScanOption list" where
  "splitScanOptions args =
     ([v. ArgValue v \<leftarrow> args], [opt. ArgOption opt \<leftarrow> args])"

text \<open>The query is a parameter; the rows it gave, closed, come back beside the result.\<close>

definition Get ::
  "struct_lib \<Rightarrow> (string \<Rightarrow> anyval list \<Rightarrow> RowsScanner outcome) \<Rightarrow> string \<Rightarrow> query_arg list \<Rightarrow> ttype \<Rightarrow> structMapCache
     \<Rightarrow> sval outcome \<times> RowsScanner option \<times> structMapCache" where
  "Get L q query args T cache =
     (case splitScanOptions args of (queryArgs, opts) \<Rightarrow>
        (case q query queryArgs of
           Ok r \<Rightarrow> (case ScanOne L opts T r cache of (res, r, cache) \<Rightarrow> (res, Some (Scanner_Close r), cache))
         | Err e \<Rightarrow> (Err e, None, cache)
         | Panic m \<Rightarrow> (Panic m, None, cache)))"

definition Select ::
  "struct_lib \<Rightarrow> (string \<Rightarrow> anyval list \<Rightarrow> RowsScanner outcome) \<Rightarrow> string \<Rightarrow> query_arg list \<Rightarrow> ttype \<Rightarrow> structMapCache
     \<Rightarrow> sval list outcome \<times> RowsScanner option \<times> structMapCache" where
  "Select L q query args T cache =
     (case splitScanOptions args of (queryArgs, opts) \<Rightarrow>
        (case q query queryArgs of
           Ok r \<Rightarrow> (case ScanAll L opts T r cache of (res, r, cache) \<Rightarrow> (res, Some (Scanner_Close r), cache))
         | Err e \<Rightarrow> (Err e, None, cache)
         | Panic m \<Rightarrow> (Panic m, None, cache)))"

section \<open>Named arguments\<close>

datatype named_source = NsNil | NsNilPtr | NsPtr named_source | NsValue stype sval

definition nil_source :: "'a outcome" where
  "nil_source = Err (PlainErr ''machbase: named argument source must not be nil'')"

fun named_value :: "named_source \<Rightarrow> (stype \<times> sval) outcome" where
  "named_value NsNil = nil_source"
| "named_value NsNilPtr = nil_source"
| "named_value (NsPtr s) = named_value s"
| "named_value (NsValue t v) = Ok (t, v)"

fun map_args :: "sval \<Rightarrow> (string \<times> sval) list" where
  "map_args (SvMap m) = map (\<lambda>name. (name, SvLeaf (the (map_of m name)))) (sort (map fst m))"
| "map_args v = []"

fun field_args :: "fieldInfo list \<Rightarrow> sval \<Rightarrow> (string \<times> sval) list outcome" where
  "field_args [] v = Ok []"
| "field_args (f # fs) v =
     (case get_path (fi_index f) v of
        Some w \<Rightarrow> bind_outcome (field_args fs v) (\<lambda>args. Ok ((fi_name f, w) # args))
      | None \<Rightarrow> Panic ''reflect: field index out of range'')"

definition NamedArgs ::
  "dsn_lib \<Rightarrow> ScanOption list \<Rightarrow> named_source \<Rightarrow> structMapCache \<Rightarrow> (string \<times> sval) list outcome \<times> structMapCache" where
  "NamedArgs dl opts arg cache =
     (case named_value arg of
        Ok (SMapAny, v) \<Rightarrow> (Ok (map_args v), cache)
      | Ok (SStruct fs, v) \<Rightarrow>
          (case structMapOf (newScanConfig opts) dl fs cache of (r, cache) \<Rightarrow>
             (bind_outcome r (\<lambda>sm. field_args (sm_fields sm) v), cache))
      | Ok (SLeaf t, v) \<Rightarrow> (Err (PlainErr ''machbase: named argument source must be a struct or map[string]any''), cache)
      | Err e \<Rightarrow> (Err e, cache)
      | Panic m \<Rightarrow> (Panic m, cache))"

text \<open>What a pool gives for its next connection; only one of this driver is asked.\<close>

datatype raw_conn = MachbaseConn Conn | OtherConn

definition SupportsNamedParameters :: "raw_conn outcome \<Rightarrow> bool outcome" where
  "SupportsNamedParameters db =
     bind_outcome db (\<lambda>c.
     case c of
       MachbaseConn c \<Rightarrow> Ok (Conn_SupportsDatabaseMetadata c)
     | OtherConn \<Rightarrow> Err (PlainErr ''machbase: not a machbase connection''))"

end
