(* ===== verification/Struct_Rows.thy ===== *)
theory Struct_Rows
  imports Struct_Scan
begin

text \<open>
  Properties of scanning: the ways to read all rows agree, every column of a row ends up in the field of its name and nowhere
  else, and the named arguments of a struct are the columns it was scanned from.
\<close>

section \<open>The ways to read all rows\<close>

text \<open>The element that a row gives, whatever rows it is part of.\<close>

definition row_item :: "struct_lib \<Rightarrow> typedReader \<Rightarrow> gv list \<Rightarrow> sval outcome" where
  "row_item L tr v =
     new_item L tr \<lparr>sn_columns = Ok [], sn_columnTypes = Ok [], sn_rest = [], sn_row = Some v, sn_end = None, sn_err = None, sn_closed = False\<rparr>"

primrec convert_all :: "('a \<Rightarrow> 'b outcome) \<Rightarrow> 'a list \<Rightarrow> 'b list outcome" where
  "convert_all f [] = Ok []"
| "convert_all f (x # xs) = bind_outcome (f x) (\<lambda>y. bind_outcome (convert_all f xs) (\<lambda>ys. Ok (y # ys)))"

lemma convert_all_length: "convert_all f xs = Ok ys \<Longrightarrow> length ys = length xs"
  by (induction xs arbitrary: ys) (auto simp: outcome_simps)

lemma Scanner_Scan_row: "sn_row r = sn_row r' \<Longrightarrow> Scanner_Scan L r ds = Scanner_Scan L r' ds"
  by (simp add: Scanner_Scan_def)

lemma scanValue_row: "sn_row r = sn_row r' \<Longrightarrow> scanValue L plan t r v = scanValue L plan t r' v"
  using Scanner_Scan_row [of r r'] by (cases "pl_mode plan") (simp_all add: scanValue_def scan_map_def scan_scalar_def scan_struct_def)

lemma new_item_row: "sn_row r = Some v \<Longrightarrow> new_item L tr r = row_item L tr v"
  unfolding row_item_def new_item_def by (subst scanValue_row) simp_all

lemma next_row:
  "sn_rest r = v # vs \<Longrightarrow> Scanner_Next r = (True, r\<lparr>sn_row := Some v, sn_rest := vs\<rparr>)"
  "sn_rest r = [] \<Longrightarrow> Scanner_Next r = (False, r\<lparr>sn_row := None, sn_err := sn_end r\<rparr>)"
  by (simp_all add: Scanner_Next_def)

lemma next_item:
  "sn_rest r = v # vs \<Longrightarrow>
     typedReader_next L tr r = (bind_outcome (row_item L tr v) (\<lambda>x. Ok (Some x)), r\<lparr>sn_row := Some v, sn_rest := vs\<rparr>)"
  "sn_rest r = [] \<Longrightarrow>
     typedReader_next L tr r = ((case sn_end r of Some e \<Rightarrow> Err e | None \<Rightarrow> Ok None), r\<lparr>sn_row := None, sn_err := sn_end r\<rparr>)"
  using new_item_row by (simp_all add: typedReader_next_def next_row)

definition within :: "scanConfig \<Rightarrow> 'a list \<Rightarrow> bool" where
  "within cfg out \<longleftrightarrow> sc_maxRows cfg \<le> 0 \<or> int (length out) \<le> sc_maxRows cfg"

text \<open>Reading everything: every row converts, no error ends the rows.\<close>

definition reads :: "struct_lib \<Rightarrow> typedReader \<Rightarrow> RowsScanner \<Rightarrow> sval list \<Rightarrow> bool" where
  "reads L tr r xs \<longleftrightarrow> sn_end r = None \<and> convert_all (row_item L tr) (sn_rest r) = Ok xs"

lemma reads_Nil: "sn_rest r = [] \<Longrightarrow> reads L tr r xs \<longleftrightarrow> sn_end r = None \<and> xs = []"
  by (auto simp: reads_def)

lemma reads_Cons:
  "sn_rest r = v # vs \<Longrightarrow>
     reads L tr r xs \<longleftrightarrow> (\<exists>y ys. row_item L tr v = Ok y \<and> xs = y # ys \<and> reads L tr (r\<lparr>sn_row := Some v, sn_rest := vs\<rparr>) ys)"
  by (auto simp: reads_def outcome_simps)

lemma within_snoc: "within cfg (out @ y # ys) \<Longrightarrow> within cfg (out @ [y])"
  by (auto simp: within_def)

lemma all_loop:
  "within cfg out \<Longrightarrow>
     fst (scan_all_loop L cfg tr out r) = Ok res \<longleftrightarrow> (\<exists>xs. reads L tr r xs \<and> res = out @ xs) \<and> within cfg res"
proof (induction "sn_rest r" arbitrary: r out)
  case Nil
  then show ?case
    by (subst scan_all_loop.simps) (auto simp: next_item reads_Nil split: option.splits)
next
  case (Cons v vs)
  let ?r = "r\<lparr>sn_row := Some v, sn_rest := vs\<rparr>"
  note rest = Cons.hyps(2) [symmetric]
  show ?case
  proof (cases "row_item L tr v")
    case (Ok y)
    show ?thesis
    proof (cases "within cfg (out @ [y])")
      case True
      have "fst (scan_all_loop L cfg tr out r) = fst (scan_all_loop L cfg tr (out @ [y]) ?r)"
        using True Ok by (subst scan_all_loop.simps) (auto simp: next_item(1) [OF rest] within_def)
      with Cons.hyps(1) [of ?r, OF _ True] Ok show ?thesis by (auto simp: reads_Cons [OF rest])
    next
      case False
      then have "fst (scan_all_loop L cfg tr out r) = Err (tooManyRowsError (sc_maxRows cfg))"
        using Ok by (subst scan_all_loop.simps) (auto simp: next_item(1) [OF rest] within_def)
      with False Ok within_snoc [of cfg out y] show ?thesis by (auto simp: reads_Cons [OF rest])
    qed
  qed (subst scan_all_loop.simps; auto simp: next_item(1) [OF rest] reads_Cons [OF rest])+
qed

lemma rows_loop:
  "within cfg out \<Longrightarrow>
     fst (scan_rows_loop L cfg tr (int (length out)) out r) = Ok res \<longleftrightarrow> (\<exists>xs. reads L tr r xs \<and> res = out @ xs) \<and> within cfg res"
proof (induction "sn_rest r" arbitrary: r out)
  case Nil
  then show ?case
    by (subst scan_rows_loop.simps) (auto simp: next_row reads_Nil split: option.splits)
next
  case (Cons v vs)
  let ?r = "r\<lparr>sn_row := Some v, sn_rest := vs\<rparr>"
  note rest = Cons.hyps(2) [symmetric]
  have item: "new_item L tr ?r = row_item L tr v" by (rule new_item_row) simp
  show ?case
  proof (cases "within cfg (out @ [undefined])")
    case True
    then have w: "within cfg (out @ [y])" for y by (simp add: within_def)
    show ?thesis
    proof (cases "row_item L tr v")
      case (Ok y)
      have "fst (scan_rows_loop L cfg tr (int (length out)) out r) = fst (scan_rows_loop L cfg tr (int (length (out @ [y]))) (out @ [y]) ?r)"
        using True Ok item by (subst scan_rows_loop.simps) (auto simp: next_row(1) [OF rest] within_def add.commute)
      with Cons.hyps(1) [of ?r, OF _ w] Ok show ?thesis by (auto simp: reads_Cons [OF rest])
    qed (use True item in \<open>subst scan_rows_loop.simps; auto simp: next_row(1) [OF rest] reads_Cons [OF rest] within_def\<close>)+
  next
    case False
    then have "fst (scan_rows_loop L cfg tr (int (length out)) out r) = Err (tooManyRowsError (sc_maxRows cfg))"
      by (subst scan_rows_loop.simps) (auto simp: next_row(1) [OF rest] within_def)
    with False show ?thesis by (auto simp: reads_Cons [OF rest] within_def)
  qed
qed

text \<open>Collecting the elements one by one, as a caller of \<^verbatim>\<open>ScanEach\<close> and of a cursor would.\<close>

definition collect :: "sval \<Rightarrow> sval list \<Rightarrow> gerr option \<times> sval list" where
  "collect x acc = (None, acc @ [x])"

lemma each_loop:
  "(\<exists>r'. scan_each_loop L collect tr out r = (Ok (), res, r')) \<longleftrightarrow> (\<exists>xs. reads L tr r xs \<and> res = out @ xs)"
proof (induction "sn_rest r" arbitrary: r out)
  case Nil
  then show ?case
    by (subst scan_each_loop.simps) (auto simp: next_item reads_Nil split: option.splits)
next
  case (Cons v vs)
  let ?r = "r\<lparr>sn_row := Some v, sn_rest := vs\<rparr>"
  note rest = Cons.hyps(2) [symmetric]
  show ?case
  proof (cases "row_item L tr v")
    case (Ok y)
    then have "scan_each_loop L collect tr out r = scan_each_loop L collect tr (out @ [y]) ?r"
      by (subst scan_each_loop.simps) (simp add: next_item(1) [OF rest] collect_def)
    with Cons.hyps(1) [of ?r "out @ [y]"] Ok show ?thesis by (auto simp: reads_Cons [OF rest])
  qed (subst scan_each_loop.simps; auto simp: next_item(1) [OF rest] reads_Cons [OF rest])+
qed

primrec cursor_drain :: "struct_lib \<Rightarrow> nat \<Rightarrow> Cursor \<Rightarrow> (sval list \<times> gerr option) outcome" where
  "cursor_drain L 0 c = Ok ([], Cursor_Err c)"
| "cursor_drain L (Suc n) c =
     (case Cursor_Next L c of
        (Ok True, c') \<Rightarrow> bind_outcome (cursor_drain L n c') (\<lambda>(xs, e). Ok (the (Cursor_Value c') # xs, e))
      | (Ok False, c') \<Rightarrow> Ok ([], Cursor_Err c')
      | (Err e, c') \<Rightarrow> Err e
      | (Panic m, c') \<Rightarrow> Panic m)"

lemma drained:
  "cu_err c = None \<Longrightarrow> length (sn_rest (cu_rows c)) < n \<Longrightarrow>
     cursor_drain L n c = Ok (xs, None) \<longleftrightarrow> reads L (cu_reader c) (cu_rows c) xs"
proof (induction "sn_rest (cu_rows c)" arbitrary: c xs n)
  case Nil
  then show ?case
    by (cases n) (auto simp: Cursor_Next_def next_item reads_Nil Cursor_Err_def split: option.splits)
next
  case (Cons v vs)
  note rest = Cons.hyps(2) [symmetric]
  let ?r = "(cu_rows c)\<lparr>sn_row := Some v, sn_rest := vs\<rparr>"
  from Cons.prems(2) obtain m where n: "n = Suc m" "length vs < m" by (cases n) (auto simp: rest)
  show ?case
  proof (cases "row_item L (cu_reader c) v")
    case (Ok y)
    let ?c = "c\<lparr>cu_value := Some y, cu_rows := ?r\<rparr>"
    have "Cursor_Next L c = (Ok True, ?c)" using Cons.prems(1) Ok by (simp add: Cursor_Next_def next_item(1) [OF rest])
    then have d: "cursor_drain L n c = bind_outcome (cursor_drain L m ?c) (\<lambda>(xs, e). Ok (y # xs, e))"
      by (simp add: n Cursor_Value_def)
    have "cursor_drain L m ?c = Ok (ys, None) \<longleftrightarrow> reads L (cu_reader c) ?r ys" for ys
      using Cons.hyps(1) [of ?c m ys] Cons.prems(1) n by simp
    then show ?thesis unfolding d using Ok by (auto simp: outcome_simps reads_Cons [OF rest])
  qed (use Cons.prems(1) n in \<open>auto simp: Cursor_Next_def next_item(1) [OF rest] reads_Cons [OF rest] Cursor_Err_def\<close>)
qed

text \<open>
  C14. \<^verbatim>\<open>ScanAll\<close> is exact, and the other ways to read all rows agree with it: it gives a list just when the reader for the
  type can be made, every row converts to the element in its place, no error ends the rows and the list is within the limit;
  \<^verbatim>\<open>ScanRows\<close> then puts that list into the slice, and \<^verbatim>\<open>ScanEach\<close> and a cursor, which know no limit, meet the same elements.
\<close>

theorem all_rows_agree:
  "(fst (ScanAll L opts T r cache) = Ok xs
      \<longleftrightarrow> (\<exists>tr. fst (newTypedReader (st_dsn L) r (newScanConfig opts) T cache) = Ok tr \<and> reads L tr r xs) \<and> within (newScanConfig opts) xs)
   \<and> (fst (ScanAll L opts T r cache) = Ok xs
      \<longleftrightarrow> (\<exists>s. ScanRows L opts (DPtr (SliceOf T old)) r cache = (DPtr (SliceOf T xs), Ok (), s)))
   \<and> (fst (ScanAll L opts T r cache) = Ok xs
      \<longleftrightarrow> (\<exists>s. ScanEach L opts T collect [] r cache = (Ok (), xs, s)) \<and> within (newScanConfig opts) xs)
   \<and> (fst (ScanAll L opts T r cache) = Ok xs
      \<longleftrightarrow> (\<exists>c. fst (NewCursor L opts T r cache) = Ok c \<and> cursor_drain L (Suc (length (sn_rest r))) c = Ok (xs, None)) \<and> within (newScanConfig opts) xs)"
proof -
  let ?cfg = "newScanConfig opts"
  have w: "within ?cfg []" by (simp add: within_def) linarith
  obtain res cache' where n: "newTypedReader (st_dsn L) r ?cfg T cache = (res, cache')" by fastforce
  show ?thesis
  proof (cases res)
    case (Ok tr)
    let ?c = "\<lparr>cu_reader = tr, cu_rows = r, cu_value = None, cu_err = None\<rparr>"
    have "fst (ScanAll L opts T r cache) = fst (scan_all_loop L ?cfg tr [] r)"
      by (simp add: ScanAll_def n Ok split: prod.splits)
    then have a: "fst (ScanAll L opts T r cache) = Ok xs \<longleftrightarrow> reads L tr r xs \<and> within ?cfg xs"
      using all_loop [OF w] by simp
    have "(\<exists>s. ScanRows L opts (DPtr (SliceOf T old)) r cache = (DPtr (SliceOf T xs), Ok (), s)) \<longleftrightarrow> fst (scan_rows_loop L ?cfg tr 0 [] r) = Ok xs"
      by (simp add: ScanRows_def n Ok split: prod.splits outcome.splits)
    then have b: "(\<exists>s. ScanRows L opts (DPtr (SliceOf T old)) r cache = (DPtr (SliceOf T xs), Ok (), s)) \<longleftrightarrow> reads L tr r xs \<and> within ?cfg xs"
      using rows_loop [OF w, of L tr r xs] by simp
    have c: "(\<exists>s. ScanEach L opts T collect [] r cache = (Ok (), xs, s)) \<longleftrightarrow> reads L tr r xs"
      using each_loop [of L tr "[]" r xs] by (auto simp: ScanEach_def n Ok split: prod.splits)
    have "fst (NewCursor L opts T r cache) = Ok ?c" by (simp add: NewCursor_def n Ok)
    then have "(\<exists>c. fst (NewCursor L opts T r cache) = Ok c \<and> cursor_drain L (Suc (length (sn_rest r))) c = Ok (xs, None)) \<longleftrightarrow> reads L tr r xs"
      using drained [of ?c "Suc (length (sn_rest r))" L xs] by (simp del: cursor_drain.simps)
    with a b c n Ok show ?thesis by (simp del: cursor_drain.simps)
  qed (simp_all add: ScanAll_def ScanRows_def ScanEach_def NewCursor_def n)
qed

section \<open>Columns and fields\<close>

lemma bind_one_column_field:
  "bind_one_column cfg sm ct col = Ok b \<Longrightarrow> fst b = structMap_lookup sm col \<and> (fst b = None \<longrightarrow> sc_laxColumns cfg \<and> snd b = None)"
  by (auto simp: bind_one_column_def split: option.splits if_splits)

lemma bind_all_columns_fields:
  "bind_all_columns cfg sm cts seen i cols = Ok bs \<Longrightarrow>
     map fst bs = map (structMap_lookup sm) cols \<and> distinct (map ToLower cols) \<and> set (map ToLower cols) \<inter> set seen = {}
     \<and> list_all (\<lambda>b. fst b = None \<longrightarrow> sc_laxColumns cfg \<and> snd b = None) bs"
proof (induction cols arbitrary: seen i bs)
  case (Cons col cols)
  then show ?case by (fastforce simp: outcome_simps dest: bind_one_column_field split: if_splits)
qed simp

lemma matched_iff: "matched bound f \<longleftrightarrow> (\<exists>g. Some g \<in> set bound \<and> ToLower (fi_name g) = ToLower (fi_name f))"
  by (induction bound) (auto simp: matched_def split: option.splits)

text \<open>What a plan for a struct binds.\<close>

definition bound_fields :: "scanPlan \<Rightarrow> fieldInfo list" where
  "bound_fields plan = [f. Some f \<leftarrow> pl_fields plan]"

definition bindings :: "scanPlan \<Rightarrow> binding list" where
  "bindings plan = zip (pl_fields plan) (pl_timeOpts plan)"

lemma newScanPlan_struct:
  assumes ok: "cache_ok dl cache" and new: "newScanPlan dl r cfg cols (SStruct fs) cache = (Ok plan, cache')"
  obtains sm bs where "fresh_structMap cfg dl fs = Ok sm" and "cache_ok dl cache'"
    and "bind_all_columns cfg sm (columnTypesOf r) [] 0 cols = Ok bs"
    and "sc_laxFields cfg \<or> list_all (matched (map fst bs)) (sm_fields sm)"
    and "plan = \<lparr>pl_cfg = cfg, pl_cols = cols, pl_mode = planStruct, pl_fields = map fst bs, pl_timeOpts = map snd bs,
           pl_hasTimeOpts = list_ex (\<lambda>b. snd b \<noteq> None) bs\<rparr>"
proof -
  obtain res c where s: "structMapOf cfg dl fs cache = (res, c)" by fastforce
  from structMapOf_cached [OF ok s] have res: "res = fresh_structMap cfg dl fs" "cache_ok dl c" by auto
  from new s have "c = cache'" and "\<exists>sm bs. res = Ok sm \<and> bind_all_columns cfg sm (columnTypesOf r) [] 0 cols = Ok bs
      \<and> (sc_laxFields cfg \<or> list_all (matched (map fst bs)) (sm_fields sm))
      \<and> plan = \<lparr>pl_cfg = cfg, pl_cols = cols, pl_mode = planStruct, pl_fields = map fst bs, pl_timeOpts = map snd bs,
           pl_hasTimeOpts = list_ex (\<lambda>b. snd b \<noteq> None) bs\<rparr>"
    by (auto simp: newScanPlan_def bindStruct_def Let_def outcome_simps split: option.splits if_splits)
  with res that show ?thesis by metis
qed

lemma lookup_bound:
  assumes "names_ok sm" and "map fst bs = map (structMap_lookup sm) cols" and "i < length cols" and "map fst bs ! i = Some g"
  shows "g \<in> set (sm_fields sm) \<and> ToLower (fi_name g) = ToLower (cols ! i)"
  using assms(2-4) lookup_exact [OF assms(1)] by simp

lemma bound_distinct:
  assumes "names_ok sm" and "distinct (map ToLower cols)" and "distinct (map fi_index (sm_fields sm))"
  shows "distinct (map fi_index [f. Some f \<leftarrow> map (structMap_lookup sm) cols])
    \<and> set [f. Some f \<leftarrow> map (structMap_lookup sm) cols] \<subseteq> {f \<in> set (sm_fields sm). ToLower (fi_name f) \<in> ToLower ` set cols}"
  using assms(2)
proof (induction cols)
  case (Cons col cols)
  show ?case
  proof (cases "structMap_lookup sm col")
    case (Some f)
    with lookup_exact [OF assms(1)] have f: "f \<in> set (sm_fields sm)" "ToLower (fi_name f) = ToLower col" by auto
    have "fi_index f \<noteq> fi_index g" if "g \<in> set [f. Some f \<leftarrow> map (structMap_lookup sm) cols]" for g
    proof
      assume "fi_index f = fi_index g"
      moreover from that Cons have "g \<in> set (sm_fields sm)" "ToLower (fi_name g) \<in> ToLower ` set cols" by auto
      ultimately have "f = g" using f(1) assms(3) by (metis distinct_map inj_onD)
      with f(2) Cons.prems \<open>ToLower (fi_name g) \<in> ToLower ` set cols\<close> show False by auto
    qed
    with Some f Cons show ?thesis by auto
  qed (use Cons in auto)
qed simp

text \<open>
  C26. A plan for a struct binds columns to fields by their names: no two columns have the same name, capitals apart; each
  column has the field of its name, an exported scalar field of the struct, or none if columns may be left over; different
  columns have different fields; and every mapped field has a column, unless fields may be left over.
\<close>

theorem plan_binds_by_name:
  assumes "cache_ok dl cache" and "newScanPlan dl r cfg cols (SStruct fs) cache = (Ok plan, cache')"
  shows "distinct (map ToLower cols) \<and> length (pl_fields plan) = length cols \<and> length (pl_timeOpts plan) = length cols
    \<and> (\<forall>i < length cols.
         case pl_fields plan ! i of
           Some g \<Rightarrow> mapped_field fs g \<and> ToLower (fi_name g) = ToLower (cols ! i)
         | None \<Rightarrow> sc_laxColumns cfg)
    \<and> distinct (map fi_index (bound_fields plan))
    \<and> (\<exists>sm. fresh_structMap cfg dl fs = Ok sm \<and> (sc_laxFields cfg \<or> set (sm_fields sm) = set (bound_fields plan)))"
proof -
  from newScanPlan_struct [OF assms] obtain sm bs where
    p: "fresh_structMap cfg dl fs = Ok sm" "cache_ok dl cache'" "bind_all_columns cfg sm (columnTypesOf r) [] 0 cols = Ok bs"
      "sc_laxFields cfg \<or> list_all (matched (map fst bs)) (sm_fields sm)"
      "plan = \<lparr>pl_cfg = cfg, pl_cols = cols, pl_mode = planStruct, pl_fields = map fst bs, pl_timeOpts = map snd bs,
         pl_hasTimeOpts = list_ex (\<lambda>b. snd b \<noteq> None) bs\<rparr>" by blast
  note sound = fresh_sound [OF p(1)]
  from bind_all_columns_fields [OF p(3)] have b: "map fst bs = map (structMap_lookup sm) cols" "distinct (map ToLower cols)"
    "list_all (\<lambda>b. fst b = None \<longrightarrow> sc_laxColumns cfg \<and> snd b = None) bs" by simp_all
  have len: "length bs = length cols" using arg_cong [OF b(1), of length] by simp
  have each: "case pl_fields plan ! i of Some g \<Rightarrow> mapped_field fs g \<and> ToLower (fi_name g) = ToLower (cols ! i) | None \<Rightarrow> sc_laxColumns cfg"
    if "i < length cols" for i
    using that lookup_bound [OF sound(1) b(1) that] sound(4) [unfolded list_all_iff] b(3) len by (auto simp: p(5) list_all_length split: option.splits)
  have bf: "bound_fields plan = [f. Some f \<leftarrow> map (structMap_lookup sm) cols]" by (simp add: bound_fields_def p(5) b(1))
  note bd = bound_distinct [OF sound(1) b(2) sound(3)]
  have "set (sm_fields sm) \<subseteq> set (bound_fields plan)" if "list_all (matched (map fst bs)) (sm_fields sm)"
  proof
    fix g assume g: "g \<in> set (sm_fields sm)"
    with that obtain f where f: "Some f \<in> set (map fst bs)" "ToLower (fi_name f) = ToLower (fi_name g)"
      unfolding list_all_iff matched_iff by blast
    then have "f \<in> set (bound_fields plan)" by (force simp: bound_fields_def p(5))
    moreover from this bd bf have "f \<in> set (sm_fields sm)" by auto
    ultimately show "g \<in> set (bound_fields plan)"
      using g f(2) sound(1) lookup_exact [OF sound(1), of "fi_name g"] by (metis option.inject)
  qed
  with p(1,4) bd bf have "\<exists>sm. fresh_structMap cfg dl fs = Ok sm \<and> (sc_laxFields cfg \<or> set (sm_fields sm) = set (bound_fields plan))"
    by (intro exI [of _ sm]) auto
  with each len b(2) bd bf show ?thesis by (simp add: p(5))
qed

section \<open>A row into a struct\<close>

text \<open>Two places of which neither lies below the other.\<close>

fun apart :: "nat list \<Rightarrow> nat list \<Rightarrow> bool" where
  "apart (i # p) (j # q) = (i \<noteq> j \<or> apart p q)"
| "apart p q = False"

lemma apart_sym: "apart p q \<longleftrightarrow> apart q p"
  by (induction p q rule: apart.induct) auto

lemma leaves_apart:
  "field_at fs p = Some f \<Longrightarrow> field_at fs q = Some g \<Longrightarrow> \<not> isNestedStruct (sf_type f) \<Longrightarrow> \<not> isNestedStruct (sf_type g) \<Longrightarrow> p \<noteq> q \<Longrightarrow> apart p q"
proof (induction fs p arbitrary: q rule: field_at.induct)
  case (2 fs i)
  then show ?case
    by (cases "(fs, q)" rule: field_at.cases) (auto simp: isNestedStruct_def split: if_splits stype.splits)
next
  case (3 fs i j p)
  then obtain gs where gs: "i < length fs" "sf_type (fs ! i) = SStruct gs" "field_at gs (j # p) = Some f"
    by (auto split: if_splits stype.splits)
  show ?case
  proof (cases q)
    case (Cons k q')
    show ?thesis
    proof (cases "k = i \<and> q' \<noteq> []")
      case True
      with "3.prems"(2) gs Cons have "field_at gs q' = Some g" by (cases q') auto
      with "3.IH" [OF gs(1,2,3), of q'] "3.prems" Cons True show ?thesis by simp
    next
      case False
      with "3.prems"(2,4) gs Cons show ?thesis by (cases q') (auto simp: isNestedStruct_def)
    qed
  qed (use "3.prems" in simp)
qed simp

lemma get_set_same: "get_path p v \<noteq> None \<Longrightarrow> get_path p (set_path p w v) = Some (SvLeaf w)"
  by (induction p w v rule: set_path.induct) (auto split: if_splits)

lemma get_set_apart: "apart p q \<Longrightarrow> get_path q (set_path p w v) = get_path q v"
proof (induction p w v arbitrary: q rule: set_path.induct)
  case (2 i p w vs)
  then show ?case by (cases q) (auto simp: nth_list_update)
qed (auto, (metis apart.simps get_path.simps(3) list.exhaust)?)

definition set_paths :: "(nat list \<times> gv) list \<Rightarrow> sval \<Rightarrow> sval" where
  "set_paths pws = fold (\<lambda>(p, w). set_path p w) pws"

lemma set_paths_apart: "\<forall>p \<in> set (map fst pws). apart p q \<Longrightarrow> get_path q (set_paths pws v) = get_path q v"
  by (induction pws arbitrary: v) (auto simp: set_paths_def get_set_apart)

lemma set_paths_same:
  assumes "(p, w) \<in> set pws" and "distinct (map fst pws)" and "get_path p v \<noteq> None"
    and "\<And>q. q \<in> set (map fst pws) \<Longrightarrow> q \<noteq> p \<Longrightarrow> apart q p"
  shows "get_path p (set_paths pws v) = Some (SvLeaf w)"
proof -
  from assms(1) obtain xs ys where split: "pws = xs @ (p, w) # ys" by (meson split_list)
  have "apart q p" if "q \<in> set (map fst xs @ map fst ys)" for q
    by (rule assms(4)) (use that assms(2) in \<open>auto simp: split\<close>)
  then have "\<forall>q \<in> set (map fst xs). apart q p" "\<forall>q \<in> set (map fst ys). apart q p" by simp_all
  moreover have "set_paths pws v = set_paths ys (set_path p w (set_paths xs v))" by (simp add: set_paths_def split)
  ultimately show ?thesis using get_set_same [of p "set_paths xs v"] assms(3) by (simp add: set_paths_apart)
qed

text \<open>A value with all the fields of a struct type.\<close>

definition has_fields :: "sfield list \<Rightarrow> sval \<Rightarrow> bool" where
  "has_fields fs v \<longleftrightarrow> (\<forall>p f. field_at fs p = Some f \<longrightarrow> get_path p v \<noteq> None)"

lemma zero_has_fields: "has_fields fs (zero_sval (SStruct fs))"
proof -
  have "get_path p (zero_sval (SStruct fs)) \<noteq> None" if "field_at fs p = Some f" for p f
    using that
  proof (induction fs p arbitrary: f rule: field_at.induct)
    case (3 fs i j p)
    then show ?case by (auto split: if_splits stype.splits)
  qed (auto split: if_splits)
  then show ?thesis by (simp add: has_fields_def)
qed

lemma scan_dests_Ok:
  "scan_dests L ts vs = (ws, Ok ()) \<Longrightarrow> length ts = length vs \<Longrightarrow> list_all2 (\<lambda>(t, v) w. assign_any L t v = Ok w) (zip ts vs) ws"
  by (induction L ts vs arbitrary: ws rule: scan_dests.induct) (auto split: outcome.splits prod.splits)

text \<open>The columns that have a field, with their options and the value read.\<close>

definition bound :: "(binding \<times> gv) list \<Rightarrow> (fieldInfo \<times> timeFieldOpts option \<times> gv) list" where
  "bound bws = [(f, opts, w). ((Some f, opts), w) \<leftarrow> bws]"

definition applied :: "struct_lib \<Rightarrow> scanConfig \<Rightarrow> stype \<Rightarrow> fieldInfo \<times> timeFieldOpts option \<times> gv \<Rightarrow> gv outcome" where
  "applied L cfg t = (\<lambda>(f, opts, w). if via_any opts then time_apply L (the opts) cfg (path_type t (fi_index f)) w else Ok w)"

definition ok_value :: "'a outcome \<Rightarrow> 'a" where
  "ok_value r = (case r of Ok x \<Rightarrow> x | _ \<Rightarrow> undefined)"

definition assigned :: "struct_lib \<Rightarrow> scanConfig \<Rightarrow> stype \<Rightarrow> (fieldInfo \<times> timeFieldOpts option \<times> gv) list \<Rightarrow> (nat list \<times> gv) list" where
  "assigned L cfg t = map (\<lambda>b. (fi_index (fst b), ok_value (applied L cfg t b)))"

lemma stored_direct:
  "fold store_column bws v = set_paths (assigned L cfg t (filter (\<lambda>(f, opts, w). \<not> via_any opts) (bound bws))) v"
  by (induction bws arbitrary: v)
    (auto simp: bound_def store_column_def set_paths_def assigned_def applied_def ok_value_def split: option.splits prod.splits)

lemma stored_times:
  "apply_times L cfg t bws v = (v', Ok ()) \<Longrightarrow>
     v' = set_paths (assigned L cfg t (filter (\<lambda>(f, opts, w). via_any opts) (bound bws))) v \<and> list_all (\<lambda>b. is_ok (applied L cfg t b)) (bound bws)"
  by (induction L cfg t bws v rule: apply_times.induct)
    (auto simp: bound_def set_paths_def assigned_def applied_def ok_value_def via_any_def nil_deref_def split: option.splits if_splits outcome.splits)

lemma no_times: "\<forall>bw \<in> set bws. snd (fst bw) = None \<Longrightarrow> apply_times L cfg t bws v = (v, Ok ())"
  by (induction bws arbitrary: v) auto

lemma distinct_parts: "distinct (map g xs) \<Longrightarrow> distinct (map g (filter P xs @ filter (\<lambda>x. \<not> P x) xs))"
  by (auto simp: distinct_map inj_on_def distinct_filter)

lemma set_paths_append: "set_paths (ps @ qs) v = set_paths qs (set_paths ps v)"
  by (simp add: set_paths_def)

text \<open>The whole of a successful scan: the values assigned, in the order of the two passes over the columns.\<close>

lemma scan_struct_assigns:
  assumes "scan_struct L plan t r v = (v', Ok ())" and "length (pl_timeOpts plan) = length (pl_fields plan)"
    and "pl_hasTimeOpts plan = list_ex (\<lambda>opts. opts \<noteq> None) (pl_timeOpts plan)" and "sn_row r = Some vals"
  obtains ws where "length vals = length (pl_fields plan)"
    and "list_all2 (\<lambda>(b, u) w. assign_any L (column_dest t b) u = Ok w) (zip (bindings plan) vals) ws"
    and "list_all (\<lambda>b. is_ok (applied L (pl_cfg plan) t b)) (bound (zip (bindings plan) ws))"
    and "v' = set_paths (assigned L (pl_cfg plan) t (filter (\<lambda>(f, opts, w). \<not> via_any opts) (bound (zip (bindings plan) ws))
                 @ filter (\<lambda>(f, opts, w). via_any opts) (bound (zip (bindings plan) ws)))) v"
proof -
  obtain ws res where s: "Scanner_Scan L r (map (column_dest t) (bindings plan)) = (ws, res)" by fastforce
  let ?bws = "zip (bindings plan) ws" and ?v = "fold store_column (zip (bindings plan) ws) v"
  from assms(1) s have res: "res = Ok ()" by (auto simp: scan_struct_def bindings_def [symmetric] Let_def split: outcome.splits)
  with s assms(2,4) have sd: "length vals = length (pl_fields plan)" "scan_dests L (map (column_dest t) (bindings plan)) vals = (ws, Ok ())"
    by (auto simp: Scanner_Scan_def bindings_def split: if_splits)
  have len: "length (bindings plan) = length vals" using sd(1) assms(2) by (simp add: bindings_def)
  have ws: "list_all2 (\<lambda>(b, u) w. assign_any L (column_dest t b) u = Ok w) (zip (bindings plan) vals) ws"
    using scan_dests_Ok [OF sd(2)] len by (simp add: list_all2_conv_all_nth)
  have "apply_times L (pl_cfg plan) t ?bws ?v = (v', Ok ())"
  proof (cases "pl_hasTimeOpts plan")
    case False
    then have "\<forall>b \<in> set (bindings plan). snd b = None"
      using assms(3) by (auto simp: bindings_def list_ex_iff dest: set_zip_rightD)
    then have "\<forall>bw \<in> set ?bws. snd (fst bw) = None" using set_zip_leftD by fastforce
    note no_times [OF this]
    with False assms(1) s res show ?thesis by (simp add: scan_struct_def bindings_def [symmetric] Let_def)
  qed (use assms(1) s res in \<open>simp add: scan_struct_def bindings_def [symmetric] Let_def\<close>)
  from stored_times [OF this] stored_direct [of ?bws v L "pl_cfg plan" t] that [OF sd(1) ws] show ?thesis
    by (simp add: assigned_def set_paths_append)
qed

text \<open>
  The value of a column in the field of its name: a field with time options gets it from \<^verbatim>\<open>apply\<close>, unless the column is known
  to be no DATETIME or the field is a wrapper that scans itself; every other field gets it from the rows.
\<close>

definition converted :: "struct_lib \<Rightarrow> scanConfig \<Rightarrow> sfield list \<Rightarrow> gotype option \<Rightarrow> fieldInfo \<Rightarrow> gv \<Rightarrow> gv outcome" where
  "converted L cfg fs ct f u =
     (let ft = path_type (SStruct fs) (fi_index f)
      in case fi_time f of
           Some opt \<Rightarrow> if isConfirmedNonDateTime ct \<or> tf_postProcessOnly opt then assign_any L ft u else time_apply L opt cfg ft u
         | None \<Rightarrow> assign_any L ft u)"

lemma bind_all_columns_nth:
  "bind_all_columns cfg sm cts seen k cols = Ok bs \<Longrightarrow> length bs = length cols \<and>
     (\<forall>i < length cols. bind_one_column cfg sm (column_type cts (k + i)) (cols ! i) = Ok (bs ! i))"
proof (induction cols arbitrary: seen k bs)
  case (Cons col cols)
  then obtain b bs' where b: "bs = b # bs'" "bind_one_column cfg sm (column_type cts k) col = Ok b"
    "bind_all_columns cfg sm cts (ToLower col # seen) (k + 1) cols = Ok bs'" by (auto simp: outcome_simps split: if_splits)
  from Cons.IH [OF b(3)] b(1,2) show ?case by (auto simp: nth_Cons split: nat.splits)
qed simp

lemma bound_value:
  assumes "bind_one_column cfg sm ct col = Ok (Some f, opts)" and "assign_any L (column_dest (SStruct fs) (Some f, opts)) u = Ok w"
    and "applied L cfg (SStruct fs) (f, opts, w) = Ok x"
  shows "converted L cfg fs ct f u = Ok x"
  using assms
  by (auto simp: bind_one_column_def converted_def Let_def column_dest_def applied_def via_any_def assign_any_def
      split: option.splits if_splits)

lemma bound_paths:
  "length ws = length bs \<Longrightarrow> map (fi_index \<circ> fst) (bound (zip bs ws)) = map fi_index [f. Some f \<leftarrow> map fst bs]"
  by (induction bs ws rule: list_induct2') (auto simp: bound_def split: option.splits prod.splits)

lemma in_bound: "i < length bs \<Longrightarrow> length ws = length bs \<Longrightarrow> bs ! i = (Some f, opts) \<Longrightarrow> (f, opts, ws ! i) \<in> set (bound (zip bs ws))"
  by (force simp: bound_def set_zip)

lemma assigned_paths: "map fst (assigned L cfg t xs) = map (fi_index \<circ> fst) xs"
  by (simp add: assigned_def)

lemma in_assigned: "b \<in> set xs \<Longrightarrow> applied L cfg t b = Ok x \<Longrightarrow> (fi_index (fst b), x) \<in> set (assigned L cfg t xs)"
  by (force simp: assigned_def ok_value_def)

lemma in_parts: "set (filter (\<lambda>x. \<not> P x) xs @ filter P xs) = set xs"
  by auto

text \<open>What the fields of a struct hold after its row has been scanned by a plan.\<close>

lemma scan_struct_fields:
  assumes scan: "scan_struct L plan (SStruct fs) r v = (v', Ok ())" and len: "length (pl_timeOpts plan) = length (pl_fields plan)"
    and has: "pl_hasTimeOpts plan = list_ex (\<lambda>opts. opts \<noteq> None) (pl_timeOpts plan)" and row: "sn_row r = Some vals"
    and fields: "list_all (mapped_field fs) (bound_fields plan)" and dist: "distinct (map fi_index (bound_fields plan))"
    and v: "has_fields fs v"
  shows "length vals = length (pl_fields plan)"
    and "\<And>i f opts. i < length (pl_fields plan) \<Longrightarrow> bindings plan ! i = (Some f, opts) \<Longrightarrow>
      \<exists>w x. assign_any L (column_dest (SStruct fs) (Some f, opts)) (vals ! i) = Ok w
        \<and> applied L (pl_cfg plan) (SStruct fs) (f, opts, w) = Ok x \<and> get_path (fi_index f) v' = Some (SvLeaf x)"
    and "\<And>p g. field_at fs p = Some g \<Longrightarrow> \<not> isNestedStruct (sf_type g) \<Longrightarrow> p \<notin> fi_index ` set (bound_fields plan) \<Longrightarrow>
      get_path p v' = get_path p v"
proof -
  let ?bs = "bindings plan" and ?t = "SStruct fs"
  obtain ws where n: "length vals = length (pl_fields plan)"
    and w: "list_all2 (\<lambda>(b, u) w. assign_any L (column_dest ?t b) u = Ok w) (zip ?bs vals) ws"
    and a: "list_all (\<lambda>b. is_ok (applied L (pl_cfg plan) ?t b)) (bound (zip ?bs ws))"
    and v': "v' = set_paths (assigned L (pl_cfg plan) ?t (filter (\<lambda>(f, opts, w). \<not> via_any opts) (bound (zip ?bs ws))
                 @ filter (\<lambda>(f, opts, w). via_any opts) (bound (zip ?bs ws)))) v"
    using scan_struct_assigns [OF scan len has row] by metis
  have lb: "length ?bs = length (pl_fields plan)" "map fst ?bs = pl_fields plan" using len by (simp_all add: bindings_def)
  have lw: "length ws = length ?bs" using list_all2_lengthD [OF w] n lb by simp
  let ?b = "bound (zip ?bs ws)" and ?via = "\<lambda>(f :: fieldInfo, opts, w :: gv). via_any opts"
  define pws where "pws = assigned L (pl_cfg plan) ?t (filter (\<lambda>x. \<not> ?via x) ?b @ filter ?via ?b)"
  have v'': "v' = set_paths pws v" unfolding v' pws_def by (simp add: case_prod_unfold)
  have paths: "map (fi_index \<circ> fst) ?b = map fi_index (bound_fields plan)"
    using bound_paths [OF lw] by (simp add: bound_fields_def lb)
  have d: "distinct (map fst pws)"
    unfolding pws_def assigned_paths using distinct_parts [of "fi_index \<circ> fst" ?b "\<lambda>x. \<not> ?via x"] dist paths by simp
  have "set (map fst pws) = (fi_index \<circ> fst) ` set ?b" unfolding pws_def assigned_paths by auto
  also have "\<dots> = set (map (fi_index \<circ> fst) ?b)" by (rule set_map [symmetric])
  finally have ps: "set (map fst pws) = fi_index ` set (bound_fields plan)" unfolding paths set_map .
  have leaf: "\<exists>g. field_at fs p = Some g \<and> \<not> isNestedStruct (sf_type g)" if "p \<in> fi_index ` set (bound_fields plan)" for p
    using that fields by (auto simp: list_all_iff mapped_field_def split: option.splits)
  show "length vals = length (pl_fields plan)" by (rule n)
  show "get_path p v' = get_path p v"
    if p: "field_at fs p = Some g" "\<not> isNestedStruct (sf_type g)" "p \<notin> fi_index ` set (bound_fields plan)" for p g
  proof -
    have "apart q p" if q: "q \<in> set (map fst pws)" for q
    proof -
      from q ps leaf obtain h where h: "field_at fs q = Some h" "\<not> isNestedStruct (sf_type h)" by blast
      have "q \<noteq> p" using q p(3) ps by metis
      with leaves_apart [OF h(1) p(1) h(2) p(2)] show ?thesis .
    qed
    then show ?thesis unfolding v'' by (intro set_paths_apart) blast
  qed
  show "\<exists>w x. assign_any L (column_dest ?t (Some f, opts)) (vals ! i) = Ok w
      \<and> applied L (pl_cfg plan) ?t (f, opts, w) = Ok x \<and> get_path (fi_index f) v' = Some (SvLeaf x)"
    if i: "i < length (pl_fields plan)" and b: "?bs ! i = (Some f, opts)" for i f opts
  proof -
    have wi: "assign_any L (column_dest ?t (Some f, opts)) (vals ! i) = Ok (ws ! i)"
      using list_all2_nthD [OF w, of i] i b n lb by simp
    have m: "(f, opts, ws ! i) \<in> set ?b" using in_bound [OF _ lw b] i lb by simp
    with a obtain x where x: "applied L (pl_cfg plan) ?t (f, opts, ws ! i) = Ok x" by (auto simp: list_all_iff is_ok_iff)
    have "(fi_index f, x) \<in> set pws"
      using in_assigned [OF _ x, of "filter (\<lambda>x. \<not> ?via x) ?b @ filter ?via ?b"] m unfolding pws_def in_parts by simp
    moreover from this ps have p: "fi_index f \<in> fi_index ` set (bound_fields plan)" by (metis (no_types) fst_conv image_eqI set_map)
    then obtain g where g: "field_at fs (fi_index f) = Some g" "\<not> isNestedStruct (sf_type g)" using leaf by blast
    moreover have "apart q (fi_index f)" if "q \<in> set (map fst pws)" "q \<noteq> fi_index f" for q
    proof -
      from that ps leaf obtain h where "field_at fs q = Some h" "\<not> isNestedStruct (sf_type h)" by blast
      with leaves_apart g that(2) show ?thesis by blast
    qed
    moreover have "get_path (fi_index f) v \<noteq> None" using v g by (auto simp: has_fields_def)
    ultimately have "get_path (fi_index f) v' = Some (SvLeaf x)"
      unfolding v'' using set_paths_same [OF _ d] by blast
    with wi x show ?thesis by blast
  qed
qed

lemma struct_row:
  assumes cache: "cache_ok (st_dsn L) cache" and v: "has_fields fs v"
    and scan: "ScanStruct L opts (DPtr (SStruct fs, v)) r cache = (DPtr (SStruct fs, v'), Ok (), cache')"
  shows "\<exists>sm cols vals. cache_ok (st_dsn L) cache' \<and> fresh_structMap (newScanConfig opts) (st_dsn L) fs = Ok sm \<and> sn_columns r = Ok cols \<and> sn_row r = Some vals
    \<and> length vals = length cols
    \<and> (\<forall>i < length cols. \<forall>f \<in> set (sm_fields sm). ToLower (fi_name f) = ToLower (cols ! i) \<longrightarrow>
         (\<exists>x. converted L (newScanConfig opts) fs (column_type (columnTypesOf r) i) f (vals ! i) = Ok x
            \<and> get_path (fi_index f) v' = Some (SvLeaf x)))
    \<and> (\<forall>p g. field_at fs p = Some g \<and> \<not> isNestedStruct (sf_type g)
         \<and> (\<forall>f \<in> set (sm_fields sm). fi_index f = p \<longrightarrow> ToLower (fi_name f) \<notin> set (map ToLower cols)) \<longrightarrow> get_path p v' = get_path p v)"
proof -
  let ?cfg = "newScanConfig opts" and ?t = "SStruct fs"
  from scan obtain cols plan where cols: "sn_columns r = Ok cols"
    and plan: "newScanPlan (st_dsn L) r ?cfg cols ?t cache = (Ok plan, cache')" and sv: "scanValue L plan ?t r v = (v', Ok ())"
    by (auto simp: ScanStruct_def newRowReader_def split: outcome.splits prod.splits)
  from newScanPlan_struct [OF cache plan] obtain sm bs where ck: "cache_ok (st_dsn L) cache'" and
    sm: "fresh_structMap ?cfg (st_dsn L) fs = Ok sm" and bc: "bind_all_columns ?cfg sm (columnTypesOf r) [] 0 cols = Ok bs"
    and p: "plan = \<lparr>pl_cfg = ?cfg, pl_cols = cols, pl_mode = planStruct, pl_fields = map fst bs, pl_timeOpts = map snd bs,
         pl_hasTimeOpts = list_ex (\<lambda>b. snd b \<noteq> None) bs\<rparr>" by blast
  note sound = fresh_sound [OF sm] and nth = bind_all_columns_nth [OF bc]
  from bind_all_columns_fields [OF bc] have fst: "map fst bs = map (structMap_lookup sm) cols" and dc: "distinct (map ToLower cols)" by simp_all
  have bf: "bound_fields plan = [f. Some f \<leftarrow> map (structMap_lookup sm) cols]" by (simp add: bound_fields_def p fst)
  note bd = bound_distinct [OF sound(1) dc sound(3), folded bf]
  have bb: "bindings plan = bs" by (simp add: bindings_def p zip_map_fst_snd)
  from sv obtain vals where row: "sn_row r = Some vals"
    by (auto simp: scanValue_def scan_struct_def p Scanner_Scan_def Let_def split: option.splits outcome.splits)
  have mf: "list_all (mapped_field fs) (bound_fields plan)" using bd sound(4) by (auto simp: list_all_iff)
  have ss: "scan_struct L plan ?t r v = (v', Ok ())" using sv by (simp add: scanValue_def p)
  have lt: "length (pl_timeOpts plan) = length (pl_fields plan)" and lf: "length (pl_fields plan) = length bs" and pc: "pl_cfg plan = ?cfg"
    and ht: "pl_hasTimeOpts plan = list_ex (\<lambda>opts. opts \<noteq> None) (pl_timeOpts plan)" by (simp_all add: p list_ex_iff)
  note sf = scan_struct_fields [OF ss lt ht row mf _ v, unfolded bb lf pc]
  have n: "length vals = length bs" by (rule sf(1)) (use bd in blast)
  have set: "\<exists>w x. assign_any L (column_dest ?t (Some f, opt)) (vals ! i) = Ok w
        \<and> applied L ?cfg ?t (f, opt, w) = Ok x \<and> get_path (fi_index f) v' = Some (SvLeaf x)"
    if "i < length bs" "bs ! i = (Some f, opt)" for i f opt by (rule sf(2) [OF _ that]) (use bd in blast)
  have keep: "get_path q v' = get_path q v"
    if "field_at fs q = Some g" "\<not> isNestedStruct (sf_type g)" "q \<notin> fi_index ` set (bound_fields plan)" for q g
    by (rule sf(3) [OF _ that]) (use bd in blast)
  have "\<exists>x. converted L ?cfg fs (column_type (columnTypesOf r) i) f (vals ! i) = Ok x \<and> get_path (fi_index f) v' = Some (SvLeaf x)"
    if i: "i < length cols" and f: "f \<in> set (sm_fields sm)" "ToLower (fi_name f) = ToLower (cols ! i)" for i f
  proof -
    have "structMap_lookup sm (cols ! i) = Some f" using lookup_exact [OF sound(1)] f by blast
    then have "fst (bs ! i) = Some f" using fst i nth by (metis nth_map)
    then obtain opt where b: "bs ! i = (Some f, opt)" by (cases "bs ! i") auto
    from nth i b have "bind_one_column ?cfg sm (column_type (columnTypesOf r) i) (cols ! i) = Ok (Some f, opt)" by simp
    with set [of i f opt] b i nth bound_value show ?thesis by metis
  qed
  moreover have "get_path q v' = get_path q v"
    if q: "field_at fs q = Some g" "\<not> isNestedStruct (sf_type g)"
      "\<forall>f \<in> set (sm_fields sm). fi_index f = q \<longrightarrow> ToLower (fi_name f) \<notin> set (map ToLower cols)" for q g
    by (rule keep [OF q(1,2)]) (use q(3) bd in auto)
  ultimately show ?thesis using ck sm cols row n nth
    by (intro exI [of _ sm] exI [of _ cols] exI [of _ vals] conjI allI impI ballI) simp_all
qed

text \<open>
  C13. \<^verbatim>\<open>ScanStruct\<close> of a struct puts each column of the row into the field of its name and changes nothing else: when it
  succeeds, the row has as many values as there are columns, every mapped field named like a column holds the value of that
  column, converted as its type and its time options demand, and every other scalar field is what it was.
\<close>

theorem struct_row_exact:
  assumes cache: "cache_ok (st_dsn L) cache" and v: "has_fields fs v"
    and scan: "ScanStruct L opts (DPtr (SStruct fs, v)) r cache = (DPtr (SStruct fs, v'), Ok (), cache')"
  shows "\<exists>sm cols vals. fresh_structMap (newScanConfig opts) (st_dsn L) fs = Ok sm \<and> sn_columns r = Ok cols \<and> sn_row r = Some vals
    \<and> length vals = length cols
    \<and> (\<forall>i < length cols. \<forall>f \<in> set (sm_fields sm). ToLower (fi_name f) = ToLower (cols ! i) \<longrightarrow>
         (\<exists>x. converted L (newScanConfig opts) fs (column_type (columnTypesOf r) i) f (vals ! i) = Ok x
            \<and> get_path (fi_index f) v' = Some (SvLeaf x)))
    \<and> (\<forall>p g. field_at fs p = Some g \<and> \<not> isNestedStruct (sf_type g)
         \<and> (\<forall>f \<in> set (sm_fields sm). fi_index f = p \<longrightarrow> ToLower (fi_name f) \<notin> set (map ToLower cols)) \<longrightarrow> get_path p v' = get_path p v)"
  using struct_row [OF assms] by blast


definition demo_fields :: "sfield list" where
  "demo_fields =
     [SField ''Id'' True False [(''db'', ''id'')] (SLeaf TInt32), SField ''note'' False False [] (SLeaf TInt32),
      SField ''Val'' True False [(''json'', ''val'')] (SLeaf TFloat64)]"

definition demo_rows :: RowsScanner where
  "demo_rows =
     \<lparr>sn_columns = Ok [''VAL'', ''ID''], sn_columnTypes = Err EOF, sn_rest = [], sn_row = Some [GvPrim (VFloat64 1), GvPrim (VInt32 7)],
      sn_end = None, sn_err = None, sn_closed = False\<rparr>"

definition demo_map :: structMap where
  "demo_map =
     \<lparr>sm_fields = [\<lparr>fi_name = ''id'', fi_index = [0], fi_time = None\<rparr>, \<lparr>fi_name = ''val'', fi_index = [2], fi_time = None\<rparr>],
      sm_byName = [''id'' \<mapsto> 0, ''val'' \<mapsto> 1]\<rparr>"

lemma demo_lower: "ToLower ''id'' = ''id''" "ToLower ''val'' = ''val''" "ToLower ''ID'' = ''id''" "ToLower ''VAL'' = ''val''"
  by code_simp+

lemma demo_tags: "tagName ''id'' = ''id''" "tagName ''val'' = ''val''" "tagOptions ''id'' = []" "tagOptions ''val'' = []"
  by code_simp+

lemma demo_opts: "parseTimeFieldOpts dl [] TInt32 = Ok None" "parseTimeFieldOpts dl [] TFloat64 = Ok None"
proof -
  have p: "option_parts [] = []" by code_simp
  show "parseTimeFieldOpts dl [] TInt32 = Ok None" "parseTimeFieldOpts dl [] TFloat64 = Ok None"
    by (simp_all add: parseTimeFieldOpts_def p elem_type_def eligible_def string_types_def null_time_types_def null_string_types_def)
qed

lemma demo_fresh: "fresh_structMap (newScanConfig []) dl demo_fields = Ok demo_map"
  by (simp add: fresh_structMap_def demo_fields_def newScanConfig_def role_of_def fieldName_def tagOrFieldName_def demo_tags demo_opts
      structMap_add_def empty_structMap_def demo_lower demo_map_def)

definition demo_plan :: scanPlan where
  "demo_plan =
     \<lparr>pl_cfg = newScanConfig [], pl_cols = [''VAL'', ''ID''], pl_mode = planStruct,
      pl_fields = [Some (sm_fields demo_map ! 1), Some (sm_fields demo_map ! 0)], pl_timeOpts = [None, None], pl_hasTimeOpts = False\<rparr>"

definition demo_cache :: structMapCache where
  "demo_cache = [(demo_fields, ''db'', ''json'') \<mapsto> demo_map]"

lemma demo_bound: "newScanPlan dl demo_rows (newScanConfig []) [''VAL'', ''ID''] (SStruct demo_fields) Map.empty = (Ok demo_plan, demo_cache)"
proof -
  have k: "sc_tagKey (newScanConfig []) = ''db''" "sc_fallbackTagKey (newScanConfig []) = ''json''" "sc_nameMapper (newScanConfig []) = None"
    "sc_optErr (newScanConfig []) = None" "\<not> sc_laxFields (newScanConfig [])" by (simp_all add: newScanConfig_def)
  have "structMapOf (newScanConfig []) dl demo_fields Map.empty = (Ok demo_map, demo_cache)"
    by (simp add: structMapOf_def demo_fresh k demo_cache_def)
  moreover have "structMap_lookup demo_map ''VAL'' = Some (sm_fields demo_map ! 1)" "structMap_lookup demo_map ''ID'' = Some (sm_fields demo_map ! 0)"
    by (simp_all add: structMap_lookup_def demo_lower demo_map_def)
  moreover have "fi_time (sm_fields demo_map ! 0) = None" "fi_time (sm_fields demo_map ! 1) = None" by (simp_all add: demo_map_def)
  moreover have "list_all (matched [Some (sm_fields demo_map ! 1), Some (sm_fields demo_map ! 0)]) (sm_fields demo_map)"
    by (simp add: demo_map_def matched_def)
  ultimately show ?thesis
    by (simp add: newScanPlan_def bindStruct_def k bind_one_column_def demo_lower demo_plan_def)
qed

definition demo_value :: sval where
  "demo_value = SvStruct [SvLeaf (GvPrim (VInt32 0)), SvLeaf (GvPrim (VInt32 3)), SvLeaf (GvPrim (VFloat64 0))]"

definition demo_scanned :: sval where
  "demo_scanned = SvStruct [SvLeaf (GvPrim (VInt32 7)), SvLeaf (GvPrim (VInt32 3)), SvLeaf (GvPrim (VFloat64 1))]"

lemma demo_scan:
  "ScanStruct (L\<lparr>st_assign := (\<lambda>v t. Ok v)\<rparr>) [] (DPtr (SStruct demo_fields, demo_value)) demo_rows Map.empty
     = (DPtr (SStruct demo_fields, demo_scanned), Ok (), demo_cache)"
proof -
  let ?L = "L\<lparr>st_assign := (\<lambda>v t. Ok v)\<rparr>"
  have a: "assign_any ?L t u = Ok u" for t u by (simp add: assign_any_def)
  have p: "fi_index (sm_fields demo_map ! 0) = [0]" "fi_index (sm_fields demo_map ! 1) = [2]" by (simp_all add: demo_map_def)
  have "scan_struct ?L demo_plan (SStruct demo_fields) demo_rows demo_value = (demo_scanned, Ok ())"
    using a p by (simp add: scan_struct_def demo_plan_def demo_rows_def Scanner_Scan_def store_column_def via_any_def demo_value_def demo_scanned_def)
  then have "scanValue ?L demo_plan (SStruct demo_fields) demo_rows demo_value = (demo_scanned, Ok ())"
    by (simp add: scanValue_def demo_plan_def)
  moreover have "sn_columns demo_rows = Ok [''VAL'', ''ID'']" by (simp add: demo_rows_def)
  ultimately show ?thesis by (simp add: ScanStruct_def newRowReader_def demo_bound)
qed

lemma demo_has_fields: "has_fields demo_fields demo_value"
proof -
  have "get_path p demo_value \<noteq> None" if "field_at demo_fields p = Some f" for p f
    using that by (cases "(demo_fields, p)" rule: field_at.cases)
      (auto simp: demo_fields_def demo_value_def nth_Cons less_Suc_eq split: if_splits nat.splits stype.splits)
  then show ?thesis by (simp add: has_fields_def)
qed

lemma empty_cache_ok: "cache_ok dl Map.empty"
  by (simp add: cache_ok_def)

theorem plan_binds_by_name_witness: "\<forall>dl :: dsn_lib. distinct (map fi_index (bound_fields demo_plan)) \<and> mapped_field demo_fields (sm_fields demo_map ! 1)"
proof
  fix dl :: dsn_lib
  from plan_binds_by_name [OF empty_cache_ok demo_bound, of dl]
  show "distinct (map fi_index (bound_fields demo_plan)) \<and> mapped_field demo_fields (sm_fields demo_map ! 1)"
    by (auto simp: demo_plan_def dest!: spec [of _ 0])
qed

theorem struct_row_exact_witness:
  "\<forall>L. \<exists>x. converted (L\<lparr>st_assign := (\<lambda>v t. Ok v)\<rparr>) (newScanConfig []) demo_fields None (sm_fields demo_map ! 0) (GvPrim (VInt32 7)) = Ok x
     \<and> get_path [0] demo_scanned = Some (SvLeaf x)"
proof
  fix L :: struct_lib
  let ?L = "L\<lparr>st_assign := (\<lambda>v t. Ok v)\<rparr>"
  from struct_row_exact [OF empty_cache_ok demo_has_fields demo_scan [of L]]
  have m: "\<forall>i < length [''VAL'', ''ID'']. \<forall>f \<in> set (sm_fields demo_map). ToLower (fi_name f) = ToLower ([''VAL'', ''ID''] ! i) \<longrightarrow>
       (\<exists>x. converted ?L (newScanConfig []) demo_fields (column_type (columnTypesOf demo_rows) i) f ([GvPrim (VFloat64 1), GvPrim (VInt32 7)] ! i) = Ok x
          \<and> get_path (fi_index f) demo_scanned = Some (SvLeaf x))"
    by (auto simp: demo_fresh demo_rows_def)
  have "column_type (columnTypesOf demo_rows) 1 = None" by (simp add: column_type_def columnTypesOf_def demo_rows_def)
  with m [rule_format, of 1 "sm_fields demo_map ! 0"]
  show "\<exists>x. converted ?L (newScanConfig []) demo_fields None (sm_fields demo_map ! 0) (GvPrim (VInt32 7)) = Ok x \<and> get_path [0] demo_scanned = Some (SvLeaf x)"
    by (simp add: demo_map_def demo_lower)
qed

section \<open>Named arguments\<close>

lemma field_args_Ok:
  "\<forall>f \<in> set fs. get_path (fi_index f) v \<noteq> None \<Longrightarrow> field_args fs v = Ok (map (\<lambda>f. (fi_name f, the (get_path (fi_index f) v))) fs)"
  by (induction fs) auto

text \<open>
  C15. A row goes into a struct and out of it as named arguments: after \<^verbatim>\<open>ScanStruct\<close> has filled a struct, \<^verbatim>\<open>NamedArgs\<close> of a
  pointer to it, under the same options, gives one argument for each mapped field, under the name of the field, no two names
  equal, and among them for every column that has a field the value that was converted from the column.
\<close>

theorem scan_named_roundtrip:
  assumes cache: "cache_ok (st_dsn L) cache" and v: "has_fields fs v"
    and scan: "ScanStruct L opts (DPtr (SStruct fs, v)) r cache = (DPtr (SStruct fs, v'), Ok (), cache')"
  shows "\<exists>sm cols vals args. fresh_structMap (newScanConfig opts) (st_dsn L) fs = Ok sm \<and> sn_columns r = Ok cols \<and> sn_row r = Some vals
    \<and> fst (NamedArgs (st_dsn L) opts (NsPtr (NsValue (SStruct fs) v')) cache') = Ok args
    \<and> map fst args = map fi_name (sm_fields sm) \<and> distinct (map (ToLower \<circ> fst) args)
    \<and> (\<forall>i < length cols. \<forall>f \<in> set (sm_fields sm). ToLower (fi_name f) = ToLower (cols ! i) \<longrightarrow>
         (\<exists>x. converted L (newScanConfig opts) fs (column_type (columnTypesOf r) i) f (vals ! i) = Ok x \<and> (fi_name f, SvLeaf x) \<in> set args))"
proof -
  let ?cfg = "newScanConfig opts"
  from struct_row [OF assms] obtain sm cols vals where
    ck: "cache_ok (st_dsn L) cache'" and sm: "fresh_structMap ?cfg (st_dsn L) fs = Ok sm" and cols: "sn_columns r = Ok cols" and row: "sn_row r = Some vals"
    and set: "\<forall>i < length cols. \<forall>f \<in> set (sm_fields sm). ToLower (fi_name f) = ToLower (cols ! i) \<longrightarrow>
         (\<exists>x. converted L ?cfg fs (column_type (columnTypesOf r) i) f (vals ! i) = Ok x \<and> get_path (fi_index f) v' = Some (SvLeaf x))"
    and keep: "\<forall>p g. field_at fs p = Some g \<and> \<not> isNestedStruct (sf_type g)
         \<and> (\<forall>f \<in> set (sm_fields sm). fi_index f = p \<longrightarrow> ToLower (fi_name f) \<notin> set (map ToLower cols)) \<longrightarrow> get_path p v' = get_path p v"
    by blast
  note sound = fresh_sound [OF sm]
  have there: "get_path (fi_index f) v' \<noteq> None" if f: "f \<in> set (sm_fields sm)" for f
  proof (cases "ToLower (fi_name f) \<in> set (map ToLower cols)")
    case True
    with set f show ?thesis by (fastforce simp: in_set_conv_nth)
  next
    case False
    from f sound(4) obtain g where g: "field_at fs (fi_index f) = Some g" "\<not> isNestedStruct (sf_type g)"
      by (auto simp: list_all_iff mapped_field_def split: option.splits)
    have "h = f" if "h \<in> set (sm_fields sm)" "fi_index h = fi_index f" for h
      using that f sound(3) by (metis distinct_map inj_onD)
    with keep g False have "get_path (fi_index f) v' = get_path (fi_index f) v" by metis
    with v g show ?thesis by (auto simp: has_fields_def)
  qed
  define args where "args = map (\<lambda>f. (fi_name f, the (get_path (fi_index f) v'))) (sm_fields sm)"
  obtain res c where s: "structMapOf ?cfg (st_dsn L) fs cache' = (res, c)" by fastforce
  with structMapOf_cached [OF ck s] sm have "res = Ok sm" by simp
  with s there have "fst (NamedArgs (st_dsn L) opts (NsPtr (NsValue (SStruct fs) v')) cache') = Ok args"
    by (simp add: NamedArgs_def field_args_Ok args_def)
  moreover have "map fst args = map fi_name (sm_fields sm)" by (simp add: args_def)
  moreover have "distinct (map (ToLower \<circ> fst) args)" using sound(1) by (simp add: args_def names_ok_def lower_names_def comp_def)
  moreover have "(fi_name f, SvLeaf x) \<in> set args" if "f \<in> set (sm_fields sm)" "get_path (fi_index f) v' = Some (SvLeaf x)" for f x
    using that by (force simp: args_def)
  ultimately show ?thesis using sm cols row set
    by (intro exI [of _ sm] exI [of _ cols] exI [of _ vals] exI [of _ args]) blast
qed

theorem scan_named_roundtrip_witness:
  "\<forall>L :: struct_lib. \<exists>args. fst (NamedArgs (st_dsn (L\<lparr>st_assign := (\<lambda>v t. Ok v)\<rparr>)) [] (NsPtr (NsValue (SStruct demo_fields) demo_scanned)) demo_cache) = Ok args
     \<and> map fst args = [''id'', ''val'']"
proof
  fix L :: struct_lib
  from scan_named_roundtrip [OF empty_cache_ok demo_has_fields demo_scan [of L]] obtain sm args where
    "fresh_structMap (newScanConfig []) (st_dsn (L\<lparr>st_assign := (\<lambda>v t. Ok v)\<rparr>)) demo_fields = Ok sm"
    and a: "fst (NamedArgs (st_dsn (L\<lparr>st_assign := (\<lambda>v t. Ok v)\<rparr>)) [] (NsPtr (NsValue (SStruct demo_fields) demo_scanned)) demo_cache) = Ok args"
      "map fst args = map fi_name (sm_fields sm)" by blast
  then have "sm = demo_map" by (simp add: demo_fresh)
  with a have "map fst args = [''id'', ''val'']" by (simp add: demo_map_def)
  with a(1) show "\<exists>args. fst (NamedArgs (st_dsn (L\<lparr>st_assign := (\<lambda>v t. Ok v)\<rparr>)) [] (NsPtr (NsValue (SStruct demo_fields) demo_scanned)) demo_cache) = Ok args
     \<and> map fst args = [''id'', ''val'']"
    by (intro exI [of _ args] conjI)
qed

text \<open>The named arguments of a map come in the order of their names, each with its value.\<close>

lemma map_args_sorted:
  "distinct (map fst m) \<Longrightarrow> sorted (map fst (map_args (SvMap m))) \<and> set (map_args (SvMap m)) = (\<lambda>(k, x). (k, SvLeaf x)) ` set m"
proof
  assume d: "distinct (map fst m)"
  show "sorted (map fst (map_args (SvMap m)))" by (simp add: comp_def)
  have "set (map_args (SvMap m)) = (\<lambda>name. (name, SvLeaf (the (map_of m name)))) ` fst ` set m" by simp
  also have "\<dots> = (\<lambda>(k, x). (k, SvLeaf x)) ` set m" unfolding image_image by (rule image_cong) (auto simp: d)
  finally show "set (map_args (SvMap m)) = (\<lambda>(k, x). (k, SvLeaf x)) ` set m" .
qed

section \<open>Queries\<close>

text \<open>\<^verbatim>\<open>Get\<close> and \<^verbatim>\<open>Select\<close> close the rows of their query, whatever the scan gives.\<close>

lemma queries_close:
  "fst (snd (Get L q query args T cache)) = Some r \<Longrightarrow> sn_closed r"
  "fst (snd (Select L q query args T cache)) = Some r \<Longrightarrow> sn_closed r"
  by (auto simp: Get_def Select_def Scanner_Close_def split: prod.splits outcome.splits)

end
