(* ===== verification/Spec2Isabelle.thy ===== *)
theory Spec2Isabelle
  imports Cursors Dsn Transactions Result_Sets Loader Struct_Rows
begin

text \<open>
  Verification development of the Machbase Neo client for Go (package \<^verbatim>\<open>client\<close> with its packages \<^verbatim>\<open>api\<close> and \<^verbatim>\<open>machnet\<close>).

  \<^bold>\<open>The program.\<close> A \<^verbatim>\<open>database/sql\<close> driver and a bulk loader for the Machbase time series database. From the
  wire up it has these layers:
    \<^item> \<^verbatim>\<open>machnet\<close>: packets and their fragments, marshalled units, the codecs of values, rows, parameters and appended
      rows, authentication, the native connection with its request and response exchanges, and the handles
      (environment, connection, statement) that the driver uses;
    \<^item> \<^verbatim>\<open>api\<close>: the type vocabularies, decimals, numeric arrays, key pairs, conversions of texts and numbers;
    \<^item> the root package: data source names, the driver (connector, connection, statement, result set, transaction) with
      its pool of prepared statements, the conversion of row values into variables, the mapping of rows to structs and of
      structs to named arguments, and the appender.
  A query runs down through the driver, a handle and the connection as one exchange, and its rows come back through the
  fetches of the handle; an appended row is encoded, buffered by the handle and sent in batches without a response.

  \<^bold>\<open>Theories and sources.\<close> Each theory models the file named after it and opens with what it holds.
    \<^item> Shared: \<^verbatim>\<open>Prelude\<close> (bytes, outcomes, sequencing), \<^verbatim>\<open>Go_Strings\<close>, \<^verbatim>\<open>Go_Float\<close>, \<^verbatim>\<open>Go_Encoding\<close>,
      \<^verbatim>\<open>Go_Url\<close> (what the code uses of Go's standard library), \<^verbatim>\<open>Values\<close> (Go values behind \<^verbatim>\<open>any\<close>).
    \<^item> \<^verbatim>\<open>api\<close>: \<^verbatim>\<open>Decimal\<close> (\<^verbatim>\<open>api/decimal.go\<close>, \<^verbatim>\<open>machnet/decimal.go\<close>), \<^verbatim>\<open>Sql_Types\<close> (\<^verbatim>\<open>sqltypes.go\<close>, \<^verbatim>\<open>columntypes.go\<close>, \<^verbatim>\<open>datatypes.go\<close>),
      \<^verbatim>\<open>Api_Array\<close> (\<^verbatim>\<open>array.go\<close>), \<^verbatim>\<open>Keys\<close> (\<^verbatim>\<open>keypair.go\<close>), \<^verbatim>\<open>Api_Conv\<close> (\<^verbatim>\<open>types.go\<close>, and \<^verbatim>\<open>DataTypeOf\<close> and \<^verbatim>\<open>DataType.Apply\<close> of \<^verbatim>\<open>datatypes.go\<close>).
    \<^item> \<^verbatim>\<open>machnet\<close>: \<^verbatim>\<open>Machnet_Types\<close> (\<^verbatim>\<open>types.go\<close>), \<^verbatim>\<open>Packet\<close>, \<^verbatim>\<open>Marshal\<close>, \<^verbatim>\<open>IO\<close> (\<^verbatim>\<open>io_counter.go\<close> and \<^verbatim>\<open>writePacket\<close>), \<^verbatim>\<open>Columns\<close> and \<^verbatim>\<open>Rows\<close>
      (\<^verbatim>\<open>decode.go\<close>), \<^verbatim>\<open>Array_Codec\<close> (\<^verbatim>\<open>array.go\<close>), \<^verbatim>\<open>Bind\<close>, \<^verbatim>\<open>Append_Encode\<close>, \<^verbatim>\<open>Auth\<close>, \<^verbatim>\<open>Stmt_Ids\<close>, \<^verbatim>\<open>Responses\<close> and \<^verbatim>\<open>Client\<close> (\<^verbatim>\<open>client.go\<close>),
      \<^verbatim>\<open>Cli\<close> (\<^verbatim>\<open>cli.go\<close>); \<^verbatim>\<open>Session\<close> and \<^verbatim>\<open>Cursors\<close> prove about connections and handles.
    \<^item> root package: \<^verbatim>\<open>Config\<close> and \<^verbatim>\<open>Dsn\<close> (\<^verbatim>\<open>config.go\<close>), \<^verbatim>\<open>Driver_Values\<close> (\<^verbatim>\<open>util.go\<close>), \<^verbatim>\<open>Column_Types\<close> (\<^verbatim>\<open>types.go\<close>), \<^verbatim>\<open>Driver_Stmt\<close>,
      \<^verbatim>\<open>Driver_Conn\<close> and \<^verbatim>\<open>Driver_Rows\<close> (\<^verbatim>\<open>driver.go\<close>), \<^verbatim>\<open>Scan\<close> (\<^verbatim>\<open>scan.go\<close>), \<^verbatim>\<open>Appender\<close> (\<^verbatim>\<open>appender.go\<close>), \<^verbatim>\<open>Struct_Map\<close> (\<^verbatim>\<open>structmap.go\<close>),
      \<^verbatim>\<open>Struct_Scan\<close> (\<^verbatim>\<open>scanstruct.go\<close>, \<^verbatim>\<open>named.go\<close>); \<^verbatim>\<open>Driver_Pool\<close>, \<^verbatim>\<open>Transactions\<close> (with \<^verbatim>\<open>tx.go\<close>), \<^verbatim>\<open>Result_Sets\<close>, \<^verbatim>\<open>Loader\<close>, \<^verbatim>\<open>Struct_Fields\<close>
      (also about \<^verbatim>\<open>Api_Conv\<close>) and \<^verbatim>\<open>Struct_Rows\<close> prove about them.

  \<^bold>\<open>How the code is modelled.\<close> A Go struct is a record whose fields carry a prefix, a method a function that takes the
  receiver and returns it updated. A Go error is \<open>Err\<close>, a panic \<open>Panic\<close> of the type \<open>outcome\<close>; the text of an error keeps its fixed
  part, and errors that are joined or wrapped keep the first. Machine integers are words of their width, \<^verbatim>\<open>int\<close> is
  64 bits wide where it may wrap. A value behind \<^verbatim>\<open>any\<close> is of a datatype with a constructor for each
  dynamic type the code distinguishes; floats are their bits.
    \<^item> The socket is a reader of the bytes the peer will send, in any segmentation, and a list of the bytes
      written; \<open>nc_later\<close> holds what the peer sends later. What a dial returns is a parameter.
    \<^item> A context is its state at the time of an operation (live, with or without a deadline, expired or cancelled before or
      while waiting), one for each operation. Mutexes are held for whole operations, so an operation is a step.
    \<^item> The pool of a driver connection is an association list, whose order stands for the arbitrary order of a Go map.
      Statements, result sets and connections are passed as values with one owner each.
    \<^item> What the code learns by reflection is data: a struct type is the list of its fields with their tags, a struct value the
      list of its values, and a field is addressed by its path of field numbers. The cache of struct maps, a variable of the package,
      is passed along. A time is its instant in 64-bit nanoseconds and has no zone.
    \<^item> Parameters stand for code that is not in the repository or not deterministic: number and time formatting and parsing
      (\<open>golib\<close>, \<open>scan_lib\<close>, \<open>conv_lib\<close>), the conversion that an implementation of \<^verbatim>\<open>RowsScanner\<close> makes (\<open>struct_lib\<close>),
      cryptography, PEM and DER (\<open>crypto_lib\<close>, \<open>key_lib\<close>), files (\<open>file_lib\<close>), time zones and map order
      (\<open>dsn_lib\<close>). A hypothesis about one of them is named and has a witness with a concrete instance.
    \<^item> Case mapping and folding are those of ASCII.

  \<^bold>\<open>What is shown.\<close>
    \<^item> Wire: fragments are reassembled, marshalled units come back in order, the unit reader ends on every body, decimals,
      arrays, parameters and rows read back, every field is decoded from its place, and no input of a server
      makes the row and array decoders panic.
    \<^item> Connection: a session over a healthy socket refines an abstract channel of requests and replies; an
      invariant over all operations; which failures retire the connection; ids are exclusive; in challenge mode the
      password is never sent.
    \<^item> Handles: a cursor delivers every row once and then the end; an append refines a log, and every row is accounted for.
    \<^item> Driver: the statement pool is sound in every reachable state and hands out only statements prepared for the query
      under the current catalog; transactions end and sessions are handed on clean; result sets deliver every row
      converted; named parameters are matched exactly; the appender refines a log through all layers.
    \<^item> Configuration and values: data source names read back, a validated configuration is complete, key pairs are usable,
      scanned integers keep their value, NULL wrappers unbox to what a plain variable would hold; integer texts and epoch times
      survive the conversions of the column types.
    \<^item> Structs: the map of a struct type names every mapped field once, and its cache is transparent; a row goes into the fields
      named like its columns and nowhere else, and comes out of them as named arguments; all ways to read a whole
      result agree.
  Interfaces are locales, each interpreted on the definitions of the model: a writer that accepts bytes in order (the counting
  and the buffered writer below the write loop), the allocator of statement ids that connections and handles rely on, and
  the simulation between a concrete and an abstract machine, which carries the sessions, the append and the appender.

  \<^bold>\<open>Bounds and termination.\<close> No definition uses fuel. Loops that read from the socket end because each round takes bytes off
  the stream that is left; those over a pool because it shrinks; nested server values of a data source name because a URL is
  longer than the values in its query; the rest is structural. Theorems about writers assume bodies below \<open>2 ^ 30\<close> bytes, the length field of a
  packet; a unit length that leaves the range of \<^verbatim>\<open>int\<close> panics in the code and in the model.

  \<^bold>\<open>Not modelled.\<close> JSON output of columns; the zone that \<^verbatim>\<open>applyTZ\<close> gives to a scanned time; string types that a program
  defines itself; the \<^verbatim>\<open>Meta\<close> callbacks of a context, the byte metrics of a
  connection and getters that return a field; the pool of \<^verbatim>\<open>sql.DB\<close> itself; the examples. Interleavings inside an
  operation (the watcher of a context against a read) are covered by the state of the context only.
\<close>

end
